(* ===== verification/Prelude.thy ===== *)
theory Prelude
  imports Main "HOL-Library.Multiset" "HOL-Library.List_Lexorder" "HOL-Library.Char_ord" "HOL-Library.Product_Lexorder"
    "HOL-Library.Sublist"
begin

text \<open>
  Shared vocabulary of the development: the closed set of errors the Team runtime raises, the
  result type and its sequencing operator, the list and table primitives that stand for the SQL
  the stores issue (latest row, \<open>COALESCE(MAX(x), 0)\<close>, upsert), decimal rendering of integers
  in f-strings, and the generic lemmas the components use.
\<close>

section \<open>Errors and results\<close>

text \<open>
  One constructor per exception class the modelled operations raise, of \<open>team/_store_types.py\<close>,
  \<open>harness/capability_runtime.py\<close>, \<open>harness/composition.py\<close> and \<open>harness/session_store.py\<close>, with the
  message the source raises it with, and one for each Python or SQLite error an operation can end in.
\<close>

datatype store_error =
    TeamNotFoundError string
  | TeamConcurrencyError string
  | TeamIdempotencyConflictError string
  | TeamIntegrityError string
  | TeamTaskStateError string
  | TeamStaleLeaseError string
  | TeamMailboxError string
  | TeamBlackboardError string
  | CapabilityRuntimeRegistrationError string
  | CapabilityRuntimeResolutionError string
  | CapabilityRuntimeInputError string
  | PackRegistrationError string
  | PackResolutionError string
  | HarnessSessionNotFoundError string
  | HarnessSessionConflictError string
  | HarnessSessionConcurrencyError string
  | HarnessSessionIntegrityError string
  | ValueError string
  | SqlIntegrityError string
  | AssertionError string
  | StopIteration
  | IndexError
  | FaultInjected string

type_synonym 'a result = "store_error + 'a"

definition rbind :: "'e + 'a \<Rightarrow> ('a \<Rightarrow> 'e + 'b) \<Rightarrow> 'e + 'b" where
  "rbind m f = (case m of Inl e \<Rightarrow> Inl e | Inr x \<Rightarrow> f x)"

definition guard :: "bool \<Rightarrow> 'e \<Rightarrow> 'e + unit" where
  "guard ok e = (if ok then Inr () else Inl e)"

fun rmap :: "('a \<Rightarrow> 'e + 'b) \<Rightarrow> 'a list \<Rightarrow> 'e + 'b list" where
  "rmap f [] = Inr []"
| "rmap f (x # xs) = rbind (f x) (\<lambda>y. rbind (rmap f xs) (\<lambda>ys. Inr (y # ys)))"

section \<open>Tables\<close>

text \<open>A table is the list of its rows in insertion order.\<close>

fun latest_from :: "('a \<Rightarrow> int) \<Rightarrow> 'a \<Rightarrow> 'a list \<Rightarrow> 'a" where
  "latest_from key acc [] = acc"
| "latest_from key acc (r # rs) = latest_from key (if key acc < key r then r else acc) rs"

fun latest_by :: "('a \<Rightarrow> int) \<Rightarrow> 'a list \<Rightarrow> 'a option" where
  "latest_by key [] = None"
| "latest_by key (r # rs) = Some (latest_from key r rs)"

fun coalesce_max :: "int list \<Rightarrow> int" where
  "coalesce_max [] = 0"
| "coalesce_max (x # xs) = fold max xs x"

fun upsert :: "('a \<Rightarrow> 'k) \<Rightarrow> 'a \<Rightarrow> 'a list \<Rightarrow> 'a list" where
  "upsert key r [] = [r]"
| "upsert key r (x # xs) = (if key x = key r then r # xs else x # upsert key r xs)"

section \<open>Decimal rendering\<close>

definition digit_char :: "nat \<Rightarrow> char" where
  "digit_char d = char_of (48 + d)"

fun dec_nat :: "nat \<Rightarrow> string" where
  "dec_nat n = (if n < 10 then [digit_char n] else dec_nat (n div 10) @ [digit_char (n mod 10)])"

definition dec :: "int \<Rightarrow> string" where
  "dec i = (if i < 0 then CHR ''-'' # dec_nat (nat (- i)) else dec_nat (nat i))"

declare dec_nat.simps [simp del]

section \<open>Generic lemmas\<close>

named_theorems frame \<open>tables an operation leaves alone\<close>
named_theorems op_defs \<open>definitions of the transaction steps\<close>

lemma rbind_simps [simp]:
  "rbind (Inl e) f = Inl e"
  "rbind (Inr x) f = f x"
  by (simp_all add: rbind_def)

lemma rbind_Inr_iff: "rbind m f = Inr y \<longleftrightarrow> (\<exists>x. m = Inr x \<and> f x = Inr y)"
  by (cases m) auto

lemma rbind_assoc: "rbind (rbind m f) g = rbind m (\<lambda>x. rbind (f x) g)"
  by (cases m) auto

lemma rbind_InrE [elim!]:
  assumes "rbind m f = Inr y"
  obtains x where "m = Inr x" and "f x = Inr y"
  using assms by (auto simp: rbind_Inr_iff)

lemma guard_simps [simp]:
  "guard True e = Inr ()"
  "guard False e = Inl e"
  by (simp_all add: guard_def)

lemma guard_Inr [simp]: "guard ok e = Inr u \<longleftrightarrow> ok"
  by (simp add: guard_def)

lemma guard_Inl [simp]: "guard ok e = Inl e' \<longleftrightarrow> \<not> ok \<and> e' = e"
  by (auto simp: guard_def)

lemma rmap_Inr_iff:
  "rmap f xs = Inr ys \<longleftrightarrow> list_all2 (\<lambda>x y. f x = Inr y) xs ys"
  by (induction xs arbitrary: ys) (auto simp: rbind_Inr_iff list_all2_Cons1)

lemma rmap_length: "rmap f xs = Inr ys \<Longrightarrow> length ys = length xs"
  by (auto simp: rmap_Inr_iff dest: list_all2_lengthD)

lemma rmap_in: "rmap f xs = Inr ys \<Longrightarrow> y \<in> set ys \<Longrightarrow> \<exists>x\<in>set xs. f x = Inr y"
  by (induction xs arbitrary: ys) auto

lemma rmap_cong_Inr: "(\<And>x. x \<in> set xs \<Longrightarrow> f x = Inr (g x)) \<Longrightarrow> rmap f xs = Inr (map g xs)"
  by (induction xs) auto

lemma latest_from_in: "latest_from key acc rs \<in> insert acc (set rs)"
  by (induction rs arbitrary: acc) (auto split: if_splits)

lemma latest_from_max:
  "key acc \<le> key (latest_from key acc rs) \<and> (\<forall>r\<in>set rs. key r \<le> key (latest_from key acc rs))"
proof (induction rs arbitrary: acc)
  case Nil
  then show ?case by simp
next
  case (Cons r rs)
  from Cons.IH [of r] Cons.IH [of acc] show ?case by auto
qed

lemma latest_by_None [simp]: "latest_by key rs = None \<longleftrightarrow> rs = []"
  by (cases rs) auto

lemma latest_by_SomeD:
  "latest_by key rs = Some r \<Longrightarrow> r \<in> set rs \<and> (\<forall>x\<in>set rs. key x \<le> key r)"
  using latest_from_in [of key] latest_from_max [of key]
  by (cases rs) fastforce+

lemma latest_from_append:
  "latest_from key acc (xs @ ys) = latest_from key (latest_from key acc xs) ys"
  by (induction xs arbitrary: acc) auto

lemma latest_by_snoc:
  "(\<And>x. x \<in> set rs \<Longrightarrow> key x < key r) \<Longrightarrow> latest_by key (rs @ [r]) = Some r"
  using latest_from_in [of key] by (cases rs) (force simp: latest_from_append)+

lemma fold_max_ge: "(x::int) \<le> fold max xs x \<and> (\<forall>y\<in>set xs. y \<le> fold max xs x)"
proof (induction xs arbitrary: x)
  case Nil
  then show ?case by simp
next
  case (Cons a xs)
  from Cons.IH [of "max a x"] show ?case by auto
qed

lemma fold_max_in: "fold max xs (x::int) \<in> insert x (set xs)"
proof (induction xs arbitrary: x)
  case Nil
  then show ?case by simp
next
  case (Cons a xs)
  from Cons.IH [of "max a x"] show ?case by (auto simp: max_def split: if_splits)
qed

lemma coalesce_max_ge: "x \<in> set xs \<Longrightarrow> x \<le> coalesce_max xs"
  using fold_max_ge by (cases xs) auto

lemma coalesce_max_in: "xs \<noteq> [] \<Longrightarrow> coalesce_max xs \<in> set xs"
  using fold_max_in by (cases xs) auto

lemma coalesce_max_snoc_greater:
  "(\<And>x. x \<in> set xs \<Longrightarrow> x < y) \<Longrightarrow> 0 < y \<Longrightarrow> coalesce_max (xs @ [y]) = y"
  using coalesce_max_in [of "xs @ [y]"] coalesce_max_ge [of y "xs @ [y]"] by force

lemma coalesce_max_upto: "coalesce_max [1..int n] = int n"
proof (cases n)
  case 0
  then show ?thesis by simp
next
  case (Suc m)
  then have "coalesce_max [1..int n] \<in> set [1..int n]"
    by (intro coalesce_max_in) simp
  moreover have "int n \<le> coalesce_max [1..int n]"
    using Suc by (intro coalesce_max_ge) simp
  ultimately show ?thesis by simp
qed

lemma upsert_find:
  "find (\<lambda>x. key x = k) (upsert key r xs)
     = (if k = key r then Some r else find (\<lambda>x. key x = k) xs)"
  by (induction xs) auto

lemma set_upsert_subset: "set (upsert key r xs) \<subseteq> insert r (set xs)"
  by (induction xs) auto

lemma upsert_in: "r \<in> set (upsert key r xs)"
  by (induction xs) auto

lemma map_key_upsert:
  "map key (upsert key r xs) = (if key r \<in> key ` set xs then map key xs else map key xs @ [key r])"
  by (induction xs) auto

lemma distinct_upsert: "distinct (map key xs) \<Longrightarrow> distinct (map key (upsert key r xs))"
  by (auto simp: map_key_upsert)

lemma find_SomeD: "find P xs = Some x \<Longrightarrow> x \<in> set xs \<and> P x"
  by (induction xs) (auto split: if_splits)

lemma find_append: "find P (xs @ ys) = (case find P xs of None \<Rightarrow> find P ys | Some x \<Rightarrow> Some x)"
  by (induction xs) auto

lemma find_prefix: "prefix xs ys \<Longrightarrow> find P xs = Some x \<Longrightarrow> find P ys = Some x"
  by (auto simp: prefix_def find_append)

lemma find_filter: "find P (filter Q xs) = find (\<lambda>x. Q x \<and> P x) xs"
  by (induction xs) auto

lemma upto_snoc: "[1..int (Suc n)] = [1..int n] @ [int n + 1]"
  by (simp add: upto_rec2)

end
