(* ===== verification/Contracts.thy ===== *)
theory Contracts
  imports Prelude
begin

text \<open>
  The content-addressed base of every Harness record: \<open>contracts/core.py\<close> (object references,
  audits, identifiers) and \<open>harness/contracts.py\<close> (derived identity, reference collection, the
  sorted-unique checks). Python's class inheritance \<open>class X(HarnessObjectV1)\<close> is record
  extension of \<open>harness_object\<close>. SHA-256 over the canonical JSON of a pydantic dump is the field
  \<open>digest\<close> of a \<open>harness_class\<close>, a parameter: a function of the carried payload, that is, of the
  object with its identity and its audit blanked.
\<close>

section \<open>References and audits\<close>

datatype object_ref =
  ObjectRef (ref_type: string) (ref_id: string) (ref_version: string) (ref_sha: string)

definition ref_key :: "object_ref \<Rightarrow> string \<times> string \<times> string \<times> string" where
  "ref_key r = (ref_type r, ref_id r, ref_version r, ref_sha r)"

lemma ref_key_inject: "ref_key r = ref_key s \<longleftrightarrow> r = s"
  by (cases r; cases s) (simp add: ref_key_def)

instantiation object_ref :: linorder
begin

definition less_eq_object_ref :: "object_ref \<Rightarrow> object_ref \<Rightarrow> bool" where
  "r \<le> s \<longleftrightarrow> ref_key r \<le> ref_key s"

definition less_object_ref :: "object_ref \<Rightarrow> object_ref \<Rightarrow> bool" where
  "r < s \<longleftrightarrow> ref_key r < ref_key s"

instance
proof
  fix r s t :: object_ref
  show "r < s \<longleftrightarrow> r \<le> s \<and> \<not> s \<le> r"
    by (auto simp: less_eq_object_ref_def less_object_ref_def)
  show "r \<le> r"
    by (simp add: less_eq_object_ref_def)
  show "r \<le> t" if "r \<le> s" "s \<le> t"
    using that by (simp add: less_eq_object_ref_def)
  show "r = s" if "r \<le> s" "s \<le> r"
    using that by (simp add: less_eq_object_ref_def ref_key_inject [symmetric])
  show "r \<le> s \<or> s \<le> r"
    by (auto simp: less_eq_object_ref_def)
qed

end

datatype version_binding = VersionBinding (vb_component: string) (vb_version: string) (vb_sha256: "string option")

record contract_audit =
  created_at :: int
  created_by :: string
  governing_versions :: "version_binding list"
  input_refs :: "object_ref list"

definition audit_with_refs :: "contract_audit \<Rightarrow> object_ref list \<Rightarrow> contract_audit" where
  "audit_with_refs a refs =
     \<lparr>created_at = created_at a, created_by = created_by a,
      governing_versions = governing_versions a, input_refs = refs\<rparr>"

definition no_audit :: contract_audit where
  "no_audit = \<lparr>created_at = 0, created_by = [], governing_versions = [], input_refs = []\<rparr>"

section \<open>Identifiers and sorted-unique inventories\<close>

definition is_alnum :: "char \<Rightarrow> bool" where
  "is_alnum c \<longleftrightarrow>
     (CHR ''A'' \<le> c \<and> c \<le> CHR ''Z'') \<or> (CHR ''a'' \<le> c \<and> c \<le> CHR ''z'') \<or>
     (CHR ''0'' \<le> c \<and> c \<le> CHR ''9'')"

definition is_identifier_char :: "char \<Rightarrow> bool" where
  "is_identifier_char c \<longleftrightarrow> is_alnum c \<or> c \<in> set ''._:/-''"

definition min_length :: "int \<Rightarrow> 'a list \<Rightarrow> bool" where
  "min_length n xs \<longleftrightarrow> n \<le> int (length xs)"

definition max_length :: "int \<Rightarrow> 'a list \<Rightarrow> bool" where
  "max_length n xs \<longleftrightarrow> int (length xs) \<le> n"

definition is_identifier :: "string \<Rightarrow> bool" where
  "is_identifier s \<longleftrightarrow>
     (case s of [] \<Rightarrow> False
      | c # cs \<Rightarrow> is_alnum c \<and> list_all is_identifier_char cs \<and> min_length 2 cs \<and> max_length 255 cs)"

definition sorted_refs :: "object_ref list \<Rightarrow> object_ref list" where
  "sorted_refs values = sort_key ref_key values"

definition require_sorted_unique :: "string list \<Rightarrow> bool" where
  "require_sorted_unique values \<longleftrightarrow> values = sort values \<and> length values = card (set values)"

definition require_sorted_unique_refs :: "object_ref list \<Rightarrow> bool" where
  "require_sorted_unique_refs values \<longleftrightarrow>
     (let keys = map ref_key values in keys = sort keys \<and> length keys = card (set keys))"

definition require_ref :: "object_ref \<Rightarrow> string \<Rightarrow> bool" where
  "require_ref r ty \<longleftrightarrow> ref_type r = ty \<and> ref_version r = ''v1''"

definition require_opt_ref :: "object_ref option \<Rightarrow> string \<Rightarrow> bool" where
  "require_opt_ref r ty \<longleftrightarrow> (case r of None \<Rightarrow> True | Some x \<Rightarrow> require_ref x ty)"

definition refs_of_type :: "object_ref list \<Rightarrow> string \<Rightarrow> bool" where
  "refs_of_type rs ty \<longleftrightarrow> list_all (\<lambda>r. ref_type r = ty) rs"

definition in_range :: "int \<Rightarrow> int \<Rightarrow> int \<Rightarrow> bool" where
  "in_range lo hi x \<longleftrightarrow> lo \<le> x \<and> x \<le> hi"

definition opt_list :: "'a option \<Rightarrow> 'a list" where
  "opt_list x = (case x of None \<Rightarrow> [] | Some y \<Rightarrow> [y])"

section \<open>Content-addressed objects\<close>

record harness_object =
  object_id :: string
  object_sha256 :: string
  audit :: contract_audit

record 'r harness_class =
  object_type :: string
  digest :: "'r \<Rightarrow> string"
  direct_refs :: "'r \<Rightarrow> object_ref list"
  validates :: "'r \<Rightarrow> bool"

definition carried :: "'a harness_object_scheme \<Rightarrow> 'a harness_object_scheme" where
  "carried v = v\<lparr>object_id := [], object_sha256 := [], audit := no_audit\<rparr>"

definition carried_sha256 ::
  "'a harness_object_scheme harness_class \<Rightarrow> 'a harness_object_scheme \<Rightarrow> string" where
  "carried_sha256 cls v = digest cls (carried v)"

definition collect_object_refs :: "'r harness_class \<Rightarrow> 'r \<Rightarrow> object_ref list" where
  "collect_object_refs cls v = sort (remdups (direct_refs cls v))"

definition derived_id :: "'r harness_class \<Rightarrow> string \<Rightarrow> string" where
  "derived_id cls d = object_type cls @ ''://sha256/'' @ d"

definition validate_derived_identity ::
  "'a harness_object_scheme harness_class \<Rightarrow> 'a harness_object_scheme \<Rightarrow> bool" where
  "validate_derived_identity cls v \<longleftrightarrow>
     object_sha256 v = carried_sha256 cls v \<and>
     object_id v = derived_id cls (carried_sha256 cls v) \<and>
     input_refs (audit v) = collect_object_refs cls v"

definition create ::
  "'a harness_object_scheme harness_class \<Rightarrow> contract_audit \<Rightarrow> 'a harness_object_scheme
     \<Rightarrow> 'a harness_object_scheme result" where
  "create cls aud values =
     (let refs = collect_object_refs cls values;
          normalized = audit_with_refs aud refs;
          d = carried_sha256 cls (values\<lparr>audit := normalized\<rparr>);
          v = values\<lparr>object_id := derived_id cls d, object_sha256 := d, audit := normalized\<rparr>
      in if validate_derived_identity cls v \<and> validates cls v then Inr v
         else Inl (ValueError (object_type cls)))"

definition to_ref :: "string \<Rightarrow> 'a harness_object_scheme \<Rightarrow> object_ref" where
  "to_ref ty v = ObjectRef ty (object_id v) ''v1'' (object_sha256 v)"

text \<open>
  \<open>parse_record\<close> of \<open>team/_store_codec.py\<close>: loading a stored row runs every validator of its class
  again. The JSON text itself is the structured value, so it is canonical by construction.
\<close>

definition invalid_message :: "string \<Rightarrow> string" where
  "invalid_message label = label @ '' is invalid''"

definition parse_record ::
  "'a harness_object_scheme harness_class \<Rightarrow> string \<Rightarrow> 'a harness_object_scheme
     \<Rightarrow> 'a harness_object_scheme result" where
  "parse_record cls label v =
     (if validate_derived_identity cls v \<and> validates cls v then Inr v
      else Inl (TeamIntegrityError (invalid_message label)))"

section \<open>Laws\<close>

lemma less_eq_ref_fun: "(\<le>) = (\<lambda>r s. ref_key r \<le> ref_key s)"
  by (intro ext) (simp add: less_eq_object_ref_def)

lemma sorted_refs_eq_sort: "sorted_refs = sort"
proof
  fix xs :: "object_ref list"
  have "sorted (sort_key ref_key xs)"
    using sorted_sort_key [of ref_key xs] by (simp add: sorted_map less_eq_ref_fun)
  then have "sort xs = sort_key ref_key xs"
    by (intro properties_for_sort) simp_all
  then show "sorted_refs xs = sort xs"
    by (simp add: sorted_refs_def)
qed

lemma set_sorted_refs [simp]: "set (sorted_refs xs) = set xs"
  by (simp add: sorted_refs_eq_sort)

lemma mset_sorted_refs [simp]: "mset (sorted_refs xs) = mset xs"
  by (simp add: sorted_refs_eq_sort)

lemma length_card_iff_distinct: "length xs = card (set xs) \<longleftrightarrow> distinct xs"
  using card_distinct distinct_card by metis

lemma eq_sort_iff_sorted: "xs = sort xs \<longleftrightarrow> sorted xs"
  by (metis sorted_sort sort_key_id_if_sorted map_ident)

lemma require_sorted_unique_iff: "require_sorted_unique xs \<longleftrightarrow> sorted xs \<and> distinct xs"
  by (simp add: require_sorted_unique_def eq_sort_iff_sorted length_card_iff_distinct)

lemma require_sorted_unique_refs_iff: "require_sorted_unique_refs xs \<longleftrightarrow> sorted xs \<and> distinct xs"
  by (auto simp: require_sorted_unique_refs_def Let_def eq_sort_iff_sorted length_card_iff_distinct
      sorted_map less_eq_ref_fun distinct_map inj_on_def ref_key_inject)

lemma collect_object_refs_canonical:
  "sorted (collect_object_refs cls v) \<and> distinct (collect_object_refs cls v) \<and>
   set (collect_object_refs cls v) = set (direct_refs cls v)"
  by (simp add: collect_object_refs_def)

lemma carried_idem [simp]:
  "carried (v\<lparr>object_id := i\<rparr>) = carried v"
  "carried (v\<lparr>object_sha256 := h\<rparr>) = carried v"
  "carried (v\<lparr>audit := a\<rparr>) = carried v"
  by (simp_all add: carried_def)

lemma input_refs_audit_with_refs [simp]: "input_refs (audit_with_refs a rs) = rs"
  by (simp add: audit_with_refs_def)

lemma to_ref_type [simp]: "ref_type (to_ref ty v) = ty" "ref_id (to_ref ty v) = object_id v"
  "ref_version (to_ref ty v) = ''v1''" "ref_sha (to_ref ty v) = object_sha256 v"
  by (simp_all add: to_ref_def)

lemma require_ref_to_ref [simp]: "require_ref (to_ref ty v) ty' \<longleftrightarrow> ty = ty'"
  by (simp add: require_ref_def)

lemma parse_record_InrD [dest]: "parse_record cls label v = Inr w \<Longrightarrow> w = v"
  by (auto simp: parse_record_def split: if_splits)

lemma parse_record_Inr_iff:
  "parse_record cls label v = Inr w \<longleftrightarrow> w = v \<and> validate_derived_identity cls v \<and> validates cls v"
  by (auto simp: parse_record_def)

lemma create_valid: "create cls aud v = Inr w \<Longrightarrow> validate_derived_identity cls w \<and> validates cls w"
  by (auto simp: create_def Let_def split: if_splits)

lemma create_parse: "create cls aud v = Inr w \<Longrightarrow> parse_record cls label w = Inr w"
  by (auto dest: create_valid simp: parse_record_def)

text \<open>
  What a record class promises its clients: the references it carries do not depend on the identity
  and audit columns. Then construction can only fail in the class's own validator, and two objects
  with the same payload get the same identity whatever their audits.
\<close>

locale harness_laws =
  fixes cls :: "'a harness_object_scheme harness_class"
  assumes refs_object_id: "direct_refs cls (v\<lparr>object_id := i\<rparr>) = direct_refs cls v"
    and refs_sha256: "direct_refs cls (v\<lparr>object_sha256 := h\<rparr>) = direct_refs cls v"
    and refs_audit: "direct_refs cls (v\<lparr>audit := a\<rparr>) = direct_refs cls v"
begin

lemma collect_stable:
  "collect_object_refs cls (v\<lparr>object_id := i, object_sha256 := h, audit := a\<rparr>) = collect_object_refs cls v"
  by (simp add: collect_object_refs_def refs_object_id refs_sha256 refs_audit)

lemma create_identity:
  "validate_derived_identity cls
     (v\<lparr>object_id := derived_id cls (carried_sha256 cls v), object_sha256 := carried_sha256 cls v,
        audit := audit_with_refs a (collect_object_refs cls v)\<rparr>)"
  by (simp add: validate_derived_identity_def collect_stable carried_sha256_def)

lemma create_Inr_iff:
  "create cls a v = Inr w \<longleftrightarrow>
     w = v\<lparr>object_id := derived_id cls (carried_sha256 cls v), object_sha256 := carried_sha256 cls v,
           audit := audit_with_refs a (collect_object_refs cls v)\<rparr> \<and> validates cls w"
  using create_identity [where v = v and a = a] by (auto simp: create_def Let_def carried_sha256_def)

lemma create_eq:
  "create cls a v =
     (let w = v\<lparr>object_id := derived_id cls (carried_sha256 cls v),
                 object_sha256 := carried_sha256 cls v,
                 audit := audit_with_refs a (collect_object_refs cls v)\<rparr>
      in if validates cls w then Inr w else Inl (ValueError (object_type cls)))"
  using create_identity [where v = v and a = a] by (simp add: create_def Let_def carried_sha256_def)

lemma same_payload_same_ref:
  assumes "create cls a v = Inr w" and "create cls a' v' = Inr w'" and "carried v = carried v'"
  shows "to_ref ty w = to_ref ty w'"
  using assms by (auto simp: create_Inr_iff to_ref_def carried_sha256_def)

end

lemma create_more: "create cls aud v = Inr w \<Longrightarrow> harness_object.more w = harness_object.more v"
  by (auto simp: create_def Let_def split: if_splits)

end
