(* ===== verification/Harness_Objects.thy ===== *)
theory Harness_Objects
  imports Contracts
begin

text \<open>
  The Harness records the Team runtime stores and checks: artifact envelopes and heads
  (\<open>harness/artifacts.py\<close>) and capability definitions, bindings, calls and results
  (\<open>harness/capability.py\<close>). Each class gives its fields as a record extension, its
  \<open>model_validator\<close> together with the pydantic field bounds as a bool-valued check, and the
  references \<open>collect_object_refs\<close> finds in it.
\<close>

section \<open>Artifacts\<close>

datatype artifact_modality =
    TEXT | TABLE | DOCUMENT | IMAGE | AUDIO | VIDEO | THREE_DIMENSIONAL | SIMULATION | BINARY | MIXED

record artifact_envelope = harness_object +
  en_artifact_id :: string
  en_subject_ref :: object_ref
  en_schema_ref :: object_ref
  en_content_ref :: object_ref
  en_media_type :: string
  en_modality :: artifact_modality
  en_domain_tags :: "string list"
  en_semantic_role :: string
  en_purpose :: string
  en_classification :: string
  en_lineage_refs :: "object_ref list"
  en_producer_capability_ref :: object_ref
  en_producer_task_ref :: "object_ref option"
  en_validation_refs :: "object_ref list"
  en_revision :: int
  en_predecessor_envelope_ref :: "object_ref option"

text \<open>\<open>MediaType\<close>: a type and a subtype around one slash, at most 255 characters.\<close>

definition is_media_char :: "char \<Rightarrow> bool" where
  "is_media_char c \<longleftrightarrow> is_alnum c \<or> c \<in> set ''!#$&^_.+-''"

definition is_media_part :: "string \<Rightarrow> bool" where
  "is_media_part s \<longleftrightarrow> (case s of [] \<Rightarrow> False | c # cs \<Rightarrow> is_alnum c \<and> list_all is_media_char cs)"

definition is_media_type :: "string \<Rightarrow> bool" where
  "is_media_type s \<longleftrightarrow>
     max_length 255 s \<and>
     (case dropWhile (\<lambda>c. c \<noteq> CHR ''/'') s of
        [] \<Rightarrow> False
      | _ # sub \<Rightarrow> is_media_part (takeWhile (\<lambda>c. c \<noteq> CHR ''/'') s) \<and> is_media_part sub)"

definition validate_envelope :: "artifact_envelope \<Rightarrow> bool" where
  "validate_envelope v \<longleftrightarrow>
     list_all is_identifier
       (en_domain_tags v @ [en_artifact_id v, en_semantic_role v, en_purpose v, en_classification v]) \<and>
     is_media_type (en_media_type v) \<and> max_length 64 (en_domain_tags v) \<and>
     max_length 10000 (en_lineage_refs v) \<and> max_length 10000 (en_validation_refs v) \<and>
     in_range 1 1000000000 (en_revision v) \<and>
     ref_type (en_schema_ref v) = ''json-schema'' \<and>
     require_ref (en_producer_capability_ref v) ''harness-capability-definition'' \<and>
     require_sorted_unique (en_domain_tags v) \<and>
     require_sorted_unique_refs (en_lineage_refs v) \<and>
     require_sorted_unique_refs (en_validation_refs v) \<and>
     (case en_producer_task_ref v of None \<Rightarrow> True
      | Some r \<Rightarrow> ref_type r \<in> {''agent-task'', ''team-task''}) \<and>
     (if en_revision v = 1 then en_predecessor_envelope_ref v = None
      else en_predecessor_envelope_ref v \<noteq> None \<and>
           require_opt_ref (en_predecessor_envelope_ref v) ''artifact-envelope'')"

definition envelope_refs :: "artifact_envelope \<Rightarrow> object_ref list" where
  "envelope_refs v =
     [en_subject_ref v, en_schema_ref v, en_content_ref v] @ en_lineage_refs v @
     [en_producer_capability_ref v] @ opt_list (en_producer_task_ref v) @ en_validation_refs v @
     opt_list (en_predecessor_envelope_ref v)"

definition envelope_class :: "(artifact_envelope \<Rightarrow> string) \<Rightarrow> artifact_envelope harness_class" where
  "envelope_class dg =
     \<lparr>object_type = ''artifact-envelope'', digest = dg, direct_refs = envelope_refs,
      validates = validate_envelope\<rparr>"

text \<open>\<open>ArtifactEnvelopeV1.create\<close> sorts the tag and reference inventories before construction.\<close>

definition create_envelope ::
  "(artifact_envelope \<Rightarrow> string) \<Rightarrow> contract_audit \<Rightarrow> artifact_envelope \<Rightarrow> artifact_envelope result" where
  "create_envelope dg aud v =
     create (envelope_class dg) aud
       (v\<lparr>en_domain_tags := sort (en_domain_tags v), en_lineage_refs := sorted_refs (en_lineage_refs v),
          en_validation_refs := sorted_refs (en_validation_refs v)\<rparr>)"

record artifact_head = harness_object +
  hd_head_id :: string
  hd_team_ref :: object_ref
  hd_semantic_role :: string
  hd_revision :: int
  hd_envelope_ref :: object_ref
  hd_predecessor_head_ref :: "object_ref option"

definition validate_head :: "artifact_head \<Rightarrow> bool" where
  "validate_head v \<longleftrightarrow>
     is_identifier (hd_head_id v) \<and> is_identifier (hd_semantic_role v) \<and>
     in_range 1 1000000000 (hd_revision v) \<and>
     require_ref (hd_team_ref v) ''agent-team'' \<and>
     require_ref (hd_envelope_ref v) ''artifact-envelope'' \<and>
     (if hd_revision v = 1 then hd_predecessor_head_ref v = None
      else hd_predecessor_head_ref v \<noteq> None \<and>
           require_opt_ref (hd_predecessor_head_ref v) ''artifact-head'')"

definition head_class :: "(artifact_head \<Rightarrow> string) \<Rightarrow> artifact_head harness_class" where
  "head_class dg =
     \<lparr>object_type = ''artifact-head'', digest = dg,
      direct_refs = (\<lambda>v. [hd_team_ref v, hd_envelope_ref v] @ opt_list (hd_predecessor_head_ref v)),
      validates = validate_head\<rparr>"

abbreviation envelope_ref_of :: "artifact_envelope \<Rightarrow> object_ref" where
  "envelope_ref_of \<equiv> to_ref ''artifact-envelope''"

abbreviation head_ref_of :: "artifact_head \<Rightarrow> object_ref" where
  "head_ref_of \<equiv> to_ref ''artifact-head''"

section \<open>Capabilities\<close>

datatype capability_side_effect = READ_ONLY | REVERSIBLE_WRITE | IRREVERSIBLE_WRITE | EXTERNAL_EFFECT

fun side_effect_value :: "capability_side_effect \<Rightarrow> string" where
  "side_effect_value READ_ONLY = ''READ_ONLY''"
| "side_effect_value REVERSIBLE_WRITE = ''REVERSIBLE_WRITE''"
| "side_effect_value IRREVERSIBLE_WRITE = ''IRREVERSIBLE_WRITE''"
| "side_effect_value EXTERNAL_EFFECT = ''EXTERNAL_EFFECT''"

datatype capability_idempotency = PURE | IDEMPOTENT | IDEMPOTENCY_KEY_REQUIRED | NON_IDEMPOTENT

datatype consumer_kind = AGENT_TOOL | GRAPH_NODE | HTTP_API | CLI | UI_WORKSPACE | INTERNAL_SERVICE

fun consumer_kind_value :: "consumer_kind \<Rightarrow> string" where
  "consumer_kind_value AGENT_TOOL = ''AGENT_TOOL''"
| "consumer_kind_value GRAPH_NODE = ''GRAPH_NODE''"
| "consumer_kind_value HTTP_API = ''HTTP_API''"
| "consumer_kind_value CLI = ''CLI''"
| "consumer_kind_value UI_WORKSPACE = ''UI_WORKSPACE''"
| "consumer_kind_value INTERNAL_SERVICE = ''INTERNAL_SERVICE''"

datatype provider_kind = LOCAL_DETERMINISTIC | LOCAL_MODEL_ASSISTED | REMOTE_GOVERNED

datatype invocation_outcome =
    SUCCEEDED | BLOCKED_CAPABILITY | BLOCKED_POLICY | ABSTAINED | INVOCATION_FAILED

record capability_definition = harness_object +
  cd_capability_id :: string
  cd_capability_version :: string
  cd_request_schema_ref :: object_ref
  cd_result_schema_ref :: object_ref
  cd_input_artifact_roles :: "string list"
  cd_output_artifact_roles :: "string list"
  cd_data_purposes :: "string list"
  cd_data_classifications :: "string list"
  cd_side_effect :: capability_side_effect
  cd_idempotency :: capability_idempotency
  cd_supported_consumers :: "consumer_kind list"
  cd_legacy_agent_capability_ref :: "object_ref option"

definition validate_definition :: "capability_definition \<Rightarrow> bool" where
  "validate_definition v \<longleftrightarrow>
     list_all is_identifier
       (cd_capability_id v # cd_input_artifact_roles v @ cd_output_artifact_roles v @
        cd_data_purposes v @ cd_data_classifications v) \<and>
     min_length 1 (cd_capability_version v) \<and> max_length 128 (cd_capability_version v) \<and>
     max_length 256 (cd_input_artifact_roles v) \<and>
     min_length 1 (cd_output_artifact_roles v) \<and> max_length 256 (cd_output_artifact_roles v) \<and>
     min_length 1 (cd_data_purposes v) \<and> max_length 64 (cd_data_purposes v) \<and>
     min_length 1 (cd_data_classifications v) \<and> max_length 64 (cd_data_classifications v) \<and>
     min_length 1 (cd_supported_consumers v) \<and> max_length 6 (cd_supported_consumers v) \<and>
     ref_type (cd_request_schema_ref v) = ''json-schema'' \<and>
     ref_type (cd_result_schema_ref v) = ''json-schema'' \<and>
     require_sorted_unique (cd_input_artifact_roles v) \<and>
     require_sorted_unique (cd_output_artifact_roles v) \<and>
     require_sorted_unique (cd_data_purposes v) \<and>
     require_sorted_unique (cd_data_classifications v) \<and>
     require_sorted_unique (map consumer_kind_value (cd_supported_consumers v)) \<and>
     (case cd_legacy_agent_capability_ref v of None \<Rightarrow> True
      | Some r \<Rightarrow> ref_type r = ''agent-capability'' \<and> ref_version r = ''v2'')"

definition definition_class :: "(capability_definition \<Rightarrow> string) \<Rightarrow> capability_definition harness_class" where
  "definition_class dg =
     \<lparr>object_type = ''harness-capability-definition'', digest = dg,
      direct_refs = (\<lambda>v. [cd_request_schema_ref v, cd_result_schema_ref v] @
                         opt_list (cd_legacy_agent_capability_ref v)),
      validates = validate_definition\<rparr>"

text \<open>
  \<open>CapabilityDefinitionV1.create\<close> sorts the role and data inventories, and sorts the supported
  consumers by value after removing duplicates.
\<close>

definition sorted_consumers :: "consumer_kind list \<Rightarrow> consumer_kind list" where
  "sorted_consumers ks = sort_key consumer_kind_value (remdups ks)"

definition create_definition ::
  "(capability_definition \<Rightarrow> string) \<Rightarrow> contract_audit \<Rightarrow> capability_definition
     \<Rightarrow> capability_definition result" where
  "create_definition dg aud v =
     create (definition_class dg) aud
       (v\<lparr>cd_input_artifact_roles := sort (cd_input_artifact_roles v),
          cd_output_artifact_roles := sort (cd_output_artifact_roles v),
          cd_data_purposes := sort (cd_data_purposes v),
          cd_data_classifications := sort (cd_data_classifications v),
          cd_supported_consumers := sorted_consumers (cd_supported_consumers v)\<rparr>)"

record provider_binding = harness_object +
  pb_provider_id :: string
  pb_provider_version :: string
  pb_capability_definition_ref :: object_ref
  pb_implementation_id :: string
  pb_provider_kind :: provider_kind
  pb_supported_consumers :: "consumer_kind list"
  pb_policy_refs :: "object_ref list"

definition validate_provider :: "provider_binding \<Rightarrow> bool" where
  "validate_provider v \<longleftrightarrow>
     is_identifier (pb_provider_id v) \<and> is_identifier (pb_implementation_id v) \<and>
     min_length 1 (pb_provider_version v) \<and> max_length 128 (pb_provider_version v) \<and>
     min_length 1 (pb_supported_consumers v) \<and> max_length 6 (pb_supported_consumers v) \<and>
     max_length 64 (pb_policy_refs v) \<and>
     require_ref (pb_capability_definition_ref v) ''harness-capability-definition'' \<and>
     require_sorted_unique (map consumer_kind_value (pb_supported_consumers v)) \<and>
     require_sorted_unique_refs (pb_policy_refs v)"

definition provider_class :: "(provider_binding \<Rightarrow> string) \<Rightarrow> provider_binding harness_class" where
  "provider_class dg =
     \<lparr>object_type = ''harness-capability-provider'', digest = dg,
      direct_refs = (\<lambda>v. pb_capability_definition_ref v # pb_policy_refs v),
      validates = validate_provider\<rparr>"

text \<open>\<open>CapabilityProviderBindingV1.create\<close> normalises the consumers and the policy references.\<close>

definition create_provider ::
  "(provider_binding \<Rightarrow> string) \<Rightarrow> contract_audit \<Rightarrow> provider_binding \<Rightarrow> provider_binding result" where
  "create_provider dg aud v =
     create (provider_class dg) aud
       (v\<lparr>pb_supported_consumers := sorted_consumers (pb_supported_consumers v),
          pb_policy_refs := sorted_refs (pb_policy_refs v)\<rparr>)"

record consumer_binding = harness_object +
  cb_consumer_id :: string
  cb_consumer_version :: string
  cb_consumer_kind :: consumer_kind
  cb_capability_definition_ref :: object_ref
  cb_provider_binding_ref :: object_ref
  cb_projection_ref :: "object_ref option"

definition validate_consumer :: "consumer_binding \<Rightarrow> bool" where
  "validate_consumer v \<longleftrightarrow>
     is_identifier (cb_consumer_id v) \<and>
     min_length 1 (cb_consumer_version v) \<and> max_length 128 (cb_consumer_version v) \<and>
     require_ref (cb_capability_definition_ref v) ''harness-capability-definition'' \<and>
     require_ref (cb_provider_binding_ref v) ''harness-capability-provider'' \<and>
     require_opt_ref (cb_projection_ref v) ''harness-projection-definition''"

definition consumer_class :: "(consumer_binding \<Rightarrow> string) \<Rightarrow> consumer_binding harness_class" where
  "consumer_class dg =
     \<lparr>object_type = ''harness-capability-consumer'', digest = dg,
      direct_refs = (\<lambda>v. [cb_capability_definition_ref v, cb_provider_binding_ref v] @
                         opt_list (cb_projection_ref v)),
      validates = validate_consumer\<rparr>"

record invocation_context =
  cx_session_ref :: object_ref
  cx_team_ref :: "object_ref option"
  cx_member_ref :: "object_ref option"
  cx_task_ref :: "object_ref option"
  cx_authority_ref :: object_ref
  cx_principal_ref :: object_ref
  cx_data_purpose :: string
  cx_data_classification :: string
  cx_idempotency_key :: string

definition validate_context :: "invocation_context \<Rightarrow> bool" where
  "validate_context v \<longleftrightarrow>
     list_all is_identifier [cx_data_purpose v, cx_data_classification v, cx_idempotency_key v] \<and>
     require_ref (cx_session_ref v) ''harness-session'' \<and>
     require_ref (cx_authority_ref v) ''execution-authority'' \<and>
     (case cx_team_ref v of
        Some t \<Rightarrow> require_ref t ''agent-team'' \<and> cx_member_ref v \<noteq> None
      | None \<Rightarrow> cx_member_ref v = None \<and> cx_task_ref v = None) \<and>
     require_opt_ref (cx_member_ref v) ''team-member'' \<and>
     require_opt_ref (cx_task_ref v) ''team-task''"

definition context_refs :: "invocation_context \<Rightarrow> object_ref list" where
  "context_refs v =
     [cx_session_ref v] @ opt_list (cx_team_ref v) @ opt_list (cx_member_ref v) @
     opt_list (cx_task_ref v) @ [cx_authority_ref v, cx_principal_ref v]"

record capability_call = harness_object +
  cc_call_id :: string
  cc_capability_definition_ref :: object_ref
  cc_provider_binding_ref :: object_ref
  cc_context :: invocation_context
  cc_request_ref :: object_ref
  cc_input_artifact_refs :: "object_ref list"

definition validate_call :: "capability_call \<Rightarrow> bool" where
  "validate_call v \<longleftrightarrow>
     is_identifier (cc_call_id v) \<and> validate_context (cc_context v) \<and>
     max_length 10000 (cc_input_artifact_refs v) \<and>
     require_ref (cc_capability_definition_ref v) ''harness-capability-definition'' \<and>
     require_ref (cc_provider_binding_ref v) ''harness-capability-provider'' \<and>
     require_sorted_unique_refs (cc_input_artifact_refs v) \<and>
     refs_of_type (cc_input_artifact_refs v) ''artifact-envelope''"

definition call_class :: "(capability_call \<Rightarrow> string) \<Rightarrow> capability_call harness_class" where
  "call_class dg =
     \<lparr>object_type = ''harness-capability-call'', digest = dg,
      direct_refs = (\<lambda>v. [cc_capability_definition_ref v, cc_provider_binding_ref v] @
                         context_refs (cc_context v) @ [cc_request_ref v] @ cc_input_artifact_refs v),
      validates = validate_call\<rparr>"

record capability_result = harness_object +
  cr_result_id :: string
  cr_call_ref :: object_ref
  cr_outcome :: invocation_outcome
  cr_canonical_result_ref :: "object_ref option"
  cr_output_artifact_refs :: "object_ref list"
  cr_validation_refs :: "object_ref list"
  cr_failure_code :: "string option"

definition validate_result :: "capability_result \<Rightarrow> bool" where
  "validate_result v \<longleftrightarrow>
     is_identifier (cr_result_id v) \<and>
     max_length 10000 (cr_output_artifact_refs v) \<and> max_length 10000 (cr_validation_refs v) \<and>
     list_all is_identifier (opt_list (cr_failure_code v)) \<and>
     require_ref (cr_call_ref v) ''harness-capability-call'' \<and>
     require_sorted_unique_refs (cr_output_artifact_refs v) \<and>
     require_sorted_unique_refs (cr_validation_refs v) \<and>
     refs_of_type (cr_output_artifact_refs v) ''artifact-envelope'' \<and>
     (if cr_outcome v = SUCCEEDED
      then cr_canonical_result_ref v \<noteq> None \<and> cr_failure_code v = None
      else cr_canonical_result_ref v = None \<and> cr_output_artifact_refs v = [] \<and>
           cr_failure_code v \<noteq> None)"

definition result_class :: "(capability_result \<Rightarrow> string) \<Rightarrow> capability_result harness_class" where
  "result_class dg =
     \<lparr>object_type = ''harness-capability-result'', digest = dg,
      direct_refs = (\<lambda>v. [cr_call_ref v] @ opt_list (cr_canonical_result_ref v) @
                         cr_output_artifact_refs v @ cr_validation_refs v),
      validates = validate_result\<rparr>"

abbreviation call_ref_of :: "capability_call \<Rightarrow> object_ref" where
  "call_ref_of \<equiv> to_ref ''harness-capability-call''"

abbreviation result_ref_of :: "capability_result \<Rightarrow> object_ref" where
  "result_ref_of \<equiv> to_ref ''harness-capability-result''"

section \<open>The classes keep the identity laws\<close>

lemma envelope_class_sel [simp]:
  "object_type (envelope_class dg) = ''artifact-envelope''" "digest (envelope_class dg) = dg"
  "direct_refs (envelope_class dg) = envelope_refs"
  "validates (envelope_class dg) = validate_envelope"
  by (simp_all add: envelope_class_def)

lemma head_class_sel [simp]:
  "object_type (head_class dg) = ''artifact-head''" "digest (head_class dg) = dg"
  "direct_refs (head_class dg) = (\<lambda>v. [hd_team_ref v, hd_envelope_ref v] @ opt_list (hd_predecessor_head_ref v))"
  "validates (head_class dg) = validate_head"
  by (simp_all add: head_class_def)

lemma definition_class_sel [simp]:
  "object_type (definition_class dg) = ''harness-capability-definition''" "digest (definition_class dg) = dg"
  "direct_refs (definition_class dg) = (\<lambda>v. [cd_request_schema_ref v, cd_result_schema_ref v] @ opt_list (cd_legacy_agent_capability_ref v))"
  "validates (definition_class dg) = validate_definition"
  by (simp_all add: definition_class_def)

lemma provider_class_sel [simp]:
  "object_type (provider_class dg) = ''harness-capability-provider''" "digest (provider_class dg) = dg"
  "direct_refs (provider_class dg) = (\<lambda>v. pb_capability_definition_ref v # pb_policy_refs v)"
  "validates (provider_class dg) = validate_provider"
  by (simp_all add: provider_class_def)

lemma consumer_class_sel [simp]:
  "object_type (consumer_class dg) = ''harness-capability-consumer''" "digest (consumer_class dg) = dg"
  "direct_refs (consumer_class dg) = (\<lambda>v. [cb_capability_definition_ref v, cb_provider_binding_ref v] @ opt_list (cb_projection_ref v))"
  "validates (consumer_class dg) = validate_consumer"
  by (simp_all add: consumer_class_def)

lemma call_class_sel [simp]:
  "object_type (call_class dg) = ''harness-capability-call''" "digest (call_class dg) = dg"
  "direct_refs (call_class dg) = (\<lambda>v. [cc_capability_definition_ref v, cc_provider_binding_ref v] @ context_refs (cc_context v) @ [cc_request_ref v] @ cc_input_artifact_refs v)"
  "validates (call_class dg) = validate_call"
  by (simp_all add: call_class_def)

lemma result_class_sel [simp]:
  "object_type (result_class dg) = ''harness-capability-result''" "digest (result_class dg) = dg"
  "direct_refs (result_class dg) = (\<lambda>v. [cr_call_ref v] @ opt_list (cr_canonical_result_ref v) @ cr_output_artifact_refs v @ cr_validation_refs v)"
  "validates (result_class dg) = validate_result"
  by (simp_all add: result_class_def)

interpretation envelope: harness_laws "envelope_class dg" for dg
  by unfold_locales (simp_all add: envelope_class_def envelope_refs_def)

interpretation artifact_head: harness_laws "head_class dg" for dg
  by unfold_locales (simp_all add: head_class_def)

interpretation capability_definition: harness_laws "definition_class dg" for dg
  by unfold_locales (simp_all add: definition_class_def)

interpretation provider: harness_laws "provider_class dg" for dg
  by unfold_locales (simp_all add: provider_class_def)

interpretation consumer: harness_laws "consumer_class dg" for dg
  by unfold_locales (simp_all add: consumer_class_def)

interpretation capability_call: harness_laws "call_class dg" for dg
  by unfold_locales (simp_all add: call_class_def)

interpretation capability_result: harness_laws "result_class dg" for dg
  by unfold_locales (simp_all add: result_class_def)

end
