(* ===== verification/Interaction.thy ===== *)
theory Interaction
  imports Harness_Objects
begin

text \<open>
  Execution authority and the Balanced Autonomy permission evaluator (\<open>harness/interaction.py\<close>):
  member grants, the versioned execution authority with its budgets, permission actions and
  decisions, and \<open>BalancedAutonomyEvaluator\<close>. The lemmas characterise exactly when an action is
  allowed, when it needs approval and when it is denied, and that every decision the evaluator
  takes is one \<open>PermissionDecisionV1\<close> accepts.
\<close>

section \<open>Data\<close>

datatype permission_outcome = ALLOW | REQUIRE_APPROVAL | DENY

datatype graph_mutation_kind = NO_MUTATION | IN_SCOPE | AUTHORITY_WIDENING

datatype permission_reason =
    INSIDE_APPROVED_AUTHORITY | UNKNOWN_PRINCIPAL | CAPABILITY_NOT_GRANTED | PROVIDER_NOT_GRANTED
  | TASK_NOT_GRANTED | DATA_SCOPE_NOT_GRANTED | PURPOSE_NOT_GRANTED | CLASSIFICATION_NOT_GRANTED
  | SIDE_EFFECT_NOT_GRANTED | SOURCE_ADMISSION | MODEL_BUDGET_WIDENING | EXTERNAL_EXECUTION
  | GRAPH_AUTHORITY_WIDENING | NONDETERMINISTIC_MUTATION | DESTRUCTIVE_ACTION | RELEASE
  | STALE_AUTHORITY | WRONG_PERMISSION_POLICY

fun reason_value :: "permission_reason \<Rightarrow> string" where
  "reason_value INSIDE_APPROVED_AUTHORITY = ''INSIDE_APPROVED_AUTHORITY''"
| "reason_value UNKNOWN_PRINCIPAL = ''UNKNOWN_PRINCIPAL''"
| "reason_value CAPABILITY_NOT_GRANTED = ''CAPABILITY_NOT_GRANTED''"
| "reason_value PROVIDER_NOT_GRANTED = ''PROVIDER_NOT_GRANTED''"
| "reason_value TASK_NOT_GRANTED = ''TASK_NOT_GRANTED''"
| "reason_value DATA_SCOPE_NOT_GRANTED = ''DATA_SCOPE_NOT_GRANTED''"
| "reason_value PURPOSE_NOT_GRANTED = ''PURPOSE_NOT_GRANTED''"
| "reason_value CLASSIFICATION_NOT_GRANTED = ''CLASSIFICATION_NOT_GRANTED''"
| "reason_value SIDE_EFFECT_NOT_GRANTED = ''SIDE_EFFECT_NOT_GRANTED''"
| "reason_value SOURCE_ADMISSION = ''SOURCE_ADMISSION''"
| "reason_value MODEL_BUDGET_WIDENING = ''MODEL_BUDGET_WIDENING''"
| "reason_value EXTERNAL_EXECUTION = ''EXTERNAL_EXECUTION''"
| "reason_value GRAPH_AUTHORITY_WIDENING = ''GRAPH_AUTHORITY_WIDENING''"
| "reason_value NONDETERMINISTIC_MUTATION = ''NONDETERMINISTIC_MUTATION''"
| "reason_value DESTRUCTIVE_ACTION = ''DESTRUCTIVE_ACTION''"
| "reason_value RELEASE = ''RELEASE''"
| "reason_value STALE_AUTHORITY = ''STALE_AUTHORITY''"
| "reason_value WRONG_PERMISSION_POLICY = ''WRONG_PERMISSION_POLICY''"

lemma reason_value_inject: "reason_value r = reason_value s \<longleftrightarrow> r = s"
  by (cases r; cases s) simp_all

text \<open>Reasons are ordered by their string value, the key the evaluator sorts them with.\<close>

instantiation permission_reason :: linorder
begin

definition less_eq_permission_reason :: "permission_reason \<Rightarrow> permission_reason \<Rightarrow> bool" where
  "r \<le> s \<longleftrightarrow> reason_value r \<le> reason_value s"

definition less_permission_reason :: "permission_reason \<Rightarrow> permission_reason \<Rightarrow> bool" where
  "r < s \<longleftrightarrow> reason_value r < reason_value s"

instance
proof
  fix r s t :: permission_reason
  show "r < s \<longleftrightarrow> r \<le> s \<and> \<not> s \<le> r"
    by (auto simp: less_eq_permission_reason_def less_permission_reason_def)
  show "r \<le> r"
    by (simp add: less_eq_permission_reason_def)
  show "r \<le> t" if "r \<le> s" "s \<le> t"
    using that by (simp add: less_eq_permission_reason_def)
  show "r = s" if "r \<le> s" "s \<le> r"
    using that by (simp add: less_eq_permission_reason_def reason_value_inject [symmetric])
  show "r \<le> s \<or> s \<le> r"
    by (auto simp: less_eq_permission_reason_def)
qed

end

datatype interaction_decision_kind = APPROVE_DECISION | DENY_DECISION

record member_grant =
  mg_member_id :: string
  mg_principal_ref :: object_ref
  mg_capability_definition_refs :: "object_ref list"
  mg_provider_binding_refs :: "object_ref list"
  mg_task_ids :: "string list"
  mg_data_scope_refs :: "object_ref list"
  mg_data_purposes :: "string list"
  mg_data_classifications :: "string list"
  mg_allowed_side_effects :: "capability_side_effect list"

definition validate_grant :: "member_grant \<Rightarrow> bool" where
  "validate_grant g \<longleftrightarrow>
     list_all is_identifier
       (mg_member_id g # mg_task_ids g @ mg_data_purposes g @ mg_data_classifications g) \<and>
     min_length 1 (mg_capability_definition_refs g) \<and> max_length 256 (mg_capability_definition_refs g) \<and>
     min_length 1 (mg_provider_binding_refs g) \<and> max_length 256 (mg_provider_binding_refs g) \<and>
     max_length 10000 (mg_task_ids g) \<and> max_length 10000 (mg_data_scope_refs g) \<and>
     min_length 1 (mg_data_purposes g) \<and> max_length 64 (mg_data_purposes g) \<and>
     min_length 1 (mg_data_classifications g) \<and> max_length 64 (mg_data_classifications g) \<and>
     min_length 1 (mg_allowed_side_effects g) \<and> max_length 4 (mg_allowed_side_effects g) \<and>
     require_sorted_unique_refs (mg_capability_definition_refs g) \<and>
     refs_of_type (mg_capability_definition_refs g) ''harness-capability-definition'' \<and>
     require_sorted_unique_refs (mg_provider_binding_refs g) \<and>
     refs_of_type (mg_provider_binding_refs g) ''harness-capability-provider'' \<and>
     require_sorted_unique (mg_task_ids g) \<and>
     require_sorted_unique_refs (mg_data_scope_refs g) \<and>
     require_sorted_unique (mg_data_purposes g) \<and>
     require_sorted_unique (mg_data_classifications g) \<and>
     require_sorted_unique (map side_effect_value (mg_allowed_side_effects g))"

definition grant_refs :: "member_grant \<Rightarrow> object_ref list" where
  "grant_refs g =
     mg_principal_ref g # mg_capability_definition_refs g @ mg_provider_binding_refs g @
     mg_data_scope_refs g"

text \<open>Every behavioural field of \<open>BalancedAutonomyPolicyV1\<close> is a one-valued \<open>Literal\<close>.\<close>

record autonomy_policy = harness_object +
  po_policy_id :: string

definition policy_class :: "(autonomy_policy \<Rightarrow> string) \<Rightarrow> autonomy_policy harness_class" where
  "policy_class dg =
     \<lparr>object_type = ''balanced-autonomy-policy'', digest = dg, direct_refs = (\<lambda>_. []),
      validates = (\<lambda>v. is_identifier (po_policy_id v))\<rparr>"

record execution_authority = harness_object +
  au_authority_id :: string
  au_authority_version :: int
  au_predecessor_authority_ref :: "object_ref option"
  au_team_id :: string
  au_team_incarnation_id :: string
  au_roster_ref :: object_ref
  au_task_graph_ref :: object_ref
  au_permission_policy_ref :: object_ref
  au_grants :: "member_grant list"
  au_max_model_requests :: int
  au_max_model_tokens :: int
  au_max_cost_micro_usd :: int
  au_used_model_requests :: int
  au_used_model_tokens :: int
  au_used_cost_micro_usd :: int

definition validate_authority :: "execution_authority \<Rightarrow> bool" where
  "validate_authority v \<longleftrightarrow>
     list_all is_identifier [au_authority_id v, au_team_id v, au_team_incarnation_id v] \<and>
     in_range 1 1000000000 (au_authority_version v) \<and>
     min_length 1 (au_grants v) \<and> max_length 1000 (au_grants v) \<and>
     list_all validate_grant (au_grants v) \<and>
     in_range 0 10000000 (au_max_model_requests v) \<and>
     in_range 0 10000000000 (au_max_model_tokens v) \<and>
     in_range 0 10000000000000 (au_max_cost_micro_usd v) \<and>
     in_range 0 10000000 (au_used_model_requests v) \<and>
     in_range 0 10000000000 (au_used_model_tokens v) \<and>
     in_range 0 10000000000000 (au_used_cost_micro_usd v) \<and>
     require_ref (au_roster_ref v) ''team-roster'' \<and>
     require_ref (au_task_graph_ref v) ''team-task-graph'' \<and>
     require_ref (au_permission_policy_ref v) ''balanced-autonomy-policy'' \<and>
     require_sorted_unique (map mg_member_id (au_grants v)) \<and>
     (if au_authority_version v = 1 then au_predecessor_authority_ref v = None
      else au_predecessor_authority_ref v \<noteq> None \<and>
           require_opt_ref (au_predecessor_authority_ref v) ''execution-authority'') \<and>
     au_used_model_requests v \<le> au_max_model_requests v \<and>
     au_used_model_tokens v \<le> au_max_model_tokens v \<and>
     au_used_cost_micro_usd v \<le> au_max_cost_micro_usd v"

definition authority_class :: "(execution_authority \<Rightarrow> string) \<Rightarrow> execution_authority harness_class" where
  "authority_class dg =
     \<lparr>object_type = ''execution-authority'', digest = dg,
      direct_refs = (\<lambda>v. opt_list (au_predecessor_authority_ref v) @
                         [au_roster_ref v, au_task_graph_ref v, au_permission_policy_ref v] @
                         concat (map grant_refs (au_grants v))),
      validates = validate_authority\<rparr>"

text \<open>\<open>ExecutionAuthorityV1.create\<close> orders the grants by member.\<close>

definition create_authority ::
  "(execution_authority \<Rightarrow> string) \<Rightarrow> contract_audit \<Rightarrow> execution_authority \<Rightarrow> execution_authority result" where
  "create_authority dg aud v =
     create (authority_class dg) aud (v\<lparr>au_grants := sort_key mg_member_id (au_grants v)\<rparr>)"

record permission_action = harness_object +
  pa_action_id :: string
  pa_authority_ref :: object_ref
  pa_permission_policy_ref :: object_ref
  pa_member_id :: string
  pa_principal_ref :: object_ref
  pa_capability_definition_ref :: object_ref
  pa_provider_binding_ref :: object_ref
  pa_task_id :: string
  pa_data_scope_refs :: "object_ref list"
  pa_data_purpose :: string
  pa_data_classification :: string
  pa_side_effect :: capability_side_effect
  pa_graph_mutation :: graph_mutation_kind
  pa_local_execution :: bool
  pa_deterministic :: bool
  pa_source_admission :: bool
  pa_external_execution :: bool
  pa_destructive :: bool
  pa_release :: bool
  pa_model_requests_delta :: int
  pa_model_tokens_delta :: int
  pa_cost_micro_usd_delta :: int

definition validate_action :: "permission_action \<Rightarrow> bool" where
  "validate_action v \<longleftrightarrow>
     list_all is_identifier
       [pa_action_id v, pa_member_id v, pa_task_id v, pa_data_purpose v, pa_data_classification v] \<and>
     max_length 10000 (pa_data_scope_refs v) \<and>
     in_range 0 10000000 (pa_model_requests_delta v) \<and>
     in_range 0 10000000000 (pa_model_tokens_delta v) \<and>
     in_range 0 10000000000000 (pa_cost_micro_usd_delta v) \<and>
     require_ref (pa_authority_ref v) ''execution-authority'' \<and>
     require_ref (pa_permission_policy_ref v) ''balanced-autonomy-policy'' \<and>
     require_ref (pa_capability_definition_ref v) ''harness-capability-definition'' \<and>
     require_ref (pa_provider_binding_ref v) ''harness-capability-provider'' \<and>
     require_sorted_unique_refs (pa_data_scope_refs v) \<and>
     \<not> (pa_external_execution v \<and> pa_local_execution v) \<and>
     \<not> (pa_side_effect v = EXTERNAL_EFFECT \<and> \<not> pa_external_execution v) \<and>
     \<not> (pa_destructive v \<and> pa_side_effect v = READ_ONLY)"

definition action_class :: "(permission_action \<Rightarrow> string) \<Rightarrow> permission_action harness_class" where
  "action_class dg =
     \<lparr>object_type = ''permission-action'', digest = dg,
      direct_refs = (\<lambda>v. [pa_authority_ref v, pa_permission_policy_ref v, pa_principal_ref v,
                          pa_capability_definition_ref v, pa_provider_binding_ref v] @
                         pa_data_scope_refs v),
      validates = validate_action\<rparr>"

text \<open>\<open>PermissionActionV1.create\<close> sorts the data scope.\<close>

definition create_action ::
  "(permission_action \<Rightarrow> string) \<Rightarrow> contract_audit \<Rightarrow> permission_action \<Rightarrow> permission_action result" where
  "create_action dg aud v =
     create (action_class dg) aud (v\<lparr>pa_data_scope_refs := sorted_refs (pa_data_scope_refs v)\<rparr>)"

record permission_decision = harness_object +
  pd_decision_id :: string
  pd_policy_ref :: object_ref
  pd_authority_ref :: object_ref
  pd_action_ref :: object_ref
  pd_outcome :: permission_outcome
  pd_reason_codes :: "permission_reason list"

definition validate_permission_decision :: "permission_decision \<Rightarrow> bool" where
  "validate_permission_decision v \<longleftrightarrow>
     is_identifier (pd_decision_id v) \<and>
     min_length 1 (pd_reason_codes v) \<and> max_length 32 (pd_reason_codes v) \<and>
     require_ref (pd_policy_ref v) ''balanced-autonomy-policy'' \<and>
     require_ref (pd_authority_ref v) ''execution-authority'' \<and>
     require_ref (pd_action_ref v) ''permission-action'' \<and>
     require_sorted_unique (map reason_value (pd_reason_codes v)) \<and>
     \<not> (pd_outcome v = ALLOW \<and> pd_reason_codes v \<noteq> [INSIDE_APPROVED_AUTHORITY])"

definition permission_decision_class ::
  "(permission_decision \<Rightarrow> string) \<Rightarrow> permission_decision harness_class" where
  "permission_decision_class dg =
     \<lparr>object_type = ''permission-decision'', digest = dg,
      direct_refs = (\<lambda>v. [pd_policy_ref v, pd_authority_ref v, pd_action_ref v]),
      validates = validate_permission_decision\<rparr>"

record interaction_request = harness_object +
  ir_request_id :: string
  ir_authority_ref :: object_ref
  ir_action_ref :: object_ref
  ir_permission_decision_ref :: object_ref
  ir_requested_from :: object_ref
  ir_available_decisions :: "interaction_decision_kind list"

definition validate_request :: "interaction_request \<Rightarrow> bool" where
  "validate_request v \<longleftrightarrow>
     is_identifier (ir_request_id v) \<and>
     require_ref (ir_authority_ref v) ''execution-authority'' \<and>
     require_ref (ir_action_ref v) ''permission-action'' \<and>
     require_ref (ir_permission_decision_ref v) ''permission-decision'' \<and>
     ir_available_decisions v = [APPROVE_DECISION, DENY_DECISION]"

record interaction_decision = harness_object +
  id_decision_id :: string
  id_request_ref :: object_ref
  id_action_ref :: object_ref
  id_authority_ref :: object_ref
  id_decided_by :: object_ref
  id_decision :: interaction_decision_kind
  id_successor_authority_ref :: "object_ref option"

definition validate_interaction_decision :: "interaction_decision \<Rightarrow> bool" where
  "validate_interaction_decision v \<longleftrightarrow>
     is_identifier (id_decision_id v) \<and>
     require_ref (id_request_ref v) ''interaction-request'' \<and>
     require_ref (id_action_ref v) ''permission-action'' \<and>
     require_ref (id_authority_ref v) ''execution-authority'' \<and>
     require_opt_ref (id_successor_authority_ref v) ''execution-authority'' \<and>
     \<not> (id_decision v = DENY_DECISION \<and> id_successor_authority_ref v \<noteq> None)"

abbreviation policy_ref_of :: "autonomy_policy \<Rightarrow> object_ref" where
  "policy_ref_of \<equiv> to_ref ''balanced-autonomy-policy''"

abbreviation authority_ref_of :: "execution_authority \<Rightarrow> object_ref" where
  "authority_ref_of \<equiv> to_ref ''execution-authority''"

abbreviation action_ref_of :: "permission_action \<Rightarrow> object_ref" where
  "action_ref_of \<equiv> to_ref ''permission-action''"

section \<open>The evaluator\<close>

definition grant_denials :: "member_grant \<Rightarrow> permission_action \<Rightarrow> permission_reason set" where
  "grant_denials g a =
     (if pa_capability_definition_ref a \<notin> set (mg_capability_definition_refs g)
      then {CAPABILITY_NOT_GRANTED} else {}) \<union>
     (if pa_provider_binding_ref a \<notin> set (mg_provider_binding_refs g)
      then {PROVIDER_NOT_GRANTED} else {}) \<union>
     (if pa_task_id a \<notin> set (mg_task_ids g) then {TASK_NOT_GRANTED} else {}) \<union>
     (if \<not> set (pa_data_scope_refs a) \<subseteq> set (mg_data_scope_refs g)
      then {DATA_SCOPE_NOT_GRANTED} else {}) \<union>
     (if pa_data_purpose a \<notin> set (mg_data_purposes g) then {PURPOSE_NOT_GRANTED} else {}) \<union>
     (if pa_data_classification a \<notin> set (mg_data_classifications g)
      then {CLASSIFICATION_NOT_GRANTED} else {}) \<union>
     (if pa_side_effect a \<notin> set (mg_allowed_side_effects g)
      then {SIDE_EFFECT_NOT_GRANTED} else {})"

definition inside_budget :: "execution_authority \<Rightarrow> permission_action \<Rightarrow> bool" where
  "inside_budget au a \<longleftrightarrow>
     au_used_model_requests au + pa_model_requests_delta a \<le> au_max_model_requests au \<and>
     au_used_model_tokens au + pa_model_tokens_delta a \<le> au_max_model_tokens au \<and>
     au_used_cost_micro_usd au + pa_cost_micro_usd_delta a \<le> au_max_cost_micro_usd au"

definition approval_reasons :: "execution_authority \<Rightarrow> permission_action \<Rightarrow> permission_reason set" where
  "approval_reasons au a =
     (if pa_source_admission a then {SOURCE_ADMISSION} else {}) \<union>
     (if pa_external_execution a \<or> pa_side_effect a = EXTERNAL_EFFECT
      then {EXTERNAL_EXECUTION} else {}) \<union>
     (if pa_graph_mutation a = AUTHORITY_WIDENING then {GRAPH_AUTHORITY_WIDENING} else {}) \<union>
     (if pa_destructive a \<or> pa_side_effect a = IRREVERSIBLE_WRITE
      then {DESTRUCTIVE_ACTION} else {}) \<union>
     (if pa_release a then {RELEASE} else {}) \<union>
     (if \<not> inside_budget au a then {MODEL_BUDGET_WIDENING} else {}) \<union>
     (if pa_side_effect a = REVERSIBLE_WRITE \<and>
         \<not> (pa_local_execution a \<and> pa_deterministic a \<and>
            pa_graph_mutation a \<in> {NO_MUTATION, IN_SCOPE})
      then {NONDETERMINISTIC_MUTATION} else {})"

definition grant_for :: "execution_authority \<Rightarrow> permission_action \<Rightarrow> member_grant option" where
  "grant_for au a =
     find (\<lambda>g. mg_member_id g = pa_member_id a \<and> mg_principal_ref g = pa_principal_ref a) (au_grants au)"

definition classify ::
  "autonomy_policy \<Rightarrow> execution_authority \<Rightarrow> permission_action
     \<Rightarrow> permission_outcome \<times> permission_reason set" where
  "classify po au a =
     (if pa_permission_policy_ref a \<noteq> policy_ref_of po then (DENY, {WRONG_PERMISSION_POLICY})
      else if pa_authority_ref a \<noteq> authority_ref_of au then (DENY, {STALE_AUTHORITY})
      else case grant_for au a of
        None \<Rightarrow> (DENY, {UNKNOWN_PRINCIPAL})
      | Some g \<Rightarrow>
          (let denied = grant_denials g a; approval = approval_reasons au a
           in if denied \<noteq> {} then (DENY, denied)
              else if approval \<noteq> {} then (REQUIRE_APPROVAL, approval)
              else (ALLOW, {INSIDE_APPROVED_AUTHORITY})))"

definition decision_id_for :: "string \<Rightarrow> string" where
  "decision_id_for act = ''permission-decision://'' @ act"

definition evaluate ::
  "(permission_decision \<Rightarrow> string) \<Rightarrow> autonomy_policy \<Rightarrow> execution_authority \<Rightarrow> permission_action
     \<Rightarrow> contract_audit \<Rightarrow> permission_decision result" where
  "evaluate dg po au a aud =
     (let (oc, reasons) = classify po au a
      in create (permission_decision_class dg) aud
           \<lparr>object_id = [], object_sha256 = [], audit = aud,
            pd_decision_id = decision_id_for (pa_action_id a),
            pd_policy_ref = policy_ref_of po, pd_authority_ref = authority_ref_of au,
            pd_action_ref = action_ref_of a, pd_outcome = oc,
            pd_reason_codes = sorted_list_of_set reasons\<rparr>)"

section \<open>Lemmas\<close>

lemma policy_class_sel [simp]:
  "object_type (policy_class dg) = ''balanced-autonomy-policy''" "digest (policy_class dg) = dg"
  "direct_refs (policy_class dg) = (\<lambda>_. [])"
  "validates (policy_class dg) = (\<lambda>v. is_identifier (po_policy_id v))"
  by (simp_all add: policy_class_def)

lemma authority_class_sel [simp]:
  "object_type (authority_class dg) = ''execution-authority''" "digest (authority_class dg) = dg"
  "direct_refs (authority_class dg) = (\<lambda>v. opt_list (au_predecessor_authority_ref v) @ [au_roster_ref v, au_task_graph_ref v, au_permission_policy_ref v] @ concat (map grant_refs (au_grants v)))"
  "validates (authority_class dg) = validate_authority"
  by (simp_all add: authority_class_def)

lemma action_class_sel [simp]:
  "object_type (action_class dg) = ''permission-action''" "digest (action_class dg) = dg"
  "direct_refs (action_class dg) = (\<lambda>v. [pa_authority_ref v, pa_permission_policy_ref v, pa_principal_ref v, pa_capability_definition_ref v, pa_provider_binding_ref v] @ pa_data_scope_refs v)"
  "validates (action_class dg) = validate_action"
  by (simp_all add: action_class_def)

lemma permission_decision_class_sel [simp]:
  "object_type (permission_decision_class dg) = ''permission-decision''" "digest (permission_decision_class dg) = dg"
  "direct_refs (permission_decision_class dg) = (\<lambda>v. [pd_policy_ref v, pd_authority_ref v, pd_action_ref v])"
  "validates (permission_decision_class dg) = validate_permission_decision"
  by (simp_all add: permission_decision_class_def)

interpretation policy: harness_laws "policy_class dg" for dg
  by unfold_locales (simp_all add: policy_class_def)

interpretation authority: harness_laws "authority_class dg" for dg
  by unfold_locales (simp_all add: authority_class_def)

interpretation action: harness_laws "action_class dg" for dg
  by unfold_locales (simp_all add: action_class_def)

interpretation permission_decision: harness_laws "permission_decision_class dg" for dg
  by unfold_locales (simp_all add: permission_decision_class_def)

lemma grant_denials_empty:
  "grant_denials g a = {} \<longleftrightarrow>
     pa_capability_definition_ref a \<in> set (mg_capability_definition_refs g) \<and>
     pa_provider_binding_ref a \<in> set (mg_provider_binding_refs g) \<and>
     pa_task_id a \<in> set (mg_task_ids g) \<and>
     set (pa_data_scope_refs a) \<subseteq> set (mg_data_scope_refs g) \<and>
     pa_data_purpose a \<in> set (mg_data_purposes g) \<and>
     pa_data_classification a \<in> set (mg_data_classifications g) \<and>
     pa_side_effect a \<in> set (mg_allowed_side_effects g)"
  by (simp add: grant_denials_def)

lemma approval_reasons_empty:
  "approval_reasons au a = {} \<longleftrightarrow>
     \<not> pa_source_admission a \<and> \<not> pa_external_execution a \<and> pa_side_effect a \<noteq> EXTERNAL_EFFECT \<and>
     pa_graph_mutation a \<noteq> AUTHORITY_WIDENING \<and> \<not> pa_destructive a \<and>
     pa_side_effect a \<noteq> IRREVERSIBLE_WRITE \<and> \<not> pa_release a \<and> inside_budget au a \<and>
     (pa_side_effect a = REVERSIBLE_WRITE \<longrightarrow> pa_local_execution a \<and> pa_deterministic a)"
  by (cases "pa_graph_mutation a") (auto simp: approval_reasons_def)

lemma grant_denials_bound: "finite (grant_denials g a) \<and> card (grant_denials g a) \<le> 7"
proof -
  have "grant_denials g a \<subseteq>
     {CAPABILITY_NOT_GRANTED, PROVIDER_NOT_GRANTED, TASK_NOT_GRANTED, DATA_SCOPE_NOT_GRANTED,
      PURPOSE_NOT_GRANTED, CLASSIFICATION_NOT_GRANTED, SIDE_EFFECT_NOT_GRANTED}" (is "_ \<subseteq> ?R")
    by (auto simp: grant_denials_def split: if_splits)
  moreover have "card ?R = 7" by simp
  ultimately show ?thesis
    by (metis card_mono finite.emptyI finite.insertI finite_subset)
qed

lemma approval_reasons_bound: "finite (approval_reasons au a) \<and> card (approval_reasons au a) \<le> 7"
proof -
  have "approval_reasons au a \<subseteq>
     {SOURCE_ADMISSION, EXTERNAL_EXECUTION, GRAPH_AUTHORITY_WIDENING, DESTRUCTIVE_ACTION, RELEASE,
      MODEL_BUDGET_WIDENING, NONDETERMINISTIC_MUTATION}" (is "_ \<subseteq> ?R")
    by (auto simp: approval_reasons_def split: if_splits)
  moreover have "card ?R = 7" by simp
  ultimately show ?thesis
    by (metis card_mono finite.emptyI finite.insertI finite_subset)
qed

lemma grant_forD:
  "grant_for au a = Some g \<Longrightarrow>
     g \<in> set (au_grants au) \<and> mg_member_id g = pa_member_id a \<and> mg_principal_ref g = pa_principal_ref a"
  by (auto simp: grant_for_def dest: find_SomeD)

lemma classify_reasons:
  "classify po au a = (oc, rs) \<Longrightarrow> finite rs \<and> rs \<noteq> {} \<and> card rs \<le> 32"
  using grant_denials_bound approval_reasons_bound
  by (auto simp: classify_def Let_def split: if_splits option.splits)
     (meson le_trans numeral_le_iff semiring_norm)+

lemma classify_ALLOW_reason: "classify po au a = (ALLOW, rs) \<Longrightarrow> rs = {INSIDE_APPROVED_AUTHORITY}"
  by (auto simp: classify_def Let_def split: if_splits option.splits)

lemma sorted_unique_reason_values:
  "finite rs \<Longrightarrow> require_sorted_unique (map reason_value (sorted_list_of_set rs))"
proof -
  assume "finite rs"
  have "sorted (map reason_value (sorted_list_of_set rs))"
    using sorted_sorted_list_of_set [of rs]
    by (simp add: sorted_map sorted_wrt_iff_nth_less less_eq_permission_reason_def)
  then show ?thesis
    by (simp add: require_sorted_unique_iff distinct_map inj_on_def reason_value_inject)
qed

text \<open>
  The evaluator allows an action exactly when it is bound to the evaluated policy and authority,
  the authority holds a grant for its member and principal that covers the capability, provider,
  task, data scope, purpose, classification and side effect, none of the approval conditions of
  Balanced Autonomy holds, and the three model budgets have room for it.
\<close>

theorem classify_ALLOW_iff:
  "fst (classify po au a) = ALLOW \<longleftrightarrow>
     pa_permission_policy_ref a = policy_ref_of po \<and> pa_authority_ref a = authority_ref_of au \<and>
     (\<exists>g. grant_for au a = Some g \<and> grant_denials g a = {}) \<and> approval_reasons au a = {}"
  by (auto simp: classify_def Let_def split: option.splits)

text \<open>
  Whatever the policy, authority and action, the decision the evaluator builds satisfies the
  validator of \<open>PermissionDecisionV1\<close> (a non-empty, sorted, duplicate-free reason list of at most 32
  entries, and the approved-authority reason alone for an allowed action), so evaluation returns a
  decision with the classified outcome, unless the derived decision identifier is malformed, and then
  it raises.
\<close>

theorem evaluate_total:
  "case evaluate dg po au a aud of
     Inr d \<Rightarrow> is_identifier (decision_id_for (pa_action_id a)) \<and>
       validate_permission_decision d \<and> pd_outcome d = fst (classify po au a) \<and>
       set (pd_reason_codes d) = snd (classify po au a) \<and> pd_action_ref d = action_ref_of a
   | Inl e \<Rightarrow> \<not> is_identifier (decision_id_for (pa_action_id a)) \<and>
       e = ValueError ''permission-decision''"
proof -
  obtain oc rs where c: "classify po au a = (oc, rs)" by (cases "classify po au a") auto
  from classify_reasons [OF c] have rs: "finite rs" "rs \<noteq> {}" "card rs \<le> 32" by auto
  have len: "min_length 1 (sorted_list_of_set rs)" "max_length 32 (sorted_list_of_set rs)"
    using rs by (simp_all add: min_length_def max_length_def Suc_le_eq card_gt_0_iff)
  have allow: "oc = ALLOW \<Longrightarrow> sorted_list_of_set rs = [INSIDE_APPROVED_AUTHORITY]"
    using c classify_ALLOW_reason by fastforce
  let ?v = "\<lparr>object_id = [], object_sha256 = [], audit = aud,
            pd_decision_id = decision_id_for (pa_action_id a),
            pd_policy_ref = policy_ref_of po, pd_authority_ref = authority_ref_of au,
            pd_action_ref = action_ref_of a, pd_outcome = oc,
            pd_reason_codes = sorted_list_of_set rs\<rparr>"
  have ev: "evaluate dg po au a aud = create (permission_decision_class dg) aud ?v"
    by (simp add: evaluate_def c)
  have val: "validate_permission_decision
       (?v\<lparr>object_id := i, object_sha256 := h, audit := b\<rparr>) \<longleftrightarrow>
         is_identifier (decision_id_for (pa_action_id a))" for i h b
    using rs len allow sorted_unique_reason_values [OF rs(1)]
    by (auto simp: validate_permission_decision_def)
  show ?thesis
    using val rs by (simp add: ev c permission_decision.create_eq Let_def)
qed

end
