(* ===== verification/Team_Models.thy ===== *)
theory Team_Models
  imports Interaction
begin

text \<open>
  The data model of the Team runtime (\<open>team/models.py\<close>): rosters, task graphs, teams, claims,
  leases, messages, subscriptions, conflicts, projections, checkpoints, task events, convergence
  decisions and outbox records, each with its field bounds and \<open>model_validator\<close>, and the
  acyclicity check of the task graph (\<open>_require_acyclic\<close>). The task event log automaton
  (\<open>validate_team_task_event_log\<close>) is in \<open>Task_Events\<close>.
\<close>

section \<open>Enumerations\<close>

datatype team_lifecycle =
    TL_PROPOSED | TL_FORMING | TL_ACTIVE | TL_CONVERGING | TL_WAITING_USER | TL_WAITING_REVIEW
  | TL_BLOCKED | TL_COMPLETED | TL_FAILED | TL_CANCELLED

datatype member_status =
    MS_PROPOSED | MS_READY | MS_ACTIVE | MS_WAITING | MS_BLOCKED | MS_COMPLETED | MS_FAILED | MS_CANCELLED

datatype task_status =
    PENDING | READY | CLAIMED | ACTIVE | BLOCKED | COMPLETED | FAILED | CANCELLED

datatype message_kind =
    QUESTION | ANSWER | PROPOSAL | CHALLENGE | ACKNOWLEDGEMENT | MK_BLOCKED | HANDOFF
  | REVIEW_REQUEST | REVIEW_RESPONSE | MK_SYSTEM

datatype message_audience = DIRECT | BROADCAST | MA_SYSTEM

datatype conflict_status = OPEN | RESOLVED | SUPERSEDED

datatype task_event_kind =
    EK_CLAIMED | LEASE_ACQUIRED | HEARTBEAT | EXPIRED | RETRY_SCHEDULED | CANCEL_REQUESTED
  | EK_CANCELLED | EK_COMPLETED | EXHAUSTED

datatype convergence_outcome = CONTINUE | REWORK | CO_WAITING_REVIEW | COMPLETE | CO_BLOCKED

datatype outbox_kind =
    TEAM_CHANGED | TEAM_MESSAGE_POSTED | ARTIFACT_HEAD_CHANGED | CONFLICT_OPENED
  | CONFLICT_RESOLVED | TEAM_CHECKPOINTED

section \<open>Members and rosters\<close>

record team_member = harness_object +
  mb_member_id :: string
  mb_member_incarnation_id :: string
  mb_role :: string
  mb_agent_profile_ref :: object_ref
  mb_independent_session_ref :: object_ref
  mb_capability_definition_refs :: "object_ref list"
  mb_status :: member_status
  mb_is_coordinator :: bool

definition validate_member :: "team_member \<Rightarrow> bool" where
  "validate_member v \<longleftrightarrow>
     list_all is_identifier [mb_member_id v, mb_member_incarnation_id v, mb_role v] \<and>
     min_length 1 (mb_capability_definition_refs v) \<and> max_length 256 (mb_capability_definition_refs v) \<and>
     require_ref (mb_agent_profile_ref v) ''pack-agent-profile'' \<and>
     require_ref (mb_independent_session_ref v) ''harness-session'' \<and>
     require_sorted_unique_refs (mb_capability_definition_refs v) \<and>
     refs_of_type (mb_capability_definition_refs v) ''harness-capability-definition''"

definition member_refs :: "team_member \<Rightarrow> object_ref list" where
  "member_refs v =
     [mb_agent_profile_ref v, mb_independent_session_ref v] @ mb_capability_definition_refs v"

definition member_class :: "(team_member \<Rightarrow> string) \<Rightarrow> team_member harness_class" where
  "member_class dg =
     \<lparr>object_type = ''team-member'', digest = dg, direct_refs = member_refs,
      validates = validate_member\<rparr>"

record team_roster = harness_object +
  ro_roster_id :: string
  ro_team_id :: string
  ro_revision :: int
  ro_predecessor_roster_ref :: "object_ref option"
  ro_members :: "team_member list"

definition valid_lineage :: "int \<Rightarrow> object_ref option \<Rightarrow> string \<Rightarrow> bool" where
  "valid_lineage rv pred ty \<longleftrightarrow>
     (if rv = 1 then pred = None else pred \<noteq> None \<and> require_opt_ref pred ty)"

text \<open>
  A roster is parsed with its members: each member's own validators (field checks and derived
  identity, with the member digest) run as part of the roster's.
\<close>

definition validate_roster :: "(team_member \<Rightarrow> string) \<Rightarrow> team_roster \<Rightarrow> bool" where
  "validate_roster dgm v \<longleftrightarrow>
     is_identifier (ro_roster_id v) \<and> is_identifier (ro_team_id v) \<and>
     in_range 1 1000000000 (ro_revision v) \<and>
     min_length 1 (ro_members v) \<and> max_length 1000 (ro_members v) \<and>
     list_all (\<lambda>m. validate_member m \<and> validate_derived_identity (member_class dgm) m) (ro_members v) \<and>
     require_sorted_unique (map mb_member_id (ro_members v)) \<and>
     require_sorted_unique (sort (map mb_member_incarnation_id (ro_members v))) \<and>
     length (filter mb_is_coordinator (ro_members v)) = 1 \<and>
     valid_lineage (ro_revision v) (ro_predecessor_roster_ref v) ''team-roster''"

definition roster_class ::
  "(team_member \<Rightarrow> string) \<Rightarrow> (team_roster \<Rightarrow> string) \<Rightarrow> team_roster harness_class" where
  "roster_class dgm dg =
     \<lparr>object_type = ''team-roster'', digest = dg,
      direct_refs = (\<lambda>v. opt_list (ro_predecessor_roster_ref v) @ concat (map member_refs (ro_members v))),
      validates = validate_roster dgm\<rparr>"

section \<open>Tasks and task graphs\<close>

text \<open>\<open>TeamRosterV1.create\<close> orders the members by their identifier.\<close>

definition create_roster ::
  "(team_member \<Rightarrow> string) \<Rightarrow> (team_roster \<Rightarrow> string) \<Rightarrow> contract_audit \<Rightarrow> team_roster
     \<Rightarrow> team_roster result" where
  "create_roster dgm dg aud v =
     create (roster_class dgm dg) aud (v\<lparr>ro_members := sort_key mb_member_id (ro_members v)\<rparr>)"

record team_task = harness_object +
  tk_task_id :: string
  tk_task_kind :: string
  tk_dependency_task_ids :: "string list"
  tk_assigned_member_id :: "string option"
  tk_capability_definition_ref :: object_ref
  tk_input_artifact_head_ids :: "string list"
  tk_output_artifact_head_ids :: "string list"
  tk_acceptance_check_refs :: "object_ref list"
  tk_status :: task_status
  tk_max_attempts :: int
  tk_max_model_requests :: int
  tk_max_model_tokens :: int
  tk_max_cost_micro_usd :: int

definition validate_task :: "team_task \<Rightarrow> bool" where
  "validate_task v \<longleftrightarrow>
     list_all is_identifier
       ([tk_task_id v, tk_task_kind v] @ tk_dependency_task_ids v @ opt_list (tk_assigned_member_id v) @
        tk_input_artifact_head_ids v @ tk_output_artifact_head_ids v) \<and>
     max_length 10000 (tk_dependency_task_ids v) \<and> max_length 10000 (tk_input_artifact_head_ids v) \<and>
     min_length 1 (tk_output_artifact_head_ids v) \<and> max_length 10000 (tk_output_artifact_head_ids v) \<and>
     min_length 1 (tk_acceptance_check_refs v) \<and> max_length 256 (tk_acceptance_check_refs v) \<and>
     in_range 1 100 (tk_max_attempts v) \<and>
     in_range 0 1000000 (tk_max_model_requests v) \<and>
     in_range 0 1000000000 (tk_max_model_tokens v) \<and>
     in_range 0 1000000000000 (tk_max_cost_micro_usd v) \<and>
     require_sorted_unique (tk_dependency_task_ids v) \<and>
     tk_task_id v \<notin> set (tk_dependency_task_ids v) \<and>
     require_ref (tk_capability_definition_ref v) ''harness-capability-definition'' \<and>
     require_sorted_unique (tk_input_artifact_head_ids v) \<and>
     require_sorted_unique (tk_output_artifact_head_ids v) \<and>
     require_sorted_unique_refs (tk_acceptance_check_refs v)"

definition task_refs :: "team_task \<Rightarrow> object_ref list" where
  "task_refs v = tk_capability_definition_ref v # tk_acceptance_check_refs v"

definition task_class :: "(team_task \<Rightarrow> string) \<Rightarrow> team_task harness_class" where
  "task_class dg =
     \<lparr>object_type = ''team-task'', digest = dg, direct_refs = task_refs, validates = validate_task\<rparr>"

text \<open>\<open>TeamTaskV1.create\<close> sorts the dependency, head and acceptance inventories.\<close>

definition create_task :: "(team_task \<Rightarrow> string) \<Rightarrow> contract_audit \<Rightarrow> team_task \<Rightarrow> team_task result" where
  "create_task dg aud v =
     create (task_class dg) aud
       (v\<lparr>tk_dependency_task_ids := sort (tk_dependency_task_ids v),
          tk_input_artifact_head_ids := sort (tk_input_artifact_head_ids v),
          tk_output_artifact_head_ids := sort (tk_output_artifact_head_ids v),
          tk_acceptance_check_refs := sorted_refs (tk_acceptance_check_refs v)\<rparr>)"

record team_task_graph = harness_object +
  gr_graph_id :: string
  gr_team_id :: string
  gr_revision :: int
  gr_predecessor_graph_ref :: "object_ref option"
  gr_roster_ref :: object_ref
  gr_member_ids :: "string list"
  gr_tasks :: "team_task list"

text \<open>
  \<open>_require_acyclic\<close>: the dictionary from task to its open dependencies is an association list in
  sorted key order (the loop iterates \<open>sorted(dependencies)\<close>); \<open>visit_candidates\<close> is the inner
  \<open>for\<close>, which removes the visited task from every dependency set and appends the tasks that become
  free to the ready list, re-sorting it. A task whose set becomes empty is never already visited,
  the source re-checks it.
\<close>

type_synonym dependencies = "(string \<times> string list) list"

fun visit_candidates ::
  "string \<Rightarrow> string list \<Rightarrow> dependencies \<Rightarrow> string list \<Rightarrow> dependencies \<times> string list" where
  "visit_candidates t visited [] ready = ([], ready)"
| "visit_candidates t visited ((c, ds) # rest) ready =
     (if t \<in> set ds
      then let ds' = removeAll t ds;
               ready' = (if ds' = [] \<and> c \<notin> set visited then sort (ready @ [c]) else ready);
               (rest', ready'') = visit_candidates t visited rest ready'
           in ((c, ds') # rest', ready'')
      else let (rest', ready'') = visit_candidates t visited rest ready
           in ((c, ds) # rest', ready''))"

definition waiting_count :: "dependencies \<Rightarrow> nat" where
  "waiting_count deps = length (filter (\<lambda>(c, ds). ds \<noteq> []) deps)"

lemma visit_candidates_measure:
  "visit_candidates t visited deps ready = (deps', ready') \<Longrightarrow>
     length ready' + waiting_count deps' \<le> length ready + waiting_count deps"
proof (induction t visited deps ready arbitrary: deps' ready' rule: visit_candidates.induct)
  case (1 t visited ready)
  then show ?case by simp
next
  case (2 t visited c ds rest ready)
  from 2 show ?case
    by (cases "t \<in> set ds") (fastforce simp: waiting_count_def Let_def split: prod.splits if_splits)+
qed

function kahn_loop :: "string list \<Rightarrow> string list \<Rightarrow> dependencies \<Rightarrow> string list" where
  "kahn_loop [] visited deps = visited"
| "kahn_loop (t # ready) visited deps =
     (let visited' = visited @ [t];
          (deps', ready') = visit_candidates t visited' deps ready
      in kahn_loop ready' visited' deps')"
  by pat_completeness auto
termination
proof (relation "measure (\<lambda>(ready, visited, deps). length ready + waiting_count deps)")
  show "wf (measure (\<lambda>(ready, visited :: string list, deps). length (ready :: string list) + waiting_count deps))"
    by simp
next
  fix t :: string and ready visited :: "string list" and deps deps' :: dependencies
    and visited' x y ready'
  assume "visited' = visited @ [t]" "x = visit_candidates t visited' deps ready" "(deps', ready') = x"
  then have "visit_candidates t visited' deps ready = (deps', ready')" by simp
  from visit_candidates_measure [OF this]
  show "((ready', visited', deps'), (t # ready, visited, deps))
      \<in> measure (\<lambda>(ready, visited, deps). length ready + waiting_count deps)"
    by simp
qed

definition initial_dependencies :: "team_task list \<Rightarrow> dependencies" where
  "initial_dependencies tasks =
     sort_key fst (map (\<lambda>t. (tk_task_id t, remdups (tk_dependency_task_ids t))) tasks)"

definition require_acyclic :: "team_task list \<Rightarrow> bool" where
  "require_acyclic tasks \<longleftrightarrow>
     (let deps = initial_dependencies tasks;
          ready = sort (map fst (filter (\<lambda>(c, ds). ds = []) deps))
      in length (kahn_loop ready [] deps) = length tasks)"

text \<open>The output-ownership loop of \<open>validate_graph\<close>: one writer task per artifact head.\<close>

fun claim_outputs :: "string \<Rightarrow> string list \<Rightarrow> (string \<rightharpoonup> string) \<Rightarrow> (string \<rightharpoonup> string) option" where
  "claim_outputs t [] owners = Some owners"
| "claim_outputs t (h # hs) owners =
     (case owners h of
        Some p \<Rightarrow> if p \<noteq> t then None else claim_outputs t hs (owners(h \<mapsto> t))
      | None \<Rightarrow> claim_outputs t hs (owners(h \<mapsto> t)))"

fun validate_graph_tasks ::
  "string set \<Rightarrow> string set \<Rightarrow> team_task list \<Rightarrow> (string \<rightharpoonup> string) \<Rightarrow> bool" where
  "validate_graph_tasks known_tasks known_members [] owners = True"
| "validate_graph_tasks known_tasks known_members (t # ts) owners =
     (set (tk_dependency_task_ids t) \<subseteq> known_tasks \<and>
      (case tk_assigned_member_id t of None \<Rightarrow> True | Some m \<Rightarrow> m \<in> known_members) \<and>
      (case claim_outputs (tk_task_id t) (tk_output_artifact_head_ids t) owners of
         None \<Rightarrow> False
       | Some owners' \<Rightarrow> validate_graph_tasks known_tasks known_members ts owners'))"

definition validate_graph :: "(team_task \<Rightarrow> string) \<Rightarrow> team_task_graph \<Rightarrow> bool" where
  "validate_graph dgt v \<longleftrightarrow>
     is_identifier (gr_graph_id v) \<and> is_identifier (gr_team_id v) \<and>
     list_all is_identifier (gr_member_ids v) \<and>
     in_range 1 1000000000 (gr_revision v) \<and>
     min_length 1 (gr_member_ids v) \<and> max_length 1000 (gr_member_ids v) \<and>
     min_length 1 (gr_tasks v) \<and> max_length 100000 (gr_tasks v) \<and>
     list_all (\<lambda>t. validate_task t \<and> validate_derived_identity (task_class dgt) t) (gr_tasks v) \<and>
     require_ref (gr_roster_ref v) ''team-roster'' \<and>
     require_sorted_unique (gr_member_ids v) \<and>
     require_sorted_unique (map tk_task_id (gr_tasks v)) \<and>
     validate_graph_tasks (set (map tk_task_id (gr_tasks v))) (set (gr_member_ids v)) (gr_tasks v)
       Map.empty \<and>
     require_acyclic (gr_tasks v) \<and>
     valid_lineage (gr_revision v) (gr_predecessor_graph_ref v) ''team-task-graph''"

definition graph_class ::
  "(team_task \<Rightarrow> string) \<Rightarrow> (team_task_graph \<Rightarrow> string) \<Rightarrow> team_task_graph harness_class" where
  "graph_class dgt dg =
     \<lparr>object_type = ''team-task-graph'', digest = dg,
      direct_refs = (\<lambda>v. opt_list (gr_predecessor_graph_ref v) @ [gr_roster_ref v] @
                         concat (map task_refs (gr_tasks v))),
      validates = validate_graph dgt\<rparr>"

text \<open>\<open>TeamTaskGraphV1.create\<close> sorts the member inventory and the tasks.\<close>

definition create_graph ::
  "(team_task \<Rightarrow> string) \<Rightarrow> (team_task_graph \<Rightarrow> string) \<Rightarrow> contract_audit \<Rightarrow> team_task_graph
     \<Rightarrow> team_task_graph result" where
  "create_graph dgt dg aud v =
     create (graph_class dgt dg) aud
       (v\<lparr>gr_member_ids := sort (gr_member_ids v), gr_tasks := sort_key tk_task_id (gr_tasks v)\<rparr>)"

section \<open>Team, claims and leases\<close>

record team = harness_object +
  tm_team_id :: string
  tm_team_incarnation_id :: string
  tm_team_version :: int
  tm_goal_ref :: object_ref
  tm_composition_ref :: object_ref
  tm_roster_ref :: object_ref
  tm_task_graph_ref :: object_ref
  tm_authority_ref :: object_ref
  tm_coordinator_member_id :: string
  tm_lifecycle :: team_lifecycle

definition validate_team :: "team \<Rightarrow> bool" where
  "validate_team v \<longleftrightarrow>
     list_all is_identifier [tm_team_id v, tm_team_incarnation_id v, tm_coordinator_member_id v] \<and>
     in_range 1 1000000000 (tm_team_version v) \<and>
     require_ref (tm_composition_ref v) ''harness-composition'' \<and>
     require_ref (tm_roster_ref v) ''team-roster'' \<and>
     require_ref (tm_task_graph_ref v) ''team-task-graph'' \<and>
     require_ref (tm_authority_ref v) ''execution-authority''"

definition team_class :: "(team \<Rightarrow> string) \<Rightarrow> team harness_class" where
  "team_class dg =
     \<lparr>object_type = ''agent-team'', digest = dg,
      direct_refs = (\<lambda>v. [tm_goal_ref v, tm_composition_ref v, tm_roster_ref v, tm_task_graph_ref v,
                          tm_authority_ref v]),
      validates = validate_team\<rparr>"

record task_claim = harness_object +
  cl_claim_id :: string
  cl_team_ref :: object_ref
  cl_task_ref :: object_ref
  cl_member_ref :: object_ref
  cl_graph_revision :: int
  cl_claimed_at :: int

definition validate_claim :: "task_claim \<Rightarrow> bool" where
  "validate_claim v \<longleftrightarrow>
     is_identifier (cl_claim_id v) \<and> in_range 1 1000000000 (cl_graph_revision v) \<and>
     require_ref (cl_team_ref v) ''agent-team'' \<and>
     require_ref (cl_task_ref v) ''team-task'' \<and>
     require_ref (cl_member_ref v) ''team-member''"

definition claim_class :: "(task_claim \<Rightarrow> string) \<Rightarrow> task_claim harness_class" where
  "claim_class dg =
     \<lparr>object_type = ''team-task-claim'', digest = dg,
      direct_refs = (\<lambda>v. [cl_team_ref v, cl_task_ref v, cl_member_ref v]),
      validates = validate_claim\<rparr>"

record task_lease = harness_object +
  le_lease_id :: string
  le_claim_ref :: object_ref
  le_fencing_token :: int
  le_acquired_at :: int
  le_expires_at :: int

definition validate_lease :: "task_lease \<Rightarrow> bool" where
  "validate_lease v \<longleftrightarrow>
     is_identifier (le_lease_id v) \<and> in_range 1 1000000000 (le_fencing_token v) \<and>
     require_ref (le_claim_ref v) ''team-task-claim'' \<and>
     \<not> le_expires_at v \<le> le_acquired_at v"

definition lease_class :: "(task_lease \<Rightarrow> string) \<Rightarrow> task_lease harness_class" where
  "lease_class dg =
     \<lparr>object_type = ''team-task-lease'', digest = dg, direct_refs = (\<lambda>v. [le_claim_ref v]),
      validates = validate_lease\<rparr>"

end
