(* ===== verification/Team_Records.thy ===== *)
theory Team_Records
  imports Team_Models
begin

text \<open>
  The collaboration and history records of \<open>team/models.py\<close>: messages, subscriptions, conflicts,
  member projections, checkpoints, task events, convergence decisions and outbox records, with their
  field bounds and validators, and the identity laws of every Team record class.
\<close>

section \<open>Mailbox and Blackboard records\<close>

record team_message = harness_object +
  ms_message_id :: string
  ms_team_ref :: object_ref
  ms_sender_member_ref :: object_ref
  ms_audience :: message_audience
  ms_recipient_member_refs :: "object_ref list"
  ms_message_kind :: message_kind
  ms_task_ref :: "object_ref option"
  ms_message_body_ref :: object_ref
  ms_artifact_envelope_refs :: "object_ref list"
  ms_reply_to_message_ref :: "object_ref option"

definition validate_message :: "team_message \<Rightarrow> bool" where
  "validate_message v \<longleftrightarrow>
     is_identifier (ms_message_id v) \<and>
     max_length 1000 (ms_recipient_member_refs v) \<and> max_length 10000 (ms_artifact_envelope_refs v) \<and>
     require_ref (ms_team_ref v) ''agent-team'' \<and>
     require_ref (ms_sender_member_ref v) ''team-member'' \<and>
     require_ref (ms_message_body_ref v) ''team-message-body'' \<and>
     require_sorted_unique_refs (ms_recipient_member_refs v) \<and>
     refs_of_type (ms_recipient_member_refs v) ''team-member'' \<and>
     (if ms_audience v = DIRECT then ms_recipient_member_refs v \<noteq> []
      else ms_recipient_member_refs v = []) \<and>
     require_opt_ref (ms_task_ref v) ''team-task'' \<and>
     require_sorted_unique_refs (ms_artifact_envelope_refs v) \<and>
     refs_of_type (ms_artifact_envelope_refs v) ''artifact-envelope'' \<and>
     require_opt_ref (ms_reply_to_message_ref v) ''team-message''"

definition message_class :: "(team_message \<Rightarrow> string) \<Rightarrow> team_message harness_class" where
  "message_class dg =
     \<lparr>object_type = ''team-message'', digest = dg,
      direct_refs = (\<lambda>v. [ms_team_ref v, ms_sender_member_ref v] @ ms_recipient_member_refs v @
                         opt_list (ms_task_ref v) @ [ms_message_body_ref v] @
                         ms_artifact_envelope_refs v @ opt_list (ms_reply_to_message_ref v)),
      validates = validate_message\<rparr>"

text \<open>\<open>TeamMessageV1.create\<close> sorts the recipient and envelope inventories.\<close>

definition create_message ::
  "(team_message \<Rightarrow> string) \<Rightarrow> contract_audit \<Rightarrow> team_message \<Rightarrow> team_message result" where
  "create_message dg aud v =
     create (message_class dg) aud
       (v\<lparr>ms_recipient_member_refs := sorted_refs (ms_recipient_member_refs v),
          ms_artifact_envelope_refs := sorted_refs (ms_artifact_envelope_refs v)\<rparr>)"

record artifact_subscription = harness_object +
  su_subscription_id :: string
  su_team_ref :: object_ref
  su_member_ref :: object_ref
  su_task_ids :: "string list"
  su_artifact_head_ids :: "string list"
  su_semantic_roles :: "string list"
  su_cursor :: int

definition validate_subscription :: "artifact_subscription \<Rightarrow> bool" where
  "validate_subscription v \<longleftrightarrow>
     list_all is_identifier
       (su_subscription_id v # su_task_ids v @ su_artifact_head_ids v @ su_semantic_roles v) \<and>
     max_length 10000 (su_task_ids v) \<and> max_length 10000 (su_artifact_head_ids v) \<and>
     max_length 256 (su_semantic_roles v) \<and> in_range 0 1000000000 (su_cursor v) \<and>
     require_ref (su_team_ref v) ''agent-team'' \<and>
     require_ref (su_member_ref v) ''team-member'' \<and>
     require_sorted_unique (su_task_ids v) \<and> require_sorted_unique (su_artifact_head_ids v) \<and>
     require_sorted_unique (su_semantic_roles v) \<and>
     \<not> (su_task_ids v = [] \<and> su_artifact_head_ids v = [] \<and> su_semantic_roles v = [])"

definition subscription_class ::
  "(artifact_subscription \<Rightarrow> string) \<Rightarrow> artifact_subscription harness_class" where
  "subscription_class dg =
     \<lparr>object_type = ''artifact-subscription'', digest = dg,
      direct_refs = (\<lambda>v. [su_team_ref v, su_member_ref v]),
      validates = validate_subscription\<rparr>"

record team_conflict = harness_object +
  cf_conflict_id :: string
  cf_team_ref :: object_ref
  cf_task_ref :: object_ref
  cf_artifact_envelope_refs :: "object_ref list"
  cf_status :: conflict_status
  cf_resolution_artifact_ref :: "object_ref option"
  cf_resolved_by_member_ref :: "object_ref option"

definition validate_conflict :: "team_conflict \<Rightarrow> bool" where
  "validate_conflict v \<longleftrightarrow>
     is_identifier (cf_conflict_id v) \<and>
     min_length 2 (cf_artifact_envelope_refs v) \<and> max_length 100 (cf_artifact_envelope_refs v) \<and>
     require_ref (cf_team_ref v) ''agent-team'' \<and>
     require_ref (cf_task_ref v) ''team-task'' \<and>
     require_sorted_unique_refs (cf_artifact_envelope_refs v) \<and>
     refs_of_type (cf_artifact_envelope_refs v) ''artifact-envelope'' \<and>
     (cf_status v \<noteq> OPEN) =
       (cf_resolution_artifact_ref v \<noteq> None \<and> cf_resolved_by_member_ref v \<noteq> None) \<and>
     require_opt_ref (cf_resolution_artifact_ref v) ''artifact-envelope'' \<and>
     require_opt_ref (cf_resolved_by_member_ref v) ''team-member''"

definition conflict_class :: "(team_conflict \<Rightarrow> string) \<Rightarrow> team_conflict harness_class" where
  "conflict_class dg =
     \<lparr>object_type = ''team-conflict'', digest = dg,
      direct_refs = (\<lambda>v. [cf_team_ref v, cf_task_ref v] @ cf_artifact_envelope_refs v @
                         opt_list (cf_resolution_artifact_ref v) @ opt_list (cf_resolved_by_member_ref v)),
      validates = validate_conflict\<rparr>"

section \<open>Projections and checkpoints\<close>

definition typed_inventory :: "object_ref list \<Rightarrow> string \<Rightarrow> bool" where
  "typed_inventory refs ty \<longleftrightarrow> require_sorted_unique_refs refs \<and> refs_of_type refs ty"

record member_projection = harness_object +
  pr_projection_id :: string
  pr_team_ref :: object_ref
  pr_member_ref :: object_ref
  pr_authority_ref :: object_ref
  pr_task_refs :: "object_ref list"
  pr_artifact_envelope_refs :: "object_ref list"
  pr_message_refs :: "object_ref list"
  pr_subscription_refs :: "object_ref list"
  pr_acceptance_check_refs :: "object_ref list"

definition validate_projection :: "member_projection \<Rightarrow> bool" where
  "validate_projection v \<longleftrightarrow>
     is_identifier (pr_projection_id v) \<and>
     max_length 10000 (pr_task_refs v) \<and> max_length 10000 (pr_artifact_envelope_refs v) \<and>
     max_length 10000 (pr_message_refs v) \<and> max_length 10000 (pr_subscription_refs v) \<and>
     max_length 1000 (pr_acceptance_check_refs v) \<and>
     require_ref (pr_team_ref v) ''agent-team'' \<and>
     require_ref (pr_member_ref v) ''team-member'' \<and>
     require_ref (pr_authority_ref v) ''execution-authority'' \<and>
     typed_inventory (pr_task_refs v) ''team-task'' \<and>
     typed_inventory (pr_artifact_envelope_refs v) ''artifact-envelope'' \<and>
     typed_inventory (pr_message_refs v) ''team-message'' \<and>
     typed_inventory (pr_subscription_refs v) ''artifact-subscription'' \<and>
     require_sorted_unique_refs (pr_acceptance_check_refs v)"

definition projection_class :: "(member_projection \<Rightarrow> string) \<Rightarrow> member_projection harness_class" where
  "projection_class dg =
     \<lparr>object_type = ''member-context-projection'', digest = dg,
      direct_refs = (\<lambda>v. [pr_team_ref v, pr_member_ref v, pr_authority_ref v] @ pr_task_refs v @
                         pr_artifact_envelope_refs v @ pr_message_refs v @ pr_subscription_refs v @
                         pr_acceptance_check_refs v),
      validates = validate_projection\<rparr>"

record team_checkpoint = harness_object +
  ck_checkpoint_id :: string
  ck_team_ref :: object_ref
  ck_roster_ref :: object_ref
  ck_task_graph_ref :: object_ref
  ck_authority_ref :: object_ref
  ck_artifact_head_refs :: "object_ref list"
  ck_subscription_refs :: "object_ref list"
  ck_member_session_refs :: "object_ref list"
  ck_message_cursor :: int

definition validate_checkpoint :: "team_checkpoint \<Rightarrow> bool" where
  "validate_checkpoint v \<longleftrightarrow>
     is_identifier (ck_checkpoint_id v) \<and>
     max_length 100000 (ck_artifact_head_refs v) \<and> max_length 100000 (ck_subscription_refs v) \<and>
     min_length 1 (ck_member_session_refs v) \<and> max_length 1000 (ck_member_session_refs v) \<and>
     in_range 0 1000000000 (ck_message_cursor v) \<and>
     require_ref (ck_team_ref v) ''agent-team'' \<and>
     require_ref (ck_roster_ref v) ''team-roster'' \<and>
     require_ref (ck_task_graph_ref v) ''team-task-graph'' \<and>
     require_ref (ck_authority_ref v) ''execution-authority'' \<and>
     typed_inventory (ck_artifact_head_refs v) ''artifact-head'' \<and>
     typed_inventory (ck_subscription_refs v) ''artifact-subscription'' \<and>
     typed_inventory (ck_member_session_refs v) ''harness-session''"

definition checkpoint_class :: "(team_checkpoint \<Rightarrow> string) \<Rightarrow> team_checkpoint harness_class" where
  "checkpoint_class dg =
     \<lparr>object_type = ''team-checkpoint'', digest = dg,
      direct_refs = (\<lambda>v. [ck_team_ref v, ck_roster_ref v, ck_task_graph_ref v, ck_authority_ref v] @
                         ck_artifact_head_refs v @ ck_subscription_refs v @ ck_member_session_refs v),
      validates = validate_checkpoint\<rparr>"

section \<open>Task events\<close>

record task_event = harness_object +
  ev_event_key :: string
  ev_team_ref :: object_ref
  ev_task_ref :: object_ref
  ev_graph_ref :: object_ref
  ev_graph_revision :: int
  ev_task_event_version :: int
  ev_attempt :: int
  ev_event_kind :: task_event_kind
  ev_status_after :: task_status
  ev_claim_ref :: "object_ref option"
  ev_lease_ref :: "object_ref option"
  ev_fencing_token :: "int option"
  ev_effective_expires_at :: "int option"
  ev_capability_call_ref :: "object_ref option"
  ev_capability_result_ref :: "object_ref option"
  ev_reason_code :: "string option"
  ev_occurred_at :: int

fun lease_bound_kind :: "task_event_kind \<Rightarrow> bool" where
  "lease_bound_kind EK_CLAIMED = False"
| "lease_bound_kind RETRY_SCHEDULED = False"
| "lease_bound_kind k = True"

fun expected_statuses :: "task_event_kind \<Rightarrow> task_status set option" where
  "expected_statuses EXPIRED = Some {BLOCKED}"
| "expected_statuses RETRY_SCHEDULED = Some {PENDING, READY}"
| "expected_statuses EK_CANCELLED = Some {CANCELLED}"
| "expected_statuses EK_COMPLETED = Some {COMPLETED, FAILED}"
| "expected_statuses EXHAUSTED = Some {FAILED}"
| "expected_statuses k = None"

definition reason_required :: "task_event \<Rightarrow> bool" where
  "reason_required v \<longleftrightarrow>
     ev_event_kind v \<in> {EXPIRED, EK_CANCELLED, EXHAUSTED} \<or>
     (ev_event_kind v = EK_COMPLETED \<and> ev_status_after v = FAILED)"

definition reason_allowed :: "task_event \<Rightarrow> bool" where
  "reason_allowed v \<longleftrightarrow> reason_required v \<or> ev_event_kind v = RETRY_SCHEDULED"

definition validate_task_event :: "task_event \<Rightarrow> bool" where
  "validate_task_event v \<longleftrightarrow>
     is_identifier (ev_event_key v) \<and> list_all is_identifier (opt_list (ev_reason_code v)) \<and>
     in_range 1 1000000000 (ev_graph_revision v) \<and>
     in_range 1 1000000000 (ev_task_event_version v) \<and>
     in_range 1 100 (ev_attempt v) \<and>
     list_all (in_range 1 1000000000) (opt_list (ev_fencing_token v)) \<and>
     require_ref (ev_team_ref v) ''agent-team'' \<and>
     require_ref (ev_task_ref v) ''team-task'' \<and>
     require_ref (ev_graph_ref v) ''team-task-graph'' \<and>
     require_opt_ref (ev_claim_ref v) ''team-task-claim'' \<and>
     require_opt_ref (ev_lease_ref v) ''team-task-lease'' \<and>
     lease_bound_kind (ev_event_kind v) =
       (ev_claim_ref v \<noteq> None \<and> ev_lease_ref v \<noteq> None \<and> ev_fencing_token v \<noteq> None) \<and>
     \<not> (ev_event_kind v = EK_CLAIMED \<and> (ev_claim_ref v = None \<or> ev_status_after v \<noteq> CLAIMED)) \<and>
     \<not> (ev_event_kind v \<in> {LEASE_ACQUIRED, HEARTBEAT, CANCEL_REQUESTED} \<and>
        ev_status_after v \<noteq> ACTIVE) \<and>
     \<not> (ev_event_kind v \<in> {LEASE_ACQUIRED, HEARTBEAT} \<and> ev_effective_expires_at v = None) \<and>
     (ev_event_kind v = EK_COMPLETED) =
       (ev_capability_call_ref v \<noteq> None \<and> ev_capability_result_ref v \<noteq> None) \<and>
     require_opt_ref (ev_capability_call_ref v) ''harness-capability-call'' \<and>
     require_opt_ref (ev_capability_result_ref v) ''harness-capability-result'' \<and>
     (case expected_statuses (ev_event_kind v) of None \<Rightarrow> True
      | Some allowed \<Rightarrow> ev_status_after v \<in> allowed) \<and>
     \<not> ((reason_required v \<and> ev_reason_code v = None) \<or>
        (\<not> reason_allowed v \<and> ev_reason_code v \<noteq> None))"

definition event_class :: "(task_event \<Rightarrow> string) \<Rightarrow> task_event harness_class" where
  "event_class dg =
     \<lparr>object_type = ''team-task-event'', digest = dg,
      direct_refs = (\<lambda>v. [ev_team_ref v, ev_task_ref v, ev_graph_ref v] @
                         opt_list (ev_claim_ref v) @ opt_list (ev_lease_ref v) @
                         opt_list (ev_capability_call_ref v) @ opt_list (ev_capability_result_ref v)),
      validates = validate_task_event\<rparr>"

section \<open>Convergence decisions and outbox records\<close>

record convergence_decision = harness_object +
  dc_decision_key :: string
  dc_team_ref :: object_ref
  dc_graph_ref :: object_ref
  dc_authority_ref :: object_ref
  dc_checkpoint_ref :: object_ref
  dc_outcome :: convergence_outcome
  dc_blocking_refs :: "object_ref list"
  dc_successor_team_ref :: "object_ref option"
  dc_successor_graph_ref :: "object_ref option"
  dc_successor_authority_ref :: "object_ref option"
  dc_reason_codes :: "string list"

definition validate_decision :: "convergence_decision \<Rightarrow> bool" where
  "validate_decision v \<longleftrightarrow>
     is_identifier (dc_decision_key v) \<and> list_all is_identifier (dc_reason_codes v) \<and>
     max_length 100000 (dc_blocking_refs v) \<and> max_length 64 (dc_reason_codes v) \<and>
     require_ref (dc_team_ref v) ''agent-team'' \<and>
     require_ref (dc_graph_ref v) ''team-task-graph'' \<and>
     require_ref (dc_authority_ref v) ''execution-authority'' \<and>
     require_ref (dc_checkpoint_ref v) ''team-checkpoint'' \<and>
     require_sorted_unique_refs (dc_blocking_refs v) \<and>
     require_sorted_unique (dc_reason_codes v) \<and>
     (if dc_outcome v = REWORK
      then dc_successor_team_ref v \<noteq> None \<and> dc_successor_graph_ref v \<noteq> None \<and>
           dc_successor_authority_ref v \<noteq> None \<and>
           require_opt_ref (dc_successor_team_ref v) ''agent-team'' \<and>
           require_opt_ref (dc_successor_graph_ref v) ''team-task-graph'' \<and>
           require_opt_ref (dc_successor_authority_ref v) ''execution-authority''
      else dc_successor_team_ref v = None \<and> dc_successor_graph_ref v = None \<and>
           dc_successor_authority_ref v = None) \<and>
     \<not> (dc_outcome v = COMPLETE \<and> dc_blocking_refs v \<noteq> []) \<and>
     \<not> (dc_outcome v \<noteq> COMPLETE \<and> dc_reason_codes v = [])"

definition decision_class :: "(convergence_decision \<Rightarrow> string) \<Rightarrow> convergence_decision harness_class" where
  "decision_class dg =
     \<lparr>object_type = ''team-convergence-decision'', digest = dg,
      direct_refs = (\<lambda>v. [dc_team_ref v, dc_graph_ref v, dc_authority_ref v, dc_checkpoint_ref v] @
                         dc_blocking_refs v @ opt_list (dc_successor_team_ref v) @
                         opt_list (dc_successor_graph_ref v) @ opt_list (dc_successor_authority_ref v)),
      validates = validate_decision\<rparr>"

text \<open>\<open>TeamConvergenceDecisionV1.create\<close> sorts the blocking references and the reason codes.\<close>

definition create_decision ::
  "(convergence_decision \<Rightarrow> string) \<Rightarrow> contract_audit \<Rightarrow> convergence_decision
     \<Rightarrow> convergence_decision result" where
  "create_decision dg aud v =
     create (decision_class dg) aud
       (v\<lparr>dc_blocking_refs := sorted_refs (dc_blocking_refs v),
          dc_reason_codes := sort (dc_reason_codes v)\<rparr>)"

record outbox_record = harness_object +
  ob_outbox_key :: string
  ob_team_id :: string
  ob_sequence :: int
  ob_event_kind :: outbox_kind
  ob_aggregate_ref :: object_ref
  ob_record_ref :: object_ref
  ob_intended_member_session_refs :: "object_ref list"
  ob_occurred_at :: int

fun outbox_record_type :: "outbox_kind \<Rightarrow> string" where
  "outbox_record_type TEAM_CHANGED = ''agent-team''"
| "outbox_record_type TEAM_MESSAGE_POSTED = ''team-message''"
| "outbox_record_type ARTIFACT_HEAD_CHANGED = ''artifact-head''"
| "outbox_record_type CONFLICT_OPENED = ''team-conflict''"
| "outbox_record_type CONFLICT_RESOLVED = ''team-conflict''"
| "outbox_record_type TEAM_CHECKPOINTED = ''team-checkpoint''"

definition validate_outbox :: "outbox_record \<Rightarrow> bool" where
  "validate_outbox v \<longleftrightarrow>
     is_identifier (ob_outbox_key v) \<and> is_identifier (ob_team_id v) \<and>
     in_range 1 1000000000 (ob_sequence v) \<and>
     max_length 1000 (ob_intended_member_session_refs v) \<and>
     require_ref (ob_aggregate_ref v) ''agent-team'' \<and>
     ref_type (ob_record_ref v) = outbox_record_type (ob_event_kind v) \<and>
     require_sorted_unique_refs (ob_intended_member_session_refs v) \<and>
     refs_of_type (ob_intended_member_session_refs v) ''harness-session''"

definition outbox_class :: "(outbox_record \<Rightarrow> string) \<Rightarrow> outbox_record harness_class" where
  "outbox_class dg =
     \<lparr>object_type = ''team-outbox-record'', digest = dg,
      direct_refs = (\<lambda>v. [ob_aggregate_ref v, ob_record_ref v] @ ob_intended_member_session_refs v),
      validates = validate_outbox\<rparr>"

text \<open>\<open>TeamOutboxRecordV1.create\<close> sorts the recipient sessions.\<close>

definition create_outbox ::
  "(outbox_record \<Rightarrow> string) \<Rightarrow> contract_audit \<Rightarrow> outbox_record \<Rightarrow> outbox_record result" where
  "create_outbox dg aud v =
     create (outbox_class dg) aud
       (v\<lparr>ob_intended_member_session_refs := sorted_refs (ob_intended_member_session_refs v)\<rparr>)"

section \<open>References and identity laws\<close>

abbreviation team_ref_of :: "team \<Rightarrow> object_ref" where
  "team_ref_of \<equiv> to_ref ''agent-team''"

abbreviation roster_ref_of :: "team_roster \<Rightarrow> object_ref" where
  "roster_ref_of \<equiv> to_ref ''team-roster''"

abbreviation graph_ref_of :: "team_task_graph \<Rightarrow> object_ref" where
  "graph_ref_of \<equiv> to_ref ''team-task-graph''"

abbreviation task_ref_of :: "team_task \<Rightarrow> object_ref" where
  "task_ref_of \<equiv> to_ref ''team-task''"

abbreviation member_ref_of :: "team_member \<Rightarrow> object_ref" where
  "member_ref_of \<equiv> to_ref ''team-member''"

abbreviation claim_ref_of :: "task_claim \<Rightarrow> object_ref" where
  "claim_ref_of \<equiv> to_ref ''team-task-claim''"

abbreviation lease_ref_of :: "task_lease \<Rightarrow> object_ref" where
  "lease_ref_of \<equiv> to_ref ''team-task-lease''"

abbreviation message_ref_of :: "team_message \<Rightarrow> object_ref" where
  "message_ref_of \<equiv> to_ref ''team-message''"

abbreviation conflict_ref_of :: "team_conflict \<Rightarrow> object_ref" where
  "conflict_ref_of \<equiv> to_ref ''team-conflict''"

abbreviation subscription_ref_of :: "artifact_subscription \<Rightarrow> object_ref" where
  "subscription_ref_of \<equiv> to_ref ''artifact-subscription''"

abbreviation checkpoint_ref_of :: "team_checkpoint \<Rightarrow> object_ref" where
  "checkpoint_ref_of \<equiv> to_ref ''team-checkpoint''"

abbreviation outbox_ref_of :: "outbox_record \<Rightarrow> object_ref" where
  "outbox_ref_of \<equiv> to_ref ''team-outbox-record''"

lemma member_class_sel [simp]:
  "object_type (member_class dg) = ''team-member''" "digest (member_class dg) = dg"
  "direct_refs (member_class dg) = member_refs"
  "validates (member_class dg) = validate_member"
  by (simp_all add: member_class_def)

lemma roster_class_sel [simp]:
  "object_type (roster_class dgm dg) = ''team-roster''" "digest (roster_class dgm dg) = dg"
  "direct_refs (roster_class dgm dg) = (\<lambda>v. opt_list (ro_predecessor_roster_ref v) @ concat (map member_refs (ro_members v)))"
  "validates (roster_class dgm dg) = validate_roster dgm"
  by (simp_all add: roster_class_def)

lemma task_class_sel [simp]:
  "object_type (task_class dg) = ''team-task''" "digest (task_class dg) = dg"
  "direct_refs (task_class dg) = task_refs"
  "validates (task_class dg) = validate_task"
  by (simp_all add: task_class_def)

lemma graph_class_sel [simp]:
  "object_type (graph_class dgt dg) = ''team-task-graph''" "digest (graph_class dgt dg) = dg"
  "direct_refs (graph_class dgt dg) = (\<lambda>v. opt_list (gr_predecessor_graph_ref v) @ [gr_roster_ref v] @ concat (map task_refs (gr_tasks v)))"
  "validates (graph_class dgt dg) = validate_graph dgt"
  by (simp_all add: graph_class_def)

lemma team_class_sel [simp]:
  "object_type (team_class dg) = ''agent-team''" "digest (team_class dg) = dg"
  "direct_refs (team_class dg) = (\<lambda>v. [tm_goal_ref v, tm_composition_ref v, tm_roster_ref v, tm_task_graph_ref v, tm_authority_ref v])"
  "validates (team_class dg) = validate_team"
  by (simp_all add: team_class_def)

lemma claim_class_sel [simp]:
  "object_type (claim_class dg) = ''team-task-claim''" "digest (claim_class dg) = dg"
  "direct_refs (claim_class dg) = (\<lambda>v. [cl_team_ref v, cl_task_ref v, cl_member_ref v])"
  "validates (claim_class dg) = validate_claim"
  by (simp_all add: claim_class_def)

lemma lease_class_sel [simp]:
  "object_type (lease_class dg) = ''team-task-lease''" "digest (lease_class dg) = dg"
  "direct_refs (lease_class dg) = (\<lambda>v. [le_claim_ref v])"
  "validates (lease_class dg) = validate_lease"
  by (simp_all add: lease_class_def)

lemma message_class_sel [simp]:
  "object_type (message_class dg) = ''team-message''" "digest (message_class dg) = dg"
  "direct_refs (message_class dg) = (\<lambda>v. [ms_team_ref v, ms_sender_member_ref v] @ ms_recipient_member_refs v @ opt_list (ms_task_ref v) @ [ms_message_body_ref v] @ ms_artifact_envelope_refs v @ opt_list (ms_reply_to_message_ref v))"
  "validates (message_class dg) = validate_message"
  by (simp_all add: message_class_def)

lemma subscription_class_sel [simp]:
  "object_type (subscription_class dg) = ''artifact-subscription''" "digest (subscription_class dg) = dg"
  "direct_refs (subscription_class dg) = (\<lambda>v. [su_team_ref v, su_member_ref v])"
  "validates (subscription_class dg) = validate_subscription"
  by (simp_all add: subscription_class_def)

lemma conflict_class_sel [simp]:
  "object_type (conflict_class dg) = ''team-conflict''" "digest (conflict_class dg) = dg"
  "direct_refs (conflict_class dg) = (\<lambda>v. [cf_team_ref v, cf_task_ref v] @ cf_artifact_envelope_refs v @ opt_list (cf_resolution_artifact_ref v) @ opt_list (cf_resolved_by_member_ref v))"
  "validates (conflict_class dg) = validate_conflict"
  by (simp_all add: conflict_class_def)

lemma projection_class_sel [simp]:
  "object_type (projection_class dg) = ''member-context-projection''" "digest (projection_class dg) = dg"
  "direct_refs (projection_class dg) = (\<lambda>v. [pr_team_ref v, pr_member_ref v, pr_authority_ref v] @ pr_task_refs v @ pr_artifact_envelope_refs v @ pr_message_refs v @ pr_subscription_refs v @ pr_acceptance_check_refs v)"
  "validates (projection_class dg) = validate_projection"
  by (simp_all add: projection_class_def)

lemma checkpoint_class_sel [simp]:
  "object_type (checkpoint_class dg) = ''team-checkpoint''" "digest (checkpoint_class dg) = dg"
  "direct_refs (checkpoint_class dg) = (\<lambda>v. [ck_team_ref v, ck_roster_ref v, ck_task_graph_ref v, ck_authority_ref v] @ ck_artifact_head_refs v @ ck_subscription_refs v @ ck_member_session_refs v)"
  "validates (checkpoint_class dg) = validate_checkpoint"
  by (simp_all add: checkpoint_class_def)

lemma event_class_sel [simp]:
  "object_type (event_class dg) = ''team-task-event''" "digest (event_class dg) = dg"
  "direct_refs (event_class dg) = (\<lambda>v. [ev_team_ref v, ev_task_ref v, ev_graph_ref v] @ opt_list (ev_claim_ref v) @ opt_list (ev_lease_ref v) @ opt_list (ev_capability_call_ref v) @ opt_list (ev_capability_result_ref v))"
  "validates (event_class dg) = validate_task_event"
  by (simp_all add: event_class_def)

lemma decision_class_sel [simp]:
  "object_type (decision_class dg) = ''team-convergence-decision''" "digest (decision_class dg) = dg"
  "direct_refs (decision_class dg) = (\<lambda>v. [dc_team_ref v, dc_graph_ref v, dc_authority_ref v, dc_checkpoint_ref v] @ dc_blocking_refs v @ opt_list (dc_successor_team_ref v) @ opt_list (dc_successor_graph_ref v) @ opt_list (dc_successor_authority_ref v))"
  "validates (decision_class dg) = validate_decision"
  by (simp_all add: decision_class_def)

lemma outbox_class_sel [simp]:
  "object_type (outbox_class dg) = ''team-outbox-record''" "digest (outbox_class dg) = dg"
  "direct_refs (outbox_class dg) = (\<lambda>v. [ob_aggregate_ref v, ob_record_ref v] @ ob_intended_member_session_refs v)"
  "validates (outbox_class dg) = validate_outbox"
  by (simp_all add: outbox_class_def)

interpretation team_member: harness_laws "member_class dg" for dg
  by unfold_locales (simp_all add: member_refs_def)

interpretation roster: harness_laws "roster_class dgm dg" for dgm dg
  by unfold_locales simp_all

interpretation task: harness_laws "task_class dg" for dg
  by unfold_locales (simp_all add: task_refs_def)

interpretation graph: harness_laws "graph_class dgt dg" for dgt dg
  by unfold_locales simp_all

interpretation team: harness_laws "team_class dg" for dg
  by unfold_locales simp_all

interpretation claim: harness_laws "claim_class dg" for dg
  by unfold_locales simp_all

interpretation lease: harness_laws "lease_class dg" for dg
  by unfold_locales simp_all

interpretation message: harness_laws "message_class dg" for dg
  by unfold_locales simp_all

interpretation subscription: harness_laws "subscription_class dg" for dg
  by unfold_locales simp_all

interpretation conflict: harness_laws "conflict_class dg" for dg
  by unfold_locales simp_all

interpretation projection: harness_laws "projection_class dg" for dg
  by unfold_locales simp_all

interpretation checkpoint: harness_laws "checkpoint_class dg" for dg
  by unfold_locales simp_all

interpretation event: harness_laws "event_class dg" for dg
  by unfold_locales simp_all

interpretation decision: harness_laws "decision_class dg" for dg
  by unfold_locales simp_all

interpretation outbox: harness_laws "outbox_class dg" for dg
  by unfold_locales simp_all

end
