(* ===== verification/Task_Graph.thy ===== *)
theory Task_Graph
  imports Team_Records
begin

text \<open>
  Correctness of the task-graph validator of \<open>team/models.py\<close>: the ready-list loop of
  \<open>_require_acyclic\<close> accepts exactly the acyclic dependency graphs and visits the tasks in dependency
  order, and a graph that passes \<open>validate_graph\<close> gives every artifact head at most one writer.
\<close>

section \<open>Specification\<close>

definition dep_edges :: "team_task list \<Rightarrow> (string \<times> string) set" where
  "dep_edges tasks = {(d, tk_task_id t) | t d. t \<in> set tasks \<and> d \<in> set (tk_dependency_task_ids t)}"

definition deps_known :: "team_task list \<Rightarrow> bool" where
  "deps_known tasks \<longleftrightarrow>
     distinct (map tk_task_id tasks) \<and>
     list_all (\<lambda>t. set (tk_dependency_task_ids t) \<subseteq> set (map tk_task_id tasks)) tasks"

definition kahn_inv :: "dependencies \<Rightarrow> string list \<Rightarrow> string list \<Rightarrow> dependencies \<Rightarrow> bool" where
  "kahn_inv deps0 ready visited deps \<longleftrightarrow>
     deps = map (\<lambda>(c, ds). (c, filter (\<lambda>d. d \<notin> set visited) ds)) deps0 \<and>
     distinct (ready @ visited) \<and>
     set ready \<union> set visited \<subseteq> fst ` set deps0 \<and>
     (\<forall>c ds. (c, ds) \<in> set deps0 \<longrightarrow>
        (c \<in> set ready \<union> set visited \<longleftrightarrow> set ds \<subseteq> set visited)) \<and>
     (\<forall>i c ds. i < length visited \<longrightarrow> (c, ds) \<in> set deps0 \<longrightarrow> c = visited ! i \<longrightarrow>
        set ds \<subseteq> set (take i visited))"

text \<open>Concrete tasks for the witnesses.\<close>

definition sample_ref :: "string \<Rightarrow> object_ref" where
  "sample_ref ty = ObjectRef ty ''sample'' ''v1'' ''0''"

definition sample_audit :: contract_audit where
  "sample_audit =
     \<lparr>created_at = 0, created_by = ''sample'',
      governing_versions = [VersionBinding ''sample'' ''1'' None], input_refs = []\<rparr>"

definition sample_task :: "string \<Rightarrow> string list \<Rightarrow> string option \<Rightarrow> team_task" where
  "sample_task tid deps who =
     projr (create (task_class tk_task_id) sample_audit
       \<lparr>object_id = [], object_sha256 = [], audit = sample_audit,
        tk_task_id = tid, tk_task_kind = ''kind'', tk_dependency_task_ids = deps,
        tk_assigned_member_id = who,
        tk_capability_definition_ref = sample_ref ''harness-capability-definition'',
        tk_input_artifact_head_ids = [], tk_output_artifact_head_ids = [tid @ ''.out''],
        tk_acceptance_check_refs = [sample_ref ''acceptance-check''], tk_status = PENDING,
        tk_max_attempts = 2, tk_max_model_requests = 5, tk_max_model_tokens = 5,
        tk_max_cost_micro_usd = 5\<rparr>)"

definition sample_graph :: team_task_graph where
  "sample_graph =
     \<lparr>object_id = [], object_sha256 = [], audit = sample_audit, gr_graph_id = ''graph'',
      gr_team_id = ''team'', gr_revision = 1, gr_predecessor_graph_ref = None,
      gr_roster_ref = sample_ref ''team-roster'', gr_member_ids = [''worker''],
      gr_tasks = [sample_task ''task-a'' [''task-b''] (Some ''worker''), sample_task ''task-b'' [] None]\<rparr>"

section \<open>The inner loop\<close>

lemma visit_candidates_deps:
  "fst (visit_candidates t visited deps ready) = map (\<lambda>(c, ds). (c, removeAll t ds)) deps"
proof (induction deps arbitrary: ready)
  case Nil
  then show ?case by simp
next
  case (Cons p deps)
  obtain c ds where p: "p = (c, ds)" by (cases p)
  show ?case
    by (cases "t \<in> set ds") (simp_all add: p Let_def case_prod_unfold Cons.IH)
qed

lemma visit_candidates_ready:
  "mset (snd (visit_candidates t visited deps ready)) =
     mset ready + mset (map fst (filter (\<lambda>(c, ds). t \<in> set ds \<and> set ds \<subseteq> {t} \<and> c \<notin> set visited) deps))"
proof (induction deps arbitrary: ready)
  case Nil
  then show ?case by simp
next
  case (Cons p deps)
  obtain c ds where p: "p = (c, ds)" by (cases p)
  have "removeAll t ds = [] \<longleftrightarrow> set ds \<subseteq> {t}"
    by (metis Diff_eq_empty_iff set_empty set_removeAll)
  then show ?case
    by (cases "t \<in> set ds") (simp_all add: p Let_def case_prod_unfold Cons.IH)
qed

lemma kahn_inv_step:
  assumes inv: "kahn_inv deps0 (t # ready) visited deps"
    and dist0: "distinct (map fst deps0)"
    and step: "visit_candidates t (visited @ [t]) deps ready = (deps', ready')"
  shows "kahn_inv deps0 ready' (visited @ [t]) deps'"
proof -
  let ?keep = "\<lambda>V (c, ds). (c :: string, filter (\<lambda>d. d \<notin> set V) ds)"
  note I = inv [unfolded kahn_inv_def]
  from I have deps: "deps = map (?keep visited) deps0" by (elim conjE)
  from I have dist: "distinct (t # ready @ visited)" by simp
  from I have sub: "insert t (set ready) \<union> set visited \<subseteq> fst ` set deps0" by simp
  from I have iff: "\<And>c ds. (c, ds) \<in> set deps0 \<Longrightarrow>
        c \<in> insert t (set ready) \<union> set visited \<longleftrightarrow> set ds \<subseteq> set visited" by simp
  from I have topo: "\<And>i c ds. i < length visited \<Longrightarrow> (c, ds) \<in> set deps0 \<Longrightarrow> c = visited ! i \<Longrightarrow>
        set ds \<subseteq> set (take i visited)" by blast
  define fresh where "fresh = map fst (filter (\<lambda>(c, ds). t \<in> set ds \<and> set ds \<subseteq> {t} \<and> c \<notin> set (visited @ [t])) deps)"
  have deps': "deps' = map (?keep (visited @ [t])) deps0"
  proof -
    have "deps' = map (\<lambda>(c, ds). (c, removeAll t ds)) deps"
      using visit_candidates_deps [of t "visited @ [t]" deps ready] step by simp
    also have "\<dots> = map (?keep (visited @ [t])) deps0"
      unfolding deps map_map
      by (rule map_cong) (auto simp: removeAll_filter_not_eq intro: filter_cong)
    finally show ?thesis .
  qed
  have ready': "mset ready' = mset ready + mset fresh"
    using visit_candidates_ready [of t "visited @ [t]" deps ready] step by (simp add: fresh_def)
  have set_ready': "set ready' = set ready \<union> set fresh"
    using arg_cong [OF ready', of set_mset] by simp
  have map_fst: "map fst deps = map fst deps0"
    by (auto simp: deps)
  have dist_fresh: "distinct fresh"
    using dist0 map_fst by (simp add: fresh_def distinct_map_filter)
  have fresh_iff: "c \<in> set fresh \<longleftrightarrow>
      t \<in> set ds \<and> set ds \<subseteq> set (visited @ [t]) \<and> c \<notin> set (visited @ [t])"
    if "(c, ds) \<in> set deps0" for c ds
  proof -
    have mem: "(c, ds') \<in> set deps \<longleftrightarrow> ds' = filter (\<lambda>d. d \<notin> set visited) ds" for ds'
      using that by (auto simp: deps dest: eq_key_imp_eq_value [OF dist0 that])
    have "c \<in> set fresh \<longleftrightarrow>
        (\<exists>ds'. (c, ds') \<in> set deps \<and> t \<in> set ds' \<and> set ds' \<subseteq> {t} \<and> c \<notin> set (visited @ [t]))"
      unfolding fresh_def by force
    with dist show ?thesis by (auto simp: mem)
  qed
  have fresh_keys: "set fresh \<subseteq> fst ` set deps0"
    using map_fst by (auto simp: fresh_def) (metis fst_conv image_eqI list.set_map)
  have disj: "c \<notin> set ready" if "c \<in> set fresh" for c
  proof
    assume "c \<in> set ready"
    from that fresh_keys obtain ds where c: "(c, ds) \<in> set deps0" by auto
    from \<open>c \<in> set ready\<close> iff [OF c] have "set ds \<subseteq> set visited" by auto
    with fresh_iff [OF c] that dist show False by auto
  qed
  have dist': "distinct (ready' @ visited @ [t])"
  proof -
    have "distinct (ready @ fresh @ visited @ [t])"
      using dist dist_fresh disj fresh_iff fresh_keys by (auto simp: image_iff)
    moreover have "mset (ready' @ visited @ [t]) = mset (ready @ fresh @ visited @ [t])"
      using ready' by simp
    ultimately show ?thesis by (metis mset_eq_imp_distinct_iff)
  qed
  have iff': "c \<in> set ready' \<union> set (visited @ [t]) \<longleftrightarrow> set ds \<subseteq> set (visited @ [t])"
    if c: "(c, ds) \<in> set deps0" for c ds
    using iff [OF c] fresh_iff [OF c] set_ready' by auto
  have topo': "set ds \<subseteq> set (take i (visited @ [t]))"
    if "i < length (visited @ [t])" "(c, ds) \<in> set deps0" "c = (visited @ [t]) ! i" for i c ds
  proof (cases "i < length visited")
    case True
    with topo that show ?thesis by (fastforce simp: nth_append)
  next
    case False
    with that have "i = length visited" "c = t" by (auto simp: nth_append)
    with iff [OF that(2)] show ?thesis by auto
  qed
  have sub': "set ready' \<union> set (visited @ [t]) \<subseteq> fst ` set deps0"
    using sub set_ready' fresh_keys by auto
  show ?thesis
    unfolding kahn_inv_def
    by (intro conjI allI impI deps' dist' sub') (erule iff', rule topo')
qed

section \<open>The outer loop\<close>

lemma kahn_loop_inv:
  assumes "kahn_inv deps0 ready visited deps" and "distinct (map fst deps0)"
  shows "\<exists>deps'. kahn_inv deps0 [] (kahn_loop ready visited deps) deps'"
  using assms(1)
proof (induction ready visited deps rule: kahn_loop.induct)
  case (1 visited deps)
  then show ?case by auto
next
  case (2 t ready visited deps)
  obtain deps' ready' where step: "visit_candidates t (visited @ [t]) deps ready = (deps', ready')"
    by (cases "visit_candidates t (visited @ [t]) deps ready") auto
  from kahn_inv_step [OF 2(2) assms(2) step]
  have "kahn_inv deps0 ready' (visited @ [t]) deps'" .
  with 2(1) step show ?case by simp
qed

lemma kahn_inv_initial:
  assumes "distinct (map fst deps0)"
  shows "kahn_inv deps0 (sort (map fst (filter (\<lambda>(c, ds). ds = []) deps0))) [] deps0"
proof -
  let ?free = "map fst (filter (\<lambda>(c, ds). ds = []) deps0)"
  have "c \<in> set ?free \<longleftrightarrow> ds = []" if "(c, ds) \<in> set deps0" for c ds
  proof
    assume "c \<in> set ?free"
    then obtain ds' where "(c, ds') \<in> set deps0" "ds' = []" by auto
    with eq_key_imp_eq_value [OF assms that] show "ds = []" by blast
  next
    assume "ds = []"
    with that have "(c, []) \<in> set (filter (\<lambda>(c, ds). ds = []) deps0)" by simp
    then show "c \<in> set ?free" by (metis fst_conv image_eqI list.set_map)
  qed
  moreover have "distinct ?free"
    using assms by (rule distinct_map_filter)
  moreover have "set ?free \<subseteq> fst ` set deps0"
    by auto
  moreover have "map (\<lambda>(c, ds). (c, filter (\<lambda>d. d \<notin> {}) ds)) deps0 = deps0"
    by (simp add: map_idI case_prod_unfold)
  ultimately show ?thesis
    unfolding kahn_inv_def by simp
qed

text \<open>The visited list at loop exit: the largest dependency-closed, dependency-ordered list.\<close>

definition visited_order :: "team_task list \<Rightarrow> string list" where
  "visited_order tasks =
     (let deps = initial_dependencies tasks
      in kahn_loop (sort (map fst (filter (\<lambda>(c, ds). ds = []) deps))) [] deps)"

lemma set_initial_dependencies:
  "set (initial_dependencies tasks) =
     (\<lambda>t. (tk_task_id t, remdups (tk_dependency_task_ids t))) ` set tasks"
  by (simp add: initial_dependencies_def)

lemma distinct_initial_dependencies:
  assumes "distinct (map tk_task_id tasks)"
  shows "distinct (map fst (initial_dependencies tasks))"
proof -
  have "mset (map fst (initial_dependencies tasks)) = mset (map tk_task_id tasks)"
    by (simp add: initial_dependencies_def multiset.map_comp comp_def)
  with assms show ?thesis by (metis mset_eq_imp_distinct_iff)
qed

lemma visited_order_final:
  assumes "distinct (map tk_task_id tasks)"
  shows "distinct (visited_order tasks)"
    and "set (visited_order tasks) \<subseteq> tk_task_id ` set tasks"
    and "t \<in> set tasks \<Longrightarrow>
       tk_task_id t \<in> set (visited_order tasks) \<longleftrightarrow>
         set (tk_dependency_task_ids t) \<subseteq> set (visited_order tasks)"
    and "t \<in> set tasks \<Longrightarrow> i < length (visited_order tasks) \<Longrightarrow> visited_order tasks ! i = tk_task_id t \<Longrightarrow>
       set (tk_dependency_task_ids t) \<subseteq> set (take i (visited_order tasks))"
proof -
  note d = distinct_initial_dependencies [OF assms]
  obtain deps' where inv: "kahn_inv (initial_dependencies tasks) [] (visited_order tasks) deps'"
    using kahn_loop_inv [OF kahn_inv_initial [OF d] d] by (auto simp: visited_order_def Let_def)
  then show "distinct (visited_order tasks)"
    and "set (visited_order tasks) \<subseteq> tk_task_id ` set tasks"
    by (auto simp: kahn_inv_def set_initial_dependencies)
  show "tk_task_id t \<in> set (visited_order tasks) \<longleftrightarrow>
      set (tk_dependency_task_ids t) \<subseteq> set (visited_order tasks)" if "t \<in> set tasks"
  proof -
    have "(tk_task_id t, remdups (tk_dependency_task_ids t)) \<in> set (initial_dependencies tasks)"
      using that by (simp add: set_initial_dependencies)
    with inv show ?thesis by (fastforce simp: kahn_inv_def)
  qed
  show "set (tk_dependency_task_ids t) \<subseteq> set (take i (visited_order tasks))"
    if "t \<in> set tasks" "i < length (visited_order tasks)" "visited_order tasks ! i = tk_task_id t"
  proof -
    have "(tk_task_id t, remdups (tk_dependency_task_ids t)) \<in> set (initial_dependencies tasks)"
      using that by (simp add: set_initial_dependencies)
    with inv that have "set (remdups (tk_dependency_task_ids t)) \<subseteq> set (take i (visited_order tasks))"
      unfolding kahn_inv_def by metis
    then show ?thesis by simp
  qed
qed

lemma require_acyclic_visited:
  assumes "distinct (map tk_task_id tasks)"
  shows "require_acyclic tasks \<longleftrightarrow> set (visited_order tasks) = tk_task_id ` set tasks"
proof -
  have "length (visited_order tasks) = card (set (visited_order tasks))"
    using visited_order_final(1) [OF assms] by (simp add: distinct_card)
  moreover have "length tasks = card (tk_task_id ` set tasks)"
    using distinct_card [OF assms] by simp
  ultimately have "require_acyclic tasks \<longleftrightarrow>
      card (set (visited_order tasks)) = card (tk_task_id ` set tasks)"
    by (simp add: require_acyclic_def visited_order_def Let_def)
  then show ?thesis
    using card_subset_eq [OF _ visited_order_final(2) [OF assms]] by auto
qed

lemma finite_dep_edges: "finite (dep_edges tasks)"
proof -
  have "dep_edges tasks = (\<Union>t\<in>set tasks. (\<lambda>d. (d, tk_task_id t)) ` set (tk_dependency_task_ids t))"
    by (auto simp: dep_edges_def)
  then show ?thesis by simp
qed

lemma acyclic_visits_all:
  assumes known: "deps_known tasks" and acyc: "acyclic (dep_edges tasks)"
  shows "set (visited_order tasks) = tk_task_id ` set tasks"
proof (rule ccontr)
  from known have dist: "distinct (map tk_task_id tasks)" by (simp add: deps_known_def)
  note final = visited_order_final [OF dist]
  let ?Q = "tk_task_id ` set tasks - set (visited_order tasks)"
  assume "set (visited_order tasks) \<noteq> tk_task_id ` set tasks"
  with final(2) have "?Q \<noteq> {}" by auto
  then obtain c where c: "c \<in> ?Q" and min: "\<And>d. (d, c) \<in> dep_edges tasks \<Longrightarrow> d \<notin> ?Q"
    using finite_acyclic_wf [OF finite_dep_edges acyc] by (metis wfE_min ex_in_conv)
  from c obtain t where t: "t \<in> set tasks" "c = tk_task_id t" by auto
  with c final(3) obtain d where d: "d \<in> set (tk_dependency_task_ids t)" "d \<notin> set (visited_order tasks)"
    by auto
  with known t have "d \<in> tk_task_id ` set tasks"
    by (auto simp: deps_known_def list_all_iff)
  moreover from d t have "(d, c) \<in> dep_edges tasks" by (auto simp: dep_edges_def)
  ultimately show False using min d by auto
qed

lemma visits_all_acyclic:
  assumes dist: "distinct (map tk_task_id tasks)"
    and all: "set (visited_order tasks) = tk_task_id ` set tasks"
  shows "acyclic (dep_edges tasks)"
proof -
  let ?V = "visited_order tasks"
  define pos where "pos = (\<lambda>c. LEAST i. i < length ?V \<and> ?V ! i = c)"
  have at: "pos c < length ?V \<and> ?V ! pos c = c" if "c \<in> set ?V" for c
    unfolding pos_def using that by (rule_tac LeastI_ex) (auto simp: in_set_conv_nth)
  have "dep_edges tasks \<subseteq> measure pos"
  proof
    fix e
    assume "e \<in> dep_edges tasks"
    then obtain d t where e: "e = (d, tk_task_id t)" and t: "t \<in> set tasks"
      and d: "d \<in> set (tk_dependency_task_ids t)"
      by (auto simp: dep_edges_def)
    from t all have in_v: "tk_task_id t \<in> set ?V" by auto
    from visited_order_final(4) [OF dist t conjunct1 [OF at [OF in_v]] conjunct2 [OF at [OF in_v]]] d
    have "d \<in> set (take (pos (tk_task_id t)) ?V)" by blast
    then obtain j where "j < pos (tk_task_id t)" "j < length ?V" "?V ! j = d"
      by (metis in_set_conv_nth length_take min_less_iff_conj nth_take)
    moreover from this have "pos d \<le> j"
      unfolding pos_def by (intro Least_le) auto
    ultimately show "e \<in> measure pos" by (simp add: e)
  qed
  then show ?thesis
    by (rule acyclic_subset [OF wf_acyclic [OF wf_measure]])
qed

text \<open>
  C23: On a task list whose identifiers are unique and whose dependencies are known (the checks
  \<open>validate_graph\<close> makes first), the ready-list loop of \<open>_require_acyclic\<close> terminates and accepts
  exactly when the dependency relation has no cycle.
\<close>

theorem require_acyclic_iff_acyclic:
  assumes "deps_known tasks"
  shows "require_acyclic tasks \<longleftrightarrow> acyclic (dep_edges tasks)"
proof -
  from assms have dist: "distinct (map tk_task_id tasks)" by (simp add: deps_known_def)
  show ?thesis
    using acyclic_visits_all [OF assms] visits_all_acyclic [OF dist] require_acyclic_visited [OF dist]
    by blast
qed

theorem require_acyclic_iff_acyclic_witness:
  "deps_known (gr_tasks sample_graph) \<and> acyclic (dep_edges (gr_tasks sample_graph))"
proof -
  have k: "deps_known (gr_tasks sample_graph)" by code_simp
  have "require_acyclic (gr_tasks sample_graph)" by code_simp
  with require_acyclic_iff_acyclic [OF k] k show ?thesis by simp
qed

section \<open>Write ownership\<close>

lemma claim_outputs_Some:
  "claim_outputs t hs owners = Some owners' \<Longrightarrow>
     (\<forall>h\<in>set hs. owners' h = Some t) \<and> (\<forall>h p. owners h = Some p \<longrightarrow> owners' h = Some p)"
proof (induction hs arbitrary: owners)
  case Nil
  then show ?case by simp
next
  case (Cons h hs)
  from Cons.prems have rest: "claim_outputs t hs (owners(h \<mapsto> t)) = Some owners'"
    and old: "owners h = None \<or> owners h = Some t"
    by (auto split: option.splits if_splits)
  from Cons.IH [OF rest] old show ?case by (metis fun_upd_other fun_upd_same option.distinct(1) set_ConsD)
qed

lemma validate_graph_tasks_owner:
  assumes "validate_graph_tasks ks ms ts owners"
  shows "(\<exists>own. (\<forall>h p. owners h = Some p \<longrightarrow> own h = Some p) \<and>
            (\<forall>t\<in>set ts. \<forall>h\<in>set (tk_output_artifact_head_ids t). own h = Some (tk_task_id t))) \<and>
         (\<forall>t\<in>set ts. set (tk_dependency_task_ids t) \<subseteq> ks)"
  using assms
proof (induction ts arbitrary: owners)
  case Nil
  then show ?case by auto
next
  case (Cons t ts)
  then obtain owners' where c: "claim_outputs (tk_task_id t) (tk_output_artifact_head_ids t) owners = Some owners'"
    and rest: "validate_graph_tasks ks ms ts owners'"
    and d: "set (tk_dependency_task_ids t) \<subseteq> ks"
    by (auto split: option.splits)
  from Cons.IH [OF rest] obtain own where
    own: "\<forall>h p. owners' h = Some p \<longrightarrow> own h = Some p"
    "\<forall>t\<in>set ts. \<forall>h\<in>set (tk_output_artifact_head_ids t). own h = Some (tk_task_id t)"
    "\<forall>t\<in>set ts. set (tk_dependency_task_ids t) \<subseteq> ks"
    by blast
  from claim_outputs_Some [OF c] own d show ?case
    by (intro conjI exI [of _ own]) auto
qed

lemma validate_graph_deps_known: "validate_graph dgt g \<Longrightarrow> deps_known (gr_tasks g)"
  using validate_graph_tasks_owner
  by (fastforce simp: validate_graph_def deps_known_def require_sorted_unique_iff list_all_iff)

text \<open>
  A task graph that passes \<open>TeamTaskGraphV1.validate_graph\<close> is a well-founded plan with single
  writers: its tasks can be listed exhaustively with every dependency before its dependents, and two
  tasks that write the same artifact head are the same task.
\<close>

theorem validate_graph_sound:
  assumes "validate_graph dgt g"
  shows "(\<exists>order. distinct order \<and> set order = tk_task_id ` set (gr_tasks g) \<and>
           (\<forall>t\<in>set (gr_tasks g). \<forall>i<length order. order ! i = tk_task_id t \<longrightarrow>
              set (tk_dependency_task_ids t) \<subseteq> set (take i order))) \<and>
         (\<forall>t\<in>set (gr_tasks g). \<forall>u\<in>set (gr_tasks g). \<forall>h.
            h \<in> set (tk_output_artifact_head_ids t) \<longrightarrow> h \<in> set (tk_output_artifact_head_ids u) \<longrightarrow> t = u)"
proof (rule conjI)
  from validate_graph_deps_known [OF assms] have dist: "distinct (map tk_task_id (gr_tasks g))"
    by (simp add: deps_known_def)
  from assms have "require_acyclic (gr_tasks g)" by (simp add: validate_graph_def)
  then have "set (visited_order (gr_tasks g)) = tk_task_id ` set (gr_tasks g)"
    using require_acyclic_visited [OF dist] by simp
  with visited_order_final [OF dist]
  show "\<exists>order. distinct order \<and> set order = tk_task_id ` set (gr_tasks g) \<and>
           (\<forall>t\<in>set (gr_tasks g). \<forall>i<length order. order ! i = tk_task_id t \<longrightarrow>
              set (tk_dependency_task_ids t) \<subseteq> set (take i order))"
    by (intro exI [of _ "visited_order (gr_tasks g)"]) blast
  from assms have "validate_graph_tasks (set (map tk_task_id (gr_tasks g))) (set (gr_member_ids g))
       (gr_tasks g) Map.empty"
    by (simp add: validate_graph_def)
  from validate_graph_tasks_owner [OF this] obtain own where
    own: "\<forall>t\<in>set (gr_tasks g). \<forall>h\<in>set (tk_output_artifact_head_ids t). own h = Some (tk_task_id t)"
    by blast
  with dist show "\<forall>t\<in>set (gr_tasks g). \<forall>u\<in>set (gr_tasks g). \<forall>h.
       h \<in> set (tk_output_artifact_head_ids t) \<longrightarrow> h \<in> set (tk_output_artifact_head_ids u) \<longrightarrow> t = u"
    by (metis distinct_map inj_onD option.inject)
qed

theorem validate_graph_sound_witness:
  "validate_graph tk_task_id sample_graph \<and>
   (\<exists>order. distinct order \<and> set order = {''task-a'', ''task-b''} \<and>
      (\<forall>t\<in>set (gr_tasks sample_graph). \<forall>i<length order. order ! i = tk_task_id t \<longrightarrow>
         set (tk_dependency_task_ids t) \<subseteq> set (take i order)))"
proof -
  have v: "validate_graph tk_task_id sample_graph" by code_simp
  have ids: "tk_task_id ` set (gr_tasks sample_graph) = {''task-a'', ''task-b''}" by code_simp
  from validate_graph_sound [OF v] v show ?thesis unfolding ids by blast
qed

end
