(* ===== verification/Task_Events.thy ===== *)
theory Task_Events
  imports Task_Graph
begin

text \<open>
  The task lifecycle automaton of \<open>team/models.py\<close>: \<open>validate_team_task_event_log\<close> replays the
  events of one task and accepts the log when every event is the next version, moves the graph
  revision forward only and is a legal transition from the status the previous event left. The
  abstract specification is the step relation \<open>lifecycle_step\<close>; the loop is shown to accept exactly
  its runs, one event at a time, which is the form the store proofs use.
\<close>

section \<open>The replay loop\<close>

fun allowed_from :: "task_event_kind \<Rightarrow> task_status set" where
  "allowed_from EK_CLAIMED = {PENDING, READY}"
| "allowed_from LEASE_ACQUIRED = {CLAIMED}"
| "allowed_from HEARTBEAT = {ACTIVE}"
| "allowed_from EXPIRED = {ACTIVE}"
| "allowed_from RETRY_SCHEDULED = {BLOCKED, COMPLETED, FAILED}"
| "allowed_from CANCEL_REQUESTED = {ACTIVE}"
| "allowed_from EK_CANCELLED = {ACTIVE}"
| "allowed_from EK_COMPLETED = {ACTIVE}"
| "allowed_from EXHAUSTED = {BLOCKED, FAILED}"

fun event_log_loop ::
  "string \<Rightarrow> int \<Rightarrow> task_status \<Rightarrow> int \<Rightarrow> task_event list \<Rightarrow> unit result" where
  "event_log_loop task_id expected_version prior_status prior_graph_revision [] = Inr ()"
| "event_log_loop task_id expected_version prior_status prior_graph_revision (event # events) =
     (if ref_id (ev_task_ref event) \<noteq> task_id
      then Inl (ValueError ''task event log cannot mix task authority'')
      else if ev_task_event_version event \<noteq> expected_version
      then Inl (ValueError ''task event version must be contiguous from one'')
      else if ev_graph_revision event < prior_graph_revision
      then Inl (ValueError ''task event graph revision cannot move backward'')
      else if ev_event_kind event = RETRY_SCHEDULED \<and> ev_graph_revision event > prior_graph_revision \<and>
              prior_status \<notin> {COMPLETED, FAILED, CANCELLED}
      then Inl (ValueError ''graph rework requires terminal prior task state'')
      else if \<not> (ev_event_kind event = RETRY_SCHEDULED \<and>
                 ev_graph_revision event > prior_graph_revision) \<and>
              prior_status \<notin> allowed_from (ev_event_kind event)
      then Inl (ValueError ''illegal task event transition'')
      else event_log_loop task_id (expected_version + 1) (ev_status_after event)
             (ev_graph_revision event) events)"

definition validate_team_task_event_log :: "task_event list \<Rightarrow> unit result" where
  "validate_team_task_event_log events =
     (case events of
        [] \<Rightarrow> Inr ()
      | e # _ \<Rightarrow> event_log_loop (ref_id (ev_task_ref e)) 1 READY 0 events)"

section \<open>The abstract lifecycle\<close>

text \<open>
  A task is in a status under a graph revision; an event of a given kind moves it. Rework of a
  terminal task is the one move that needs a newer graph revision.
\<close>

inductive lifecycle_step ::
  "task_status \<times> int \<Rightarrow> task_event_kind \<Rightarrow> task_status \<times> int \<Rightarrow> bool" where
  rework: "g < g' \<Longrightarrow> s \<in> {COMPLETED, FAILED, CANCELLED} \<Longrightarrow>
     lifecycle_step (s, g) RETRY_SCHEDULED (s', g')"
| advance: "g \<le> g' \<Longrightarrow> s \<in> allowed_from k \<Longrightarrow> k = RETRY_SCHEDULED \<longrightarrow> g' = g \<Longrightarrow>
     lifecycle_step (s, g) k (s', g')"

inductive_simps lifecycle_step_iff: "lifecycle_step (s, g) k (s', g')"

fun lifecycle_run :: "task_status \<times> int \<Rightarrow> task_event list \<Rightarrow> bool" where
  "lifecycle_run c [] = True"
| "lifecycle_run c (e # es) =
     (lifecycle_step c (ev_event_kind e) (ev_status_after e, ev_graph_revision e) \<and>
      lifecycle_run (ev_status_after e, ev_graph_revision e) es)"

fun cursor_after :: "task_status \<times> int \<Rightarrow> task_event list \<Rightarrow> task_status \<times> int" where
  "cursor_after c [] = c"
| "cursor_after c (e # es) = cursor_after (ev_status_after e, ev_graph_revision e) es"

abbreviation log_cursor :: "task_event list \<Rightarrow> task_status \<times> int" where
  "log_cursor \<equiv> cursor_after (READY, 0)"

abbreviation log_ok :: "task_event list \<Rightarrow> bool" where
  "log_ok es \<equiv> validate_team_task_event_log es = Inr ()"

section \<open>The loop accepts exactly the runs\<close>

lemma lifecycle_step_char:
  "lifecycle_step (s, g) k (s', g') \<longleftrightarrow>
     g \<le> g' \<and>
     (if k = RETRY_SCHEDULED \<and> g' > g then s \<in> {COMPLETED, FAILED, CANCELLED} else s \<in> allowed_from k)"
  by (auto simp: lifecycle_step_iff)

lemma lifecycle_stepI:
  "fst c \<in> allowed_from k \<Longrightarrow> k \<noteq> RETRY_SCHEDULED \<Longrightarrow> snd c \<le> g' \<Longrightarrow> lifecycle_step c k (s', g')"
  by (cases c) (simp add: lifecycle_step_char)

lemma event_log_loop_iff:
  "event_log_loop tid v s g es = Inr () \<longleftrightarrow>
     list_all (\<lambda>e. ref_id (ev_task_ref e) = tid) es \<and>
     map ev_task_event_version es = [v..v + int (length es) - 1] \<and>
     lifecycle_run (s, g) es"
proof (induction tid v s g es rule: event_log_loop.induct)
  case (1 tid v s g)
  then show ?case by simp
next
  case (2 tid v s g e es)
  have up: "[v..v + int (length (e # es)) - 1] = v # [v + 1..v + 1 + int (length es) - 1]"
    by (simp add: upto_rec1 algebra_simps)
  show ?case
    unfolding lifecycle_run.simps lifecycle_step_char list.map up
    using 2 by (auto simp del: upto.simps)
qed

lemma validate_log_iff:
  "log_ok es \<longleftrightarrow>
     (\<exists>tid. list_all (\<lambda>e. ref_id (ev_task_ref e) = tid) es) \<and>
     map ev_task_event_version es = [1..int (length es)] \<and> lifecycle_run (READY, 0) es"
proof (cases es)
  case Nil
  then show ?thesis by (simp add: validate_team_task_event_log_def)
next
  case (Cons e rest)
  have "log_ok es \<longleftrightarrow> event_log_loop (ref_id (ev_task_ref e)) 1 READY 0 es = Inr ()"
    by (simp add: Cons validate_team_task_event_log_def del: event_log_loop.simps)
  moreover have "(\<exists>tid. list_all (\<lambda>e. ref_id (ev_task_ref e) = tid) es) \<longleftrightarrow>
      list_all (\<lambda>f. ref_id (ev_task_ref f) = ref_id (ev_task_ref e)) es"
    by (auto simp: Cons list_all_iff)
  ultimately show ?thesis
    unfolding event_log_loop_iff by simp
qed

lemma lifecycle_run_append:
  "lifecycle_run c (es @ fs) \<longleftrightarrow> lifecycle_run c es \<and> lifecycle_run (cursor_after c es) fs"
  by (induction es arbitrary: c) auto

lemma cursor_after_snoc [simp]:
  "cursor_after c (es @ [e]) = (ev_status_after e, ev_graph_revision e)"
  by (induction es arbitrary: c) auto

lemma cursor_after_last:
  "es \<noteq> [] \<Longrightarrow> cursor_after c es = (ev_status_after (last es), ev_graph_revision (last es))"
  by (cases es rule: rev_cases) auto

lemma log_ok_Nil [simp]: "log_ok []"
  by (simp add: validate_team_task_event_log_def)

lemma log_ok_snoc:
  "log_ok (es @ [e]) \<longleftrightarrow>
     log_ok es \<and> (es \<noteq> [] \<longrightarrow> ref_id (ev_task_ref e) = ref_id (ev_task_ref (last es))) \<and>
     ev_task_event_version e = int (length es) + 1 \<and>
     lifecycle_step (log_cursor es) (ev_event_kind e) (ev_status_after e, ev_graph_revision e)"
proof -
  have up: "[1..int (length (es @ [e]))] = [1..int (length es)] @ [int (length es) + 1]"
    using upto_snoc [of "length es"] by simp
  have ids: "(\<exists>tid. list_all (\<lambda>e. ref_id (ev_task_ref e) = tid) (es @ [e])) \<longleftrightarrow>
      (\<exists>tid. list_all (\<lambda>e. ref_id (ev_task_ref e) = tid) es) \<and>
      (es \<noteq> [] \<longrightarrow> ref_id (ev_task_ref e) = ref_id (ev_task_ref (last es)))"
    by (cases es rule: rev_cases) (auto simp: list_all_iff)
  show ?thesis
    unfolding validate_log_iff ids up by (auto simp: lifecycle_run_append)
qed

lemma log_ok_butlast: "log_ok (es @ fs) \<Longrightarrow> log_ok es"
  by (induction fs rule: rev_induct) (simp_all add: log_ok_snoc flip: append_assoc)

lemma log_ok_last_version: "log_ok es \<Longrightarrow> es \<noteq> [] \<Longrightarrow> ev_task_event_version (last es) = int (length es)"
  by (cases es rule: rev_cases) (auto simp: log_ok_snoc)

lemma log_ok_versions: "log_ok es \<Longrightarrow> e \<in> set es \<Longrightarrow> 1 \<le> ev_task_event_version e \<and> ev_task_event_version e \<le> int (length es)"
proof -
  assume "log_ok es" "e \<in> set es"
  then have "ev_task_event_version e \<in> set [1..int (length es)]"
    by (metis image_eqI list.set_map validate_log_iff)
  then show ?thesis by simp
qed

lemma log_ok_adjacent:
  "log_ok (es @ [e, f] @ fs) \<Longrightarrow>
     lifecycle_step (ev_status_after e, ev_graph_revision e) (ev_event_kind f)
       (ev_status_after f, ev_graph_revision f)"
  using log_ok_butlast [of "es @ [e, f]" fs] log_ok_snoc [of "es @ [e]" f] by simp

lemma status_CLAIMED_kind:
  "validate_task_event e \<Longrightarrow> ev_status_after e = CLAIMED \<Longrightarrow> ev_event_kind e = EK_CLAIMED"
  by (cases "ev_event_kind e") (auto simp: validate_task_event_def)

lemma status_ACTIVE_kind:
  "validate_task_event e \<Longrightarrow> ev_status_after e = ACTIVE \<Longrightarrow>
     ev_event_kind e \<in> {LEASE_ACQUIRED, HEARTBEAT, CANCEL_REQUESTED}"
  by (cases "ev_event_kind e") (auto simp: validate_task_event_def)

text \<open>
  C22: The replay loop accepts a task event log exactly when all its events belong to one task, their
  versions are 1, 2, ..., n in order, and the log is a run of the abstract lifecycle from READY.
\<close>

theorem validate_team_task_event_log_iff:
  "validate_team_task_event_log es = Inr () \<longleftrightarrow>
     (\<exists>tid. list_all (\<lambda>e. ref_id (ev_task_ref e) = tid) es) \<and>
     map ev_task_event_version es = [1..int (length es)] \<and> lifecycle_run (READY, 0) es"
  by (rule validate_log_iff)

text \<open>
  Two consecutive events of an accepted log of well-formed events: a lease is acquired only right
  after its claim; a heartbeat, expiry, cancellation or completion happens only under a live lease;
  and a cancelled task moves again only by a rework under a strictly newer graph revision.
\<close>

theorem accepted_log_lease_discipline:
  assumes "validate_team_task_event_log (es @ [e, f] @ fs) = Inr ()" and "validate_task_event e"
  shows "(ev_event_kind f = LEASE_ACQUIRED \<longrightarrow> ev_event_kind e = EK_CLAIMED) \<and>
         (ev_event_kind f \<in> {HEARTBEAT, EXPIRED, CANCEL_REQUESTED, EK_CANCELLED, EK_COMPLETED} \<longrightarrow>
            ev_event_kind e \<in> {LEASE_ACQUIRED, HEARTBEAT, CANCEL_REQUESTED}) \<and>
         (ev_status_after e = CANCELLED \<longrightarrow>
            ev_event_kind f = RETRY_SCHEDULED \<and> ev_graph_revision e < ev_graph_revision f)"
proof (intro conjI)
  note step = log_ok_adjacent [OF assms(1)]
  show "ev_event_kind f = LEASE_ACQUIRED \<longrightarrow> ev_event_kind e = EK_CLAIMED"
    using step status_CLAIMED_kind [OF assms(2)] by (auto simp: lifecycle_step_char)
  show "ev_event_kind f \<in> {HEARTBEAT, EXPIRED, CANCEL_REQUESTED, EK_CANCELLED, EK_COMPLETED} \<longrightarrow>
      ev_event_kind e \<in> {LEASE_ACQUIRED, HEARTBEAT, CANCEL_REQUESTED}"
    using step status_ACTIVE_kind [OF assms(2)] by (auto simp: lifecycle_step_char)
  show "ev_status_after e = CANCELLED \<longrightarrow>
      ev_event_kind f = RETRY_SCHEDULED \<and> ev_graph_revision e < ev_graph_revision f"
    using step by (cases "ev_event_kind f") (auto simp: lifecycle_step_char split: if_splits)
qed

definition sample_event ::
  "int \<Rightarrow> task_event_kind \<Rightarrow> task_status \<Rightarrow> bool \<Rightarrow> task_event" where
  "sample_event version kind status leased =
     \<lparr>object_id = [], object_sha256 = [], audit = sample_audit, ev_event_key = ''key'',
      ev_team_ref = sample_ref ''agent-team'', ev_task_ref = sample_ref ''team-task'',
      ev_graph_ref = sample_ref ''team-task-graph'', ev_graph_revision = 1,
      ev_task_event_version = version, ev_attempt = 1, ev_event_kind = kind,
      ev_status_after = status, ev_claim_ref = Some (sample_ref ''team-task-claim''),
      ev_lease_ref = (if leased then Some (sample_ref ''team-task-lease'') else None),
      ev_fencing_token = (if leased then Some 1 else None),
      ev_effective_expires_at = (if leased then Some 10 else None),
      ev_capability_call_ref = None, ev_capability_result_ref = None, ev_reason_code = None,
      ev_occurred_at = 0\<rparr>"

theorem accepted_log_lease_discipline_witness:
  "validate_team_task_event_log
     [sample_event 1 EK_CLAIMED CLAIMED False, sample_event 2 LEASE_ACQUIRED ACTIVE True] = Inr () \<and>
   validate_task_event (sample_event 1 EK_CLAIMED CLAIMED False) \<and>
   ev_event_kind (sample_event 2 LEASE_ACQUIRED ACTIVE True) = LEASE_ACQUIRED \<and>
   ev_event_kind (sample_event 1 EK_CLAIMED CLAIMED False) = EK_CLAIMED"
proof -
  have l: "validate_team_task_event_log
      ([] @ [sample_event 1 EK_CLAIMED CLAIMED False, sample_event 2 LEASE_ACQUIRED ACTIVE True] @ []) =
      Inr ()"
    by (simp add: validate_team_task_event_log_def sample_event_def)
  have v: "validate_task_event (sample_event 1 EK_CLAIMED CLAIMED False)"
    by code_simp
  have k: "ev_event_kind (sample_event 2 LEASE_ACQUIRED ACTIVE True) = LEASE_ACQUIRED"
    by (simp add: sample_event_def)
  from accepted_log_lease_discipline [OF l v] l v k show ?thesis by simp
qed

end
