(* ===== verification/Store_Schema.thy ===== *)
theory Store_Schema
  imports Task_Events Interaction
begin

text \<open>
  The SQLite schema of \<open>team/_store_db.py\<close>: one record type per table row with the table's columns,
  the database as the record of its tables, and one \<open>INSERT\<close> per table that enforces the declared
  PRIMARY KEY, UNIQUE and REFERENCES constraints. The \<open>record_json\<close> column holds the structured
  value. The digests of the record classes, the request digest and the fault hook of the constructor
  are collected in \<open>env\<close>.
\<close>

section \<open>Environment\<close>

text \<open>The dictionaries the operations hash into the request digest of the idempotency table.\<close>

datatype request =
    CreateTeamRequest object_ref object_ref object_ref object_ref
  | ClaimRequest object_ref object_ref object_ref object_ref object_ref
  | LeaseRequest object_ref int
  | LeaseEventRequest object_ref int string int
  | CompleteRequest object_ref object_ref object_ref object_ref int object_ref object_ref
      "(string \<times> object_ref) list"
  | SeedRequest object_ref string object_ref
  | MessageRequest object_ref
  | SubscriptionRequest object_ref
  | AdvanceSubscriptionRequest object_ref int
  | ConflictRequest object_ref object_ref "object_ref option"
  | NarrowRequest string object_ref object_ref object_ref object_ref object_ref object_ref
  | SourceRequest object_ref object_ref "object_ref list" "object_ref list" "object_ref list"
      "object_ref list" "object_ref list"
  | ProjectionRequest object_ref string
  | CheckpointRequest string
  | ReworkRequest string object_ref object_ref object_ref "string list"
  | ConvergenceRequest object_ref

record env =
  dg_member :: "team_member \<Rightarrow> string"
  dg_roster :: "team_roster \<Rightarrow> string"
  dg_task :: "team_task \<Rightarrow> string"
  dg_graph :: "team_task_graph \<Rightarrow> string"
  dg_team :: "team \<Rightarrow> string"
  dg_authority :: "execution_authority \<Rightarrow> string"
  dg_claim :: "task_claim \<Rightarrow> string"
  dg_lease :: "task_lease \<Rightarrow> string"
  dg_event :: "task_event \<Rightarrow> string"
  dg_call :: "capability_call \<Rightarrow> string"
  dg_result :: "capability_result \<Rightarrow> string"
  dg_envelope :: "artifact_envelope \<Rightarrow> string"
  dg_head :: "artifact_head \<Rightarrow> string"
  dg_message :: "team_message \<Rightarrow> string"
  dg_subscription :: "artifact_subscription \<Rightarrow> string"
  dg_conflict :: "team_conflict \<Rightarrow> string"
  dg_outbox :: "outbox_record \<Rightarrow> string"
  dg_projection :: "member_projection \<Rightarrow> string"
  dg_checkpoint :: "team_checkpoint \<Rightarrow> string"
  dg_decision :: "convergence_decision \<Rightarrow> string"
  request_sha256 :: "request \<Rightarrow> string"
  fault :: "string \<Rightarrow> bool"

abbreviation roster_cls :: "env \<Rightarrow> team_roster harness_class" where
  "roster_cls e \<equiv> roster_class (dg_member e) (dg_roster e)"

abbreviation graph_cls :: "env \<Rightarrow> team_task_graph harness_class" where
  "graph_cls e \<equiv> graph_class (dg_task e) (dg_graph e)"

abbreviation team_cls :: "env \<Rightarrow> team harness_class" where
  "team_cls e \<equiv> team_class (dg_team e)"

abbreviation authority_cls :: "env \<Rightarrow> execution_authority harness_class" where
  "authority_cls e \<equiv> authority_class (dg_authority e)"

abbreviation claim_cls :: "env \<Rightarrow> task_claim harness_class" where
  "claim_cls e \<equiv> claim_class (dg_claim e)"

abbreviation lease_cls :: "env \<Rightarrow> task_lease harness_class" where
  "lease_cls e \<equiv> lease_class (dg_lease e)"

abbreviation event_cls :: "env \<Rightarrow> task_event harness_class" where
  "event_cls e \<equiv> event_class (dg_event e)"

abbreviation call_cls :: "env \<Rightarrow> capability_call harness_class" where
  "call_cls e \<equiv> call_class (dg_call e)"

abbreviation result_cls :: "env \<Rightarrow> capability_result harness_class" where
  "result_cls e \<equiv> result_class (dg_result e)"

abbreviation envelope_cls :: "env \<Rightarrow> artifact_envelope harness_class" where
  "envelope_cls e \<equiv> envelope_class (dg_envelope e)"

abbreviation head_cls :: "env \<Rightarrow> artifact_head harness_class" where
  "head_cls e \<equiv> head_class (dg_head e)"

abbreviation message_cls :: "env \<Rightarrow> team_message harness_class" where
  "message_cls e \<equiv> message_class (dg_message e)"

abbreviation subscription_cls :: "env \<Rightarrow> artifact_subscription harness_class" where
  "subscription_cls e \<equiv> subscription_class (dg_subscription e)"

abbreviation conflict_cls :: "env \<Rightarrow> team_conflict harness_class" where
  "conflict_cls e \<equiv> conflict_class (dg_conflict e)"

abbreviation outbox_cls :: "env \<Rightarrow> outbox_record harness_class" where
  "outbox_cls e \<equiv> outbox_class (dg_outbox e)"

abbreviation projection_cls :: "env \<Rightarrow> member_projection harness_class" where
  "projection_cls e \<equiv> projection_class (dg_projection e)"

abbreviation checkpoint_cls :: "env \<Rightarrow> team_checkpoint harness_class" where
  "checkpoint_cls e \<equiv> checkpoint_class (dg_checkpoint e)"

abbreviation decision_cls :: "env \<Rightarrow> convergence_decision harness_class" where
  "decision_cls e \<equiv> decision_class (dg_decision e)"

definition inject_fault :: "env \<Rightarrow> string \<Rightarrow> unit result" where
  "inject_fault e point = guard (\<not> fault e point) (FaultInjected point)"

section \<open>Rows\<close>

text \<open>Rosters, graphs and authorities are revisioned records of a Team.\<close>

record 'r rev_row =
  rv_object_id :: string
  rv_team_id :: string
  rv_revision :: int
  rv_record :: 'r

record team_row =
  tr_object_id :: string
  tr_team_id :: string
  tr_version :: int
  tr_roster_id :: string
  tr_graph_id :: string
  tr_authority_id :: string
  tr_record :: team

record team_head_row =
  th_team_id :: string
  th_team_id_ref :: string
  th_roster_id :: string
  th_graph_id :: string
  th_authority_id :: string

record claim_row =
  kr_object_id :: string
  kr_team_id :: string
  kr_task_id :: string
  kr_attempt :: int
  kr_record :: task_claim

record lease_row =
  lr_object_id :: string
  lr_team_id :: string
  lr_task_id :: string
  lr_attempt :: int
  lr_fence :: int
  lr_record :: task_lease

record event_row =
  er_object_id :: string
  er_team_id :: string
  er_task_id :: string
  er_version :: int
  er_graph_revision :: int
  er_kind :: task_event_kind
  er_record :: task_event

record task_head_row =
  xh_team_id :: string
  xh_task_id :: string
  xh_task_ref :: string
  xh_event_id :: string

record call_row =
  qr_object_id :: string
  qr_team_id :: string
  qr_task_id :: string
  qr_record :: capability_call

record result_row =
  rr_object_id :: string
  rr_team_id :: string
  rr_task_id :: string
  rr_call_id :: string
  rr_record :: capability_result

record completion_row =
  co_result_id :: string
  co_team_id :: string
  co_event_id :: string
  co_team_object_id :: string
  co_artifact_head_ids :: "string list"

record usage_row =
  us_result_id :: string
  us_team_id :: string
  us_task_id :: string
  us_model_requests :: int
  us_model_tokens :: int
  us_cost_micro_usd :: int

record envelope_row =
  nr_object_id :: string
  nr_team_id :: string
  nr_task_id :: string
  nr_artifact_id :: string
  nr_revision :: int
  nr_record :: artifact_envelope

record head_row =
  hr_object_id :: string
  hr_team_id :: string
  hr_head_id :: string
  hr_revision :: int
  hr_sequence :: int
  hr_envelope_id :: string
  hr_record :: artifact_head

text \<open>
  The current-head caches \<open>artifact_current\<close>, \<open>subscription_current\<close>, \<open>conflict_current\<close> and
  \<open>projection_current\<close> share one row shape, as do the histories of subscriptions (extra column:
  cursor), conflicts (status) and projections (fingerprint).
\<close>

record current_row =
  cu_team_id :: string
  cu_key :: string
  cu_object_id :: string

record message_row =
  mr_object_id :: string
  mr_team_id :: string
  mr_sequence :: int
  mr_sender_id :: string
  mr_task_id :: "string option"
  mr_kind :: message_kind
  mr_record :: team_message

record ('x, 'r) history_row =
  hi_object_id :: string
  hi_team_id :: string
  hi_key :: string
  hi_revision :: int
  hi_extra :: 'x
  hi_record :: 'r

record checkpoint_row =
  kp_object_id :: string
  kp_team_id :: string
  kp_sequence :: int
  kp_team_version :: int
  kp_record :: team_checkpoint

record checkpoint_head_row =
  kh_team_id :: string
  kh_object_id :: string

record convergence_row =
  cv_object_id :: string
  cv_team_id :: string
  cv_sequence :: int
  cv_outcome :: convergence_outcome
  cv_record :: convergence_decision

record outbox_row =
  ox_object_id :: string
  ox_team_id :: string
  ox_sequence :: int
  ox_kind :: outbox_kind
  ox_record :: outbox_record

record delivery_row =
  dv_outbox_id :: string
  dv_session_id :: string
  dv_delivered_at :: int

record idempotency_row =
  ik_scope :: string
  ik_operation_key :: string
  ik_request_hash :: string
  ik_response_type :: string
  ik_response_id :: string
  ik_created_at :: int

record db =
  rosters :: "team_roster rev_row list"
  graphs :: "team_task_graph rev_row list"
  authorities :: "execution_authority rev_row list"
  teams :: "team_row list"
  team_heads :: "team_head_row list"
  task_claims :: "claim_row list"
  task_leases :: "lease_row list"
  task_events :: "event_row list"
  task_heads :: "task_head_row list"
  capability_calls :: "call_row list"
  capability_results :: "result_row list"
  completion_responses :: "completion_row list"
  task_usage_events :: "usage_row list"
  envelopes :: "envelope_row list"
  artifact_heads :: "head_row list"
  artifact_current :: "current_row list"
  messages :: "message_row list"
  subscriptions :: "(int, artifact_subscription) history_row list"
  subscription_current :: "current_row list"
  conflicts :: "(conflict_status, team_conflict) history_row list"
  conflict_current :: "current_row list"
  projections :: "(string, member_projection) history_row list"
  projection_current :: "current_row list"
  checkpoints :: "checkpoint_row list"
  checkpoint_current :: "checkpoint_head_row list"
  convergence :: "convergence_row list"
  outbox_rows :: "outbox_row list"
  outbox_delivery :: "delivery_row list"
  idempotency :: "idempotency_row list"

definition empty_db :: db where
  "empty_db =
     \<lparr>rosters = [], graphs = [], authorities = [], teams = [], team_heads = [], task_claims = [],
      task_leases = [], task_events = [], task_heads = [], capability_calls = [],
      capability_results = [], completion_responses = [], task_usage_events = [], envelopes = [],
      artifact_heads = [], artifact_current = [], messages = [], subscriptions = [],
      subscription_current = [], conflicts = [], conflict_current = [], projections = [],
      projection_current = [], checkpoints = [], checkpoint_current = [], convergence = [],
      outbox_rows = [], outbox_delivery = [], idempotency = []\<rparr>"

section \<open>Constrained inserts\<close>

definition insert_row :: "string \<Rightarrow> ('r \<Rightarrow> 'r \<Rightarrow> bool) \<Rightarrow> 'r \<Rightarrow> 'r list \<Rightarrow> 'r list result" where
  "insert_row table clash r rows =
     (if list_ex (clash r) rows then Inl (SqlIntegrityError table) else Inr (rows @ [r]))"

definition foreign_key :: "string \<Rightarrow> ('r \<Rightarrow> string) \<Rightarrow> 'r list \<Rightarrow> string \<Rightarrow> unit result" where
  "foreign_key table key rows i = guard (list_ex (\<lambda>r. key r = i) rows) (SqlIntegrityError table)"

definition rev_clash :: "'r rev_row \<Rightarrow> 'r rev_row \<Rightarrow> bool" where
  "rev_clash r x \<longleftrightarrow> rv_object_id x = rv_object_id r \<or>
     (rv_team_id x = rv_team_id r \<and> rv_revision x = rv_revision r)"

definition insert_roster :: "team_roster rev_row \<Rightarrow> db \<Rightarrow> db result" where
  "insert_roster r d =
     rbind (insert_row ''rosters'' rev_clash r (rosters d)) (\<lambda>rows. Inr (d\<lparr>rosters := rows\<rparr>))"

definition insert_graph :: "team_task_graph rev_row \<Rightarrow> db \<Rightarrow> db result" where
  "insert_graph r d =
     rbind (insert_row ''graphs'' rev_clash r (graphs d)) (\<lambda>rows. Inr (d\<lparr>graphs := rows\<rparr>))"

definition insert_authority :: "execution_authority rev_row \<Rightarrow> db \<Rightarrow> db result" where
  "insert_authority r d =
     rbind (insert_row ''authorities'' rev_clash r (authorities d))
       (\<lambda>rows. Inr (d\<lparr>authorities := rows\<rparr>))"

definition insert_team :: "team_row \<Rightarrow> db \<Rightarrow> db result" where
  "insert_team r d =
     rbind (foreign_key ''teams'' rv_object_id (rosters d) (tr_roster_id r)) (\<lambda>_.
     rbind (foreign_key ''teams'' rv_object_id (graphs d) (tr_graph_id r)) (\<lambda>_.
     rbind (foreign_key ''teams'' rv_object_id (authorities d) (tr_authority_id r)) (\<lambda>_.
     rbind (insert_row ''teams''
              (\<lambda>r x. tr_object_id x = tr_object_id r \<or>
                     (tr_team_id x = tr_team_id r \<and> tr_version x = tr_version r)) r (teams d))
       (\<lambda>rows. Inr (d\<lparr>teams := rows\<rparr>)))))"

definition insert_team_head :: "team_head_row \<Rightarrow> db \<Rightarrow> db result" where
  "insert_team_head r d =
     rbind (foreign_key ''team_heads'' tr_object_id (teams d) (th_team_id_ref r)) (\<lambda>_.
     rbind (foreign_key ''team_heads'' rv_object_id (rosters d) (th_roster_id r)) (\<lambda>_.
     rbind (foreign_key ''team_heads'' rv_object_id (graphs d) (th_graph_id r)) (\<lambda>_.
     rbind (foreign_key ''team_heads'' rv_object_id (authorities d) (th_authority_id r)) (\<lambda>_.
     rbind (insert_row ''team_heads'' (\<lambda>r x. th_team_id x = th_team_id r) r (team_heads d))
       (\<lambda>rows. Inr (d\<lparr>team_heads := rows\<rparr>))))))"

definition insert_claim :: "claim_row \<Rightarrow> db \<Rightarrow> db result" where
  "insert_claim r d =
     rbind (insert_row ''task_claims''
              (\<lambda>r x. kr_object_id x = kr_object_id r \<or>
                     (kr_team_id x = kr_team_id r \<and> kr_task_id x = kr_task_id r \<and>
                      kr_attempt x = kr_attempt r)) r (task_claims d))
       (\<lambda>rows. Inr (d\<lparr>task_claims := rows\<rparr>))"

definition insert_lease :: "lease_row \<Rightarrow> db \<Rightarrow> db result" where
  "insert_lease r d =
     rbind (insert_row ''task_leases''
              (\<lambda>r x. lr_object_id x = lr_object_id r \<or>
                     (lr_team_id x = lr_team_id r \<and> lr_task_id x = lr_task_id r \<and>
                      (lr_attempt x = lr_attempt r \<or> lr_fence x = lr_fence r))) r (task_leases d))
       (\<lambda>rows. Inr (d\<lparr>task_leases := rows\<rparr>))"

definition event_clash :: "event_row \<Rightarrow> event_row \<Rightarrow> bool" where
  "event_clash r x \<longleftrightarrow> er_object_id x = er_object_id r \<or>
     (er_team_id x = er_team_id r \<and> er_task_id x = er_task_id r \<and> er_version x = er_version r)"

definition insert_task_event :: "event_row \<Rightarrow> db \<Rightarrow> db result" where
  "insert_task_event r d =
     rbind (insert_row ''task_events'' event_clash r (task_events d))
       (\<lambda>rows. Inr (d\<lparr>task_events := rows\<rparr>))"

definition upsert_task_head :: "task_head_row \<Rightarrow> db \<Rightarrow> db result" where
  "upsert_task_head r d =
     rbind (foreign_key ''task_heads'' er_object_id (task_events d) (xh_event_id r)) (\<lambda>_.
     Inr (d\<lparr>task_heads := upsert (\<lambda>x. (xh_team_id x, xh_task_id x)) r (task_heads d)\<rparr>))"

definition insert_call :: "call_row \<Rightarrow> db \<Rightarrow> db result" where
  "insert_call r d =
     rbind (insert_row ''capability_calls'' (\<lambda>r x. qr_object_id x = qr_object_id r) r (capability_calls d))
       (\<lambda>rows. Inr (d\<lparr>capability_calls := rows\<rparr>))"

definition insert_result :: "result_row \<Rightarrow> db \<Rightarrow> db result" where
  "insert_result r d =
     rbind (foreign_key ''capability_results'' qr_object_id (capability_calls d) (rr_call_id r)) (\<lambda>_.
     rbind (insert_row ''capability_results''
              (\<lambda>r x. rr_object_id x = rr_object_id r \<or> rr_call_id x = rr_call_id r) r
              (capability_results d))
       (\<lambda>rows. Inr (d\<lparr>capability_results := rows\<rparr>)))"

definition insert_completion :: "completion_row \<Rightarrow> db \<Rightarrow> db result" where
  "insert_completion r d =
     rbind (foreign_key ''completion_responses'' rr_object_id (capability_results d) (co_result_id r)) (\<lambda>_.
     rbind (foreign_key ''completion_responses'' er_object_id (task_events d) (co_event_id r)) (\<lambda>_.
     rbind (foreign_key ''completion_responses'' tr_object_id (teams d) (co_team_object_id r)) (\<lambda>_.
     rbind (insert_row ''completion_responses''
              (\<lambda>r x. co_result_id x = co_result_id r \<or> co_event_id x = co_event_id r) r
              (completion_responses d))
       (\<lambda>rows. Inr (d\<lparr>completion_responses := rows\<rparr>)))))"

definition insert_usage :: "usage_row \<Rightarrow> db \<Rightarrow> db result" where
  "insert_usage r d =
     rbind (foreign_key ''task_usage_events'' rr_object_id (capability_results d) (us_result_id r)) (\<lambda>_.
     rbind (insert_row ''task_usage_events'' (\<lambda>r x. us_result_id x = us_result_id r) r
              (task_usage_events d))
       (\<lambda>rows. Inr (d\<lparr>task_usage_events := rows\<rparr>)))"

definition insert_envelope :: "envelope_row \<Rightarrow> db \<Rightarrow> db result" where
  "insert_envelope r d =
     rbind (insert_row ''envelopes''
              (\<lambda>r x. nr_object_id x = nr_object_id r \<or>
                     (nr_team_id x = nr_team_id r \<and> nr_artifact_id x = nr_artifact_id r \<and>
                      nr_revision x = nr_revision r)) r (envelopes d))
       (\<lambda>rows. Inr (d\<lparr>envelopes := rows\<rparr>))"

definition insert_head :: "head_row \<Rightarrow> db \<Rightarrow> db result" where
  "insert_head r d =
     rbind (foreign_key ''artifact_heads'' nr_object_id (envelopes d) (hr_envelope_id r)) (\<lambda>_.
     rbind (insert_row ''artifact_heads''
              (\<lambda>r x. hr_object_id x = hr_object_id r \<or>
                     (hr_team_id x = hr_team_id r \<and> hr_head_id x = hr_head_id r \<and>
                      hr_revision x = hr_revision r) \<or>
                     (hr_team_id x = hr_team_id r \<and> hr_sequence x = hr_sequence r)) r
              (artifact_heads d))
       (\<lambda>rows. Inr (d\<lparr>artifact_heads := rows\<rparr>)))"

definition current_key :: "current_row \<Rightarrow> string \<times> string" where
  "current_key r = (cu_team_id r, cu_key r)"

definition current_clash :: "current_row \<Rightarrow> current_row \<Rightarrow> bool" where
  "current_clash r x \<longleftrightarrow> current_key x = current_key r"

definition insert_artifact_current :: "current_row \<Rightarrow> db \<Rightarrow> db result" where
  "insert_artifact_current r d =
     rbind (foreign_key ''artifact_current'' hr_object_id (artifact_heads d) (cu_object_id r)) (\<lambda>_.
     rbind (insert_row ''artifact_current'' current_clash r (artifact_current d))
       (\<lambda>rows. Inr (d\<lparr>artifact_current := rows\<rparr>)))"

definition upsert_artifact_current :: "current_row \<Rightarrow> db \<Rightarrow> db result" where
  "upsert_artifact_current r d =
     rbind (foreign_key ''artifact_current'' hr_object_id (artifact_heads d) (cu_object_id r)) (\<lambda>_.
     Inr (d\<lparr>artifact_current := upsert current_key r (artifact_current d)\<rparr>))"

definition insert_message :: "message_row \<Rightarrow> db \<Rightarrow> db result" where
  "insert_message r d =
     rbind (insert_row ''messages''
              (\<lambda>r x. mr_object_id x = mr_object_id r \<or>
                     (mr_team_id x = mr_team_id r \<and> mr_sequence x = mr_sequence r)) r (messages d))
       (\<lambda>rows. Inr (d\<lparr>messages := rows\<rparr>))"

definition history_clash :: "('x, 'r) history_row \<Rightarrow> ('x, 'r) history_row \<Rightarrow> bool" where
  "history_clash r x \<longleftrightarrow> hi_object_id x = hi_object_id r \<or>
     (hi_team_id x = hi_team_id r \<and> hi_key x = hi_key r \<and> hi_revision x = hi_revision r)"

definition insert_subscription_row :: "(int, artifact_subscription) history_row \<Rightarrow> db \<Rightarrow> db result" where
  "insert_subscription_row r d =
     rbind (insert_row ''subscriptions'' history_clash r (subscriptions d))
       (\<lambda>rows. Inr (d\<lparr>subscriptions := rows\<rparr>))"

definition insert_subscription_current :: "current_row \<Rightarrow> db \<Rightarrow> db result" where
  "insert_subscription_current r d =
     rbind (foreign_key ''subscription_current'' hi_object_id (subscriptions d) (cu_object_id r)) (\<lambda>_.
     rbind (insert_row ''subscription_current'' current_clash r (subscription_current d))
       (\<lambda>rows. Inr (d\<lparr>subscription_current := rows\<rparr>)))"

definition insert_conflict_row :: "(conflict_status, team_conflict) history_row \<Rightarrow> db \<Rightarrow> db result" where
  "insert_conflict_row r d =
     rbind (insert_row ''conflicts'' history_clash r (conflicts d))
       (\<lambda>rows. Inr (d\<lparr>conflicts := rows\<rparr>))"

definition upsert_conflict_current :: "current_row \<Rightarrow> db \<Rightarrow> db result" where
  "upsert_conflict_current r d =
     rbind (foreign_key ''conflict_current'' hi_object_id (conflicts d) (cu_object_id r)) (\<lambda>_.
     Inr (d\<lparr>conflict_current := upsert current_key r (conflict_current d)\<rparr>))"

definition insert_projection_row :: "(string, member_projection) history_row \<Rightarrow> db \<Rightarrow> db result" where
  "insert_projection_row r d =
     rbind (insert_row ''projections'' history_clash r (projections d))
       (\<lambda>rows. Inr (d\<lparr>projections := rows\<rparr>))"

definition upsert_projection_current :: "current_row \<Rightarrow> db \<Rightarrow> db result" where
  "upsert_projection_current r d =
     rbind (foreign_key ''projection_current'' hi_object_id (projections d) (cu_object_id r)) (\<lambda>_.
     Inr (d\<lparr>projection_current := upsert current_key r (projection_current d)\<rparr>))"

definition insert_checkpoint :: "checkpoint_row \<Rightarrow> db \<Rightarrow> db result" where
  "insert_checkpoint r d =
     rbind (insert_row ''checkpoints''
              (\<lambda>r x. kp_object_id x = kp_object_id r \<or>
                     (kp_team_id x = kp_team_id r \<and> kp_sequence x = kp_sequence r)) r (checkpoints d))
       (\<lambda>rows. Inr (d\<lparr>checkpoints := rows\<rparr>))"

definition upsert_checkpoint_current :: "checkpoint_head_row \<Rightarrow> db \<Rightarrow> db result" where
  "upsert_checkpoint_current r d =
     rbind (foreign_key ''checkpoint_current'' kp_object_id (checkpoints d) (kh_object_id r)) (\<lambda>_.
     Inr (d\<lparr>checkpoint_current := upsert kh_team_id r (checkpoint_current d)\<rparr>))"

definition insert_convergence :: "convergence_row \<Rightarrow> db \<Rightarrow> db result" where
  "insert_convergence r d =
     rbind (insert_row ''convergence''
              (\<lambda>r x. cv_object_id x = cv_object_id r \<or>
                     (cv_team_id x = cv_team_id r \<and> cv_sequence x = cv_sequence r)) r (convergence d))
       (\<lambda>rows. Inr (d\<lparr>convergence := rows\<rparr>))"

text \<open>\<open>INSERT OR IGNORE\<close>: a delivery already recorded is kept as it is.\<close>

definition insert_delivery :: "delivery_row \<Rightarrow> db \<Rightarrow> db result" where
  "insert_delivery r d =
     (if list_ex (\<lambda>x. dv_outbox_id x = dv_outbox_id r \<and> dv_session_id x = dv_session_id r) (outbox_delivery d)
      then Inr d
      else rbind (foreign_key ''outbox_delivery'' ox_object_id (outbox_rows d) (dv_outbox_id r)) (\<lambda>_.
           Inr (d\<lparr>outbox_delivery := outbox_delivery d @ [r]\<rparr>)))"

definition insert_outbox :: "outbox_row \<Rightarrow> db \<Rightarrow> db result" where
  "insert_outbox r d =
     rbind (insert_row ''outbox''
              (\<lambda>r x. ox_object_id x = ox_object_id r \<or>
                     (ox_team_id x = ox_team_id r \<and> ox_sequence x = ox_sequence r)) r (outbox_rows d))
       (\<lambda>rows. Inr (d\<lparr>outbox_rows := rows\<rparr>))"

definition insert_idempotency :: "idempotency_row \<Rightarrow> db \<Rightarrow> db result" where
  "insert_idempotency r d =
     rbind (insert_row ''idempotency''
              (\<lambda>r x. ik_scope x = ik_scope r \<and> ik_operation_key x = ik_operation_key r) r
              (idempotency d))
       (\<lambda>rows. Inr (d\<lparr>idempotency := rows\<rparr>))"

section \<open>What a successful insert did\<close>

lemma insert_row_Inr_iff:
  "insert_row t clash r rows = Inr rows' \<longleftrightarrow> rows' = rows @ [r] \<and> (\<forall>x\<in>set rows. \<not> clash r x)"
  by (auto simp: insert_row_def list_ex_iff)

lemma foreign_key_Inr_iff [simp]:
  "foreign_key t key rows i = Inr u \<longleftrightarrow> (\<exists>r\<in>set rows. key r = i)"
  by (auto simp: foreign_key_def list_ex_iff)

lemma inject_fault_Inr [simp]: "inject_fault e p = Inr u \<longleftrightarrow> \<not> fault e p"
  by (simp add: inject_fault_def)

lemmas insert_defs =
  insert_roster_def insert_graph_def insert_authority_def insert_team_def insert_team_head_def
  insert_claim_def insert_lease_def insert_task_event_def upsert_task_head_def insert_call_def
  insert_result_def insert_completion_def insert_usage_def insert_envelope_def insert_head_def
  insert_artifact_current_def upsert_artifact_current_def insert_message_def
  insert_subscription_row_def insert_subscription_current_def insert_conflict_row_def
  upsert_conflict_current_def insert_outbox_def insert_idempotency_def insert_projection_row_def
  upsert_projection_current_def insert_checkpoint_def upsert_checkpoint_current_def insert_convergence_def

lemma insert_shape:
  "insert_roster r1 d = Inr d' \<Longrightarrow> d' = d\<lparr>rosters := rosters d @ [r1]\<rparr>"
  "insert_graph r2 d = Inr d' \<Longrightarrow> d' = d\<lparr>graphs := graphs d @ [r2]\<rparr>"
  "insert_authority r3 d = Inr d' \<Longrightarrow> d' = d\<lparr>authorities := authorities d @ [r3]\<rparr>"
  "insert_team r4 d = Inr d' \<Longrightarrow> d' = d\<lparr>teams := teams d @ [r4]\<rparr>"
  "insert_team_head r5 d = Inr d' \<Longrightarrow> d' = d\<lparr>team_heads := team_heads d @ [r5]\<rparr>"
  "insert_claim r6 d = Inr d' \<Longrightarrow> d' = d\<lparr>task_claims := task_claims d @ [r6]\<rparr>"
  "insert_lease r7 d = Inr d' \<Longrightarrow> d' = d\<lparr>task_leases := task_leases d @ [r7]\<rparr>"
  "insert_task_event r8 d = Inr d' \<Longrightarrow> d' = d\<lparr>task_events := task_events d @ [r8]\<rparr>"
  "upsert_task_head r9 d = Inr d' \<Longrightarrow>
     d' = d\<lparr>task_heads := upsert (\<lambda>x. (xh_team_id x, xh_task_id x)) r9 (task_heads d)\<rparr>"
  "insert_call r10 d = Inr d' \<Longrightarrow> d' = d\<lparr>capability_calls := capability_calls d @ [r10]\<rparr>"
  "insert_result r11 d = Inr d' \<Longrightarrow> d' = d\<lparr>capability_results := capability_results d @ [r11]\<rparr>"
  "insert_completion r12 d = Inr d' \<Longrightarrow>
     d' = d\<lparr>completion_responses := completion_responses d @ [r12]\<rparr>"
  "insert_usage r13 d = Inr d' \<Longrightarrow> d' = d\<lparr>task_usage_events := task_usage_events d @ [r13]\<rparr>"
  "insert_envelope r14 d = Inr d' \<Longrightarrow> d' = d\<lparr>envelopes := envelopes d @ [r14]\<rparr>"
  "insert_head r15 d = Inr d' \<Longrightarrow> d' = d\<lparr>artifact_heads := artifact_heads d @ [r15]\<rparr>"
  "insert_artifact_current r16 d = Inr d' \<Longrightarrow> d' = d\<lparr>artifact_current := artifact_current d @ [r16]\<rparr>"
  "upsert_artifact_current r16 d = Inr d' \<Longrightarrow>
     d' = d\<lparr>artifact_current := upsert current_key r16 (artifact_current d)\<rparr>"
  "insert_message r17 d = Inr d' \<Longrightarrow> d' = d\<lparr>messages := messages d @ [r17]\<rparr>"
  "insert_subscription_row r18 d = Inr d' \<Longrightarrow> d' = d\<lparr>subscriptions := subscriptions d @ [r18]\<rparr>"
  "insert_subscription_current r16 d = Inr d' \<Longrightarrow>
     d' = d\<lparr>subscription_current := subscription_current d @ [r16]\<rparr>"
  "insert_conflict_row r19 d = Inr d' \<Longrightarrow> d' = d\<lparr>conflicts := conflicts d @ [r19]\<rparr>"
  "upsert_conflict_current r16 d = Inr d' \<Longrightarrow>
     d' = d\<lparr>conflict_current := upsert current_key r16 (conflict_current d)\<rparr>"
  "insert_outbox r20 d = Inr d' \<Longrightarrow> d' = d\<lparr>outbox_rows := outbox_rows d @ [r20]\<rparr>"
  "insert_idempotency r21 d = Inr d' \<Longrightarrow> d' = d\<lparr>idempotency := idempotency d @ [r21]\<rparr>"
  "insert_projection_row r22 d = Inr d' \<Longrightarrow> d' = d\<lparr>projections := projections d @ [r22]\<rparr>"
  "upsert_projection_current r16 d = Inr d' \<Longrightarrow>
     d' = d\<lparr>projection_current := upsert current_key r16 (projection_current d)\<rparr>"
  "insert_checkpoint r23 d = Inr d' \<Longrightarrow> d' = d\<lparr>checkpoints := checkpoints d @ [r23]\<rparr>"
  "upsert_checkpoint_current r24 d = Inr d' \<Longrightarrow>
     d' = d\<lparr>checkpoint_current := upsert kh_team_id r24 (checkpoint_current d)\<rparr>"
  "insert_convergence r25 d = Inr d' \<Longrightarrow> d' = d\<lparr>convergence := convergence d @ [r25]\<rparr>"
  by (auto simp: insert_defs insert_row_Inr_iff)

lemma insert_delivery_shape:
  "insert_delivery r d = Inr d' \<Longrightarrow>
     d' = d \<or> d' = d\<lparr>outbox_delivery := outbox_delivery d @ [r]\<rparr>"
  by (auto simp: insert_delivery_def split: if_splits)

end
