(* ===== verification/Store_Db.thy ===== *)
theory Store_Db
  imports Store_Schema
begin

text \<open>
  The transaction mechanics of \<open>TeamStoreDatabase\<close> in \<open>team/_store_db.py\<close>: loading records by
  identity, reading the current and a historical Team bundle and checking that it is consistent,
  looking up tasks and members, idempotent replay, the outbox and the current-head check. A store
  operation is a function from the database it sees to either an error or the database it would
  commit with its answer; \<open>transact\<close> is the commit-or-rollback of \<open>_write\<close>.
\<close>

section \<open>Transactions\<close>

definition transact :: "('d \<Rightarrow> ('d \<times> 'a) result) \<Rightarrow> 'd \<Rightarrow> 'a result \<times> 'd" where
  "transact body d = (case body d of Inl err \<Rightarrow> (Inl err, d) | Inr (d', x) \<Rightarrow> (Inr x, d'))"

section \<open>Loading records\<close>

definition not_found_message :: "string \<Rightarrow> string" where
  "not_found_message name = name @ '' was not found''"

definition load ::
  "'a harness_object_scheme harness_class \<Rightarrow> string \<Rightarrow> ('row \<Rightarrow> string) \<Rightarrow>
   ('row \<Rightarrow> 'a harness_object_scheme) \<Rightarrow> 'row list \<Rightarrow> string \<Rightarrow> 'a harness_object_scheme result" where
  "load cls name key rec rows i =
     (case find (\<lambda>r. key r = i) rows of
        None \<Rightarrow> Inl (TeamNotFoundError (not_found_message name))
      | Some r \<Rightarrow> parse_record cls name (rec r))"

definition load_claim :: "env \<Rightarrow> db \<Rightarrow> string \<Rightarrow> task_claim result" where
  "load_claim e d = load (claim_cls e) ''TeamTaskClaimV1'' kr_object_id kr_record (task_claims d)"

definition load_lease :: "env \<Rightarrow> db \<Rightarrow> string \<Rightarrow> task_lease result" where
  "load_lease e d = load (lease_cls e) ''TeamTaskLeaseV1'' lr_object_id lr_record (task_leases d)"

definition load_event :: "env \<Rightarrow> db \<Rightarrow> string \<Rightarrow> task_event result" where
  "load_event e d = load (event_cls e) ''TeamTaskEventV1'' er_object_id er_record (task_events d)"

definition load_result :: "env \<Rightarrow> db \<Rightarrow> string \<Rightarrow> capability_result result" where
  "load_result e d =
     load (result_cls e) ''CapabilityResultV1'' rr_object_id rr_record (capability_results d)"

definition load_envelope :: "env \<Rightarrow> db \<Rightarrow> string \<Rightarrow> artifact_envelope result" where
  "load_envelope e d = load (envelope_cls e) ''ArtifactEnvelopeV1'' nr_object_id nr_record (envelopes d)"

definition load_head :: "env \<Rightarrow> db \<Rightarrow> string \<Rightarrow> artifact_head result" where
  "load_head e d = load (head_cls e) ''ArtifactHeadV1'' hr_object_id hr_record (artifact_heads d)"

definition load_message :: "env \<Rightarrow> db \<Rightarrow> string \<Rightarrow> team_message result" where
  "load_message e d = load (message_cls e) ''TeamMessageV1'' mr_object_id mr_record (messages d)"

definition load_subscription :: "env \<Rightarrow> db \<Rightarrow> string \<Rightarrow> artifact_subscription result" where
  "load_subscription e d =
     load (subscription_cls e) ''ArtifactSubscriptionV1'' hi_object_id hi_record (subscriptions d)"

definition load_conflict :: "env \<Rightarrow> db \<Rightarrow> string \<Rightarrow> team_conflict result" where
  "load_conflict e d = load (conflict_cls e) ''TeamConflictV1'' hi_object_id hi_record (conflicts d)"

section \<open>Team snapshots\<close>

record team_snapshot =
  sn_team :: team
  sn_roster :: team_roster
  sn_graph :: team_task_graph
  sn_authority :: execution_authority

definition member_task_ids :: "team_task_graph \<Rightarrow> string \<Rightarrow> string set" where
  "member_task_ids g m = set (map tk_task_id (filter (\<lambda>t. tk_assigned_member_id t = Some m) (gr_tasks g)))"

definition validate_bundle :: "team_snapshot \<Rightarrow> unit result" where
  "validate_bundle sn =
     (let team = sn_team sn; roster = sn_roster sn; graph = sn_graph sn; authority = sn_authority sn;
          member_ids = map mb_member_id (ro_members roster);
          coordinator = filter (\<lambda>m. mb_member_id m = tm_coordinator_member_id team) (ro_members roster)
      in if {ro_team_id roster, gr_team_id graph, au_team_id authority} \<noteq> {tm_team_id team} \<or>
            tm_roster_ref team \<noteq> roster_ref_of roster \<or>
            tm_task_graph_ref team \<noteq> graph_ref_of graph \<or>
            tm_authority_ref team \<noteq> authority_ref_of authority \<or>
            gr_roster_ref graph \<noteq> roster_ref_of roster \<or>
            au_roster_ref authority \<noteq> roster_ref_of roster \<or>
            au_task_graph_ref authority \<noteq> graph_ref_of graph \<or>
            au_team_incarnation_id authority \<noteq> tm_team_incarnation_id team \<or>
            gr_member_ids graph \<noteq> member_ids \<or>
            map mg_member_id (au_grants authority) \<noteq> member_ids \<or>
            list_ex (\<lambda>g. set (mg_task_ids g) \<noteq> member_task_ids graph (mg_member_id g)) (au_grants authority)
         then Inl (TeamIntegrityError ''Team authority bundle is inconsistent'')
         else if length coordinator \<noteq> 1 \<or> \<not> mb_is_coordinator (hd coordinator)
         then Inl (TeamIntegrityError ''Team coordinator is stale'')
         else Inr ())"

definition parse_bundle ::
  "env \<Rightarrow> team_row \<Rightarrow> team_roster rev_row \<Rightarrow> team_task_graph rev_row \<Rightarrow> execution_authority rev_row
     \<Rightarrow> team_snapshot result" where
  "parse_bundle e t r g a =
     rbind (parse_record (team_cls e) ''Team'' (tr_record t)) (\<lambda>team.
     rbind (parse_record (roster_cls e) ''Team roster'' (rv_record r)) (\<lambda>roster.
     rbind (parse_record (graph_cls e) ''Team graph'' (rv_record g)) (\<lambda>graph.
     rbind (parse_record (authority_cls e) ''execution authority'' (rv_record a)) (\<lambda>authority.
     Inr \<lparr>sn_team = team, sn_roster = roster, sn_graph = graph, sn_authority = authority\<rparr>))))"

definition find_rev :: "string \<Rightarrow> 'r rev_row list \<Rightarrow> 'r rev_row option" where
  "find_rev i rows = find (\<lambda>r. rv_object_id r = i) rows"

text \<open>The inner joins of the two snapshot queries.\<close>

definition join_head ::
  "db \<Rightarrow> string \<Rightarrow> (team_head_row \<times> team_row \<times> team_roster rev_row \<times> team_task_graph rev_row \<times>
     execution_authority rev_row) option" where
  "join_head d team_id =
     Option.bind (find (\<lambda>h. th_team_id h = team_id) (team_heads d)) (\<lambda>h.
     Option.bind (find (\<lambda>t. tr_object_id t = th_team_id_ref h) (teams d)) (\<lambda>t.
     Option.bind (find_rev (th_roster_id h) (rosters d)) (\<lambda>r.
     Option.bind (find_rev (th_graph_id h) (graphs d)) (\<lambda>g.
     Option.bind (find_rev (th_authority_id h) (authorities d)) (\<lambda>a.
     Some (h, t, r, g, a))))))"

definition join_team ::
  "db \<Rightarrow> string \<Rightarrow> (team_row \<times> team_roster rev_row \<times> team_task_graph rev_row \<times>
     execution_authority rev_row) option" where
  "join_team d i =
     Option.bind (find (\<lambda>t. tr_object_id t = i) (teams d)) (\<lambda>t.
     Option.bind (find_rev (tr_roster_id t) (rosters d)) (\<lambda>r.
     Option.bind (find_rev (tr_graph_id t) (graphs d)) (\<lambda>g.
     Option.bind (find_rev (tr_authority_id t) (authorities d)) (\<lambda>a.
     Some (t, r, g, a)))))"

definition latest_team :: "db \<Rightarrow> string \<Rightarrow> team_row option" where
  "latest_team d team_id = latest_by tr_version (filter (\<lambda>t. tr_team_id t = team_id) (teams d))"

definition snapshot :: "env \<Rightarrow> db \<Rightarrow> string \<Rightarrow> team_snapshot result" where
  "snapshot e d team_id =
     (case join_head d team_id of
        None \<Rightarrow>
          (if list_ex (\<lambda>t. tr_team_id t = team_id) (teams d)
           then Inl (TeamIntegrityError ''Team current head is missing'')
           else Inl (TeamNotFoundError ''Team was not found''))
      | Some (h, t, r, g, a) \<Rightarrow>
          rbind (parse_bundle e t r g a) (\<lambda>sn.
          if (case latest_team d team_id of None \<Rightarrow> True | Some l \<Rightarrow> tr_object_id l \<noteq> th_team_id_ref h) \<or>
             object_id (sn_team sn) \<noteq> th_team_id_ref h \<or>
             tm_team_id (sn_team sn) \<noteq> tr_team_id t \<or>
             tm_team_version (sn_team sn) \<noteq> tr_version t \<or>
             object_id (sn_roster sn) \<noteq> th_roster_id h \<or>
             ro_team_id (sn_roster sn) \<noteq> rv_team_id r \<or>
             ro_revision (sn_roster sn) \<noteq> rv_revision r \<or>
             object_id (sn_graph sn) \<noteq> th_graph_id h \<or>
             gr_team_id (sn_graph sn) \<noteq> rv_team_id g \<or>
             gr_revision (sn_graph sn) \<noteq> rv_revision g \<or>
             object_id (sn_authority sn) \<noteq> th_authority_id h \<or>
             au_team_id (sn_authority sn) \<noteq> rv_team_id a \<or>
             au_authority_version (sn_authority sn) \<noteq> rv_revision a
          then Inl (TeamIntegrityError ''Team current head drifted'')
          else rbind (validate_bundle sn) (\<lambda>_. Inr sn)))"

definition snapshot_at :: "env \<Rightarrow> db \<Rightarrow> object_ref \<Rightarrow> team_snapshot result" where
  "snapshot_at e d team_ref =
     (case join_team d (ref_id team_ref) of
        None \<Rightarrow> Inl (TeamNotFoundError ''Team reference was not found'')
      | Some (t, r, g, a) \<Rightarrow>
          rbind (parse_bundle e t r g a) (\<lambda>sn.
          if team_ref_of (sn_team sn) \<noteq> team_ref \<or>
             tm_team_id (sn_team sn) \<noteq> tr_team_id t \<or>
             tm_team_version (sn_team sn) \<noteq> tr_version t \<or>
             object_id (sn_roster sn) \<noteq> tr_roster_id t \<or>
             ro_team_id (sn_roster sn) \<noteq> rv_team_id r \<or>
             ro_revision (sn_roster sn) \<noteq> rv_revision r \<or>
             object_id (sn_graph sn) \<noteq> tr_graph_id t \<or>
             gr_team_id (sn_graph sn) \<noteq> rv_team_id g \<or>
             gr_revision (sn_graph sn) \<noteq> rv_revision g \<or>
             object_id (sn_authority sn) \<noteq> tr_authority_id t \<or>
             au_team_id (sn_authority sn) \<noteq> rv_team_id a \<or>
             au_authority_version (sn_authority sn) \<noteq> rv_revision a
          then Inl (TeamIntegrityError ''historical Team authority drifted'')
          else rbind (validate_bundle sn) (\<lambda>_. Inr sn)))"

definition require_refs ::
  "env \<Rightarrow> db \<Rightarrow> string \<Rightarrow> object_ref \<Rightarrow> object_ref \<Rightarrow> object_ref \<Rightarrow> team_snapshot result" where
  "require_refs e d team_id team_ref graph_ref authority_ref =
     rbind (snapshot e d team_id) (\<lambda>sn.
     if team_ref_of (sn_team sn) \<noteq> team_ref \<or> graph_ref_of (sn_graph sn) \<noteq> graph_ref \<or>
        authority_ref_of (sn_authority sn) \<noteq> authority_ref
     then Inl (TeamConcurrencyError ''Team, graph, or authority is stale'')
     else Inr sn)"

definition team_id_of :: "env \<Rightarrow> db \<Rightarrow> object_ref \<Rightarrow> string result" where
  "team_id_of e d reference =
     (if ref_type reference \<noteq> ''agent-team'' then Inl (TeamIntegrityError ''reference is not a Team'')
      else case find (\<lambda>t. tr_object_id t = ref_id reference) (teams d) of
             None \<Rightarrow> Inl (TeamNotFoundError ''Team reference was not found'')
           | Some row \<Rightarrow>
               rbind (parse_record (team_cls e) ''Team'' (tr_record row)) (\<lambda>v.
               if team_ref_of v \<noteq> reference then Inl (TeamIntegrityError ''Team reference drifted'')
               else Inr (tr_team_id row)))"

section \<open>Tasks and members of a snapshot\<close>

definition only :: "store_error \<Rightarrow> 'a list \<Rightarrow> 'a result" where
  "only err xs = (case xs of [x] \<Rightarrow> Inr x | _ \<Rightarrow> Inl err)"

definition task_by_id :: "team_snapshot \<Rightarrow> string \<Rightarrow> team_task result" where
  "task_by_id sn i =
     only (TeamNotFoundError ''Team task was not found'')
       (filter (\<lambda>t. tk_task_id t = i) (gr_tasks (sn_graph sn)))"

definition task_by_ref :: "team_snapshot \<Rightarrow> object_ref \<Rightarrow> team_task result" where
  "task_by_ref sn r =
     only (TeamConcurrencyError ''Team task reference is stale'')
       (filter (\<lambda>t. task_ref_of t = r) (gr_tasks (sn_graph sn)))"

definition member_by_ref :: "team_snapshot \<Rightarrow> object_ref \<Rightarrow> team_member result" where
  "member_by_ref sn r =
     only (TeamConcurrencyError ''Team member reference is stale'')
       (filter (\<lambda>m. member_ref_of m = r) (ro_members (sn_roster sn)))"

definition member_by_id :: "team_snapshot \<Rightarrow> string \<Rightarrow> team_member result" where
  "member_by_id sn i =
     only (TeamNotFoundError ''Team member was not found'')
       (filter (\<lambda>m. mb_member_id m = i) (ro_members (sn_roster sn)))"

section \<open>Idempotency and outbox\<close>

definition replay_row :: "db \<Rightarrow> string \<Rightarrow> string \<Rightarrow> idempotency_row option" where
  "replay_row d scope operation_key =
     find (\<lambda>r. ik_scope r = scope \<and> ik_operation_key r = operation_key) (idempotency d)"

definition replay :: "db \<Rightarrow> string \<Rightarrow> string \<Rightarrow> string \<Rightarrow> (string \<times> string) option result" where
  "replay d scope operation_key request_hash =
     (case replay_row d scope operation_key of
        None \<Rightarrow> Inr None
      | Some r \<Rightarrow>
          if ik_request_hash r \<noteq> request_hash
          then Inl (TeamIdempotencyConflictError ''operation key already binds another Team request'')
          else Inr (Some (ik_response_type r, ik_response_id r)))"

definition remember ::
  "string \<Rightarrow> string \<Rightarrow> string \<Rightarrow> string \<Rightarrow> string \<Rightarrow> int \<Rightarrow> db \<Rightarrow> db result" where
  "remember scope operation_key request_hash response_type response_id now d =
     insert_idempotency
       \<lparr>ik_scope = scope, ik_operation_key = operation_key, ik_request_hash = request_hash,
        ik_response_type = response_type, ik_response_id = response_id, ik_created_at = now\<rparr> d"

definition outbox_key_for :: "string \<Rightarrow> int \<Rightarrow> string" where
  "outbox_key_for team_id sequence = team_id @ ''.outbox-'' @ dec sequence"

definition team_outbox :: "db \<Rightarrow> string \<Rightarrow> outbox_row list" where
  "team_outbox d team_id = filter (\<lambda>r. ox_team_id r = team_id) (outbox_rows d)"

definition append_outbox ::
  "env \<Rightarrow> team_snapshot \<Rightarrow> outbox_kind \<Rightarrow> object_ref \<Rightarrow> int \<Rightarrow> db \<Rightarrow> (db \<times> outbox_record) result" where
  "append_outbox e sn kind record_ref now d =
     (let team_id = tm_team_id (sn_team sn);
          sequence = coalesce_max (map ox_sequence (team_outbox d team_id)) + 1
      in rbind (create_outbox (dg_outbox e) (audit (sn_team sn))
                 \<lparr>object_id = [], object_sha256 = [], audit = no_audit,
                  ob_outbox_key = outbox_key_for team_id sequence, ob_team_id = team_id,
                  ob_sequence = sequence, ob_event_kind = kind,
                  ob_aggregate_ref = team_ref_of (sn_team sn), ob_record_ref = record_ref,
                  ob_intended_member_session_refs =
                    map mb_independent_session_ref (ro_members (sn_roster sn)),
                  ob_occurred_at = now\<rparr>) (\<lambda>rec.
         rbind (insert_outbox
                 \<lparr>ox_object_id = object_id rec, ox_team_id = ob_team_id rec,
                  ox_sequence = ob_sequence rec, ox_kind = ob_event_kind rec, ox_record = rec\<rparr> d)
           (\<lambda>d'. Inr (d', rec))))"

section \<open>Current-head checks\<close>

text \<open>A Python dictionary built from pairs in row order keeps the last value of a key.\<close>

definition dict_of :: "('k \<times> 'v) list \<Rightarrow> 'k \<rightharpoonup> 'v" where
  "dict_of ps = map_of (rev ps)"

definition same_dict :: "('k \<times> 'v) list \<Rightarrow> ('k \<times> 'v) list \<Rightarrow> bool" where
  "same_dict ps qs \<longleftrightarrow> list_all (\<lambda>k. dict_of ps k = dict_of qs k) (map fst ps @ map fst qs)"

definition expected_heads :: "string \<Rightarrow> ('x, 'r) history_row list \<Rightarrow> (string \<times> string) list" where
  "expected_heads team_id rows =
     (let own = filter (\<lambda>r. hi_team_id r = team_id) rows
      in map (\<lambda>r. (hi_key r, hi_object_id r))
           (filter (\<lambda>r. list_all (\<lambda>x. hi_key x = hi_key r \<longrightarrow> hi_revision x \<le> hi_revision r) own) own))"

definition observed_heads :: "string \<Rightarrow> current_row list \<Rightarrow> (string \<times> string) list" where
  "observed_heads team_id rows =
     map (\<lambda>r. (cu_key r, cu_object_id r)) (filter (\<lambda>r. cu_team_id r = team_id) rows)"

definition differs_message :: "string \<Rightarrow> string" where
  "differs_message table = table @ '' differs from immutable history''"

definition validate_pair_head ::
  "string \<Rightarrow> string \<Rightarrow> ('x, 'r) history_row list \<Rightarrow> current_row list \<Rightarrow> unit result" where
  "validate_pair_head team_id current_table history current =
     guard (same_dict (observed_heads team_id current) (expected_heads team_id history))
       (TeamIntegrityError (differs_message current_table))"

end
