(* ===== verification/Store_Tasks.thy ===== *)
theory Store_Tasks
  imports Store_Db
begin

text \<open>
  The fenced task lifecycle of \<open>TeamStoreAuthority\<close> in \<open>team/_store_authority.py\<close>: replaying the
  stored head of each task into its work item, deriving readiness from dependencies, appending task
  events, and the operations that claim a task, acquire its lease and heartbeat, expire or cancel it.
  An operation reads the clock at several places; \<open>clk i\<close> is the reading at its i-th place, in source
  order, so no relation between two readings is assumed.
\<close>

section \<open>Work items\<close>

record task_work =
  tw_task :: team_task
  tw_status :: task_status
  tw_attempt :: int
  tw_event_version :: int
  tw_graph_revision :: int
  tw_claim :: "task_claim option"
  tw_lease :: "task_lease option"
  tw_fencing_token :: "int option"
  tw_effective_expires_at :: "int option"
  tw_latest_event :: "task_event option"

definition task_head :: "db \<Rightarrow> string \<Rightarrow> string \<Rightarrow> task_head_row option" where
  "task_head d team_id task_id =
     find (\<lambda>x. xh_team_id x = team_id \<and> xh_task_id x = task_id) (task_heads d)"

definition task_log :: "db \<Rightarrow> string \<Rightarrow> string \<Rightarrow> event_row list" where
  "task_log d team_id task_id =
     filter (\<lambda>r. er_team_id r = team_id \<and> er_task_id r = task_id) (task_events d)"

definition load_opt :: "(string \<Rightarrow> 'a result) \<Rightarrow> object_ref option \<Rightarrow> 'a option result" where
  "load_opt f r = (case r of None \<Rightarrow> Inr None | Some x \<Rightarrow> rbind (f (ref_id x)) (\<lambda>v. Inr (Some v)))"

definition drifted :: "('a \<Rightarrow> object_ref) \<Rightarrow> object_ref option \<Rightarrow> 'a option \<Rightarrow> bool" where
  "drifted to r v \<longleftrightarrow> (case (r, v) of (Some x, Some y) \<Rightarrow> to y \<noteq> x | _ \<Rightarrow> False)"

definition eventless_work :: "team_snapshot \<Rightarrow> team_task \<Rightarrow> task_work" where
  "eventless_work sn task =
     \<lparr>tw_task = task,
      tw_status =
        (if tk_assigned_member_id task = Some (tm_coordinator_member_id (sn_team sn)) \<and>
            tk_status task \<in> {COMPLETED, FAILED, CANCELLED}
         then tk_status task else PENDING),
      tw_attempt = 0, tw_event_version = 0, tw_graph_revision = gr_revision (sn_graph sn),
      tw_claim = None, tw_lease = None, tw_fencing_token = None, tw_effective_expires_at = None,
      tw_latest_event = None\<rparr>"

definition event_work ::
  "team_task \<Rightarrow> task_event \<Rightarrow> task_claim option \<Rightarrow> task_lease option \<Rightarrow> task_work" where
  "event_work task ev claim lease =
     \<lparr>tw_task = task, tw_status = ev_status_after ev, tw_attempt = ev_attempt ev,
      tw_event_version = ev_task_event_version ev, tw_graph_revision = ev_graph_revision ev,
      tw_claim = claim, tw_lease = lease, tw_fencing_token = ev_fencing_token ev,
      tw_effective_expires_at = ev_effective_expires_at ev, tw_latest_event = Some ev\<rparr>"

definition stored_work :: "env \<Rightarrow> db \<Rightarrow> team_snapshot \<Rightarrow> team_task \<Rightarrow> task_work result" where
  "stored_work e d sn task =
     (let team_id = tm_team_id (sn_team sn);
          latest = latest_by er_version (task_log d team_id (tk_task_id task))
      in case task_head d team_id (tk_task_id task) of
           None \<Rightarrow>
             if latest \<noteq> None then Inl (TeamIntegrityError ''task current head is missing'')
             else Inr (eventless_work sn task)
         | Some row \<Rightarrow>
             if (case latest of None \<Rightarrow> True | Some l \<Rightarrow> xh_event_id row \<noteq> er_object_id l) \<or>
                xh_task_ref row \<noteq> object_id task
             then Inl (TeamIntegrityError ''task current head drifted'')
             else
               rbind (load_event e d (xh_event_id row)) (\<lambda>ev.
               rbind (load_opt (load_claim e d) (ev_claim_ref ev)) (\<lambda>claim.
               rbind (load_opt (load_lease e d) (ev_lease_ref ev)) (\<lambda>lease.
               if drifted claim_ref_of (ev_claim_ref ev) claim \<or> drifted lease_ref_of (ev_lease_ref ev) lease
               then Inl (TeamIntegrityError ''task event lease authority drifted'')
               else if (case lease of None \<Rightarrow> False
                        | Some l \<Rightarrow>
                            (case claim of None \<Rightarrow> True | Some c \<Rightarrow> le_claim_ref l \<noteq> claim_ref_of c) \<or>
                            ev_fencing_token ev \<noteq> Some (le_fencing_token l))
               then Inl (TeamIntegrityError ''task event fence authority drifted'')
               else Inr (event_work task ev claim lease)))))"

definition successfully_completed :: "task_work \<Rightarrow> bool" where
  "successfully_completed w \<longleftrightarrow>
     tw_status w = COMPLETED \<and>
     (case tw_latest_event w of None \<Rightarrow> False
      | Some ev \<Rightarrow> ev_event_kind ev = EK_COMPLETED \<and> ev_capability_result_ref ev \<noteq> None)"

text \<open>
  Readiness: a stored PENDING or READY task is READY when every dependency completed with a result.
  Every dependency names a task of the graph (\<open>validate_graph\<close>), so the lookup does not fail.
\<close>

definition ready_status :: "task_work list \<Rightarrow> task_work \<Rightarrow> task_status" where
  "ready_status works w =
     (if tw_status w \<in> {PENDING, READY}
      then if list_all (\<lambda>dep. list_ex (\<lambda>x. tk_task_id (tw_task x) = dep \<and> successfully_completed x) works)
                (tk_dependency_task_ids (tw_task w))
           then READY else PENDING
      else tw_status w)"

definition work_items :: "env \<Rightarrow> db \<Rightarrow> team_snapshot \<Rightarrow> task_work list result" where
  "work_items e d sn =
     rbind (rmap (stored_work e d sn) (gr_tasks (sn_graph sn))) (\<lambda>values.
     Inr (map (\<lambda>w. w\<lparr>tw_status := ready_status values w\<rparr>) values))"

definition work_one :: "env \<Rightarrow> db \<Rightarrow> team_snapshot \<Rightarrow> string \<Rightarrow> task_work result" where
  "work_one e d sn task_id =
     rbind (work_items e d sn) (\<lambda>works.
     case find (\<lambda>w. tk_task_id (tw_task w) = task_id) works of
       None \<Rightarrow> Inl StopIteration
     | Some w \<Rightarrow> Inr w)"

definition list_task_work :: "env \<Rightarrow> db \<Rightarrow> string \<Rightarrow> task_work list result" where
  "list_task_work e d team_id = rbind (snapshot e d team_id) (work_items e d)"

definition get_task_work :: "env \<Rightarrow> db \<Rightarrow> string \<Rightarrow> string \<Rightarrow> task_work result" where
  "get_task_work e d team_id task_id =
     rbind (list_task_work e d team_id) (\<lambda>works.
     case find (\<lambda>w. tk_task_id (tw_task w) = task_id) works of
       None \<Rightarrow> Inl (TeamTaskStateError ''Team task was not found'')
     | Some w \<Rightarrow> Inr w)"

definition ready_tasks :: "env \<Rightarrow> db \<Rightarrow> string \<Rightarrow> task_work list result" where
  "ready_tasks e d team_id =
     rbind (list_task_work e d team_id) (\<lambda>works. Inr (filter (\<lambda>w. tw_status w = READY) works))"

section \<open>Events\<close>

definition event_key_for :: "string \<Rightarrow> string \<Rightarrow> int \<Rightarrow> string" where
  "event_key_for team_id task_id version = team_id @ ''.'' @ task_id @ ''.event-'' @ dec version"

definition make_event ::
  "env \<Rightarrow> team_snapshot \<Rightarrow> team_task \<Rightarrow> int \<Rightarrow> int \<Rightarrow> task_event_kind \<Rightarrow> task_status \<Rightarrow> contract_audit
     \<Rightarrow> task_claim option \<Rightarrow> task_lease option \<Rightarrow> int option \<Rightarrow> (object_ref \<times> object_ref) option
     \<Rightarrow> string option \<Rightarrow> int \<Rightarrow> task_event result" where
  "make_event e sn task version attempt kind status aud claim lease expires_at call_result reason now =
     create (event_cls e) aud
       \<lparr>object_id = [], object_sha256 = [], audit = no_audit,
        ev_event_key = event_key_for (tm_team_id (sn_team sn)) (tk_task_id task) version,
        ev_team_ref = team_ref_of (sn_team sn), ev_task_ref = task_ref_of task,
        ev_graph_ref = graph_ref_of (sn_graph sn), ev_graph_revision = gr_revision (sn_graph sn),
        ev_task_event_version = version, ev_attempt = max 1 attempt, ev_event_kind = kind,
        ev_status_after = status, ev_claim_ref = map_option claim_ref_of claim,
        ev_lease_ref = map_option lease_ref_of lease,
        ev_fencing_token = map_option le_fencing_token lease, ev_effective_expires_at = expires_at,
        ev_capability_call_ref = map_option fst call_result,
        ev_capability_result_ref = map_option snd call_result, ev_reason_code = reason,
        ev_occurred_at = now\<rparr>"

definition event_row_of :: "string \<Rightarrow> string \<Rightarrow> task_event \<Rightarrow> event_row" where
  "event_row_of team_id task_id ev =
     \<lparr>er_object_id = object_id ev, er_team_id = team_id, er_task_id = task_id,
      er_version = ev_task_event_version ev, er_graph_revision = ev_graph_revision ev,
      er_kind = ev_event_kind ev, er_record = ev\<rparr>"

definition insert_event :: "string \<Rightarrow> string \<Rightarrow> task_event \<Rightarrow> db \<Rightarrow> db result" where
  "insert_event team_id task_id ev d = insert_task_event (event_row_of team_id task_id ev) d"

definition append_task_event :: "string \<Rightarrow> team_task \<Rightarrow> task_event \<Rightarrow> db \<Rightarrow> db result" where
  "append_task_event team_id task ev d =
     rbind (insert_event team_id (tk_task_id task) ev d) (\<lambda>d1.
     upsert_task_head
       \<lparr>xh_team_id = team_id, xh_task_id = tk_task_id task, xh_task_ref = object_id task,
        xh_event_id = object_id ev\<rparr> d1)"

definition retry_or_exhaust ::
  "env \<Rightarrow> team_snapshot \<Rightarrow> team_task \<Rightarrow> int \<Rightarrow> int \<Rightarrow> contract_audit \<Rightarrow> task_claim \<Rightarrow> task_lease
     \<Rightarrow> int option \<Rightarrow> string option \<Rightarrow> int \<Rightarrow> task_event result" where
  "retry_or_exhaust e sn task version attempt aud claim lease expires_at reason now =
     (if attempt < tk_max_attempts task
      then make_event e sn task version attempt RETRY_SCHEDULED READY aud None None None None reason now
      else make_event e sn task version attempt EXHAUSTED FAILED aud (Some claim) (Some lease) expires_at
             None (Some ''ATTEMPT_EXHAUSTED'') now)"

section \<open>Shared steps of the operations\<close>

definition typed_replay :: "string \<times> string \<Rightarrow> string \<Rightarrow> (string \<Rightarrow> 'a result) \<Rightarrow> 'a result" where
  "typed_replay response expected loader =
     (if fst response \<noteq> expected then Inl (TeamIntegrityError ''idempotent response type drifted'')
      else loader (snd response))"

definition fault_point :: "string \<Rightarrow> string \<Rightarrow> string" where
  "fault_point operation place = operation @ place"

text \<open>
  The tail every task-lifecycle operation runs: append the event, then the TEAM_CHANGED outbox record,
  then the idempotency row, with the fault hook after each.
\<close>

definition finish_task_event ::
  "env \<Rightarrow> string \<Rightarrow> team_snapshot \<Rightarrow> string \<Rightarrow> team_task \<Rightarrow> task_event \<Rightarrow> string \<Rightarrow> string \<Rightarrow> string \<Rightarrow>
   string \<Rightarrow> string \<Rightarrow> int \<Rightarrow> int \<Rightarrow> db \<Rightarrow> db result" where
  "finish_task_event e operation sn team_id task ev scope key hash rtype rid t_outbox t_remember d =
     rbind (append_task_event team_id task ev d) (\<lambda>d1.
     rbind (inject_fault e (fault_point operation ''.after_event'')) (\<lambda>_.
     rbind (append_outbox e sn TEAM_CHANGED (team_ref_of (sn_team sn)) t_outbox d1) (\<lambda>(d2, _).
     rbind (inject_fault e (fault_point operation ''.after_outbox'')) (\<lambda>_.
     rbind (remember scope key hash rtype rid t_remember d2) (\<lambda>d3.
     rbind (inject_fault e (fault_point operation ''.after_idempotency'')) (\<lambda>_.
     Inr d3))))))"

section \<open>Claiming a task\<close>

definition claim_scope :: "string \<Rightarrow> string \<Rightarrow> string" where
  "claim_scope team_id task_ref_id = ''claim-task:'' @ team_id @ '':'' @ task_ref_id"

definition claim_id_for :: "string \<Rightarrow> string \<Rightarrow> int \<Rightarrow> string" where
  "claim_id_for team_id task_id attempt = team_id @ ''.'' @ task_id @ ''.attempt-'' @ dec attempt"

definition claim_fresh ::
  "env \<Rightarrow> (nat \<Rightarrow> int) \<Rightarrow> string \<Rightarrow> object_ref \<Rightarrow> object_ref \<Rightarrow> object_ref \<Rightarrow> object_ref \<Rightarrow> object_ref \<Rightarrow>
   contract_audit \<Rightarrow> string \<Rightarrow> string \<Rightarrow> db \<Rightarrow> (db \<times> task_claim) result" where
  "claim_fresh e clk team_id team_ref graph_ref authority_ref task_ref member_ref aud key hash d =
     rbind (require_refs e d team_id team_ref graph_ref authority_ref) (\<lambda>sn.
     rbind (task_by_ref sn task_ref) (\<lambda>task.
     rbind (member_by_ref sn member_ref) (\<lambda>member.
     rbind (work_one e d sn (tk_task_id task)) (\<lambda>work.
     if tk_assigned_member_id task \<noteq> Some (mb_member_id member)
     then Inl (TeamTaskStateError ''task is assigned to another member'')
     else if tw_status work \<noteq> READY
     then Inl (TeamTaskStateError ''only ready work may be claimed'')
     else if tw_attempt work + 1 > tk_max_attempts task
     then Inl (TeamTaskStateError ''task attempt budget is exhausted'')
     else
       rbind (create (claim_cls e) aud
                \<lparr>object_id = [], object_sha256 = [], audit = no_audit,
                 cl_claim_id = claim_id_for team_id (tk_task_id task) (tw_attempt work + 1),
                 cl_team_ref = team_ref, cl_task_ref = task_ref, cl_member_ref = member_ref,
                 cl_graph_revision = gr_revision (sn_graph sn), cl_claimed_at = clk 0\<rparr>) (\<lambda>claim.
       rbind (insert_claim
                \<lparr>kr_object_id = object_id claim, kr_team_id = team_id, kr_task_id = tk_task_id task,
                 kr_attempt = tw_attempt work + 1, kr_record = claim\<rparr> d) (\<lambda>d1.
       rbind (inject_fault e ''claim_task.after_claim'') (\<lambda>_.
       rbind (make_event e sn task (tw_event_version work + 1) (tw_attempt work + 1) EK_CLAIMED CLAIMED
                aud (Some claim) None None None None (clk 1)) (\<lambda>ev.
       rbind (finish_task_event e ''claim_task'' sn team_id task ev (claim_scope team_id (ref_id task_ref))
                key hash ''CLAIM'' (object_id claim) (clk 2) (clk 3) d1) (\<lambda>d2.
       Inr (d2, claim))))))))))"

definition claim_task ::
  "env \<Rightarrow> (nat \<Rightarrow> int) \<Rightarrow> object_ref \<Rightarrow> object_ref \<Rightarrow> object_ref \<Rightarrow> object_ref \<Rightarrow> object_ref \<Rightarrow>
   contract_audit \<Rightarrow> string \<Rightarrow> db \<Rightarrow> (db \<times> task_claim) result" where
  "claim_task e clk team_ref graph_ref authority_ref task_ref member_ref aud key d =
     rbind (team_id_of e d team_ref) (\<lambda>team_id.
     let hash = request_sha256 e (ClaimRequest team_ref graph_ref authority_ref task_ref member_ref)
     in rbind (replay d (claim_scope team_id (ref_id task_ref)) key hash) (\<lambda>seen.
        case seen of
          Some response \<Rightarrow>
            rbind (typed_replay response ''CLAIM'' (load_claim e d)) (\<lambda>claim. Inr (d, claim))
        | None \<Rightarrow>
            claim_fresh e clk team_id team_ref graph_ref authority_ref task_ref member_ref aud key hash d))"

section \<open>Acquiring a lease\<close>

definition lease_scope :: "string \<Rightarrow> string \<Rightarrow> string" where
  "lease_scope team_id task_id = ''acquire-lease:'' @ team_id @ '':'' @ task_id"

definition lease_id_for :: "string \<Rightarrow> string \<Rightarrow> int \<Rightarrow> string" where
  "lease_id_for team_id task_id fence = team_id @ ''.'' @ task_id @ ''.fence-'' @ dec fence"

definition microseconds :: "int \<Rightarrow> int" where
  "microseconds seconds = 1000000 * seconds"

definition task_lease_rows :: "db \<Rightarrow> string \<Rightarrow> string \<Rightarrow> lease_row list" where
  "task_lease_rows d team_id task_id =
     filter (\<lambda>r. lr_team_id r = team_id \<and> lr_task_id r = task_id) (task_leases d)"

definition next_fence :: "db \<Rightarrow> string \<Rightarrow> string \<Rightarrow> int" where
  "next_fence d team_id task_id = coalesce_max (map lr_fence (task_lease_rows d team_id task_id)) + 1"

definition lease_fresh ::
  "env \<Rightarrow> (nat \<Rightarrow> int) \<Rightarrow> string \<Rightarrow> string \<Rightarrow> object_ref \<Rightarrow> int \<Rightarrow> contract_audit \<Rightarrow> string \<Rightarrow> string \<Rightarrow>
   db \<Rightarrow> (db \<times> task_lease) result" where
  "lease_fresh e clk team_id task_id claim_ref duration aud key hash d =
     rbind (load_claim e d (ref_id claim_ref)) (\<lambda>claim.
     if claim_ref_of claim \<noteq> claim_ref
     then Inl (TeamIntegrityError ''task claim reference drifted'')
     else
       rbind (snapshot e d team_id) (\<lambda>sn.
       rbind (work_one e d sn task_id) (\<lambda>work.
       if cl_team_ref claim \<noteq> team_ref_of (sn_team sn) \<or> tw_status work \<noteq> CLAIMED \<or>
          tw_claim work \<noteq> Some claim
       then Inl (TeamConcurrencyError ''task claim is no longer current'')
       else
         rbind (create (lease_cls e) aud
                  \<lparr>object_id = [], object_sha256 = [], audit = no_audit,
                   le_lease_id = lease_id_for team_id task_id (next_fence d team_id task_id),
                   le_claim_ref = claim_ref, le_fencing_token = next_fence d team_id task_id,
                   le_acquired_at = clk 0, le_expires_at = clk 0 + microseconds duration\<rparr>) (\<lambda>lease.
         rbind (insert_lease
                  \<lparr>lr_object_id = object_id lease, lr_team_id = team_id, lr_task_id = task_id,
                   lr_attempt = tw_attempt work, lr_fence = next_fence d team_id task_id,
                   lr_record = lease\<rparr> d) (\<lambda>d1.
         rbind (inject_fault e ''acquire_lease.after_lease'') (\<lambda>_.
         rbind (task_by_id sn task_id) (\<lambda>task.
         rbind (make_event e sn task (tw_event_version work + 1) (tw_attempt work) LEASE_ACQUIRED ACTIVE
                  aud (Some claim) (Some lease) (Some (le_expires_at lease)) None None (clk 1)) (\<lambda>ev.
         rbind (finish_task_event e ''acquire_lease'' sn team_id task ev (lease_scope team_id task_id)
                  key hash ''LEASE'' (object_id lease) (clk 2) (clk 3) d1) (\<lambda>d2.
         Inr (d2, lease))))))))))"

definition acquire_lease ::
  "env \<Rightarrow> (nat \<Rightarrow> int) \<Rightarrow> object_ref \<Rightarrow> int \<Rightarrow> contract_audit \<Rightarrow> string \<Rightarrow> db \<Rightarrow>
   (db \<times> task_lease) result" where
  "acquire_lease e clk claim_ref duration aud key d =
     (if \<not> in_range 1 86400 duration then Inl (ValueError ''lease duration is out of bounds'')
      else case find (\<lambda>r. kr_object_id r = ref_id claim_ref) (task_claims d) of
        None \<Rightarrow> Inl (TeamTaskStateError ''task claim was not found'')
      | Some row \<Rightarrow>
          (let team_id = kr_team_id row; task_id = kr_task_id row;
               hash = request_sha256 e (LeaseRequest claim_ref duration)
           in rbind (replay d (lease_scope team_id task_id) key hash) (\<lambda>seen.
              case seen of
                Some response \<Rightarrow>
                  rbind (typed_replay response ''LEASE'' (load_lease e d)) (\<lambda>lease. Inr (d, lease))
              | None \<Rightarrow> lease_fresh e clk team_id task_id claim_ref duration aud key hash d)))"

section \<open>Operations under a lease\<close>

definition lease_identity :: "env \<Rightarrow> db \<Rightarrow> object_ref \<Rightarrow> (string \<times> string \<times> task_lease) result" where
  "lease_identity e d reference =
     (case find (\<lambda>r. lr_object_id r = ref_id reference) (task_leases d) of
        None \<Rightarrow> Inl (TeamTaskStateError ''task lease was not found'')
      | Some row \<Rightarrow>
          rbind (parse_record (lease_cls e) ''task lease'' (lr_record row)) (\<lambda>lease.
          if lease_ref_of lease \<noteq> reference
          then Inl (TeamIntegrityError ''task lease reference drifted'')
          else Inr (lr_team_id row, lr_task_id row, lease)))"

definition latest_kind :: "task_work \<Rightarrow> task_event_kind option" where
  "latest_kind w = map_option ev_event_kind (tw_latest_event w)"

definition active_lease ::
  "env \<Rightarrow> db \<Rightarrow> string \<Rightarrow> string \<Rightarrow> task_lease \<Rightarrow> int \<Rightarrow> bool \<Rightarrow> bool \<Rightarrow> bool \<Rightarrow> int \<Rightarrow>
   (team_snapshot \<times> team_task \<times> task_work) result" where
  "active_lease e d team_id task_id lease fence allow_expired allow_expired_cancellation allow_cancel now =
     rbind (snapshot e d team_id) (\<lambda>sn.
     rbind (task_by_id sn task_id) (\<lambda>task.
     rbind (work_one e d sn task_id) (\<lambda>work.
     if tw_status work \<noteq> ACTIVE \<or> tw_lease work \<noteq> Some lease \<or> tw_fencing_token work \<noteq> Some fence
     then Inl (TeamStaleLeaseError ''task lease or fence is stale'')
     else if \<not> allow_cancel \<and> latest_kind work = Some CANCEL_REQUESTED
     then Inl (TeamStaleLeaseError ''task cancellation is pending'')
     else if \<not> allow_expired \<and> \<not> allow_expired_cancellation \<and>
             (case tw_effective_expires_at work of None \<Rightarrow> False | Some x \<Rightarrow> now \<ge> x)
     then Inl (TeamStaleLeaseError ''task lease is expired'')
     else Inr (sn, task, work))))"

datatype lease_operation = OP_HEARTBEAT | OP_EXPIRE | OP_CANCEL_REQUEST | OP_CANCEL_ACK

fun operation_name :: "lease_operation \<Rightarrow> string" where
  "operation_name OP_HEARTBEAT = ''heartbeat''"
| "operation_name OP_EXPIRE = ''expire''"
| "operation_name OP_CANCEL_REQUEST = ''cancel-request''"
| "operation_name OP_CANCEL_ACK = ''cancel-ack''"

definition lease_event_scope :: "lease_operation \<Rightarrow> string \<Rightarrow> string" where
  "lease_event_scope operation lease_id = operation_name operation @ '':'' @ lease_id"

text \<open>
  The events of one lease operation: the event that becomes the task head, and the database after the
  intermediate EXPIRED event of an expiry.
\<close>

definition lease_step ::
  "env \<Rightarrow> (nat \<Rightarrow> int) \<Rightarrow> lease_operation \<Rightarrow> int \<Rightarrow> team_snapshot \<Rightarrow> string \<Rightarrow> team_task \<Rightarrow> task_work \<Rightarrow>
   task_claim \<Rightarrow> task_lease \<Rightarrow> int \<Rightarrow> contract_audit \<Rightarrow> db \<Rightarrow> (db \<times> task_event) result" where
  "lease_step e clk operation extension sn team_id task work claim lease expires aud d =
     (let version = tw_event_version work + 1; attempt = tw_attempt work; now = clk 1
      in case operation of
        OP_HEARTBEAT \<Rightarrow>
          rbind (make_event e sn task version attempt HEARTBEAT ACTIVE aud (Some claim) (Some lease)
                   (Some (max expires (now + microseconds extension))) None None (clk 2)) (\<lambda>ev.
          Inr (d, ev))
      | OP_EXPIRE \<Rightarrow>
          if now < expires then Inl (TeamStaleLeaseError ''task lease has not expired'')
          else
            rbind (make_event e sn task version attempt EXPIRED BLOCKED aud (Some claim) (Some lease)
                     (Some expires) None (Some ''LEASE_EXPIRED'') (clk 2)) (\<lambda>expired.
            rbind (insert_event team_id (tk_task_id task) expired d) (\<lambda>d1.
            rbind (retry_or_exhaust e sn task (ev_task_event_version expired + 1) attempt aud claim lease
                     (Some expires) (Some ''LEASE_EXPIRED'') (clk 3)) (\<lambda>ev.
            Inr (d1, ev))))
      | OP_CANCEL_REQUEST \<Rightarrow>
          rbind (make_event e sn task version attempt CANCEL_REQUESTED ACTIVE aud (Some claim) (Some lease)
                   (Some expires) None None (clk 2)) (\<lambda>ev.
          Inr (d, ev))
      | OP_CANCEL_ACK \<Rightarrow>
          if latest_kind work \<noteq> Some CANCEL_REQUESTED
          then Inl (TeamTaskStateError ''cancellation was not requested'')
          else
            rbind (make_event e sn task version attempt EK_CANCELLED CANCELLED aud (Some claim) (Some lease)
                     (Some expires) None (Some ''CANCELLATION_ACKNOWLEDGED'') (clk 2)) (\<lambda>ev.
            Inr (d, ev)))"

definition lease_event_fresh ::
  "env \<Rightarrow> (nat \<Rightarrow> int) \<Rightarrow> lease_operation \<Rightarrow> int \<Rightarrow> string \<Rightarrow> string \<Rightarrow> task_lease \<Rightarrow> int \<Rightarrow>
   contract_audit \<Rightarrow> string \<Rightarrow> string \<Rightarrow> db \<Rightarrow> (db \<times> task_event) result" where
  "lease_event_fresh e clk operation extension team_id task_id lease fence aud key hash d =
     rbind (active_lease e d team_id task_id lease fence (operation = OP_EXPIRE)
              (operation = OP_CANCEL_ACK) (operation = OP_CANCEL_ACK) (clk 0)) (\<lambda>(sn, task, work).
     case tw_claim work of None \<Rightarrow> Inl (AssertionError ''work.claim'')
     | Some claim \<Rightarrow>
       (case tw_effective_expires_at work of None \<Rightarrow> Inl (AssertionError ''work.effective_expires_at'')
        | Some expires \<Rightarrow>
          rbind (lease_step e clk operation extension sn team_id task work claim lease expires aud d)
            (\<lambda>(d1, ev).
          rbind (finish_task_event e (operation_name operation) sn team_id task ev
                   (lease_event_scope operation (object_id lease)) key hash ''TASK_EVENT'' (object_id ev)
                   (clk 4) (clk 5) d1) (\<lambda>d2.
          Inr (d2, ev)))))"

definition lease_event ::
  "env \<Rightarrow> (nat \<Rightarrow> int) \<Rightarrow> lease_operation \<Rightarrow> int \<Rightarrow> object_ref \<Rightarrow> int \<Rightarrow> contract_audit \<Rightarrow> string \<Rightarrow> db \<Rightarrow>
   (db \<times> task_event) result" where
  "lease_event e clk operation extension lease_ref fence aud key d =
     (let hash = request_sha256 e (LeaseEventRequest lease_ref fence (operation_name operation) extension)
      in rbind (lease_identity e d lease_ref) (\<lambda>(team_id, task_id, lease).
         rbind (replay d (lease_event_scope operation (object_id lease)) key hash) (\<lambda>seen.
         case seen of
           Some response \<Rightarrow>
             rbind (typed_replay response ''TASK_EVENT'' (load_event e d)) (\<lambda>ev. Inr (d, ev))
         | None \<Rightarrow>
             lease_event_fresh e clk operation extension team_id task_id lease fence aud key hash d)))"

definition heartbeat_lease ::
  "env \<Rightarrow> (nat \<Rightarrow> int) \<Rightarrow> object_ref \<Rightarrow> int \<Rightarrow> int \<Rightarrow> contract_audit \<Rightarrow> string \<Rightarrow> db \<Rightarrow>
   (db \<times> task_event) result" where
  "heartbeat_lease e clk lease_ref fence extension aud key d =
     (if \<not> in_range 1 86400 extension then Inl (ValueError ''heartbeat extension is out of bounds'')
      else lease_event e clk OP_HEARTBEAT extension lease_ref fence aud key d)"

definition expire_lease ::
  "env \<Rightarrow> (nat \<Rightarrow> int) \<Rightarrow> object_ref \<Rightarrow> int \<Rightarrow> contract_audit \<Rightarrow> string \<Rightarrow> db \<Rightarrow> (db \<times> task_event) result" where
  "expire_lease e clk lease_ref fence aud key d = lease_event e clk OP_EXPIRE 0 lease_ref fence aud key d"

definition request_cancellation ::
  "env \<Rightarrow> (nat \<Rightarrow> int) \<Rightarrow> object_ref \<Rightarrow> int \<Rightarrow> contract_audit \<Rightarrow> string \<Rightarrow> db \<Rightarrow> (db \<times> task_event) result" where
  "request_cancellation e clk lease_ref fence aud key d =
     lease_event e clk OP_CANCEL_REQUEST 0 lease_ref fence aud key d"

definition acknowledge_cancellation ::
  "env \<Rightarrow> (nat \<Rightarrow> int) \<Rightarrow> object_ref \<Rightarrow> int \<Rightarrow> contract_audit \<Rightarrow> string \<Rightarrow> db \<Rightarrow> (db \<times> task_event) result" where
  "acknowledge_cancellation e clk lease_ref fence aud key d =
     lease_event e clk OP_CANCEL_ACK 0 lease_ref fence aud key d"

end
