(* ===== verification/Store_Blackboard.thy ===== *)
theory Store_Blackboard
  imports Store_Tasks
begin

text \<open>
  The Artifact Blackboard internals of \<open>team/_store_collaboration.py\<close> that task completion relies on
  (current artifact heads, envelopes, input references, the re-check of a capability invocation,
  publishing a head, reading a stored completion), the usage accounting of
  \<open>team/_store_authority.py\<close>, and \<open>complete_task\<close> itself.
\<close>

section \<open>Current artifact heads\<close>

definition expected_artifact_heads :: "string \<Rightarrow> head_row list \<Rightarrow> (string \<times> string) list" where
  "expected_artifact_heads team_id rows =
     (let own = filter (\<lambda>r. hr_team_id r = team_id) rows
      in map (\<lambda>r. (hr_head_id r, hr_object_id r))
           (filter (\<lambda>r. list_all (\<lambda>x. hr_head_id x = hr_head_id r \<longrightarrow> hr_revision x \<le> hr_revision r) own) own))"

text \<open>The join of \<open>artifact_current\<close> with \<open>artifact_heads\<close>, ordered by head identity.\<close>

definition current_head_rows :: "db \<Rightarrow> string \<Rightarrow> (current_row \<times> head_row) list" where
  "current_head_rows d team_id =
     concat (map (\<lambda>c. case find (\<lambda>h. hr_object_id h = cu_object_id c) (artifact_heads d) of
                        None \<Rightarrow> [] | Some h \<Rightarrow> [(c, h)])
       (sort_key cu_key (filter (\<lambda>c. cu_team_id c = team_id) (artifact_current d))))"

definition artifact_heads_of :: "env \<Rightarrow> db \<Rightarrow> string \<Rightarrow> artifact_head list result" where
  "artifact_heads_of e d team_id =
     (let rows = current_head_rows d team_id;
          observed = map (\<lambda>(c, h). (cu_key c, cu_object_id c)) rows
      in if \<not> same_dict observed (expected_artifact_heads team_id (artifact_heads d))
         then Inl (TeamIntegrityError ''Artifact current heads drifted'')
         else
           rbind (rmap (\<lambda>(c, h). parse_record (head_cls e) ''Artifact Head'' (hr_record h)) rows) (\<lambda>values.
           if list_ex (\<lambda>(v, c, h). hd_head_id v \<noteq> cu_key c \<or> object_id v \<noteq> cu_object_id c \<or>
                 hd_revision v \<noteq> hr_revision h \<or> ref_id (hd_envelope_ref v) \<noteq> hr_envelope_id h)
                (zip values rows)
           then Inl (TeamIntegrityError ''Artifact current head columns drifted'')
           else Inr values))"

definition artifact_head_of :: "env \<Rightarrow> db \<Rightarrow> string \<Rightarrow> string \<Rightarrow> artifact_head option result" where
  "artifact_head_of e d team_id head_id =
     rbind (artifact_heads_of e d team_id) (\<lambda>heads. Inr (find (\<lambda>h. hd_head_id h = head_id) heads))"

definition envelope_of :: "env \<Rightarrow> db \<Rightarrow> object_ref \<Rightarrow> artifact_envelope result" where
  "envelope_of e d reference =
     rbind (load_envelope e d (ref_id reference)) (\<lambda>v.
     if envelope_ref_of v \<noteq> reference
     then Inl (TeamIntegrityError ''Artifact Envelope reference drifted'') else Inr v)"

definition head_envelope :: "env \<Rightarrow> db \<Rightarrow> artifact_head \<Rightarrow> artifact_envelope result" where
  "head_envelope e d head = envelope_of e d (hd_envelope_ref head)"

text \<open>The dictionary of heads by identity, looked up for a list of head identities.\<close>

definition lookup_heads :: "artifact_head list \<Rightarrow> string list \<Rightarrow> artifact_head list result" where
  "lookup_heads heads ids =
     rmap (\<lambda>i. case find (\<lambda>h. hd_head_id h = i) heads of
                 None \<Rightarrow> Inl (TeamBlackboardError ''task input Artifact Head is missing'')
               | Some h \<Rightarrow> Inr h) ids"

definition task_input_envelopes_of :: "env \<Rightarrow> db \<Rightarrow> string \<Rightarrow> team_task \<Rightarrow> artifact_envelope list result" where
  "task_input_envelopes_of e d team_id task =
     rbind (artifact_heads_of e d team_id) (\<lambda>heads.
     rbind (lookup_heads heads (tk_input_artifact_head_ids task)) (\<lambda>inputs.
     rmap (head_envelope e d) inputs))"

definition input_refs_of :: "env \<Rightarrow> db \<Rightarrow> string \<Rightarrow> team_task \<Rightarrow> object_ref list result" where
  "input_refs_of e d team_id task =
     rbind (task_input_envelopes_of e d team_id task) (\<lambda>envs. Inr (sorted_refs (map envelope_ref_of envs)))"

definition visible_envelopes :: "env \<Rightarrow> db \<Rightarrow> team_snapshot \<Rightarrow> string \<Rightarrow> object_ref list result" where
  "visible_envelopes e d sn member_id =
     (let head_ids = concat (map (\<lambda>t. tk_input_artifact_head_ids t @ tk_output_artifact_head_ids t)
            (filter (\<lambda>t. tk_assigned_member_id t = Some member_id) (gr_tasks (sn_graph sn))))
      in rbind (artifact_heads_of e d (tm_team_id (sn_team sn))) (\<lambda>heads.
         rbind (rmap (head_envelope e d) (filter (\<lambda>h. hd_head_id h \<in> set head_ids) heads)) (\<lambda>envs.
         Inr (map envelope_ref_of envs))))"

section \<open>Usage\<close>

record runtime_invocation =
  iv_call :: capability_call
  iv_permission_action :: permission_action
  iv_permission_decision :: permission_decision
  iv_result :: capability_result
  iv_output_artifacts :: "artifact_envelope list"

type_synonym usage = "int \<times> int \<times> int"

definition usage_deltas :: "runtime_invocation \<Rightarrow> usage" where
  "usage_deltas iv =
     (if pd_outcome (iv_permission_decision iv) = ALLOW \<and> cr_outcome (iv_result iv) \<noteq> BLOCKED_POLICY
      then (pa_model_requests_delta (iv_permission_action iv), pa_model_tokens_delta (iv_permission_action iv),
            pa_cost_micro_usd_delta (iv_permission_action iv))
      else (0, 0, 0))"

definition task_usage_rows :: "db \<Rightarrow> string \<Rightarrow> string \<Rightarrow> usage_row list" where
  "task_usage_rows d team_id task_id =
     filter (\<lambda>r. us_team_id r = team_id \<and> us_task_id r = task_id) (task_usage_events d)"

definition task_usage_of :: "db \<Rightarrow> string \<Rightarrow> string \<Rightarrow> usage" where
  "task_usage_of d team_id task_id =
     (let rows = task_usage_rows d team_id task_id
      in (sum_list (map us_model_requests rows), sum_list (map us_model_tokens rows),
          sum_list (map us_cost_micro_usd rows)))"

definition task_usage :: "env \<Rightarrow> db \<Rightarrow> string \<Rightarrow> string \<Rightarrow> usage result" where
  "task_usage e d team_id task_id =
     rbind (snapshot e d team_id) (\<lambda>sn.
     rbind (task_by_id sn task_id) (\<lambda>_. Inr (task_usage_of d team_id task_id)))"

section \<open>Re-checking a capability invocation\<close>

text \<open>The first condition of \<open>_validate_invocation\<close>: every authority reference is the current one.\<close>

definition invocation_stale ::
  "team_snapshot \<Rightarrow> team_member \<Rightarrow> team_task \<Rightarrow> member_grant \<Rightarrow> runtime_invocation \<Rightarrow> bool" where
  "invocation_stale sn member task grant iv \<longleftrightarrow>
     (let context = cc_context (iv_call iv); action = iv_permission_action iv;
          decision = iv_permission_decision iv; call = iv_call iv
      in cx_team_ref context \<noteq> Some (team_ref_of (sn_team sn)) \<or>
         cx_member_ref context \<noteq> Some (member_ref_of member) \<or>
         cx_task_ref context \<noteq> Some (task_ref_of task) \<or>
         cx_session_ref context \<noteq> mb_independent_session_ref member \<or>
         cx_authority_ref context \<noteq> authority_ref_of (sn_authority sn) \<or>
         cx_principal_ref context \<noteq> mg_principal_ref grant \<or>
         cx_data_purpose context \<noteq> pa_data_purpose action \<or>
         cx_data_classification context \<noteq> pa_data_classification action \<or>
         cc_capability_definition_ref call \<noteq> tk_capability_definition_ref task \<or>
         cc_capability_definition_ref call \<noteq> pa_capability_definition_ref action \<or>
         cc_provider_binding_ref call \<noteq> pa_provider_binding_ref action \<or>
         cr_call_ref (iv_result iv) \<noteq> call_ref_of call \<or>
         pa_authority_ref action \<noteq> authority_ref_of (sn_authority sn) \<or>
         pa_permission_policy_ref action \<noteq> au_permission_policy_ref (sn_authority sn) \<or>
         pa_member_id action \<noteq> mb_member_id member \<or>
         pa_principal_ref action \<noteq> mg_principal_ref grant \<or>
         pa_task_id action \<noteq> tk_task_id task \<or>
         pd_authority_ref decision \<noteq> authority_ref_of (sn_authority sn) \<or>
         pd_policy_ref decision \<noteq> au_permission_policy_ref (sn_authority sn) \<or>
         pd_action_ref decision \<noteq> action_ref_of action)"

definition grant_bypassed :: "member_grant \<Rightarrow> permission_action \<Rightarrow> bool" where
  "grant_bypassed grant action \<longleftrightarrow>
     pa_capability_definition_ref action \<notin> set (mg_capability_definition_refs grant) \<or>
     pa_provider_binding_ref action \<notin> set (mg_provider_binding_refs grant) \<or>
     pa_task_id action \<notin> set (mg_task_ids grant) \<or>
     \<not> set (pa_data_scope_refs action) \<subseteq> set (mg_data_scope_refs grant) \<or>
     pa_data_purpose action \<notin> set (mg_data_purposes grant) \<or>
     pa_data_classification action \<notin> set (mg_data_classifications grant) \<or>
     pa_side_effect action \<notin> set (mg_allowed_side_effects grant)"

definition autonomy_bypassed :: "execution_authority \<Rightarrow> permission_action \<Rightarrow> bool" where
  "autonomy_bypassed authority action \<longleftrightarrow>
     pa_source_admission action \<or> pa_external_execution action \<or>
     pa_side_effect action \<in> {EXTERNAL_EFFECT, IRREVERSIBLE_WRITE} \<or>
     pa_graph_mutation action = AUTHORITY_WIDENING \<or> pa_destructive action \<or> pa_release action \<or>
     (pa_side_effect action = REVERSIBLE_WRITE \<and>
      \<not> (pa_local_execution action \<and> pa_deterministic action \<and>
         pa_graph_mutation action \<in> {NO_MUTATION, IN_SCOPE})) \<or>
     au_used_model_requests authority + pa_model_requests_delta action > au_max_model_requests authority \<or>
     au_used_model_tokens authority + pa_model_tokens_delta action > au_max_model_tokens authority \<or>
     au_used_cost_micro_usd authority + pa_cost_micro_usd_delta action > au_max_cost_micro_usd authority"

definition over_task_budget :: "team_task \<Rightarrow> usage \<Rightarrow> usage \<Rightarrow> bool" where
  "over_task_budget task used delta \<longleftrightarrow>
     (case (used, delta) of ((r, t, c), (r', t', c')) \<Rightarrow>
        r + r' > tk_max_model_requests task \<or> t + t' > tk_max_model_tokens task \<or>
        c + c' > tk_max_cost_micro_usd task)"

definition output_binding_invalid ::
  "team_member \<Rightarrow> team_task \<Rightarrow> runtime_invocation \<Rightarrow> (string \<times> artifact_envelope) list \<Rightarrow> bool" where
  "output_binding_invalid member task iv outputs \<longleftrightarrow>
     (let output_refs = sorted_refs (map (envelope_ref_of \<circ> snd) outputs); head_ids = map fst outputs
      in mb_is_coordinator member \<or>
         output_refs \<noteq> cr_output_artifact_refs (iv_result iv) \<or>
         output_refs \<noteq> sorted_refs (map envelope_ref_of (iv_output_artifacts iv)) \<or>
         sort head_ids \<noteq> head_ids \<or> card (set head_ids) \<noteq> length head_ids \<or>
         set head_ids \<noteq> set (tk_output_artifact_head_ids task))"

definition validate_invocation ::
  "env \<Rightarrow> db \<Rightarrow> team_snapshot \<Rightarrow> team_task \<Rightarrow> task_work \<Rightarrow> runtime_invocation \<Rightarrow>
   (string \<times> artifact_envelope) list \<Rightarrow> unit result" where
  "validate_invocation e d sn task work iv outputs =
     (case tw_claim work of None \<Rightarrow> Inl (AssertionError ''work.claim'')
      | Some claim \<Rightarrow>
     rbind (member_by_ref sn (cl_member_ref claim)) (\<lambda>member.
     case find (\<lambda>g. mg_member_id g = mb_member_id member) (au_grants (sn_authority sn)) of
       None \<Rightarrow> Inl StopIteration
     | Some grant \<Rightarrow>
     (let action = iv_permission_action iv; decision = iv_permission_decision iv
      in if invocation_stale sn member task grant iv
         then Inl (TeamConcurrencyError ''Capability invocation authority is stale'')
         else
           rbind (input_refs_of e d (tm_team_id (sn_team sn)) task) (\<lambda>inputs.
           if cc_input_artifact_refs (iv_call iv) \<noteq> inputs \<or> pa_data_scope_refs action \<noteq> inputs
           then Inl (TeamConcurrencyError ''Capability inputs are stale'')
           else if grant_bypassed grant action
           then Inl (TeamIntegrityError ''Capability action bypassed member grant'')
           else if pd_outcome decision = ALLOW \<and> autonomy_bypassed (sn_authority sn) action
           then Inl (TeamIntegrityError ''Capability action bypassed Balanced Autonomy'')
           else if over_task_budget task (task_usage_of d (tm_team_id (sn_team sn)) (tk_task_id task))
                     (usage_deltas iv)
           then Inl (TeamIntegrityError ''Capability action exceeded task budget'')
           else if cr_outcome (iv_result iv) = SUCCEEDED \<and> output_binding_invalid member task iv outputs
           then Inl (TeamBlackboardError ''successful output binding is invalid'')
           else if cr_outcome (iv_result iv) \<noteq> SUCCEEDED \<and> (outputs \<noteq> [] \<or> iv_output_artifacts iv \<noteq> [])
           then Inl (TeamBlackboardError ''non-success cannot publish Artifact Head'')
           else if pd_outcome decision \<noteq> ALLOW \<and> cr_outcome (iv_result iv) \<noteq> BLOCKED_POLICY
           then Inl (TeamIntegrityError ''Capability result bypassed permission'')
           else Inr ()))))"

section \<open>Publishing a head\<close>

definition team_head_rows :: "db \<Rightarrow> string \<Rightarrow> head_row list" where
  "team_head_rows d team_id = filter (\<lambda>r. hr_team_id r = team_id) (artifact_heads d)"

definition next_head_sequence :: "db \<Rightarrow> string \<Rightarrow> int" where
  "next_head_sequence d team_id = coalesce_max (map hr_sequence (team_head_rows d team_id)) + 1"

definition publish_head ::
  "env \<Rightarrow> team_snapshot \<Rightarrow> team_task \<Rightarrow> contract_audit \<Rightarrow> string \<times> artifact_envelope \<Rightarrow> db \<Rightarrow>
   (db \<times> artifact_head) result" where
  "publish_head e sn task aud binding d =
     (let (head_id, envelope) = binding; team_id = tm_team_id (sn_team sn)
      in if en_producer_task_ref envelope \<noteq> Some (task_ref_of task) \<or>
            en_producer_capability_ref envelope \<noteq> tk_capability_definition_ref task
         then Inl (TeamBlackboardError ''Artifact producer is not task owner'')
         else
           rbind (artifact_head_of e d team_id head_id) (\<lambda>current.
           rbind (case current of None \<Rightarrow> Inr None
                  | Some h \<Rightarrow> rbind (head_envelope e d h) (\<lambda>v. Inr (Some v))) (\<lambda>predecessor.
           (let revision = (case current of None \<Rightarrow> 1 | Some h \<Rightarrow> hd_revision h + 1)
            in if en_revision envelope \<noteq> revision \<or>
                  en_predecessor_envelope_ref envelope \<noteq> map_option envelope_ref_of predecessor \<or>
                  (case predecessor of None \<Rightarrow> False
                   | Some p \<Rightarrow> en_artifact_id envelope \<noteq> en_artifact_id p \<or>
                               en_semantic_role envelope \<noteq> en_semantic_role p)
               then Inl (TeamBlackboardError ''Artifact successor lineage is stale'')
               else
                 rbind (insert_envelope
                          \<lparr>nr_object_id = object_id envelope, nr_team_id = team_id,
                           nr_task_id = tk_task_id task, nr_artifact_id = en_artifact_id envelope,
                           nr_revision = en_revision envelope, nr_record = envelope\<rparr> d) (\<lambda>d1.
                 rbind (create (head_cls e) aud
                          \<lparr>object_id = [], object_sha256 = [], audit = no_audit, hd_head_id = head_id,
                           hd_team_ref = team_ref_of (sn_team sn),
                           hd_semantic_role = en_semantic_role envelope, hd_revision = revision,
                           hd_envelope_ref = envelope_ref_of envelope,
                           hd_predecessor_head_ref = map_option head_ref_of current\<rparr>) (\<lambda>head.
                 rbind (insert_head
                          \<lparr>hr_object_id = object_id head, hr_team_id = team_id, hr_head_id = head_id,
                           hr_revision = revision, hr_sequence = next_head_sequence d1 team_id,
                           hr_envelope_id = object_id envelope, hr_record = head\<rparr> d1) (\<lambda>d2.
                 rbind (upsert_artifact_current
                          \<lparr>cu_team_id = team_id, cu_key = head_id, cu_object_id = object_id head\<rparr> d2) (\<lambda>d3.
                 Inr (d3, head)))))))))"

fun publish_heads ::
  "env \<Rightarrow> team_snapshot \<Rightarrow> team_task \<Rightarrow> contract_audit \<Rightarrow> (string \<times> artifact_envelope) list \<Rightarrow> db \<Rightarrow>
   (db \<times> artifact_head list) result" where
  "publish_heads e sn task aud [] d = Inr (d, [])"
| "publish_heads e sn task aud (b # bs) d =
     rbind (publish_head e sn task aud b d) (\<lambda>(d1, head).
     rbind (publish_heads e sn task aud bs d1) (\<lambda>(d2, heads). Inr (d2, head # heads)))"

section \<open>Advancing the Team authority\<close>

text \<open>
  The grants of the successor authority: artifact envelopes in scope are the current inputs. Building a
  grant validates it in the source; here the validator of the successor authority runs the same check.
\<close>

definition normalize_grant ::
  "team_task_graph \<Rightarrow> (string \<times> object_ref) list \<Rightarrow> member_grant \<Rightarrow> member_grant" where
  "normalize_grant graph current grant =
     (let input_ids = sort (remdups (concat (map tk_input_artifact_head_ids
            (filter (\<lambda>t. tk_task_id t \<in> set (mg_task_ids grant)) (gr_tasks graph)))));
          stable = filter (\<lambda>r. ref_type r \<noteq> ''artifact-envelope'') (mg_data_scope_refs grant)
      in grant\<lparr>mg_data_scope_refs :=
           sorted_refs (stable @ List.map_filter (dict_of current) input_ids)\<rparr>)"

definition current_envelope_refs :: "env \<Rightarrow> db \<Rightarrow> string \<Rightarrow> (string \<times> object_ref) list result" where
  "current_envelope_refs e d team_id =
     rbind (artifact_heads_of e d team_id) (\<lambda>heads.
     rmap (\<lambda>h. rbind (head_envelope e d h) (\<lambda>v. Inr (hd_head_id h, envelope_ref_of v))) heads)"

definition move_team_head :: "string \<Rightarrow> string \<Rightarrow> string \<Rightarrow> db \<Rightarrow> db" where
  "move_team_head team_id team_object authority_object d =
     d\<lparr>team_heads :=
        map (\<lambda>h. if th_team_id h = team_id
                 then h\<lparr>th_team_id_ref := team_object, th_authority_id := authority_object\<rparr> else h)
          (team_heads d)\<rparr>"

definition successor_authority ::
  "env \<Rightarrow> team_snapshot \<Rightarrow> contract_audit \<Rightarrow> member_grant list \<Rightarrow> usage \<Rightarrow> execution_authority result" where
  "successor_authority e sn aud grants deltas =
     (let a = sn_authority sn
      in create_authority (dg_authority e) aud
           \<lparr>object_id = [], object_sha256 = [], audit = no_audit, au_authority_id = au_authority_id a,
            au_authority_version = au_authority_version a + 1,
            au_predecessor_authority_ref = Some (authority_ref_of a), au_team_id = tm_team_id (sn_team sn),
            au_team_incarnation_id = tm_team_incarnation_id (sn_team sn),
            au_roster_ref = roster_ref_of (sn_roster sn), au_task_graph_ref = graph_ref_of (sn_graph sn),
            au_permission_policy_ref = au_permission_policy_ref a, au_grants = grants,
            au_max_model_requests = au_max_model_requests a, au_max_model_tokens = au_max_model_tokens a,
            au_max_cost_micro_usd = au_max_cost_micro_usd a,
            au_used_model_requests = au_used_model_requests a + fst deltas,
            au_used_model_tokens = au_used_model_tokens a + fst (snd deltas),
            au_used_cost_micro_usd = au_used_cost_micro_usd a + snd (snd deltas)\<rparr>)"

definition successor_team :: "env \<Rightarrow> team_snapshot \<Rightarrow> contract_audit \<Rightarrow> execution_authority \<Rightarrow> team result" where
  "successor_team e sn aud authority =
     (let t = sn_team sn
      in create (team_cls e) aud
           \<lparr>object_id = [], object_sha256 = [], audit = no_audit, tm_team_id = tm_team_id t,
            tm_team_incarnation_id = tm_team_incarnation_id t, tm_team_version = tm_team_version t + 1,
            tm_goal_ref = tm_goal_ref t, tm_composition_ref = tm_composition_ref t,
            tm_roster_ref = roster_ref_of (sn_roster sn), tm_task_graph_ref = graph_ref_of (sn_graph sn),
            tm_authority_ref = authority_ref_of authority,
            tm_coordinator_member_id = tm_coordinator_member_id t, tm_lifecycle = tm_lifecycle t\<rparr>)"

definition advance_data_scope ::
  "env \<Rightarrow> team_snapshot \<Rightarrow> contract_audit \<Rightarrow> usage \<Rightarrow> db \<Rightarrow> (db \<times> team_snapshot) result" where
  "advance_data_scope e sn aud deltas d =
     rbind (current_envelope_refs e d (tm_team_id (sn_team sn))) (\<lambda>current.
     (let grants = map (normalize_grant (sn_graph sn) current) (au_grants (sn_authority sn))
      in if grants = au_grants (sn_authority sn) \<and> deltas = (0, 0, 0) then Inr (d, sn)
         else
           rbind (successor_authority e sn aud grants deltas) (\<lambda>authority.
           rbind (successor_team e sn aud authority) (\<lambda>team.
           rbind (insert_authority
                    \<lparr>rv_object_id = object_id authority, rv_team_id = au_team_id authority,
                     rv_revision = au_authority_version authority, rv_record = authority\<rparr> d) (\<lambda>d1.
           rbind (insert_team
                    \<lparr>tr_object_id = object_id team, tr_team_id = tm_team_id team,
                     tr_version = tm_team_version team, tr_roster_id = object_id (sn_roster sn),
                     tr_graph_id = object_id (sn_graph sn), tr_authority_id = object_id authority,
                     tr_record = team\<rparr> d1) (\<lambda>d2.
           Inr (move_team_head (tm_team_id team) (object_id team) (object_id authority) d2,
                sn\<lparr>sn_team := team, sn_authority := authority\<rparr>)))))))"

section \<open>Completing a task\<close>

record task_completion =
  tc_result :: capability_result
  tc_event :: task_event
  tc_artifact_heads :: "artifact_head list"
  tc_snapshot :: team_snapshot

definition completion :: "env \<Rightarrow> db \<Rightarrow> string \<Rightarrow> string \<Rightarrow> task_completion result" where
  "completion e d team_id result_id =
     rbind (load_result e d result_id) (\<lambda>result.
     case find (\<lambda>r. co_result_id r = result_id \<and> co_team_id r = team_id) (completion_responses d) of
       None \<Rightarrow> Inl (TeamIntegrityError ''Capability completion response is missing'')
     | Some row \<Rightarrow>
         rbind (load_event e d (co_event_id row)) (\<lambda>ev.
         if ev_capability_result_ref ev \<noteq> Some (result_ref_of result)
         then Inl (TeamIntegrityError ''Capability completion event drifted'')
         else if length (co_artifact_head_ids row) \<noteq> card (set (co_artifact_head_ids row))
         then Inl (TeamIntegrityError ''Capability completion head inventory is invalid'')
         else
           rbind (rmap (load_head e d) (co_artifact_head_ids row)) (\<lambda>heads.
           rbind (rmap (head_envelope e d) heads) (\<lambda>envs.
           if sorted_refs (map envelope_ref_of envs) \<noteq> cr_output_artifact_refs result
           then Inl (TeamIntegrityError ''Capability completion heads drifted'')
           else case find (\<lambda>t. tr_object_id t = co_team_object_id row) (teams d) of
                  None \<Rightarrow> Inl (TeamIntegrityError ''Capability completion Team is missing'')
                | Some trow \<Rightarrow>
                    rbind (parse_record (team_cls e) ''Team'' (tr_record trow)) (\<lambda>team.
                    rbind (snapshot_at e d (team_ref_of team)) (\<lambda>sn.
                    Inr \<lparr>tc_result = result, tc_event = ev, tc_artifact_heads = heads, tc_snapshot = sn\<rparr>))))))"

definition complete_scope :: "string \<Rightarrow> string \<Rightarrow> string" where
  "complete_scope team_id task_id = ''complete-task:'' @ team_id @ '':'' @ task_id"

text \<open>The capability records of a completion: call, result, usage and, on success, the heads.\<close>

definition record_invocation ::
  "env \<Rightarrow> team_snapshot \<Rightarrow> string \<Rightarrow> team_task \<Rightarrow> runtime_invocation \<Rightarrow> (string \<times> artifact_envelope) list \<Rightarrow>
   contract_audit \<Rightarrow> db \<Rightarrow> (db \<times> artifact_head list) result" where
  "record_invocation e sn team_id task iv outputs aud d =
     (let (requests, tokens, cost) = usage_deltas iv
      in rbind (insert_call
                  \<lparr>qr_object_id = object_id (iv_call iv), qr_team_id = team_id,
                   qr_task_id = tk_task_id task, qr_record = iv_call iv\<rparr> d) (\<lambda>d1.
         rbind (inject_fault e ''complete_task.after_call'') (\<lambda>_.
         rbind (insert_result
                  \<lparr>rr_object_id = object_id (iv_result iv), rr_team_id = team_id,
                   rr_task_id = tk_task_id task, rr_call_id = object_id (iv_call iv),
                   rr_record = iv_result iv\<rparr> d1) (\<lambda>d2.
         rbind (inject_fault e ''complete_task.after_result'') (\<lambda>_.
         rbind (insert_usage
                  \<lparr>us_result_id = object_id (iv_result iv), us_team_id = team_id,
                   us_task_id = tk_task_id task, us_model_requests = requests,
                   us_model_tokens = tokens, us_cost_micro_usd = cost\<rparr> d2) (\<lambda>d3.
         rbind (inject_fault e ''complete_task.after_usage'') (\<lambda>_.
         rbind (if cr_outcome (iv_result iv) = SUCCEEDED
                then publish_heads e sn task aud outputs d3 else Inr (d3, [])) (\<lambda>(d4, heads).
         rbind (inject_fault e ''complete_task.after_heads'') (\<lambda>_.
         Inr (d4, heads))))))))))"

text \<open>The events of a completion: COMPLETED, and after a failure the retry or exhaustion.\<close>

definition complete_events ::
  "env \<Rightarrow> (nat \<Rightarrow> int) \<Rightarrow> team_snapshot \<Rightarrow> string \<Rightarrow> team_task \<Rightarrow> task_work \<Rightarrow> task_claim \<Rightarrow> task_lease \<Rightarrow>
   runtime_invocation \<Rightarrow> contract_audit \<Rightarrow> db \<Rightarrow> (db \<times> task_event) result" where
  "complete_events e clk sn team_id task work claim lease iv aud d =
     (let succeeded = (cr_outcome (iv_result iv) = SUCCEEDED);
          status = (if succeeded then COMPLETED else FAILED)
      in rbind (make_event e sn task (tw_event_version work + 1) (tw_attempt work) EK_COMPLETED status aud
                  (Some claim) (Some lease) (tw_effective_expires_at work)
                  (Some (call_ref_of (iv_call iv), result_ref_of (iv_result iv)))
                  (if succeeded then None else cr_failure_code (iv_result iv)) (clk 1)) (\<lambda>completed.
         if succeeded
         then rbind (append_task_event team_id task completed d) (\<lambda>d1. Inr (d1, completed))
         else
           rbind (insert_event team_id (tk_task_id task) completed d) (\<lambda>d1.
           rbind (retry_or_exhaust e sn task (ev_task_event_version completed + 1) (tw_attempt work) aud
                    claim lease (tw_effective_expires_at work) (ev_reason_code completed) (clk 2)) (\<lambda>final.
           rbind (append_task_event team_id task final d1) (\<lambda>d2. Inr (d2, completed))))))"

fun head_outboxes ::
  "env \<Rightarrow> (nat \<Rightarrow> int) \<Rightarrow> nat \<Rightarrow> team_snapshot \<Rightarrow> artifact_head list \<Rightarrow> db \<Rightarrow> db result" where
  "head_outboxes e clk n sn [] d = Inr d"
| "head_outboxes e clk n sn (h # hs) d =
     rbind (append_outbox e sn ARTIFACT_HEAD_CHANGED (head_ref_of h) (clk n) d) (\<lambda>(d1, _).
     head_outboxes e clk (Suc n) sn hs d1)"

definition complete_fresh ::
  "env \<Rightarrow> (nat \<Rightarrow> int) \<Rightarrow> string \<Rightarrow> string \<Rightarrow> object_ref \<Rightarrow> object_ref \<Rightarrow> object_ref \<Rightarrow> task_lease \<Rightarrow> int \<Rightarrow>
   runtime_invocation \<Rightarrow> (string \<times> artifact_envelope) list \<Rightarrow> contract_audit \<Rightarrow> string \<Rightarrow> string \<Rightarrow> db \<Rightarrow>
   (db \<times> task_completion) result" where
  "complete_fresh e clk team_id task_id team_ref graph_ref authority_ref lease fence iv outputs aud key hash d =
     rbind (require_refs e d team_id team_ref graph_ref authority_ref) (\<lambda>sn.
     rbind (active_lease e d team_id task_id lease fence False False False (clk 0)) (\<lambda>(_, task, work).
     rbind (validate_invocation e d sn task work iv outputs) (\<lambda>_.
     rbind (record_invocation e sn team_id task iv outputs aud d) (\<lambda>(d1, heads).
     case tw_claim work of None \<Rightarrow> Inl (AssertionError ''work.claim'')
     | Some claim \<Rightarrow>
     (case tw_lease work of None \<Rightarrow> Inl (AssertionError ''work.lease'')
      | Some held \<Rightarrow>
     rbind (complete_events e clk sn team_id task work claim held iv aud d1) (\<lambda>(d2, completed).
     rbind (inject_fault e ''complete_task.after_task_head'') (\<lambda>_.
     rbind (advance_data_scope e sn aud (usage_deltas iv) d2) (\<lambda>(d3, next_sn).
     rbind (insert_completion
              \<lparr>co_result_id = object_id (iv_result iv), co_team_id = team_id,
               co_event_id = object_id completed, co_team_object_id = object_id (sn_team next_sn),
               co_artifact_head_ids = map object_id heads\<rparr> d3) (\<lambda>d4.
     rbind (inject_fault e ''complete_task.after_response'') (\<lambda>_.
     rbind (head_outboxes e clk 5 next_sn heads d4) (\<lambda>d5.
     rbind (append_outbox e next_sn TEAM_CHANGED (team_ref_of (sn_team next_sn)) (clk 3) d5) (\<lambda>(d6, _).
     rbind (inject_fault e ''complete_task.after_outbox'') (\<lambda>_.
     rbind (remember (complete_scope team_id task_id) key hash ''RESULT'' (object_id (iv_result iv))
              (clk 4) d6) (\<lambda>d7.
     rbind (inject_fault e ''complete_task.after_idempotency'') (\<lambda>_.
     Inr (d7, \<lparr>tc_result = iv_result iv, tc_event = completed, tc_artifact_heads = heads,
               tc_snapshot = next_sn\<rparr>))))))))))))))))"

definition complete_task ::
  "env \<Rightarrow> (nat \<Rightarrow> int) \<Rightarrow> object_ref \<Rightarrow> object_ref \<Rightarrow> object_ref \<Rightarrow> object_ref \<Rightarrow> int \<Rightarrow> runtime_invocation \<Rightarrow>
   (string \<times> artifact_envelope) list \<Rightarrow> contract_audit \<Rightarrow> string \<Rightarrow> db \<Rightarrow> (db \<times> task_completion) result" where
  "complete_task e clk team_ref graph_ref authority_ref lease_ref fence iv outputs aud key d =
     rbind (team_id_of e d team_ref) (\<lambda>team_id.
     (let hash = request_sha256 e (CompleteRequest team_ref graph_ref authority_ref lease_ref fence
            (call_ref_of (iv_call iv)) (result_ref_of (iv_result iv))
            (map (\<lambda>(h, v). (h, envelope_ref_of v)) outputs))
      in rbind (lease_identity e d lease_ref) (\<lambda>(_, task_id, lease).
         rbind (replay d (complete_scope team_id task_id) key hash) (\<lambda>seen.
         case seen of
           Some response \<Rightarrow>
             if fst response \<noteq> ''RESULT''
             then Inl (TeamIntegrityError ''completion replay type drifted'')
             else rbind (completion e d team_id (snd response)) (\<lambda>c. Inr (d, c))
         | None \<Rightarrow>
             complete_fresh e clk team_id task_id team_ref graph_ref authority_ref lease fence iv outputs
               aud key hash d))))"

end
