(* ===== verification/Store_Teams.thy ===== *)
theory Store_Teams
  imports Store_Tasks
begin

text \<open>
  Creating a Team (\<open>create_team\<close> and \<open>_insert_bundle\<close> of \<open>team/_store_authority.py\<close>): the four records
  of the bundle, the current head, the first outbox record and the idempotency row.
\<close>

definition insert_bundle :: "team_snapshot \<Rightarrow> db \<Rightarrow> db result" where
  "insert_bundle sn d =
     rbind (insert_roster
              \<lparr>rv_object_id = object_id (sn_roster sn), rv_team_id = ro_team_id (sn_roster sn),
               rv_revision = ro_revision (sn_roster sn), rv_record = sn_roster sn\<rparr> d) (\<lambda>d1.
     rbind (insert_graph
              \<lparr>rv_object_id = object_id (sn_graph sn), rv_team_id = gr_team_id (sn_graph sn),
               rv_revision = gr_revision (sn_graph sn), rv_record = sn_graph sn\<rparr> d1) (\<lambda>d2.
     rbind (insert_authority
              \<lparr>rv_object_id = object_id (sn_authority sn), rv_team_id = au_team_id (sn_authority sn),
               rv_revision = au_authority_version (sn_authority sn), rv_record = sn_authority sn\<rparr> d2) (\<lambda>d3.
     insert_team
       \<lparr>tr_object_id = object_id (sn_team sn), tr_team_id = tm_team_id (sn_team sn),
        tr_version = tm_team_version (sn_team sn), tr_roster_id = object_id (sn_roster sn),
        tr_graph_id = object_id (sn_graph sn), tr_authority_id = object_id (sn_authority sn),
        tr_record = sn_team sn\<rparr> d3)))"

definition create_team_scope :: "string \<Rightarrow> string" where
  "create_team_scope team_id = ''create-team:'' @ team_id"

definition create_team_fresh ::
  "env \<Rightarrow> (nat \<Rightarrow> int) \<Rightarrow> team_snapshot \<Rightarrow> string \<Rightarrow> string \<Rightarrow> db \<Rightarrow> (db \<times> team_snapshot) result" where
  "create_team_fresh e clk sn key hash d =
     rbind (insert_bundle sn d) (\<lambda>d1.
     rbind (inject_fault e ''create_team.after_records'') (\<lambda>_.
     rbind (insert_team_head
              \<lparr>th_team_id = tm_team_id (sn_team sn), th_team_id_ref = object_id (sn_team sn),
               th_roster_id = object_id (sn_roster sn), th_graph_id = object_id (sn_graph sn),
               th_authority_id = object_id (sn_authority sn)\<rparr> d1) (\<lambda>d2.
     rbind (inject_fault e ''create_team.after_head'') (\<lambda>_.
     rbind (append_outbox e sn TEAM_CHANGED (team_ref_of (sn_team sn)) (clk 0) d2) (\<lambda>(d3, _).
     rbind (inject_fault e ''create_team.after_outbox'') (\<lambda>_.
     rbind (remember (create_team_scope (tm_team_id (sn_team sn))) key hash ''TEAM'' (object_id (sn_team sn))
              (clk 1) d3) (\<lambda>d4.
     rbind (inject_fault e ''create_team.after_idempotency'') (\<lambda>_.
     Inr (d4, sn)))))))))"

definition create_team ::
  "env \<Rightarrow> (nat \<Rightarrow> int) \<Rightarrow> team_snapshot \<Rightarrow> string \<Rightarrow> db \<Rightarrow> (db \<times> team_snapshot) result" where
  "create_team e clk sn key d =
     rbind (validate_bundle sn) (\<lambda>_.
     (let hash = request_sha256 e (CreateTeamRequest (team_ref_of (sn_team sn))
            (roster_ref_of (sn_roster sn)) (graph_ref_of (sn_graph sn)) (authority_ref_of (sn_authority sn)))
      in rbind (replay d (create_team_scope (tm_team_id (sn_team sn))) key hash) (\<lambda>seen.
         case seen of
           Some response \<Rightarrow>
             if response \<noteq> (''TEAM'', object_id (sn_team sn))
             then Inl (TeamIntegrityError ''Team replay response drifted'')
             else rbind (snapshot_at e d (team_ref_of (sn_team sn))) (\<lambda>old. Inr (d, old))
         | None \<Rightarrow> create_team_fresh e clk sn key hash d)))"

definition get_snapshot :: "env \<Rightarrow> db \<Rightarrow> string \<Rightarrow> team_snapshot result" where
  "get_snapshot e d team_id = snapshot e d team_id"

definition get_snapshot_at :: "env \<Rightarrow> db \<Rightarrow> object_ref \<Rightarrow> team_snapshot result" where
  "get_snapshot_at e d team_ref = snapshot_at e d team_ref"

end
