(* ===== verification/Store_Collaboration.thy ===== *)
theory Store_Collaboration
  imports Store_Blackboard Store_Teams
begin

text \<open>
  The peer-to-peer mailbox, artifact subscriptions and conflicts of
  \<open>team/_store_collaboration.py\<close>, seeding of input artifacts, and the read operations.
\<close>

section \<open>Seeding an input artifact\<close>

definition seed_scope :: "string \<Rightarrow> string \<Rightarrow> string" where
  "seed_scope team_id head_id = ''seed-artifact:'' @ team_id @ '':'' @ head_id"

definition graph_inputs :: "team_task_graph \<Rightarrow> string set" where
  "graph_inputs g = set (concat (map tk_input_artifact_head_ids (gr_tasks g)))"

definition graph_outputs :: "team_task_graph \<Rightarrow> string set" where
  "graph_outputs g = set (concat (map tk_output_artifact_head_ids (gr_tasks g)))"

definition seed_fresh ::
  "env \<Rightarrow> (nat \<Rightarrow> int) \<Rightarrow> string \<Rightarrow> object_ref \<Rightarrow> string \<Rightarrow> artifact_envelope \<Rightarrow> contract_audit \<Rightarrow> string \<Rightarrow>
   string \<Rightarrow> db \<Rightarrow> (db \<times> artifact_head) result" where
  "seed_fresh e clk team_id team_ref head_id envelope aud key hash d =
     rbind (snapshot e d team_id) (\<lambda>sn.
     rbind (if team_ref_of (sn_team sn) \<noteq> team_ref \<or> head_id \<notin> graph_inputs (sn_graph sn) \<or>
               head_id \<in> graph_outputs (sn_graph sn) \<or> en_revision envelope \<noteq> 1 \<or>
               en_predecessor_envelope_ref envelope \<noteq> None \<or> en_producer_task_ref envelope \<noteq> None
            then Inr True
            else rbind (artifact_head_of e d team_id head_id) (\<lambda>h. Inr (h \<noteq> None))) (\<lambda>refused.
     if refused
     then Inl (TeamBlackboardError ''seed Artifact Head is not an unowned current Team input'')
     else
       rbind (insert_envelope
                \<lparr>nr_object_id = object_id envelope, nr_team_id = team_id, nr_task_id = ''__team-input__'',
                 nr_artifact_id = en_artifact_id envelope, nr_revision = en_revision envelope,
                 nr_record = envelope\<rparr> d) (\<lambda>d1.
       rbind (inject_fault e ''seed_artifact_head.after_envelope'') (\<lambda>_.
       rbind (create (head_cls e) aud
                \<lparr>object_id = [], object_sha256 = [], audit = no_audit, hd_head_id = head_id,
                 hd_team_ref = team_ref, hd_semantic_role = en_semantic_role envelope, hd_revision = 1,
                 hd_envelope_ref = envelope_ref_of envelope, hd_predecessor_head_ref = None\<rparr>) (\<lambda>head.
       rbind (insert_head
                \<lparr>hr_object_id = object_id head, hr_team_id = team_id, hr_head_id = head_id, hr_revision = 1,
                 hr_sequence = next_head_sequence d1 team_id, hr_envelope_id = object_id envelope,
                 hr_record = head\<rparr> d1) (\<lambda>d2.
       rbind (insert_artifact_current
                \<lparr>cu_team_id = team_id, cu_key = head_id, cu_object_id = object_id head\<rparr> d2) (\<lambda>d3.
       rbind (inject_fault e ''seed_artifact_head.after_head'') (\<lambda>_.
       rbind (advance_data_scope e sn aud (0, 0, 0) d3) (\<lambda>(d4, next_sn).
       rbind (inject_fault e ''seed_artifact_head.after_authority'') (\<lambda>_.
       rbind (append_outbox e next_sn ARTIFACT_HEAD_CHANGED (head_ref_of head) (clk 0) d4) (\<lambda>(d5, _).
       rbind (inject_fault e ''seed_artifact_head.after_outbox'') (\<lambda>_.
       rbind (remember (seed_scope team_id head_id) key hash ''ARTIFACT_HEAD'' (object_id head) (clk 1) d5)
         (\<lambda>d6.
       rbind (inject_fault e ''seed_artifact_head.after_idempotency'') (\<lambda>_.
       Inr (d6, head)))))))))))))))"

definition seed_artifact_head ::
  "env \<Rightarrow> (nat \<Rightarrow> int) \<Rightarrow> object_ref \<Rightarrow> string \<Rightarrow> artifact_envelope \<Rightarrow> contract_audit \<Rightarrow> string \<Rightarrow> db \<Rightarrow>
   (db \<times> artifact_head) result" where
  "seed_artifact_head e clk team_ref head_id envelope aud key d =
     rbind (team_id_of e d team_ref) (\<lambda>team_id.
     (let hash = request_sha256 e (SeedRequest team_ref head_id (envelope_ref_of envelope))
      in rbind (replay d (seed_scope team_id head_id) key hash) (\<lambda>seen.
         case seen of
           Some response \<Rightarrow>
             rbind (typed_replay response ''ARTIFACT_HEAD'' (load_head e d)) (\<lambda>head. Inr (d, head))
         | None \<Rightarrow> seed_fresh e clk team_id team_ref head_id envelope aud key hash d)))"

section \<open>Mailbox\<close>

text \<open>
  \<open>_outbox_for_sessions\<close>: the appended outbox record is replaced when it is not for the whole roster.
  The \<open>UPDATE\<close> changes identity and record and keeps the sequence.
\<close>

definition replace_outbox :: "string \<Rightarrow> outbox_record \<Rightarrow> db \<Rightarrow> db result" where
  "replace_outbox old rec d =
     (if list_ex (\<lambda>r. ox_object_id r = object_id rec \<and> ox_object_id r \<noteq> old) (outbox_rows d)
      then Inl (SqlIntegrityError ''outbox'')
      else Inr (d\<lparr>outbox_rows :=
        map (\<lambda>r. if ox_object_id r = old then r\<lparr>ox_object_id := object_id rec, ox_record := rec\<rparr> else r)
          (outbox_rows d)\<rparr>))"

definition outbox_for_sessions ::
  "env \<Rightarrow> team_snapshot \<Rightarrow> outbox_kind \<Rightarrow> object_ref \<Rightarrow> object_ref list \<Rightarrow> int \<Rightarrow> db \<Rightarrow> db result" where
  "outbox_for_sessions e sn kind record_ref sessions now d =
     rbind (append_outbox e sn kind record_ref now d) (\<lambda>(d1, rec).
     if ob_intended_member_session_refs rec = sessions then Inr d1
     else
       rbind (create_outbox (dg_outbox e) (audit rec)
                (rec\<lparr>object_id := [], object_sha256 := [], ob_intended_member_session_refs := sessions\<rparr>))
         (\<lambda>new. replace_outbox (object_id rec) new d1))"

definition system_message :: "team_message \<Rightarrow> bool" where
  "system_message m \<longleftrightarrow> ms_audience m = MA_SYSTEM \<and> ms_message_kind m = MK_SYSTEM"

text \<open>The reply-chain conditions.\<close>

definition check_reply :: "env \<Rightarrow> db \<Rightarrow> string \<Rightarrow> team_member \<Rightarrow> team_message \<Rightarrow> unit result" where
  "check_reply e d team_id sender m =
     (case ms_reply_to_message_ref m of None \<Rightarrow> Inr ()
      | Some reply_ref \<Rightarrow>
          rbind (load_message e d (ref_id reply_ref)) (\<lambda>reply.
          if message_ref_of reply \<noteq> reply_ref
          then Inl (TeamMailboxError ''reply message reference drifted'')
          else if (case find (\<lambda>t. tr_object_id t = ref_id (ms_team_ref reply)) (teams d) of
                     None \<Rightarrow> True | Some t \<Rightarrow> tr_team_id t \<noteq> team_id)
          then Inl (TeamMailboxError ''reply chain crosses Team authority'')
          else if ms_audience reply = DIRECT \<and> member_ref_of sender \<noteq> ms_sender_member_ref reply \<and>
                  member_ref_of sender \<notin> set (ms_recipient_member_refs reply)
          then Inl (TeamMailboxError ''sender is outside the direct reply chain'')
          else if ms_task_ref m \<noteq> ms_task_ref reply
          then Inl (TeamMailboxError ''reply chain changed task scope'')
          else Inr ()))"

definition check_message_task ::
  "team_snapshot \<Rightarrow> team_member \<Rightarrow> team_member list \<Rightarrow> team_message \<Rightarrow> string option result" where
  "check_message_task sn sender recipients m =
     (case ms_task_ref m of None \<Rightarrow> Inr None
      | Some r \<Rightarrow>
          rbind (task_by_ref sn r) (\<lambda>task.
          if tk_assigned_member_id task \<notin> Some ` set (map mb_member_id (sender # recipients)) \<and>
             \<not> system_message m
          then Inl (TeamMailboxError ''message task is outside participant scope'')
          else Inr (Some (tk_task_id task))))"

text \<open>Every member of the audience sees every carried envelope.\<close>

fun audience_sees :: "env \<Rightarrow> db \<Rightarrow> team_snapshot \<Rightarrow> object_ref list \<Rightarrow> team_member list \<Rightarrow> bool result" where
  "audience_sees e d sn refs [] = Inr True"
| "audience_sees e d sn refs (m # ms) =
     rbind (visible_envelopes e d sn (mb_member_id m)) (\<lambda>visible.
     if \<not> set refs \<subseteq> set visible then Inr False else audience_sees e d sn refs ms)"

definition team_message_rows :: "db \<Rightarrow> string \<Rightarrow> message_row list" where
  "team_message_rows d team_id = filter (\<lambda>r. mr_team_id r = team_id) (messages d)"

definition message_sessions :: "team_snapshot \<Rightarrow> team_member \<Rightarrow> team_member list \<Rightarrow> team_message \<Rightarrow> object_ref list" where
  "message_sessions sn sender recipients m =
     (if ms_audience m = DIRECT
      then sorted_refs (map mb_independent_session_ref (sender # recipients))
      else map mb_independent_session_ref (ro_members (sn_roster sn)))"

definition send_scope :: "string \<Rightarrow> string" where
  "send_scope team_id = ''send-message:'' @ team_id"

definition send_fresh ::
  "env \<Rightarrow> (nat \<Rightarrow> int) \<Rightarrow> string \<Rightarrow> team_message \<Rightarrow> string \<Rightarrow> string \<Rightarrow> db \<Rightarrow> (db \<times> team_message) result" where
  "send_fresh e clk team_id m key hash d =
     rbind (snapshot e d team_id) (\<lambda>sn.
     if ms_team_ref m \<noteq> team_ref_of (sn_team sn)
     then Inl (TeamConcurrencyError ''message uses stale Team authority'')
     else
       rbind (member_by_ref sn (ms_sender_member_ref m)) (\<lambda>sender.
       rbind (rmap (member_by_ref sn) (ms_recipient_member_refs m)) (\<lambda>recipients.
       if member_ref_of sender \<in> set (ms_recipient_member_refs m)
       then Inl (TeamMailboxError ''direct message cannot address its sender'')
       else if mb_is_coordinator sender \<and> \<not> system_message m
       then Inl (TeamMailboxError ''Coordinator cannot relay ordinary peer messages'')
       else if (ms_audience m = MA_SYSTEM \<or> ms_message_kind m = MK_SYSTEM) \<and>
               (\<not> mb_is_coordinator sender \<or> \<not> system_message m)
       then Inl (TeamMailboxError ''only Coordinator may send system messages'')
       else
         rbind (check_message_task sn sender recipients m) (\<lambda>task_id.
         rbind (check_reply e d team_id sender m) (\<lambda>_.
         rbind (visible_envelopes e d sn (mb_member_id sender)) (\<lambda>visible.
         if \<not> set (ms_artifact_envelope_refs m) \<subseteq> set visible
         then Inl (TeamMailboxError ''message carries unauthorized artifact ref'')
         else
           rbind (audience_sees e d sn (ms_artifact_envelope_refs m)
                    (if ms_audience m = DIRECT then recipients else ro_members (sn_roster sn))) (\<lambda>seen.
           if \<not> seen
           then Inl (TeamMailboxError ''message exposes artifact outside recipient visibility'')
           else
             rbind (insert_message
                      \<lparr>mr_object_id = object_id m, mr_team_id = team_id,
                       mr_sequence = coalesce_max (map mr_sequence (team_message_rows d team_id)) + 1,
                       mr_sender_id = mb_member_id sender, mr_task_id = task_id,
                       mr_kind = ms_message_kind m, mr_record = m\<rparr> d) (\<lambda>d1.
             rbind (inject_fault e ''send_message.after_message'') (\<lambda>_.
             rbind (outbox_for_sessions e sn TEAM_MESSAGE_POSTED (message_ref_of m)
                      (message_sessions sn sender recipients m) (clk 0) d1) (\<lambda>d2.
             rbind (inject_fault e ''send_message.after_outbox'') (\<lambda>_.
             rbind (remember (send_scope team_id) key hash ''MESSAGE'' (object_id m) (clk 1) d2) (\<lambda>d3.
             rbind (inject_fault e ''send_message.after_idempotency'') (\<lambda>_.
             Inr (d3, m))))))))))))))"

definition send_message ::
  "env \<Rightarrow> (nat \<Rightarrow> int) \<Rightarrow> team_message \<Rightarrow> string \<Rightarrow> db \<Rightarrow> (db \<times> team_message) result" where
  "send_message e clk m key d =
     rbind (team_id_of e d (ms_team_ref m)) (\<lambda>team_id.
     (let hash = request_sha256 e (MessageRequest (message_ref_of m))
      in rbind (replay d (send_scope team_id) key hash) (\<lambda>seen.
         case seen of
           Some response \<Rightarrow> rbind (typed_replay response ''MESSAGE'' (load_message e d)) (\<lambda>v. Inr (d, v))
         | None \<Rightarrow> send_fresh e clk team_id m key hash d)))"

record message_page =
  mp_messages :: "team_message list"
  mp_next_sequence :: "int option"

definition page_rows :: "db \<Rightarrow> string \<Rightarrow> int \<Rightarrow> message_row list" where
  "page_rows d team_id after_sequence =
     sort_key mr_sequence (filter (\<lambda>r. mr_sequence r > after_sequence) (team_message_rows d team_id))"

definition list_messages :: "env \<Rightarrow> db \<Rightarrow> string \<Rightarrow> int \<Rightarrow> int \<Rightarrow> message_page result" where
  "list_messages e d team_id after_sequence limit =
     (if after_sequence < 0 \<or> \<not> in_range 1 500 limit
      then Inl (ValueError ''message page is out of bounds'')
      else
        rbind (snapshot e d team_id) (\<lambda>_.
        (let rows = take (nat (limit + 1)) (page_rows d team_id after_sequence)
         in rbind (rmap (\<lambda>r. parse_record (message_cls e) ''Team message'' (mr_record r))
                     (take (nat limit) rows)) (\<lambda>values.
            Inr \<lparr>mp_messages = values,
                 mp_next_sequence =
                   (if int (length rows) > limit then Some (mr_sequence (rows ! nat (limit - 1))) else None)\<rparr>))))"

section \<open>Reads of the Blackboard\<close>

definition current_artifact_heads :: "env \<Rightarrow> db \<Rightarrow> string \<Rightarrow> artifact_head list result" where
  "current_artifact_heads e d team_id = rbind (snapshot e d team_id) (\<lambda>_. artifact_heads_of e d team_id)"

definition artifact_head_envelopes ::
  "env \<Rightarrow> db \<Rightarrow> string \<Rightarrow> (artifact_head \<times> artifact_envelope) list result" where
  "artifact_head_envelopes e d team_id =
     rbind (snapshot e d team_id) (\<lambda>_.
     rbind (artifact_heads_of e d team_id) (\<lambda>heads.
     rmap (\<lambda>h. rbind (head_envelope e d h) (\<lambda>v. Inr (h, v))) heads))"

definition current_artifact_envelopes :: "env \<Rightarrow> db \<Rightarrow> string \<Rightarrow> artifact_envelope list result" where
  "current_artifact_envelopes e d team_id =
     rbind (artifact_head_envelopes e d team_id) (\<lambda>pairs. Inr (map snd pairs))"

definition task_input_envelopes :: "env \<Rightarrow> db \<Rightarrow> string \<Rightarrow> string \<Rightarrow> artifact_envelope list result" where
  "task_input_envelopes e d team_id task_id =
     rbind (snapshot e d team_id) (\<lambda>sn.
     rbind (task_by_id sn task_id) (\<lambda>task. task_input_envelopes_of e d team_id task))"

fun replay_calls ::
  "env \<Rightarrow> db \<Rightarrow> string \<Rightarrow> string \<Rightarrow> object_ref \<Rightarrow> call_row list \<Rightarrow> task_completion option result" where
  "replay_calls e d team_id invocation_key request_ref [] = Inr None"
| "replay_calls e d team_id invocation_key request_ref (row # rows) =
     rbind (parse_record (call_cls e) ''Capability call'' (qr_record row)) (\<lambda>call.
     if cx_idempotency_key (cc_context call) \<noteq> invocation_key
     then replay_calls e d team_id invocation_key request_ref rows
     else if cc_request_ref call \<noteq> request_ref
     then Inl (TeamIdempotencyConflictError ''Team operation key binds another Capability request'')
     else case find (\<lambda>r. rr_call_id r = qr_object_id row) (capability_results d) of
            None \<Rightarrow> Inl (TeamIntegrityError ''Capability completion result is missing'')
          | Some r \<Rightarrow> rbind (completion e d team_id (rr_object_id r)) (\<lambda>c. Inr (Some c)))"

definition replay_task_completion ::
  "env \<Rightarrow> db \<Rightarrow> string \<Rightarrow> string \<Rightarrow> string \<Rightarrow> object_ref \<Rightarrow> task_completion option result" where
  "replay_task_completion e d team_id task_id invocation_key request_ref =
     rbind (snapshot e d team_id) (\<lambda>sn.
     rbind (task_by_id sn task_id) (\<lambda>_.
     replay_calls e d team_id invocation_key request_ref
       (filter (\<lambda>r. qr_team_id r = team_id \<and> qr_task_id r = task_id) (capability_calls d))))"

section \<open>Subscriptions\<close>

definition insert_subscription ::
  "string \<Rightarrow> artifact_subscription \<Rightarrow> int \<Rightarrow> db \<Rightarrow> db result" where
  "insert_subscription team_id v revision d =
     insert_subscription_row
       \<lparr>hi_object_id = object_id v, hi_team_id = team_id, hi_key = su_subscription_id v,
        hi_revision = revision, hi_extra = su_cursor v, hi_record = v\<rparr> d"

definition selectors_current :: "team_snapshot \<Rightarrow> artifact_subscription \<Rightarrow> bool" where
  "selectors_current sn v \<longleftrightarrow>
     set (su_task_ids v) \<subseteq> set (map tk_task_id (gr_tasks (sn_graph sn))) \<and>
     set (su_artifact_head_ids v) \<subseteq> graph_inputs (sn_graph sn) \<union> graph_outputs (sn_graph sn)"

definition create_subscription_scope :: "string \<Rightarrow> string \<Rightarrow> string" where
  "create_subscription_scope team_id i = ''create-subscription:'' @ team_id @ '':'' @ i"

text \<open>The tail shared by the subscription operations.\<close>

definition finish_subscription ::
  "env \<Rightarrow> string \<Rightarrow> team_snapshot \<Rightarrow> string \<Rightarrow> string \<Rightarrow> string \<Rightarrow> string \<Rightarrow> int \<Rightarrow> int \<Rightarrow> db \<Rightarrow> db result" where
  "finish_subscription e operation sn scope key hash rid t_outbox t_remember d =
     rbind (inject_fault e (fault_point operation ''.after_head'')) (\<lambda>_.
     rbind (append_outbox e sn TEAM_CHANGED (team_ref_of (sn_team sn)) t_outbox d) (\<lambda>(d1, _).
     rbind (inject_fault e (fault_point operation ''.after_outbox'')) (\<lambda>_.
     rbind (remember scope key hash ''SUBSCRIPTION'' rid t_remember d1) (\<lambda>d2.
     rbind (inject_fault e (fault_point operation ''.after_idempotency'')) (\<lambda>_.
     Inr d2)))))"

definition create_subscription_fresh ::
  "env \<Rightarrow> (nat \<Rightarrow> int) \<Rightarrow> string \<Rightarrow> artifact_subscription \<Rightarrow> string \<Rightarrow> string \<Rightarrow> db \<Rightarrow>
   (db \<times> artifact_subscription) result" where
  "create_subscription_fresh e clk team_id v key hash d =
     rbind (snapshot e d team_id) (\<lambda>sn.
     rbind (validate_pair_head team_id ''subscription_current'' (subscriptions d) (subscription_current d)) (\<lambda>_.
     if su_team_ref v \<noteq> team_ref_of (sn_team sn)
     then Inl (TeamConcurrencyError ''subscription uses stale Team authority'')
     else
       rbind (member_by_ref sn (su_member_ref v)) (\<lambda>_.
       if su_cursor v \<noteq> 0 \<or> \<not> selectors_current sn v
       then Inl (TeamBlackboardError ''subscription selector is not current'')
       else
         rbind (insert_subscription team_id v 1 d) (\<lambda>d1.
         rbind (inject_fault e ''create_subscription.after_record'') (\<lambda>_.
         rbind (insert_subscription_current
                  \<lparr>cu_team_id = team_id, cu_key = su_subscription_id v, cu_object_id = object_id v\<rparr> d1) (\<lambda>d2.
         rbind (finish_subscription e ''create_subscription'' sn
                  (create_subscription_scope team_id (su_subscription_id v)) key hash (object_id v)
                  (clk 0) (clk 1) d2) (\<lambda>d3.
         Inr (d3, v))))))))"

definition create_subscription ::
  "env \<Rightarrow> (nat \<Rightarrow> int) \<Rightarrow> artifact_subscription \<Rightarrow> string \<Rightarrow> db \<Rightarrow> (db \<times> artifact_subscription) result" where
  "create_subscription e clk v key d =
     rbind (team_id_of e d (su_team_ref v)) (\<lambda>team_id.
     (let hash = request_sha256 e (SubscriptionRequest (subscription_ref_of v))
      in rbind (replay d (create_subscription_scope team_id (su_subscription_id v)) key hash) (\<lambda>seen.
         case seen of
           Some response \<Rightarrow>
             rbind (typed_replay response ''SUBSCRIPTION'' (load_subscription e d)) (\<lambda>old. Inr (d, old))
         | None \<Rightarrow> create_subscription_fresh e clk team_id v key hash d)))"

text \<open>
  \<open>_matching_sequences\<close>: the sequences of published heads after the cursor that match a selector, in
  order. The join with the envelopes is total by the foreign key of \<open>artifact_heads\<close>.
\<close>

definition heads_after :: "db \<Rightarrow> string \<Rightarrow> int \<Rightarrow> (head_row \<times> envelope_row) list" where
  "heads_after d team_id cursor =
     concat (map (\<lambda>h. case find (\<lambda>v. nr_object_id v = hr_envelope_id h) (envelopes d) of
                        None \<Rightarrow> [] | Some v \<Rightarrow> [(h, v)])
       (sort_key hr_sequence (filter (\<lambda>h. hr_sequence h > cursor) (team_head_rows d team_id))))"

fun matching_from ::
  "env \<Rightarrow> artifact_subscription \<Rightarrow> (head_row \<times> envelope_row) list \<Rightarrow> int list result" where
  "matching_from e v [] = Inr []"
| "matching_from e v ((h, r) # rows) =
     rbind (parse_record (head_cls e) ''Artifact Head'' (hr_record h)) (\<lambda>head.
     rbind (parse_record (envelope_cls e) ''Artifact Envelope'' (nr_record r)) (\<lambda>envelope.
     rbind (matching_from e v rows) (\<lambda>rest.
     Inr (if nr_task_id r \<in> set (su_task_ids v) \<or> hd_head_id head \<in> set (su_artifact_head_ids v) \<or>
             en_semantic_role envelope \<in> set (su_semantic_roles v)
          then hr_sequence h # rest else rest))))"

definition matching_sequences :: "env \<Rightarrow> db \<Rightarrow> string \<Rightarrow> artifact_subscription \<Rightarrow> int \<Rightarrow> int list result" where
  "matching_sequences e d team_id v cursor = matching_from e v (heads_after d team_id cursor)"

definition advance_scope :: "string \<Rightarrow> string \<Rightarrow> string" where
  "advance_scope team_id i = ''advance-subscription:'' @ team_id @ '':'' @ i"

definition current_object :: "string \<Rightarrow> string \<Rightarrow> current_row list \<Rightarrow> string option" where
  "current_object team_id key rows =
     map_option cu_object_id (find (\<lambda>r. cu_team_id r = team_id \<and> cu_key r = key) rows)"

definition move_subscription_current :: "string \<Rightarrow> string \<Rightarrow> string \<Rightarrow> db \<Rightarrow> db" where
  "move_subscription_current team_id i object d =
     d\<lparr>subscription_current :=
        map (\<lambda>r. if cu_team_id r = team_id \<and> cu_key r = i then r\<lparr>cu_object_id := object\<rparr> else r)
          (subscription_current d)\<rparr>"

definition advance_fresh ::
  "env \<Rightarrow> (nat \<Rightarrow> int) \<Rightarrow> (int, artifact_subscription) history_row \<Rightarrow> object_ref \<Rightarrow> int \<Rightarrow>
   contract_audit \<Rightarrow> string \<Rightarrow> string \<Rightarrow> db \<Rightarrow> (db \<times> artifact_subscription) result" where
  "advance_fresh e clk row current_ref cursor aud key hash d =
     (let team_id = hi_team_id row; subscription_id = hi_key row
      in rbind (load_subscription e d (ref_id current_ref)) (\<lambda>current.
         rbind (snapshot e d team_id) (\<lambda>sn.
         rbind (validate_pair_head team_id ''subscription_current'' (subscriptions d)
                  (subscription_current d)) (\<lambda>_.
         rbind (member_by_ref sn (su_member_ref current)) (\<lambda>member.
         rbind (matching_sequences e d team_id current (su_cursor current)) (\<lambda>matching.
         if subscription_ref_of current \<noteq> current_ref \<or>
            current_object team_id subscription_id (subscription_current d) \<noteq> Some (object_id current) \<or>
            \<not> selectors_current sn current \<or> cursor < su_cursor current \<or>
            cursor > coalesce_max (map hr_sequence (team_head_rows d team_id)) \<or>
            (matching \<noteq> [] \<and> cursor > hd matching)
         then Inl (TeamBlackboardError ''subscription cursor is stale or skips evidence'')
         else
           rbind (create (subscription_cls e) aud
                    \<lparr>object_id = [], object_sha256 = [], audit = no_audit,
                     su_subscription_id = su_subscription_id current,
                     su_team_ref = team_ref_of (sn_team sn), su_member_ref = member_ref_of member,
                     su_task_ids = su_task_ids current, su_artifact_head_ids = su_artifact_head_ids current,
                     su_semantic_roles = su_semantic_roles current, su_cursor = cursor\<rparr>) (\<lambda>successor.
           rbind (insert_subscription team_id successor (hi_revision row + 1) d) (\<lambda>d1.
           rbind (inject_fault e ''advance_subscription.after_record'') (\<lambda>_.
           rbind (finish_subscription e ''advance_subscription'' sn (advance_scope team_id subscription_id)
                    key hash (object_id successor) (clk 0) (clk 1)
                    (move_subscription_current team_id subscription_id (object_id successor) d1)) (\<lambda>d2.
           Inr (d2, successor)))))))))))"

definition advance_subscription ::
  "env \<Rightarrow> (nat \<Rightarrow> int) \<Rightarrow> object_ref \<Rightarrow> int \<Rightarrow> contract_audit \<Rightarrow> string \<Rightarrow> db \<Rightarrow>
   (db \<times> artifact_subscription) result" where
  "advance_subscription e clk current_ref cursor aud key d =
     (case find (\<lambda>r. hi_object_id r = ref_id current_ref) (subscriptions d) of
        None \<Rightarrow> Inl (TeamBlackboardError ''subscription was not found'')
      | Some row \<Rightarrow>
          (let hash = request_sha256 e (AdvanceSubscriptionRequest current_ref cursor)
           in rbind (replay d (advance_scope (hi_team_id row) (hi_key row)) key hash) (\<lambda>seen.
              case seen of
                Some response \<Rightarrow>
                  rbind (typed_replay response ''SUBSCRIPTION'' (load_subscription e d)) (\<lambda>old. Inr (d, old))
              | None \<Rightarrow> advance_fresh e clk row current_ref cursor aud key hash d)))"

section \<open>Conflicts\<close>

definition conflict_scope :: "string \<Rightarrow> string \<Rightarrow> string" where
  "conflict_scope team_id i = ''conflict:'' @ team_id @ '':'' @ i"

text \<open>The revision a conflict is written at: 1 when opened, the successor of the open one when closed.\<close>

definition conflict_revision ::
  "env \<Rightarrow> db \<Rightarrow> string \<Rightarrow> team_conflict \<Rightarrow> object_ref option \<Rightarrow> int result" where
  "conflict_revision e d team_id conflict current_ref =
     (let head = current_object team_id (cf_conflict_id conflict) (conflict_current d)
      in case current_ref of
           None \<Rightarrow> if head \<noteq> None then Inl (TeamBlackboardError ''conflict already exists'') else Inr 1
         | Some cur \<Rightarrow>
             if head \<noteq> Some (ref_id cur)
             then Inl (TeamConcurrencyError ''conflict current head is stale'')
             else
               rbind (load_conflict e d (ref_id cur)) (\<lambda>current.
               if conflict_ref_of current \<noteq> cur \<or> cf_status current \<noteq> OPEN
               then Inl (TeamBlackboardError ''only open conflict may close'')
               else if cf_conflict_id conflict \<noteq> cf_conflict_id current \<or>
                       cf_task_ref conflict \<noteq> cf_task_ref current \<or>
                       cf_artifact_envelope_refs conflict \<noteq> cf_artifact_envelope_refs current
               then Inl (TeamBlackboardError ''conflict successor changed its subject authority'')
               else case find (\<lambda>r. hi_object_id r = object_id current) (conflicts d) of
                      None \<Rightarrow> Inl StopIteration
                    | Some r \<Rightarrow> Inr (hi_revision r + 1)))"

definition write_conflict_fresh ::
  "env \<Rightarrow> (nat \<Rightarrow> int) \<Rightarrow> string \<Rightarrow> team_conflict \<Rightarrow> object_ref \<Rightarrow> object_ref option \<Rightarrow> string \<Rightarrow> string \<Rightarrow>
   db \<Rightarrow> (db \<times> team_conflict) result" where
  "write_conflict_fresh e clk team_id conflict member_ref current_ref key hash d =
     rbind (snapshot e d team_id) (\<lambda>sn.
     rbind (validate_pair_head team_id ''conflict_current'' (conflicts d) (conflict_current d)) (\<lambda>_.
     rbind (member_by_ref sn member_ref) (\<lambda>member.
     if cf_team_ref conflict \<noteq> team_ref_of (sn_team sn)
     then Inl (TeamConcurrencyError ''conflict uses stale Team authority'')
     else
       rbind (task_by_ref sn (cf_task_ref conflict)) (\<lambda>_.
       rbind (current_envelope_refs e d team_id) (\<lambda>current.
       if \<not> set (cf_artifact_envelope_refs conflict) \<subseteq> set (map snd current)
       then Inl (TeamBlackboardError ''conflict subjects are not current Artifact Envelopes'')
       else if \<not> set (opt_list (cf_resolution_artifact_ref conflict)) \<subseteq> set (map snd current)
       then Inl (TeamBlackboardError ''conflict resolution is not current typed evidence'')
       else if cf_resolved_by_member_ref conflict \<notin> {None, Some (member_ref_of member)}
       then Inl (TeamBlackboardError ''conflict resolver is stale'')
       else
         rbind (conflict_revision e d team_id conflict current_ref) (\<lambda>revision.
         rbind (insert_conflict_row
                  \<lparr>hi_object_id = object_id conflict, hi_team_id = team_id, hi_key = cf_conflict_id conflict,
                   hi_revision = revision, hi_extra = cf_status conflict, hi_record = conflict\<rparr> d) (\<lambda>d1.
         rbind (inject_fault e ''write_conflict.after_record'') (\<lambda>_.
         rbind (upsert_conflict_current
                  \<lparr>cu_team_id = team_id, cu_key = cf_conflict_id conflict, cu_object_id = object_id conflict\<rparr>
                  d1) (\<lambda>d2.
         rbind (inject_fault e ''write_conflict.after_head'') (\<lambda>_.
         rbind (append_outbox e sn (if current_ref = None then CONFLICT_OPENED else CONFLICT_RESOLVED)
                  (conflict_ref_of conflict) (clk 0) d2) (\<lambda>(d3, _).
         rbind (inject_fault e ''write_conflict.after_outbox'') (\<lambda>_.
         rbind (remember (conflict_scope team_id (cf_conflict_id conflict)) key hash ''CONFLICT''
                  (object_id conflict) (clk 1) d3) (\<lambda>d4.
         rbind (inject_fault e ''write_conflict.after_idempotency'') (\<lambda>_.
         Inr (d4, conflict)))))))))))))))"

definition write_conflict ::
  "env \<Rightarrow> (nat \<Rightarrow> int) \<Rightarrow> team_conflict \<Rightarrow> object_ref \<Rightarrow> object_ref option \<Rightarrow> string \<Rightarrow> db \<Rightarrow>
   (db \<times> team_conflict) result" where
  "write_conflict e clk conflict member_ref current_ref key d =
     rbind (team_id_of e d (cf_team_ref conflict)) (\<lambda>team_id.
     (let hash = request_sha256 e (ConflictRequest (conflict_ref_of conflict) member_ref current_ref)
      in rbind (replay d (conflict_scope team_id (cf_conflict_id conflict)) key hash) (\<lambda>seen.
         case seen of
           Some response \<Rightarrow>
             rbind (typed_replay response ''CONFLICT'' (load_conflict e d)) (\<lambda>old. Inr (d, old))
         | None \<Rightarrow> write_conflict_fresh e clk team_id conflict member_ref current_ref key hash d)))"

definition open_conflict ::
  "env \<Rightarrow> (nat \<Rightarrow> int) \<Rightarrow> team_conflict \<Rightarrow> object_ref \<Rightarrow> string \<Rightarrow> db \<Rightarrow> (db \<times> team_conflict) result" where
  "open_conflict e clk conflict opened_by key d =
     (if cf_status conflict \<noteq> OPEN then Inl (TeamBlackboardError ''new conflict must be OPEN'')
      else write_conflict e clk conflict opened_by None key d)"

definition close_conflict ::
  "env \<Rightarrow> (nat \<Rightarrow> int) \<Rightarrow> team_conflict \<Rightarrow> object_ref \<Rightarrow> object_ref \<Rightarrow> string \<Rightarrow> db \<Rightarrow>
   (db \<times> team_conflict) result" where
  "close_conflict e clk conflict current_ref closed_by key d =
     (if cf_status conflict = OPEN then Inl (TeamBlackboardError ''conflict successor must close'')
      else write_conflict e clk conflict closed_by (Some current_ref) key d)"

definition open_conflicts :: "env \<Rightarrow> db \<Rightarrow> string \<Rightarrow> team_conflict list result" where
  "open_conflicts e d team_id =
     rbind (snapshot e d team_id) (\<lambda>_.
     rbind (validate_pair_head team_id ''conflict_current'' (conflicts d) (conflict_current d)) (\<lambda>_.
     rmap (\<lambda>r. parse_record (conflict_cls e) ''Team conflict'' (hi_record r))
       (sort_key hi_key (filter (\<lambda>r. hi_extra r = OPEN)
          (List.map_filter (\<lambda>c. find (\<lambda>r. hi_object_id r = cu_object_id c) (conflicts d))
             (filter (\<lambda>c. cu_team_id c = team_id) (conflict_current d)))))))"

end
