(* ===== verification/Store_Projection.thy ===== *)
theory Store_Projection
  imports Store_Collaboration
begin

text \<open>
  The read models of \<open>team/_store_projection.py\<close> and \<open>team/context.py\<close>: the member context
  projection computed from the Team authority and its cached copy, checkpoints, recorded convergence
  decisions, and the outbox with its delivery marks.
\<close>

section \<open>Loading\<close>

abbreviation projection_ref_of :: "member_projection \<Rightarrow> object_ref" where
  "projection_ref_of \<equiv> to_ref ''member-context-projection''"

abbreviation decision_ref_of :: "convergence_decision \<Rightarrow> object_ref" where
  "decision_ref_of \<equiv> to_ref ''team-convergence-decision''"

definition load_projection :: "env \<Rightarrow> db \<Rightarrow> string \<Rightarrow> member_projection result" where
  "load_projection e d =
     load (projection_cls e) ''MemberContextProjectionV1'' hi_object_id hi_record (projections d)"

definition load_checkpoint :: "env \<Rightarrow> db \<Rightarrow> string \<Rightarrow> team_checkpoint result" where
  "load_checkpoint e d = load (checkpoint_cls e) ''TeamCheckpointV1'' kp_object_id kp_record (checkpoints d)"

definition load_decision :: "env \<Rightarrow> db \<Rightarrow> string \<Rightarrow> convergence_decision result" where
  "load_decision e d =
     load (decision_cls e) ''TeamConvergenceDecisionV1'' cv_object_id cv_record (convergence d)"

definition load_outbox :: "env \<Rightarrow> db \<Rightarrow> string \<Rightarrow> outbox_record result" where
  "load_outbox e d = load (outbox_cls e) ''TeamOutboxRecordV1'' ox_object_id ox_record (outbox_rows d)"

definition team_subscriptions :: "env \<Rightarrow> db \<Rightarrow> string \<Rightarrow> artifact_subscription list result" where
  "team_subscriptions e d team_id =
     rbind (validate_pair_head team_id ''subscription_current'' (subscriptions d) (subscription_current d)) (\<lambda>_.
     rmap (\<lambda>r. parse_record (subscription_cls e) ''artifact subscription'' (hi_record r))
       (List.map_filter (\<lambda>c. find (\<lambda>r. hi_object_id r = cu_object_id c) (subscriptions d))
          (sort_key cu_key (filter (\<lambda>c. cu_team_id c = team_id) (subscription_current d)))))"

section \<open>Member context projections\<close>

record projection_source =
  ps_snapshot :: team_snapshot
  ps_member :: team_member
  ps_tasks :: "team_task list"
  ps_artifact_envelopes :: "artifact_envelope list"
  ps_messages :: "team_message list"
  ps_subscriptions :: "artifact_subscription list"
  ps_acceptance_check_refs :: "object_ref list"
  ps_source_fingerprint :: string

text \<open>The tasks assigned to a member, what they depend on, and what depends on them.\<close>

definition neighborhood :: "team_task_graph \<Rightarrow> string \<Rightarrow> string set" where
  "neighborhood graph member_id =
     (let assigned = member_task_ids graph member_id
      in assigned \<union>
         (\<Union>t\<in>set (gr_tasks graph).
            (if tk_task_id t \<in> assigned then set (tk_dependency_task_ids t) else {}) \<union>
            (if assigned \<inter> set (tk_dependency_task_ids t) \<noteq> {} then {tk_task_id t} else {})))"

definition member_sees_message :: "team_member \<Rightarrow> team_task list \<Rightarrow> team_message \<Rightarrow> bool" where
  "member_sees_message member tasks m \<longleftrightarrow>
     ms_sender_member_ref m = member_ref_of member \<or>
     member_ref_of member \<in> set (ms_recipient_member_refs m) \<or>
     (ms_audience m \<noteq> DIRECT \<and>
      (case ms_task_ref m of None \<Rightarrow> True | Some r \<Rightarrow> r \<in> set (map task_ref_of tasks)))"

definition ordered_messages :: "db \<Rightarrow> string \<Rightarrow> message_row list" where
  "ordered_messages d team_id = sort_key mr_sequence (team_message_rows d team_id)"

definition parse_messages :: "env \<Rightarrow> db \<Rightarrow> string \<Rightarrow> team_message list result" where
  "parse_messages e d team_id =
     rmap (\<lambda>r. parse_record (message_cls e) ''Team message'' (mr_record r)) (ordered_messages d team_id)"

definition source_of ::
  "env \<Rightarrow> team_snapshot \<Rightarrow> team_member \<Rightarrow> team_task list \<Rightarrow> artifact_envelope list \<Rightarrow> team_message list \<Rightarrow>
   artifact_subscription list \<Rightarrow> projection_source" where
  "source_of e sn member tasks envs msgs subs =
     (let acceptance = sorted_refs (remdups (concat (map tk_acceptance_check_refs tasks)))
      in \<lparr>ps_snapshot = sn, ps_member = member, ps_tasks = tasks, ps_artifact_envelopes = envs,
          ps_messages = msgs, ps_subscriptions = subs, ps_acceptance_check_refs = acceptance,
          ps_source_fingerprint =
            request_sha256 e (SourceRequest (team_ref_of (sn_team sn)) (member_ref_of member)
              (map task_ref_of tasks) (map envelope_ref_of envs) (map message_ref_of msgs)
              (map subscription_ref_of subs) acceptance)\<rparr>)"

definition projection_source_of :: "env \<Rightarrow> db \<Rightarrow> string \<Rightarrow> string \<Rightarrow> projection_source result" where
  "projection_source_of e d team_id member_id =
     rbind (snapshot e d team_id) (\<lambda>sn.
     rbind (member_by_id sn member_id) (\<lambda>member.
     (let near = neighborhood (sn_graph sn) member_id;
          tasks = filter (\<lambda>t. tk_task_id t \<in> near) (gr_tasks (sn_graph sn));
          head_ids = concat (map (\<lambda>t. tk_input_artifact_head_ids t @ tk_output_artifact_head_ids t) tasks)
      in rbind (artifact_heads_of e d team_id) (\<lambda>heads.
         rbind (rmap (head_envelope e d) (filter (\<lambda>h. hd_head_id h \<in> set head_ids) heads)) (\<lambda>envs.
         rbind (parse_messages e d team_id) (\<lambda>msgs.
         rbind (team_subscriptions e d team_id) (\<lambda>subs.
         Inr (source_of e sn member tasks envs (filter (member_sees_message member tasks) msgs)
                (filter (\<lambda>v. su_member_ref v = member_ref_of member) subs)))))))))"

definition projection_id_for :: "string \<Rightarrow> string \<Rightarrow> int \<Rightarrow> string \<Rightarrow> string" where
  "projection_id_for team_id member_id version fingerprint =
     team_id @ ''.'' @ member_id @ ''.'' @ dec version @ ''.'' @ take 16 fingerprint"

definition build_projection ::
  "env \<Rightarrow> string \<Rightarrow> string \<Rightarrow> projection_source \<Rightarrow> contract_audit \<Rightarrow> member_projection result" where
  "build_projection e team_id member_id src aud =
     (let team = sn_team (ps_snapshot src)
      in create (projection_cls e) aud
           \<lparr>object_id = [], object_sha256 = [], audit = no_audit,
            pr_projection_id = projection_id_for team_id member_id (tm_team_version team)
              (ps_source_fingerprint src),
            pr_team_ref = team_ref_of team, pr_member_ref = member_ref_of (ps_member src),
            pr_authority_ref = authority_ref_of (sn_authority (ps_snapshot src)),
            pr_task_refs = sorted_refs (map task_ref_of (ps_tasks src)),
            pr_artifact_envelope_refs = sorted_refs (map envelope_ref_of (ps_artifact_envelopes src)),
            pr_message_refs = sorted_refs (map message_ref_of (ps_messages src)),
            pr_subscription_refs = sorted_refs (map subscription_ref_of (ps_subscriptions src)),
            pr_acceptance_check_refs = ps_acceptance_check_refs src\<rparr>)"

definition projection_from_source ::
  "env \<Rightarrow> projection_source \<Rightarrow> contract_audit \<Rightarrow> member_projection result" where
  "projection_from_source e src aud =
     build_projection e (tm_team_id (sn_team (ps_snapshot src))) (mb_member_id (ps_member src)) src aud"

definition projection_scope :: "string \<Rightarrow> string \<Rightarrow> string" where
  "projection_scope team_id member_id = ''persist-projection:'' @ team_id @ '':'' @ member_id"

definition next_projection_revision :: "db \<Rightarrow> string \<Rightarrow> string \<Rightarrow> int" where
  "next_projection_revision d team_id member_id =
     coalesce_max (map hi_revision (filter (\<lambda>r. hi_team_id r = team_id \<and> hi_key r = member_id)
       (projections d))) + 1"

definition persist_fresh ::
  "env \<Rightarrow> (nat \<Rightarrow> int) \<Rightarrow> string \<Rightarrow> string \<Rightarrow> member_projection \<Rightarrow> string \<Rightarrow> string \<Rightarrow> db \<Rightarrow>
   (db \<times> member_projection) result" where
  "persist_fresh e clk team_id member_id projection fingerprint hash d =
     rbind (validate_pair_head team_id ''projection_current'' (projections d) (projection_current d)) (\<lambda>_.
     rbind (projection_source_of e d team_id member_id) (\<lambda>src.
     rbind (projection_from_source e src (audit projection)) (\<lambda>expected.
     if projection \<noteq> expected \<or> fingerprint \<noteq> ps_source_fingerprint src
     then Inl (TeamIntegrityError ''member projection is not the current Store projection'')
     else
       rbind (insert_projection_row
                \<lparr>hi_object_id = object_id projection, hi_team_id = team_id, hi_key = member_id,
                 hi_revision = next_projection_revision d team_id member_id, hi_extra = fingerprint,
                 hi_record = projection\<rparr> d) (\<lambda>d1.
       rbind (inject_fault e ''persist_projection.after_record'') (\<lambda>_.
       rbind (upsert_projection_current
                \<lparr>cu_team_id = team_id, cu_key = member_id, cu_object_id = object_id projection\<rparr> d1) (\<lambda>d2.
       rbind (inject_fault e ''persist_projection.after_head'') (\<lambda>_.
       rbind (append_outbox e (ps_snapshot src) TEAM_CHANGED (team_ref_of (sn_team (ps_snapshot src)))
                (clk 0) d2) (\<lambda>(d3, _).
       rbind (inject_fault e ''persist_projection.after_outbox'') (\<lambda>_.
       rbind (remember (projection_scope team_id member_id) fingerprint hash ''PROJECTION''
                (object_id projection) (clk 1) d3) (\<lambda>d4.
       rbind (inject_fault e ''persist_projection.after_idempotency'') (\<lambda>_.
       Inr (d4, projection))))))))))))"

definition persist_projection ::
  "env \<Rightarrow> (nat \<Rightarrow> int) \<Rightarrow> member_projection \<Rightarrow> string \<Rightarrow> db \<Rightarrow> (db \<times> member_projection) result" where
  "persist_projection e clk projection fingerprint d =
     rbind (team_id_of e d (pr_team_ref projection)) (\<lambda>team_id.
     rbind (snapshot_at e d (pr_team_ref projection)) (\<lambda>historical.
     rbind (member_by_ref historical (pr_member_ref projection)) (\<lambda>member.
     (let hash = request_sha256 e (ProjectionRequest (projection_ref_of projection) fingerprint)
      in rbind (replay d (projection_scope team_id (mb_member_id member)) fingerprint hash) (\<lambda>seen.
         case seen of
           Some response \<Rightarrow>
             rbind (typed_replay response ''PROJECTION'' (load_projection e d)) (\<lambda>old. Inr (d, old))
         | None \<Rightarrow> persist_fresh e clk team_id (mb_member_id member) projection fingerprint hash d)))))"

definition current_projection_row ::
  "db \<Rightarrow> string \<Rightarrow> string \<Rightarrow> (string, member_projection) history_row option" where
  "current_projection_row d team_id member_id =
     Option.bind (find (\<lambda>c. cu_team_id c = team_id \<and> cu_key c = member_id) (projection_current d)) (\<lambda>c.
     find (\<lambda>r. hi_object_id r = cu_object_id c) (projections d))"

definition stored_projection ::
  "env \<Rightarrow> db \<Rightarrow> string \<Rightarrow> string \<Rightarrow> (member_projection \<times> string) option result" where
  "stored_projection e d team_id member_id =
     rbind (snapshot e d team_id) (\<lambda>_.
     rbind (validate_pair_head team_id ''projection_current'' (projections d) (projection_current d)) (\<lambda>_.
     case current_projection_row d team_id member_id of
       None \<Rightarrow> Inr None
     | Some r \<Rightarrow> rbind (parse_record (projection_cls e) ''member projection'' (hi_record r)) (\<lambda>v.
                 Inr (Some (v, hi_extra r)))))"

definition validate_projection_rebuild ::
  "env \<Rightarrow> db \<Rightarrow> string \<Rightarrow> string \<Rightarrow> member_projection result" where
  "validate_projection_rebuild e d team_id member_id =
     rbind (stored_projection e d team_id member_id) (\<lambda>stored.
     case stored of
       None \<Rightarrow> Inl (TeamIntegrityError ''member context projection is missing'')
     | Some (v, fingerprint) \<Rightarrow>
         rbind (projection_source_of e d team_id member_id) (\<lambda>src.
         rbind (projection_from_source e src (audit v)) (\<lambda>expected.
         if v \<noteq> expected \<or> fingerprint \<noteq> ps_source_fingerprint src
         then Inl (TeamIntegrityError ''member context projection differs from immutable Team authority'')
         else Inr v)))"

text \<open>\<open>TeamContextProjector.project\<close>: read the source, build the projection, store it if asked.\<close>

definition project ::
  "env \<Rightarrow> (nat \<Rightarrow> int) \<Rightarrow> string \<Rightarrow> string \<Rightarrow> contract_audit \<Rightarrow> bool \<Rightarrow> db \<Rightarrow> (db \<times> member_projection) result" where
  "project e clk team_id member_id aud persist d =
     rbind (projection_source_of e d team_id member_id) (\<lambda>src.
     rbind (build_projection e team_id member_id src aud) (\<lambda>projection.
     if persist then persist_projection e clk projection (ps_source_fingerprint src) d
     else Inr (d, projection)))"

end
