(* ===== verification/Store_Checkpoints.thy ===== *)
theory Store_Checkpoints
  imports Store_Projection
begin

text \<open>
  Checkpoints, recorded convergence decisions, and the outbox with its delivery marks, from
  \<open>team/_store_projection.py\<close>. The paging loop of \<open>pending_outbox\<close> is a recursive function whose
  termination rests on the cursor moving forward.
\<close>

section \<open>Checkpoints\<close>

definition team_checkpoints :: "db \<Rightarrow> string \<Rightarrow> checkpoint_row list" where
  "team_checkpoints d team_id = filter (\<lambda>r. kp_team_id r = team_id) (checkpoints d)"

definition checkpoint_head :: "db \<Rightarrow> string \<Rightarrow> checkpoint_head_row option" where
  "checkpoint_head d team_id = find (\<lambda>h. kh_team_id h = team_id) (checkpoint_current d)"

definition validate_checkpoint_head :: "db \<Rightarrow> string \<Rightarrow> unit result" where
  "validate_checkpoint_head d team_id =
     guard (map_option kp_object_id (latest_by kp_sequence (team_checkpoints d team_id)) =
            map_option kh_object_id (checkpoint_head d team_id))
       (TeamIntegrityError ''checkpoint current head differs from immutable history'')"

definition checkpoint_scope :: "string \<Rightarrow> string" where
  "checkpoint_scope team_id = ''checkpoint:'' @ team_id"

definition checkpoint_id_for :: "string \<Rightarrow> int \<Rightarrow> string" where
  "checkpoint_id_for team_id sequence = team_id @ ''.checkpoint-'' @ dec sequence"

definition next_checkpoint_sequence :: "db \<Rightarrow> string \<Rightarrow> int" where
  "next_checkpoint_sequence d team_id = coalesce_max (map kp_sequence (team_checkpoints d team_id)) + 1"

definition build_checkpoint ::
  "env \<Rightarrow> db \<Rightarrow> string \<Rightarrow> team_snapshot \<Rightarrow> artifact_head list \<Rightarrow> artifact_subscription list \<Rightarrow> contract_audit \<Rightarrow>
   team_checkpoint result" where
  "build_checkpoint e d team_id sn heads subs aud =
     create (checkpoint_cls e) aud
       \<lparr>object_id = [], object_sha256 = [], audit = no_audit,
        ck_checkpoint_id = checkpoint_id_for team_id (next_checkpoint_sequence d team_id),
        ck_team_ref = team_ref_of (sn_team sn), ck_roster_ref = roster_ref_of (sn_roster sn),
        ck_task_graph_ref = graph_ref_of (sn_graph sn), ck_authority_ref = authority_ref_of (sn_authority sn),
        ck_artifact_head_refs = sorted_refs (map head_ref_of heads),
        ck_subscription_refs = sorted_refs (map subscription_ref_of subs),
        ck_member_session_refs = sorted_refs (map mb_independent_session_ref (ro_members (sn_roster sn))),
        ck_message_cursor = coalesce_max (map mr_sequence (team_message_rows d team_id))\<rparr>"

definition checkpoint_fresh ::
  "env \<Rightarrow> (nat \<Rightarrow> int) \<Rightarrow> string \<Rightarrow> contract_audit \<Rightarrow> string \<Rightarrow> string \<Rightarrow> db \<Rightarrow> (db \<times> team_checkpoint) result" where
  "checkpoint_fresh e clk team_id aud key hash d =
     rbind (validate_checkpoint_head d team_id) (\<lambda>_.
     rbind (snapshot e d team_id) (\<lambda>sn.
     rbind (artifact_heads_of e d team_id) (\<lambda>heads.
     rbind (team_subscriptions e d team_id) (\<lambda>subs.
     rbind (build_checkpoint e d team_id sn heads subs aud) (\<lambda>checkpoint.
     rbind (insert_checkpoint
              \<lparr>kp_object_id = object_id checkpoint, kp_team_id = team_id,
               kp_sequence = next_checkpoint_sequence d team_id,
               kp_team_version = tm_team_version (sn_team sn), kp_record = checkpoint\<rparr> d) (\<lambda>d1.
     rbind (inject_fault e ''create_checkpoint.after_record'') (\<lambda>_.
     rbind (upsert_checkpoint_current \<lparr>kh_team_id = team_id, kh_object_id = object_id checkpoint\<rparr> d1) (\<lambda>d2.
     rbind (inject_fault e ''create_checkpoint.after_head'') (\<lambda>_.
     rbind (append_outbox e sn TEAM_CHECKPOINTED (checkpoint_ref_of checkpoint) (clk 0) d2) (\<lambda>(d3, _).
     rbind (inject_fault e ''create_checkpoint.after_outbox'') (\<lambda>_.
     rbind (remember (checkpoint_scope team_id) key hash ''CHECKPOINT'' (object_id checkpoint) (clk 1) d3) (\<lambda>d4.
     rbind (inject_fault e ''create_checkpoint.after_idempotency'') (\<lambda>_.
     Inr (d4, checkpoint))))))))))))))"

definition create_checkpoint ::
  "env \<Rightarrow> (nat \<Rightarrow> int) \<Rightarrow> string \<Rightarrow> contract_audit \<Rightarrow> string \<Rightarrow> db \<Rightarrow> (db \<times> team_checkpoint) result" where
  "create_checkpoint e clk team_id aud key d =
     (let hash = request_sha256 e (CheckpointRequest team_id)
      in rbind (replay d (checkpoint_scope team_id) key hash) (\<lambda>seen.
         case seen of
           Some response \<Rightarrow>
             rbind (typed_replay response ''CHECKPOINT'' (load_checkpoint e d)) (\<lambda>old. Inr (d, old))
         | None \<Rightarrow> checkpoint_fresh e clk team_id aud key hash d))"

definition current_checkpoint :: "env \<Rightarrow> db \<Rightarrow> string \<Rightarrow> team_checkpoint option result" where
  "current_checkpoint e d team_id =
     rbind (snapshot e d team_id) (\<lambda>_.
     rbind (validate_checkpoint_head d team_id) (\<lambda>_.
     case checkpoint_head d team_id of
       None \<Rightarrow> Inr None
     | Some h \<Rightarrow> rbind (load_checkpoint e d (kh_object_id h)) (\<lambda>v. Inr (Some v))))"

section \<open>Recorded convergence decisions\<close>

definition or_else :: "'a option \<Rightarrow> 'a \<Rightarrow> 'a" where
  "or_else x y = (case x of None \<Rightarrow> y | Some v \<Rightarrow> v)"

definition team_decisions :: "db \<Rightarrow> string \<Rightarrow> convergence_row list" where
  "team_decisions d team_id = filter (\<lambda>r. cv_team_id r = team_id) (convergence d)"

definition convergence_scope :: "string \<Rightarrow> string" where
  "convergence_scope team_id = ''convergence:'' @ team_id"

text \<open>A rework decision must name the predecessors of the current Team, graph and authority.\<close>

definition check_rework_predecessor ::
  "env \<Rightarrow> db \<Rightarrow> string \<Rightarrow> team_snapshot \<Rightarrow> convergence_decision \<Rightarrow> unit result" where
  "check_rework_predecessor e d team_id sn decision =
     (if dc_successor_team_ref decision = None then Inr ()
      else case find (\<lambda>t. tr_team_id t = team_id \<and> tr_version t = tm_team_version (sn_team sn) - 1) (teams d) of
             None \<Rightarrow> Inl (TeamIntegrityError ''rework predecessor Team is missing'')
           | Some row \<Rightarrow>
               rbind (parse_record (team_cls e) ''Team'' (tr_record row)) (\<lambda>prior.
               guard (team_ref_of prior = dc_team_ref decision \<and>
                      gr_predecessor_graph_ref (sn_graph sn) = Some (dc_graph_ref decision) \<and>
                      au_predecessor_authority_ref (sn_authority sn) = Some (dc_authority_ref decision))
                 (TeamIntegrityError ''rework convergence predecessor is stale'')))"

definition convergence_fresh ::
  "env \<Rightarrow> (nat \<Rightarrow> int) \<Rightarrow> string \<Rightarrow> convergence_decision \<Rightarrow> string \<Rightarrow> string \<Rightarrow> db \<Rightarrow>
   (db \<times> convergence_decision) result" where
  "convergence_fresh e clk team_id decision key hash d =
     rbind (snapshot e d team_id) (\<lambda>sn.
     if or_else (dc_successor_team_ref decision) (dc_team_ref decision) \<noteq> team_ref_of (sn_team sn) \<or>
        or_else (dc_successor_graph_ref decision) (dc_graph_ref decision) \<noteq> graph_ref_of (sn_graph sn) \<or>
        or_else (dc_successor_authority_ref decision) (dc_authority_ref decision) \<noteq>
          authority_ref_of (sn_authority sn)
     then Inl (TeamIntegrityError ''convergence decision is stale'')
     else
       rbind (load_checkpoint e d (ref_id (dc_checkpoint_ref decision))) (\<lambda>checkpoint.
       if checkpoint_ref_of checkpoint \<noteq> dc_checkpoint_ref decision
       then Inl (TeamIntegrityError ''convergence checkpoint drifted'')
       else if map_option kh_object_id (checkpoint_head d team_id) \<noteq> Some (object_id checkpoint) \<or>
               ck_team_ref checkpoint \<noteq> team_ref_of (sn_team sn) \<or>
               ck_roster_ref checkpoint \<noteq> roster_ref_of (sn_roster sn) \<or>
               ck_task_graph_ref checkpoint \<noteq> graph_ref_of (sn_graph sn) \<or>
               ck_authority_ref checkpoint \<noteq> authority_ref_of (sn_authority sn)
       then Inl (TeamIntegrityError ''convergence checkpoint is not current Team authority'')
       else
         rbind (check_rework_predecessor e d team_id sn decision) (\<lambda>_.
         rbind (insert_convergence
                  \<lparr>cv_object_id = object_id decision, cv_team_id = team_id,
                   cv_sequence = coalesce_max (map cv_sequence (team_decisions d team_id)) + 1,
                   cv_outcome = dc_outcome decision, cv_record = decision\<rparr> d) (\<lambda>d1.
         rbind (inject_fault e ''record_convergence.after_record'') (\<lambda>_.
         rbind (append_outbox e sn TEAM_CHANGED (team_ref_of (sn_team sn)) (clk 0) d1) (\<lambda>(d2, _).
         rbind (inject_fault e ''record_convergence.after_outbox'') (\<lambda>_.
         rbind (remember (convergence_scope team_id) key hash ''CONVERGENCE'' (object_id decision) (clk 1) d2) (\<lambda>d3.
         rbind (inject_fault e ''record_convergence.after_idempotency'') (\<lambda>_.
         Inr (d3, decision))))))))))"

definition record_convergence ::
  "env \<Rightarrow> (nat \<Rightarrow> int) \<Rightarrow> convergence_decision \<Rightarrow> string \<Rightarrow> db \<Rightarrow> (db \<times> convergence_decision) result" where
  "record_convergence e clk decision key d =
     rbind (team_id_of e d (or_else (dc_successor_team_ref decision) (dc_team_ref decision))) (\<lambda>team_id.
     (let hash = request_sha256 e (ConvergenceRequest (decision_ref_of decision))
      in rbind (replay d (convergence_scope team_id) key hash) (\<lambda>seen.
         case seen of
           Some response \<Rightarrow>
             rbind (typed_replay response ''CONVERGENCE'' (load_decision e d)) (\<lambda>old. Inr (d, old))
         | None \<Rightarrow> convergence_fresh e clk team_id decision key hash d)))"

record convergence_source =
  cs_snapshot :: team_snapshot
  cs_work :: "task_work list"
  cs_messages :: "team_message list"
  cs_conflicts :: "team_conflict list"
  cs_artifact_heads :: "artifact_head list"

definition convergence_source_of :: "env \<Rightarrow> db \<Rightarrow> string \<Rightarrow> convergence_source result" where
  "convergence_source_of e d team_id =
     rbind (snapshot e d team_id) (\<lambda>sn.
     rbind (validate_pair_head team_id ''conflict_current'' (conflicts d) (conflict_current d)) (\<lambda>_.
     rbind (parse_messages e d team_id) (\<lambda>msgs.
     rbind (open_conflicts e d team_id) (\<lambda>open.
     rbind (work_items e d sn) (\<lambda>work.
     rbind (artifact_heads_of e d team_id) (\<lambda>heads.
     Inr \<lparr>cs_snapshot = sn, cs_work = work, cs_messages = msgs, cs_conflicts = open,
          cs_artifact_heads = heads\<rparr>))))))"

section \<open>Outbox delivery\<close>

definition outbox_page :: "db \<Rightarrow> string \<Rightarrow> int \<Rightarrow> outbox_row list" where
  "outbox_page d team_id after_sequence =
     sort_key ox_sequence (filter (\<lambda>r. ox_sequence r > after_sequence) (team_outbox d team_id))"

definition list_outbox :: "env \<Rightarrow> db \<Rightarrow> string \<Rightarrow> int \<Rightarrow> int \<Rightarrow> outbox_record list result" where
  "list_outbox e d team_id after_sequence limit =
     (if after_sequence < 0 \<or> \<not> in_range 1 1000 limit
      then Inl (ValueError ''outbox page is out of bounds'')
      else
        rbind (snapshot e d team_id) (\<lambda>_.
        rmap (\<lambda>r. parse_record (outbox_cls e) ''Team outbox'' (ox_record r))
          (take (nat limit) (outbox_page d team_id after_sequence))))"

definition undelivered :: "db \<Rightarrow> outbox_record \<Rightarrow> (outbox_record \<times> object_ref) list" where
  "undelivered d rec =
     map (Pair rec) (filter (\<lambda>s. \<not> list_ex (\<lambda>x. dv_outbox_id x = object_id rec \<and>
                                              dv_session_id x = ref_id s) (outbox_delivery d))
       (ob_intended_member_session_refs rec))"

fun pending_rows ::
  "env \<Rightarrow> db \<Rightarrow> nat \<Rightarrow> outbox_row list \<Rightarrow> (outbox_record \<times> object_ref) list \<Rightarrow>
   (outbox_record \<times> object_ref) list result" where
  "pending_rows e d limit [] acc = Inr acc"
| "pending_rows e d limit (r # rs) acc =
     rbind (parse_record (outbox_cls e) ''Team outbox'' (ox_record r)) (\<lambda>rec.
     if limit \<le> length (acc @ undelivered d rec) then Inr (acc @ undelivered d rec)
     else pending_rows e d limit rs (acc @ undelivered d rec))"

lemma rbind_cong [fundef_cong]:
  "m = m' \<Longrightarrow> (\<And>x. m' = Inr x \<Longrightarrow> f x = g x) \<Longrightarrow> rbind m f = rbind m' g"
  by (cases m') auto

lemma outbox_page_after: "r \<in> set (outbox_page d team_id i) \<Longrightarrow> i < ox_sequence r"
  by (simp add: outbox_page_def)

lemma outbox_page_shrinks:
  assumes "rows = take n (outbox_page d team_id i)" and "rows \<noteq> []"
  shows "length (outbox_page d team_id (ox_sequence (last rows))) < length (outbox_page d team_id i)"
proof -
  let ?own = "team_outbox d team_id"
  have "last rows \<in> set (outbox_page d team_id i)"
    using assms last_in_set in_set_takeD by metis
  then have r: "last rows \<in> set ?own" "i < ox_sequence (last rows)"
    by (simp_all add: outbox_page_def)
  then have "filter (\<lambda>r. ox_sequence r > ox_sequence (last rows)) ?own =
      filter (\<lambda>r. ox_sequence r > ox_sequence (last rows)) (filter (\<lambda>r. ox_sequence r > i) ?own)"
    by (auto intro: filter_cong)
  moreover have "length (filter (\<lambda>r. ox_sequence r > ox_sequence (last rows)) (filter (\<lambda>r. ox_sequence r > i) ?own)) <
      length (filter (\<lambda>r. ox_sequence r > i) ?own)"
    using r by (intro length_filter_less [of "last rows"]) auto
  ultimately show ?thesis by (simp add: outbox_page_def)
qed

function pending_loop ::
  "env \<Rightarrow> db \<Rightarrow> string \<Rightarrow> nat \<Rightarrow> int \<Rightarrow> (outbox_record \<times> object_ref) list \<Rightarrow>
   (outbox_record \<times> object_ref) list result" where
  "pending_loop e d team_id limit after_sequence acc =
     (if limit \<le> length acc then Inr acc
      else (let rows = take limit (outbox_page d team_id after_sequence)
            in if rows = [] then Inr acc
               else rbind (pending_rows e d limit rows acc) (\<lambda>acc'.
                    if length rows < limit then Inr acc'
                    else pending_loop e d team_id limit (ox_sequence (last rows)) acc')))"
  by pat_completeness auto

termination
  by (relation "measure (\<lambda>(e, d, team_id, limit, after_sequence, acc).
        length (outbox_page d team_id after_sequence))")
     (simp_all add: outbox_page_shrinks)

declare pending_loop.simps [simp del]

definition pending_outbox ::
  "env \<Rightarrow> db \<Rightarrow> string \<Rightarrow> int \<Rightarrow> (outbox_record \<times> object_ref) list result" where
  "pending_outbox e d team_id limit =
     (if \<not> in_range 1 1000 limit then Inl (ValueError ''outbox page is out of bounds'')
      else
        rbind (snapshot e d team_id) (\<lambda>_.
        rbind (pending_loop e d team_id (nat limit) 0 []) (\<lambda>pending.
        Inr (take (nat limit) pending))))"

definition mark_outbox_delivered ::
  "env \<Rightarrow> (nat \<Rightarrow> int) \<Rightarrow> object_ref \<Rightarrow> object_ref \<Rightarrow> db \<Rightarrow> (db \<times> unit) result" where
  "mark_outbox_delivered e clk outbox_ref session_ref d =
     rbind (load_outbox e d (ref_id outbox_ref)) (\<lambda>rec.
     if outbox_ref_of rec \<noteq> outbox_ref \<or> session_ref \<notin> set (ob_intended_member_session_refs rec)
     then Inl (TeamIntegrityError ''outbox delivery authority is stale'')
     else
       rbind (insert_delivery
                \<lparr>dv_outbox_id = object_id rec, dv_session_id = ref_id session_ref, dv_delivered_at = clk 0\<rparr> d)
         (\<lambda>d1. Inr (d1, ())))"

end
