(* ===== verification/Store_Rework.thy ===== *)
theory Store_Rework
  imports Store_Checkpoints
begin

text \<open>
  The two operations of \<open>team/_store_projection.py\<close> that replace the current task graph: narrowing it
  to fewer tasks and inputs, and revising it so that finished tasks run again. Both write a new
  graph, authority and Team record and move the Team head to them.
\<close>

section \<open>Shared steps\<close>

definition move_team_graph :: "string \<Rightarrow> string \<Rightarrow> string \<Rightarrow> string \<Rightarrow> db \<Rightarrow> db" where
  "move_team_graph team_id team_object graph_object authority_object d =
     d\<lparr>team_heads :=
        map (\<lambda>h. if th_team_id h = team_id
                 then h\<lparr>th_team_id_ref := team_object, th_graph_id := graph_object,
                        th_authority_id := authority_object\<rparr> else h)
          (team_heads d)\<rparr>"

definition insert_successor :: "string \<Rightarrow> string \<Rightarrow> team_snapshot \<Rightarrow> db \<Rightarrow> db result" where
  "insert_successor team_id roster_object sn d =
     rbind (insert_graph
              \<lparr>rv_object_id = object_id (sn_graph sn), rv_team_id = team_id,
               rv_revision = gr_revision (sn_graph sn), rv_record = sn_graph sn\<rparr> d) (\<lambda>d1.
     rbind (insert_authority
              \<lparr>rv_object_id = object_id (sn_authority sn), rv_team_id = team_id,
               rv_revision = au_authority_version (sn_authority sn), rv_record = sn_authority sn\<rparr> d1) (\<lambda>d2.
     insert_team
       \<lparr>tr_object_id = object_id (sn_team sn), tr_team_id = team_id,
        tr_version = tm_team_version (sn_team sn), tr_roster_id = roster_object,
        tr_graph_id = object_id (sn_graph sn), tr_authority_id = object_id (sn_authority sn),
        tr_record = sn_team sn\<rparr> d2))"

definition replay_team :: "env \<Rightarrow> db \<Rightarrow> string \<Rightarrow> string \<Rightarrow> string \<times> string \<Rightarrow> team_snapshot result" where
  "replay_team e d type_error missing_error response =
     (if fst response \<noteq> ''TEAM'' then Inl (TeamIntegrityError type_error)
      else case find (\<lambda>t. tr_object_id t = snd response) (teams d) of
             None \<Rightarrow> Inl (TeamIntegrityError missing_error)
           | Some row \<Rightarrow>
               rbind (parse_record (team_cls e) ''Team'' (tr_record row)) (\<lambda>team.
               snapshot_at e d (team_ref_of team)))"

section \<open>Narrowing the task graph\<close>

text \<open>Everything of the Team that narrowing must carry over or advance by one.\<close>

definition narrowing_fixed :: "team_snapshot \<Rightarrow> team_snapshot \<Rightarrow> bool" where
  "narrowing_fixed cur succ \<longleftrightarrow>
     (let graph = sn_graph succ; authority = sn_authority succ; team = sn_team succ;
          graph0 = sn_graph cur; authority0 = sn_authority cur; team0 = sn_team cur;
          roster_ref = roster_ref_of (sn_roster cur)
      in roster_ref_of (sn_roster succ) = roster_ref \<and> gr_graph_id graph = gr_graph_id graph0 \<and>
         gr_team_id graph = gr_team_id graph0 \<and> gr_revision graph = gr_revision graph0 + 1 \<and>
         gr_predecessor_graph_ref graph = Some (graph_ref_of graph0) \<and> gr_roster_ref graph = roster_ref \<and>
         gr_member_ids graph = gr_member_ids graph0 \<and>
         au_authority_id authority = au_authority_id authority0 \<and>
         au_authority_version authority = au_authority_version authority0 + 1 \<and>
         au_predecessor_authority_ref authority = Some (authority_ref_of authority0) \<and>
         au_team_id authority = au_team_id authority0 \<and>
         au_team_incarnation_id authority = au_team_incarnation_id authority0 \<and>
         au_roster_ref authority = roster_ref \<and> au_task_graph_ref authority = graph_ref_of graph \<and>
         au_permission_policy_ref authority = au_permission_policy_ref authority0 \<and>
         au_max_model_requests authority = au_max_model_requests authority0 \<and>
         au_max_model_tokens authority = au_max_model_tokens authority0 \<and>
         au_max_cost_micro_usd authority = au_max_cost_micro_usd authority0 \<and>
         au_used_model_requests authority = au_used_model_requests authority0 \<and>
         au_used_model_tokens authority = au_used_model_tokens authority0 \<and>
         au_used_cost_micro_usd authority = au_used_cost_micro_usd authority0 \<and>
         tm_team_id team = tm_team_id team0 \<and>
         tm_team_incarnation_id team = tm_team_incarnation_id team0 \<and>
         tm_team_version team = tm_team_version team0 + 1 \<and> tm_goal_ref team = tm_goal_ref team0 \<and>
         tm_composition_ref team = tm_composition_ref team0 \<and> tm_roster_ref team = roster_ref \<and>
         tm_task_graph_ref team = graph_ref_of graph \<and> tm_authority_ref team = authority_ref_of authority \<and>
         tm_coordinator_member_id team = tm_coordinator_member_id team0 \<and>
         tm_lifecycle team = tm_lifecycle team0)"

definition task_narrowed :: "team_task \<Rightarrow> team_task \<Rightarrow> bool" where
  "task_narrowed source task \<longleftrightarrow>
     tk_task_id task = tk_task_id source \<and> tk_task_kind task = tk_task_kind source \<and>
     tk_assigned_member_id task = tk_assigned_member_id source \<and>
     tk_capability_definition_ref task = tk_capability_definition_ref source \<and>
     set (tk_dependency_task_ids task) \<subseteq> set (tk_dependency_task_ids source) \<and>
     set (tk_input_artifact_head_ids task) \<subseteq> set (tk_input_artifact_head_ids source) \<and>
     tk_output_artifact_head_ids task = tk_output_artifact_head_ids source \<and>
     tk_acceptance_check_refs task = tk_acceptance_check_refs source \<and> tk_status task = tk_status source \<and>
     tk_max_attempts task = tk_max_attempts source \<and>
     tk_max_model_requests task = tk_max_model_requests source \<and>
     tk_max_model_tokens task = tk_max_model_tokens source \<and>
     tk_max_cost_micro_usd task = tk_max_cost_micro_usd source"

definition find_task :: "team_task_graph \<Rightarrow> string \<Rightarrow> team_task option" where
  "find_task graph i = find (\<lambda>t. tk_task_id t = i) (gr_tasks graph)"

text \<open>The current tasks whose exact object the successor does not keep.\<close>

definition changed_or_removed :: "team_task_graph \<Rightarrow> team_task_graph \<Rightarrow> team_task list" where
  "changed_or_removed cur succ =
     filter (\<lambda>t. case find_task succ (tk_task_id t) of None \<Rightarrow> True
                  | Some u \<Rightarrow> task_ref_of u \<noteq> task_ref_of t) (gr_tasks cur)"

definition assigned_task_ids :: "team_task_graph \<Rightarrow> string \<Rightarrow> string list" where
  "assigned_task_ids graph member_id =
     sort (map tk_task_id (filter (\<lambda>t. tk_assigned_member_id t = Some member_id) (gr_tasks graph)))"

definition grant_narrowed :: "team_task_graph \<Rightarrow> member_grant \<Rightarrow> member_grant \<Rightarrow> bool" where
  "grant_narrowed graph source target \<longleftrightarrow>
     mg_principal_ref target = mg_principal_ref source \<and>
     mg_capability_definition_refs target = mg_capability_definition_refs source \<and>
     mg_provider_binding_refs target = mg_provider_binding_refs source \<and>
     mg_task_ids target = assigned_task_ids graph (mg_member_id source) \<and>
     set (mg_task_ids target) \<subseteq> set (mg_task_ids source) \<and>
     mg_data_scope_refs target = mg_data_scope_refs source \<and>
     mg_data_purposes target = mg_data_purposes source \<and>
     mg_data_classifications target = mg_data_classifications source \<and>
     mg_allowed_side_effects target = mg_allowed_side_effects source"

definition find_grant :: "execution_authority \<Rightarrow> string \<Rightarrow> member_grant option" where
  "find_grant a m = find (\<lambda>g. mg_member_id g = m) (au_grants a)"

definition validate_graph_narrowing :: "db \<Rightarrow> team_snapshot \<Rightarrow> team_snapshot \<Rightarrow> unit result" where
  "validate_graph_narrowing d cur succ =
     (let graph0 = sn_graph cur; graph = sn_graph succ; team_id = tm_team_id (sn_team cur);
          ids0 = set (map tk_task_id (gr_tasks graph0)); ids = set (map tk_task_id (gr_tasks graph));
          changed = changed_or_removed graph0 graph;
          removed_heads = set (concat (map tk_output_artifact_head_ids changed));
          grants0 = au_grants (sn_authority cur); grants = au_grants (sn_authority succ)
      in if \<not> narrowing_fixed cur succ
         then Inl (TeamIntegrityError ''graph narrowing changed fixed Team authority'')
         else if gr_tasks graph = [] \<or> \<not> ids \<subseteq> ids0
         then Inl (TeamIntegrityError ''graph narrowing added or removed every task'')
         else if list_ex (\<lambda>t. case find_task graph0 (tk_task_id t) of None \<Rightarrow> True
                               | Some s \<Rightarrow> \<not> task_narrowed s t) (gr_tasks graph)
         then Inl (TeamIntegrityError ''graph narrowing widened or rewrote a task'')
         else if list_ex (\<lambda>r. er_team_id r = team_id \<and> er_task_id r \<in> set (map tk_task_id changed)) (task_events d)
         then Inl (TeamTaskStateError ''graph narrowing cannot rewrite task event history'')
         else if list_ex (\<lambda>c. cu_team_id c = team_id \<and> cu_key c \<in> removed_heads) (artifact_current d)
         then Inl (TeamTaskStateError ''graph narrowing cannot remove Artifact authority'')
         else if set (map mg_member_id grants) \<noteq> set (map mg_member_id grants0)
         then Inl (TeamIntegrityError ''graph narrowing changed grant members'')
         else if list_ex (\<lambda>g. case find_grant (sn_authority succ) (mg_member_id g) of None \<Rightarrow> True
                               | Some target \<Rightarrow> \<not> grant_narrowed graph g target) grants0
         then Inl (TeamIntegrityError ''graph narrowing widened or rewrote a grant'')
         else Inr ())"

definition narrow_scope :: "string \<Rightarrow> string" where
  "narrow_scope team_id = ''narrow-graph:'' @ team_id"

definition finish_successor ::
  "env \<Rightarrow> string \<Rightarrow> team_snapshot \<Rightarrow> string \<Rightarrow> string \<Rightarrow> string \<Rightarrow> int \<Rightarrow> int \<Rightarrow> db \<Rightarrow> db result" where
  "finish_successor e operation sn scope key hash t_outbox t_remember d =
     rbind (append_outbox e sn TEAM_CHANGED (team_ref_of (sn_team sn)) t_outbox d) (\<lambda>(d1, _).
     rbind (inject_fault e (fault_point operation ''.after_outbox'')) (\<lambda>_.
     rbind (remember scope key hash ''TEAM'' (object_id (sn_team sn)) t_remember d1) (\<lambda>d2.
     rbind (inject_fault e (fault_point operation ''.after_idempotency'')) (\<lambda>_.
     Inr d2))))"

definition promote_fresh ::
  "env \<Rightarrow> (nat \<Rightarrow> int) \<Rightarrow> string \<Rightarrow> object_ref \<Rightarrow> object_ref \<Rightarrow> object_ref \<Rightarrow> team_snapshot \<Rightarrow> string \<Rightarrow> string \<Rightarrow>
   db \<Rightarrow> (db \<times> team_snapshot) result" where
  "promote_fresh e clk team_id team_ref graph_ref authority_ref succ key hash d =
     rbind (snapshot e d team_id) (\<lambda>cur.
     if team_ref_of (sn_team cur) \<noteq> team_ref \<or> graph_ref_of (sn_graph cur) \<noteq> graph_ref \<or>
        authority_ref_of (sn_authority cur) \<noteq> authority_ref
     then Inl (TeamConcurrencyError ''graph narrowing Team authority is stale'')
     else
       rbind (validate_graph_narrowing d cur succ) (\<lambda>_.
       rbind (insert_successor team_id (object_id (sn_roster cur)) succ d) (\<lambda>d1.
       rbind (inject_fault e ''promote_narrowed_graph.after_records'') (\<lambda>_.
       (let d2 = move_team_graph team_id (object_id (sn_team succ)) (object_id (sn_graph succ))
                   (object_id (sn_authority succ)) d1
        in rbind (inject_fault e ''promote_narrowed_graph.after_head'') (\<lambda>_.
           rbind (finish_successor e ''promote_narrowed_graph'' succ (narrow_scope team_id) key hash
                    (clk 0) (clk 1) d2) (\<lambda>d3.
           Inr (d3, succ))))))))"

definition promote_narrowed_graph ::
  "env \<Rightarrow> (nat \<Rightarrow> int) \<Rightarrow> string \<Rightarrow> object_ref \<Rightarrow> object_ref \<Rightarrow> object_ref \<Rightarrow> team_snapshot \<Rightarrow> string \<Rightarrow> db \<Rightarrow>
   (db \<times> team_snapshot) result" where
  "promote_narrowed_graph e clk team_id team_ref graph_ref authority_ref succ key d =
     (let hash = request_sha256 e (NarrowRequest team_id team_ref graph_ref authority_ref
            (team_ref_of (sn_team succ)) (graph_ref_of (sn_graph succ)) (authority_ref_of (sn_authority succ)))
      in rbind (replay d (narrow_scope team_id) key hash) (\<lambda>seen.
         case seen of
           Some response \<Rightarrow>
             rbind (replay_team e d ''graph narrowing replay type drifted''
                      ''graph narrowing response Team is missing'' response) (\<lambda>old. Inr (d, old))
         | None \<Rightarrow> promote_fresh e clk team_id team_ref graph_ref authority_ref succ key hash d))"

section \<open>Rework\<close>

definition rework_scope :: "string \<Rightarrow> string" where
  "rework_scope team_id = ''rework:'' @ team_id"

definition find_work :: "task_work list \<Rightarrow> string \<Rightarrow> task_work option" where
  "find_work works i = find (\<lambda>w. tk_task_id (tw_task w) = i) works"

definition reworkable :: "task_work list \<Rightarrow> string \<Rightarrow> bool" where
  "reworkable works i =
     (case find_work works i of None \<Rightarrow> False
      | Some w \<Rightarrow> tw_status w \<in> {COMPLETED, FAILED, CANCELLED} \<and> tw_attempt w < tk_max_attempts (tw_task w))"

definition rework_status :: "task_work list \<Rightarrow> string list \<Rightarrow> team_task \<Rightarrow> task_status" where
  "rework_status works task_ids task =
     (if list_all (\<lambda>dep. (case find_work works dep of None \<Rightarrow> False | Some w \<Rightarrow> tw_status w = COMPLETED) \<and>
                         dep \<notin> set task_ids) (tk_dependency_task_ids task)
      then READY else PENDING)"

definition rework_graph :: "env \<Rightarrow> string \<Rightarrow> team_snapshot \<Rightarrow> contract_audit \<Rightarrow> team_task_graph result" where
  "rework_graph e team_id cur aud =
     (let g = sn_graph cur
      in create_graph (dg_task e) (dg_graph e) aud
           \<lparr>object_id = [], object_sha256 = [], audit = no_audit, gr_graph_id = gr_graph_id g,
            gr_team_id = team_id, gr_revision = gr_revision g + 1,
            gr_predecessor_graph_ref = Some (graph_ref_of g),
            gr_roster_ref = roster_ref_of (sn_roster cur), gr_member_ids = gr_member_ids g,
            gr_tasks = gr_tasks g\<rparr>)"

definition rework_authority ::
  "env \<Rightarrow> string \<Rightarrow> team_snapshot \<Rightarrow> team_task_graph \<Rightarrow> contract_audit \<Rightarrow> execution_authority result" where
  "rework_authority e team_id cur graph aud =
     (let a = sn_authority cur
      in create_authority (dg_authority e) aud
           \<lparr>object_id = [], object_sha256 = [], audit = no_audit, au_authority_id = au_authority_id a,
            au_authority_version = au_authority_version a + 1,
            au_predecessor_authority_ref = Some (authority_ref_of a), au_team_id = team_id,
            au_team_incarnation_id = tm_team_incarnation_id (sn_team cur),
            au_roster_ref = roster_ref_of (sn_roster cur), au_task_graph_ref = graph_ref_of graph,
            au_permission_policy_ref = au_permission_policy_ref a, au_grants = au_grants a,
            au_max_model_requests = au_max_model_requests a, au_max_model_tokens = au_max_model_tokens a,
            au_max_cost_micro_usd = au_max_cost_micro_usd a,
            au_used_model_requests = au_used_model_requests a,
            au_used_model_tokens = au_used_model_tokens a,
            au_used_cost_micro_usd = au_used_cost_micro_usd a\<rparr>)"

definition rework_team ::
  "env \<Rightarrow> string \<Rightarrow> team_snapshot \<Rightarrow> team_task_graph \<Rightarrow> execution_authority \<Rightarrow> contract_audit \<Rightarrow> team result" where
  "rework_team e team_id cur graph authority aud =
     (let t = sn_team cur
      in create (team_cls e) aud
           \<lparr>object_id = [], object_sha256 = [], audit = no_audit, tm_team_id = team_id,
            tm_team_incarnation_id = tm_team_incarnation_id t, tm_team_version = tm_team_version t + 1,
            tm_goal_ref = tm_goal_ref t, tm_composition_ref = tm_composition_ref t,
            tm_roster_ref = roster_ref_of (sn_roster cur), tm_task_graph_ref = graph_ref_of graph,
            tm_authority_ref = authority_ref_of authority,
            tm_coordinator_member_id = tm_coordinator_member_id t, tm_lifecycle = TL_ACTIVE\<rparr>)"

fun rework_events ::
  "env \<Rightarrow> (nat \<Rightarrow> int) \<Rightarrow> nat \<Rightarrow> team_snapshot \<Rightarrow> string \<Rightarrow> task_work list \<Rightarrow> string list \<Rightarrow> contract_audit \<Rightarrow>
   string list \<Rightarrow> db \<Rightarrow> db result" where
  "rework_events e clk n sn team_id works task_ids aud [] d = Inr d"
| "rework_events e clk n sn team_id works task_ids aud (i # rest) d =
     (case find_work works i of
        None \<Rightarrow> Inl StopIteration
      | Some w \<Rightarrow>
          rbind (make_event e sn (tw_task w) (tw_event_version w + 1) (tw_attempt w) RETRY_SCHEDULED
                   (rework_status works task_ids (tw_task w)) aud None None None None None (clk n)) (\<lambda>ev.
          rbind (append_task_event team_id (tw_task w) ev d) (\<lambda>d1.
          rework_events e clk (Suc n) sn team_id works task_ids aud rest d1)))"

definition rework_fresh ::
  "env \<Rightarrow> (nat \<Rightarrow> int) \<Rightarrow> string \<Rightarrow> object_ref \<Rightarrow> object_ref \<Rightarrow> object_ref \<Rightarrow> string list \<Rightarrow> contract_audit \<Rightarrow>
   string \<Rightarrow> string \<Rightarrow> db \<Rightarrow> (db \<times> team_snapshot) result" where
  "rework_fresh e clk team_id team_ref graph_ref authority_ref task_ids aud key hash d =
     rbind (snapshot e d team_id) (\<lambda>cur.
     if team_ref_of (sn_team cur) \<noteq> team_ref \<or> graph_ref_of (sn_graph cur) \<noteq> graph_ref \<or>
        authority_ref_of (sn_authority cur) \<noteq> authority_ref
     then Inl (TeamConcurrencyError ''rework Team authority is stale'')
     else
       rbind (work_items e d cur) (\<lambda>works.
       if task_ids = [] \<or> \<not> set task_ids \<subseteq> set (map tk_task_id (gr_tasks (sn_graph cur)))
       then Inl (TeamTaskStateError ''rework task inventory is invalid'')
       else if \<not> list_all (reworkable works) task_ids
       then Inl (TeamTaskStateError ''rework task is not terminal/retryable'')
       else
         rbind (rework_graph e team_id cur aud) (\<lambda>graph.
         rbind (rework_authority e team_id cur graph aud) (\<lambda>authority.
         rbind (rework_team e team_id cur graph authority aud) (\<lambda>team.
         (let succ = \<lparr>sn_team = team, sn_roster = sn_roster cur, sn_graph = graph, sn_authority = authority\<rparr>
          in rbind (insert_successor team_id (object_id (sn_roster cur)) succ d) (\<lambda>d1.
             rbind (inject_fault e ''revise_for_rework.after_records'') (\<lambda>_.
             (let d2 = move_team_graph team_id (object_id team) (object_id graph) (object_id authority) d1
              in rbind (inject_fault e ''revise_for_rework.after_head'') (\<lambda>_.
                 rbind (rework_events e clk 2 succ team_id works task_ids aud task_ids d2) (\<lambda>d3.
                 rbind (inject_fault e ''revise_for_rework.after_events'') (\<lambda>_.
                 rbind (finish_successor e ''revise_for_rework'' succ (rework_scope team_id) key hash
                          (clk 0) (clk 1) d3) (\<lambda>d4.
                 Inr (d4, succ))))))))))))))"

definition revise_for_rework ::
  "env \<Rightarrow> (nat \<Rightarrow> int) \<Rightarrow> string \<Rightarrow> object_ref \<Rightarrow> object_ref \<Rightarrow> object_ref \<Rightarrow> string list \<Rightarrow> contract_audit \<Rightarrow>
   string \<Rightarrow> db \<Rightarrow> (db \<times> team_snapshot) result" where
  "revise_for_rework e clk team_id team_ref graph_ref authority_ref reset_task_ids aud key d =
     (let task_ids = sort (remdups reset_task_ids);
          hash = request_sha256 e (ReworkRequest team_id team_ref graph_ref authority_ref task_ids)
      in rbind (replay d (rework_scope team_id) key hash) (\<lambda>seen.
         case seen of
           Some response \<Rightarrow>
             rbind (replay_team e d ''rework replay type drifted'' ''rework response Team is missing''
                      response) (\<lambda>old. Inr (d, old))
         | None \<Rightarrow> rework_fresh e clk team_id team_ref graph_ref authority_ref task_ids aud key hash d))"

end
