(* ===== verification/Task_Invariant.thy ===== *)
theory Task_Invariant
  imports Store_Tasks
begin

text \<open>
  The invariant of the task tables: every task's event log replays, its head cache points at the last
  event, attempts count claims, fences count leases and the live lease holds the newest fence, and no
  event is newer than the current graph. Every task-lifecycle operation keeps it.
\<close>

section \<open>The invariant\<close>

definition event_row_ok :: "event_row \<Rightarrow> bool" where
  "event_row_ok r \<longleftrightarrow>
     er_object_id r = object_id (er_record r) \<and> er_version r = ev_task_event_version (er_record r) \<and>
     er_graph_revision r = ev_graph_revision (er_record r) \<and> er_kind r = ev_event_kind (er_record r) \<and>
     validate_task_event (er_record r)"

definition task_history :: "db \<Rightarrow> string \<Rightarrow> string \<Rightarrow> task_event list" where
  "task_history d team_id task_id = map er_record (task_log d team_id task_id)"

fun attempts_from :: "int \<Rightarrow> task_event list \<Rightarrow> bool" where
  "attempts_from n [] = True"
| "attempts_from n (ev # evs) =
     (let m = (if ev_event_kind ev = EK_CLAIMED then n + 1 else n)
      in ev_attempt ev = m \<and> attempts_from m evs)"

definition claims_in :: "task_event list \<Rightarrow> int" where
  "claims_in evs = int (length (filter (\<lambda>ev. ev_event_kind ev = EK_CLAIMED) evs))"

definition log_inv :: "db \<Rightarrow> bool" where
  "log_inv d \<longleftrightarrow>
     distinct (map er_object_id (task_events d)) \<and> (\<forall>r\<in>set (task_events d). event_row_ok r) \<and>
     (\<forall>team_id task_id. log_ok (task_history d team_id task_id) \<and>
        attempts_from 0 (task_history d team_id task_id))"

definition head_inv :: "db \<Rightarrow> bool" where
  "head_inv d \<longleftrightarrow>
     (\<forall>team_id task_id.
        case task_head d team_id task_id of
          None \<Rightarrow> task_log d team_id task_id = []
        | Some h \<Rightarrow>
            task_log d team_id task_id \<noteq> [] \<and>
            xh_event_id h = er_object_id (last (task_log d team_id task_id)) \<and>
            xh_task_ref h = ref_id (ev_task_ref (last (task_history d team_id task_id))))"

definition lease_rows_ok :: "lease_row list \<Rightarrow> bool" where
  "lease_rows_ok rows \<longleftrightarrow>
     map lr_fence rows = [1..int (length rows)] \<and>
     (\<forall>r\<in>set rows. lr_object_id r = object_id (lr_record r) \<and> lr_fence r = le_fencing_token (lr_record r))"

definition holds_newest_fence :: "task_event list \<Rightarrow> lease_row list \<Rightarrow> bool" where
  "holds_newest_fence evs rows \<longleftrightarrow>
     (evs \<noteq> [] \<and> ev_status_after (last evs) = ACTIVE \<longrightarrow>
      ev_fencing_token (last evs) = Some (int (length rows)))"

definition lease_inv :: "db \<Rightarrow> bool" where
  "lease_inv d \<longleftrightarrow>
     (\<forall>team_id task_id.
        lease_rows_ok (task_lease_rows d team_id task_id) \<and>
        holds_newest_fence (task_history d team_id task_id) (task_lease_rows d team_id task_id))"

definition current_graph :: "db \<Rightarrow> string \<Rightarrow> team_task_graph rev_row option" where
  "current_graph d team_id =
     Option.bind (find (\<lambda>h. th_team_id h = team_id) (team_heads d)) (\<lambda>h.
       find_rev (th_graph_id h) (graphs d))"

definition floor_inv :: "db \<Rightarrow> bool" where
  "floor_inv d \<longleftrightarrow>
     (\<forall>r\<in>set (task_events d). \<exists>g. current_graph d (er_team_id r) = Some g \<and>
        er_graph_revision r \<le> rv_revision g)"

definition team_keys_inv :: "db \<Rightarrow> bool" where
  "team_keys_inv d \<longleftrightarrow> distinct (map tr_object_id (teams d))"

definition task_inv :: "db \<Rightarrow> bool" where
  "task_inv d \<longleftrightarrow> log_inv d \<and> head_inv d \<and> lease_inv d \<and> floor_inv d \<and> team_keys_inv d"

section \<open>Attempts count claims\<close>

lemma attempts_from_snoc:
  "attempts_from n (evs @ [ev]) \<longleftrightarrow> attempts_from n evs \<and> ev_attempt ev = n + claims_in (evs @ [ev])"
  by (induction evs arbitrary: n) (auto simp: claims_in_def Let_def)

lemma claims_in_snoc:
  "claims_in (evs @ [ev]) = claims_in evs + (if ev_event_kind ev = EK_CLAIMED then 1 else 0)"
  by (simp add: claims_in_def)

lemma claims_in_append: "claims_in (evs @ fvs) = claims_in evs + claims_in fvs"
  by (simp add: claims_in_def)

lemma claims_in_Cons:
  "claims_in (ev # evs) = (if ev_event_kind ev = EK_CLAIMED then 1 else 0) + claims_in evs"
  by (simp add: claims_in_def)

lemma attempts_from_last:
  "attempts_from 0 evs \<Longrightarrow> evs \<noteq> [] \<Longrightarrow> ev_attempt (last evs) = claims_in evs"
  by (cases evs rule: rev_cases) (simp_all add: attempts_from_snoc)

section \<open>Reading a snapshot\<close>

lemma onlyD: "only err xs = Inr x \<Longrightarrow> xs = [x]"
  by (auto simp: only_def split: list.splits)

lemma only_filterD: "only err (filter P xs) = Inr x \<Longrightarrow> x \<in> set xs \<and> P x"
  by (drule onlyD) (metis filter_eq_ConsD in_set_conv_decomp)

lemma task_by_idD: "task_by_id sn i = Inr t \<Longrightarrow> t \<in> set (gr_tasks (sn_graph sn)) \<and> tk_task_id t = i"
  unfolding task_by_id_def by (drule only_filterD) simp

lemma task_by_refD: "task_by_ref sn r = Inr t \<Longrightarrow> t \<in> set (gr_tasks (sn_graph sn)) \<and> task_ref_of t = r"
  unfolding task_by_ref_def by (drule only_filterD) simp

lemma member_by_refD:
  "member_by_ref sn r = Inr m \<Longrightarrow> m \<in> set (ro_members (sn_roster sn)) \<and> member_ref_of m = r"
  unfolding member_by_ref_def by (drule only_filterD) simp

lemma join_head_SomeD:
  "join_head d team_id = Some (h, t, r, g, a) \<Longrightarrow>
     find (\<lambda>h. th_team_id h = team_id) (team_heads d) = Some h \<and>
     find (\<lambda>t. tr_object_id t = th_team_id_ref h) (teams d) = Some t \<and>
     find_rev (th_roster_id h) (rosters d) = Some r \<and> find_rev (th_graph_id h) (graphs d) = Some g \<and>
     find_rev (th_authority_id h) (authorities d) = Some a"
  by (auto simp: join_head_def bind_eq_Some_conv)

lemma parse_bundle_InrD:
  "parse_bundle e t r g a = Inr sn \<Longrightarrow>
     sn = \<lparr>sn_team = tr_record t, sn_roster = rv_record r, sn_graph = rv_record g, sn_authority = rv_record a\<rparr> \<and>
     validate_team (tr_record t) \<and> validate_roster (dg_member e) (rv_record r) \<and>
     validate_graph (dg_task e) (rv_record g) \<and> validates (authority_cls e) (rv_record a)"
  by (auto simp: parse_bundle_def parse_record_Inr_iff)

lemma snapshot_InrE:
  assumes "snapshot e d team_id = Inr sn"
  obtains h t r g a where "join_head d team_id = Some (h, t, r, g, a)"
    and "parse_bundle e t r g a = Inr sn" and "validate_bundle sn = Inr ()"
    and "tm_team_id (sn_team sn) = tr_team_id t" and "gr_revision (sn_graph sn) = rv_revision g"
    and "\<exists>l. latest_team d team_id = Some l \<and> tr_object_id l = th_team_id_ref h"
    and "object_id (sn_team sn) = th_team_id_ref h"
    and "tm_team_version (sn_team sn) = tr_version t"
  using assms unfolding snapshot_def
  by (auto split: option.splits prod.splits if_splits)

lemma distinct_key_eq: "distinct (map f xs) \<Longrightarrow> x \<in> set xs \<Longrightarrow> y \<in> set xs \<Longrightarrow> f x = f y \<Longrightarrow> x = y"
  by (auto simp: distinct_map dest: inj_onD)

lemma snapshot_team_id:
  assumes "snapshot e d team_id = Inr sn" and "team_keys_inv d"
  shows "tm_team_id (sn_team sn) = team_id"
  using assms(1)
proof (rule snapshot_InrE)
  fix h t r g a
  assume j: "join_head d team_id = Some (h, t, r, g, a)" and id: "tm_team_id (sn_team sn) = tr_team_id t"
    and "\<exists>l. latest_team d team_id = Some l \<and> tr_object_id l = th_team_id_ref h"
  then obtain l where l: "latest_team d team_id = Some l" "tr_object_id l = th_team_id_ref h"
    by blast
  have "t \<in> set (teams d)" "tr_object_id t = tr_object_id l"
    using join_head_SomeD [OF j] l(2) by (auto dest: find_SomeD)
  moreover have "l \<in> set (teams d)" "tr_team_id l = team_id"
    using latest_by_SomeD [OF l(1) [unfolded latest_team_def]] by auto
  ultimately show ?thesis
    using distinct_key_eq [of tr_object_id "teams d" t l] assms(2) id by (simp add: team_keys_inv_def)
qed

lemma snapshot_graph:
  assumes "snapshot e d team_id = Inr sn"
  shows "validate_graph (dg_task e) (sn_graph sn)"
    and "\<exists>g. current_graph d team_id = Some g \<and> gr_revision (sn_graph sn) = rv_revision g"
  using assms
  by (auto elim!: snapshot_InrE dest!: join_head_SomeD parse_bundle_InrD simp: current_graph_def)

lemma graph_tasks_distinct: "validate_graph dgt g \<Longrightarrow> distinct (map tk_task_id (gr_tasks g))"
  by (simp add: validate_graph_def require_sorted_unique_iff)

section \<open>Reading a work item\<close>

lemma load_InrD:
  "load cls name key rec rows i = Inr v \<Longrightarrow>
     \<exists>r\<in>set rows. key r = i \<and> v = rec r \<and> validate_derived_identity cls v \<and> validates cls v"
  by (auto simp: load_def parse_record_Inr_iff split: option.splits dest: find_SomeD)

lemma event_work_sel [simp]:
  "tw_task (event_work task ev claim lease) = task"
  "tw_status (event_work task ev claim lease) = ev_status_after ev"
  "tw_attempt (event_work task ev claim lease) = ev_attempt ev"
  "tw_event_version (event_work task ev claim lease) = ev_task_event_version ev"
  "tw_claim (event_work task ev claim lease) = claim"
  "tw_lease (event_work task ev claim lease) = lease"
  "tw_fencing_token (event_work task ev claim lease) = ev_fencing_token ev"
  "tw_effective_expires_at (event_work task ev claim lease) = ev_effective_expires_at ev"
  "tw_latest_event (event_work task ev claim lease) = Some ev"
  by (simp_all add: event_work_def)

lemma eventless_work_sel [simp]:
  "tw_task (eventless_work sn task) = task" "tw_attempt (eventless_work sn task) = 0"
  "tw_event_version (eventless_work sn task) = 0" "tw_claim (eventless_work sn task) = None"
  "tw_lease (eventless_work sn task) = None" "tw_fencing_token (eventless_work sn task) = None"
  "tw_latest_event (eventless_work sn task) = None"
  by (simp_all add: eventless_work_def)

lemma eventless_status: "tw_status (eventless_work sn task) \<in> {PENDING, COMPLETED, FAILED, CANCELLED}"
  by (auto simp: eventless_work_def)

lemma claims_in_Nil [simp]: "claims_in [] = 0"
  by (simp add: claims_in_def)

lemma stored_work_InrE:
  assumes "stored_work e d sn task = Inr w"
  obtains (eventless) "task_head d (tm_team_id (sn_team sn)) (tk_task_id task) = None"
      "task_log d (tm_team_id (sn_team sn)) (tk_task_id task) = []" "w = eventless_work sn task"
  | (event) h l ev claim lease where
      "task_head d (tm_team_id (sn_team sn)) (tk_task_id task) = Some h"
      "latest_by er_version (task_log d (tm_team_id (sn_team sn)) (tk_task_id task)) = Some l"
      "xh_event_id h = er_object_id l" "xh_task_ref h = object_id task"
      "load_event e d (xh_event_id h) = Inr ev" "w = event_work task ev claim lease"
      "\<And>c. claim = Some c \<Longrightarrow> ev_claim_ref ev = Some (claim_ref_of c)"
      "\<And>l. lease = Some l \<Longrightarrow> ev_lease_ref ev = Some (lease_ref_of l) \<and>
         ev_fencing_token ev = Some (le_fencing_token l) \<and>
         load_lease e d (object_id l) = Inr l"
proof (cases "task_head d (tm_team_id (sn_team sn)) (tk_task_id task)")
  case None
  then show thesis
    using assms eventless by (auto simp: stored_work_def Let_def split: if_splits)
next
  case (Some h)
  obtain l where l: "latest_by er_version (task_log d (tm_team_id (sn_team sn)) (tk_task_id task)) = Some l"
    "xh_event_id h = er_object_id l" "xh_task_ref h = object_id task"
    using assms Some by (auto simp: stored_work_def Let_def split: option.splits if_splits)
  from assms Some l obtain ev claim lease where ev: "load_event e d (xh_event_id h) = Inr ev"
    and cl: "load_opt (load_claim e d) (ev_claim_ref ev) = Inr claim"
    and le: "load_opt (load_lease e d) (ev_lease_ref ev) = Inr lease"
    and dr: "\<not> drifted claim_ref_of (ev_claim_ref ev) claim" "\<not> drifted lease_ref_of (ev_lease_ref ev) lease"
    and fe: "\<not> (case lease of None \<Rightarrow> False
                   | Some l \<Rightarrow> (case claim of None \<Rightarrow> True | Some c \<Rightarrow> le_claim_ref l \<noteq> claim_ref_of c) \<or>
                               ev_fencing_token ev \<noteq> Some (le_fencing_token l))"
    and w: "w = event_work task ev claim lease"
    by (auto simp: stored_work_def Let_def split: if_splits)
  show thesis
  proof (rule event [OF Some l ev w])
    show "\<And>c. claim = Some c \<Longrightarrow> ev_claim_ref ev = Some (claim_ref_of c)"
      using cl dr(1) by (auto simp: load_opt_def drifted_def split: option.splits)
    show "\<And>l. lease = Some l \<Longrightarrow> ev_lease_ref ev = Some (lease_ref_of l) \<and>
         ev_fencing_token ev = Some (le_fencing_token l) \<and> load_lease e d (object_id l) = Inr l"
      using le dr(2) fe by (auto simp: load_opt_def drifted_def split: option.splits)
  qed
qed

lemma task_log_sub: "set (task_log d team_id task_id) \<subseteq> set (task_events d)"
  by (auto simp: task_log_def)

lemma stored_work_event:
  assumes "stored_work e d sn task = Inr w" and "log_inv d" and "head_inv d"
  defines "L \<equiv> task_log d (tm_team_id (sn_team sn)) (tk_task_id task)"
  shows "tw_task w = task"
    and "L = [] \<Longrightarrow> w = eventless_work sn task"
    and "L \<noteq> [] \<Longrightarrow> \<exists>claim lease. w = event_work task (er_record (last L)) claim lease \<and>
           ref_id (ev_task_ref (er_record (last L))) = object_id task \<and>
           (\<forall>l. lease = Some l \<longrightarrow> ev_fencing_token (er_record (last L)) = Some (le_fencing_token l))"
proof -
  show "tw_task w = task"
    using assms(1) by (rule stored_work_InrE) auto
  show "L = [] \<Longrightarrow> w = eventless_work sn task"
    using assms(1) by (rule stored_work_InrE) (auto simp: L_def)
  assume ne: "L \<noteq> []"
  from assms(1) show "\<exists>claim lease. w = event_work task (er_record (last L)) claim lease \<and>
           ref_id (ev_task_ref (er_record (last L))) = object_id task \<and>
           (\<forall>l. lease = Some l \<longrightarrow> ev_fencing_token (er_record (last L)) = Some (le_fencing_token l))"
  proof (cases rule: stored_work_InrE)
    case eventless
    then show ?thesis using ne by (simp add: L_def)
  next
    case (event h l ev claim lease)
    have hd: "xh_event_id h = er_object_id (last L)" "xh_task_ref h = ref_id (ev_task_ref (last (map er_record L)))"
      using assms(3) event(1) unfolding head_inv_def L_def task_history_def by (auto split: option.splits)
    obtain r where r: "r \<in> set (task_events d)" "er_object_id r = xh_event_id h" "ev = er_record r"
      using load_InrD [OF event(5) [unfolded load_event_def]] by blast
    have "last L \<in> set (task_events d)"
      using ne task_log_sub last_in_set unfolding L_def by blast
    then have "r = last L"
      using distinct_key_eq [of er_object_id "task_events d" r "last L"] r hd(1) assms(2)
      by (simp add: log_inv_def)
    then have "ev = er_record (last L)" using r by simp
    then show ?thesis
      using event hd(2) ne by (auto simp: last_map)
  qed
qed

lemma work_one_InrE:
  assumes "work_one e d sn task_id = Inr w"
  obtains task w0 works where "task \<in> set (gr_tasks (sn_graph sn))" and "stored_work e d sn task = Inr w0"
    and "w = w0\<lparr>tw_status := ready_status works w0\<rparr>" and "tk_task_id (tw_task w0) = task_id"
    and "rmap (stored_work e d sn) (gr_tasks (sn_graph sn)) = Inr works"
proof -
  from assms obtain works where ws: "rmap (stored_work e d sn) (gr_tasks (sn_graph sn)) = Inr works"
    and f: "find (\<lambda>w. tk_task_id (tw_task w) = task_id)
              (map (\<lambda>w. w\<lparr>tw_status := ready_status works w\<rparr>) works) = Some w"
    by (auto simp: work_one_def work_items_def split: option.splits)
  from find_SomeD [OF f] obtain w0 where w0: "w0 \<in> set works" "w = w0\<lparr>tw_status := ready_status works w0\<rparr>"
    "tk_task_id (tw_task w0) = task_id"
    by auto
  from rmap_in [OF ws w0(1)] obtain task
    where "task \<in> set (gr_tasks (sn_graph sn))" "stored_work e d sn task = Inr w0"
    by blast
  then show thesis using that w0 ws by blast
qed

text \<open>What the work item of a task says about its history.\<close>

lemma work_one_spec:
  assumes w: "work_one e d sn task_id = Inr w" and sn: "snapshot e d team_id = Inr sn" and inv: "task_inv d"
  defines "H \<equiv> task_history d team_id task_id"
  shows "tw_task w \<in> set (gr_tasks (sn_graph sn))" and "tk_task_id (tw_task w) = task_id"
    and "tw_attempt w = claims_in H" and "tw_event_version w = int (length H)"
    and "tw_latest_event w = (if H = [] then None else Some (last H))"
    and "H \<noteq> [] \<Longrightarrow> ref_id (ev_task_ref (last H)) = object_id (tw_task w)"
    and "tw_status w = READY \<Longrightarrow> fst (log_cursor H) \<in> {PENDING, READY}"
    and "tw_status w \<in> {CLAIMED, ACTIVE} \<Longrightarrow> H \<noteq> [] \<and> ev_status_after (last H) = tw_status w"
    and "H \<noteq> [] \<Longrightarrow> tw_fencing_token w = ev_fencing_token (last H)"
proof -
  obtain task w0 works where t: "task \<in> set (gr_tasks (sn_graph sn))" "stored_work e d sn task = Inr w0"
    and weq: "w = w0\<lparr>tw_status := ready_status works w0\<rparr>" and id: "tk_task_id (tw_task w0) = task_id"
    using w by (rule work_one_InrE)
  have inv': "log_inv d" "head_inv d" "team_keys_inv d" using inv by (simp_all add: task_inv_def)
  note ev = stored_work_event [OF t(2) inv'(1,2)]
  have tid: "tk_task_id task = task_id" using ev(1) id by simp
  have team: "tm_team_id (sn_team sn) = team_id" by (rule snapshot_team_id [OF sn inv'(3)])
  note evs = ev(2,3) [unfolded tid team]
  have ok: "log_ok H" "attempts_from 0 H" using inv'(1) by (simp_all add: log_inv_def H_def)
  have rs: "ready_status works w0 = READY \<Longrightarrow> tw_status w0 \<in> {PENDING, READY}"
      "ready_status works w0 \<in> {CLAIMED, ACTIVE} \<Longrightarrow> ready_status works w0 = tw_status w0"
    by (auto simp: ready_status_def split: if_splits)
  have cases: "(H = [] \<and> w0 = eventless_work sn task) \<or>
      (\<exists>claim lease. H \<noteq> [] \<and> w0 = event_work task (last H) claim lease \<and>
         ref_id (ev_task_ref (last H)) = object_id task)"
    using evs by (cases "task_log d team_id task_id = []") (auto simp: H_def task_history_def last_map)
  show "tw_task w \<in> set (gr_tasks (sn_graph sn))" "tk_task_id (tw_task w) = task_id"
    using t weq id ev(1) by simp_all
  show "tw_attempt w = claims_in H" "tw_event_version w = int (length H)"
      "tw_latest_event w = (if H = [] then None else Some (last H))"
    using cases attempts_from_last [OF ok(2)] log_ok_last_version [OF ok(1)] unfolding weq by auto
  show "H \<noteq> [] \<Longrightarrow> ref_id (ev_task_ref (last H)) = object_id (tw_task w)"
      "H \<noteq> [] \<Longrightarrow> tw_fencing_token w = ev_fencing_token (last H)"
    using cases unfolding weq by auto
  show "tw_status w = READY \<Longrightarrow> fst (log_cursor H) \<in> {PENDING, READY}"
    using cases rs cursor_after_last [of H] unfolding weq by auto
  show "tw_status w \<in> {CLAIMED, ACTIVE} \<Longrightarrow> H \<noteq> [] \<and> ev_status_after (last H) = tw_status w"
    using cases rs eventless_status [of sn task] unfolding weq by auto
qed

section \<open>Appending events\<close>

text \<open>An event a task's history may be extended with, and a run of them.\<close>

definition next_event_ok :: "task_event list \<Rightarrow> task_event \<Rightarrow> bool" where
  "next_event_ok evs ev \<longleftrightarrow>
     validate_task_event ev \<and>
     (evs \<noteq> [] \<longrightarrow> ref_id (ev_task_ref ev) = ref_id (ev_task_ref (last evs))) \<and>
     ev_task_event_version ev = int (length evs) + 1 \<and>
     lifecycle_step (log_cursor evs) (ev_event_kind ev) (ev_status_after ev, ev_graph_revision ev) \<and>
     ev_attempt ev = claims_in (evs @ [ev])"

fun extends_ok :: "task_event list \<Rightarrow> task_event list \<Rightarrow> bool" where
  "extends_ok evs [] = True"
| "extends_ok evs (new # news) = (next_event_ok evs new \<and> extends_ok (evs @ [new]) news)"

lemma extends_ok_log:
  "extends_ok evs news \<Longrightarrow> log_ok evs \<Longrightarrow> attempts_from 0 evs \<Longrightarrow>
     log_ok (evs @ news) \<and> attempts_from 0 (evs @ news) \<and> (\<forall>ev\<in>set news. validate_task_event ev)"
proof (induction evs news rule: extends_ok.induct)
  case (1 evs)
  then show ?case by simp
next
  case (2 evs new news)
  then have "log_ok (evs @ [new])" "attempts_from 0 (evs @ [new])" "validate_task_event new"
    by (simp_all add: next_event_ok_def log_ok_snoc attempts_from_snoc)
  with 2 show ?case by simp
qed

text \<open>
  A task step: what a lifecycle operation does to the task tables. It appends a run of events to one
  task, moves the task head to the last of them and may add one lease row.
\<close>

definition task_step ::
  "db \<Rightarrow> string \<Rightarrow> team_task \<Rightarrow> task_event list \<Rightarrow> lease_row option \<Rightarrow> db \<Rightarrow> bool" where
  "task_step d team_id task evs lease d' \<longleftrightarrow>
     evs \<noteq> [] \<and>
     task_events d' = task_events d @ map (event_row_of team_id (tk_task_id task)) evs \<and>
     task_heads d' = upsert (\<lambda>x. (xh_team_id x, xh_task_id x))
       \<lparr>xh_team_id = team_id, xh_task_id = tk_task_id task, xh_task_ref = object_id task,
        xh_event_id = object_id (last evs)\<rparr> (task_heads d) \<and>
     task_leases d' = task_leases d @ opt_list lease \<and>
     distinct (map er_object_id (task_events d')) \<and>
     extends_ok (task_history d team_id (tk_task_id task)) evs \<and>
     ev_task_ref (last evs) = task_ref_of task \<and>
     (\<forall>ev\<in>set evs. \<exists>g. current_graph d team_id = Some g \<and> ev_graph_revision ev \<le> rv_revision g) \<and>
     (case lease of None \<Rightarrow> True
      | Some r \<Rightarrow> lr_team_id r = team_id \<and> lr_task_id r = tk_task_id task \<and>
                  lr_fence r = int (length (task_lease_rows d team_id (tk_task_id task))) + 1 \<and>
                  lr_object_id r = object_id (lr_record r) \<and> lr_fence r = le_fencing_token (lr_record r)) \<and>
     (ev_status_after (last evs) = ACTIVE \<longrightarrow>
        ev_fencing_token (last evs) =
          Some (int (length (task_lease_rows d team_id (tk_task_id task)) + length (opt_list lease)))) \<and>
     team_heads d' = team_heads d \<and> graphs d' = graphs d \<and> teams d' = teams d"

lemma event_row_of_sel [simp]:
  "er_object_id (event_row_of team_id k ev) = object_id ev" "er_team_id (event_row_of team_id k ev) = team_id"
  "er_task_id (event_row_of team_id k ev) = k" "er_record (event_row_of team_id k ev) = ev"
  "er_version (event_row_of team_id k ev) = ev_task_event_version ev"
  "er_graph_revision (event_row_of team_id k ev) = ev_graph_revision ev"
  "er_kind (event_row_of team_id k ev) = ev_event_kind ev"
  by (simp_all add: event_row_of_def)

lemma task_step_log:
  assumes "task_step d team_id task evs lease d'"
  shows "task_log d' T K = task_log d T K @
           (if T = team_id \<and> K = tk_task_id task then map (event_row_of T K) evs else [])"
    and "task_history d' T K = task_history d T K @
           (if T = team_id \<and> K = tk_task_id task then evs else [])"
  using assms by (auto simp: task_step_def task_log_def task_history_def filter_map comp_def)

lemma task_step_leases:
  assumes "task_step d team_id task evs lease d'"
  shows "task_lease_rows d' T K = task_lease_rows d T K @
           (if T = team_id \<and> K = tk_task_id task then opt_list lease else [])"
  using assms by (cases lease) (auto simp: task_step_def task_lease_rows_def opt_list_def)

lemma task_step_head:
  assumes "task_step d team_id task evs lease d'"
  shows "task_head d' T K =
           (if T = team_id \<and> K = tk_task_id task
            then Some \<lparr>xh_team_id = team_id, xh_task_id = tk_task_id task, xh_task_ref = object_id task,
                       xh_event_id = object_id (last evs)\<rparr>
            else task_head d T K)"
proof -
  have th: "task_head x T K = find (\<lambda>h. (xh_team_id h, xh_task_id h) = (T, K)) (task_heads x)" for x
    by (simp add: task_head_def)
  have hs: "task_heads d' = upsert (\<lambda>x. (xh_team_id x, xh_task_id x))
       \<lparr>xh_team_id = team_id, xh_task_id = tk_task_id task, xh_task_ref = object_id task,
        xh_event_id = object_id (last evs)\<rparr> (task_heads d)"
    using assms unfolding task_step_def by blast
  show ?thesis unfolding th hs upsert_find by auto
qed

lemma task_step_log_inv:
  assumes s: "task_step d team_id task evs lease d'" and inv: "log_inv d"
  shows "log_inv d'"
proof -
  have ext: "extends_ok (task_history d team_id (tk_task_id task)) evs"
    and rows: "task_events d' = task_events d @ map (event_row_of team_id (tk_task_id task)) evs"
    and dis: "distinct (map er_object_id (task_events d'))"
    using s unfolding task_step_def by blast+
  have old: "log_ok (task_history d T K)" "attempts_from 0 (task_history d T K)" for T K
    using inv by (simp_all add: log_inv_def)
  note new = extends_ok_log [OF ext old]
  have "\<forall>r\<in>set (task_events d'). event_row_ok r"
    using inv new by (auto simp: log_inv_def rows event_row_ok_def)
  moreover have "log_ok (task_history d' T K) \<and> attempts_from 0 (task_history d' T K)" for T K
    using old new by (simp add: task_step_log(2) [OF s])
  ultimately show ?thesis using dis by (simp add: log_inv_def)
qed

lemma task_step_head_inv:
  assumes s: "task_step d team_id task evs lease d'" and inv: "head_inv d"
  shows "head_inv d'"
  unfolding head_inv_def
proof (intro allI)
  fix T K
  have evs: "evs \<noteq> []" "ev_task_ref (last evs) = task_ref_of task" using s by (simp_all add: task_step_def)
  show "case task_head d' T K of None \<Rightarrow> task_log d' T K = []
        | Some h \<Rightarrow> task_log d' T K \<noteq> [] \<and> xh_event_id h = er_object_id (last (task_log d' T K)) \<and>
            xh_task_ref h = ref_id (ev_task_ref (last (task_history d' T K)))"
  proof (cases "T = team_id \<and> K = tk_task_id task")
    case True
    then show ?thesis
      using evs by (simp add: task_step_head [OF s] task_step_log [OF s] last_map)
  next
    case False
    then have "task_head d' T K = task_head d T K" "task_log d' T K = task_log d T K"
      "task_history d' T K = task_history d T K"
      unfolding task_step_head [OF s] task_step_log [OF s] by auto
    with inv show ?thesis unfolding head_inv_def by (simp only:)
  qed
qed

lemma task_step_lease_inv:
  assumes s: "task_step d team_id task evs lease d'" and inv: "lease_inv d"
  shows "lease_inv d'"
  unfolding lease_inv_def
proof (intro allI)
  fix T K
  let ?rows = "task_lease_rows d team_id (tk_task_id task)"
  have old: "lease_rows_ok (task_lease_rows d T K)"
    "holds_newest_fence (task_history d T K) (task_lease_rows d T K)" for T K
    using inv by (auto simp: lease_inv_def)
  have "lease_rows_ok (?rows @ opt_list lease)"
    using s old(1) [of team_id "tk_task_id task"] upto_snoc [of "length ?rows"]
    by (cases lease) (auto simp: task_step_def lease_rows_ok_def opt_list_def simp del: upto.simps)
  moreover have "holds_newest_fence (task_history d team_id (tk_task_id task) @ evs) (?rows @ opt_list lease)"
    using s by (auto simp: task_step_def holds_newest_fence_def)
  ultimately show "lease_rows_ok (task_lease_rows d' T K) \<and>
      holds_newest_fence (task_history d' T K) (task_lease_rows d' T K)"
    using old by (simp add: task_step_log(2) [OF s] task_step_leases [OF s])
qed

lemma task_step_inv:
  assumes s: "task_step d team_id task evs lease d'" and inv: "task_inv d"
  shows "task_inv d'"
proof -
  have cg: "current_graph d' = current_graph d" and tk: "team_keys_inv d' = team_keys_inv d"
    using s by (auto simp: task_step_def current_graph_def team_keys_inv_def)
  have "floor_inv d'"
    using s inv cg by (auto simp: task_step_def task_inv_def floor_inv_def)
  then show ?thesis
    using task_step_log_inv [OF s] task_step_head_inv [OF s] task_step_lease_inv [OF s] inv tk
    by (simp add: task_inv_def)
qed

end
