(* ===== verification/Task_Operations.thy ===== *)
theory Task_Operations
  imports Task_Invariant
begin

text \<open>
  Each task-lifecycle operation of the store that goes past the idempotency check performs one task
  step, and so keeps the task invariant; what the step is says what the operation is for.
\<close>

section \<open>Effects of the shared steps\<close>

lemma make_event_Inr:
  "make_event e sn task v att k st aud claim lease ex cr rs now = Inr ev \<Longrightarrow>
     validate_task_event ev \<and> ev_task_ref ev = task_ref_of task \<and>
     ev_graph_revision ev = gr_revision (sn_graph sn) \<and> ev_task_event_version ev = v \<and>
     ev_attempt ev = max 1 att \<and> ev_event_kind ev = k \<and> ev_status_after ev = st \<and>
     ev_claim_ref ev = map_option claim_ref_of claim \<and> ev_lease_ref ev = map_option lease_ref_of lease \<and>
     ev_fencing_token ev = map_option le_fencing_token lease \<and> ev_effective_expires_at ev = ex \<and>
     ev_capability_result_ref ev = map_option snd cr \<and> ev_reason_code ev = rs \<and>
     ev_team_ref ev = team_ref_of (sn_team sn)"
  by (auto simp: make_event_def event.create_Inr_iff)

lemma append_outbox_effect:
  assumes "append_outbox e sn kind r now d = Inr (d', rec)"
  obtains row where "d' = d\<lparr>outbox_rows := outbox_rows d @ [row]\<rparr>"
    and "ox_team_id row = tm_team_id (sn_team sn)"
    and "ox_sequence row = coalesce_max (map ox_sequence (team_outbox d (tm_team_id (sn_team sn)))) + 1"
    and "ox_record row = rec" and "ox_object_id row = object_id rec"
    and "ob_event_kind rec = kind" and "ob_record_ref rec = r"
    and "ob_sequence rec = ox_sequence row" and "ox_kind row = kind"
proof -
  let ?seq = "coalesce_max (map ox_sequence (team_outbox d (tm_team_id (sn_team sn)))) + 1"
  define row where "row = \<lparr>ox_object_id = object_id rec, ox_team_id = ob_team_id rec,
      ox_sequence = ob_sequence rec, ox_kind = ob_event_kind rec, ox_record = rec\<rparr>"
  have ins: "insert_outbox row d = Inr d'"
    using assms by (auto simp: append_outbox_def Let_def row_def)
  have "ob_team_id rec = tm_team_id (sn_team sn)" "ob_sequence rec = ?seq" "ob_event_kind rec = kind"
      "ob_record_ref rec = r"
    using assms by (auto simp: append_outbox_def Let_def create_outbox_def outbox.create_Inr_iff)
  then show thesis
    by (intro that [of row]) (use insert_shape(23) [OF ins] in \<open>simp_all add: row_def\<close>)
qed

lemma remember_effect:
  assumes "remember scope key hash rtype rid now d = Inr d'"
  shows "d' = d\<lparr>idempotency := idempotency d @
           [\<lparr>ik_scope = scope, ik_operation_key = key, ik_request_hash = hash, ik_response_type = rtype,
             ik_response_id = rid, ik_created_at = now\<rparr>]\<rparr>"
    and "replay_row d scope key = None"
  using assms
  by (auto simp: remember_def insert_idempotency_def insert_row_Inr_iff replay_row_def find_None_iff)

lemma insert_event_effect:
  "insert_event team_id k ev d = Inr d' \<longleftrightarrow>
     d' = d\<lparr>task_events := task_events d @ [event_row_of team_id k ev]\<rparr> \<and>
     (\<forall>x\<in>set (task_events d). \<not> event_clash (event_row_of team_id k ev) x)"
  by (auto simp: insert_event_def insert_task_event_def insert_row_Inr_iff rbind_Inr_iff)

lemma append_task_event_effect:
  "append_task_event team_id task ev d = Inr d' \<Longrightarrow>
     d' = d\<lparr>task_events := task_events d @ [event_row_of team_id (tk_task_id task) ev],
            task_heads := upsert (\<lambda>x. (xh_team_id x, xh_task_id x))
              \<lparr>xh_team_id = team_id, xh_task_id = tk_task_id task, xh_task_ref = object_id task,
               xh_event_id = object_id ev\<rparr> (task_heads d)\<rparr> \<and>
     (\<forall>x\<in>set (task_events d). \<not> event_clash (event_row_of team_id (tk_task_id task) ev) x)"
  by (auto simp: append_task_event_def insert_event_effect dest!: insert_shape)

lemma finish_task_event_effect:
  assumes "finish_task_event e oper sn team_id task ev scope key hash rtype rid t1 t2 d = Inr d'"
  obtains row ik where
    "d' = d\<lparr>task_events := task_events d @ [event_row_of team_id (tk_task_id task) ev],
            task_heads := upsert (\<lambda>x. (xh_team_id x, xh_task_id x))
              \<lparr>xh_team_id = team_id, xh_task_id = tk_task_id task, xh_task_ref = object_id task,
               xh_event_id = object_id ev\<rparr> (task_heads d),
            outbox_rows := outbox_rows d @ [row], idempotency := idempotency d @ [ik]\<rparr>"
    and "\<forall>x\<in>set (task_events d). \<not> event_clash (event_row_of team_id (tk_task_id task) ev) x"
    and "ox_team_id row = tm_team_id (sn_team sn)"
    and "ox_sequence row = coalesce_max (map ox_sequence (team_outbox d (tm_team_id (sn_team sn)))) + 1"
    and "ik = \<lparr>ik_scope = scope, ik_operation_key = key, ik_request_hash = hash, ik_response_type = rtype,
               ik_response_id = rid, ik_created_at = t2\<rparr>"
    and "replay_row d scope key = None"
proof -
  from assms obtain d1 d2 rec where 1: "append_task_event team_id task ev d = Inr d1"
    and 2: "append_outbox e sn TEAM_CHANGED (team_ref_of (sn_team sn)) t1 d1 = Inr (d2, rec)"
    and 3: "remember scope key hash rtype rid t2 d2 = Inr d'"
    by (auto simp: finish_task_event_def)
  obtain row where o: "d2 = d1\<lparr>outbox_rows := outbox_rows d1 @ [row]\<rparr>"
    "ox_team_id row = tm_team_id (sn_team sn)"
    "ox_sequence row = coalesce_max (map ox_sequence (team_outbox d1 (tm_team_id (sn_team sn)))) + 1"
    using 2 by (rule append_outbox_effect)
  note a = append_task_event_effect [OF 1]
  show thesis
    by (rule that) (use a o remember_effect [OF 3] in \<open>auto simp: team_outbox_def replay_row_def\<close>)
qed

section \<open>Building a task step\<close>

lemma distinct_event_ids:
  "distinct (map er_object_id (task_events d)) \<Longrightarrow>
   \<forall>x\<in>set (task_events d). \<not> event_clash r x \<Longrightarrow>
   distinct (map er_object_id (task_events d @ [r]))"
  by (auto simp: event_clash_def)

lemma snapshot_task_unique:
  assumes "snapshot e d team_id = Inr sn" and "t \<in> set (gr_tasks (sn_graph sn))"
    and "u \<in> set (gr_tasks (sn_graph sn))" and "tk_task_id t = tk_task_id u"
  shows "t = u"
  using distinct_key_eq [OF graph_tasks_distinct [OF snapshot_graph(1) [OF assms(1)]]] assms(2-) by blast

lemma cursor_graph_le:
  assumes inv: "task_inv d" and sn: "snapshot e d team_id = Inr sn"
  shows "snd (log_cursor (task_history d team_id k)) \<le> gr_revision (sn_graph sn)"
proof (cases "task_log d team_id k = []")
  case True
  have "validate_graph (dg_task e) (sn_graph sn)" by (rule snapshot_graph [OF sn])
  then show ?thesis using True by (simp add: task_history_def validate_graph_def in_range_def)
next
  case False
  define r where "r = last (task_log d team_id k)"
  have mem: "r \<in> set (task_log d team_id k)" using False by (simp add: r_def)
  then have r: "r \<in> set (task_events d)" "er_team_id r = team_id" by (auto simp: task_log_def)
  then have "event_row_ok r" "\<exists>g. current_graph d team_id = Some g \<and> er_graph_revision r \<le> rv_revision g"
    using inv by (auto simp: task_inv_def log_inv_def floor_inv_def)
  moreover have "log_cursor (task_history d team_id k) = (ev_status_after (er_record r), ev_graph_revision (er_record r))"
    using False by (simp add: cursor_after_last task_history_def r_def last_map)
  ultimately show ?thesis using snapshot_graph(2) [OF sn] by (auto simp: event_row_ok_def)
qed

text \<open>
  A made event continues the history its work item was read from, when the task was in a status the
  event's kind may leave and the attempt is the work item's, or one more for a claim.
\<close>

lemma made_event_continues:
  assumes inv: "task_inv d" and sn: "snapshot e d team_id = Inr sn"
    and w: "work_one e d sn (tk_task_id task) = Inr w" and t: "task \<in> set (gr_tasks (sn_graph sn))"
    and ev: "make_event e sn task (tw_event_version w + 1) att k st aud claim lease ex cr rs now = Inr ev"
    and from_ok: "fst (log_cursor (task_history d team_id (tk_task_id task))) \<in> allowed_from k"
    and kind: "k \<noteq> RETRY_SCHEDULED"
    and att: "att = tw_attempt w + (if k = EK_CLAIMED then 1 else 0)"
    and pos: "1 \<le> att"
  shows "next_event_ok (task_history d team_id (tk_task_id task)) ev"
proof -
  note spec = work_one_spec [OF w sn inv]
  note m = make_event_Inr [OF ev]
  have task: "tw_task w = task"
    using spec(1,2) snapshot_task_unique [OF sn] t by blast
  have "lifecycle_step (log_cursor (task_history d team_id (tk_task_id task))) k (st, gr_revision (sn_graph sn))"
    by (rule lifecycle_stepI [OF from_ok kind cursor_graph_le [OF inv sn]])
  then show ?thesis
    using m spec(3,4,6) task att pos
    by (auto simp: next_event_ok_def claims_in_snoc max_def)
qed

lemma graph_floor:
  assumes "snapshot e d team_id = Inr sn" and "ev_graph_revision ev = gr_revision (sn_graph sn)"
  shows "\<exists>g. current_graph d team_id = Some g \<and> ev_graph_revision ev \<le> rv_revision g"
  using snapshot_graph(2) [OF assms(1)] assms(2) by auto

lemma work_attempt_pos:
  assumes "work_one e d sn task_id = Inr w" and "snapshot e d team_id = Inr sn" and "task_inv d"
    and H: "task_history d team_id task_id \<noteq> []"
  shows "1 \<le> tw_attempt w"
proof -
  have "event_row_ok r" if "r \<in> set (task_log d team_id task_id)" for r
    using assms(3) that by (auto simp: task_inv_def log_inv_def task_log_def)
  then have "validate_task_event (last (task_history d team_id task_id))"
    using H by (simp add: task_history_def last_map event_row_ok_def)
  moreover have "ev_attempt (last (task_history d team_id task_id)) = tw_attempt w"
    using attempts_from_last [OF _ H] work_one_spec(3) [OF assms(1-3)] assms(3)
    by (simp add: task_inv_def log_inv_def)
  ultimately show ?thesis by (simp add: validate_task_event_def in_range_def)
qed

text \<open>The common tail turns the events an operation made into one task step.\<close>

lemma finish_task_step:
  assumes inv: "task_inv d" and sn: "snapshot e d team_id = Inr sn"
    and fin: "finish_task_event e oper sn team_id task ev scope key hash rtype rid t1 t2 d1 = Inr d'"
    and d1: "task_events d1 = task_events d @ map (event_row_of team_id (tk_task_id task)) pre"
      "task_heads d1 = task_heads d" "task_leases d1 = task_leases d @ opt_list lease"
      "team_heads d1 = team_heads d" "graphs d1 = graphs d" "teams d1 = teams d"
    and dis: "distinct (map er_object_id (task_events d1))"
    and ext: "extends_ok (task_history d team_id (tk_task_id task)) (pre @ [ev])"
    and tr: "ev_task_ref ev = task_ref_of task"
    and gr: "\<forall>x\<in>set (pre @ [ev]). ev_graph_revision x = gr_revision (sn_graph sn)"
    and le: "case lease of None \<Rightarrow> True
      | Some r \<Rightarrow> lr_team_id r = team_id \<and> lr_task_id r = tk_task_id task \<and>
                  lr_fence r = int (length (task_lease_rows d team_id (tk_task_id task))) + 1 \<and>
                  lr_object_id r = object_id (lr_record r) \<and> lr_fence r = le_fencing_token (lr_record r)"
    and tok: "ev_status_after ev = ACTIVE \<Longrightarrow> ev_fencing_token ev =
          Some (int (length (task_lease_rows d team_id (tk_task_id task)) + length (opt_list lease)))"
  shows "task_step d team_id task (pre @ [ev]) lease d'"
proof -
  obtain row ik where d': "d' = d1\<lparr>task_events := task_events d1 @ [event_row_of team_id (tk_task_id task) ev],
            task_heads := upsert (\<lambda>x. (xh_team_id x, xh_task_id x))
              \<lparr>xh_team_id = team_id, xh_task_id = tk_task_id task, xh_task_ref = object_id task,
               xh_event_id = object_id ev\<rparr> (task_heads d1),
            outbox_rows := outbox_rows d1 @ [row], idempotency := idempotency d1 @ [ik]\<rparr>"
    and cl: "\<forall>x\<in>set (task_events d1). \<not> event_clash (event_row_of team_id (tk_task_id task) ev) x"
    using fin by (rule finish_task_event_effect)
  have evs: "task_events d' = task_events d1 @ [event_row_of team_id (tk_task_id task) ev]" by (simp add: d')
  have "distinct (map er_object_id (task_events d'))"
    unfolding evs by (rule distinct_event_ids [OF dis cl])
  moreover have "\<forall>x\<in>set (pre @ [ev]). \<exists>g. current_graph d team_id = Some g \<and> ev_graph_revision x \<le> rv_revision g"
    using graph_floor [OF sn] gr by blast
  ultimately show ?thesis
    unfolding task_step_def using ext tr le tok d1 by (auto simp: d')
qed

section \<open>Claiming\<close>

lemma claim_fresh_InrE:
  assumes "claim_fresh e clk team_id team_ref graph_ref authority_ref task_ref member_ref aud key hash d
             = Inr (d', claim)"
  obtains sn task member work d1 ev where
    "snapshot e d team_id = Inr sn" "team_ref_of (sn_team sn) = team_ref"
    "task_by_ref sn task_ref = Inr task" "member_by_ref sn member_ref = Inr member"
    "work_one e d sn (tk_task_id task) = Inr work"
    "tk_assigned_member_id task = Some (mb_member_id member)" "tw_status work = READY"
    "tw_attempt work + 1 \<le> tk_max_attempts task"
    "d1 = d\<lparr>task_claims := task_claims d @
        [\<lparr>kr_object_id = object_id claim, kr_team_id = team_id, kr_task_id = tk_task_id task,
          kr_attempt = tw_attempt work + 1, kr_record = claim\<rparr>]\<rparr>"
    "make_event e sn task (tw_event_version work + 1) (tw_attempt work + 1) EK_CLAIMED CLAIMED
        aud (Some claim) None None None None (clk 1) = Inr ev"
    "finish_task_event e ''claim_task'' sn team_id task ev (claim_scope team_id (ref_id task_ref))
        key hash ''CLAIM'' (object_id claim) (clk 2) (clk 3) d1 = Inr d'"
    "cl_team_ref claim = team_ref" "cl_task_ref claim = task_ref" "cl_member_ref claim = member_ref"
proof -
  from assms obtain sn task member work d1 ev where *:
    "require_refs e d team_id team_ref graph_ref authority_ref = Inr sn"
    "task_by_ref sn task_ref = Inr task" "member_by_ref sn member_ref = Inr member"
    "work_one e d sn (tk_task_id task) = Inr work"
    "tk_assigned_member_id task = Some (mb_member_id member)" "tw_status work = READY"
    "tw_attempt work + 1 \<le> tk_max_attempts task"
    and cl: "create (claim_cls e) aud
                \<lparr>object_id = [], object_sha256 = [], audit = no_audit,
                 cl_claim_id = claim_id_for team_id (tk_task_id task) (tw_attempt work + 1),
                 cl_team_ref = team_ref, cl_task_ref = task_ref, cl_member_ref = member_ref,
                 cl_graph_revision = gr_revision (sn_graph sn), cl_claimed_at = clk 0\<rparr> = Inr claim"
    and ins: "insert_claim
                \<lparr>kr_object_id = object_id claim, kr_team_id = team_id, kr_task_id = tk_task_id task,
                 kr_attempt = tw_attempt work + 1, kr_record = claim\<rparr> d = Inr d1"
    and ev: "make_event e sn task (tw_event_version work + 1) (tw_attempt work + 1) EK_CLAIMED CLAIMED
        aud (Some claim) None None None None (clk 1) = Inr ev"
    and fin: "finish_task_event e ''claim_task'' sn team_id task ev (claim_scope team_id (ref_id task_ref))
        key hash ''CLAIM'' (object_id claim) (clk 2) (clk 3) d1 = Inr d'"
    unfolding claim_fresh_def by (auto split: if_splits)
  have sn: "snapshot e d team_id = Inr sn" "team_ref_of (sn_team sn) = team_ref"
    using *(1) by (auto simp: require_refs_def split: if_splits)
  have c: "cl_team_ref claim = team_ref" "cl_task_ref claim = task_ref" "cl_member_ref claim = member_ref"
    using cl by (auto simp: claim.create_Inr_iff)
  show thesis by (rule that [OF sn *(2-) insert_shape(6) [OF ins] ev fin c])
qed

lemma claim_fresh_step:
  assumes ok: "claim_fresh e clk team_id team_ref graph_ref authority_ref task_ref member_ref aud key hash d
             = Inr (d', claim)" and inv: "task_inv d"
  obtains sn task ev where "snapshot e d team_id = Inr sn" "task_ref_of task = task_ref"
    "task \<in> set (gr_tasks (sn_graph sn))" "task_step d team_id task [ev] None d'"
    "ev_event_kind ev = EK_CLAIMED" "ev_claim_ref ev = Some (claim_ref_of claim)"
    "claims_in (task_history d' team_id (tk_task_id task)) \<le> tk_max_attempts task"
  using ok
proof (rule claim_fresh_InrE)
  fix sn task member work d1 ev
  assume sn: "snapshot e d team_id = Inr sn" and t: "task_by_ref sn task_ref = Inr task"
    and w: "work_one e d sn (tk_task_id task) = Inr work" and rdy: "tw_status work = READY"
    and att: "tw_attempt work + 1 \<le> tk_max_attempts task"
    and d1: "d1 = d\<lparr>task_claims := task_claims d @
        [\<lparr>kr_object_id = object_id claim, kr_team_id = team_id, kr_task_id = tk_task_id task,
          kr_attempt = tw_attempt work + 1, kr_record = claim\<rparr>]\<rparr>"
    and ev: "make_event e sn task (tw_event_version work + 1) (tw_attempt work + 1) EK_CLAIMED CLAIMED
        aud (Some claim) None None None None (clk 1) = Inr ev"
    and fin: "finish_task_event e ''claim_task'' sn team_id task ev (claim_scope team_id (ref_id task_ref))
        key hash ''CLAIM'' (object_id claim) (clk 2) (clk 3) d1 = Inr d'"
  note mem = task_by_refD [OF t] and spec = work_one_spec [OF w sn inv] and m = make_event_Inr [OF ev]
  have pos: "1 \<le> tw_attempt work + 1" using spec(3) by (simp add: claims_in_def)
  have nxt: "next_event_ok (task_history d team_id (tk_task_id task)) ev"
    by (rule made_event_continues [OF inv sn w _ ev]) (use mem spec(7) rdy pos in auto)
  have dis: "distinct (map er_object_id (task_events d1))" using inv by (simp add: task_inv_def log_inv_def d1)
  have st: "task_step d team_id task ([] @ [ev]) None d'"
    by (rule finish_task_step [OF inv sn fin]) (use nxt m dis in \<open>simp_all add: d1 opt_list_def\<close>)
  show thesis
    by (rule that [OF sn _ _ st [unfolded append_Nil]])
       (use mem m nxt att spec(3) task_step_log(2) [OF st] in \<open>simp_all add: claims_in_snoc\<close>)
qed

section \<open>Acquiring a lease\<close>

lemma next_fence_eq:
  assumes "lease_inv d"
  shows "next_fence d team_id task_id = int (length (task_lease_rows d team_id task_id)) + 1"
  using assms by (simp add: next_fence_def lease_inv_def lease_rows_ok_def coalesce_max_upto)

lemma lease_fresh_InrE:
  assumes "lease_fresh e clk team_id task_id claim_ref duration aud key hash d = Inr (d', lease)"
  obtains claim sn work d1 task ev where
    "load_claim e d (ref_id claim_ref) = Inr claim" "claim_ref_of claim = claim_ref"
    "snapshot e d team_id = Inr sn" "work_one e d sn task_id = Inr work"
    "cl_team_ref claim = team_ref_of (sn_team sn)" "tw_status work = CLAIMED" "tw_claim work = Some claim"
    "d1 = d\<lparr>task_leases := task_leases d @
        [\<lparr>lr_object_id = object_id lease, lr_team_id = team_id, lr_task_id = task_id,
          lr_attempt = tw_attempt work, lr_fence = next_fence d team_id task_id, lr_record = lease\<rparr>]\<rparr>"
    "task_by_id sn task_id = Inr task"
    "make_event e sn task (tw_event_version work + 1) (tw_attempt work) LEASE_ACQUIRED ACTIVE aud
        (Some claim) (Some lease) (Some (le_expires_at lease)) None None (clk 1) = Inr ev"
    "finish_task_event e ''acquire_lease'' sn team_id task ev (lease_scope team_id task_id)
        key hash ''LEASE'' (object_id lease) (clk 2) (clk 3) d1 = Inr d'"
    "le_fencing_token lease = next_fence d team_id task_id" "le_claim_ref lease = claim_ref"
    "le_expires_at lease = clk 0 + microseconds duration"
proof -
  from assms obtain claim sn work d1 task ev where
    *: "load_claim e d (ref_id claim_ref) = Inr claim" "claim_ref_of claim = claim_ref"
    "snapshot e d team_id = Inr sn" "work_one e d sn task_id = Inr work"
    "cl_team_ref claim = team_ref_of (sn_team sn)" "tw_status work = CLAIMED" "tw_claim work = Some claim"
    and le: "create (lease_cls e) aud
                  \<lparr>object_id = [], object_sha256 = [], audit = no_audit,
                   le_lease_id = lease_id_for team_id task_id (next_fence d team_id task_id),
                   le_claim_ref = claim_ref, le_fencing_token = next_fence d team_id task_id,
                   le_acquired_at = clk 0, le_expires_at = clk 0 + microseconds duration\<rparr> = Inr lease"
    and ins: "insert_lease
                  \<lparr>lr_object_id = object_id lease, lr_team_id = team_id, lr_task_id = task_id,
                   lr_attempt = tw_attempt work, lr_fence = next_fence d team_id task_id,
                   lr_record = lease\<rparr> d = Inr d1"
    and tail: "task_by_id sn task_id = Inr task"
    "make_event e sn task (tw_event_version work + 1) (tw_attempt work) LEASE_ACQUIRED ACTIVE aud
        (Some claim) (Some lease) (Some (le_expires_at lease)) None None (clk 1) = Inr ev"
    "finish_task_event e ''acquire_lease'' sn team_id task ev (lease_scope team_id task_id)
        key hash ''LEASE'' (object_id lease) (clk 2) (clk 3) d1 = Inr d'"
    unfolding lease_fresh_def by (auto split: if_splits)
  have l: "le_fencing_token lease = next_fence d team_id task_id" "le_claim_ref lease = claim_ref"
    "le_expires_at lease = clk 0 + microseconds duration"
    using le by (auto simp: lease.create_Inr_iff)
  show thesis by (rule that [OF * insert_shape(7) [OF ins] tail l])
qed

lemma lease_fresh_step:
  assumes ok: "lease_fresh e clk team_id task_id claim_ref duration aud key hash d = Inr (d', lease)"
    and inv: "task_inv d"
  obtains sn task ev row where "snapshot e d team_id = Inr sn" "task_by_id sn task_id = Inr task"
    "task_step d team_id task [ev] (Some row) d'" "lr_record row = lease"
    "ev_event_kind ev = LEASE_ACQUIRED" "ev_status_after ev = ACTIVE"
    "le_fencing_token lease = int (length (task_lease_rows d team_id task_id)) + 1"
    "ev_lease_ref ev = Some (lease_ref_of lease)" "ev_fencing_token ev = Some (le_fencing_token lease)"
  using ok
proof (rule lease_fresh_InrE)
  fix claim sn work d1 task ev
  assume sn: "snapshot e d team_id = Inr sn" and w: "work_one e d sn task_id = Inr work"
    and st: "tw_status work = CLAIMED"
    and d1: "d1 = d\<lparr>task_leases := task_leases d @
        [\<lparr>lr_object_id = object_id lease, lr_team_id = team_id, lr_task_id = task_id,
          lr_attempt = tw_attempt work, lr_fence = next_fence d team_id task_id, lr_record = lease\<rparr>]\<rparr>"
    and t: "task_by_id sn task_id = Inr task"
    and ev: "make_event e sn task (tw_event_version work + 1) (tw_attempt work) LEASE_ACQUIRED ACTIVE aud
        (Some claim) (Some lease) (Some (le_expires_at lease)) None None (clk 1) = Inr ev"
    and fin: "finish_task_event e ''acquire_lease'' sn team_id task ev (lease_scope team_id task_id)
        key hash ''LEASE'' (object_id lease) (clk 2) (clk 3) d1 = Inr d'"
    and fence: "le_fencing_token lease = next_fence d team_id task_id"
  note mem = task_by_idD [OF t] and spec = work_one_spec [OF w sn inv] and m = make_event_Inr [OF ev]
  have H: "task_history d team_id task_id \<noteq> []" "ev_status_after (last (task_history d team_id task_id)) = CLAIMED"
    using spec(8) st by auto
  have pos: "1 \<le> tw_attempt work"
    using work_attempt_pos [OF w sn inv H(1)] .
  have nxt: "next_event_ok (task_history d team_id (tk_task_id task)) ev"
    by (rule made_event_continues [OF inv sn _ _ ev])
       (use w mem H pos cursor_after_last [OF H(1)] in auto)
  have inv': "lease_inv d" "distinct (map er_object_id (task_events d))"
    using inv by (simp_all add: task_inv_def log_inv_def)
  have nf: "next_fence d team_id task_id = int (length (task_lease_rows d team_id task_id)) + 1"
    by (rule next_fence_eq [OF inv'(1)])
  let ?row = "\<lparr>lr_object_id = object_id lease, lr_team_id = team_id, lr_task_id = task_id,
          lr_attempt = tw_attempt work, lr_fence = next_fence d team_id task_id, lr_record = lease\<rparr>"
  have stp: "task_step d team_id task ([] @ [ev]) (Some ?row) d'"
    by (rule finish_task_step [OF inv sn fin])
       (use nxt m inv' fence nf mem in \<open>simp_all add: d1 opt_list_def\<close>)
  show thesis
    by (rule that [OF sn t stp [unfolded append_Nil]]) (use m fence nf in simp_all)
qed

section \<open>Operations under a lease\<close>

lemma active_lease_InrE:
  assumes "active_lease e d team_id task_id lease fence a b c now = Inr (sn, task, work)"
  shows "snapshot e d team_id = Inr sn" and "task_by_id sn task_id = Inr task"
    and "work_one e d sn task_id = Inr work" and "tw_status work = ACTIVE"
    and "tw_lease work = Some lease" and "tw_fencing_token work = Some fence"
    and "\<not> c \<Longrightarrow> latest_kind work \<noteq> Some CANCEL_REQUESTED"
    and "\<not> a \<Longrightarrow> \<not> b \<Longrightarrow> tw_effective_expires_at work = Some x \<Longrightarrow> now < x"
  using assms by (auto simp: active_lease_def split: if_splits option.splits)

lemma active_lease_newest_fence:
  assumes "active_lease e d team_id task_id lease fence a b c now = Inr (sn, task, work)" and "task_inv d"
  shows "fence = int (length (task_lease_rows d team_id task_id))"
proof -
  note al = active_lease_InrE [OF assms(1)]
  note spec = work_one_spec [OF al(3,1) assms(2)]
  have "holds_newest_fence (task_history d team_id task_id) (task_lease_rows d team_id task_id)"
    using assms(2) by (simp add: task_inv_def lease_inv_def)
  then show ?thesis using spec(8,9) al(4,6) by (simp add: holds_newest_fence_def)
qed

lemma work_lease_fence:
  assumes "work_one e d sn task_id = Inr w" and "tw_lease w = Some lease"
  shows "tw_fencing_token w = Some (le_fencing_token lease)"
  using assms(1)
proof (rule work_one_InrE)
  fix task w0 works
  assume "stored_work e d sn task = Inr w0" and eq: "w = w0\<lparr>tw_status := ready_status works w0\<rparr>"
  then show ?thesis using assms(2) by (cases rule: stored_work_InrE) auto
qed

text \<open>Retry or exhaustion right after an event that left the task BLOCKED or FAILED.\<close>

lemma retry_or_exhaust_continues:
  assumes "retry_or_exhaust e sn task v att aud claim lease ex rs now = Inr ev"
    and "next_event_ok evs prior" and "v = ev_task_event_version prior + 1" and "att = ev_attempt prior"
    and "1 \<le> att" and "ev_status_after prior \<in> {BLOCKED, FAILED}" and "ev_event_kind prior \<noteq> EK_CLAIMED"
    and "ev_task_ref prior = task_ref_of task" and "ev_graph_revision prior = gr_revision (sn_graph sn)"
  shows "next_event_ok (evs @ [prior]) ev" and "ev_task_ref ev = task_ref_of task"
    and "ev_graph_revision ev = gr_revision (sn_graph sn)" and "ev_status_after ev \<in> {READY, FAILED}"
proof -
  from assms(1) obtain k st claim' lease' ex' rs' where
    ev: "make_event e sn task v att k st aud claim' lease' ex' None rs' now = Inr ev"
    and k: "(k = RETRY_SCHEDULED \<and> st = READY) \<or> (k = EXHAUSTED \<and> st = FAILED)"
    by (auto simp: retry_or_exhaust_def split: if_splits)
  note m = make_event_Inr [OF ev]
  show "ev_task_ref ev = task_ref_of task" "ev_graph_revision ev = gr_revision (sn_graph sn)"
      "ev_status_after ev \<in> {READY, FAILED}"
    using m k by auto
  show "next_event_ok (evs @ [prior]) ev"
    using m k assms(2-)
    by (auto simp: next_event_ok_def claims_in_append claims_in_Cons lifecycle_step_char)
qed

text \<open>
  What one lease operation appends: a single event for a heartbeat, a cancellation request or its
  acknowledgement, and EXPIRED followed by a retry or exhaustion for an expiry.
\<close>

lemma lease_step_extends:
  assumes inv: "task_inv d" and sn: "snapshot e d team_id = Inr sn" and t: "task_by_id sn task_id = Inr task"
    and w: "work_one e d sn task_id = Inr work" and act: "tw_status work = ACTIVE"
    and ok: "lease_step e clk oper ext sn team_id task work claim lease expires aud d = Inr (d1, ev)"
  obtains pre where
    "d1 = d\<lparr>task_events := task_events d @ map (event_row_of team_id (tk_task_id task)) pre\<rparr>"
    "distinct (map er_object_id (task_events d1))"
    "extends_ok (task_history d team_id (tk_task_id task)) (pre @ [ev])"
    "ev_task_ref ev = task_ref_of task"
    "\<forall>x\<in>set (pre @ [ev]). ev_graph_revision x = gr_revision (sn_graph sn)"
    "ev_status_after ev = ACTIVE \<longrightarrow> ev_fencing_token ev = Some (le_fencing_token lease)"
    "pre = [] \<longleftrightarrow> oper \<noteq> OP_EXPIRE"
proof -
  note mem = task_by_idD [OF t] and spec = work_one_spec [OF w sn inv]
  have H: "task_history d team_id task_id \<noteq> []" "ev_status_after (last (task_history d team_id task_id)) = ACTIVE"
    using spec(8) act by auto
  have pos: "1 \<le> tw_attempt work" by (rule work_attempt_pos [OF w sn inv H(1)])
  have dis: "distinct (map er_object_id (task_events d))" using inv by (simp add: task_inv_def log_inv_def)
  have cont: "next_event_ok (task_history d team_id (tk_task_id task)) x"
    if "make_event e sn task (tw_event_version work + 1) (tw_attempt work) k st aud c l x' cr rs now = Inr x"
      "k \<in> {HEARTBEAT, EXPIRED, CANCEL_REQUESTED, EK_CANCELLED}" for x k st c l x' cr rs now
    by (rule made_event_continues [OF inv sn _ _ that(1)])
       (use w mem H pos that(2) cursor_after_last [OF H(1)] in auto)
  show thesis
  proof (cases "oper = OP_EXPIRE")
    case False
    then obtain k st ex rs where
      mk: "make_event e sn task (tw_event_version work + 1) (tw_attempt work) k st aud (Some claim) (Some lease)
        ex None rs (clk 2) = Inr ev" and k: "k \<in> {HEARTBEAT, EXPIRED, CANCEL_REQUESTED, EK_CANCELLED}"
      and d1: "d1 = d"
      using ok by (cases oper) (auto simp: lease_step_def Let_def split: if_splits)
    show thesis
      by (rule that [of "[]"]) (use cont [OF mk k] make_event_Inr [OF mk] d1 dis False in simp_all)
  next
    case True
    then obtain ex where
      mk: "make_event e sn task (tw_event_version work + 1) (tw_attempt work) EXPIRED BLOCKED aud (Some claim)
        (Some lease) (Some expires) None (Some ''LEASE_EXPIRED'') (clk 2) = Inr ex"
      and ins: "insert_event team_id (tk_task_id task) ex d = Inr d1"
      and re: "retry_or_exhaust e sn task (ev_task_event_version ex + 1) (tw_attempt work) aud claim lease
        (Some expires) (Some ''LEASE_EXPIRED'') (clk 3) = Inr ev"
      using ok by (auto simp: lease_step_def Let_def split: if_splits)
    note m = make_event_Inr [OF mk] and ie = ins [unfolded insert_event_effect]
    have ce: "next_event_ok (task_history d team_id (tk_task_id task)) ex" by (rule cont [OF mk]) simp
    note rc = retry_or_exhaust_continues [OF re ce]
    show thesis
    proof (rule that [of "[ex]"])
      show "distinct (map er_object_id (task_events d1))"
        using distinct_event_ids [OF dis, of "event_row_of team_id (tk_task_id task) ex"] ie by simp
    qed (use ie ce rc m pos True in auto)
  qed
qed

lemma lease_event_fresh_InrE:
  assumes "lease_event_fresh e clk oper ext team_id task_id lease fence aud key hash d = Inr (d', ev)"
  obtains sn task work claim expires d1 where
    "active_lease e d team_id task_id lease fence (oper = OP_EXPIRE) (oper = OP_CANCEL_ACK)
       (oper = OP_CANCEL_ACK) (clk 0) = Inr (sn, task, work)"
    "tw_claim work = Some claim" "tw_effective_expires_at work = Some expires"
    "lease_step e clk oper ext sn team_id task work claim lease expires aud d = Inr (d1, ev)"
    "finish_task_event e (operation_name oper) sn team_id task ev
       (lease_event_scope oper (object_id lease)) key hash ''TASK_EVENT'' (object_id ev)
       (clk 4) (clk 5) d1 = Inr d'"
  using assms by (auto simp: lease_event_fresh_def split: option.splits)

lemma lease_event_fresh_step:
  assumes ok: "lease_event_fresh e clk oper ext team_id task_id lease fence aud key hash d = Inr (d', ev)"
    and inv: "task_inv d"
  obtains sn task work pre where "snapshot e d team_id = Inr sn" "task_by_id sn task_id = Inr task"
    "work_one e d sn task_id = Inr work" "tw_status work = ACTIVE" "tw_lease work = Some lease"
    "task_step d team_id task (pre @ [ev]) None d'" "pre = [] \<longleftrightarrow> oper \<noteq> OP_EXPIRE"
    "fence = int (length (task_lease_rows d team_id task_id))" "fence = le_fencing_token lease"
  using ok
proof (rule lease_event_fresh_InrE)
  fix sn task work claim expires d1
  assume al: "active_lease e d team_id task_id lease fence (oper = OP_EXPIRE) (oper = OP_CANCEL_ACK)
       (oper = OP_CANCEL_ACK) (clk 0) = Inr (sn, task, work)"
    and ls: "lease_step e clk oper ext sn team_id task work claim lease expires aud d = Inr (d1, ev)"
    and fin: "finish_task_event e (operation_name oper) sn team_id task ev
       (lease_event_scope oper (object_id lease)) key hash ''TASK_EVENT'' (object_id ev)
       (clk 4) (clk 5) d1 = Inr d'"
  note a = active_lease_InrE(1-6) [OF al]
  have nf: "fence = int (length (task_lease_rows d team_id task_id))"
    by (rule active_lease_newest_fence [OF al inv])
  have lf: "fence = le_fencing_token lease"
    using work_lease_fence [OF a(3,5)] a(6) by simp
  show thesis
    using inv a(1,2,3,4) ls
  proof (rule lease_step_extends)
    fix pre
    assume d1: "d1 = d\<lparr>task_events := task_events d @ map (event_row_of team_id (tk_task_id task)) pre\<rparr>"
      and dis: "distinct (map er_object_id (task_events d1))"
      and ext: "extends_ok (task_history d team_id (tk_task_id task)) (pre @ [ev])"
      and tr: "ev_task_ref ev = task_ref_of task"
      and gr: "\<forall>x\<in>set (pre @ [ev]). ev_graph_revision x = gr_revision (sn_graph sn)"
      and tok: "ev_status_after ev = ACTIVE \<longrightarrow> ev_fencing_token ev = Some (le_fencing_token lease)"
      and pre: "pre = [] \<longleftrightarrow> oper \<noteq> OP_EXPIRE"
    have "task_step d team_id task (pre @ [ev]) None d'"
      by (rule finish_task_step [OF inv a(1) fin _ _ _ _ _ _ dis ext tr gr])
         (use d1 tok nf lf task_by_idD [OF a(2)] in \<open>simp_all add: opt_list_def\<close>)
    then show thesis by (rule that [OF a(1-5) _ pre nf lf])
  qed
qed

end
