(* ===== verification/Store_Frame.thy ===== *)
theory Store_Frame
  imports Store_Rework Task_Operations "HOL-Library.Sublist"
begin

text \<open>
  What every write of the store keeps: history tables only grow, the numbered tables (outbox, messages,
  artifact heads) stay numbered 1, 2, ... per Team, and the steps that are not task steps leave the task
  tables alone and never move the current graph to an older revision. Each relation is reflexive and transitive, so it is proved for
  the single inserts and composed along an operation.
\<close>

section \<open>Reading the Team\<close>

text \<open>The five tables a Team bundle is read from.\<close>

definition team_tables ::
  "db \<Rightarrow> team_head_row list \<times> team_row list \<times> team_roster rev_row list \<times> team_task_graph rev_row list \<times>
   execution_authority rev_row list" where
  "team_tables d = (team_heads d, teams d, rosters d, graphs d, authorities d)"

lemma snapshot_same_tables:
  assumes "team_tables d' = team_tables d"
  shows "snapshot e d' T = snapshot e d T" and "snapshot_at e d' r = snapshot_at e d r"
    and "team_id_of e d' r = team_id_of e d r"
proof -
  have t: "team_heads d' = team_heads d" "teams d' = teams d" "rosters d' = rosters d" "graphs d' = graphs d"
    "authorities d' = authorities d"
    using assms by (simp_all add: team_tables_def)
  have "join_head d' T = join_head d T" "latest_team d' T = latest_team d T"
    unfolding join_head_def latest_team_def t by (rule refl)+
  then show "snapshot e d' T = snapshot e d T" unfolding snapshot_def t by (simp only:)
  have "join_team d' i = join_team d i" for i unfolding join_team_def t by (rule refl)
  then show "snapshot_at e d' r = snapshot_at e d r" unfolding snapshot_at_def by (simp only:)
  show "team_id_of e d' r = team_id_of e d r" unfolding team_id_of_def t by (rule refl)
qed

section \<open>Append-only history\<close>

definition history_le :: "db \<Rightarrow> db \<Rightarrow> bool" where
  "history_le d d' \<longleftrightarrow>
     prefix (rosters d) (rosters d') \<and> prefix (graphs d) (graphs d') \<and>
     prefix (authorities d) (authorities d') \<and> prefix (teams d) (teams d') \<and>
     prefix (task_claims d) (task_claims d') \<and> prefix (task_leases d) (task_leases d') \<and>
     prefix (task_events d) (task_events d') \<and> prefix (capability_calls d) (capability_calls d') \<and>
     prefix (capability_results d) (capability_results d') \<and>
     prefix (completion_responses d) (completion_responses d') \<and>
     prefix (task_usage_events d) (task_usage_events d') \<and> prefix (envelopes d) (envelopes d') \<and>
     prefix (artifact_heads d) (artifact_heads d') \<and> prefix (messages d) (messages d') \<and>
     prefix (subscriptions d) (subscriptions d') \<and> prefix (conflicts d) (conflicts d') \<and>
     prefix (projections d) (projections d') \<and> prefix (checkpoints d) (checkpoints d') \<and>
     prefix (convergence d) (convergence d') \<and> prefix (outbox_rows d) (outbox_rows d') \<and>
     prefix (outbox_delivery d) (outbox_delivery d') \<and> prefix (idempotency d) (idempotency d')"

lemma history_le_refl [simp]: "history_le d d"
  by (simp add: history_le_def)

lemma history_le_trans: "history_le a b \<Longrightarrow> history_le b c \<Longrightarrow> history_le a c"
  unfolding history_le_def by (meson prefix_order.trans)

lemma history_insert:
  "insert_roster r1 d = Inr d' \<Longrightarrow> history_le d d'"
  "insert_graph r2 d = Inr d' \<Longrightarrow> history_le d d'"
  "insert_authority r3 d = Inr d' \<Longrightarrow> history_le d d'"
  "insert_team r4 d = Inr d' \<Longrightarrow> history_le d d'"
  "insert_team_head r5 d = Inr d' \<Longrightarrow> history_le d d'"
  "insert_claim r6 d = Inr d' \<Longrightarrow> history_le d d'"
  "insert_lease r7 d = Inr d' \<Longrightarrow> history_le d d'"
  "insert_task_event r8 d = Inr d' \<Longrightarrow> history_le d d'"
  "upsert_task_head r9 d = Inr d' \<Longrightarrow> history_le d d'"
  "insert_call r10 d = Inr d' \<Longrightarrow> history_le d d'"
  "insert_result r11 d = Inr d' \<Longrightarrow> history_le d d'"
  "insert_completion r12 d = Inr d' \<Longrightarrow> history_le d d'"
  "insert_usage r13 d = Inr d' \<Longrightarrow> history_le d d'"
  "insert_envelope r14 d = Inr d' \<Longrightarrow> history_le d d'"
  "insert_head r15 d = Inr d' \<Longrightarrow> history_le d d'"
  "insert_artifact_current r16 d = Inr d' \<Longrightarrow> history_le d d'"
  "upsert_artifact_current r16 d = Inr d' \<Longrightarrow> history_le d d'"
  "insert_message r17 d = Inr d' \<Longrightarrow> history_le d d'"
  "insert_subscription_row r18 d = Inr d' \<Longrightarrow> history_le d d'"
  "insert_subscription_current r16 d = Inr d' \<Longrightarrow> history_le d d'"
  "insert_conflict_row r19 d = Inr d' \<Longrightarrow> history_le d d'"
  "upsert_conflict_current r16 d = Inr d' \<Longrightarrow> history_le d d'"
  "insert_outbox r20 d = Inr d' \<Longrightarrow> history_le d d'"
  "insert_idempotency r21 d = Inr d' \<Longrightarrow> history_le d d'"
  "insert_projection_row r22 d = Inr d' \<Longrightarrow> history_le d d'"
  "upsert_projection_current r16 d = Inr d' \<Longrightarrow> history_le d d'"
  "insert_checkpoint r23 d = Inr d' \<Longrightarrow> history_le d d'"
  "upsert_checkpoint_current r24 d = Inr d' \<Longrightarrow> history_le d d'"
  "insert_convergence r25 d = Inr d' \<Longrightarrow> history_le d d'"
  by (drule insert_shape, simp add: history_le_def)+

lemma history_move:
  "history_le d (move_team_head T i j d)" "history_le d (move_subscription_current T i j d)"
  by (simp_all add: history_le_def move_team_head_def move_subscription_current_def)

section \<open>Numbered tables\<close>

definition numbered :: "int list \<Rightarrow> bool" where
  "numbered xs \<longleftrightarrow> xs = [1..int (length xs)]"

lemma numbered_Nil [simp]: "numbered []"
  by (simp add: numbered_def)

lemma numbered_snoc:
  assumes "numbered xs"
  shows "numbered (xs @ [coalesce_max xs + 1])"
proof -
  have "coalesce_max xs = int (length xs)"
    using coalesce_max_upto [of "length xs"] assms by (simp add: numbered_def)
  then show ?thesis using assms upto_snoc [of "length xs"] by (simp add: numbered_def)
qed

definition sequence_inv :: "db \<Rightarrow> bool" where
  "sequence_inv d \<longleftrightarrow>
     (\<forall>team_id. numbered (map ox_sequence (team_outbox d team_id)) \<and>
        numbered (map mr_sequence (team_message_rows d team_id)) \<and>
        numbered (map hr_sequence (team_head_rows d team_id)))"

definition sequence_frame :: "db \<Rightarrow> db \<Rightarrow> bool" where
  "sequence_frame d d' \<longleftrightarrow> (sequence_inv d \<longrightarrow> sequence_inv d')"

lemma sequence_frame_refl [simp]: "sequence_frame d d"
  by (simp add: sequence_frame_def)

lemma sequence_frame_trans: "sequence_frame a b \<Longrightarrow> sequence_frame b c \<Longrightarrow> sequence_frame a c"
  by (simp add: sequence_frame_def)

lemma sequence_frame_same:
  assumes "outbox_rows d' = outbox_rows d" and "messages d' = messages d"
    and "artifact_heads d' = artifact_heads d"
  shows "sequence_frame d d'"
  using assms
  by (simp add: sequence_frame_def sequence_inv_def team_outbox_def team_message_rows_def team_head_rows_def)

lemma sequence_insert:
  "insert_roster r1 d = Inr d' \<Longrightarrow> sequence_frame d d'"
  "insert_graph r2 d = Inr d' \<Longrightarrow> sequence_frame d d'"
  "insert_authority r3 d = Inr d' \<Longrightarrow> sequence_frame d d'"
  "insert_team r4 d = Inr d' \<Longrightarrow> sequence_frame d d'"
  "insert_team_head r5 d = Inr d' \<Longrightarrow> sequence_frame d d'"
  "insert_claim r6 d = Inr d' \<Longrightarrow> sequence_frame d d'"
  "insert_lease r7 d = Inr d' \<Longrightarrow> sequence_frame d d'"
  "insert_task_event r8 d = Inr d' \<Longrightarrow> sequence_frame d d'"
  "upsert_task_head r9 d = Inr d' \<Longrightarrow> sequence_frame d d'"
  "insert_call r10 d = Inr d' \<Longrightarrow> sequence_frame d d'"
  "insert_result r11 d = Inr d' \<Longrightarrow> sequence_frame d d'"
  "insert_completion r12 d = Inr d' \<Longrightarrow> sequence_frame d d'"
  "insert_usage r13 d = Inr d' \<Longrightarrow> sequence_frame d d'"
  "insert_envelope r14 d = Inr d' \<Longrightarrow> sequence_frame d d'"
  "insert_artifact_current r16 d = Inr d' \<Longrightarrow> sequence_frame d d'"
  "upsert_artifact_current r16 d = Inr d' \<Longrightarrow> sequence_frame d d'"
  "insert_subscription_row r18 d = Inr d' \<Longrightarrow> sequence_frame d d'"
  "insert_subscription_current r16 d = Inr d' \<Longrightarrow> sequence_frame d d'"
  "insert_conflict_row r19 d = Inr d' \<Longrightarrow> sequence_frame d d'"
  "upsert_conflict_current r16 d = Inr d' \<Longrightarrow> sequence_frame d d'"
  "insert_idempotency r21 d = Inr d' \<Longrightarrow> sequence_frame d d'"
  "insert_projection_row r22 d = Inr d' \<Longrightarrow> sequence_frame d d'"
  "upsert_projection_current r16 d = Inr d' \<Longrightarrow> sequence_frame d d'"
  "insert_checkpoint r23 d = Inr d' \<Longrightarrow> sequence_frame d d'"
  "upsert_checkpoint_current r24 d = Inr d' \<Longrightarrow> sequence_frame d d'"
  "insert_convergence r25 d = Inr d' \<Longrightarrow> sequence_frame d d'"
  by (drule insert_shape, rule sequence_frame_same; simp)+

lemma sequence_move:
  "sequence_frame d (move_team_head T i j d)" "sequence_frame d (move_subscription_current T i j d)"
  by (rule sequence_frame_same; simp add: move_team_head_def move_subscription_current_def)+

lemma sequence_insert_head:
  assumes "insert_head r d = Inr d'" and "hr_sequence r = next_head_sequence d (hr_team_id r)"
  shows "sequence_frame d d'"
  using insert_shape(15) [OF assms(1)] assms(2) numbered_snoc
  by (auto simp: sequence_frame_def sequence_inv_def team_outbox_def team_message_rows_def
      team_head_rows_def next_head_sequence_def)

lemma sequence_insert_message:
  assumes "insert_message r d = Inr d'"
    and "mr_sequence r = coalesce_max (map mr_sequence (team_message_rows d (mr_team_id r))) + 1"
  shows "sequence_frame d d'"
  using insert_shape(18) [OF assms(1)] assms(2) numbered_snoc
  by (auto simp: sequence_frame_def sequence_inv_def team_outbox_def team_message_rows_def team_head_rows_def)

section \<open>Frame of the task tables\<close>

definition task_frame :: "db \<Rightarrow> db \<Rightarrow> bool" where
  "task_frame d d' \<longleftrightarrow>
     task_events d' = task_events d \<and> task_heads d' = task_heads d \<and> task_leases d' = task_leases d \<and>
     (\<forall>team_id g. current_graph d team_id = Some g \<longrightarrow>
        (\<exists>g'. current_graph d' team_id = Some g' \<and> rv_revision g \<le> rv_revision g')) \<and>
     (team_keys_inv d \<longrightarrow> team_keys_inv d')"

lemma task_frame_refl [simp]: "task_frame d d"
  by (simp add: task_frame_def)

lemma task_frame_trans: "task_frame a b \<Longrightarrow> task_frame b c \<Longrightarrow> task_frame a c"
  unfolding task_frame_def by (metis order_trans)

lemma task_frame_floor:
  assumes "task_frame d d'" and "current_graph d T = Some g" and "i \<le> rv_revision g"
  shows "\<exists>g'. current_graph d' T = Some g' \<and> i \<le> rv_revision g'"
  using assms unfolding task_frame_def by (meson order_trans)

lemma task_frame_inv:
  assumes f: "task_frame d d'" and inv: "task_inv d"
  shows "task_inv d'"
proof -
  have h: "task_log d' T K = task_log d T K" "task_history d' T K = task_history d T K"
    "task_head d' T K = task_head d T K" "task_lease_rows d' T K = task_lease_rows d T K" for T K
    using f by (simp_all add: task_frame_def task_log_def task_history_def task_head_def task_lease_rows_def)
  have "floor_inv d'"
    unfolding floor_inv_def
  proof
    fix r assume "r \<in> set (task_events d')"
    then have "r \<in> set (task_events d)" using f by (simp add: task_frame_def)
    then obtain g where "current_graph d (er_team_id r) = Some g" "er_graph_revision r \<le> rv_revision g"
      using inv by (auto simp: task_inv_def floor_inv_def)
    then show "\<exists>g. current_graph d' (er_team_id r) = Some g \<and> er_graph_revision r \<le> rv_revision g"
      by (rule task_frame_floor [OF f])
  qed
  moreover have "log_inv d' = log_inv d" "lease_inv d' = lease_inv d"
    using f h by (simp_all add: log_inv_def lease_inv_def task_frame_def)
  moreover have "head_inv d' = head_inv d"
    unfolding head_inv_def h by (rule refl)
  ultimately show ?thesis using f inv by (simp add: task_inv_def task_frame_def)
qed

lemma find_append_Some: "find P xs = Some x \<Longrightarrow> find P (xs @ ys) = Some x"
  by (simp add: find_append)

lemma current_graph_append:
  assumes "current_graph d T = Some g" and "team_heads d' = team_heads d @ hs" and "graphs d' = graphs d @ gs"
  shows "current_graph d' T = Some g"
  using assms by (auto simp: current_graph_def find_rev_def bind_eq_Some_conv find_append_Some)

lemma task_frame_append:
  assumes "task_events d' = task_events d" "task_heads d' = task_heads d" "task_leases d' = task_leases d"
    and "team_heads d' = team_heads d @ hs" and "graphs d' = graphs d @ gs" and "teams d' = teams d"
  shows "task_frame d d'"
  using assms current_graph_append [OF _ assms(4,5)] by (auto simp: task_frame_def team_keys_inv_def)

lemma frame_insert:
  "insert_roster r1 d = Inr d' \<Longrightarrow> task_frame d d'"
  "insert_graph r2 d = Inr d' \<Longrightarrow> task_frame d d'"
  "insert_authority r3 d = Inr d' \<Longrightarrow> task_frame d d'"
  "insert_team_head r5 d = Inr d' \<Longrightarrow> task_frame d d'"
  "insert_claim r6 d = Inr d' \<Longrightarrow> task_frame d d'"
  "insert_call r10 d = Inr d' \<Longrightarrow> task_frame d d'"
  "insert_result r11 d = Inr d' \<Longrightarrow> task_frame d d'"
  "insert_completion r12 d = Inr d' \<Longrightarrow> task_frame d d'"
  "insert_usage r13 d = Inr d' \<Longrightarrow> task_frame d d'"
  "insert_envelope r14 d = Inr d' \<Longrightarrow> task_frame d d'"
  "insert_head r15 d = Inr d' \<Longrightarrow> task_frame d d'"
  "insert_artifact_current r16 d = Inr d' \<Longrightarrow> task_frame d d'"
  "upsert_artifact_current r16 d = Inr d' \<Longrightarrow> task_frame d d'"
  "insert_message r17 d = Inr d' \<Longrightarrow> task_frame d d'"
  "insert_subscription_row r18 d = Inr d' \<Longrightarrow> task_frame d d'"
  "insert_subscription_current r16 d = Inr d' \<Longrightarrow> task_frame d d'"
  "insert_conflict_row r19 d = Inr d' \<Longrightarrow> task_frame d d'"
  "upsert_conflict_current r16 d = Inr d' \<Longrightarrow> task_frame d d'"
  "insert_outbox r20 d = Inr d' \<Longrightarrow> task_frame d d'"
  "insert_idempotency r21 d = Inr d' \<Longrightarrow> task_frame d d'"
  "insert_projection_row r22 d = Inr d' \<Longrightarrow> task_frame d d'"
  "upsert_projection_current r16 d = Inr d' \<Longrightarrow> task_frame d d'"
  "insert_checkpoint r23 d = Inr d' \<Longrightarrow> task_frame d d'"
  "upsert_checkpoint_current r24 d = Inr d' \<Longrightarrow> task_frame d d'"
  "insert_convergence r25 d = Inr d' \<Longrightarrow> task_frame d d'"
  by (drule insert_shape, rule task_frame_append; simp)+

lemma frame_insert_team: "insert_team r4 d = Inr d' \<Longrightarrow> task_frame d d'"
  by (force simp: insert_team_def insert_row_Inr_iff task_frame_def current_graph_def team_keys_inv_def)

lemma find_map_key:
  "(\<And>x. P (f x) = P x) \<Longrightarrow> find P (map f xs) = map_option f (find P xs)"
  by (induction xs) auto

lemma frame_move:
  "task_frame d (move_team_head T i j d)" "task_frame d (move_subscription_current T i j d)"
proof -
  define f :: "team_head_row \<Rightarrow> team_head_row" where "f = (\<lambda>h. if th_team_id h = T then h\<lparr>th_team_id_ref := i, th_authority_id := j\<rparr> else h)"
  have f: "th_team_id (f h) = th_team_id h" "th_graph_id (f h) = th_graph_id h" for h
    by (simp_all add: f_def)
  have "find (\<lambda>h. th_team_id h = X) (map f hs) = map_option f (find (\<lambda>h. th_team_id h = X) hs)" for X hs
    by (rule find_map_key) (simp add: f)
  moreover have "move_team_head T i j d = d\<lparr>team_heads := map f (team_heads d)\<rparr>"
    by (simp add: move_team_head_def f_def)
  ultimately have "current_graph (move_team_head T i j d) X = current_graph d X" for X
    by (cases "find (\<lambda>h. th_team_id h = X) (team_heads d)") (simp_all add: current_graph_def f)
  then show "task_frame d (move_team_head T i j d)"
    by (simp add: task_frame_def move_team_head_def team_keys_inv_def)
  show "task_frame d (move_subscription_current T i j d)"
    by (rule task_frame_append) (simp_all add: move_subscription_current_def)
qed

section \<open>Quiet and growing steps\<close>

text \<open>
  A growing step keeps history and numbering; a quiet step also leaves the task tables alone.
\<close>

definition growing :: "db \<Rightarrow> db \<Rightarrow> bool" where
  "growing d d' \<longleftrightarrow> history_le d d' \<and> sequence_frame d d'"

definition quiet :: "db \<Rightarrow> db \<Rightarrow> bool" where
  "quiet d d' \<longleftrightarrow> growing d d' \<and> task_frame d d'"

lemma growing_refl [simp]: "growing d d"
  by (simp add: growing_def)

lemma growing_trans: "growing a b \<Longrightarrow> growing b c \<Longrightarrow> growing a c"
  unfolding growing_def using history_le_trans sequence_frame_trans by blast

lemma quiet_refl [simp]: "quiet d d"
  by (simp add: quiet_def)

lemma quiet_trans: "quiet a b \<Longrightarrow> quiet b c \<Longrightarrow> quiet a c"
  unfolding quiet_def using growing_trans task_frame_trans by blast

lemma quiet_growing: "quiet d d' \<Longrightarrow> growing d d'"
  by (simp add: quiet_def)

lemmas primitive_facts = history_insert sequence_insert frame_insert frame_insert_team

lemma growing_insert:
  "insert_lease r7 d = Inr d' \<Longrightarrow> growing d d'"
  "insert_task_event r8 d = Inr d' \<Longrightarrow> growing d d'"
  "upsert_task_head r9 d = Inr d' \<Longrightarrow> growing d d'"
  by (simp_all add: growing_def primitive_facts)

lemma quiet_insert:
  "insert_roster r1 d = Inr d' \<Longrightarrow> quiet d d'"
  "insert_graph r2 d = Inr d' \<Longrightarrow> quiet d d'"
  "insert_authority r3 d = Inr d' \<Longrightarrow> quiet d d'"
  "insert_team r4 d = Inr d' \<Longrightarrow> quiet d d'"
  "insert_team_head r5 d = Inr d' \<Longrightarrow> quiet d d'"
  "insert_claim r6 d = Inr d' \<Longrightarrow> quiet d d'"
  "insert_call r10 d = Inr d' \<Longrightarrow> quiet d d'"
  "insert_result r11 d = Inr d' \<Longrightarrow> quiet d d'"
  "insert_completion r12 d = Inr d' \<Longrightarrow> quiet d d'"
  "insert_usage r13 d = Inr d' \<Longrightarrow> quiet d d'"
  "insert_envelope r14 d = Inr d' \<Longrightarrow> quiet d d'"
  "insert_artifact_current r16 d = Inr d' \<Longrightarrow> quiet d d'"
  "upsert_artifact_current r16 d = Inr d' \<Longrightarrow> quiet d d'"
  "insert_subscription_row r18 d = Inr d' \<Longrightarrow> quiet d d'"
  "insert_subscription_current r16 d = Inr d' \<Longrightarrow> quiet d d'"
  "insert_conflict_row r19 d = Inr d' \<Longrightarrow> quiet d d'"
  "upsert_conflict_current r16 d = Inr d' \<Longrightarrow> quiet d d'"
  "insert_idempotency r21 d = Inr d' \<Longrightarrow> quiet d d'"
  "insert_projection_row r22 d = Inr d' \<Longrightarrow> quiet d d'"
  "upsert_projection_current r16 d = Inr d' \<Longrightarrow> quiet d d'"
  "insert_checkpoint r23 d = Inr d' \<Longrightarrow> quiet d d'"
  "upsert_checkpoint_current r24 d = Inr d' \<Longrightarrow> quiet d d'"
  "insert_convergence r25 d = Inr d' \<Longrightarrow> quiet d d'"
  by (simp_all add: quiet_def growing_def primitive_facts)

lemma quiet_move: "quiet d (move_team_head T i j d)" "quiet d (move_subscription_current T i j d)"
  by (simp_all add: quiet_def growing_def history_move sequence_move frame_move)

lemma quiet_insert_head:
  "insert_head r d = Inr d' \<Longrightarrow> hr_sequence r = next_head_sequence d (hr_team_id r) \<Longrightarrow> quiet d d'"
  by (simp add: quiet_def growing_def primitive_facts sequence_insert_head)

lemma quiet_insert_message:
  "insert_message r d = Inr d' \<Longrightarrow>
   mr_sequence r = coalesce_max (map mr_sequence (team_message_rows d (mr_team_id r))) + 1 \<Longrightarrow> quiet d d'"
  by (simp add: quiet_def growing_def primitive_facts sequence_insert_message)

lemma quiet_append_outbox:
  assumes "append_outbox e sn kind r now d = Inr (d', rec)"
  shows "quiet d d'"
  using assms
proof (rule append_outbox_effect)
  fix row
  assume d': "d' = d\<lparr>outbox_rows := outbox_rows d @ [row]\<rparr>" and t: "ox_team_id row = tm_team_id (sn_team sn)"
    and s: "ox_sequence row = coalesce_max (map ox_sequence (team_outbox d (tm_team_id (sn_team sn)))) + 1"
  have "sequence_frame d d'"
    unfolding sequence_frame_def sequence_inv_def
    using t s numbered_snoc
    by (auto simp: d' team_outbox_def team_message_rows_def team_head_rows_def)
  moreover have "task_frame d d'" by (rule task_frame_append) (simp_all add: d')
  ultimately show ?thesis by (simp add: quiet_def growing_def history_le_def d')
qed

lemma quiet_remember: "remember scope key hash ty i now d = Inr d' \<Longrightarrow> quiet d d'"
  by (auto simp: remember_def dest: quiet_insert)

text \<open>
  The replacement of an outbox record touches only the record just appended, because its identity is
  new.
\<close>

lemma quiet_outbox_for_sessions:
  assumes "outbox_for_sessions e sn kind r ss now d = Inr d'"
  shows "quiet d d'"
proof -
  from assms obtain d1 rec where a: "append_outbox e sn kind r now d = Inr (d1, rec)"
    and c: "(if ob_intended_member_session_refs rec = ss then Inr d1
       else rbind (create_outbox (dg_outbox e) (audit rec)
              (rec\<lparr>object_id := [], object_sha256 := [], ob_intended_member_session_refs := ss\<rparr>))
            (\<lambda>new. replace_outbox (object_id rec) new d1)) = Inr d'"
    unfolding outbox_for_sessions_def by (elim rbind_InrE) (simp split: prod.splits)
  then have rest: "d' = d1 \<or> (\<exists>new. replace_outbox (object_id rec) new d1 = Inr d')"
    by (auto split: if_splits)
  have q: "quiet d d1" by (rule quiet_append_outbox [OF a])
  obtain row where d1: "d1 = d\<lparr>outbox_rows := outbox_rows d @ [row]\<rparr>" and id: "ox_object_id row = object_id rec"
    using a by (rule append_outbox_effect)
  have fresh: "\<forall>x\<in>set (outbox_rows d). ox_object_id x \<noteq> object_id rec"
    using a by (auto simp: append_outbox_def Let_def insert_outbox_def insert_row_Inr_iff)
  show ?thesis
  proof (cases "d' = d1")
    case True
    then show ?thesis using q by simp
  next
    case False
    then obtain new where d': "d' = d1\<lparr>outbox_rows := map (\<lambda>x. if ox_object_id x = object_id rec
        then x\<lparr>ox_object_id := object_id new, ox_record := new\<rparr> else x) (outbox_rows d1)\<rparr>"
      using rest by (auto simp: replace_outbox_def split: if_splits)
    have "outbox_rows d' = outbox_rows d @ [row\<lparr>ox_object_id := object_id new, ox_record := new\<rparr>]"
      using fresh id by (simp add: d' d1 map_idI)
    then have "history_le d d'"
      using q by (simp add: history_le_def d' d1)
    moreover have "map ox_sequence (team_outbox d' T) = map ox_sequence (team_outbox d1 T)" for T
    proof -
      have "map ox_sequence (filter (\<lambda>r. ox_team_id r = T) (map (\<lambda>x. if ox_object_id x = i
          then x\<lparr>ox_object_id := j, ox_record := n\<rparr> else x) xs)) =
        map ox_sequence (filter (\<lambda>r. ox_team_id r = T) xs)" for i j n and xs :: "outbox_row list"
        by (induction xs) auto
      then show ?thesis by (simp add: d' team_outbox_def)
    qed
    then have "sequence_frame d1 d'"
      by (simp add: sequence_frame_def sequence_inv_def team_message_rows_def team_head_rows_def)
         (simp add: d')
    moreover have "task_frame d1 d'" by (rule task_frame_append) (simp_all add: d')
    ultimately show ?thesis
      using q unfolding quiet_def growing_def by (meson sequence_frame_trans task_frame_trans)
  qed
qed

section \<open>Installing a successor graph\<close>

lemma quiet_insert_successor: "insert_successor T r sn d = Inr d' \<Longrightarrow> quiet d d'"
  unfolding insert_successor_def by (auto dest!: quiet_insert intro: quiet_trans)

lemma insert_successor_shape:
  assumes "insert_successor T r sn d = Inr d'"
  shows "d' = d\<lparr>graphs := graphs d @ [\<lparr>rv_object_id = object_id (sn_graph sn), rv_team_id = T,
                                      rv_revision = gr_revision (sn_graph sn), rv_record = sn_graph sn\<rparr>],
       authorities := authorities d @ [\<lparr>rv_object_id = object_id (sn_authority sn), rv_team_id = T,
                                        rv_revision = au_authority_version (sn_authority sn),
                                        rv_record = sn_authority sn\<rparr>],
       teams := teams d @ [\<lparr>tr_object_id = object_id (sn_team sn), tr_team_id = T,
                            tr_version = tm_team_version (sn_team sn), tr_roster_id = r,
                            tr_graph_id = object_id (sn_graph sn),
                            tr_authority_id = object_id (sn_authority sn), tr_record = sn_team sn\<rparr>]\<rparr>"
    and "find_rev (object_id (sn_graph sn)) (graphs d) = None"
  using assms unfolding insert_successor_def
  by (auto simp: insert_graph_def insert_authority_def insert_team_def insert_row_Inr_iff rev_clash_def
      find_rev_def find_None_iff)

lemma insert_successor_graph:
  assumes "insert_successor T r sn d = Inr d'"
  shows "find_rev (object_id (sn_graph sn)) (graphs d') =
    Some \<lparr>rv_object_id = object_id (sn_graph sn), rv_team_id = T, rv_revision = gr_revision (sn_graph sn),
          rv_record = sn_graph sn\<rparr>"
  using insert_successor_shape [OF assms] by (simp add: find_rev_def find_append)

lemma move_team_graph_current:
  "current_graph (move_team_graph T i j k d) X =
     (if X = T \<and> find (\<lambda>h. th_team_id h = T) (team_heads d) \<noteq> None then find_rev j (graphs d)
      else current_graph d X)"
proof -
  let ?f = "\<lambda>h. if th_team_id h = T then h\<lparr>th_team_id_ref := i, th_graph_id := j, th_authority_id := k\<rparr> else h"
  have "find (\<lambda>h. th_team_id h = X) (map ?f (team_heads d)) =
      map_option ?f (find (\<lambda>h. th_team_id h = X) (team_heads d))"
    by (rule find_map_key) simp
  then show ?thesis
    by (cases "find (\<lambda>h. th_team_id h = X) (team_heads d)")
       (auto simp: move_team_graph_def current_graph_def dest: find_SomeD)
qed

lemma quiet_move_team_graph:
  assumes "\<And>g. current_graph d T = Some g \<Longrightarrow> \<exists>g'. find_rev j (graphs d) = Some g' \<and> rv_revision g \<le> rv_revision g'"
  shows "quiet d (move_team_graph T i j k d)"
proof -
  have "history_le d (move_team_graph T i j k d)" by (simp add: move_team_graph_def history_le_def)
  moreover have "sequence_frame d (move_team_graph T i j k d)"
    by (rule sequence_frame_same) (simp_all add: move_team_graph_def)
  moreover have "task_frame d (move_team_graph T i j k d)"
    unfolding task_frame_def move_team_graph_current
    using assms by (auto simp: move_team_graph_def team_keys_inv_def)
  ultimately show ?thesis by (simp add: quiet_def growing_def)
qed

lemma quiet_install:
  assumes "snapshot e d T = Inr cur" and ins: "insert_successor T r succ d = Inr d1"
    and "gr_revision (sn_graph cur) \<le> gr_revision (sn_graph succ)"
  shows "quiet d (move_team_graph T i (object_id (sn_graph succ)) k d1)"
proof (rule quiet_trans [OF quiet_insert_successor [OF ins] quiet_move_team_graph])
  fix g assume g: "current_graph d1 T = Some g"
  obtain g0 where g0: "current_graph d T = Some g0" "gr_revision (sn_graph cur) = rv_revision g0"
    using snapshot_graph(2) [OF assms(1)] by blast
  have "current_graph d1 T = Some g0"
    using g0(1) by (rule current_graph_append) (simp_all add: insert_successor_shape(1) [OF ins])
  then show "\<exists>g'. find_rev (object_id (sn_graph succ)) (graphs d1) = Some g' \<and> rv_revision g \<le> rv_revision g'"
    using g g0(2) assms(3) insert_successor_graph [OF ins] by simp
qed

lemma quiet_insert_delivery: "insert_delivery r d = Inr d' \<Longrightarrow> quiet d d'"
  by (drule insert_delivery_shape)
     (auto simp: quiet_def growing_def history_le_def intro: sequence_frame_same task_frame_append)

end
