(* ===== verification/Store_Steps.thy ===== *)
theory Store_Steps
  imports Store_Frame
begin

text \<open>
  The write operations as chains of table inserts. A step relation is reflexive, transitive and holds
  across each single insert; then it holds across every operation, whatever it relates. The two
  locales separate the operations that leave the task tables alone from those that append task events;
  their interpretations are the quiet and the growing steps and the typing of the outbox.
\<close>

lemma narrowing_revision:
  "validate_graph_narrowing d cur succ = Inr () \<Longrightarrow> gr_revision (sn_graph cur) \<le> gr_revision (sn_graph succ)"
  by (simp add: validate_graph_narrowing_def Let_def narrowing_fixed_def split: if_splits)

lemma rework_fresh_InrE:
  assumes "rework_fresh e clk T tr gr ar ids aud key hash d = Inr (d', x)"
  obtains cur works d1 d3 where
    "snapshot e d T = Inr cur" "work_items e d cur = Inr works" "\<forall>i\<in>set ids. reworkable works i"
    "gr_revision (sn_graph x) = gr_revision (sn_graph cur) + 1"
    "insert_successor T (object_id (sn_roster cur)) x d = Inr d1"
    "rework_events e clk 2 x T works ids aud ids
       (move_team_graph T (object_id (sn_team x)) (object_id (sn_graph x)) (object_id (sn_authority x)) d1) = Inr d3"
    "finish_successor e ''revise_for_rework'' x (rework_scope T) key hash (clk 0) (clk 1) d3 = Inr d'"
    "team_ref_of (sn_team cur) = tr" "sn_roster x = sn_roster cur"
proof -
  from assms obtain cur works graph authority team d1 d3 where
    "snapshot e d T = Inr cur" "work_items e d cur = Inr works" "list_all (reworkable works) ids"
    "rework_graph e T cur aud = Inr graph"
    "x = \<lparr>sn_team = team, sn_roster = sn_roster cur, sn_graph = graph, sn_authority = authority\<rparr>"
    "insert_successor T (object_id (sn_roster cur)) x d = Inr d1"
    "rework_events e clk 2 x T works ids aud ids
       (move_team_graph T (object_id team) (object_id graph) (object_id authority) d1) = Inr d3"
    "finish_successor e ''revise_for_rework'' x (rework_scope T) key hash (clk 0) (clk 1) d3 = Inr d'"
    "team_ref_of (sn_team cur) = tr"
    unfolding rework_fresh_def Let_def by (auto split: if_splits)
  moreover have "gr_revision graph = gr_revision (sn_graph cur) + 1"
    using calculation(4) by (auto simp: rework_graph_def Let_def create_graph_def graph.create_Inr_iff)
  ultimately show thesis using that by (fastforce simp: list_all_iff)
qed

section \<open>Operations that leave the task tables alone\<close>

locale frame_relation =
  fixes e :: env and R :: "db \<Rightarrow> db \<Rightarrow> bool"
  assumes refl [simp]: "R d d"
    and trans: "R a b \<Longrightarrow> R b c \<Longrightarrow> R a c"
    and inserts:
      "insert_roster r1 d = Inr d' \<Longrightarrow> R d d'"
      "insert_graph r2 d = Inr d' \<Longrightarrow> R d d'"
      "insert_authority r3 d = Inr d' \<Longrightarrow> R d d'"
      "insert_team r4 d = Inr d' \<Longrightarrow> R d d'"
      "insert_team_head r5 d = Inr d' \<Longrightarrow> R d d'"
      "insert_claim r6 d = Inr d' \<Longrightarrow> R d d'"
      "insert_call r10 d = Inr d' \<Longrightarrow> R d d'"
      "insert_result r11 d = Inr d' \<Longrightarrow> R d d'"
      "insert_completion r12 d = Inr d' \<Longrightarrow> R d d'"
      "insert_usage r13 d = Inr d' \<Longrightarrow> R d d'"
      "insert_envelope r14 d = Inr d' \<Longrightarrow> R d d'"
      "insert_artifact_current r16 d = Inr d' \<Longrightarrow> R d d'"
      "upsert_artifact_current r16 d = Inr d' \<Longrightarrow> R d d'"
      "insert_subscription_row r18 d = Inr d' \<Longrightarrow> R d d'"
      "insert_subscription_current r16 d = Inr d' \<Longrightarrow> R d d'"
      "insert_conflict_row r19 d = Inr d' \<Longrightarrow> R d d'"
      "upsert_conflict_current r16 d = Inr d' \<Longrightarrow> R d d'"
      "insert_idempotency r21 d = Inr d' \<Longrightarrow> R d d'"
      "insert_projection_row r22 d = Inr d' \<Longrightarrow> R d d'"
      "upsert_projection_current r16 d = Inr d' \<Longrightarrow> R d d'"
      "insert_checkpoint r23 d = Inr d' \<Longrightarrow> R d d'"
      "upsert_checkpoint_current r24 d = Inr d' \<Longrightarrow> R d d'"
      "insert_convergence r25 d = Inr d' \<Longrightarrow> R d d'"
    and delivery: "insert_delivery r26 d = Inr d' \<Longrightarrow> R d d'"
    and head_insert: "insert_head r d = Inr d' \<Longrightarrow> hr_sequence r = next_head_sequence d (hr_team_id r) \<Longrightarrow> R d d'"
    and message_insert: "insert_message rm d = Inr d' \<Longrightarrow>
      mr_sequence rm = coalesce_max (map mr_sequence (team_message_rows d (mr_team_id rm))) + 1 \<Longrightarrow> R d d'"
    and moves: "R d (move_team_head T i j d)" "R d (move_subscription_current T i j d)"
    and outbox: "append_outbox e sn kind ref now d = Inr (d', rec) \<Longrightarrow> R d d'"
    and sessions: "outbox_for_sessions e sn kind ref ss now d = Inr d' \<Longrightarrow> R d d'"
    and install: "snapshot e d T = Inr cur \<Longrightarrow> insert_successor T ro succ d = Inr d1 \<Longrightarrow>
      gr_revision (sn_graph cur) \<le> gr_revision (sn_graph succ) \<Longrightarrow>
      R d (move_team_graph T i (object_id (sn_graph succ)) j d1)"
begin

lemma step_remember: "remember scope key hash ty i now d = Inr d' \<Longrightarrow> R d d'"
  by (auto simp: remember_def dest: inserts)

lemma step_insert_bundle: "insert_bundle sn d = Inr d' \<Longrightarrow> R d d'"
  unfolding insert_bundle_def by (auto dest!: inserts intro: trans)

lemma step_publish_head: "publish_head e sn task aud b d = Inr (d', h) \<Longrightarrow> R d d'"
  unfolding publish_head_def
  by (auto simp: Let_def split: prod.splits if_splits option.splits
      dest!: inserts head_insert) (meson trans)+

lemma step_publish_heads: "publish_heads e sn task aud bs d = Inr (d', hs) \<Longrightarrow> R d d'"
  by (induction bs arbitrary: d hs) (auto dest!: step_publish_head intro: trans)

lemma step_advance_data_scope: "advance_data_scope e sn aud deltas d = Inr (d', sn') \<Longrightarrow> R d d'"
  unfolding advance_data_scope_def Let_def
  by (auto split: if_splits dest!: inserts) (meson trans moves)+

lemma step_head_outboxes: "head_outboxes e clk n sn hs d = Inr d' \<Longrightarrow> R d d'"
  by (induction hs arbitrary: n d) (auto dest!: outbox intro: trans)

lemma step_record_invocation: "record_invocation e sn T task iv outs aud d = Inr (d', hs) \<Longrightarrow> R d d'"
  unfolding record_invocation_def
  by (auto split: prod.splits if_splits dest!: inserts step_publish_heads)
     (meson trans)+

text \<open>The operations on Teams, the Blackboard and the mailbox.\<close>

lemma step_create_team_fresh: "create_team_fresh e clk sn key hash d = Inr (d', x) \<Longrightarrow> R d d'"
  unfolding create_team_fresh_def
  by (auto dest!: step_insert_bundle inserts outbox step_remember) (meson trans)+

lemma step_create_team: "create_team e clk sn key d = Inr (d', x) \<Longrightarrow> R d d'"
  by (auto simp: create_team_def Let_def split: option.splits if_splits dest!: step_create_team_fresh)

lemma step_seed_fresh: "seed_fresh e clk T tr h env aud key hash d = Inr (d', x) \<Longrightarrow> R d d'"
  unfolding seed_fresh_def
  by (auto split: if_splits dest!: inserts head_insert outbox step_remember
      step_advance_data_scope) (meson trans)+

lemma step_seed: "seed_artifact_head e clk tr h env aud key d = Inr (d', x) \<Longrightarrow> R d d'"
  by (auto simp: seed_artifact_head_def Let_def split: option.splits dest!: step_seed_fresh)

lemma step_finish_subscription: "finish_subscription e oper sn sc key hash i t1 t2 d = Inr d' \<Longrightarrow> R d d'"
  unfolding finish_subscription_def
  by (auto dest!: outbox step_remember intro: trans)

lemma step_create_subscription_fresh:
  "create_subscription_fresh e clk T v key hash d = Inr (d', x) \<Longrightarrow> R d d'"
  unfolding create_subscription_fresh_def insert_subscription_def
  by (auto split: if_splits dest!: inserts step_finish_subscription) (meson trans)+

lemma step_create_subscription: "create_subscription e clk v key d = Inr (d', x) \<Longrightarrow> R d d'"
  by (auto simp: create_subscription_def Let_def split: option.splits dest!: step_create_subscription_fresh)

lemma step_advance_fresh: "advance_fresh e clk row cr c aud key hash d = Inr (d', x) \<Longrightarrow> R d d'"
  unfolding advance_fresh_def insert_subscription_def Let_def
  by (auto split: if_splits dest!: inserts step_finish_subscription) (meson trans moves)+

lemma step_advance_subscription: "advance_subscription e clk cr c aud key d = Inr (d', x) \<Longrightarrow> R d d'"
  by (auto simp: advance_subscription_def Let_def split: option.splits dest!: step_advance_fresh)

lemma step_write_conflict_fresh:
  "write_conflict_fresh e clk T cf m cr key hash d = Inr (d', x) \<Longrightarrow> R d d'"
  unfolding write_conflict_fresh_def
  by (auto split: if_splits dest!: inserts outbox step_remember) (meson trans)+

lemma step_write_conflict: "write_conflict e clk cf m cr key d = Inr (d', x) \<Longrightarrow> R d d'"
  by (auto simp: write_conflict_def Let_def split: option.splits dest!: step_write_conflict_fresh)

lemma step_send_fresh: "send_fresh e clk T m key hash d = Inr (d', x) \<Longrightarrow> R d d'"
  unfolding send_fresh_def
  by (auto split: if_splits dest!: message_insert sessions step_remember)
     (meson trans)+

lemma step_send_message: "send_message e clk m key d = Inr (d', x) \<Longrightarrow> R d d'"
  by (auto simp: send_message_def Let_def split: option.splits dest!: step_send_fresh)

text \<open>The operations on projections, checkpoints, decisions and graphs.\<close>

lemma step_persist_projection: "persist_projection e clk p fp d = Inr (d', x) \<Longrightarrow> R d d'"
  unfolding persist_projection_def persist_fresh_def
  by (auto simp: Let_def split: option.splits if_splits
      dest!: inserts outbox step_remember) (meson trans)+

lemma step_create_checkpoint: "create_checkpoint e clk T aud key d = Inr (d', x) \<Longrightarrow> R d d'"
  unfolding create_checkpoint_def checkpoint_fresh_def
  by (auto simp: Let_def split: option.splits if_splits
      dest!: inserts outbox step_remember) (meson trans)+

lemma step_record_convergence: "record_convergence e clk dc key d = Inr (d', x) \<Longrightarrow> R d d'"
  unfolding record_convergence_def convergence_fresh_def
  by (auto simp: Let_def split: option.splits if_splits
      dest!: inserts outbox step_remember) (meson trans)+

lemma step_mark_delivered: "mark_outbox_delivered e clk r s d = Inr (d', x) \<Longrightarrow> R d d'"
  unfolding mark_outbox_delivered_def by (auto split: if_splits dest!: delivery)

lemma step_finish_successor: "finish_successor e oper sn sc key hash t1 t2 d = Inr d' \<Longrightarrow> R d d'"
  unfolding finish_successor_def by (auto dest!: outbox step_remember intro: trans)

lemma step_promote_fresh: "promote_fresh e clk T tr gr ar succ key hash d = Inr (d', x) \<Longrightarrow> R d d'"
  unfolding promote_fresh_def Let_def
  by (auto split: if_splits dest!: step_finish_successor)
     (meson narrowing_revision install trans)

lemma step_promote: "promote_narrowed_graph e clk T tr gr ar succ key d = Inr (d', x) \<Longrightarrow> R d d'"
  by (auto simp: promote_narrowed_graph_def Let_def split: option.splits dest!: step_promote_fresh)

end

section \<open>Operations that append task events\<close>

locale growth_relation = frame_relation +
  assumes task_inserts:
      "insert_lease r7 d = Inr d' \<Longrightarrow> R d d'"
      "insert_task_event r8 d = Inr d' \<Longrightarrow> R d d'"
      "upsert_task_head r9 d = Inr d' \<Longrightarrow> R d d'"
begin

lemma step_append_task_event: "append_task_event T task ev d = Inr d' \<Longrightarrow> R d d'"
  unfolding append_task_event_def insert_event_def
  by (auto dest!: task_inserts intro: trans)

lemma step_finish:
  "finish_task_event e oper sn T task ev sc key hash ty i t1 t2 d = Inr d' \<Longrightarrow> R d d'"
  unfolding finish_task_event_def
  by (auto dest!: step_append_task_event outbox step_remember)
     (meson trans)

lemma step_claim_fresh: "claim_fresh e clk T tr gr ar kr mr aud key hash d = Inr (d', c) \<Longrightarrow> R d d'"
  unfolding claim_fresh_def
  by (auto split: if_splits dest!: inserts step_finish) (meson trans)

lemma step_lease_fresh: "lease_fresh e clk T k cr dur aud key hash d = Inr (d', l) \<Longrightarrow> R d d'"
  unfolding lease_fresh_def
  by (auto split: if_splits dest!: task_inserts step_finish) (meson trans)

lemma step_lease_step:
  "lease_step e clk oper ext sn T task w c l ex aud d = Inr (d', ev) \<Longrightarrow> R d d'"
  by (cases oper)
     (auto simp: lease_step_def Let_def insert_event_def split: if_splits dest!: task_inserts)

lemma step_lease_event_fresh:
  "lease_event_fresh e clk oper ext T k l f aud key hash d = Inr (d', ev) \<Longrightarrow> R d d'"
  unfolding lease_event_fresh_def
  by (auto split: option.splits dest!: step_lease_step step_finish) (meson trans)

lemma step_complete_events:
  "complete_events e clk sn T task w c l iv aud d = Inr (d', ev) \<Longrightarrow> R d d'"
  unfolding complete_events_def Let_def insert_event_def
  by (auto split: if_splits dest!: step_append_task_event task_inserts intro: trans)

lemma step_rework_events: "rework_events e clk n sn T works ids aud xs d = Inr d' \<Longrightarrow> R d d'"
  by (induction xs arbitrary: n d)
     (auto split: option.splits dest!: step_append_task_event intro: trans)

lemma step_claim_task: "claim_task e clk tr gr ar kr mr aud key d = Inr (d', c) \<Longrightarrow> R d d'"
  by (auto simp: claim_task_def Let_def split: option.splits dest!: step_claim_fresh)

lemma step_acquire_lease: "acquire_lease e clk cr dur aud key d = Inr (d', l) \<Longrightarrow> R d d'"
  by (auto simp: acquire_lease_def Let_def split: option.splits if_splits dest!: step_lease_fresh)

lemma step_lease_event: "lease_event e clk oper ext lr f aud key d = Inr (d', ev) \<Longrightarrow> R d d'"
  by (auto simp: lease_event_def Let_def split: option.splits dest!: step_lease_event_fresh)

lemma step_complete_fresh:
  "complete_fresh e clk T k tr gr ar l f iv outs aud key hash d = Inr (d', tc) \<Longrightarrow> R d d'"
  unfolding complete_fresh_def
  by (auto split: option.splits dest!: step_record_invocation step_complete_events step_advance_data_scope
      inserts step_head_outboxes outbox step_remember) (meson trans)+

lemma step_complete_task: "complete_task e clk tr gr ar lr f iv outs aud key d = Inr (d', tc) \<Longrightarrow> R d d'"
  by (auto simp: complete_task_def Let_def split: option.splits if_splits dest!: step_complete_fresh)

lemma step_rework_fresh:
  assumes "rework_fresh e clk T tr gr ar ids aud key hash d = Inr (d', x)"
  shows "R d d'"
  using assms
proof (rule rework_fresh_InrE)
  fix cur works d1 d3
  let ?d2 = "move_team_graph T (object_id (sn_team x)) (object_id (sn_graph x)) (object_id (sn_authority x)) d1"
  assume "snapshot e d T = Inr cur" "insert_successor T (object_id (sn_roster cur)) x d = Inr d1"
    "gr_revision (sn_graph x) = gr_revision (sn_graph cur) + 1"
    and evs: "rework_events e clk 2 x T works ids aud ids ?d2 = Inr d3"
    and fin: "finish_successor e ''revise_for_rework'' x (rework_scope T) key hash (clk 0) (clk 1) d3 = Inr d'"
  then have "R d ?d2" by (metis install less_add_one less_imp_le)
  then show "R d d'" using step_rework_events [OF evs] step_finish_successor [OF fin] trans by blast
qed

lemma step_revise: "revise_for_rework e clk T tr gr ar ids aud key d = Inr (d', x) \<Longrightarrow> R d d'"
  by (auto simp: revise_for_rework_def Let_def split: option.splits dest!: step_rework_fresh)

end

section \<open>Quiet and growing steps\<close>

interpretation quiet: frame_relation e quiet for e
  by unfold_locales
     (rule quiet_refl quiet_trans quiet_insert quiet_insert_delivery quiet_insert_head quiet_insert_message
        quiet_move quiet_append_outbox quiet_outbox_for_sessions quiet_install; assumption)+

interpretation growing: growth_relation e growing for e
  by unfold_locales
     (auto intro: growing_trans growing_insert quiet_growing quiet_insert quiet_insert_delivery
        quiet_insert_head quiet_insert_message quiet_move quiet_append_outbox quiet_outbox_for_sessions
        quiet_install)

section \<open>The outbox holds readable records\<close>

text \<open>
  Every outbox row carries the identity of its record, no two rows share one, and every record parses
  back.
\<close>

definition outbox_inv :: "env \<Rightarrow> db \<Rightarrow> bool" where
  "outbox_inv e d \<longleftrightarrow>
     distinct (map ox_object_id (outbox_rows d)) \<and>
     (\<forall>r\<in>set (outbox_rows d). ox_object_id r = object_id (ox_record r) \<and>
        parse_record (outbox_cls e) ''Team outbox'' (ox_record r) = Inr (ox_record r))"

definition outbox_frame :: "env \<Rightarrow> db \<Rightarrow> db \<Rightarrow> bool" where
  "outbox_frame e d d' \<longleftrightarrow> (outbox_inv e d \<longrightarrow> outbox_inv e d')"

lemma outbox_frame_same: "outbox_rows d' = outbox_rows d \<Longrightarrow> outbox_frame e d d'"
  by (simp add: outbox_frame_def outbox_inv_def)

lemma outbox_frame_append:
  assumes "append_outbox e sn kind ref now d = Inr (d', rec)"
  shows "outbox_frame e d d'"
proof -
  have "parse_record (outbox_cls e) ''Team outbox'' rec = Inr rec"
    using assms unfolding append_outbox_def Let_def create_outbox_def
    by (elim rbind_InrE) (auto dest: create_parse)
  moreover have "\<forall>x\<in>set (outbox_rows d). ox_object_id x \<noteq> object_id rec"
      "\<exists>row. outbox_rows d' = outbox_rows d @ [row] \<and> ox_object_id row = object_id rec \<and> ox_record row = rec"
    using assms by (auto simp: append_outbox_def Let_def insert_outbox_def insert_row_Inr_iff)
  ultimately show ?thesis by (fastforce simp: outbox_frame_def outbox_inv_def)
qed

lemma outbox_frame_replace:
  assumes "outbox_inv e d" and "replace_outbox old rec d = Inr d'"
    and "parse_record (outbox_cls e) ''Team outbox'' rec = Inr rec"
  shows "outbox_inv e d'"
proof -
  let ?f = "\<lambda>r. if ox_object_id r = old then r\<lparr>ox_object_id := object_id rec, ox_record := rec\<rparr> else r"
  have d': "outbox_rows d' = map ?f (outbox_rows d)"
    and fresh: "\<forall>r\<in>set (outbox_rows d). ox_object_id r = object_id rec \<longrightarrow> ox_object_id r = old"
    using assms(2) by (auto simp: replace_outbox_def list_ex_iff split: if_splits)
  have inj: "inj_on ox_object_id (set (outbox_rows d))" and dis: "distinct (outbox_rows d)"
    using assms(1) by (auto simp: outbox_inv_def distinct_map)
  have "inj_on (ox_object_id \<circ> ?f) (set (outbox_rows d))"
    using inj fresh by (auto simp: inj_on_def)
  then have "distinct (map ox_object_id (outbox_rows d'))"
    using dis by (simp add: d' distinct_map comp_def)
  then show ?thesis using assms(1,3) by (auto simp: d' outbox_inv_def)
qed

lemma outbox_frame_sessions:
  assumes "outbox_for_sessions e sn kind ref ss now d = Inr d'"
  shows "outbox_frame e d d'"
proof -
  obtain d1 rec where a: "append_outbox e sn kind ref now d = Inr (d1, rec)"
    and c: "(if ob_intended_member_session_refs rec = ss then Inr d1
       else rbind (create_outbox (dg_outbox e) (audit rec)
              (rec\<lparr>object_id := [], object_sha256 := [], ob_intended_member_session_refs := ss\<rparr>))
            (\<lambda>new. replace_outbox (object_id rec) new d1)) = Inr d'"
    using assms unfolding outbox_for_sessions_def by (elim rbind_InrE) (simp split: prod.splits)
  show ?thesis
  proof (cases "ob_intended_member_session_refs rec = ss")
    case True
    then show ?thesis using c outbox_frame_append [OF a] by simp
  next
    case False
    then obtain new where "parse_record (outbox_cls e) ''Team outbox'' new = Inr new"
      and "replace_outbox (object_id rec) new d1 = Inr d'"
      using c unfolding create_outbox_def by (auto dest: create_parse)
    then show ?thesis
      using outbox_frame_append [OF a] outbox_frame_replace unfolding outbox_frame_def by blast
  qed
qed

lemma outbox_frame_install:
  "insert_successor T ro succ d = Inr d1 \<Longrightarrow> outbox_frame e d (move_team_graph T i g j d1)"
  by (drule insert_successor_shape(1)) (rule outbox_frame_same, simp add: move_team_graph_def)

interpretation outbox: growth_relation e "outbox_frame e" for e
  by unfold_locales
     ((simp add: outbox_frame_def; fail)
      | (drule insert_shape, rule outbox_frame_same, simp)
      | (drule insert_delivery_shape, auto intro: outbox_frame_same)
      | (rule outbox_frame_append outbox_frame_sessions outbox_frame_install, assumption)
      | (rule outbox_frame_same, simp add: move_team_head_def move_subscription_current_def))+

section \<open>The current-head caches have one row per key\<close>

definition cache_keys_inv :: "db \<Rightarrow> bool" where
  "cache_keys_inv d \<longleftrightarrow>
     distinct (map current_key (artifact_current d)) \<and> distinct (map current_key (subscription_current d)) \<and>
     distinct (map current_key (conflict_current d)) \<and> distinct (map current_key (projection_current d)) \<and>
     distinct (map kh_team_id (checkpoint_current d))"

definition cache_keys_frame :: "db \<Rightarrow> db \<Rightarrow> bool" where
  "cache_keys_frame d d' \<longleftrightarrow> (cache_keys_inv d \<longrightarrow> cache_keys_inv d')"

definition cache_tables ::
  "db \<Rightarrow> current_row list \<times> current_row list \<times> current_row list \<times> current_row list \<times> checkpoint_head_row list" where
  "cache_tables d = (artifact_current d, subscription_current d, conflict_current d, projection_current d,
     checkpoint_current d)"

lemma cache_keys_same: "cache_tables d' = cache_tables d \<Longrightarrow> cache_keys_frame d d'"
  by (simp add: cache_keys_frame_def cache_keys_inv_def cache_tables_def)

lemma cache_keys_insert:
  "insert_artifact_current r d = Inr d' \<Longrightarrow> cache_keys_frame d d'"
  "insert_subscription_current r d = Inr d' \<Longrightarrow> cache_keys_frame d d'"
  by (auto simp: insert_artifact_current_def insert_subscription_current_def insert_row_Inr_iff current_clash_def
      cache_keys_frame_def cache_keys_inv_def) blast+

lemma cache_keys_upsert:
  "upsert_artifact_current r d = Inr d' \<Longrightarrow> cache_keys_frame d d'"
  "upsert_conflict_current r d = Inr d' \<Longrightarrow> cache_keys_frame d d'"
  "upsert_projection_current r d = Inr d' \<Longrightarrow> cache_keys_frame d d'"
  "upsert_checkpoint_current k d = Inr d' \<Longrightarrow> cache_keys_frame d d'"
  by (drule insert_shape, simp add: cache_keys_frame_def cache_keys_inv_def distinct_upsert)+

lemma cache_keys_move: "cache_keys_frame d (move_subscription_current T i j d)"
proof -
  have "map current_key (map (\<lambda>r. if P r then r\<lparr>cu_object_id := j\<rparr> else r) xs) = map current_key xs" for P xs
    by (simp add: current_key_def)
  then show ?thesis
    by (simp add: cache_keys_frame_def cache_keys_inv_def move_subscription_current_def del: map_map)
qed

lemma cache_keys_sessions:
  assumes "outbox_for_sessions e sn kind ref ss now d = Inr d'"
  shows "cache_keys_frame d d'"
  using assms
  by (intro cache_keys_same)
     (auto simp: outbox_for_sessions_def replace_outbox_def cache_tables_def elim!: append_outbox_effect
       split: if_splits)

interpretation cache_keys: growth_relation e cache_keys_frame for e
  by unfold_locales
     ((simp add: cache_keys_frame_def; fail)
      | (rule cache_keys_insert cache_keys_upsert cache_keys_move, assumption)
      | (drule insert_shape, rule cache_keys_same, simp add: cache_tables_def; fail)
      | (drule insert_delivery_shape, auto simp: cache_tables_def intro: cache_keys_same; fail)
      | (rule cache_keys_sessions, assumption)
      | (drule insert_successor_shape(1), rule cache_keys_same, simp add: move_team_graph_def cache_tables_def; fail)
      | (rule cache_keys_move)
      | (rule cache_keys_same, simp add: move_team_head_def cache_tables_def; fail)
      | (erule append_outbox_effect, rule cache_keys_same, simp add: cache_tables_def))+

end
