(* ===== verification/Store_Invariant.thy ===== *)
theory Store_Invariant
  imports Store_Steps
begin

text \<open>
  The store invariant over whole runs: the contract every write operation of the Team store meets is a
  locale, each operation is an interpretation of it, and the stores a sequence of operations can reach
  from the empty database therefore satisfy the invariant and only ever grow.
\<close>

section \<open>The task operations keep the task invariant\<close>

lemma claim_fresh_inv:
  assumes "claim_fresh e clk T tr gr ar kr mr aud key hash d = Inr (d', c)" and "task_inv d"
  shows "task_inv d'"
  using assms by (rule claim_fresh_step) (rule task_step_inv [OF _ assms(2)])

lemma lease_fresh_inv:
  assumes "lease_fresh e clk T k cr dur aud key hash d = Inr (d', l)" and "task_inv d"
  shows "task_inv d'"
  using assms by (rule lease_fresh_step) (rule task_step_inv [OF _ assms(2)])

lemma lease_event_fresh_inv:
  assumes "lease_event_fresh e clk oper ext T k l f aud key hash d = Inr (d', ev)" and "task_inv d"
  shows "task_inv d'"
  using assms by (rule lease_event_fresh_step) (rule task_step_inv [OF _ assms(2)])

section \<open>Completion is a task step between quiet steps\<close>

lemma complete_events_step:
  assumes inv: "task_inv d" and sn: "snapshot e d team_id = Inr sn" and t: "task_by_id sn task_id = Inr task"
    and w: "work_one e d sn task_id = Inr work" and act: "tw_status work = ACTIVE" and fr: "task_frame d d1"
    and ok: "complete_events e clk sn team_id task work claim lease iv aud d1 = Inr (d2, completed)"
  obtains evs where "task_step d1 team_id task evs None d2" "hd evs = completed"
    "ev_event_kind completed = EK_COMPLETED"
    "ev_status_after completed = (if cr_outcome (iv_result iv) = SUCCEEDED then COMPLETED else FAILED)"
    "length evs = (if cr_outcome (iv_result iv) = SUCCEEDED then 1 else 2)"
proof -
  note mem = task_by_idD [OF t] and spec = work_one_spec [OF w sn inv]
  have H: "task_history d team_id task_id \<noteq> []" "ev_status_after (last (task_history d team_id task_id)) = ACTIVE"
    using spec(8) act by auto
  have pos: "1 \<le> tw_attempt work" by (rule work_attempt_pos [OF w sn inv H(1)])
  have same: "task_history d1 T K = task_history d T K" "task_lease_rows d1 T K = task_lease_rows d T K"
    "task_events d1 = task_events d" for T K
    using fr by (simp_all add: task_frame_def task_history_def task_log_def task_lease_rows_def)
  have dis: "distinct (map er_object_id (task_events d1))"
    using inv same(3) by (simp add: task_inv_def log_inv_def)
  have floor: "\<exists>g. current_graph d1 team_id = Some g \<and> ev_graph_revision ev \<le> rv_revision g"
    if "ev_graph_revision ev = gr_revision (sn_graph sn)" for ev
    using graph_floor [OF sn that] task_frame_floor [OF fr] by blast
  from ok obtain cr rs where
    mk: "make_event e sn task (tw_event_version work + 1) (tw_attempt work) EK_COMPLETED
      (if cr_outcome (iv_result iv) = SUCCEEDED then COMPLETED else FAILED) aud (Some claim) (Some lease)
      (tw_effective_expires_at work) cr rs (clk 1) = Inr completed"
    by (auto simp: complete_events_def Let_def split: if_splits)
  have nc: "next_event_ok (task_history d1 team_id (tk_task_id task)) completed"
    unfolding same
    by (rule made_event_continues [OF inv sn _ _ mk])
       (use w mem H pos cursor_after_last [OF H(1)] in auto)
  note m = make_event_Inr [OF mk]
  show thesis
  proof (cases "cr_outcome (iv_result iv) = SUCCEEDED")
    case True
    then have ap: "append_task_event team_id task completed d1 = Inr d2"
      using ok by (auto simp: complete_events_def Let_def)
    note eff = append_task_event_effect [OF ap]
    have "distinct (map er_object_id (task_events d2))"
      using distinct_event_ids [OF dis, of "event_row_of team_id (tk_task_id task) completed"] eff by simp
    then have "task_step d1 team_id task [completed] None d2"
      unfolding task_step_def using eff nc m floor [of completed] True by (auto simp: opt_list_def)
    then show thesis using that [of "[completed]"] m True by simp
  next
    case False
    then obtain dm final where ins: "insert_event team_id (tk_task_id task) completed d1 = Inr dm"
      and re: "retry_or_exhaust e sn task (ev_task_event_version completed + 1) (tw_attempt work) aud
                    claim lease (tw_effective_expires_at work) (ev_reason_code completed) (clk 2) = Inr final"
      and ap: "append_task_event team_id task final dm = Inr d2"
      using ok by (auto simp: complete_events_def Let_def)
    note ie = ins [unfolded insert_event_effect] and eff = append_task_event_effect [OF ap]
    have rc: "next_event_ok (task_history d1 team_id (tk_task_id task) @ [completed]) final"
        "ev_task_ref final = task_ref_of task" "ev_graph_revision final = gr_revision (sn_graph sn)"
        "ev_status_after final \<in> {READY, FAILED}"
      by (rule retry_or_exhaust_continues [OF re nc]; use m pos False in simp)+
    have dm: "distinct (map er_object_id (task_events dm))"
      using distinct_event_ids [OF dis, of "event_row_of team_id (tk_task_id task) completed"] ie by simp
    have "distinct (map er_object_id (task_events d2))"
      using distinct_event_ids [OF dm, of "event_row_of team_id (tk_task_id task) final"] eff by simp
    then have "task_step d1 team_id task [completed, final] None d2"
      unfolding task_step_def
      using eff ie nc rc m floor [of completed] floor [of final] by (auto simp: opt_list_def)
    then show thesis using that [of "[completed, final]"] m False by simp
  qed
qed

lemma complete_fresh_InrE:
  assumes "complete_fresh e clk team_id task_id tr gr ar lease fence iv outputs aud key hash d = Inr (d', tc)"
  obtains sn task work claim d1 heads d2 completed d3 next_sn where
    "snapshot e d team_id = Inr sn" "team_ref_of (sn_team sn) = tr"
    "active_lease e d team_id task_id lease fence False False False (clk 0) = Inr (sn, task, work)"
    "validate_invocation e d sn task work iv outputs = Inr ()"
    "record_invocation e sn team_id task iv outputs aud d = Inr (d1, heads)" "tw_claim work = Some claim"
    "complete_events e clk sn team_id task work claim lease iv aud d1 = Inr (d2, completed)"
    "advance_data_scope e sn aud (usage_deltas iv) d2 = Inr (d3, next_sn)" "quiet d3 d'"
    "tc = \<lparr>tc_result = iv_result iv, tc_event = completed, tc_artifact_heads = heads, tc_snapshot = next_sn\<rparr>"
proof -
  from assms obtain sn sn2 task work claim held d1 heads d2 completed d3 next_sn d4 d5 d6 rec where
    1: "require_refs e d team_id tr gr ar = Inr sn"
    and 2: "active_lease e d team_id task_id lease fence False False False (clk 0) = Inr (sn2, task, work)"
    and 3: "validate_invocation e d sn task work iv outputs = Inr ()"
    and 4: "record_invocation e sn team_id task iv outputs aud d = Inr (d1, heads)"
    and 5: "tw_claim work = Some claim" "tw_lease work = Some held"
    and 6: "complete_events e clk sn team_id task work claim held iv aud d1 = Inr (d2, completed)"
    and 7: "advance_data_scope e sn aud (usage_deltas iv) d2 = Inr (d3, next_sn)"
    and 8: "insert_completion
              \<lparr>co_result_id = object_id (iv_result iv), co_team_id = team_id,
               co_event_id = object_id completed, co_team_object_id = object_id (sn_team next_sn),
               co_artifact_head_ids = map object_id heads\<rparr> d3 = Inr d4"
      "head_outboxes e clk 5 next_sn heads d4 = Inr d5"
      "append_outbox e next_sn TEAM_CHANGED (team_ref_of (sn_team next_sn)) (clk 3) d5 = Inr (d6, rec)"
      "remember (complete_scope team_id task_id) key hash ''RESULT'' (object_id (iv_result iv)) (clk 4) d6
         = Inr d'"
    and 9: "tc = \<lparr>tc_result = iv_result iv, tc_event = completed, tc_artifact_heads = heads,
               tc_snapshot = next_sn\<rparr>"
    unfolding complete_fresh_def by (auto split: option.splits)
  have s: "snapshot e d team_id = Inr sn" "team_ref_of (sn_team sn) = tr"
    using 1 by (auto simp: require_refs_def split: if_splits)
  have "sn2 = sn" "held = lease"
    using active_lease_InrE(1,5) [OF 2] s 5(2) by simp_all
  moreover have "quiet d3 d'"
    using 8 quiet_insert(9) quiet.step_head_outboxes quiet_append_outbox quiet.step_remember quiet_trans by meson
  ultimately show thesis using that s 2 3 4 5 6 7 9 by blast
qed

lemma complete_fresh_step:
  assumes ok: "complete_fresh e clk team_id task_id tr gr ar lease fence iv outputs aud key hash d = Inr (d', tc)"
  shows "growing d d'" and "task_inv d \<Longrightarrow> task_inv d'"
proof -
  obtain sn task work claim d1 heads d2 completed d3 next_sn where
    sn: "snapshot e d team_id = Inr sn" and
    al: "active_lease e d team_id task_id lease fence False False False (clk 0) = Inr (sn, task, work)" and
    ri: "record_invocation e sn team_id task iv outputs aud d = Inr (d1, heads)" and
    ce: "complete_events e clk sn team_id task work claim lease iv aud d1 = Inr (d2, completed)" and
    ad: "advance_data_scope e sn aud (usage_deltas iv) d2 = Inr (d3, next_sn)" and q: "quiet d3 d'"
    using ok by (rule complete_fresh_InrE)
  have q1: "quiet d d1" by (rule quiet.step_record_invocation [OF ri])
  have q2: "quiet d2 d'" using quiet.step_advance_data_scope [OF ad] q by (rule quiet_trans)
  show "growing d d'"
    using growing.step_complete_events [OF ce] q1 q2 growing_trans quiet_growing by meson
  assume inv: "task_inv d"
  note a = active_lease_InrE(1-4) [OF al]
  have f1: "task_frame d d1" and f2: "task_frame d2 d'" using q1 q2 by (simp_all add: quiet_def)
  obtain evs where "task_step d1 team_id task evs None d2"
    using inv a f1 ce by (rule complete_events_step)
  then have "task_inv d2" using task_step_inv task_frame_inv [OF f1 inv] by blast
  then show "task_inv d'" by (rule task_frame_inv [OF f2])
qed

section \<open>The contract of a write operation\<close>

definition store_inv :: "db \<Rightarrow> bool" where
  "store_inv d \<longleftrightarrow> task_inv d \<and> sequence_inv d"

locale store_operation =
  fixes run :: "db \<Rightarrow> (db \<times> 'a) result"
  assumes grows: "run d = Inr (d', x) \<Longrightarrow> growing d d'"
    and keeps: "run d = Inr (d', x) \<Longrightarrow> task_inv d \<Longrightarrow> task_inv d'"
begin

lemma commit_inv: "run d = Inr (d', x) \<Longrightarrow> store_inv d \<Longrightarrow> store_inv d'"
  using grows keeps by (auto simp: store_inv_def growing_def sequence_frame_def)

lemma commit_history: "run d = Inr (d', x) \<Longrightarrow> history_le d d'"
  using grows by (auto simp: growing_def)

lemma transact_inv: "store_inv d \<Longrightarrow> store_inv (snd (transact run d))"
  using commit_inv by (auto simp: transact_def split: sum.splits)

lemma transact_history: "history_le d (snd (transact run d))"
  using commit_history by (auto simp: transact_def split: sum.splits)

lemma transact_error: "fst (transact run d) = Inl err \<Longrightarrow> snd (transact run d) = d"
  by (auto simp: transact_def split: sum.splits)

end

text \<open>Quiet operations meet the contract outright.\<close>

locale quiet_operation =
  fixes run :: "db \<Rightarrow> (db \<times> 'a) result"
  assumes quiet_run: "run d = Inr (d', x) \<Longrightarrow> quiet d d'"

sublocale quiet_operation \<subseteq> store_operation run
  by unfold_locales (auto simp: quiet_def dest!: quiet_run intro: task_frame_inv)

interpretation create_team: quiet_operation "create_team e clk sn key" for e clk sn key
  by unfold_locales (rule quiet.step_create_team)

interpretation seed: quiet_operation "seed_artifact_head e clk tr h env aud key" for e clk tr h env aud key
  by unfold_locales (rule quiet.step_seed)

interpretation send: quiet_operation "send_message e clk m key" for e clk m key
  by unfold_locales (rule quiet.step_send_message)

interpretation subscribe: quiet_operation "create_subscription e clk v key" for e clk v key
  by unfold_locales (rule quiet.step_create_subscription)

interpretation advance: quiet_operation "advance_subscription e clk cr c aud key" for e clk cr c aud key
  by unfold_locales (rule quiet.step_advance_subscription)

interpretation conflict_write: quiet_operation "write_conflict e clk cf m cr key" for e clk cf m cr key
  by unfold_locales (rule quiet.step_write_conflict)

lemma claim_task_cases:
  "claim_task e clk tr gr ar kr mr aud key d = Inr (d', c) \<Longrightarrow>
     d' = d \<or> (\<exists>T hash. team_id_of e d tr = Inr T \<and> claim_fresh e clk T tr gr ar kr mr aud key hash d = Inr (d', c))"
  by (auto simp: claim_task_def Let_def split: option.splits)

lemma acquire_lease_cases:
  "acquire_lease e clk cr dur aud key d = Inr (d', l) \<Longrightarrow>
     d' = d \<or> (\<exists>T k hash. lease_fresh e clk T k cr dur aud key hash d = Inr (d', l))"
  by (auto simp: acquire_lease_def Let_def split: option.splits if_splits)

lemma lease_event_cases:
  "lease_event e clk oper ext lr f aud key d = Inr (d', ev) \<Longrightarrow>
     d' = d \<or> (\<exists>T k l hash. lease_identity e d lr = Inr (T, k, l) \<and>
       lease_event_fresh e clk oper ext T k l f aud key hash d = Inr (d', ev))"
  by (auto simp: lease_event_def Let_def split: option.splits)

lemma complete_task_cases:
  "complete_task e clk tr gr ar lr f iv outs aud key d = Inr (d', tc) \<Longrightarrow>
     d' = d \<or> (\<exists>T T' k l hash. team_id_of e d tr = Inr T \<and> lease_identity e d lr = Inr (T', k, l) \<and>
       complete_fresh e clk T k tr gr ar l f iv outs aud key hash d = Inr (d', tc))"
  by (auto simp: complete_task_def Let_def split: option.splits if_splits)

interpretation claim_op: store_operation "claim_task e clk tr gr ar kr mr aud key" for e clk tr gr ar kr mr aud key
proof
  fix d d' x
  assume "claim_task e clk tr gr ar kr mr aud key d = Inr (d', x)"
  then show "growing d d'" "task_inv d \<Longrightarrow> task_inv d'"
    by (auto dest!: claim_task_cases dest: growing.step_claim_fresh claim_fresh_inv)
qed

interpretation acquire_op: store_operation "acquire_lease e clk cr dur aud key" for e clk cr dur aud key
proof
  fix d d' x
  assume "acquire_lease e clk cr dur aud key d = Inr (d', x)"
  then show "growing d d'" "task_inv d \<Longrightarrow> task_inv d'"
    by (auto dest!: acquire_lease_cases dest: growing.step_lease_fresh lease_fresh_inv)
qed

interpretation lease_op: store_operation "lease_event e clk oper ext lr f aud key" for e clk oper ext lr f aud key
proof
  fix d d' x
  assume "lease_event e clk oper ext lr f aud key d = Inr (d', x)"
  then show "growing d d'" "task_inv d \<Longrightarrow> task_inv d'"
    by (auto dest!: lease_event_cases dest: growing.step_lease_event_fresh lease_event_fresh_inv)
qed

interpretation complete_op: store_operation "complete_task e clk tr gr ar lr f iv outs aud key"
  for e clk tr gr ar lr f iv outs aud key
proof
  fix d d' x
  assume "complete_task e clk tr gr ar lr f iv outs aud key d = Inr (d', x)"
  then show "growing d d'" "task_inv d \<Longrightarrow> task_inv d'"
    by (auto dest!: complete_task_cases dest: complete_fresh_step)
qed

end
