(* ===== verification/Projection_Frame.thy ===== *)
theory Projection_Frame
  imports Store_Invariant
begin

text \<open>
  The projection, checkpoint, convergence, delivery, narrowing and rework operations keep the store's
  invariants. All but rework are quiet; a rework is a quiet step that installs the successor graph, one
  task step per task it sends back, and a quiet end.
\<close>

section \<open>Quiet operations\<close>

interpretation persist: quiet_operation "persist_projection e clk p fp" for e clk p fp
  by unfold_locales (rule quiet.step_persist_projection)

interpretation checkpoint: quiet_operation "create_checkpoint e clk T aud key" for e clk T aud key
  by unfold_locales (rule quiet.step_create_checkpoint)

interpretation convergence: quiet_operation "record_convergence e clk dc key" for e clk dc key
  by unfold_locales (rule quiet.step_record_convergence)

interpretation delivery: quiet_operation "mark_outbox_delivered e clk r s" for e clk r s
  by unfold_locales (rule quiet.step_mark_delivered)

interpretation narrow: quiet_operation "promote_narrowed_graph e clk T tr gr ar succ key"
  for e clk T tr gr ar succ key
  by unfold_locales (rule quiet.step_promote)

section \<open>Sending tasks back\<close>

lemma find_work_one:
  "work_items e d sn = Inr works \<Longrightarrow> find_work works i = Some w \<Longrightarrow> work_one e d sn i = Inr w"
  by (simp add: work_one_def find_work_def)

lemma work_one_terminal:
  assumes "work_one e d sn task_id = Inr w" and sn: "snapshot e d team_id = Inr sn" and inv: "task_inv d"
    and "task_history d team_id task_id \<noteq> []" and "tw_status w \<in> {COMPLETED, FAILED, CANCELLED}"
  shows "ev_status_after (last (task_history d team_id task_id)) = tw_status w"
proof -
  obtain task w0 works where t: "stored_work e d sn task = Inr w0"
    and weq: "w = w0\<lparr>tw_status := ready_status works w0\<rparr>" and id: "tk_task_id (tw_task w0) = task_id"
    using assms(1) by (rule work_one_InrE)
  have inv': "log_inv d" "head_inv d" "team_keys_inv d" using inv by (simp_all add: task_inv_def)
  note ev = stored_work_event [OF t inv'(1,2)]
  have ids: "tk_task_id task = task_id" "tm_team_id (sn_team sn) = team_id"
    using ev(1) id snapshot_team_id [OF sn inv'(3)] by simp_all
  have ne: "task_log d team_id task_id \<noteq> []" using assms(4) by (simp add: task_history_def)
  have "tw_status w0 = ev_status_after (last (task_history d team_id task_id))"
    using ev(3) [unfolded ids, OF ne] ne by (auto simp: task_history_def last_map)
  moreover have "tw_status w = tw_status w0"
    using assms(5) by (auto simp: weq ready_status_def split: if_splits)
  ultimately show ?thesis by simp
qed

text \<open>The first event of a log is a claim, so a task with a history has been attempted.\<close>

lemma log_ok_claims_pos: "log_ok (ev # evs) \<Longrightarrow> 1 \<le> claims_in (ev # evs)"
proof -
  assume "log_ok (ev # evs)"
  then have "lifecycle_step (READY, 0) (ev_event_kind ev) (ev_status_after ev, ev_graph_revision ev)"
    by (auto simp: validate_log_iff)
  then have "ev_event_kind ev = EK_CLAIMED"
    by (cases "ev_event_kind ev") (auto simp: lifecycle_step_char split: if_splits)
  then show ?thesis by (simp add: claims_in_Cons claims_in_def)
qed

lemma rework_event_continues:
  assumes inv: "task_inv d0" and sn: "snapshot e d0 T = Inr cur" and w: "work_one e d0 cur i = Inr w"
    and fin: "tw_status w \<in> {COMPLETED, FAILED, CANCELLED}" and ne: "task_history d0 T i \<noteq> []"
    and newer: "gr_revision (sn_graph cur) < gr_revision (sn_graph succ)"
    and ev: "make_event e succ (tw_task w) (tw_event_version w + 1) (tw_attempt w) RETRY_SCHEDULED st aud
               None None None None None now = Inr ev"
  shows "next_event_ok (task_history d0 T i) ev"
proof -
  let ?H = "task_history d0 T i"
  note spec = work_one_spec [OF w sn inv]
  note mk = make_event_Inr [OF ev]
  have ok: "log_ok ?H" using inv by (simp add: task_inv_def log_inv_def)
  have "log_cursor ?H = (tw_status w, snd (log_cursor ?H))"
    using work_one_terminal [OF w sn inv ne fin] ne by (simp add: cursor_after_last)
  moreover have "snd (log_cursor ?H) < gr_revision (sn_graph succ)"
    using cursor_graph_le [OF inv sn, of i] newer by simp
  ultimately have "lifecycle_step (log_cursor ?H) RETRY_SCHEDULED (st, gr_revision (sn_graph succ))"
    using fin by (metis lifecycle_step.rework)
  moreover have "1 \<le> claims_in ?H" using log_ok_claims_pos ok ne by (cases ?H) auto
  ultimately show ?thesis
    using mk spec ne by (simp add: next_event_ok_def claims_in_snoc)
qed

lemma rework_event_step:
  assumes inv: "task_inv d" and ap: "append_task_event T task ev d = Inr d'"
    and nx: "next_event_ok (task_history d T (tk_task_id task)) ev" and ref: "ev_task_ref ev = task_ref_of task"
    and st: "ev_status_after ev \<noteq> ACTIVE"
    and g: "current_graph d T = Some g" "ev_graph_revision ev \<le> rv_revision g"
  shows "task_step d T task [ev] None d'"
proof -
  note eff = append_task_event_effect [OF ap]
  have "distinct (map er_object_id (task_events d @ [event_row_of T (tk_task_id task) ev]))"
    using inv eff by (intro distinct_event_ids) (auto simp: task_inv_def log_inv_def)
  then show ?thesis using eff nx ref st g by (simp add: task_step_def opt_list_def)
qed

lemma rework_events_inv:
  assumes inv0: "task_inv d0" and sn: "snapshot e d0 T = Inr cur" and works: "work_items e d0 cur = Inr works"
    and newer: "gr_revision (sn_graph cur) < gr_revision (sn_graph succ)"
    and ids: "\<forall>i\<in>set xs. reworkable works i \<and> task_history d0 T i \<noteq> [] \<and> task_history d T i = task_history d0 T i"
    and "distinct xs" and "task_inv d"
    and g: "current_graph d T = Some g" "gr_revision (sn_graph succ) \<le> rv_revision g"
    and "rework_events e clk n succ T works task_ids aud xs d = Inr d'"
  shows "task_inv d'"
  using assms(5-)
proof (induction xs arbitrary: n d)
  case Nil
  then show ?case by simp
next
  case (Cons i xs)
  then obtain w ev d1 where w: "find_work works i = Some w"
    and mk: "make_event e succ (tw_task w) (tw_event_version w + 1) (tw_attempt w) RETRY_SCHEDULED
        (rework_status works task_ids (tw_task w)) aud None None None None None (clk n) = Inr ev"
    and ap: "append_task_event T (tw_task w) ev d = Inr d1"
    and rest: "rework_events e clk (Suc n) succ T works task_ids aud xs d1 = Inr d'"
    by (auto split: option.splits)
  have w1: "work_one e d0 cur i = Inr w" by (rule find_work_one [OF works w])
  have id: "tk_task_id (tw_task w) = i" using w by (auto simp: find_work_def dest: find_SomeD)
  have fin: "tw_status w \<in> {COMPLETED, FAILED, CANCELLED}" using Cons.prems(1) w by (auto simp: reworkable_def)
  have "next_event_ok (task_history d0 T i) ev"
    using inv0 sn w1 fin _ newer mk by (rule rework_event_continues) (use Cons.prems(1) in simp)
  moreover have "ev_status_after ev \<noteq> ACTIVE" "ev_graph_revision ev \<le> rv_revision g"
      "ev_task_ref ev = task_ref_of (tw_task w)"
    using make_event_Inr [OF mk] Cons.prems(5) by (simp_all add: rework_status_def)
  ultimately have st: "task_step d T (tw_task w) [ev] None d1"
    using rework_event_step [OF Cons.prems(3) ap] Cons.prems(1,4) id by simp
  have "current_graph d1 T = Some g"
    using st Cons.prems(4) by (simp add: task_step_def current_graph_def)
  moreover have "\<forall>j\<in>set xs. reworkable works j \<and> task_history d0 T j \<noteq> [] \<and> task_history d1 T j = task_history d0 T j"
    using Cons.prems(1,2) task_step_log(2) [OF st] id by auto
  ultimately show ?case
    using Cons.IH [OF _ _ task_step_inv [OF st Cons.prems(3)] _ Cons.prems(5) rest] Cons.prems(2) by simp
qed

text \<open>The tasks a rework sends back have been worked on before.\<close>

definition attempted :: "db \<Rightarrow> string \<Rightarrow> string list \<Rightarrow> bool" where
  "attempted d team_id task_ids \<longleftrightarrow> list_all (\<lambda>i. task_log d team_id i \<noteq> []) task_ids"

lemma rework_fresh_inv:
  assumes "rework_fresh e clk T tr gr ar ids aud key hash d = Inr (d', x)" and inv: "task_inv d"
    and "attempted d T ids" and "distinct ids"
  shows "task_inv d'"
  using assms(1)
proof (rule rework_fresh_InrE)
  fix cur works d1 d3
  let ?d2 = "move_team_graph T (object_id (sn_team x)) (object_id (sn_graph x)) (object_id (sn_authority x)) d1"
  assume sn: "snapshot e d T = Inr cur" and works: "work_items e d cur = Inr works"
    and ids: "\<forall>i\<in>set ids. reworkable works i" and rev: "gr_revision (sn_graph x) = gr_revision (sn_graph cur) + 1"
    and ins: "insert_successor T (object_id (sn_roster cur)) x d = Inr d1"
    and evs: "rework_events e clk 2 x T works ids aud ids ?d2 = Inr d3"
    and fin: "finish_successor e ''revise_for_rework'' x (rework_scope T) key hash (clk 0) (clk 1) d3 = Inr d'"
  have q2: "task_frame d ?d2" using quiet_install [OF sn ins] rev by (simp add: quiet_def)
  obtain h where "find (\<lambda>h. th_team_id h = T) (team_heads d) = Some h"
    using sn by (auto elim!: snapshot_InrE dest!: join_head_SomeD)
  then have "current_graph ?d2 T = find_rev (object_id (sn_graph x)) (graphs d1)"
    unfolding move_team_graph_current by (simp add: insert_successor_shape(1) [OF ins])
  moreover have "\<forall>i\<in>set ids. reworkable works i \<and> task_history d T i \<noteq> [] \<and> task_history ?d2 T i = task_history d T i"
    using ids assms(3) q2 by (auto simp: attempted_def list_all_iff task_history_def task_log_def task_frame_def)
  ultimately have "task_inv d3"
    using rework_events_inv [OF inv sn works _ _ assms(4) task_frame_inv [OF q2 inv] _ _ evs] rev
      insert_successor_graph [OF ins] by auto
  then show ?thesis
    using quiet.step_finish_successor [OF fin] by (auto simp: quiet_def intro: task_frame_inv)
qed

lemma revise_for_rework_cases:
  "revise_for_rework e clk T tr gr ar ids aud key d = Inr (d', x) \<Longrightarrow>
     d' = d \<or> (\<exists>hash. rework_fresh e clk T tr gr ar (sort (remdups ids)) aud key hash d = Inr (d', x))"
  by (auto simp: revise_for_rework_def Let_def split: option.splits)

lemma revise_for_rework_inv:
  assumes "revise_for_rework e clk T tr gr ar ids aud key d = Inr (d', x)" and "task_inv d"
    and "attempted d T ids"
  shows "task_inv d'"
  using revise_for_rework_cases [OF assms(1)] assms(2,3) rework_fresh_inv [of e clk T tr gr ar "sort (remdups ids)"]
  by (auto simp: attempted_def list_all_iff)

end
