(* ===== verification/Store_Runs.thy ===== *)
theory Store_Runs
  imports Projection_Frame
begin

text \<open>
  Runs of the Team store: the public write operations as data, a run as the sequence of the
  transactions it commits, and the stores reachable from the empty database.
\<close>

section \<open>Operations as data\<close>

datatype store_call =
    CreateTeam team_snapshot string
  | ClaimTask object_ref object_ref object_ref object_ref object_ref contract_audit string
  | AcquireLease object_ref int contract_audit string
  | HeartbeatLease object_ref int int contract_audit string
  | ExpireLease object_ref int contract_audit string
  | RequestCancellation object_ref int contract_audit string
  | AcknowledgeCancellation object_ref int contract_audit string
  | CompleteTask object_ref object_ref object_ref object_ref int runtime_invocation
      "(string \<times> artifact_envelope) list" contract_audit string
  | SeedArtifactHead object_ref string artifact_envelope contract_audit string
  | SendMessage team_message string
  | CreateSubscription artifact_subscription string
  | AdvanceSubscription object_ref int contract_audit string
  | OpenConflict team_conflict object_ref string
  | CloseConflict team_conflict object_ref object_ref string
  | PersistProjection member_projection string
  | CreateCheckpoint string contract_audit string
  | RecordConvergence convergence_decision string
  | MarkOutboxDelivered object_ref object_ref
  | PromoteNarrowedGraph string object_ref object_ref object_ref team_snapshot string
  | ReviseForRework string object_ref object_ref object_ref "string list" contract_audit string

definition committed :: "(db \<times> 'a) result \<Rightarrow> db result" where
  "committed r = rbind r (\<lambda>(d, _). Inr d)"

fun perform :: "env \<Rightarrow> (nat \<Rightarrow> int) \<Rightarrow> store_call \<Rightarrow> db \<Rightarrow> db result" where
  "perform e clk (CreateTeam sn key) d = committed (create_team e clk sn key d)"
| "perform e clk (ClaimTask tr gr ar kr mr aud key) d = committed (claim_task e clk tr gr ar kr mr aud key d)"
| "perform e clk (AcquireLease cr dur aud key) d = committed (acquire_lease e clk cr dur aud key d)"
| "perform e clk (HeartbeatLease lr f ext aud key) d = committed (heartbeat_lease e clk lr f ext aud key d)"
| "perform e clk (ExpireLease lr f aud key) d = committed (expire_lease e clk lr f aud key d)"
| "perform e clk (RequestCancellation lr f aud key) d = committed (request_cancellation e clk lr f aud key d)"
| "perform e clk (AcknowledgeCancellation lr f aud key) d =
     committed (acknowledge_cancellation e clk lr f aud key d)"
| "perform e clk (CompleteTask tr gr ar lr f iv outs aud key) d =
     committed (complete_task e clk tr gr ar lr f iv outs aud key d)"
| "perform e clk (SeedArtifactHead tr h v aud key) d = committed (seed_artifact_head e clk tr h v aud key d)"
| "perform e clk (SendMessage m key) d = committed (send_message e clk m key d)"
| "perform e clk (CreateSubscription v key) d = committed (create_subscription e clk v key d)"
| "perform e clk (AdvanceSubscription cr c aud key) d = committed (advance_subscription e clk cr c aud key d)"
| "perform e clk (OpenConflict cf m key) d = committed (open_conflict e clk cf m key d)"
| "perform e clk (CloseConflict cf cr m key) d = committed (close_conflict e clk cf cr m key d)"
| "perform e clk (PersistProjection p fp) d = committed (persist_projection e clk p fp d)"
| "perform e clk (CreateCheckpoint T aud key) d = committed (create_checkpoint e clk T aud key d)"
| "perform e clk (RecordConvergence dc key) d = committed (record_convergence e clk dc key d)"
| "perform e clk (MarkOutboxDelivered r s) d = committed (mark_outbox_delivered e clk r s d)"
| "perform e clk (PromoteNarrowedGraph T tr gr ar sn key) d =
     committed (promote_narrowed_graph e clk T tr gr ar sn key d)"
| "perform e clk (ReviseForRework T tr gr ar ids aud key) d =
     committed (revise_for_rework e clk T tr gr ar ids aud key d)"

text \<open>A run commits what succeeds and rolls back what fails.\<close>

fun run_calls :: "env \<Rightarrow> ((nat \<Rightarrow> int) \<times> store_call) list \<Rightarrow> db \<Rightarrow> db" where
  "run_calls e [] d = d"
| "run_calls e ((clk, c) # cs) d =
     run_calls e cs (case perform e clk c d of Inl _ \<Rightarrow> d | Inr d' \<Rightarrow> d')"

text \<open>
  A rework is admissible when every task it sends back has been attempted. A coordinator task that the
  graph declares finished has no events, and sending one back is the one call that leaves an event log the
  replay validator refuses.
\<close>

fun admissible :: "store_call \<Rightarrow> db \<Rightarrow> bool" where
  "admissible (ReviseForRework T tr gr ar ids aud key) d = attempted d T ids"
| "admissible _ d = True"

inductive reachable :: "env \<Rightarrow> db \<Rightarrow> bool" for e where
  start: "reachable e empty_db"
| call: "reachable e d \<Longrightarrow> admissible c d \<Longrightarrow> perform e clk c d = Inr d' \<Longrightarrow> reachable e d'"

section \<open>The invariant of runs\<close>

lemma committed_Inr: "committed r = Inr d' \<longleftrightarrow> (\<exists>x. r = Inr (d', x))"
  by (cases r) (auto simp: committed_def)

lemmas call_unfolds =
  committed_Inr heartbeat_lease_def expire_lease_def request_cancellation_def
  acknowledge_cancellation_def open_conflict_def close_conflict_def

text \<open>A step relation holds across every call and every run.\<close>

context growth_relation
begin

lemma step_perform:
  assumes "perform e clk c d = Inr d'"
  shows "R d d'"
  using assms
  by (cases c)
     (auto simp: call_unfolds split: if_splits
        dest: step_create_team step_claim_task step_acquire_lease step_lease_event step_complete_task
          step_seed step_send_message step_create_subscription step_advance_subscription step_write_conflict
          step_persist_projection step_create_checkpoint step_record_convergence step_mark_delivered
          step_promote step_revise)

lemma step_run: "R d (run_calls e cs d)"
proof (induction cs arbitrary: d)
  case Nil
  then show ?case by simp
next
  case (Cons p cs)
  obtain clk c where p: "p = (clk, c)" by (cases p)
  have "R d (case perform e clk c d of Inl _ \<Rightarrow> d | Inr d' \<Rightarrow> d')"
    using step_perform by (auto split: sum.splits)
  then show ?case using Cons.IH trans p by auto
qed

end

lemma perform_task_inv:
  assumes "perform e clk c d = Inr d'" and "admissible c d" and "task_inv d"
  shows "task_inv d'"
  using assms
  by (cases c)
     (auto simp: call_unfolds split: if_splits
        dest: create_team.keeps claim_op.keeps acquire_op.keeps lease_op.keeps complete_op.keeps
          seed.keeps send.keeps subscribe.keeps advance.keeps conflict_write.keeps persist.keeps
          checkpoint.keeps convergence.keeps delivery.keeps narrow.keeps revise_for_rework_inv)

lemma perform_inv: "perform e clk c d = Inr d' \<Longrightarrow> admissible c d \<Longrightarrow> store_inv d \<Longrightarrow> store_inv d'"
  using growing.step_perform perform_task_inv by (auto simp: store_inv_def growing_def sequence_frame_def)

lemma empty_inv: "store_inv empty_db"
  by (auto simp: store_inv_def task_inv_def log_inv_def head_inv_def lease_inv_def floor_inv_def
      team_keys_inv_def sequence_inv_def empty_db_def task_log_def task_history_def task_head_def
      task_lease_rows_def lease_rows_ok_def holds_newest_fence_def team_outbox_def team_message_rows_def
      team_head_rows_def)

lemma reachable_inv: "reachable e d \<Longrightarrow> store_inv d"
  by (induction rule: reachable.induct) (auto intro: empty_inv perform_inv)

lemma reachable_task_inv: "reachable e d \<Longrightarrow> task_inv d"
  using reachable_inv by (simp add: store_inv_def)

lemma run_sequence_inv: "sequence_inv d \<Longrightarrow> sequence_inv (run_calls e cs d)"
  using growing.step_run by (auto simp: growing_def sequence_frame_def)

text \<open>One rule per operation for building runs.\<close>

lemma reachable_create_team:
  assumes "reachable e d" and "create_team e clk sn key d = Inr (d', x)"
  shows "reachable e d'"
  using reachable.call [OF assms(1), of "CreateTeam sn key" clk d'] assms(2) by (simp add: committed_def)

lemma reachable_claim_task:
  assumes "reachable e d" and "claim_task e clk tr gr ar kr mr aud key d = Inr (d', x)"
  shows "reachable e d'"
  using reachable.call [OF assms(1), of "ClaimTask tr gr ar kr mr aud key" clk d'] assms(2)
  by (simp add: committed_def)

lemma reachable_acquire_lease:
  assumes "reachable e d" and "acquire_lease e clk cr dur aud key d = Inr (d', x)"
  shows "reachable e d'"
  using reachable.call [OF assms(1), of "AcquireLease cr dur aud key" clk d'] assms(2)
  by (simp add: committed_def)

end
