(* ===== verification/Sample_Store.thy ===== *)
theory Sample_Store
  imports Store_Runs
begin

text \<open>
  A concrete Team of a coordinator and one worker with a single task, and the stores after creating
  it, claiming its task and acquiring the lease, evaluated through the operations of the model. The
  later theories use them as examples on which their theorems apply.
\<close>

section \<open>A concrete Team\<close>

definition sample_env :: env where
  "sample_env =
     \<lparr>dg_member = mb_member_id, dg_roster = (\<lambda>v. dec (ro_revision v)), dg_task = tk_task_id,
      dg_graph = (\<lambda>v. dec (gr_revision v)), dg_team = (\<lambda>v. dec (tm_team_version v)),
      dg_authority = (\<lambda>v. dec (au_authority_version v)), dg_claim = (\<lambda>v. dec (cl_graph_revision v)),
      dg_lease = (\<lambda>v. dec (le_fencing_token v)), dg_event = (\<lambda>v. dec (ev_task_event_version v)),
      dg_call = cc_call_id, dg_result = cr_result_id, dg_envelope = en_artifact_id,
      dg_head = hd_head_id, dg_message = ms_message_id,
      dg_subscription = (\<lambda>v. su_subscription_id v @ dec (su_cursor v)), dg_conflict = cf_conflict_id,
      dg_outbox = (\<lambda>v. dec (ob_sequence v)), dg_projection = pr_projection_id,
      dg_checkpoint = ck_checkpoint_id, dg_decision = dc_decision_key, request_sha256 = (\<lambda>r. ''h''), fault = (\<lambda>_. False)\<rparr>"

definition sample_id :: "string \<Rightarrow> string \<Rightarrow> string" where
  "sample_id ty i = ty @ ''://sha256/'' @ i"

definition sample_object_ref :: "string \<Rightarrow> string \<Rightarrow> object_ref" where
  "sample_object_ref ty i = ObjectRef ty (sample_id ty i) ''v1'' i"

definition sample_session :: "string \<Rightarrow> object_ref" where
  "sample_session i = sample_object_ref ''harness-session'' i"

definition sample_member :: "string \<Rightarrow> bool \<Rightarrow> team_member" where
  "sample_member i coord =
     \<lparr>object_id = sample_id ''team-member'' i, object_sha256 = i,
      audit = audit_with_refs sample_audit
        [sample_ref ''harness-capability-definition'', sample_session i, sample_ref ''pack-agent-profile''],
      mb_member_id = i, mb_member_incarnation_id = i, mb_role = ''role'',
      mb_agent_profile_ref = sample_ref ''pack-agent-profile'', mb_independent_session_ref = sample_session i,
      mb_capability_definition_refs = [sample_ref ''harness-capability-definition''],
      mb_status = MS_ACTIVE, mb_is_coordinator = coord\<rparr>"

definition sample_roster :: team_roster where
  "sample_roster =
     \<lparr>object_id = sample_id ''team-roster'' ''1'', object_sha256 = ''1'',
      audit = audit_with_refs sample_audit
        [sample_ref ''harness-capability-definition'', sample_session ''anna'', sample_session ''bob'',
         sample_ref ''pack-agent-profile''],
      ro_roster_id = ''roster'', ro_team_id = ''team'', ro_revision = 1, ro_predecessor_roster_ref = None,
      ro_members = [sample_member ''anna'' True, sample_member ''bob'' False]\<rparr>"

definition sample_task_a :: team_task where
  "sample_task_a =
     \<lparr>object_id = sample_id ''team-task'' ''task-a'', object_sha256 = ''task-a'',
      audit = audit_with_refs sample_audit
        [sample_ref ''acceptance-check'', sample_ref ''harness-capability-definition''],
      tk_task_id = ''task-a'', tk_task_kind = ''kind'', tk_dependency_task_ids = [],
      tk_assigned_member_id = Some ''bob'',
      tk_capability_definition_ref = sample_ref ''harness-capability-definition'',
      tk_input_artifact_head_ids = [], tk_output_artifact_head_ids = [''task-a.out''],
      tk_acceptance_check_refs = [sample_ref ''acceptance-check''], tk_status = PENDING,
      tk_max_attempts = 2, tk_max_model_requests = 5, tk_max_model_tokens = 5, tk_max_cost_micro_usd = 5\<rparr>"

definition sample_team_graph :: team_task_graph where
  "sample_team_graph =
     \<lparr>object_id = sample_id ''team-task-graph'' ''1'', object_sha256 = ''1'',
      audit = audit_with_refs sample_audit
        [sample_ref ''acceptance-check'', sample_ref ''harness-capability-definition'',
         sample_object_ref ''team-roster'' ''1''],
      gr_graph_id = ''graph'', gr_team_id = ''team'', gr_revision = 1, gr_predecessor_graph_ref = None,
      gr_roster_ref = sample_object_ref ''team-roster'' ''1'', gr_member_ids = [''anna'', ''bob''],
      gr_tasks = [sample_task_a]\<rparr>"

definition sample_grant :: "string \<Rightarrow> string list \<Rightarrow> member_grant" where
  "sample_grant i tasks =
     \<lparr>mg_member_id = i, mg_principal_ref = sample_ref ''principal'',
      mg_capability_definition_refs = [sample_ref ''harness-capability-definition''],
      mg_provider_binding_refs = [sample_ref ''harness-capability-provider''], mg_task_ids = tasks,
      mg_data_scope_refs = [], mg_data_purposes = [''purpose''], mg_data_classifications = [''public''],
      mg_allowed_side_effects = [READ_ONLY]\<rparr>"

definition sample_authority :: execution_authority where
  "sample_authority =
     \<lparr>object_id = sample_id ''execution-authority'' ''1'', object_sha256 = ''1'',
      audit = audit_with_refs sample_audit
        [sample_ref ''balanced-autonomy-policy'', sample_ref ''harness-capability-definition'',
         sample_ref ''harness-capability-provider'', sample_ref ''principal'',
         sample_object_ref ''team-roster'' ''1'', sample_object_ref ''team-task-graph'' ''1''],
      au_authority_id = ''authority'', au_authority_version = 1, au_predecessor_authority_ref = None,
      au_team_id = ''team'', au_team_incarnation_id = ''team'',
      au_roster_ref = sample_object_ref ''team-roster'' ''1'',
      au_task_graph_ref = sample_object_ref ''team-task-graph'' ''1'',
      au_permission_policy_ref = sample_ref ''balanced-autonomy-policy'',
      au_grants = [sample_grant ''anna'' [], sample_grant ''bob'' [''task-a'']],
      au_max_model_requests = 10, au_max_model_tokens = 10, au_max_cost_micro_usd = 10,
      au_used_model_requests = 0, au_used_model_tokens = 0, au_used_cost_micro_usd = 0\<rparr>"

definition sample_team :: team where
  "sample_team =
     \<lparr>object_id = sample_id ''agent-team'' ''1'', object_sha256 = ''1'',
      audit = audit_with_refs sample_audit
        [sample_object_ref ''execution-authority'' ''1'', sample_ref ''goal'',
         sample_ref ''harness-composition'', sample_object_ref ''team-roster'' ''1'',
         sample_object_ref ''team-task-graph'' ''1''],
      tm_team_id = ''team'', tm_team_incarnation_id = ''team'', tm_team_version = 1,
      tm_goal_ref = sample_ref ''goal'', tm_composition_ref = sample_ref ''harness-composition'',
      tm_roster_ref = sample_object_ref ''team-roster'' ''1'',
      tm_task_graph_ref = sample_object_ref ''team-task-graph'' ''1'',
      tm_authority_ref = sample_object_ref ''execution-authority'' ''1'',
      tm_coordinator_member_id = ''anna'', tm_lifecycle = TL_ACTIVE\<rparr>"

definition sample_snapshot :: team_snapshot where
  "sample_snapshot = \<lparr>sn_team = sample_team, sn_roster = sample_roster, sn_graph = sample_team_graph,
     sn_authority = sample_authority\<rparr>"

definition sample_clock :: "nat \<Rightarrow> int" where
  "sample_clock i = 0"

definition sample_outbox :: "string \<Rightarrow> string \<Rightarrow> int \<Rightarrow> outbox_row" where
  "sample_outbox key i n =
     \<lparr>ox_object_id = sample_id ''team-outbox-record'' i, ox_team_id = ''team'', ox_sequence = n,
      ox_kind = TEAM_CHANGED,
      ox_record =
        \<lparr>object_id = sample_id ''team-outbox-record'' i, object_sha256 = i,
         audit = audit_with_refs sample_audit
           [sample_object_ref ''agent-team'' ''1'', sample_session ''anna'', sample_session ''bob''],
         ob_outbox_key = key, ob_team_id = ''team'', ob_sequence = n, ob_event_kind = TEAM_CHANGED,
         ob_aggregate_ref = sample_object_ref ''agent-team'' ''1'',
         ob_record_ref = sample_object_ref ''agent-team'' ''1'',
         ob_intended_member_session_refs = [sample_session ''anna'', sample_session ''bob''],
         ob_occurred_at = 0\<rparr>\<rparr>"

definition sample_memo :: "string \<Rightarrow> string \<Rightarrow> string \<Rightarrow> string \<Rightarrow> idempotency_row" where
  "sample_memo scope key ty i =
     \<lparr>ik_scope = scope, ik_operation_key = key, ik_request_hash = ''h'', ik_response_type = ty,
      ik_response_id = i, ik_created_at = 0\<rparr>"

definition sample_db1 :: db where
  "sample_db1 = empty_db
     \<lparr>rosters := [\<lparr>rv_object_id = sample_id ''team-roster'' ''1'', rv_team_id = ''team'', rv_revision = 1,
                   rv_record = sample_roster\<rparr>],
      graphs := [\<lparr>rv_object_id = sample_id ''team-task-graph'' ''1'', rv_team_id = ''team'',
                  rv_revision = 1, rv_record = sample_team_graph\<rparr>],
      authorities := [\<lparr>rv_object_id = sample_id ''execution-authority'' ''1'', rv_team_id = ''team'',
                       rv_revision = 1, rv_record = sample_authority\<rparr>],
      teams := [\<lparr>tr_object_id = sample_id ''agent-team'' ''1'', tr_team_id = ''team'', tr_version = 1,
                 tr_roster_id = sample_id ''team-roster'' ''1'',
                 tr_graph_id = sample_id ''team-task-graph'' ''1'',
                 tr_authority_id = sample_id ''execution-authority'' ''1'', tr_record = sample_team\<rparr>],
      team_heads := [\<lparr>th_team_id = ''team'', th_team_id_ref = sample_id ''agent-team'' ''1'',
                      th_roster_id = sample_id ''team-roster'' ''1'',
                      th_graph_id = sample_id ''team-task-graph'' ''1'',
                      th_authority_id = sample_id ''execution-authority'' ''1''\<rparr>],
      outbox_rows := [sample_outbox ''team.outbox-1'' ''1'' 1],
      idempotency := [sample_memo ''create-team:team'' ''key-1'' ''TEAM'' (sample_id ''agent-team'' ''1'')]\<rparr>"

definition sample_claim :: task_claim where
  "sample_claim =
     \<lparr>object_id = sample_id ''team-task-claim'' ''1'',
      object_sha256 = ''1'',
      audit = audit_with_refs sample_audit
        [sample_object_ref ''agent-team'' ''1'', sample_object_ref ''team-member'' ''bob'',
         sample_object_ref ''team-task'' ''task-a''],
      cl_claim_id = ''team.task-a.attempt-1'', cl_team_ref = sample_object_ref ''agent-team'' ''1'',
      cl_task_ref = sample_object_ref ''team-task'' ''task-a'',
      cl_member_ref = sample_object_ref ''team-member'' ''bob'', cl_graph_revision = 1, cl_claimed_at = 0\<rparr>"

definition sample_claim_ref :: object_ref where
  "sample_claim_ref = sample_object_ref ''team-task-claim'' ''1''"

definition sample_lease :: task_lease where
  "sample_lease =
     \<lparr>object_id = sample_id ''team-task-lease'' ''1'',
      object_sha256 = ''1'', audit = audit_with_refs sample_audit [sample_claim_ref],
      le_lease_id = ''team.task-a.fence-1'', le_claim_ref = sample_claim_ref, le_fencing_token = 1,
      le_acquired_at = 0, le_expires_at = 60000000\<rparr>"

definition sample_lease_ref :: object_ref where
  "sample_lease_ref = sample_object_ref ''team-task-lease'' ''1''"

definition sample_task_event ::
  "string \<Rightarrow> string \<Rightarrow> int \<Rightarrow> task_event_kind \<Rightarrow> task_status \<Rightarrow> object_ref option \<Rightarrow> int option \<Rightarrow>
   int option \<Rightarrow> task_event" where
  "sample_task_event key i version kind status lease fence expires =
     \<lparr>object_id = sample_id ''team-task-event'' i, object_sha256 = i,
      audit = audit_with_refs sample_audit
        ([sample_object_ref ''agent-team'' ''1'', sample_object_ref ''team-task'' ''task-a'', sample_claim_ref,
          sample_object_ref ''team-task-graph'' ''1''] @ opt_list lease),
      ev_event_key = key, ev_team_ref = sample_object_ref ''agent-team'' ''1'',
      ev_task_ref = sample_object_ref ''team-task'' ''task-a'',
      ev_graph_ref = sample_object_ref ''team-task-graph'' ''1'', ev_graph_revision = 1,
      ev_task_event_version = version, ev_attempt = 1, ev_event_kind = kind, ev_status_after = status,
      ev_claim_ref = Some sample_claim_ref, ev_lease_ref = lease, ev_fencing_token = fence,
      ev_effective_expires_at = expires, ev_capability_call_ref = None, ev_capability_result_ref = None,
      ev_reason_code = None, ev_occurred_at = 0\<rparr>"

definition sample_event1 :: task_event where
  "sample_event1 = sample_task_event ''team.task-a.event-1'' ''1'' 1 EK_CLAIMED CLAIMED None None None"

definition sample_event2 :: task_event where
  "sample_event2 =
     sample_task_event ''team.task-a.event-2'' ''2'' 2 LEASE_ACQUIRED ACTIVE (Some sample_lease_ref) (Some 1)
       (Some 60000000)"

definition sample_event3 :: task_event where
  "sample_event3 =
     sample_task_event ''team.task-a.event-3'' ''3'' 3 HEARTBEAT ACTIVE (Some sample_lease_ref) (Some 1)
       (Some 60000000)"

definition sample_head :: "string \<Rightarrow> task_head_row" where
  "sample_head key =
     \<lparr>xh_team_id = ''team'', xh_task_id = ''task-a'', xh_task_ref = sample_id ''team-task'' ''task-a'',
      xh_event_id = sample_id ''team-task-event'' key\<rparr>"

definition sample_db2 :: db where
  "sample_db2 = sample_db1
     \<lparr>task_claims := [\<lparr>kr_object_id = ref_id sample_claim_ref, kr_team_id = ''team'', kr_task_id = ''task-a'',
                       kr_attempt = 1, kr_record = sample_claim\<rparr>],
      task_events := [event_row_of ''team'' ''task-a'' sample_event1],
      task_heads := [sample_head ''1''],
      outbox_rows := [sample_outbox ''team.outbox-1'' ''1'' 1, sample_outbox ''team.outbox-2'' ''2'' 2],
      idempotency :=
        [sample_memo ''create-team:team'' ''key-1'' ''TEAM'' (sample_id ''agent-team'' ''1''),
         sample_memo ''claim-task:team:team-task://sha256/task-a'' ''key-2'' ''CLAIM'' (ref_id sample_claim_ref)]\<rparr>"

definition sample_db3 :: db where
  "sample_db3 = sample_db2
     \<lparr>task_leases := [\<lparr>lr_object_id = ref_id sample_lease_ref, lr_team_id = ''team'', lr_task_id = ''task-a'',
                       lr_attempt = 1, lr_fence = 1, lr_record = sample_lease\<rparr>],
      task_events := [event_row_of ''team'' ''task-a'' sample_event1, event_row_of ''team'' ''task-a'' sample_event2],
      task_heads := [sample_head ''2''],
      outbox_rows := [sample_outbox ''team.outbox-1'' ''1'' 1, sample_outbox ''team.outbox-2'' ''2'' 2,
                      sample_outbox ''team.outbox-3'' ''3'' 3],
      idempotency :=
        [sample_memo ''create-team:team'' ''key-1'' ''TEAM'' (sample_id ''agent-team'' ''1''),
         sample_memo ''claim-task:team:team-task://sha256/task-a'' ''key-2'' ''CLAIM'' (ref_id sample_claim_ref),
         sample_memo ''acquire-lease:team:task-a'' ''key-3'' ''LEASE'' (ref_id sample_lease_ref)]\<rparr>"

definition sample_db4 :: db where
  "sample_db4 = sample_db3
     \<lparr>task_events := [event_row_of ''team'' ''task-a'' sample_event1, event_row_of ''team'' ''task-a'' sample_event2,
                      event_row_of ''team'' ''task-a'' sample_event3],
      task_heads := [sample_head ''3''],
      outbox_rows := [sample_outbox ''team.outbox-1'' ''1'' 1, sample_outbox ''team.outbox-2'' ''2'' 2,
                      sample_outbox ''team.outbox-3'' ''3'' 3, sample_outbox ''team.outbox-4'' ''4'' 4],
      idempotency :=
        [sample_memo ''create-team:team'' ''key-1'' ''TEAM'' (sample_id ''agent-team'' ''1''),
         sample_memo ''claim-task:team:team-task://sha256/task-a'' ''key-2'' ''CLAIM'' (ref_id sample_claim_ref),
         sample_memo ''acquire-lease:team:task-a'' ''key-3'' ''LEASE'' (ref_id sample_lease_ref),
         sample_memo ''heartbeat:team-task-lease://sha256/1'' ''key-4'' ''TASK_EVENT''
           (sample_id ''team-task-event'' ''3'')]\<rparr>"

section \<open>The run\<close>

lemma sample_create:
  "create_team sample_env sample_clock sample_snapshot ''key-1'' empty_db = Inr (sample_db1, sample_snapshot)"
  by code_simp

lemma sample_claim_task:
  "claim_task sample_env sample_clock (sample_object_ref ''agent-team'' ''1'')
     (sample_object_ref ''team-task-graph'' ''1'') (sample_object_ref ''execution-authority'' ''1'')
     (sample_object_ref ''team-task'' ''task-a'') (sample_object_ref ''team-member'' ''bob'') sample_audit
     ''key-2'' sample_db1 = Inr (sample_db2, sample_claim)"
  by code_simp

lemma sample_acquire_lease:
  "acquire_lease sample_env sample_clock sample_claim_ref 60 sample_audit ''key-3'' sample_db2 =
     Inr (sample_db3, sample_lease)"
  by code_simp

lemma sample_heartbeat:
  "lease_event sample_env sample_clock OP_HEARTBEAT 60 sample_lease_ref 1 sample_audit ''key-4'' sample_db3 =
     Inr (sample_db4, sample_event3)"
  by code_simp

lemma sample_reachable1: "reachable sample_env sample_db1"
  by (rule reachable_create_team [OF reachable.start sample_create])

lemma sample_reachable2: "reachable sample_env sample_db2"
  by (rule reachable_claim_task [OF sample_reachable1 sample_claim_task])

lemma sample_reachable3: "reachable sample_env sample_db3"
  by (rule reachable_acquire_lease [OF sample_reachable2 sample_acquire_lease])

section \<open>Reading it back\<close>

lemma sample_snapshot_db1: "snapshot sample_env sample_db1 ''team'' = Inr sample_snapshot"
  by code_simp

lemma sample_snapshot_at_db1:
  "snapshot_at sample_env sample_db1 (sample_object_ref ''agent-team'' ''1'') = Inr sample_snapshot"
  by code_simp

lemma sample_team_tables:
  "team_tables sample_db2 = team_tables sample_db1" "team_tables sample_db3 = team_tables sample_db1"
  "team_tables sample_db4 = team_tables sample_db1"
  by (simp_all add: team_tables_def sample_db2_def sample_db3_def sample_db4_def)

lemmas sample_reads =
  sample_snapshot_db1 sample_snapshot_at_db1
  snapshot_same_tables [OF sample_team_tables(1)] snapshot_same_tables [OF sample_team_tables(2)]
  snapshot_same_tables [OF sample_team_tables(3)]

definition sample_calls :: "((nat \<Rightarrow> int) \<times> store_call) list" where
  "sample_calls = [(sample_clock, CreateTeam sample_snapshot ''key-1'')]"

lemma sample_run: "run_calls sample_env sample_calls empty_db = sample_db1"
  by (simp add: sample_calls_def sample_create committed_def)

end
