(* ===== verification/Task_Properties.thy ===== *)
theory Task_Properties
  imports Sample_Store
begin

text \<open>
  Properties of the task lifecycle over all runs of the store: replayable histories and current head
  caches, fencing, attempt bounds, what each operation under a lease appends, and append-only history.
\<close>

section \<open>Runs\<close>

lemma log_latest:
  assumes "task_inv d" and "task_log d T K \<noteq> []"
  shows "latest_by er_version (task_log d T K) = Some (last (task_log d T K))"
proof -
  let ?L = "task_log d T K"
  have rows: "\<forall>r\<in>set ?L. event_row_ok r"
    using assms(1) by (auto simp: task_inv_def log_inv_def task_log_def)
  have "log_ok (task_history d T K)" using assms(1) by (simp add: task_inv_def log_inv_def)
  then have "map er_version ?L = [1..int (length ?L)]"
    using rows by (simp add: validate_log_iff task_history_def event_row_ok_def comp_def cong: map_cong)
  moreover obtain n where n: "length ?L = Suc n" using assms(2) by (cases "length ?L") auto
  ultimately have "map er_version (butlast ?L) @ [er_version (last ?L)] = [1..int n] @ [int n + 1]"
    using assms(2) upto_snoc [of n]
    by (metis append_butlast_last_id list.simps(8,9) map_append)
  then have bl: "map er_version (butlast ?L) = [1..int n]" and l: "er_version (last ?L) = int n + 1"
    by simp_all
  have "er_version x < er_version (last ?L)" if "x \<in> set (butlast ?L)" for x
  proof -
    have "er_version x \<in> set [1..int n]" using that bl by (metis image_eqI list.set_map)
    then show ?thesis using l by simp
  qed
  then show ?thesis
    using latest_by_snoc [of "butlast ?L" er_version "last ?L"] assms(2) by simp
qed

lemma head_latest:
  assumes "task_inv d"
  shows "map_option xh_event_id (task_head d T K) =
    map_option er_object_id (latest_by er_version (task_log d T K))"
proof -
  have h: "case task_head d T K of None \<Rightarrow> task_log d T K = []
      | Some h \<Rightarrow> task_log d T K \<noteq> [] \<and> xh_event_id h = er_object_id (last (task_log d T K)) \<and>
          xh_task_ref h = ref_id (ev_task_ref (last (task_history d T K)))"
    using assms by (simp add: task_inv_def head_inv_def)
  show ?thesis
    using h log_latest [OF assms, of T K] by (cases "task_head d T K") auto
qed

text \<open>
  C1: In every reachable store the events of every task form a log that the replay validator accepts.
  Reachable stores are those built from the empty database by any sequence of the store's write
  operations, narrowing and rework included, where a rework sends back only tasks that have been attempted.
\<close>

theorem reachable_event_logs_replay:
  assumes "reachable e d"
  shows "validate_team_task_event_log (task_history d team_id task_id) = Inr ()"
  using reachable_task_inv [OF assms] by (simp add: task_inv_def log_inv_def)

theorem reachable_event_logs_replay_witness:
  "task_history sample_db3 ''team'' ''task-a'' = [sample_event1, sample_event2] \<and>
   validate_team_task_event_log (task_history sample_db3 ''team'' ''task-a'') = Inr ()"
  using reachable_event_logs_replay [OF sample_reachable3, of "''team''" "''task-a''"]
  by (simp add: task_history_def task_log_def sample_db3_def)

text \<open>
  C30: In every reachable store the task head cache names exactly the event with the highest version of
  each task's history, and is absent exactly when the history is empty: a reader never finds the head
  missing or drifted.
\<close>

theorem reachable_task_heads_current:
  assumes "reachable e d"
  shows "map_option xh_event_id (task_head d team_id task_id) =
     map_option er_object_id (latest_by er_version (task_log d team_id task_id))"
  by (rule head_latest [OF reachable_task_inv [OF assms]])

theorem reachable_task_heads_current_witness:
  "map_option xh_event_id (task_head sample_db3 ''team'' ''task-a'') = Some (object_id sample_event2) \<and>
   map_option xh_event_id (task_head sample_db3 ''team'' ''task-a'') =
     map_option er_object_id (latest_by er_version (task_log sample_db3 ''team'' ''task-a''))"
  using reachable_task_heads_current [OF sample_reachable3, of "''team''" "''task-a''"]
  by (simp add: task_head_def sample_db3_def sample_head_def sample_event2_def sample_task_event_def)

text \<open>
  C21: No sequence of store calls rewrites history: every row already written to a record table stays, and
  each table after the calls extends the table before them. This holds for every write operation from any
  database, committed or refused.
\<close>

theorem run_history_append_only: "history_le d (run_calls e cs d)"
  using growing.step_run by (simp add: growing_def)

text \<open>
  C31: After any sequence of store calls the outbox records, the messages and the published artifact
  heads of each Team are numbered 1, 2, ..., n in order, without gaps or duplicates.
\<close>

theorem run_sequences_contiguous:
  "map ox_sequence (team_outbox (run_calls e cs empty_db) team_id) =
     [1..int (length (team_outbox (run_calls e cs empty_db) team_id))] \<and>
   map mr_sequence (team_message_rows (run_calls e cs empty_db) team_id) =
     [1..int (length (team_message_rows (run_calls e cs empty_db) team_id))] \<and>
   map hr_sequence (team_head_rows (run_calls e cs empty_db) team_id) =
     [1..int (length (team_head_rows (run_calls e cs empty_db) team_id))]"
  using run_sequence_inv [of empty_db e cs] empty_inv
  by (simp add: store_inv_def sequence_inv_def numbered_def)

section \<open>Fencing\<close>

fun fenced_call :: "store_call \<Rightarrow> (object_ref \<times> int) option" where
  "fenced_call (HeartbeatLease lr f _ _ _) = Some (lr, f)"
| "fenced_call (ExpireLease lr f _ _) = Some (lr, f)"
| "fenced_call (RequestCancellation lr f _ _) = Some (lr, f)"
| "fenced_call (AcknowledgeCancellation lr f _ _) = Some (lr, f)"
| "fenced_call (CompleteTask _ _ _ lr f _ _ _ _) = Some (lr, f)"
| "fenced_call _ = None"

definition grows_only :: "db \<Rightarrow> db \<Rightarrow> string \<Rightarrow> string \<Rightarrow> bool" where
  "grows_only d d' T K \<longleftrightarrow>
     task_history d' T K \<noteq> task_history d T K \<and>
     (\<forall>T' K'. (T', K') \<noteq> (T, K) \<longrightarrow> task_history d' T' K' = task_history d T' K')"

lemma task_step_grows:
  assumes "task_step d team_id task evs lease d'" and "K = tk_task_id task"
  shows "grows_only d d' team_id K"
  using task_step_log(2) [OF assms(1)] assms by (auto simp: grows_only_def task_step_def)

lemma newest_fence_eq:
  "task_inv d \<Longrightarrow> int (length (task_lease_rows d T K)) = coalesce_max (map lr_fence (task_lease_rows d T K))"
  by (simp add: task_inv_def lease_inv_def lease_rows_ok_def coalesce_max_upto)

lemma lease_event_newest_fence:
  assumes "lease_event e clk oper ext lr f aud key d = Inr (d', ev)" and "d' \<noteq> d" and inv: "task_inv d"
  shows "\<exists>T K. grows_only d d' T K \<and> f = coalesce_max (map lr_fence (task_lease_rows d T K))"
proof -
  obtain T k l hash where fr: "lease_event_fresh e clk oper ext T k l f aud key hash d = Inr (d', ev)"
    using lease_event_cases [OF assms(1)] assms(2) by blast
  obtain sn task pre where "task_by_id sn k = Inr task" "task_step d T task (pre @ [ev]) None d'"
    "f = int (length (task_lease_rows d T k))"
    using fr inv by (rule lease_event_fresh_step)
  then show ?thesis
    using task_step_grows [of d T task "pre @ [ev]" None d' k] newest_fence_eq [OF inv] task_by_idD by metis
qed

lemma complete_newest_fence:
  assumes "complete_task e clk tr gr ar lr f iv outs aud key d = Inr (d', tc)" and "d' \<noteq> d"
    and inv: "task_inv d"
  shows "\<exists>T K. grows_only d d' T K \<and> f = coalesce_max (map lr_fence (task_lease_rows d T K))"
proof -
  obtain T k l hash where fr: "complete_fresh e clk T k tr gr ar l f iv outs aud key hash d = Inr (d', tc)"
    using complete_task_cases [OF assms(1)] assms(2) by blast
  obtain sn task work claim d1 heads d2 completed d3 next_sn where
    al: "active_lease e d T k l f False False False (clk 0) = Inr (sn, task, work)" and
    ri: "record_invocation e sn T task iv outs aud d = Inr (d1, heads)" and
    ce: "complete_events e clk sn T task work claim l iv aud d1 = Inr (d2, completed)" and
    ad: "advance_data_scope e sn aud (usage_deltas iv) d2 = Inr (d3, next_sn)" and q: "quiet d3 d'"
    using fr by (rule complete_fresh_InrE)
  have f1: "task_frame d d1" and f2: "task_frame d2 d'"
    using quiet.step_record_invocation [OF ri] quiet_trans [OF quiet.step_advance_data_scope [OF ad] q]
    by (simp_all add: quiet_def)
  note a = active_lease_InrE(1-4) [OF al]
  obtain evs where st: "task_step d1 T task evs None d2"
    using inv a f1 ce by (rule complete_events_step)
  have "task_history d1 = task_history d" "task_history d' = task_history d2"
    using f1 f2 by (simp_all add: task_frame_def task_history_def task_log_def fun_eq_iff)
  then have "grows_only d d' T k"
    using task_step_grows [OF st, of k] task_by_idD [OF a(2)] by (simp add: grows_only_def)
  then show ?thesis
    using active_lease_newest_fence [OF al inv] newest_fence_eq [OF inv] by metis
qed

text \<open>
  C2: Only the newest lease of a task can act. When a heartbeat, expiry, cancellation request or
  acknowledgement, or completion changes a reachable store, exactly one task's history grows, and the
  fencing token presented is the greatest fence ever issued for that task.
\<close>

theorem only_newest_fence_acts:
  assumes "reachable e d" and "perform e clk c d = Inr d'" and "d' \<noteq> d" and "fenced_call c = Some (lr, f)"
  shows "\<exists>T K. grows_only d d' T K \<and> f = coalesce_max (map lr_fence (task_lease_rows d T K))"
proof -
  have inv: "task_inv d" by (rule reachable_task_inv [OF assms(1)])
  show ?thesis
    using assms(2,4)
    by (cases c) (auto simp: committed_Inr heartbeat_lease_def expire_lease_def request_cancellation_def
        acknowledge_cancellation_def split: if_splits
        dest!: lease_event_newest_fence [OF _ assms(3) inv] complete_newest_fence [OF _ assms(3) inv])
qed

lemma sample_perform_heartbeat:
  "perform sample_env sample_clock (HeartbeatLease sample_lease_ref 1 60 sample_audit ''key-4'') sample_db3 =
     Inr sample_db4"
  by (simp add: heartbeat_lease_def in_range_def sample_heartbeat committed_def)

lemma sample_db4_new: "sample_db4 \<noteq> sample_db3"
proof -
  have "length (task_events sample_db4) = 3" "length (task_events sample_db3) = 2"
    by (simp_all add: sample_db4_def sample_db3_def)
  then show ?thesis by auto
qed

theorem only_newest_fence_acts_witness:
  "reachable sample_env sample_db3 \<and>
   perform sample_env sample_clock (HeartbeatLease sample_lease_ref 1 60 sample_audit ''key-4'') sample_db3 =
     Inr sample_db4 \<and>
   (\<exists>T K. grows_only sample_db3 sample_db4 T K \<and>
      1 = coalesce_max (map lr_fence (task_lease_rows sample_db3 T K)))"
  using only_newest_fence_acts [OF sample_reachable3 sample_perform_heartbeat sample_db4_new, of sample_lease_ref 1]
    sample_reachable3 sample_perform_heartbeat by simp

text \<open>
  C28: A newly acquired lease carries a fencing token strictly greater than every fence issued before
  for the same task, and it is the lease the task's live event names.
\<close>

theorem acquire_lease_fence_grows:
  assumes "reachable e d" and "acquire_lease e clk claim_ref duration aud key d = Inr (d', lease)" and "d' \<noteq> d"
  shows "\<exists>T K. grows_only d d' T K \<and>
    (\<forall>r\<in>set (task_lease_rows d T K). lr_fence r < le_fencing_token lease) \<and>
    ev_status_after (last (task_history d' T K)) = ACTIVE \<and>
    ev_lease_ref (last (task_history d' T K)) = Some (lease_ref_of lease)"
proof -
  have inv: "task_inv d" by (rule reachable_task_inv [OF assms(1)])
  obtain T k hash where fr: "lease_fresh e clk T k claim_ref duration aud key hash d = Inr (d', lease)"
    using acquire_lease_cases [OF assms(2)] assms(3) by blast
  obtain sn task ev row where t: "task_by_id sn k = Inr task" and st: "task_step d T task [ev] (Some row) d'"
    and "ev_status_after ev = ACTIVE" "ev_lease_ref ev = Some (lease_ref_of lease)"
    and tok: "le_fencing_token lease = int (length (task_lease_rows d T k)) + 1"
    using fr inv by (rule lease_fresh_step)
  moreover have "task_history d' T k = task_history d T k @ [ev]"
    using task_step_log(2) [OF st] task_by_idD [OF t] by simp
  moreover have "\<forall>r\<in>set (task_lease_rows d T k). lr_fence r \<le> int (length (task_lease_rows d T k))"
    using newest_fence_eq [OF inv, of T k] coalesce_max_ge by fastforce
  ultimately show ?thesis
    using task_step_grows [OF st] task_by_idD [OF t] by fastforce
qed

lemma sample_db3_new: "sample_db3 \<noteq> sample_db2"
proof -
  have "length (task_events sample_db3) = 2" "length (task_events sample_db2) = 1"
    by (simp_all add: sample_db3_def sample_db2_def)
  then show ?thesis by auto
qed

theorem acquire_lease_fence_grows_witness:
  "reachable sample_env sample_db2 \<and>
   (\<exists>T K. grows_only sample_db2 sample_db3 T K \<and>
      (\<forall>r\<in>set (task_lease_rows sample_db2 T K). lr_fence r < le_fencing_token sample_lease) \<and>
      ev_status_after (last (task_history sample_db3 T K)) = ACTIVE \<and>
      ev_lease_ref (last (task_history sample_db3 T K)) = Some (lease_ref_of sample_lease))"
  using acquire_lease_fence_grows [OF sample_reachable2 sample_acquire_lease sample_db3_new] sample_reachable2
  by blast

section \<open>Claims\<close>

text \<open>
  C29: A claim that changes a reachable store is made by the member the task is assigned to in the
  current graph, extends that task's history with one CLAIMED event, and never exceeds the task's attempt
  budget: the history then holds at most \<open>max_attempts\<close> claims.
\<close>

theorem claim_task_within_attempts:
  assumes "reachable e d" and "d' \<noteq> d"
    and "claim_task e clk team_ref graph_ref authority_ref task_ref member_ref aud key d = Inr (d', claim)"
  shows "\<exists>T sn task ev. snapshot e d T = Inr sn \<and> task \<in> set (gr_tasks (sn_graph sn)) \<and>
    task_ref_of task = task_ref \<and>
    (\<exists>m\<in>set (ro_members (sn_roster sn)). member_ref_of m = member_ref \<and>
       tk_assigned_member_id task = Some (mb_member_id m)) \<and>
    task_history d' T (tk_task_id task) = task_history d T (tk_task_id task) @ [ev] \<and>
    ev_event_kind ev = EK_CLAIMED \<and> ev_claim_ref ev = Some (claim_ref_of claim) \<and>
    claims_in (task_history d' T (tk_task_id task)) \<le> tk_max_attempts task"
proof -
  have inv: "task_inv d" by (rule reachable_task_inv [OF assms(1)])
  obtain T hash where
    fr: "claim_fresh e clk T team_ref graph_ref authority_ref task_ref member_ref aud key hash d = Inr (d', claim)"
    using claim_task_cases [OF assms(3)] assms(2) by blast
  obtain sn0 task0 member where sn0: "snapshot e d T = Inr sn0" and t0: "task_by_ref sn0 task_ref = Inr task0"
    and m: "member_by_ref sn0 member_ref = Inr member"
    and a: "tk_assigned_member_id task0 = Some (mb_member_id member)"
    using fr by (rule claim_fresh_InrE)
  obtain sn task ev where sn: "snapshot e d T = Inr sn" and tr: "task_ref_of task = task_ref"
    and t: "task \<in> set (gr_tasks (sn_graph sn))" and st: "task_step d T task [ev] None d'"
    and k: "ev_event_kind ev = EK_CLAIMED" "ev_claim_ref ev = Some (claim_ref_of claim)"
    and b: "claims_in (task_history d' T (tk_task_id task)) \<le> tk_max_attempts task"
    using fr inv by (rule claim_fresh_step)
  have "filter (\<lambda>x. task_ref_of x = task_ref) (gr_tasks (sn_graph sn0)) = [task0]"
    using onlyD [OF t0 [unfolded task_by_ref_def]] .
  moreover have "task \<in> set (filter (\<lambda>x. task_ref_of x = task_ref) (gr_tasks (sn_graph sn0)))"
    using t tr sn sn0 by simp
  ultimately have "task = task0" by (metis empty_iff empty_set set_ConsD)
  then show ?thesis
    using sn sn0 tr t k b task_step_log(2) [OF st] member_by_refD [OF m] a by auto
qed

lemma sample_db2_new: "sample_db2 \<noteq> sample_db1"
proof -
  have "length (task_events sample_db2) = 1" "length (task_events sample_db1) = 0"
    by (simp_all add: sample_db2_def sample_db1_def empty_db_def)
  then show ?thesis by auto
qed

theorem claim_task_within_attempts_witness:
  "reachable sample_env sample_db1 \<and>
   (\<exists>T sn task ev. snapshot sample_env sample_db1 T = Inr sn \<and> task \<in> set (gr_tasks (sn_graph sn)) \<and>
      task_ref_of task = sample_object_ref ''team-task'' ''task-a'' \<and>
      task_history sample_db2 T (tk_task_id task) = task_history sample_db1 T (tk_task_id task) @ [ev] \<and>
      ev_event_kind ev = EK_CLAIMED \<and>
      claims_in (task_history sample_db2 T (tk_task_id task)) \<le> tk_max_attempts task)"
  using claim_task_within_attempts [OF sample_reachable1 sample_db2_new sample_claim_task] sample_reachable1
  by blast

end
