(* ===== verification/Replay_Properties.thy ===== *)
theory Replay_Properties
  imports Task_Properties
begin

text \<open>
  Idempotent retries: an operation that committed answers every later repetition under the same key
  with the record it created and changes nothing, whatever the store did in between; and what an
  operation under a lease appends to the task's history.
\<close>

section \<open>Lookups survive growth\<close>

lemma load_prefix:
  "prefix xs ys \<Longrightarrow> load cls name key rec xs i = Inr v \<Longrightarrow> load cls name key rec ys i = Inr v"
  by (auto simp: load_def find_prefix split: option.splits)

lemma replay_row_prefix:
  "history_le d d' \<Longrightarrow> replay_row d scope key = Some r \<Longrightarrow> replay_row d' scope key = Some r"
  by (auto simp: replay_row_def history_le_def intro: find_prefix)

lemma team_id_of_prefix:
  assumes "history_le d d'" and "team_id_of e d r = Inr T"
  shows "team_id_of e d' r = Inr T"
proof -
  have "prefix (teams d) (teams d')" using assms(1) by (simp add: history_le_def)
  then show ?thesis
    using assms(2) find_prefix [of "teams d" "teams d'" "\<lambda>t. tr_object_id t = ref_id r"]
    by (auto simp: team_id_of_def split: if_splits option.splits)
qed

lemma lease_identity_prefix:
  assumes "history_le d d'" and "lease_identity e d r = Inr x"
  shows "lease_identity e d' r = Inr x"
proof -
  have "prefix (task_leases d) (task_leases d')" using assms(1) by (simp add: history_le_def)
  then show ?thesis
    using assms(2) find_prefix [of "task_leases d" "task_leases d'" "\<lambda>t. lr_object_id t = ref_id r"]
    by (auto simp: lease_identity_def split: option.splits)
qed

lemma load_fresh:
  assumes "\<forall>x\<in>set xs. key x \<noteq> key r" and "validate_derived_identity cls (rec r)" and "validates cls (rec r)"
  shows "load cls name key rec (xs @ [r]) (key r) = Inr (rec r)"
proof -
  have "find (\<lambda>x. key x = key r) xs = None" using assms(1) by (simp add: find_None_iff)
  then show ?thesis using assms(2,3) by (simp add: load_def find_append parse_record_def)
qed

lemma remembered:
  assumes "finish_task_event e oper sn T task ev scope key hash rtype rid t1 t2 d = Inr d'"
  shows "replay d' scope key hash = Inr (Some (rtype, rid))"
  using assms
proof (rule finish_task_event_effect)
  fix row ik
  assume "d' = d\<lparr>task_events := task_events d @ [event_row_of T (tk_task_id task) ev],
            task_heads := upsert (\<lambda>x. (xh_team_id x, xh_task_id x))
              \<lparr>xh_team_id = T, xh_task_id = tk_task_id task, xh_task_ref = object_id task,
               xh_event_id = object_id ev\<rparr> (task_heads d),
            outbox_rows := outbox_rows d @ [row], idempotency := idempotency d @ [ik]\<rparr>"
    "ik = \<lparr>ik_scope = scope, ik_operation_key = key, ik_request_hash = hash, ik_response_type = rtype,
               ik_response_id = rid, ik_created_at = t2\<rparr>" "replay_row d scope key = None"
  then show ?thesis by (simp add: replay_def replay_row_def find_append)
qed

lemma replay_prefix:
  assumes "history_le d d'" and "replay d scope key hash = Inr (Some r)"
  shows "replay d' scope key hash = Inr (Some r)"
proof -
  obtain row where "replay_row d scope key = Some row" "ik_request_hash row = hash"
    "r = (ik_response_type row, ik_response_id row)"
    using assms(2) by (auto simp: replay_def split: option.splits if_splits)
  then show ?thesis using replay_row_prefix [OF assms(1)] by (simp add: replay_def)
qed

section \<open>Committed records can be loaded\<close>

lemma finish_keeps_tables:
  assumes "finish_task_event e oper sn T task ev scope key hash rtype rid t1 t2 d = Inr d'"
  shows "task_claims d' = task_claims d" and "task_leases d' = task_leases d"
    and "task_events d' = task_events d @ [event_row_of T (tk_task_id task) ev]"
    and "\<forall>x\<in>set (task_events d). er_object_id x \<noteq> object_id ev"
  using assms by (auto elim!: finish_task_event_effect simp: event_clash_def)

lemma claim_fresh_loads:
  assumes "claim_fresh e clk T tr gr ar kr mr aud key hash d = Inr (d', claim)"
  shows "load_claim e d' (object_id claim) = Inr claim"
    and "replay d' (claim_scope T (ref_id kr)) key hash = Inr (Some (''CLAIM'', object_id claim))"
proof -
  from assms obtain sn task n d1 ev v where
    cr: "create (claim_cls e) aud v = Inr claim" and
    ins: "insert_claim
                \<lparr>kr_object_id = object_id claim, kr_team_id = T, kr_task_id = tk_task_id task,
                 kr_attempt = n, kr_record = claim\<rparr> d = Inr d1" and
    fin: "finish_task_event e ''claim_task'' sn T task ev (claim_scope T (ref_id kr))
        key hash ''CLAIM'' (object_id claim) (clk 2) (clk 3) d1 = Inr d'"
    unfolding claim_fresh_def by (auto split: if_splits)
  let ?row = "\<lparr>kr_object_id = object_id claim, kr_team_id = T, kr_task_id = tk_task_id task,
                 kr_attempt = n, kr_record = claim\<rparr>"
  have "task_claims d' = task_claims d @ [?row]" "\<forall>x\<in>set (task_claims d). kr_object_id x \<noteq> object_id claim"
    using ins finish_keeps_tables(1) [OF fin] by (auto simp: insert_claim_def insert_row_Inr_iff)
  then show "load_claim e d' (object_id claim) = Inr claim"
    using load_fresh [of "task_claims d" kr_object_id ?row "claim_cls e" kr_record] create_valid [OF cr]
    by (simp add: load_claim_def)
  show "replay d' (claim_scope T (ref_id kr)) key hash = Inr (Some (''CLAIM'', object_id claim))"
    by (rule remembered [OF fin])
qed

lemma lease_fresh_loads:
  assumes "lease_fresh e clk T k cr dur aud key hash d = Inr (d', lease)"
  shows "load_lease e d' (object_id lease) = Inr lease"
    and "replay d' (lease_scope T k) key hash = Inr (Some (''LEASE'', object_id lease))"
proof -
  from assms obtain sn task n f d1 ev v where
    cr: "create (lease_cls e) aud v = Inr lease" and
    ins: "insert_lease
                \<lparr>lr_object_id = object_id lease, lr_team_id = T, lr_task_id = k,
                 lr_attempt = n, lr_fence = f, lr_record = lease\<rparr> d = Inr d1" and
    fin: "finish_task_event e ''acquire_lease'' sn T task ev (lease_scope T k)
        key hash ''LEASE'' (object_id lease) (clk 2) (clk 3) d1 = Inr d'"
    unfolding lease_fresh_def by (auto split: if_splits)
  let ?row = "\<lparr>lr_object_id = object_id lease, lr_team_id = T, lr_task_id = k,
                 lr_attempt = n, lr_fence = f, lr_record = lease\<rparr>"
  have "task_leases d' = task_leases d @ [?row]" "\<forall>x\<in>set (task_leases d). lr_object_id x \<noteq> object_id lease"
    using ins finish_keeps_tables(2) [OF fin] by (auto simp: insert_lease_def insert_row_Inr_iff)
  then show "load_lease e d' (object_id lease) = Inr lease"
    using load_fresh [of "task_leases d" lr_object_id ?row "lease_cls e" lr_record] create_valid [OF cr]
    by (simp add: load_lease_def)
  show "replay d' (lease_scope T k) key hash = Inr (Some (''LEASE'', object_id lease))"
    by (rule remembered [OF fin])
qed

lemma make_event_valid: "make_event e sn task v att k st aud c l ex cr rs now = Inr ev \<Longrightarrow>
    validate_derived_identity (event_cls e) ev \<and> validates (event_cls e) ev"
  unfolding make_event_def by (rule create_valid)

lemma retry_valid: "retry_or_exhaust e sn task v att aud c l ex rs now = Inr ev \<Longrightarrow>
    validate_derived_identity (event_cls e) ev \<and> validates (event_cls e) ev"
  unfolding retry_or_exhaust_def by (auto split: if_splits dest: make_event_valid)

lemma lease_step_valid:
  "lease_step e clk oper ext sn T task w c l ex aud d = Inr (d1, ev) \<Longrightarrow>
    validate_derived_identity (event_cls e) ev \<and> validates (event_cls e) ev"
  by (cases oper) (auto simp: lease_step_def Let_def split: if_splits dest: make_event_valid retry_valid)

lemma lease_event_fresh_loads:
  assumes "lease_event_fresh e clk oper ext T k lease f aud key hash d = Inr (d', ev)"
  shows "load_event e d' (object_id ev) = Inr ev"
    and "replay d' (lease_event_scope oper (object_id lease)) key hash =
      Inr (Some (''TASK_EVENT'', object_id ev))"
proof -
  obtain sn task work claim expires d1 where
    ls: "lease_step e clk oper ext sn T task work claim lease expires aud d = Inr (d1, ev)" and
    fin: "finish_task_event e (operation_name oper) sn T task ev
       (lease_event_scope oper (object_id lease)) key hash ''TASK_EVENT'' (object_id ev)
       (clk 4) (clk 5) d1 = Inr d'"
    using assms by (rule lease_event_fresh_InrE)
  show "load_event e d' (object_id ev) = Inr ev"
    using load_fresh [of "task_events d1" er_object_id "event_row_of T (tk_task_id task) ev" "event_cls e" er_record]
      lease_step_valid [OF ls] finish_keeps_tables(3,4) [OF fin]
    by (simp add: load_event_def)
  show "replay d' (lease_event_scope oper (object_id lease)) key hash =
      Inr (Some (''TASK_EVENT'', object_id ev))"
    by (rule remembered [OF fin])
qed

section \<open>Retries\<close>

text \<open>
  C37: A claim is idempotent. Once it committed, repeating it with the same references and key, at any
  later time and with any audit, on any store that has grown from it, returns the same claim and leaves
  the store as it is.
\<close>

theorem claim_task_idempotent:
  assumes "claim_task e clk tr gr ar kr mr aud key d = Inr (d1, claim)" and "d1 \<noteq> d" and "history_le d1 d2"
  shows "claim_task e clk' tr gr ar kr mr aud' key d2 = Inr (d2, claim)"
proof -
  let ?hash = "request_sha256 e (ClaimRequest tr gr ar kr mr)"
  from assms(1,2) obtain T where T: "team_id_of e d tr = Inr T"
    and fr: "claim_fresh e clk T tr gr ar kr mr aud key ?hash d = Inr (d1, claim)"
    by (auto simp: claim_task_def Let_def split: option.splits)
  have h: "history_le d d2"
    using growing.step_claim_fresh [OF fr] assms(3) history_le_trans unfolding growing_def by blast
  have p: "prefix (task_claims d1) (task_claims d2)"
    using assms(3) by (simp add: history_le_def)
  have "load_claim e d2 (object_id claim) = Inr claim"
    using claim_fresh_loads(1) [OF fr] load_prefix [OF p] by (auto simp: load_claim_def)
  moreover have "replay d2 (claim_scope T (ref_id kr)) key ?hash = Inr (Some (''CLAIM'', object_id claim))"
    by (rule replay_prefix [OF assms(3) claim_fresh_loads(2) [OF fr]])
  ultimately show ?thesis
    using team_id_of_prefix [OF h T] by (simp add: claim_task_def typed_replay_def)
qed

theorem claim_task_idempotent_witness:
  "claim_task sample_env sample_clock (sample_object_ref ''agent-team'' ''1'')
     (sample_object_ref ''team-task-graph'' ''1'') (sample_object_ref ''execution-authority'' ''1'')
     (sample_object_ref ''team-task'' ''task-a'') (sample_object_ref ''team-member'' ''bob'') no_audit
     ''key-2'' sample_db2 = Inr (sample_db2, sample_claim)"
  by (rule claim_task_idempotent [OF sample_claim_task sample_db2_new history_le_refl])

text \<open>
  Acquiring a lease is idempotent in the same sense: the retry returns the same lease, with the same
  fencing token, and issues no new fence.
\<close>

theorem acquire_lease_idempotent:
  assumes "acquire_lease e clk cr dur aud key d = Inr (d1, lease)" and "d1 \<noteq> d" and "history_le d1 d2"
  shows "acquire_lease e clk' cr dur aud' key d2 = Inr (d2, lease)"
proof -
  let ?hash = "request_sha256 e (LeaseRequest cr dur)"
  from assms(1,2) obtain row where b: "in_range 1 86400 dur"
    and row: "find (\<lambda>r. kr_object_id r = ref_id cr) (task_claims d) = Some row"
    and fr: "lease_fresh e clk (kr_team_id row) (kr_task_id row) cr dur aud key ?hash d = Inr (d1, lease)"
    by (auto simp: acquire_lease_def Let_def split: option.splits if_splits)
  have "history_le d d2"
    using growing.step_lease_fresh [OF fr] assms(3) history_le_trans unfolding growing_def by blast
  then have h: "prefix (task_claims d) (task_claims d2)" "prefix (task_leases d1) (task_leases d2)"
    using assms(3) by (simp_all add: history_le_def)
  have "load_lease e d2 (object_id lease) = Inr lease"
    using lease_fresh_loads(1) [OF fr] load_prefix [OF h(2)] by (auto simp: load_lease_def)
  moreover have "replay d2 (lease_scope (kr_team_id row) (kr_task_id row)) key ?hash =
      Inr (Some (''LEASE'', object_id lease))"
    by (rule replay_prefix [OF assms(3) lease_fresh_loads(2) [OF fr]])
  ultimately show ?thesis
    using b find_prefix [OF h(1) row] by (simp add: acquire_lease_def typed_replay_def)
qed

theorem acquire_lease_idempotent_witness:
  "acquire_lease sample_env sample_clock sample_claim_ref 60 no_audit ''key-3'' sample_db3 =
     Inr (sample_db3, sample_lease)"
  by (rule acquire_lease_idempotent [OF sample_acquire_lease sample_db3_new history_le_refl])

text \<open>
  Heartbeats, expiries, cancellation requests and acknowledgements are idempotent: a retry under the
  same key returns the event the first call committed, even after the lease has ended.
\<close>

theorem lease_event_idempotent:
  assumes "lease_event e clk oper ext lr f aud key d = Inr (d1, ev)" and "d1 \<noteq> d" and "history_le d1 d2"
  shows "lease_event e clk' oper ext lr f aud' key d2 = Inr (d2, ev)"
proof -
  let ?hash = "request_sha256 e (LeaseEventRequest lr f (operation_name oper) ext)"
  from assms(1,2) obtain T k l where li: "lease_identity e d lr = Inr (T, k, l)"
    and fr: "lease_event_fresh e clk oper ext T k l f aud key ?hash d = Inr (d1, ev)"
    by (auto simp: lease_event_def Let_def split: option.splits)
  have h: "history_le d d2"
    using growing.step_lease_event_fresh [OF fr] assms(3) history_le_trans unfolding growing_def by blast
  have p: "prefix (task_events d1) (task_events d2)"
    using assms(3) by (simp add: history_le_def)
  have "load_event e d2 (object_id ev) = Inr ev"
    using lease_event_fresh_loads(1) [OF fr] load_prefix [OF p] by (auto simp: load_event_def)
  moreover have "replay d2 (lease_event_scope oper (object_id l)) key ?hash =
      Inr (Some (''TASK_EVENT'', object_id ev))"
    by (rule replay_prefix [OF assms(3) lease_event_fresh_loads(2) [OF fr]])
  ultimately show ?thesis
    using lease_identity_prefix [OF h li] by (simp add: lease_event_def typed_replay_def)
qed

theorem lease_event_idempotent_witness:
  "lease_event sample_env sample_clock OP_HEARTBEAT 60 sample_lease_ref 1 no_audit ''key-4'' sample_db4 =
     Inr (sample_db4, sample_event3)"
  by (rule lease_event_idempotent [OF sample_heartbeat sample_db4_new history_le_refl])

end
