(* ===== verification/Runtime_Event.thy ===== *)
theory Runtime_Event
  imports Contracts
begin

text \<open>
  The events an execution runtime reports, \<open>env_mock_agent/facade/runtime_v2.py\<close> with the cost record of
  \<open>telemetry_v2.py\<close>: kinds, failure codes, usage, the event with its validator, and its content identity.
  A facade reference has the four columns of \<open>object_ref\<close>; a timezone-aware time is its microseconds.
\<close>

datatype runtime_event_kind =
    RUN_STARTED | MODEL_REQUEST_STARTED | MODEL_OUTPUT_DELTA | MODEL_RESPONSE_AVAILABLE
  | TOOL_CALL_STARTED | TOOL_CALL_PROGRESS | TOOL_CALL_COMPLETED | ARTIFACT_CHANGED | WARNING
  | USAGE_REPORTED | RUN_COMPLETED | RUN_FAILED

datatype runtime_failure_code =
    AUTHENTICATION_FAILED | RUNTIME_CANCELLED | CONTEXT_OVERFLOW | INVALID_REQUEST | MODEL_UNAVAILABLE
  | OVERLOADED | PROTOCOL_ERROR | PROVIDER_FAILED | RATE_LIMITED | SANDBOX_UNAVAILABLE | TIMEOUT
  | TOOL_DENIED | TOOL_FAILED | TRANSPORT_FAILED | UNKNOWN_FAILURE

datatype tool_family = FILE_TOOL | SHELL_TOOL | SEARCH_TOOL | FETCH_TOOL | RENDERER_TOOL | OTHER_TOOL

datatype telemetry_availability = REPORTED | DERIVED | UNAVAILABLE | NOT_APPLICABLE

datatype cost_rounding = HALF_EVEN_MICRO_USD

record reported_cost =
  rk_availability :: telemetry_availability
  rk_amount_microusd :: "int option"
  rk_rounding :: "cost_rounding option"

definition validate_cost :: "reported_cost \<Rightarrow> bool" where
  "validate_cost v \<longleftrightarrow>
     (case rk_amount_microusd v of None \<Rightarrow> True | Some n \<Rightarrow> 0 \<le> n) \<and>
     (rk_availability v = REPORTED) = (rk_amount_microusd v \<noteq> None) \<and>
     (rk_availability v = REPORTED) = (rk_rounding v \<noteq> None) \<and>
     rk_availability v \<in> {REPORTED, UNAVAILABLE}"

record runtime_usage =
  ru_model_requests :: int
  ru_input_tokens :: int
  ru_output_tokens :: int
  ru_cache_creation_input_tokens :: int
  ru_cache_read_input_tokens :: int
  ru_tool_calls :: int
  ru_turns :: int
  ru_duration_ms :: "int option"
  ru_reported_cost :: reported_cost

definition validate_runtime_usage :: "runtime_usage \<Rightarrow> bool" where
  "validate_runtime_usage v \<longleftrightarrow>
     list_all (in_range 0 10000000) [ru_model_requests v, ru_tool_calls v, ru_turns v] \<and>
     list_all (in_range 0 10000000000)
       [ru_input_tokens v, ru_output_tokens v, ru_cache_creation_input_tokens v, ru_cache_read_input_tokens v] \<and>
     list_all (in_range 0 (10 ^ 15)) (opt_list (ru_duration_ms v)) \<and>
     validate_cost (ru_reported_cost v)"

record runtime_event =
  re_runtime_event_id :: string
  re_runtime_event_sha256 :: string
  re_run_id :: string
  re_work_id :: string
  re_runtime_id :: string
  re_runtime_version :: "string option"
  re_sequence :: int
  re_kind :: runtime_event_kind
  re_occurred_at :: int
  re_source_refs :: "object_ref list"
  re_tool_call_sha256 :: "string option"
  re_tool_family :: "tool_family option"
  re_usage :: "runtime_usage option"
  re_failure_code :: "runtime_failure_code option"

section \<open>Identity\<close>

definition pending_runtime_event_id :: string where
  "pending_runtime_event_id = ''runtime-event://pending''"

definition pending_sha256 :: string where
  "pending_sha256 = replicate 64 CHR ''0''"

definition runtime_event_id_of :: "string \<Rightarrow> string" where
  "runtime_event_id_of d = ''runtime-event://sha256/'' @ d"

text \<open>The digest of the event without its own identity columns.\<close>

definition runtime_event_carried_sha256 :: "(runtime_event \<Rightarrow> string) \<Rightarrow> runtime_event \<Rightarrow> string" where
  "runtime_event_carried_sha256 dg v =
     dg (v\<lparr>re_runtime_event_id := [], re_runtime_event_sha256 := []\<rparr>)"

definition validate_runtime_event_identity :: "(runtime_event \<Rightarrow> string) \<Rightarrow> runtime_event \<Rightarrow> bool" where
  "validate_runtime_event_identity dg v \<longleftrightarrow>
     (re_runtime_event_id v = pending_runtime_event_id \<and> re_runtime_event_sha256 v = pending_sha256) \<or>
     (let d = runtime_event_carried_sha256 dg v
      in re_runtime_event_id v = runtime_event_id_of d \<and> re_runtime_event_sha256 v = d)"

definition validate_runtime_event :: "(runtime_event \<Rightarrow> string) \<Rightarrow> runtime_event \<Rightarrow> bool" where
  "validate_runtime_event dg v \<longleftrightarrow>
     list_all is_identifier [re_runtime_event_id v, re_run_id v, re_work_id v, re_runtime_id v] \<and>
     list_all (\<lambda>s. min_length 1 s \<and> max_length 256 s) (opt_list (re_runtime_version v)) \<and>
     in_range 1 10000000 (re_sequence v) \<and>
     min_length 1 (re_source_refs v) \<and> max_length 16 (re_source_refs v) \<and>
     list_all validate_runtime_usage (opt_list (re_usage v)) \<and>
     require_sorted_unique_refs (re_source_refs v) \<and>
     (if re_kind v \<in> {TOOL_CALL_STARTED, TOOL_CALL_PROGRESS, TOOL_CALL_COMPLETED}
      then re_tool_call_sha256 v \<noteq> None \<and> re_tool_family v \<noteq> None
      else re_tool_call_sha256 v = None \<and> re_tool_family v = None) \<and>
     (re_kind v = USAGE_REPORTED) = (re_usage v \<noteq> None) \<and>
     (re_kind v = RUN_FAILED) = (re_failure_code v \<noteq> None) \<and>
     validate_runtime_event_identity dg v"

text \<open>
  \<open>create\<close>: the arguments come in the fields of \<open>v\<close>. The event is validated under its pending identity and
  then copied under the derived one; sorting refuses duplicate sources.
\<close>

definition sorted_source_refs :: "object_ref list \<Rightarrow> object_ref list result" where
  "sorted_source_refs rs =
     (if distinct (map ref_key rs) then Inr (sorted_refs rs)
      else Inl (ValueError ''runtime event source refs must be unique''))"

definition create_runtime_event ::
  "(runtime_event \<Rightarrow> string) \<Rightarrow> runtime_event \<Rightarrow> runtime_event result" where
  "create_runtime_event dg v =
     rbind (sorted_source_refs (re_source_refs v)) (\<lambda>refs.
     let w = v\<lparr>re_runtime_event_id := pending_runtime_event_id, re_runtime_event_sha256 := pending_sha256,
               re_source_refs := refs\<rparr>;
         d = runtime_event_carried_sha256 dg w
     in rbind (guard (validate_runtime_event dg w) (ValueError ''runtime event'')) (\<lambda>_.
        Inr (w\<lparr>re_runtime_event_id := runtime_event_id_of d, re_runtime_event_sha256 := d\<rparr>)))"

definition runtime_event_ref :: "runtime_event \<Rightarrow> object_ref" where
  "runtime_event_ref v =
     ObjectRef ''runtime-event'' (re_runtime_event_id v) ''v2'' (re_runtime_event_sha256 v)"

section \<open>Laws\<close>

text \<open>
  A created event carries its derived identity. It is valid again only while its derived identifier is an
  identifier, which the digest, a parameter here, decides.
\<close>

lemma create_runtime_event_identity:
  assumes "create_runtime_event dg v = Inr w"
  shows "re_runtime_event_sha256 w = runtime_event_carried_sha256 dg w \<and>
         re_runtime_event_id w = runtime_event_id_of (re_runtime_event_sha256 w)"
  using assms by (auto simp: create_runtime_event_def runtime_event_carried_sha256_def Let_def)

lemma created_runtime_event_valid:
  assumes "create_runtime_event dg v = Inr w" and "is_identifier (re_runtime_event_id w)"
  shows "validate_runtime_event dg w"
  using assms create_runtime_event_identity [OF assms(1)]
  by (auto simp: create_runtime_event_def validate_runtime_event_def validate_runtime_event_identity_def Let_def)

end
