(* ===== verification/Session_Models.thy ===== *)
theory Session_Models
  imports Runtime_Event
begin

text \<open>
  The session contracts of \<open>harness/session_models.py\<close>: the reference to one incarnation of a session, the
  nine families of event payloads with their validators, commands and events, and the two validators of
  whole histories, of an event log and of a list of commands.
\<close>

section \<open>Event kinds\<close>

datatype session_lifecycle_event_kind =
    SESSION_OPENED | SESSION_CLOSED | TURN_STARTED | TURN_COMPLETED | STEP_STARTED | STEP_COMPLETED

datatype session_message_event_kind = SE_USER_MESSAGE | ASSISTANT_MESSAGE | ASSISTANT_CHUNK

datatype session_capability_event_kind = CAPABILITY_CALLED | CAPABILITY_RETURNED

datatype session_interaction_event_kind = INTERACTION_REQUESTED | INTERACTION_DECIDED

datatype session_checkpoint_event_kind = SE_GRAPH_CHECKPOINTED | SE_TEAM_CHECKPOINTED

datatype session_team_event_kind =
    SE_TEAM_CHANGED | SE_TEAM_MESSAGE_POSTED | SE_ARTIFACT_HEAD_CHANGED | SE_CONFLICT_OPENED
  | SE_CONFLICT_RESOLVED

datatype session_gateway_event_kind =
    GATEWAY_PREPARED | GATEWAY_COMPLETED | GATEWAY_FAILED | GATEWAY_UNKNOWN

datatype session_requirement_event_kind =
    SE_CLARIFICATION_REQUIRED | REQUIREMENT_READY | REQUIREMENT_BLOCKED

datatype session_command_kind =
    CM_USER_MESSAGE | CM_APPROVE | CM_REJECT | CM_INTERRUPT | CM_RESUME | CM_CANCEL

section \<open>References to a session\<close>

record harness_session_ref =
  sr_session_ref :: object_ref
  sr_incarnation_id :: string
  sr_session_version :: int
  sr_composition_ref :: object_ref

definition validate_session_ref :: "harness_session_ref \<Rightarrow> bool" where
  "validate_session_ref v \<longleftrightarrow>
     is_identifier (sr_incarnation_id v) \<and> in_range 0 1000000000 (sr_session_version v) \<and>
     require_ref (sr_session_ref v) ''harness-session'' \<and>
     require_ref (sr_composition_ref v) ''harness-composition''"

definition session_ref_refs :: "harness_session_ref \<Rightarrow> object_ref list" where
  "session_ref_refs v = [sr_session_ref v, sr_composition_ref v]"

section \<open>Payloads\<close>

datatype session_payload =
    SessionLifecyclePayload session_lifecycle_event_kind
  | SessionMessagePayload session_message_event_kind object_ref "object_ref list"
  | SessionCapabilityPayload session_capability_event_kind object_ref
  | SessionInteractionPayload session_interaction_event_kind object_ref
  | SessionCheckpointPayload session_checkpoint_event_kind object_ref
  | SessionTeamPayload session_team_event_kind object_ref
  | SessionGatewayPayload session_gateway_event_kind object_ref
  | SessionRequirementPayload session_requirement_event_kind object_ref
  | SessionRuntimePayload runtime_event_kind string object_ref

fun capability_record_type :: "session_capability_event_kind \<Rightarrow> string" where
  "capability_record_type CAPABILITY_CALLED = ''harness-capability-call''"
| "capability_record_type CAPABILITY_RETURNED = ''harness-capability-result''"

fun interaction_record_type :: "session_interaction_event_kind \<Rightarrow> string" where
  "interaction_record_type INTERACTION_REQUESTED = ''interaction-request''"
| "interaction_record_type INTERACTION_DECIDED = ''interaction-decision''"

fun checkpoint_record_type :: "session_checkpoint_event_kind \<Rightarrow> string" where
  "checkpoint_record_type SE_GRAPH_CHECKPOINTED = ''graph-checkpoint''"
| "checkpoint_record_type SE_TEAM_CHECKPOINTED = ''team-checkpoint''"

fun allowed_record_types :: "session_team_event_kind \<Rightarrow> string set" where
  "allowed_record_types SE_TEAM_CHANGED = {''agent-team'', ''team-roster'', ''team-task-graph''}"
| "allowed_record_types SE_TEAM_MESSAGE_POSTED = {''team-message''}"
| "allowed_record_types SE_ARTIFACT_HEAD_CHANGED = {''artifact-head''}"
| "allowed_record_types SE_CONFLICT_OPENED = {''team-conflict''}"
| "allowed_record_types SE_CONFLICT_RESOLVED = {''team-conflict''}"

text \<open>The checkpoint rule compares the version with itself, so only the type is required.\<close>

fun validate_payload :: "session_payload \<Rightarrow> bool" where
  "validate_payload (SessionLifecyclePayload kind) = True"
| "validate_payload (SessionMessagePayload kind message_ref artifact_refs) =
     (require_ref message_ref ''harness-message'' \<and> max_length 10000 artifact_refs \<and>
      require_sorted_unique_refs artifact_refs \<and> refs_of_type artifact_refs ''artifact-envelope'')"
| "validate_payload (SessionCapabilityPayload kind r) = require_ref r (capability_record_type kind)"
| "validate_payload (SessionInteractionPayload kind r) = require_ref r (interaction_record_type kind)"
| "validate_payload (SessionCheckpointPayload kind r) = (ref_type r = checkpoint_record_type kind)"
| "validate_payload (SessionTeamPayload kind r) = (ref_type r \<in> allowed_record_types kind)"
| "validate_payload (SessionGatewayPayload kind r) = require_ref r ''harness-gateway-journal''"
| "validate_payload (SessionRequirementPayload kind r) = require_ref r ''requirement-interpretation''"
| "validate_payload (SessionRuntimePayload kind runtime_id r) =
     (is_identifier runtime_id \<and> ref_type r = ''runtime-event'' \<and> ref_version r = ''v2'')"

fun payload_refs :: "session_payload \<Rightarrow> object_ref list" where
  "payload_refs (SessionLifecyclePayload kind) = []"
| "payload_refs (SessionMessagePayload kind message_ref artifact_refs) = message_ref # artifact_refs"
| "payload_refs (SessionCapabilityPayload kind r) = [r]"
| "payload_refs (SessionInteractionPayload kind r) = [r]"
| "payload_refs (SessionCheckpointPayload kind r) = [r]"
| "payload_refs (SessionTeamPayload kind r) = [r]"
| "payload_refs (SessionGatewayPayload kind r) = [r]"
| "payload_refs (SessionRequirementPayload kind r) = [r]"
| "payload_refs (SessionRuntimePayload kind runtime_id r) = [r]"

section \<open>Commands and events\<close>

record session_command = harness_object +
  sk_command_id :: string
  sk_session :: harness_session_ref
  sk_command_kind :: session_command_kind
  sk_expected_event_sequence :: int
  sk_authority_ref :: object_ref
  sk_principal_ref :: object_ref
  sk_subject_refs :: "object_ref list"
  sk_idempotency_key :: string

definition validate_session_command :: "session_command \<Rightarrow> bool" where
  "validate_session_command v \<longleftrightarrow>
     is_identifier (sk_command_id v) \<and> is_identifier (sk_idempotency_key v) \<and>
     validate_session_ref (sk_session v) \<and> in_range 0 1000000000 (sk_expected_event_sequence v) \<and>
     max_length 10000 (sk_subject_refs v) \<and>
     require_ref (sk_authority_ref v) ''execution-authority'' \<and>
     require_sorted_unique_refs (sk_subject_refs v)"

definition session_command_class :: "(session_command \<Rightarrow> string) \<Rightarrow> session_command harness_class" where
  "session_command_class dg =
     \<lparr>object_type = ''session-command'', digest = dg,
      direct_refs = (\<lambda>v. session_ref_refs (sk_session v) @
                         [sk_authority_ref v, sk_principal_ref v] @ sk_subject_refs v),
      validates = validate_session_command\<rparr>"

definition create_session_command ::
  "(session_command \<Rightarrow> string) \<Rightarrow> contract_audit \<Rightarrow> session_command \<Rightarrow> session_command result" where
  "create_session_command dg aud v =
     create (session_command_class dg) aud (v\<lparr>sk_subject_refs := sorted_refs (sk_subject_refs v)\<rparr>)"

record session_event = harness_object +
  se_event_id :: string
  se_session :: harness_session_ref
  se_sequence :: int
  se_authority_version :: int
  se_turn_id :: "string option"
  se_step_id :: "string option"
  se_command_ref :: "object_ref option"
  se_payload :: session_payload
  se_occurred_at :: int

definition validate_session_event :: "session_event \<Rightarrow> bool" where
  "validate_session_event v \<longleftrightarrow>
     is_identifier (se_event_id v) \<and> validate_session_ref (se_session v) \<and>
     in_range 1 1000000000 (se_sequence v) \<and> in_range 0 1000000000 (se_authority_version v) \<and>
     list_all is_identifier (opt_list (se_turn_id v)) \<and> list_all is_identifier (opt_list (se_step_id v)) \<and>
     validate_payload (se_payload v) \<and>
     (case se_step_id v of None \<Rightarrow> True | Some s \<Rightarrow> se_turn_id v \<noteq> None) \<and>
     require_opt_ref (se_command_ref v) ''session-command''"

definition session_event_class :: "(session_event \<Rightarrow> string) \<Rightarrow> session_event harness_class" where
  "session_event_class dg =
     \<lparr>object_type = ''session-event'', digest = dg,
      direct_refs = (\<lambda>v. session_ref_refs (se_session v) @ opt_list (se_command_ref v) @
                         payload_refs (se_payload v)),
      validates = validate_session_event\<rparr>"

section \<open>Validators of histories\<close>

definition session_identity_of :: "session_event \<Rightarrow> object_ref \<times> string \<times> object_ref" where
  "session_identity_of v =
     (sr_session_ref (se_session v), sr_incarnation_id (se_session v), sr_composition_ref (se_session v))"

text \<open>The loop of \<open>validate_session_event_log\<close> with its local variables as arguments.\<close>

fun session_log_loop ::
  "object_ref \<times> string \<times> object_ref \<Rightarrow> int \<Rightarrow> string list \<Rightarrow> int \<Rightarrow> int \<Rightarrow> session_event list \<Rightarrow>
   unit result" where
  "session_log_loop ident expected seen prior_authority prior_version [] = Inr ()"
| "session_log_loop ident expected seen prior_authority prior_version (v # vs) =
     (if session_identity_of v \<noteq> ident
      then Inl (ValueError ''session event log cannot mix session incarnations'')
      else if se_sequence v \<noteq> expected
      then Inl (ValueError ''session event sequence must be contiguous from one'')
      else if se_event_id v \<in> set seen
      then Inl (ValueError ''session event IDs must be unique'')
      else if se_authority_version v < prior_authority
      then Inl (ValueError ''session authority version cannot move backward'')
      else if sr_session_version (se_session v) < prior_version
      then Inl (ValueError ''session version cannot move backward'')
      else session_log_loop ident (expected + 1) (se_event_id v # seen) (se_authority_version v)
             (sr_session_version (se_session v)) vs)"

definition validate_session_event_log :: "session_event list \<Rightarrow> unit result" where
  "validate_session_event_log vs =
     (case vs of [] \<Rightarrow> Inr () | v # _ \<Rightarrow> session_log_loop (session_identity_of v) 1 [] 0 0 vs)"

fun session_commands_loop ::
  "(string \<rightharpoonup> object_ref) \<Rightarrow> (string \<rightharpoonup> object_ref) \<Rightarrow> session_command list \<Rightarrow> unit result" where
  "session_commands_loop authorities command_refs [] = Inr ()"
| "session_commands_loop authorities command_refs (v # vs) =
     (let k = sk_idempotency_key v; r = to_ref ''session-command'' v
      in if command_refs k \<noteq> None \<and> command_refs k \<noteq> Some r
         then Inl (ValueError ''idempotency key cannot identify different commands'')
         else if authorities k \<noteq> None \<and> authorities k \<noteq> Some (sk_authority_ref v)
         then Inl (ValueError ''idempotent command cannot change authority version'')
         else session_commands_loop (authorities(k \<mapsto> sk_authority_ref v)) (command_refs(k \<mapsto> r)) vs)"

definition validate_session_commands :: "session_command list \<Rightarrow> unit result" where
  "validate_session_commands vs = session_commands_loop Map.empty Map.empty vs"

abbreviation session_event_ref_of :: "session_event \<Rightarrow> object_ref" where
  "session_event_ref_of \<equiv> to_ref ''session-event''"

section \<open>The classes keep the identity laws\<close>

lemma session_command_class_sel [simp]:
  "object_type (session_command_class dg) = ''session-command''" "digest (session_command_class dg) = dg"
  "direct_refs (session_command_class dg) =
     (\<lambda>v. session_ref_refs (sk_session v) @ [sk_authority_ref v, sk_principal_ref v] @ sk_subject_refs v)"
  "validates (session_command_class dg) = validate_session_command"
  by (simp_all add: session_command_class_def)

lemma session_event_class_sel [simp]:
  "object_type (session_event_class dg) = ''session-event''" "digest (session_event_class dg) = dg"
  "direct_refs (session_event_class dg) =
     (\<lambda>v. session_ref_refs (se_session v) @ opt_list (se_command_ref v) @ payload_refs (se_payload v))"
  "validates (session_event_class dg) = validate_session_event"
  by (simp_all add: session_event_class_def)

interpretation session_command: harness_laws "session_command_class dg" for dg
  by unfold_locales (simp_all add: session_command_class_def)

interpretation session_event: harness_laws "session_event_class dg" for dg
  by unfold_locales (simp_all add: session_event_class_def)

section \<open>What the log validator accepts\<close>

text \<open>
  The reference reading of an accepted log: one incarnation, numbered from one, distinct identifiers, and
  authority and session versions that never decrease.
\<close>

definition session_log_ok :: "session_event list \<Rightarrow> bool" where
  "session_log_ok vs \<longleftrightarrow>
     (\<forall>v\<in>set vs. \<forall>w\<in>set vs. session_identity_of v = session_identity_of w) \<and>
     map se_sequence vs = [1..int (length vs)] \<and>
     distinct (map se_event_id vs) \<and>
     sorted (map se_authority_version vs) \<and> (\<forall>v\<in>set vs. 0 \<le> se_authority_version v) \<and>
     sorted (map (\<lambda>v. sr_session_version (se_session v)) vs) \<and>
     (\<forall>v\<in>set vs. 0 \<le> sr_session_version (se_session v))"

lemma session_log_loop_iff:
  "session_log_loop ident n seen a s vs = Inr () \<longleftrightarrow>
     (\<forall>v\<in>set vs. session_identity_of v = ident) \<and>
     map se_sequence vs = [n..n + int (length vs) - 1] \<and>
     distinct (map se_event_id vs) \<and> set seen \<inter> se_event_id ` set vs = {} \<and>
     sorted (a # map se_authority_version vs) \<and>
     sorted (s # map (\<lambda>v. sr_session_version (se_session v)) vs)"
proof (induction vs arbitrary: n seen a s)
  case Nil
  then show ?case by simp
next
  case (Cons v vs)
  have up: "[n..n + int (length (v # vs)) - 1] = n # [n + 1..n + 1 + int (length vs) - 1]"
    by (subst upto_rec1) simp_all
  have step: "session_log_loop ident n seen a s (v # vs) = Inr () \<longleftrightarrow>
      session_identity_of v = ident \<and> se_sequence v = n \<and> se_event_id v \<notin> set seen \<and>
      a \<le> se_authority_version v \<and> s \<le> sr_session_version (se_session v) \<and>
      session_log_loop ident (n + 1) (se_event_id v # seen) (se_authority_version v)
        (sr_session_version (se_session v)) vs = Inr ()"
    by (simp add: not_less)
  show ?case
    unfolding step Cons.IH up list.map sorted2 distinct.simps list.set(2) set_map image_insert list.inject
      insert_disjoint disjoint_insert ball_simps(7)
    by (intro iffI; elim conjE; intro conjI; (assumption | simp)?)
qed

lemma validate_session_event_log_ok:
  "validate_session_event_log vs = Inr () \<longleftrightarrow> session_log_ok vs"
proof (cases vs)
  case Nil
  then show ?thesis by (simp add: validate_session_event_log_def session_log_ok_def)
next
  case (Cons v ws)
  have loop: "validate_session_event_log vs = session_log_loop (session_identity_of v) 1 [] 0 0 vs"
    by (simp add: validate_session_event_log_def Cons)
  have ident: "(\<forall>x\<in>set vs. session_identity_of x = session_identity_of v) \<longleftrightarrow>
      (\<forall>x\<in>set vs. \<forall>y\<in>set vs. session_identity_of x = session_identity_of y)"
    using Cons by (metis list.set_intros(1))
  show ?thesis
    unfolding loop session_log_loop_iff ident session_log_ok_def by (simp add: ball_conj_distrib conj_ac)
qed

end
