(* ===== verification/Team_Coordinator.thy ===== *)
theory Team_Coordinator
  imports Store_Rework Session_Models
begin

text \<open>
  The clients of the store that decide and deliver: \<open>TeamCoordinator\<close> of \<open>team/convergence.py\<close> and
  \<open>TeamSessionReconciler\<close> of \<open>team/service.py\<close>. Each store call they make is a transaction of its own,
  so a step that fails leaves what the earlier calls committed. The session sink is a parameter: a
  function from a delivery and the sink's state to an event or an error and the next state.
\<close>

section \<open>Sequencing transactions\<close>

definition then_do :: "'a result \<times> 'd \<Rightarrow> ('a \<Rightarrow> 'd \<Rightarrow> 'b result \<times> 'd) \<Rightarrow> 'b result \<times> 'd" where
  "then_do m f = (case m of (Inl err, d) \<Rightarrow> (Inl err, d) | (Inr x, d) \<Rightarrow> f x d)"

lemma then_do_simps [simp]:
  "then_do (Inl err, d) f = (Inl err, d)" "then_do (Inr x, d) f = f x d"
  by (simp_all add: then_do_def)

definition reading :: "'a result \<Rightarrow> 'd \<Rightarrow> 'a result \<times> 'd" where
  "reading r d = (r, d)"

section \<open>Challenges\<close>

text \<open>The message kinds by which the challenger closes its own challenge.\<close>

definition closes_challenge :: "team_message \<Rightarrow> team_message \<Rightarrow> bool" where
  "closes_challenge challenge response \<longleftrightarrow>
     ms_reply_to_message_ref response = Some (message_ref_of challenge) \<and>
     ms_sender_member_ref response = ms_sender_member_ref challenge \<and>
     ms_task_ref response = ms_task_ref challenge \<and>
     ms_message_kind response \<in> {ACKNOWLEDGEMENT, REVIEW_RESPONSE}"

definition open_challenges :: "team_message list \<Rightarrow> team_message list" where
  "open_challenges msgs =
     filter (\<lambda>c. ms_message_kind c = CHALLENGE \<and> \<not> list_ex (closes_challenge c) msgs) msgs"

definition challenge_rework_tasks ::
  "team_message \<Rightarrow> team_task list \<Rightarrow> team_member list \<Rightarrow> string list result" where
  "challenge_rework_tasks challenge tasks members =
     (case (find (\<lambda>t. Some (task_ref_of t) = ms_task_ref challenge) tasks,
            find (\<lambda>m. member_ref_of m = ms_sender_member_ref challenge) members) of
        (Some challenged, Some sender) \<Rightarrow>
          (let owner = find (\<lambda>m. Some (mb_member_id m) = tk_assigned_member_id challenged) members
           in if ms_audience challenge \<noteq> DIRECT \<or>
                 (case owner of None \<Rightarrow> True
                  | Some m \<Rightarrow> member_ref_of m \<notin> set (ms_recipient_member_refs challenge))
              then Inl (TeamTaskStateError ''challenge does not target the current task owner'')
              else Inr (sort (remdups (tk_task_id challenged #
                     map tk_task_id (filter (\<lambda>t. tk_assigned_member_id t = Some (mb_member_id sender)) tasks)))))
      | _ \<Rightarrow> Inl (TeamTaskStateError ''challenge authority is stale''))"

section \<open>Recording a decision\<close>

definition checkpoint_key :: "string \<Rightarrow> string" where
  "checkpoint_key decision_key = decision_key @ ''.checkpoint''"

definition record_key :: "string \<Rightarrow> string" where
  "record_key decision_key = decision_key @ ''.record''"

definition rework_key :: "string \<Rightarrow> string" where
  "rework_key decision_key = decision_key @ ''.rework''"

definition decision_of ::
  "env \<Rightarrow> team_snapshot \<Rightarrow> team_snapshot \<Rightarrow> team_checkpoint \<Rightarrow> convergence_outcome \<Rightarrow> object_ref list \<Rightarrow>
   string list \<Rightarrow> contract_audit \<Rightarrow> string \<Rightarrow> convergence_decision result" where
  "decision_of e before after checkpoint outcome blockers codes aud decision_key =
     (let successor = (\<lambda>r. if outcome = REWORK then Some r else None)
      in create_decision (dg_decision e) aud
           \<lparr>object_id = [], object_sha256 = [], audit = no_audit, dc_decision_key = decision_key,
            dc_team_ref = team_ref_of (sn_team before), dc_graph_ref = graph_ref_of (sn_graph before),
            dc_authority_ref = authority_ref_of (sn_authority before),
            dc_checkpoint_ref = checkpoint_ref_of checkpoint, dc_outcome = outcome,
            dc_blocking_refs = sorted_refs blockers,
            dc_successor_team_ref = successor (team_ref_of (sn_team after)),
            dc_successor_graph_ref = successor (graph_ref_of (sn_graph after)),
            dc_successor_authority_ref = successor (authority_ref_of (sn_authority after)),
            dc_reason_codes = codes\<rparr>)"

text \<open>\<open>_record\<close>: a checkpoint, the decision over it, and the stored decision. \<open>clk i\<close> is the clock of the
  i-th transaction of \<open>converge\<close>.\<close>

definition record_decision ::
  "env \<Rightarrow> (nat \<Rightarrow> nat \<Rightarrow> int) \<Rightarrow> string \<Rightarrow> team_snapshot \<Rightarrow> team_snapshot \<Rightarrow> convergence_outcome \<Rightarrow>
   object_ref list \<Rightarrow> string list \<Rightarrow> contract_audit \<Rightarrow> string \<Rightarrow> db \<Rightarrow> convergence_decision result \<times> db" where
  "record_decision e clk team_id before after outcome blockers codes aud decision_key d =
     then_do (transact (create_checkpoint e (clk 1) team_id aud (checkpoint_key decision_key)) d) (\<lambda>checkpoint d1.
     then_do (reading (decision_of e before after checkpoint outcome blockers codes aud decision_key) d1)
       (\<lambda>decision d2.
     transact (record_convergence e (clk 2) decision (record_key decision_key)) d2))"

section \<open>The decision\<close>

definition work_refs :: "task_work list \<Rightarrow> object_ref list" where
  "work_refs ws = map (\<lambda>w. task_ref_of (tw_task w)) ws"

definition missing_head_ids :: "team_snapshot \<Rightarrow> artifact_head list \<Rightarrow> string list" where
  "missing_head_ids sn heads =
     filter (\<lambda>i. i \<notin> set (map hd_head_id heads))
       (concat (map tk_output_artifact_head_ids
          (filter (\<lambda>t. tk_assigned_member_id t \<noteq> Some (tm_coordinator_member_id (sn_team sn)))
             (gr_tasks (sn_graph sn)))))"

definition runnable_work :: "task_work list \<Rightarrow> task_work list" where
  "runnable_work ws = filter (\<lambda>w. tw_status w \<in> {READY, CLAIMED, ACTIVE}) ws"

definition failed_work :: "task_work list \<Rightarrow> task_work list" where
  "failed_work ws = filter (\<lambda>w. tw_status w \<in> {FAILED, CANCELLED, BLOCKED}) ws"

definition rework_or_block ::
  "env \<Rightarrow> (nat \<Rightarrow> nat \<Rightarrow> int) \<Rightarrow> string \<Rightarrow> team_snapshot \<Rightarrow> team_message list \<Rightarrow> contract_audit \<Rightarrow> string \<Rightarrow>
   db \<Rightarrow> convergence_decision result \<times> db" where
  "rework_or_block e clk team_id before challenges aud decision_key d =
     then_do (reading (challenge_rework_tasks (hd challenges) (gr_tasks (sn_graph before))
                (ro_members (sn_roster before))) d) (\<lambda>reset d1.
     case transact (revise_for_rework e (clk 0) team_id (team_ref_of (sn_team before))
                      (graph_ref_of (sn_graph before)) (authority_ref_of (sn_authority before)) reset aud
                      (rework_key decision_key)) d1 of
       (Inl (TeamTaskStateError m), d2) \<Rightarrow>
         record_decision e clk team_id before before CO_BLOCKED (map message_ref_of challenges)
           [''REWORK_BUDGET_EXHAUSTED''] aud decision_key d2
     | (Inl err, d2) \<Rightarrow> (Inl err, d2)
     | (Inr after, d2) \<Rightarrow>
         record_decision e clk team_id before after REWORK (map message_ref_of challenges)
           [''DIRECT_CHALLENGE_REWORK''] aud decision_key d2)"

definition decide ::
  "env \<Rightarrow> (nat \<Rightarrow> nat \<Rightarrow> int) \<Rightarrow> string \<Rightarrow> convergence_source \<Rightarrow> contract_audit \<Rightarrow> string \<Rightarrow> db \<Rightarrow>
   convergence_decision result \<times> db" where
  "decide e clk team_id src aud decision_key d =
     (let before = cs_snapshot src; work = cs_work src; challenges = open_challenges (cs_messages src);
          record = (\<lambda>outcome blockers codes. record_decision e clk team_id before before outcome blockers codes
                      aud decision_key d);
          missing = missing_head_ids before (cs_artifact_heads src);
          all_completed = (work \<noteq> [] \<and> list_all (\<lambda>w. tw_status w = COMPLETED) work)
      in if cs_conflicts src \<noteq> []
         then record CO_BLOCKED (map conflict_ref_of (cs_conflicts src)) [''OPEN_CONFLICT'']
         else if runnable_work work \<noteq> []
         then record CONTINUE (work_refs (runnable_work work)) [''WORK_REMAINS'']
         else if challenges \<noteq> [] then rework_or_block e clk team_id before challenges aud decision_key d
         else if failed_work work \<noteq> []
         then record CO_BLOCKED (work_refs (failed_work work)) [''TERMINAL_TASK_FAILURE'']
         else if all_completed \<and> missing = [] then record COMPLETE [] []
         else if all_completed
         then record CO_BLOCKED
                (map task_ref_of (filter (\<lambda>t. set (tk_output_artifact_head_ids t) \<inter> set missing \<noteq> {})
                   (gr_tasks (sn_graph before)))) [''REQUIRED_ARTIFACT_HEAD_MISSING'']
         else record CO_BLOCKED (work_refs work) [''NO_RUNNABLE_WORK''])"

definition converge ::
  "env \<Rightarrow> (nat \<Rightarrow> nat \<Rightarrow> int) \<Rightarrow> string \<Rightarrow> contract_audit \<Rightarrow> string \<Rightarrow> db \<Rightarrow> convergence_decision result \<times> db" where
  "converge e clk team_id aud decision_key d =
     then_do (reading (convergence_source_of e d team_id) d) (\<lambda>src d1.
     decide e clk team_id src aud decision_key d1)"

section \<open>Session reconciliation\<close>

definition team_payload :: "session_team_event_kind \<Rightarrow> object_ref \<Rightarrow> session_payload result" where
  "team_payload kind r =
     rbind (guard (validate_payload (SessionTeamPayload kind r))
       (ValueError ''Team event record type does not match event kind'')) (\<lambda>_.
     Inr (SessionTeamPayload kind r))"

definition checkpoint_payload :: "object_ref \<Rightarrow> session_payload result" where
  "checkpoint_payload r =
     rbind (guard (validate_payload (SessionCheckpointPayload SE_TEAM_CHECKPOINTED r))
       (ValueError ''checkpoint_ref'')) (\<lambda>_.
     Inr (SessionCheckpointPayload SE_TEAM_CHECKPOINTED r))"

definition session_payload_of :: "outbox_record \<Rightarrow> session_payload result" where
  "session_payload_of rec =
     (case ob_event_kind rec of
        TEAM_CHECKPOINTED \<Rightarrow> checkpoint_payload (ob_record_ref rec)
      | TEAM_CHANGED \<Rightarrow> team_payload SE_TEAM_CHANGED (ob_record_ref rec)
      | TEAM_MESSAGE_POSTED \<Rightarrow> team_payload SE_TEAM_MESSAGE_POSTED (ob_record_ref rec)
      | ARTIFACT_HEAD_CHANGED \<Rightarrow> team_payload SE_ARTIFACT_HEAD_CHANGED (ob_record_ref rec)
      | CONFLICT_OPENED \<Rightarrow> team_payload SE_CONFLICT_OPENED (ob_record_ref rec)
      | CONFLICT_RESOLVED \<Rightarrow> team_payload SE_CONFLICT_RESOLVED (ob_record_ref rec))"

text \<open>The keyword arguments of \<open>append_team_event\<close>.\<close>

record session_delivery =
  sd_session_ref :: object_ref
  sd_source_outbox_ref :: object_ref
  sd_team_authority_version :: int
  sd_payload :: session_payload
  sd_audit :: contract_audit
  sd_idempotency_key :: string

definition delivery_key :: "outbox_record \<Rightarrow> object_ref \<Rightarrow> string" where
  "delivery_key rec session_ref =
     ''team-outbox.'' @ object_sha256 rec @ ''.'' @ ref_sha session_ref"

definition delivery_for ::
  "env \<Rightarrow> db \<Rightarrow> contract_audit \<Rightarrow> outbox_record \<times> object_ref \<Rightarrow> session_delivery result" where
  "delivery_for e d aud p =
     rbind (get_snapshot_at e d (ob_aggregate_ref (fst p))) (\<lambda>sn.
     rbind (session_payload_of (fst p)) (\<lambda>payload.
     Inr \<lparr>sd_session_ref = snd p, sd_source_outbox_ref = outbox_ref_of (fst p),
          sd_team_authority_version = au_authority_version (sn_authority sn), sd_payload = payload,
          sd_audit = aud, sd_idempotency_key = delivery_key (fst p) (snd p)\<rparr>))"

text \<open>One delivery: the sink first, then the delivery mark; a sink error leaves the pair pending.\<close>

definition deliver_one ::
  "env \<Rightarrow> (nat \<Rightarrow> int) \<Rightarrow> (session_delivery \<Rightarrow> 's \<Rightarrow> 'ev result \<times> 's) \<Rightarrow> contract_audit \<Rightarrow>
   outbox_record \<times> object_ref \<Rightarrow> db \<times> 's \<Rightarrow> 'ev result \<times> (db \<times> 's)" where
  "deliver_one e clk sink aud p st =
     then_do (reading (delivery_for e (fst st) aud p) st) (\<lambda>req st1.
     then_do (case sink req (snd st1) of (r, s) \<Rightarrow> (r, (fst st1, s))) (\<lambda>event st2.
     case transact (mark_outbox_delivered e clk (outbox_ref_of (fst p)) (snd p)) (fst st2) of
       (Inl err, d) \<Rightarrow> (Inl err, (d, snd st2))
     | (Inr _, d) \<Rightarrow> (Inr event, (d, snd st2))))"

fun deliver_all ::
  "env \<Rightarrow> (nat \<Rightarrow> nat \<Rightarrow> int) \<Rightarrow> (session_delivery \<Rightarrow> 's \<Rightarrow> 'ev result \<times> 's) \<Rightarrow> contract_audit \<Rightarrow> nat \<Rightarrow>
   (outbox_record \<times> object_ref) list \<Rightarrow> db \<times> 's \<Rightarrow> 'ev list result \<times> (db \<times> 's)" where
  "deliver_all e clk sink aud n [] st = (Inr [], st)"
| "deliver_all e clk sink aud n (p # ps) st =
     then_do (deliver_one e (clk n) sink aud p st) (\<lambda>event st1.
     then_do (deliver_all e clk sink aud (Suc n) ps st1) (\<lambda>events st2.
     (Inr (event # events), st2)))"

definition reconcile ::
  "env \<Rightarrow> (nat \<Rightarrow> nat \<Rightarrow> int) \<Rightarrow> (session_delivery \<Rightarrow> 's \<Rightarrow> 'ev result \<times> 's) \<Rightarrow> string \<Rightarrow> contract_audit \<Rightarrow> int \<Rightarrow>
   db \<times> 's \<Rightarrow> 'ev list result \<times> (db \<times> 's)" where
  "reconcile e clk sink team_id aud limit st =
     then_do (reading (pending_outbox e (fst st) team_id limit) st) (\<lambda>pending st1.
     deliver_all e clk sink aud 0 pending st1)"

end
