(* ===== verification/Outbox_Properties.thy ===== *)
theory Outbox_Properties
  imports Sample_Store Team_Coordinator
begin

text \<open>
  Reading numbered tables by page and delivering the outbox: the pages of a cursor are consecutive
  segments of the table, the paging loop of \<open>pending_outbox\<close> returns the first undelivered pairs, and
  reconciliation delivers them in order and never again.
\<close>

section \<open>Pages of a numbered table\<close>

locale numbered_table =
  fixes rows :: "'r list" and seq :: "'r \<Rightarrow> int"
  assumes numbered_rows: "numbered (map seq rows)"
begin

lemma seq_nth: "i < length rows \<Longrightarrow> seq (rows ! i) = int i + 1"
proof -
  assume i: "i < length rows"
  have "map seq rows ! i = [1..int (length rows)] ! i"
    using numbered_rows by (simp add: numbered_def)
  then show ?thesis using i by simp
qed

lemma page_drop: "sort_key seq (filter (\<lambda>r. int k < seq r) rows) = drop k rows"
proof -
  have "filter (\<lambda>r. int k < seq r) (take k rows) = []"
    by (auto simp: filter_empty_conv in_set_conv_nth seq_nth)
  moreover have "filter (\<lambda>r. int k < seq r) (drop k rows) = drop k rows"
    by (auto simp: filter_id_conv in_set_conv_nth seq_nth)
  ultimately have "filter (\<lambda>r. int k < seq r) rows = drop k rows"
    by (metis append_take_drop_id filter_append self_append_conv2)
  moreover have "map seq (drop k rows) = drop k [1..int (length rows)]"
    using numbered_rows by (metis drop_map length_map numbered_def)
  then have "sorted (map seq (drop k rows))" by (simp add: sorted_wrt_drop)
  ultimately show ?thesis by (simp add: sort_key_id_if_sorted)
qed

text \<open>The cursor after a page of \<open>n\<close> rows is the position reached.\<close>

lemma cursor_after_page:
  assumes "take n (drop k rows) \<noteq> []"
  shows "seq (last (take n (drop k rows))) = int (k + length (take n (drop k rows)))"
proof -
  let ?m = "length (take n (drop k rows))"
  have m: "0 < ?m" "k + (?m - 1) < length rows" using assms by auto
  have "last (take n (drop k rows)) = rows ! (k + (?m - 1))"
    using m by (subst last_conv_nth) (use assms in \<open>auto simp: nth_append\<close>)
  moreover have "int (k + (?m - 1)) + 1 = int (k + ?m)" using m(1) by linarith
  ultimately show ?thesis using seq_nth [OF m(2)] by presburger
qed

end

interpretation outbox_table: numbered_table "team_outbox (run_calls e cs empty_db) T" ox_sequence for e cs T
  by unfold_locales (use run_sequence_inv [of empty_db e cs] empty_inv in \<open>simp add: store_inv_def sequence_inv_def\<close>)

interpretation message_table: numbered_table "team_message_rows (run_calls e cs empty_db) T" mr_sequence for e cs T
  by unfold_locales (use run_sequence_inv [of empty_db e cs] empty_inv in \<open>simp add: store_inv_def sequence_inv_def\<close>)

section \<open>The paging loop\<close>

definition undelivered_pairs :: "db \<Rightarrow> string \<Rightarrow> (outbox_record \<times> object_ref) list" where
  "undelivered_pairs d team_id = concat (map (\<lambda>r. undelivered d (ox_record r)) (team_outbox d team_id))"

definition readable_outbox :: "env \<Rightarrow> db \<Rightarrow> string \<Rightarrow> bool" where
  "readable_outbox e d team_id \<longleftrightarrow>
     numbered_table (team_outbox d team_id) ox_sequence \<and>
     (\<forall>r\<in>set (team_outbox d team_id).
        parse_record (outbox_cls e) ''Team outbox'' (ox_record r) = Inr (ox_record r))"

lemma run_outbox_inv: "outbox_inv e (run_calls e cs empty_db)"
  using outbox.step_run [of e empty_db cs] by (simp add: outbox_frame_def outbox_inv_def empty_db_def)

lemma run_readable_outbox: "readable_outbox e (run_calls e cs empty_db) T"
  using run_outbox_inv [of e cs] outbox_table.numbered_table_axioms
  by (auto simp: readable_outbox_def outbox_inv_def team_outbox_def)

text \<open>One page contributes its undelivered pairs until the limit is reached.\<close>

lemma pending_rows_spec:
  assumes "\<forall>r\<in>set rs. parse_record (outbox_cls e) ''Team outbox'' (ox_record r) = Inr (ox_record r)"
  shows "\<exists>acc'. pending_rows e d limit rs acc = Inr acc' \<and>
    (let all = acc @ concat (map (\<lambda>r. undelivered d (ox_record r)) rs)
     in take limit acc' = take limit all \<and> (acc' = all \<or> limit \<le> length acc'))"
  using assms
proof (induction rs arbitrary: acc)
  case Nil
  then show ?case by simp
next
  case (Cons r rs)
  let ?acc = "acc @ undelivered d (ox_record r)"
  show ?case
  proof (cases "limit \<le> length ?acc")
    case True
    then show ?thesis using Cons.prems by (simp add: Let_def)
  next
    case False
    then show ?thesis using Cons.prems Cons.IH [of ?acc] by simp
  qed
qed

lemma take_take_drop: "take n (drop k xs) @ drop (k + length (take n (drop k xs))) xs = drop k xs"
proof -
  have "drop (k + length (take n (drop k xs))) xs = drop n (drop k xs)"
    by (cases "n \<le> length xs - k") (simp_all add: add.commute)
  then show ?thesis by (metis append_take_drop_id)
qed

lemma take_append_cong:
  assumes "take n xs = take n ys" and "n \<le> length xs"
  shows "take n (xs @ zs) = take n (ys @ zs)"
proof -
  have "n \<le> length ys" using assms by (metis length_take min.absorb_iff2 min.commute)
  then show ?thesis using assms by simp
qed

lemma pending_loop_spec:
  assumes ro: "readable_outbox e d team_id" and lim: "0 < limit"
  shows "\<exists>acc'. pending_loop e d team_id limit (int k) acc = Inr acc' \<and>
    take limit acc' =
      take limit (acc @ concat (map (\<lambda>r. undelivered d (ox_record r)) (drop k (team_outbox d team_id))))"
proof (induction "length (team_outbox d team_id) - k" arbitrary: k acc rule: less_induct)
  case less
  let ?rows = "team_outbox d team_id" and ?u = "\<lambda>rs. concat (map (\<lambda>r. undelivered d (ox_record r)) rs)"
  have nt: "numbered_table ?rows ox_sequence" using ro by (simp add: readable_outbox_def)
  define page where "page = take limit (drop k ?rows)"
  have pg: "outbox_page d team_id (int k) = drop k ?rows"
    by (simp add: outbox_page_def numbered_table.page_drop [OF nt])
  note unfold = pending_loop.simps [of e d team_id limit "int k" acc, unfolded pg, folded page_def]
  show ?case
  proof (cases "limit \<le> length acc \<or> page = []")
    case True
    then show ?thesis using lim unfold by (auto simp: page_def)
  next
    case False
    have "set page \<subseteq> set ?rows" by (auto simp: page_def dest: in_set_takeD in_set_dropD)
    then have "\<forall>r\<in>set page. parse_record (outbox_cls e) ''Team outbox'' (ox_record r) = Inr (ox_record r)"
      using ro by (auto simp: readable_outbox_def)
    then obtain acc' where acc': "pending_rows e d limit page acc = Inr acc'"
      "take limit acc' = take limit (acc @ ?u page)" "acc' = acc @ ?u page \<or> limit \<le> length acc'"
      using pending_rows_spec [of page e d limit acc] by (auto simp: Let_def)
    have rest: "drop k ?rows = page @ drop (k + length page) ?rows"
      using take_take_drop [of limit k ?rows, folded page_def] by simp
    have full: "take limit (acc @ ?u (drop k ?rows)) = take limit (acc' @ ?u (drop (k + length page) ?rows))"
      using acc'(2,3) take_append_cong [of limit acc' "acc @ ?u page"] by (auto simp: rest)
    show ?thesis
    proof (cases "length page < limit")
      case True
      then have "drop (k + length page) ?rows = []" by (simp add: page_def)
      then show ?thesis using False True acc' unfold full by simp
    next
      case not_short: False
      have "0 < length page" using False by simp
      then have lt: "length ?rows - (k + length page) < length ?rows - k"
        by (simp add: page_def) linarith
      have cur: "ox_sequence (last page) = int (k + length page)"
        using numbered_table.cursor_after_page [OF nt] False by (simp add: page_def)
      show ?thesis
        using less [OF lt, of acc'] False not_short acc'(1) unfold full by (simp add: cur)
    qed
  qed
qed

lemma pending_outbox_spec:
  assumes "readable_outbox e d team_id"
  shows "pending_outbox e d team_id limit =
    (if \<not> in_range 1 1000 limit then Inl (ValueError ''outbox page is out of bounds'')
     else rbind (snapshot e d team_id) (\<lambda>_. Inr (take (nat limit) (undelivered_pairs d team_id))))"
proof (cases "in_range 1 1000 limit")
  case True
  then have "0 < nat limit" by (simp add: in_range_def)
  from pending_loop_spec [OF assms this, of 0 "[]"] obtain acc' where
    "pending_loop e d team_id (nat limit) 0 [] = Inr acc'"
    "take (nat limit) acc' = take (nat limit) (undelivered_pairs d team_id)"
    by (auto simp: undelivered_pairs_def)
  then show ?thesis using True by (cases "snapshot e d team_id") (simp_all add: pending_outbox_def)
next
  case False
  then show ?thesis by (simp add: pending_outbox_def)
qed

text \<open>
  C24: In every store a run produces, the paging loop of \<open>pending_outbox\<close> terminates and returns exactly
  the first \<open>limit\<close> pairs of outbox record and member session that are not marked delivered, in outbox
  order, whatever the page boundaries; it fails only for a limit outside 1 to 1000 or an unreadable Team.
\<close>

theorem pending_outbox_reference:
  "pending_outbox e (run_calls e cs empty_db) team_id limit =
     (if \<not> in_range 1 1000 limit then Inl (ValueError ''outbox page is out of bounds'')
      else rbind (snapshot e (run_calls e cs empty_db) team_id)
             (\<lambda>_. Inr (take (nat limit) (undelivered_pairs (run_calls e cs empty_db) team_id))))"
  by (rule pending_outbox_spec [OF run_readable_outbox])

text \<open>
  Message pages are positional. In every store a run produces, the page after cursor \<open>k\<close> holds the
  messages number \<open>k + 1\<close> to \<open>k + limit\<close>, and it names a next cursor exactly when more messages remain,
  which is then \<open>k + limit\<close>: following the cursor visits every message once, in order.
\<close>

theorem list_messages_positional:
  "list_messages e (run_calls e cs empty_db) team_id (int k) limit =
     (let rows = team_message_rows (run_calls e cs empty_db) team_id
      in if \<not> in_range 1 500 limit then Inl (ValueError ''message page is out of bounds'')
         else rbind (snapshot e (run_calls e cs empty_db) team_id) (\<lambda>_.
              rbind (rmap (\<lambda>r. parse_record (message_cls e) ''Team message'' (mr_record r))
                       (take (nat limit) (drop k rows))) (\<lambda>values.
              Inr \<lparr>mp_messages = values,
                   mp_next_sequence =
                     (if k + nat limit < length rows then Some (int k + limit) else None)\<rparr>)))"
proof (cases "in_range 1 500 limit")
  case True
  define n where "n = nat limit"
  have n: "limit = int n" "0 < n" using True by (auto simp: n_def in_range_def)
  let ?rows = "team_message_rows (run_calls e cs empty_db) team_id"
  have pg: "page_rows (run_calls e cs empty_db) team_id (int k) = drop k ?rows"
    unfolding page_rows_def by (rule message_table.page_drop)
  have len: "n < length (take (Suc n) (drop k ?rows)) \<longleftrightarrow> k + n < length ?rows" by auto
  have nth: "mr_sequence (take (Suc n) (drop k ?rows) ! (n - 1)) = int k + int n" if "k + n < length ?rows"
    using that n(2) message_table.seq_nth [of "k + (n - 1)" e cs team_id] by (simp add: of_nat_diff)
  show ?thesis
    using True n nth len
    by (simp add: list_messages_def pg Let_def nat_add_distrib nat_diff_distrib min_def)
next
  case False
  then show ?thesis by (simp add: list_messages_def)
qed

end
