(* ===== verification/Delivery_Properties.thy ===== *)
theory Delivery_Properties
  imports Outbox_Properties
begin

text \<open>
  Session reconciliation (\<open>team/service.py\<close>): a delivery is marked only after the sink accepted it, and
  against a sink that accepts, one reconciliation delivers the next pending pairs and leaves the rest.
\<close>

section \<open>Delivery marks\<close>

definition pair_key :: "outbox_record \<times> object_ref \<Rightarrow> string \<times> string" where
  "pair_key p = (object_id (fst p), ref_id (snd p))"

definition delivered_keys :: "db \<Rightarrow> (string \<times> string) set" where
  "delivered_keys d = (\<lambda>x. (dv_outbox_id x, dv_session_id x)) ` set (outbox_delivery d)"

lemma undelivered_filter:
  "undelivered d rec =
     filter (\<lambda>p. pair_key p \<notin> delivered_keys d) (map (Pair rec) (ob_intended_member_session_refs rec))"
  by (auto simp: undelivered_def pair_key_def delivered_keys_def filter_map comp_def list_ex_iff
      image_iff intro!: arg_cong [where f = "map (Pair rec)"] filter_cong)

lemma undelivered_pairs_filter:
  assumes "outbox_rows d' = outbox_rows d" and "delivered_keys d' = delivered_keys d \<union> K"
  shows "undelivered_pairs d' T = filter (\<lambda>p. pair_key p \<notin> K) (undelivered_pairs d T)"
proof -
  have "undelivered d' rec = filter (\<lambda>p. pair_key p \<notin> K) (undelivered d rec)" for rec
    by (auto simp: undelivered_filter assms(2) intro: filter_cong)
  then show ?thesis
    using assms(1) by (simp add: undelivered_pairs_def team_outbox_def filter_concat comp_def)
qed

text \<open>The tables a delivery leaves alone.\<close>

definition delivery_only :: "db \<Rightarrow> db \<Rightarrow> bool" where
  "delivery_only d d' \<longleftrightarrow> d'\<lparr>outbox_delivery := []\<rparr> = d\<lparr>outbox_delivery := []\<rparr>"

lemma delivery_only_refl [simp]: "delivery_only d d"
  by (simp add: delivery_only_def)

lemma delivery_only_trans: "delivery_only a b \<Longrightarrow> delivery_only b c \<Longrightarrow> delivery_only a c"
  by (simp add: delivery_only_def)

lemma delivery_only_tables:
  assumes "delivery_only d d'"
  shows "outbox_rows d' = outbox_rows d" and "team_tables d' = team_tables d"
proof -
  have eq: "d'\<lparr>outbox_delivery := []\<rparr> = d\<lparr>outbox_delivery := []\<rparr>" using assms by (simp add: delivery_only_def)
  show "outbox_rows d' = outbox_rows d" using arg_cong [OF eq, of outbox_rows] by simp
  show "team_tables d' = team_tables d" using arg_cong [OF eq, of team_tables] by (simp add: team_tables_def)
qed

lemma delivery_only_reads:
  assumes "delivery_only d d'"
  shows "get_snapshot_at e d' r = get_snapshot_at e d r" and "load_outbox e d' i = load_outbox e d i"
  using delivery_only_tables(1) [OF assms] snapshot_same_tables(2) [OF delivery_only_tables(2) [OF assms]]
  by (simp_all add: get_snapshot_at_def load_outbox_def)

lemma mark_effect:
  assumes "mark_outbox_delivered e clk r s d = Inr (d', x)"
  shows "delivery_only d d'" and "delivered_keys d' = insert (ref_id r, ref_id s) (delivered_keys d)"
proof -
  obtain rec where ref: "outbox_ref_of rec = r" and ins: "insert_delivery
      \<lparr>dv_outbox_id = object_id rec, dv_session_id = ref_id s, dv_delivered_at = clk 0\<rparr> d = Inr d'"
    using assms by (auto simp: mark_outbox_delivered_def split: if_splits)
  have "ref_id r = object_id rec" using ref by (auto simp: to_ref_def)
  then show "delivery_only d d'" "delivered_keys d' = insert (ref_id r, ref_id s) (delivered_keys d)"
    using ins by (auto simp: insert_delivery_def delivery_only_def delivered_keys_def list_ex_iff
        image_iff split: if_splits) metis+
qed

lemma mark_succeeds:
  assumes "load_outbox e d (object_id rec) = Inr rec" and "s \<in> set (ob_intended_member_session_refs rec)"
  shows "\<exists>d'. mark_outbox_delivered e clk (outbox_ref_of rec) s d = Inr (d', ())"
proof -
  obtain r where "r \<in> set (outbox_rows d)" "ox_object_id r = object_id rec"
    using load_InrD [OF assms(1) [unfolded load_outbox_def]] by blast
  then show ?thesis
    using assms by (auto simp: mark_outbox_delivered_def insert_delivery_def to_ref_def rbind_def foreign_key_def
        list_ex_iff split: sum.splits)
qed

section \<open>Payloads\<close>

lemma session_payload_total:
  assumes "validate_outbox rec"
  shows "\<exists>payload. session_payload_of rec = Inr payload"
  using assms
  by (cases "ob_event_kind rec")
     (auto simp: session_payload_of_def team_payload_def checkpoint_payload_def validate_outbox_def)

section \<open>Marked only after acceptance\<close>

text \<open>A sink that also records the deliveries it accepted.\<close>

definition traced ::
  "(session_delivery \<Rightarrow> 's \<Rightarrow> 'ev result \<times> 's) \<Rightarrow> session_delivery \<Rightarrow> 's \<times> session_delivery list \<Rightarrow>
   'ev result \<times> ('s \<times> session_delivery list)" where
  "traced sink req st =
     (case sink req (fst st) of
        (Inl err, s) \<Rightarrow> (Inl err, (s, snd st))
      | (Inr event, s) \<Rightarrow> (Inr event, (s, snd st @ [req])))"

definition request_key :: "session_delivery \<Rightarrow> string \<times> string" where
  "request_key req = (ref_id (sd_source_outbox_ref req), ref_id (sd_session_ref req))"

lemma delivery_for_key: "delivery_for e d aud p = Inr req \<Longrightarrow> request_key req = pair_key p"
  by (auto simp: delivery_for_def request_key_def pair_key_def to_ref_def)

lemma deliver_one_marks:
  assumes "deliver_one e clk (traced sink) aud p (d, s, tr) = (r, d', s', tr')"
  shows "delivered_keys d' \<subseteq> delivered_keys d \<union> request_key ` set tr' \<and> set tr \<subseteq> set tr'"
proof (cases "delivery_for e d aud p")
  case (Inl err)
  then show ?thesis using assms by (auto simp: deliver_one_def reading_def)
next
  case (Inr req)
  obtain r1 s1 where sk: "sink req s = (r1, s1)" by (cases "sink req s")
  show ?thesis
  proof (cases r1)
    case (Inl err)
    then show ?thesis using assms Inr sk by (auto simp: deliver_one_def reading_def traced_def)
  next
    case r1: (Inr event)
    have tr': "tr' = tr @ [req]" and "d' = d \<or> (\<exists>x. mark_outbox_delivered e clk (outbox_ref_of (fst p)) (snd p) d = Inr (d', x))"
      using assms Inr sk r1
      by (auto simp: deliver_one_def reading_def traced_def transact_def split: sum.splits)
    then have "delivered_keys d' \<subseteq> insert (pair_key p) (delivered_keys d)"
      using mark_effect(2) by (fastforce simp: pair_key_def to_ref_def)
    then show ?thesis using delivery_for_key [OF Inr] tr' by auto
  qed
qed

lemma deliver_all_marks:
  "deliver_all e clk (traced sink) aud n ps (d, s, tr) = (r, d', s', tr') \<Longrightarrow>
     delivered_keys d' \<subseteq> delivered_keys d \<union> request_key ` set tr' \<and> set tr \<subseteq> set tr'"
proof (induction ps arbitrary: n d s tr r)
  case Nil
  then show ?case by simp
next
  case (Cons p ps)
  obtain r1 d1 s1 tr1 where 1: "deliver_one e (clk n) (traced sink) aud p (d, s, tr) = (r1, d1, s1, tr1)"
    by (metis prod_cases3)
  note m = deliver_one_marks [OF 1]
  show ?case
  proof (cases r1)
    case (Inl err)
    then show ?thesis using Cons.prems 1 m by auto
  next
    case (Inr event)
    obtain r2 where "deliver_all e clk (traced sink) aud (Suc n) ps (d1, s1, tr1) = (r2, d', s', tr')"
      using Cons.prems 1 Inr
      by (cases "deliver_all e clk (traced sink) aud (Suc n) ps (d1, s1, tr1)")
         (auto simp: then_do_def split: sum.splits prod.splits)
    then show ?thesis using Cons.IH m by blast
  qed
qed

text \<open>
  C18: Reconciliation never loses a delivery. From any store and with any sink, whatever errors occur,
  a pair that is marked delivered afterwards and was not before is one whose event the sink accepted
  during this reconciliation.
\<close>

theorem reconcile_marks_accepted:
  "case reconcile e clk (traced sink) team_id aud limit (d, s, []) of
     (r, d', s', accepted) \<Rightarrow> delivered_keys d' \<subseteq> delivered_keys d \<union> request_key ` set accepted"
proof -
  obtain r d' s' tr where r: "reconcile e clk (traced sink) team_id aud limit (d, s, []) = (r, d', s', tr)"
    by (metis prod_cases3)
  have "delivered_keys d' \<subseteq> delivered_keys d \<union> request_key ` set tr"
  proof (cases "pending_outbox e d team_id limit")
    case (Inl err)
    then show ?thesis using r by (auto simp: reconcile_def reading_def)
  next
    case (Inr ps)
    then have "deliver_all e clk (traced sink) aud 0 ps (d, s, []) = (r, d', s', tr)"
      using r by (simp add: reconcile_def reading_def)
    then show ?thesis by (rule conjunct1 [OF deliver_all_marks])
  qed
  then show ?thesis by (simp add: r)
qed

section \<open>Delivery against an accepting sink\<close>

definition deliverable :: "env \<Rightarrow> db \<Rightarrow> contract_audit \<Rightarrow> outbox_record \<times> object_ref \<Rightarrow> bool" where
  "deliverable e d aud p \<longleftrightarrow>
     load_outbox e d (object_id (fst p)) = Inr (fst p) \<and>
     snd p \<in> set (ob_intended_member_session_refs (fst p)) \<and> (\<exists>req. delivery_for e d aud p = Inr req)"

lemma deliverable_frame: "delivery_only d d' \<Longrightarrow> deliverable e d' aud p = deliverable e d aud p"
  by (simp add: deliverable_def delivery_for_def delivery_only_reads)

lemma deliver_one_accepting:
  assumes sink: "\<And>req s. \<exists>event s'. sink req s = (Inr event, s')" and p: "deliverable e d aud p"
  shows "\<exists>event d' s'. deliver_one e clk sink aud p (d, s) = (Inr event, d', s') \<and> delivery_only d d' \<and>
    delivered_keys d' = insert (pair_key p) (delivered_keys d)"
proof -
  obtain req where req: "delivery_for e d aud p = Inr req" using p by (auto simp: deliverable_def)
  obtain event s' where sk: "sink req s = (Inr event, s')" using sink by blast
  obtain d' where mk: "mark_outbox_delivered e clk (outbox_ref_of (fst p)) (snd p) d = Inr (d', ())"
    using mark_succeeds p by (meson deliverable_def)
  show ?thesis
    using mark_effect [OF mk] req sk mk
    by (auto simp: deliver_one_def reading_def transact_def pair_key_def to_ref_def)
qed

lemma deliver_all_accepting:
  assumes sink: "\<And>req s. \<exists>event s'. sink req s = (Inr event, s')" and "\<forall>p\<in>set ps. deliverable e d aud p"
  shows "\<exists>events d' s'. deliver_all e clk sink aud n ps (d, s) = (Inr events, d', s') \<and>
    length events = length ps \<and> delivery_only d d' \<and>
    delivered_keys d' = delivered_keys d \<union> pair_key ` set ps"
  using assms(2)
proof (induction ps arbitrary: n d s)
  case Nil
  then show ?case by simp
next
  case (Cons p ps)
  obtain event d1 s1 where 1: "deliver_one e (clk n) sink aud p (d, s) = (Inr event, d1, s1)"
    "delivery_only d d1" "delivered_keys d1 = insert (pair_key p) (delivered_keys d)"
    using deliver_one_accepting [of sink e d aud p "clk n" s, OF sink] Cons.prems by auto
  have "\<forall>p\<in>set ps. deliverable e d1 aud p"
    using Cons.prems deliverable_frame [OF 1(2)] by simp
  from Cons.IH [OF this, of "Suc n" s1] 1 show ?case
    by (auto intro: delivery_only_trans)
qed

lemma pending_deliverable:
  assumes "outbox_inv e d" and p: "p \<in> set (undelivered_pairs d T)"
    and read: "\<forall>r\<in>set (team_outbox d T). \<exists>sn. get_snapshot_at e d (ob_aggregate_ref (ox_record r)) = Inr sn"
  shows "deliverable e d aud p"
proof -
  obtain r where r: "r \<in> set (team_outbox d T)" "fst p = ox_record r"
    "snd p \<in> set (ob_intended_member_session_refs (fst p))"
    using p by (auto simp: undelivered_pairs_def undelivered_def)
  have mem: "r \<in> set (outbox_rows d)" using r(1) by (simp add: team_outbox_def)
  then have ok: "ox_object_id r = object_id (ox_record r)"
      "parse_record (outbox_cls e) l (ox_record r) = Inr (ox_record r)" for l
    using assms(1) by (auto simp: outbox_inv_def parse_record_Inr_iff)
  have "find (\<lambda>x. ox_object_id x = ox_object_id r) (outbox_rows d) = Some r"
  proof (cases "find (\<lambda>x. ox_object_id x = ox_object_id r) (outbox_rows d)")
    case None
    then show ?thesis using mem by (auto simp: find_None_iff)
  next
    case (Some x)
    then show ?thesis
      using find_SomeD [OF Some] mem assms(1) distinct_key_eq [of ox_object_id "outbox_rows d" x r]
      by (simp add: outbox_inv_def)
  qed
  then have "load_outbox e d (object_id (fst p)) = Inr (fst p)"
    using ok r(2) by (simp add: load_outbox_def load_def)
  moreover have "validate_outbox (fst p)"
    using ok(2) r(2) by (auto simp: parse_record_Inr_iff outbox_class_def)
  then obtain payload where "session_payload_of (fst p) = Inr payload" using session_payload_total by blast
  ultimately show ?thesis using r read by (auto simp: deliverable_def delivery_for_def)
qed

text \<open>
  C25: Reconciliation makes progress. In a store a run produced whose Team and recorded Team references
  can be read, a reconciliation against a sink that accepts every event succeeds, appends one session
  event for each of the first \<open>limit\<close> undelivered pairs, and afterwards exactly those pairs are no longer
  pending while all others still are.
\<close>

theorem reconcile_delivers:
  assumes sink: "\<And>req s. \<exists>event s'. sink req s = (Inr event, s')" and lim: "in_range 1 1000 limit"
    and sn: "snapshot e (run_calls e cs empty_db) team_id = Inr sn"
    and read: "\<forall>r\<in>set (team_outbox (run_calls e cs empty_db) team_id).
      \<exists>sn. get_snapshot_at e (run_calls e cs empty_db) (ob_aggregate_ref (ox_record r)) = Inr sn"
  shows "\<exists>events d' s'. reconcile e clk sink team_id aud limit (run_calls e cs empty_db, s) = (Inr events, d', s') \<and>
    length events = min (nat limit) (length (undelivered_pairs (run_calls e cs empty_db) team_id)) \<and>
    undelivered_pairs d' team_id =
      filter (\<lambda>p. pair_key p \<notin> pair_key ` set (take (nat limit) (undelivered_pairs (run_calls e cs empty_db) team_id)))
        (undelivered_pairs (run_calls e cs empty_db) team_id)"
proof -
  let ?d = "run_calls e cs empty_db"
  let ?ps = "take (nat limit) (undelivered_pairs ?d team_id)"
  have "outbox_inv e ?d" by (rule run_outbox_inv)
  then have "\<forall>p\<in>set ?ps. deliverable e ?d aud p"
    using pending_deliverable [OF _ _ read] by (blast dest: in_set_takeD)
  from deliver_all_accepting [of sink ?ps e ?d aud clk 0 s, OF sink this] obtain events d' s' where
    d: "deliver_all e clk sink aud 0 ?ps (?d, s) = (Inr events, d', s')" "length events = length ?ps"
      "delivery_only ?d d'" "delivered_keys d' = delivered_keys ?d \<union> pair_key ` set ?ps"
    by blast
  have "pending_outbox e ?d team_id limit = Inr ?ps"
    using pending_outbox_spec [OF run_readable_outbox] lim sn by simp
  then show ?thesis
    using d undelivered_pairs_filter [OF delivery_only_tables(1) [OF d(3)] d(4)]
    by (simp add: reconcile_def reading_def min.commute)
qed

definition sample_sink :: "session_delivery \<Rightarrow> session_delivery list \<Rightarrow> session_delivery result \<times> session_delivery list" where
  "sample_sink req st = (Inr req, st @ [req])"

theorem reconcile_delivers_witness:
  "length (undelivered_pairs sample_db1 ''team'') = 2 \<and>
   (\<exists>events d' s'. reconcile sample_env (\<lambda>_. sample_clock) sample_sink ''team'' sample_audit 500 (sample_db1, []) =
      (Inr events, d', s') \<and> length events = 2 \<and> undelivered_pairs d' ''team'' = [])"
proof -
  have two: "undelivered_pairs sample_db1 ''team'' =
      map (Pair (ox_record (sample_outbox ''team.outbox-1'' ''1'' 1))) [sample_session ''anna'', sample_session ''bob'']"
    by (simp add: undelivered_pairs_def undelivered_def team_outbox_def sample_db1_def empty_db_def sample_outbox_def)
  have sink: "\<And>req s. \<exists>event s'. sample_sink req s = (Inr event, s')" by (simp add: sample_sink_def)
  have rows: "\<forall>r\<in>set (team_outbox sample_db1 ''team'').
      \<exists>sn. get_snapshot_at sample_env sample_db1 (ob_aggregate_ref (ox_record r)) = Inr sn"
    by (simp add: team_outbox_def sample_db1_def [THEN arg_cong [of _ _ outbox_rows]] empty_db_def
        sample_outbox_def get_snapshot_at_def sample_snapshot_at_db1)
  have lim: "in_range 1 1000 (500 :: int)" by (simp add: in_range_def)
  from reconcile_delivers [of sample_sink 500 sample_env sample_calls "''team''" sample_snapshot
      "\<lambda>_. sample_clock" sample_audit "[]", unfolded sample_run, OF sink lim sample_snapshot_db1 rows]
  show ?thesis by (simp add: two numeral_2_eq_2)
qed

end
