(* ===== verification/Sample_Steps.thy ===== *)
theory Sample_Steps
  imports Sample_Store
begin

text \<open>
  Evaluation of further operations on the sample store, one sub-step at a time: the outbox record and
  the idempotency row that end an operation, and the table inserts on tables the sample store leaves
  empty.
\<close>

lemma sample_append:
  assumes "outbox_rows d = outbox_rows sample_db1" and "ref_type r = outbox_record_type kind"
  shows "\<exists>row rec. append_outbox sample_env sample_snapshot kind r now d =
    Inr (d\<lparr>outbox_rows := outbox_rows d @ [row]\<rparr>, rec)"
proof -
  let ?ss = "[sample_session ''anna'', sample_session ''bob'']"
  have rows: "outbox_rows d = [sample_outbox ''team.outbox-1'' ''1'' 1]"
    by (simp add: assms(1) sample_db1_def)
  have seq: "coalesce_max (map ox_sequence (team_outbox d ''team'')) + 1 = 2"
    by (simp add: team_outbox_def rows sample_outbox_def)
  have key: "outbox_key_for ''team'' 2 = ''team.outbox-2''" by code_simp
  have ids: "is_identifier ''team.outbox-2''" "is_identifier ''team''" by code_simp+
  have ss: "sorted_refs ?ss = ?ss" "require_sorted_unique_refs ?ss" "refs_of_type ?ss ''harness-session''"
      "max_length 1000 ?ss"
    by code_simp+
  have sn: "tm_team_id (sn_team sample_snapshot) = ''team''"
    "map mb_independent_session_ref (ro_members (sn_roster sample_snapshot)) = ?ss"
    "require_ref (team_ref_of (sn_team sample_snapshot)) ''agent-team''"
    by (simp_all add: sample_snapshot_def sample_team_def sample_roster_def sample_member_def to_ref_def
        require_ref_def)
  define v where "v = \<lparr>object_id = [], object_sha256 = [], audit = no_audit,
       ob_outbox_key = ''team.outbox-2'', ob_team_id = ''team'', ob_sequence = 2, ob_event_kind = kind,
       ob_aggregate_ref = team_ref_of (sn_team sample_snapshot), ob_record_ref = r,
       ob_intended_member_session_refs = ?ss, ob_occurred_at = now\<rparr>"
  define rec where "rec = v\<lparr>
     object_id := derived_id (outbox_cls sample_env) (carried_sha256 (outbox_cls sample_env) v),
     object_sha256 := carried_sha256 (outbox_cls sample_env) v,
     audit := audit_with_refs (audit (sn_team sample_snapshot)) (collect_object_refs (outbox_cls sample_env) v)\<rparr>"
  have "create (outbox_cls sample_env) (audit (sn_team sample_snapshot)) v = Inr rec"
    using ids ss sn assms(2)
    by (simp add: outbox.create_Inr_iff rec_def v_def validate_outbox_def in_range_def)
  moreover have "object_id rec = sample_id ''team-outbox-record'' ''2''" "ob_sequence rec = 2"
    by (simp add: rec_def v_def, code_simp) (simp add: rec_def v_def)
  ultimately show ?thesis
    by (auto simp: append_outbox_def Let_def sn seq key create_outbox_def ss v_def [symmetric] insert_outbox_def insert_row_def
        rows sample_outbox_def sample_id_def)
qed
lemma sample_finish:
  assumes "outbox_rows d = outbox_rows sample_db1" and "idempotency d = idempotency sample_db1"
    and "ref_type r = outbox_record_type kind" and "scope \<noteq> ''create-team:team''"
  shows "\<exists>row rec ik. append_outbox sample_env sample_snapshot kind r t1 d =
      Inr (d\<lparr>outbox_rows := outbox_rows d @ [row]\<rparr>, rec) \<and>
    remember scope key hash ty i t2 (d\<lparr>outbox_rows := outbox_rows d @ [row]\<rparr>) =
      Inr (d\<lparr>outbox_rows := outbox_rows d @ [row], idempotency := idempotency d @ [ik]\<rparr>)"
  using sample_append [OF assms(1,3)] assms(2,4)
  by (fastforce simp: remember_def insert_idempotency_def insert_row_def sample_db1_def sample_memo_def)

lemma sample_no_replay:
  assumes "idempotency d = idempotency sample_db1" and "scope \<noteq> ''create-team:team''"
  shows "replay d scope key hash = Inr None"
  using assms by (simp add: replay_def replay_row_def sample_db1_def sample_memo_def)

lemma sample_no_fault [simp]: "inject_fault sample_env p = Inr ()"
  by (simp add: inject_fault_def sample_env_def)

text \<open>The tables of the sample store that are empty.\<close>

lemma sample_empty [simp]:
  "checkpoints sample_db1 = []" "checkpoint_current sample_db1 = []" "projections sample_db1 = []"
  "projection_current sample_db1 = []" "messages sample_db1 = []" "subscriptions sample_db1 = []"
  "subscription_current sample_db1 = []" "artifact_heads sample_db1 = []" "artifact_current sample_db1 = []"
  "conflicts sample_db1 = []" "conflict_current sample_db1 = []" "convergence sample_db1 = []"
  "task_events sample_db1 = []" "task_heads sample_db1 = []" "task_leases sample_db1 = []"
  by (simp_all add: sample_db1_def empty_db_def)

end
