(* ===== verification/Projection_Properties.thy ===== *)
theory Projection_Properties
  imports Sample_Steps
begin

text \<open>
  Round trips of the read models: a checkpoint and a member projection that were stored are what the
  readers return, and what a member projection may contain.
\<close>

section \<open>Checkpoints\<close>

lemma latest_by_next:
  "latest_by f (rows @ [r]) = Some r" if "f r = coalesce_max (map f rows) + 1"
  using that coalesce_max_ge [of _ "map f rows"] by (intro latest_by_snoc) fastforce

lemma checkpoint_fresh_InrE:
  assumes "checkpoint_fresh e clk T aud key hash d = Inr (d', cp)"
  obtains sn heads subs row d1 where "snapshot e d T = Inr sn" "artifact_heads_of e d T = Inr heads"
    "team_subscriptions e d T = Inr subs" "build_checkpoint e d T sn heads subs aud = Inr cp"
    "insert_checkpoint row d = Inr d1" "kp_object_id row = object_id cp" "kp_team_id row = T" "kp_record row = cp"
    "kp_sequence row = coalesce_max (map kp_sequence (team_checkpoints d T)) + 1"
    "checkpoints d' = checkpoints d @ [row]"
    "checkpoint_current d' = upsert kh_team_id \<lparr>kh_team_id = T, kh_object_id = object_id cp\<rparr> (checkpoint_current d)"
    "team_tables d' = team_tables d"
proof -
  from assms obtain sn heads subs d1 d2 d3 rec where
    1: "snapshot e d T = Inr sn" "artifact_heads_of e d T = Inr heads" "team_subscriptions e d T = Inr subs"
      "build_checkpoint e d T sn heads subs aud = Inr cp"
    and 2: "insert_checkpoint
              \<lparr>kp_object_id = object_id cp, kp_team_id = T, kp_sequence = next_checkpoint_sequence d T,
               kp_team_version = tm_team_version (sn_team sn), kp_record = cp\<rparr> d = Inr d1"
    and 3: "upsert_checkpoint_current \<lparr>kh_team_id = T, kh_object_id = object_id cp\<rparr> d1 = Inr d2"
    and 4: "append_outbox e sn TEAM_CHECKPOINTED (checkpoint_ref_of cp) (clk 0) d2 = Inr (d3, rec)"
    and 5: "remember (checkpoint_scope T) key hash ''CHECKPOINT'' (object_id cp) (clk 1) d3 = Inr d'"
    unfolding checkpoint_fresh_def by auto
  obtain orow where o: "d3 = d2\<lparr>outbox_rows := outbox_rows d2 @ [orow]\<rparr>"
    using 4 by (rule append_outbox_effect)
  note shapes = insert_shape(27) [OF 2] insert_shape(28) [OF 3] o remember_effect(1) [OF 5]
  show thesis
    by (rule that [OF 1 2]) (simp_all add: shapes next_checkpoint_sequence_def team_tables_def)
qed

lemma checkpoint_fresh_current:
  assumes "checkpoint_fresh e clk T aud key hash d = Inr (d', cp)"
  shows "current_checkpoint e d' T = Inr (Some cp)"
  using assms
proof (rule checkpoint_fresh_InrE)
  fix sn heads subs row d1
  assume sn: "snapshot e d T = Inr sn" and cp: "build_checkpoint e d T sn heads subs aud = Inr cp"
    and ins: "insert_checkpoint row d = Inr d1" and row: "kp_object_id row = object_id cp" "kp_team_id row = T"
      "kp_record row = cp" "kp_sequence row = coalesce_max (map kp_sequence (team_checkpoints d T)) + 1"
    and cps: "checkpoints d' = checkpoints d @ [row]"
    and head: "checkpoint_current d' =
      upsert kh_team_id \<lparr>kh_team_id = T, kh_object_id = object_id cp\<rparr> (checkpoint_current d)"
    and tables: "team_tables d' = team_tables d"
  have "team_checkpoints d' T = team_checkpoints d T @ [row]"
    using row by (simp add: team_checkpoints_def cps)
  then have "latest_by kp_sequence (team_checkpoints d' T) = Some row"
    using latest_by_next [of kp_sequence row "team_checkpoints d T"] row by simp
  moreover have hd: "checkpoint_head d' T = Some \<lparr>kh_team_id = T, kh_object_id = object_id cp\<rparr>"
    by (simp add: checkpoint_head_def head upsert_find)
  moreover have "find (\<lambda>r. kp_object_id r = object_id cp) (checkpoints d') = Some row"
    using ins row by (auto simp: cps find_append insert_checkpoint_def insert_row_Inr_iff find_None_iff
        split: option.splits dest: find_SomeD)
  then have "load_checkpoint e d' (object_id cp) = Inr cp"
    using cp row by (simp add: load_checkpoint_def load_def build_checkpoint_def create_parse)
  ultimately show ?thesis
    using sn row snapshot_same_tables(1) [OF tables]
    by (simp add: current_checkpoint_def validate_checkpoint_head_def)
qed

text \<open>
  C38: A checkpoint that is taken is the one read back: when \<open>create_checkpoint\<close> changes the store, the
  reader \<open>current_checkpoint\<close> returns exactly that checkpoint, and it names the Team, roster, graph and
  authority that were current and the number of the last message.
\<close>

theorem create_checkpoint_roundtrip:
  assumes "create_checkpoint e clk team_id aud key d = Inr (d', checkpoint)" and "d' \<noteq> d"
  shows "\<exists>sn. snapshot e d team_id = Inr sn \<and> current_checkpoint e d' team_id = Inr (Some checkpoint) \<and>
    ck_team_ref checkpoint = team_ref_of (sn_team sn) \<and> ck_roster_ref checkpoint = roster_ref_of (sn_roster sn) \<and>
    ck_task_graph_ref checkpoint = graph_ref_of (sn_graph sn) \<and>
    ck_authority_ref checkpoint = authority_ref_of (sn_authority sn) \<and>
    ck_message_cursor checkpoint = coalesce_max (map mr_sequence (team_message_rows d team_id))"
proof -
  obtain hash where f: "checkpoint_fresh e clk team_id aud key hash d = Inr (d', checkpoint)"
    using assms by (auto simp: create_checkpoint_def Let_def split: option.splits)
  from f show ?thesis
    by (rule checkpoint_fresh_InrE)
       (auto simp: checkpoint_fresh_current [OF f] build_checkpoint_def checkpoint.create_Inr_iff)
qed

lemma sample_build_checkpoint:
  "\<exists>cp. build_checkpoint sample_env sample_db1 ''team'' sample_snapshot [] [] sample_audit = Inr cp"
proof -
  have "case build_checkpoint sample_env sample_db1 ''team'' sample_snapshot [] [] sample_audit of
      Inl _ \<Rightarrow> False | Inr _ \<Rightarrow> True"
    by code_simp
  then show ?thesis by (auto split: sum.splits)
qed

lemma sample_checkpoint:
  "\<exists>d' cp. create_checkpoint sample_env sample_clock ''team'' sample_audit ''key-5'' sample_db1 = Inr (d', cp) \<and>
     d' \<noteq> sample_db1"
proof -
  obtain cp where cp: "build_checkpoint sample_env sample_db1 ''team'' sample_snapshot [] [] sample_audit = Inr cp"
    using sample_build_checkpoint by blast
  define row where "row = \<lparr>kp_object_id = object_id cp, kp_team_id = ''team'',
    kp_sequence = next_checkpoint_sequence sample_db1 ''team'', kp_team_version = tm_team_version (sn_team sample_snapshot),
    kp_record = cp\<rparr>"
  define d2 where "d2 = sample_db1\<lparr>checkpoints := [row],
    checkpoint_current := [\<lparr>kh_team_id = ''team'', kh_object_id = object_id cp\<rparr>]\<rparr>"
  have sc: "checkpoint_scope ''team'' \<noteq> ''create-team:team''" by (simp add: checkpoint_scope_def)
  have d2: "outbox_rows d2 = outbox_rows sample_db1" "idempotency d2 = idempotency sample_db1"
    "ref_type (checkpoint_ref_of cp) = outbox_record_type TEAM_CHECKPOINTED"
    by (simp_all add: d2_def to_ref_def)
  obtain d3 rec d4 where fin: "append_outbox sample_env sample_snapshot TEAM_CHECKPOINTED (checkpoint_ref_of cp)
      (sample_clock 0) d2 = Inr (d3, rec)"
    "remember (checkpoint_scope ''team'') ''key-5'' (request_sha256 sample_env (CheckpointRequest ''team''))
      ''CHECKPOINT'' (object_id cp) (sample_clock 1) d3 = Inr d4" "checkpoints d4 = checkpoints d2"
    using sample_finish [OF d2 sc] by fastforce
  have ins: "insert_checkpoint row sample_db1 = Inr (sample_db1\<lparr>checkpoints := [row]\<rparr>)"
    "upsert_checkpoint_current \<lparr>kh_team_id = ''team'', kh_object_id = object_id cp\<rparr> (sample_db1\<lparr>checkpoints := [row]\<rparr>) = Inr d2"
    by (simp_all add: insert_checkpoint_def insert_row_def upsert_checkpoint_current_def foreign_key_def row_def d2_def)
  have reads: "validate_checkpoint_head sample_db1 ''team'' = Inr ()" "artifact_heads_of sample_env sample_db1 ''team'' = Inr []"
    "team_subscriptions sample_env sample_db1 ''team'' = Inr []"
    by code_simp+
  have "create_checkpoint sample_env sample_clock ''team'' sample_audit ''key-5'' sample_db1 = Inr (d4, cp)"
    by (simp add: create_checkpoint_def checkpoint_fresh_def Let_def sample_no_replay sc reads sample_snapshot_db1 cp
        row_def [symmetric] ins fin [unfolded One_nat_def])
  moreover have "d4 \<noteq> sample_db1" using fin(3) by (auto simp: d2_def)
  ultimately show ?thesis by blast
qed

theorem create_checkpoint_roundtrip_witness:
  "\<exists>d' checkpoint. create_checkpoint sample_env sample_clock ''team'' sample_audit ''key-5'' sample_db1 =
       Inr (d', checkpoint) \<and> d' \<noteq> sample_db1 \<and>
     current_checkpoint sample_env d' ''team'' = Inr (Some checkpoint) \<and>
     ck_team_ref checkpoint = team_ref_of sample_team"
  using sample_checkpoint create_checkpoint_roundtrip
  by (fastforce simp: sample_snapshot_db1 sample_snapshot_def)

section \<open>Current heads of a revisioned history\<close>

lemma dict_of_append: "dict_of (ps @ [(k, v)]) = (dict_of ps)(k \<mapsto> v)"
  by (simp add: dict_of_def fun_eq_iff)

lemma same_dict_iff: "same_dict ps qs \<longleftrightarrow> dict_of ps = dict_of qs"
proof -
  have "dict_of xs k = None" if "k \<notin> set (map fst xs)" for xs :: "('k \<times> 'v) list" and k
    using that by (simp add: dict_of_def map_of_eq_None_iff)
  then show ?thesis
    unfolding same_dict_def list_all_iff fun_eq_iff by (metis UnCI set_append)
qed

lemma dict_of_filter_key:
  "dict_of (filter (\<lambda>p. fst p \<noteq> k) ps) = (dict_of ps)(k := None)"
  by (induction ps rule: rev_induct) (auto simp: dict_of_def fun_eq_iff)

text \<open>A row with a greater revision than its predecessors replaces them as the expected head.\<close>

lemma expected_heads_snoc:
  assumes "hi_team_id r = T"
    and newer: "\<And>x. x \<in> set rows \<Longrightarrow> hi_team_id x = T \<Longrightarrow> hi_key x = hi_key r \<Longrightarrow> hi_revision x < hi_revision r"
  shows "expected_heads T (rows @ [r]) =
    filter (\<lambda>p. fst p \<noteq> hi_key r) (expected_heads T rows) @ [(hi_key r, hi_object_id r)]"
proof -
  let ?own = "filter (\<lambda>r. hi_team_id r = T) rows"
  have "filter (\<lambda>x. list_all (\<lambda>y. hi_key y = hi_key x \<longrightarrow> hi_revision y \<le> hi_revision x) (?own @ [r])) ?own =
      filter (\<lambda>x. hi_key x \<noteq> hi_key r) (filter (\<lambda>x. list_all (\<lambda>y. hi_key y = hi_key x \<longrightarrow> hi_revision y \<le> hi_revision x) ?own) ?own)"
    using newer by (auto simp: filter_filter not_le intro!: filter_cong dest: leD)
  moreover have "list_all (\<lambda>y. hi_key y = hi_key r \<longrightarrow> hi_revision y \<le> hi_revision r) (?own @ [r])"
    using newer by (auto simp: list_all_iff less_imp_le)
  ultimately show ?thesis
    using assms(1) by (simp add: expected_heads_def Let_def filter_map comp_def)
qed

lemma dict_of_observed:
  assumes "distinct (map current_key rows)"
  shows "dict_of (observed_heads T rows) k =
    map_option cu_object_id (find (\<lambda>c. current_key c = (T, k)) rows)"
  using assms
proof (induction rows)
  case Nil
  then show ?case by (simp add: dict_of_def observed_heads_def)
next
  case (Cons c rows)
  have "dict_of ((i, j) # ps) k = (case dict_of ps k of None \<Rightarrow> (if k = i then Some j else None) | Some v \<Rightarrow> Some v)"
    for i j and ps :: "(string \<times> string) list"
    by (auto simp: dict_of_def map_add_def split: option.splits)
  moreover have "find (\<lambda>x. current_key x = (T, k)) rows = None" if "current_key c = (T, k)"
    using Cons.prems that by (force simp: find_None_iff)
  ultimately show ?case
    using Cons by (auto simp: observed_heads_def current_key_def split: option.splits)
qed

lemma pair_head_after_upsert:
  assumes "validate_pair_head T t rows cur = Inr ()" and "distinct (map current_key cur)"
    and "hi_team_id r = T" and "cu_team_id c = T" and "cu_key c = hi_key r" and "cu_object_id c = hi_object_id r"
    and "\<And>x. x \<in> set rows \<Longrightarrow> hi_team_id x = T \<Longrightarrow> hi_key x = hi_key r \<Longrightarrow> hi_revision x < hi_revision r"
  shows "validate_pair_head T t (rows @ [r]) (upsert current_key c cur) = Inr ()"
proof -
  have "dict_of (observed_heads T cur) = dict_of (expected_heads T rows)"
    using assms(1) by (simp add: validate_pair_head_def same_dict_iff)
  moreover have "dict_of (observed_heads T (upsert current_key c cur)) =
      (dict_of (observed_heads T cur))(hi_key r \<mapsto> hi_object_id r)"
  proof
    fix k
    have ck: "current_key c = (T, hi_key r)" using assms(4,5) by (simp add: current_key_def)
    show "dict_of (observed_heads T (upsert current_key c cur)) k =
        ((dict_of (observed_heads T cur))(hi_key r \<mapsto> hi_object_id r)) k"
      using assms(2,6) by (simp add: dict_of_observed distinct_upsert upsert_find ck)
  qed
  moreover have "dict_of (expected_heads T (rows @ [r])) =
      (dict_of (expected_heads T rows))(hi_key r \<mapsto> hi_object_id r)"
    using assms(3,7) by (simp add: expected_heads_snoc dict_of_append dict_of_filter_key)
  ultimately show ?thesis by (simp add: validate_pair_head_def same_dict_iff)
qed

section \<open>Member projections\<close>

text \<open>What the source of a projection is computed from.\<close>

lemma projection_source_same:
  assumes "team_tables d' = team_tables d" and "artifact_heads d' = artifact_heads d"
    and "artifact_current d' = artifact_current d" and "envelopes d' = envelopes d"
    and "messages d' = messages d" and "subscriptions d' = subscriptions d"
    and "subscription_current d' = subscription_current d"
  shows "projection_source_of e d' T m = projection_source_of e d T m"
proof -
  note t = assms(2-)
  have h: "artifact_heads_of e d' T = artifact_heads_of e d T"
    unfolding artifact_heads_of_def current_head_rows_def t by (rule refl)
  have v: "head_envelope e d' = head_envelope e d"
    unfolding head_envelope_def envelope_of_def load_envelope_def t by (rule refl)
  have m: "parse_messages e d' T = parse_messages e d T"
    unfolding parse_messages_def ordered_messages_def team_message_rows_def t by (rule refl)
  have u: "team_subscriptions e d' T = team_subscriptions e d T"
    unfolding team_subscriptions_def t by (rule refl)
  show ?thesis
    unfolding projection_source_of_def snapshot_same_tables(1) [OF assms(1)] h v m u by (rule refl)
qed

lemma persist_fresh_InrE:
  assumes "persist_fresh e clk T m p fp hash d = Inr (d', q)"
  obtains src row where "q = p" "validate_pair_head T ''projection_current'' (projections d) (projection_current d) = Inr ()"
    "projection_source_of e d T m = Inr src" "projection_from_source e src (audit p) = Inr p"
    "fp = ps_source_fingerprint src" "projections d' = projections d @ [row]"
    "\<forall>x\<in>set (projections d). hi_object_id x \<noteq> object_id p"
    "projection_current d' = upsert current_key \<lparr>cu_team_id = T, cu_key = m, cu_object_id = object_id p\<rparr> (projection_current d)"
    "row = \<lparr>hi_object_id = object_id p, hi_team_id = T, hi_key = m,
            hi_revision = next_projection_revision d T m, hi_extra = fp, hi_record = p\<rparr>"
    "projection_source_of e d' T m = projection_source_of e d T m" "snapshot e d' T = snapshot e d T"
proof -
  let ?row = "\<lparr>hi_object_id = object_id p, hi_team_id = T, hi_key = m,
            hi_revision = next_projection_revision d T m, hi_extra = fp, hi_record = p\<rparr>"
  let ?cur = "\<lparr>cu_team_id = T, cu_key = m, cu_object_id = object_id p\<rparr>"
  from assms obtain src d1 d2 d3 rec where
    1: "q = p" "validate_pair_head T ''projection_current'' (projections d) (projection_current d) = Inr ()"
      "projection_source_of e d T m = Inr src" "projection_from_source e src (audit p) = Inr p"
      "fp = ps_source_fingerprint src"
    and 2: "insert_projection_row ?row d = Inr d1" and 3: "upsert_projection_current ?cur d1 = Inr d2"
    and 4: "append_outbox e (ps_snapshot src) TEAM_CHANGED (team_ref_of (sn_team (ps_snapshot src))) (clk 0) d2 =
              Inr (d3, rec)"
    and 5: "remember (projection_scope T m) fp hash ''PROJECTION'' (object_id p) (clk 1) d3 = Inr d'"
    unfolding persist_fresh_def by (auto split: if_splits)
  obtain orow where o: "d3 = d2\<lparr>outbox_rows := outbox_rows d2 @ [orow]\<rparr>"
    using 4 by (rule append_outbox_effect)
  note shapes = insert_shape(25) [OF 2] insert_shape(26) [OF 3] o remember_effect(1) [OF 5]
  have "\<forall>x\<in>set (projections d). hi_object_id x \<noteq> object_id p"
    using 2 by (auto simp: insert_projection_row_def insert_row_Inr_iff history_clash_def)
  moreover have tables: "team_tables d' = team_tables d" by (simp add: shapes team_tables_def)
  moreover have "projection_source_of e d' T m = projection_source_of e d T m"
    by (rule projection_source_same [OF tables]) (simp_all add: shapes)
  ultimately show thesis
    using that [of src ?row] 1 snapshot_same_tables(1) [OF tables] by (simp add: shapes)
qed

lemma persist_fresh_stored:
  assumes "persist_fresh e clk T m p fp hash d = Inr (d', q)" and keys: "cache_keys_inv d"
  shows "stored_projection e d' T m = Inr (Some (p, fp)) \<and> validate_projection_rebuild e d' T m = Inr p"
  using assms(1)
proof (rule persist_fresh_InrE)
  fix src row
  assume v: "validate_pair_head T ''projection_current'' (projections d) (projection_current d) = Inr ()"
    and src: "projection_source_of e d T m = Inr src" "projection_from_source e src (audit p) = Inr p"
      "fp = ps_source_fingerprint src"
    and rows: "projections d' = projections d @ [row]" "\<forall>x\<in>set (projections d). hi_object_id x \<noteq> object_id p"
    and cur: "projection_current d' = upsert current_key \<lparr>cu_team_id = T, cu_key = m, cu_object_id = object_id p\<rparr> (projection_current d)"
    and row: "row = \<lparr>hi_object_id = object_id p, hi_team_id = T, hi_key = m,
            hi_revision = next_projection_revision d T m, hi_extra = fp, hi_record = p\<rparr>"
    and same: "projection_source_of e d' T m = projection_source_of e d T m" "snapshot e d' T = snapshot e d T"
  have dis: "distinct (map current_key (projection_current d))" using keys by (simp add: cache_keys_inv_def)
  have newer: "hi_revision x < hi_revision row"
    if "x \<in> set (projections d)" "hi_team_id x = T" "hi_key x = hi_key row" for x
    using that coalesce_max_ge [of "hi_revision x" "map hi_revision (filter (\<lambda>r. hi_team_id r = T \<and> hi_key r = m) (projections d))"]
    by (auto simp: row next_projection_revision_def)
  have head: "validate_pair_head T ''projection_current'' (projections d') (projection_current d') = Inr ()"
    unfolding rows(1) cur
    by (rule pair_head_after_upsert [OF v dis]) (use newer in \<open>simp_all add: row\<close>)
  have "find (\<lambda>c. current_key c = (T, m)) (projection_current d') = Some \<lparr>cu_team_id = T, cu_key = m, cu_object_id = object_id p\<rparr>"
    unfolding cur upsert_find by (simp add: current_key_def)
  moreover have "find (\<lambda>r. hi_object_id r = object_id p) (projections d') = Some row"
    using rows by (auto simp: find_append row find_None_iff split: option.splits dest: find_SomeD)
  ultimately have "current_projection_row d' T m = Some row"
    by (simp add: current_projection_row_def current_key_def)
  moreover have "parse_record (projection_cls e) l p = Inr p" for l
    using src(2) by (auto simp: projection_from_source_def build_projection_def Let_def dest: create_parse)
  moreover obtain sn where "snapshot e d T = Inr sn" using src(1) by (auto simp: projection_source_of_def)
  ultimately have "stored_projection e d' T m = Inr (Some (p, fp))"
    using head same by (simp add: stored_projection_def row)
  then show ?thesis using same src by (simp add: validate_projection_rebuild_def)
qed

lemma run_cache_keys: "cache_keys_inv (run_calls e cs empty_db)"
  using cache_keys.step_run [of empty_db e cs] by (simp add: cache_keys_frame_def cache_keys_inv_def empty_db_def)

text \<open>
  A member projection that is stored is read back and revalidated: when \<open>persist_projection\<close> changes a
  store that a run produced, \<open>stored_projection\<close> returns that projection with its source fingerprint, and the
  rebuild check recomputes it from the immutable Team tables and accepts it.
\<close>

theorem persist_projection_roundtrip:
  assumes "persist_projection e clk projection fingerprint (run_calls e cs empty_db) = Inr (d', q)"
    and "d' \<noteq> run_calls e cs empty_db"
  shows "\<exists>team_id member. q = projection \<and> member_ref_of member = pr_member_ref projection \<and>
    stored_projection e d' team_id (mb_member_id member) = Inr (Some (projection, fingerprint)) \<and>
    validate_projection_rebuild e d' team_id (mb_member_id member) = Inr projection"
proof -
  obtain T sn member hash where m: "member_by_ref sn (pr_member_ref projection) = Inr member"
    and f: "persist_fresh e clk T (mb_member_id member) projection fingerprint hash (run_calls e cs empty_db) = Inr (d', q)"
    using assms by (auto simp: persist_projection_def Let_def split: option.splits)
  have "q = projection" using f by (rule persist_fresh_InrE)
  then show ?thesis
    using persist_fresh_stored [OF f run_cache_keys] member_by_refD [OF m] by blast
qed

text \<open>Storing the projection of the sample Team's second member.\<close>

definition sample_source :: projection_source where
  "sample_source = source_of sample_env sample_snapshot (sample_member ''bob'' False) [sample_task_a] [] [] []"

lemma sample_projection_source: "projection_source_of sample_env sample_db1 ''team'' ''bob'' = Inr sample_source"
proof -
  have "member_by_id sample_snapshot ''bob'' = Inr (sample_member ''bob'' False)"
    "artifact_heads_of sample_env sample_db1 ''team'' = Inr []" "parse_messages sample_env sample_db1 ''team'' = Inr []"
    "team_subscriptions sample_env sample_db1 ''team'' = Inr []"
    "filter (\<lambda>t. tk_task_id t \<in> neighborhood (sn_graph sample_snapshot) ''bob'') (gr_tasks (sn_graph sample_snapshot)) =
       [sample_task_a]"
    by code_simp+
  then show ?thesis by (simp add: projection_source_of_def sample_snapshot_db1 Let_def sample_source_def)
qed

lemma sample_build_projection:
  "\<exists>p. projection_from_source sample_env sample_source (audit p) = Inr p \<and>
     pr_team_ref p = sample_object_ref ''agent-team'' ''1'' \<and> pr_member_ref p = member_ref_of (sample_member ''bob'' False)"
proof -
  have "case projection_from_source sample_env sample_source sample_audit of Inl _ \<Rightarrow> False
    | Inr p \<Rightarrow> projection_from_source sample_env sample_source (audit p) = Inr p \<and>
        pr_team_ref p = sample_object_ref ''agent-team'' ''1'' \<and> pr_member_ref p = member_ref_of (sample_member ''bob'' False)"
    by code_simp
  then show ?thesis by (auto split: sum.splits)
qed

lemma sample_persist:
  "\<exists>p d'. persist_projection sample_env sample_clock p (ps_source_fingerprint sample_source) sample_db1 = Inr (d', p) \<and>
     pr_member_ref p = member_ref_of (sample_member ''bob'' False) \<and> d' \<noteq> sample_db1"
proof -
  obtain p where p: "projection_from_source sample_env sample_source (audit p) = Inr p"
    "pr_team_ref p = sample_object_ref ''agent-team'' ''1''" "pr_member_ref p = member_ref_of (sample_member ''bob'' False)"
    using sample_build_projection by blast
  define fp where "fp = ps_source_fingerprint sample_source"
  define row where "row = \<lparr>hi_object_id = object_id p, hi_team_id = ''team'', hi_key = ''bob'',
    hi_revision = next_projection_revision sample_db1 ''team'' ''bob'', hi_extra = fp, hi_record = p\<rparr>"
  define d2 where "d2 = sample_db1\<lparr>projections := [row],
    projection_current := [\<lparr>cu_team_id = ''team'', cu_key = ''bob'', cu_object_id = object_id p\<rparr>]\<rparr>"
  have sc: "projection_scope ''team'' ''bob'' \<noteq> ''create-team:team''" by (simp add: projection_scope_def)
  have d2: "outbox_rows d2 = outbox_rows sample_db1" "idempotency d2 = idempotency sample_db1"
    "ref_type (team_ref_of (sn_team sample_snapshot)) = outbox_record_type TEAM_CHANGED"
    by (simp_all add: d2_def to_ref_def)
  obtain d3 rec d4 where fin: "append_outbox sample_env sample_snapshot TEAM_CHANGED (team_ref_of (sn_team sample_snapshot))
      (sample_clock 0) d2 = Inr (d3, rec)"
    "remember (projection_scope ''team'' ''bob'') fp (request_sha256 sample_env (ProjectionRequest (projection_ref_of p) fp))
      ''PROJECTION'' (object_id p) (sample_clock 1) d3 = Inr d4" "projections d4 = projections d2"
    using sample_finish [OF d2 sc] by fastforce
  have ins: "insert_projection_row row sample_db1 = Inr (sample_db1\<lparr>projections := [row]\<rparr>)"
    "upsert_projection_current \<lparr>cu_team_id = ''team'', cu_key = ''bob'', cu_object_id = object_id p\<rparr>
       (sample_db1\<lparr>projections := [row]\<rparr>) = Inr d2"
    by (simp_all add: insert_projection_row_def insert_row_def upsert_projection_current_def foreign_key_def row_def d2_def)
  have reads: "team_id_of sample_env sample_db1 (sample_object_ref ''agent-team'' ''1'') = Inr ''team''"
    "member_by_ref sample_snapshot (member_ref_of (sample_member ''bob'' False)) = Inr (sample_member ''bob'' False)"
    "mb_member_id (sample_member ''bob'' False) = ''bob''"
    "validate_pair_head ''team'' ''projection_current'' (projections sample_db1) (projection_current sample_db1) = Inr ()"
    by code_simp+
  have src: "ps_snapshot sample_source = sample_snapshot" by (simp add: sample_source_def source_of_def Let_def)
  have "persist_projection sample_env sample_clock p fp sample_db1 = Inr (d4, p)"
    using reads(4)
    by (simp add: persist_projection_def persist_fresh_def Let_def p reads sample_snapshot_at_db1 sample_no_replay sc
        sample_projection_source fp_def [symmetric] src row_def [symmetric] ins fin [unfolded One_nat_def])
  moreover have "d4 \<noteq> sample_db1" using fin(3) by (auto simp: d2_def)
  ultimately show ?thesis using p(3) fp_def by blast
qed

theorem persist_projection_roundtrip_witness:
  "\<exists>projection d'. persist_projection sample_env sample_clock projection (ps_source_fingerprint sample_source) sample_db1 =
       Inr (d', projection) \<and>
     (\<exists>team_id (member :: team_member). stored_projection sample_env d' team_id (mb_member_id member) =
        Inr (Some (projection, ps_source_fingerprint sample_source)))"
proof -
  obtain p d' where p: "persist_projection sample_env sample_clock p (ps_source_fingerprint sample_source) sample_db1 = Inr (d', p)"
    and new: "d' \<noteq> sample_db1"
    using sample_persist by blast
  then show ?thesis
    using persist_projection_roundtrip [of sample_env _ _ _ sample_calls, unfolded sample_run, OF p new] by blast
qed

end
