(* ===== verification/Coordinator_Properties.thy ===== *)
theory Coordinator_Properties
  imports Sample_Steps Team_Coordinator
begin

text \<open>
  Convergence (\<open>team/convergence.py\<close>): when a Team is declared complete, what a rework does to the
  task histories, and that the transactions a convergence is made of keep the store's invariants.
\<close>

section \<open>Unused operation keys\<close>

definition unused :: "string \<Rightarrow> db \<Rightarrow> bool" where
  "unused key d \<longleftrightarrow> key \<notin> ik_operation_key ` set (idempotency d)"

lemma unused_no_replay: "unused key d \<Longrightarrow> replay d scope key hash = Inr None"
  by (auto simp: unused_def replay_def replay_row_def find_None_iff split: option.splits dest: find_SomeD)

lemma keys_differ:
  "checkpoint_key k \<noteq> record_key k" "rework_key k \<noteq> record_key k"
  by (simp_all add: checkpoint_key_def record_key_def rework_key_def)

definition memo_step :: "string \<Rightarrow> db \<Rightarrow> db \<Rightarrow> bool" where
  "memo_step key d d' \<longleftrightarrow> ik_operation_key ` set (idempotency d') \<subseteq> insert key (ik_operation_key ` set (idempotency d))"

lemma memo_step_refl [simp]: "memo_step key d d"
  by (auto simp: memo_step_def)

lemma memo_step_unused: "memo_step key d d' \<Longrightarrow> key \<noteq> k \<Longrightarrow> unused k d \<Longrightarrow> unused k d'"
  by (auto simp: memo_step_def unused_def)

lemma append_outbox_memo: "append_outbox e sn kind r now d = Inr (d', rec) \<Longrightarrow> idempotency d' = idempotency d"
  by (erule append_outbox_effect) simp

lemma create_checkpoint_memo:
  assumes "create_checkpoint e clk T aud key d = Inr (d', cp)"
  shows "memo_step key d d'"
  using assms unfolding create_checkpoint_def checkpoint_fresh_def
  by (auto simp: Let_def memo_step_def dest!: insert_shape append_outbox_memo remember_effect(1)
      split: option.splits)

lemma rework_events_memo:
  "rework_events e clk n sn T works ids aud xs d = Inr d' \<Longrightarrow> idempotency d' = idempotency d"
  by (induction xs arbitrary: n d) (auto split: option.splits dest!: append_task_event_effect)

lemma revise_for_rework_memo:
  assumes "revise_for_rework e clk T tr gr ar ids aud key d = Inr (d', x)"
  shows "memo_step key d d'"
  using revise_for_rework_cases [OF assms]
proof
  assume "\<exists>hash. rework_fresh e clk T tr gr ar (sort (remdups ids)) aud key hash d = Inr (d', x)"
  then obtain hash where "rework_fresh e clk T tr gr ar (sort (remdups ids)) aud key hash d = Inr (d', x)" ..
  then show ?thesis
    by (rule rework_fresh_InrE)
       (auto simp: finish_successor_def memo_step_def move_team_graph_def
          dest!: rework_events_memo insert_successor_shape(1) append_outbox_memo remember_effect(1))
qed simp

section \<open>The recorded outcome\<close>

lemma record_convergence_fresh:
  assumes "record_convergence e clk dc key d = Inr (d', dc')" and "unused key d"
  shows "dc' = dc"
  using assms(1) unfolding record_convergence_def convergence_fresh_def
  by (auto simp: Let_def unused_no_replay [OF assms(2)] split: if_splits)

lemma decision_of_outcome:
  "decision_of e before after cp oc blockers codes aud key = Inr dc \<Longrightarrow> dc_outcome dc = oc"
  by (auto simp: decision_of_def Let_def create_decision_def decision.create_Inr_iff)

lemma transact_Inr: "transact op d = (Inr x, d') \<longleftrightarrow> op d = Inr (d', x)"
  by (auto simp: transact_def split: sum.splits)

lemma then_do_InrE:
  assumes "fst (then_do m f) = Inr y"
  obtains x d where "m = (Inr x, d)" and "fst (f x d) = Inr y"
  using assms by (cases m) (auto simp: then_do_def split: sum.splits)

lemma record_decision_outcome:
  assumes ok: "fst (record_decision e clk T before after oc blockers codes aud key d) = Inr dc"
    and key: "unused (record_key key) d"
  shows "dc_outcome dc = oc"
proof -
  obtain cp d1 where c: "create_checkpoint e (clk 1) T aud (checkpoint_key key) d = Inr (d1, cp)"
    and r: "fst (then_do (reading (decision_of e before after cp oc blockers codes aud key) d1)
        (\<lambda>decision d2. transact (record_convergence e (clk 2) decision (record_key key)) d2)) = Inr dc"
    using ok unfolding record_decision_def by (rule then_do_InrE) (simp add: transact_Inr)
  obtain v d2 where v: "decision_of e before after cp oc blockers codes aud key = Inr v" "d2 = d1"
    and t: "fst (transact (record_convergence e (clk 2) v (record_key key)) d1) = Inr dc"
    using r by (rule then_do_InrE) (auto simp: reading_def)
  obtain d3 where "record_convergence e (clk 2) v (record_key key) d1 = Inr (d3, dc)"
    using t by (auto simp: transact_def split: sum.splits)
  moreover have "unused (record_key key) d1"
    using memo_step_unused [OF create_checkpoint_memo [OF c] keys_differ(1) key] .
  ultimately show ?thesis using record_convergence_fresh decision_of_outcome [OF v(1)] by blast
qed

lemma rework_or_block_outcome:
  assumes ok: "fst (rework_or_block e clk T before challenges aud key d) = Inr dc"
    and key: "unused (record_key key) d"
  shows "dc_outcome dc \<in> {REWORK, CO_BLOCKED}"
proof -
  obtain ids where ids: "challenge_rework_tasks (hd challenges) (gr_tasks (sn_graph before)) (ro_members (sn_roster before)) = Inr ids"
    and ok': "fst (case transact (revise_for_rework e (clk 0) T (team_ref_of (sn_team before))
                      (graph_ref_of (sn_graph before)) (authority_ref_of (sn_authority before)) ids aud
                      (rework_key key)) d of
       (Inl (TeamTaskStateError m), d2) \<Rightarrow>
         record_decision e clk T before before CO_BLOCKED (map message_ref_of challenges)
           [''REWORK_BUDGET_EXHAUSTED''] aud key d2
     | (Inl err, d2) \<Rightarrow> (Inl err, d2)
     | (Inr after, d2) \<Rightarrow>
         record_decision e clk T before after REWORK (map message_ref_of challenges)
           [''DIRECT_CHALLENGE_REWORK''] aud key d2) = Inr dc"
    using ok unfolding rework_or_block_def by (rule then_do_InrE) (auto simp: reading_def)
  show ?thesis
  proof (cases "revise_for_rework e (clk 0) T (team_ref_of (sn_team before)) (graph_ref_of (sn_graph before))
      (authority_ref_of (sn_authority before)) ids aud (rework_key key) d")
    case (Inl err)
    then show ?thesis
      using ok' key by (cases err) (auto simp: transact_def dest: record_decision_outcome)
  next
    case (Inr p)
    then obtain d2 after where p: "p = (d2, after)" by (cases p)
    have "unused (record_key key) d2"
      using memo_step_unused [OF revise_for_rework_memo keys_differ(2) key] Inr p by blast
    then show ?thesis using ok' Inr p by (auto simp: transact_def dest: record_decision_outcome)
  qed
qed

text \<open>
  C15: A Team is declared complete exactly when nothing is left to do. When a convergence under a decision
  key not used before records a decision, its outcome is COMPLETE if and only if there is no open conflict,
  no open challenge, at least one task, every task is completed, and every output artifact head of a task not
  assigned to the coordinator exists.
\<close>

theorem converge_complete_iff:
  assumes "fst (converge e clk team_id aud key d) = Inr decision" and "unused (record_key key) d"
    and "convergence_source_of e d team_id = Inr src"
  shows "dc_outcome decision = COMPLETE \<longleftrightarrow>
    cs_conflicts src = [] \<and> open_challenges (cs_messages src) = [] \<and> cs_work src \<noteq> [] \<and>
    list_all (\<lambda>w. tw_status w = COMPLETED) (cs_work src) \<and>
    missing_head_ids (cs_snapshot src) (cs_artifact_heads src) = []"
proof -
  have ok: "fst (decide e clk team_id src aud key d) = Inr decision"
    using assms(1,3) by (simp add: converge_def reading_def)
  note out = record_decision_outcome [OF _ assms(2)]
  have run: "runnable_work (cs_work src) \<noteq> [] \<Longrightarrow> \<not> list_all (\<lambda>w. tw_status w = COMPLETED) (cs_work src)"
    "failed_work (cs_work src) \<noteq> [] \<Longrightarrow> \<not> list_all (\<lambda>w. tw_status w = COMPLETED) (cs_work src)"
    by (auto simp: runnable_work_def failed_work_def filter_empty_conv list_all_iff) force+
  show ?thesis
    using ok run rework_or_block_outcome [OF _ assms(2)]
    unfolding decide_def Let_def
    by (fastforce split: if_splits dest: out)
qed

definition sample_checkpoint :: team_checkpoint where
  "sample_checkpoint =
     \<lparr>object_id = sample_id ''team-checkpoint'' ''team.checkpoint-1'', object_sha256 = ''team.checkpoint-1'',
      audit = audit_with_refs sample_audit
        [sample_object_ref ''agent-team'' ''1'', sample_object_ref ''execution-authority'' ''1'',
         sample_session ''anna'', sample_session ''bob'', sample_object_ref ''team-roster'' ''1'',
         sample_object_ref ''team-task-graph'' ''1''],
      ck_checkpoint_id = ''team.checkpoint-1'', ck_team_ref = sample_object_ref ''agent-team'' ''1'',
      ck_roster_ref = sample_object_ref ''team-roster'' ''1'',
      ck_task_graph_ref = sample_object_ref ''team-task-graph'' ''1'',
      ck_authority_ref = sample_object_ref ''execution-authority'' ''1'', ck_artifact_head_refs = [],
      ck_subscription_refs = [], ck_member_session_refs = [sample_session ''anna'', sample_session ''bob''],
      ck_message_cursor = 0\<rparr>"

definition sample_db5 :: db where
  "sample_db5 = sample_db1
     \<lparr>checkpoints := [\<lparr>kp_object_id = object_id sample_checkpoint, kp_team_id = ''team'', kp_sequence = 1,
                       kp_team_version = 1, kp_record = sample_checkpoint\<rparr>],
      checkpoint_current := [\<lparr>kh_team_id = ''team'', kh_object_id = object_id sample_checkpoint\<rparr>],
      outbox_rows := [sample_outbox ''team.outbox-1'' ''1'' 1,
        (sample_outbox ''team.outbox-2'' ''2'' 2)\<lparr>ox_kind := TEAM_CHECKPOINTED, ox_record :=
          (ox_record (sample_outbox ''team.outbox-2'' ''2'' 2))
            \<lparr>audit := audit_with_refs sample_audit
               [sample_object_ref ''agent-team'' ''1'', sample_session ''anna'', sample_session ''bob'',
                sample_object_ref ''team-checkpoint'' ''team.checkpoint-1''],
             ob_event_kind := TEAM_CHECKPOINTED,
             ob_record_ref := sample_object_ref ''team-checkpoint'' ''team.checkpoint-1''\<rparr>\<rparr>],
      idempotency :=
        [sample_memo ''create-team:team'' ''key-1'' ''TEAM'' (sample_id ''agent-team'' ''1''),
         sample_memo ''checkpoint:team'' ''key-5.checkpoint'' ''CHECKPOINT'' (object_id sample_checkpoint)]\<rparr>"

definition sample_decision :: convergence_decision where
  "sample_decision =
     \<lparr>object_id = sample_id ''team-convergence-decision'' ''key-5'', object_sha256 = ''key-5'',
      audit = audit_with_refs sample_audit
        [sample_object_ref ''agent-team'' ''1'', sample_object_ref ''execution-authority'' ''1'',
         sample_object_ref ''team-checkpoint'' ''team.checkpoint-1'', sample_object_ref ''team-task'' ''task-a'',
         sample_object_ref ''team-task-graph'' ''1''],
      dc_decision_key = ''key-5'', dc_team_ref = sample_object_ref ''agent-team'' ''1'',
      dc_graph_ref = sample_object_ref ''team-task-graph'' ''1'',
      dc_authority_ref = sample_object_ref ''execution-authority'' ''1'',
      dc_checkpoint_ref = sample_object_ref ''team-checkpoint'' ''team.checkpoint-1'', dc_outcome = CONTINUE,
      dc_blocking_refs = [sample_object_ref ''team-task'' ''task-a''], dc_successor_team_ref = None,
      dc_successor_graph_ref = None, dc_successor_authority_ref = None, dc_reason_codes = [''WORK_REMAINS'']\<rparr>"

definition sample_work :: task_work where
  "sample_work = eventless_work sample_snapshot sample_task_a\<lparr>tw_status := READY\<rparr>"

lemma sample_source:
  "convergence_source_of sample_env sample_db1 ''team'' =
     Inr \<lparr>cs_snapshot = sample_snapshot, cs_work = [sample_work], cs_messages = [], cs_conflicts = [],
          cs_artifact_heads = []\<rparr>"
  by code_simp

lemma sample_decision_of:
  "decision_of sample_env sample_snapshot sample_snapshot sample_checkpoint CONTINUE (work_refs [sample_work])
     [''WORK_REMAINS''] sample_audit ''key-5'' = Inr sample_decision"
  by code_simp

definition sample_checked :: db where
  "sample_checked = sample_db5\<lparr>outbox_rows := outbox_rows sample_db1, idempotency := idempotency sample_db1\<rparr>"

lemma sample_checkpoint_parts:
  "build_checkpoint sample_env sample_db1 ''team'' sample_snapshot [] [] sample_audit = Inr sample_checkpoint"
  "validate_checkpoint_head sample_db1 ''team'' = Inr ()"
  "artifact_heads_of sample_env sample_db1 ''team'' = Inr []"
  "team_subscriptions sample_env sample_db1 ''team'' = Inr []"
  "load_checkpoint sample_env sample_db5 (sample_id ''team-checkpoint'' ''team.checkpoint-1'') = Inr sample_checkpoint"
  by code_simp+

lemma sample_checkpoint_outbox:
  "case append_outbox sample_env sample_snapshot TEAM_CHECKPOINTED (checkpoint_ref_of sample_checkpoint) 0
     sample_checked of Inl _ \<Rightarrow> False | Inr (d, _) \<Rightarrow> d = sample_checked\<lparr>outbox_rows := outbox_rows sample_db5\<rparr>"
  by code_simp

definition sample_decided :: db where
  "sample_decided = sample_db5\<lparr>convergence :=
     [\<lparr>cv_object_id = object_id sample_decision, cv_team_id = ''team'', cv_sequence = 1, cv_outcome = CONTINUE,
       cv_record = sample_decision\<rparr>]\<rparr>"

lemma sample_decision_outbox:
  "case append_outbox sample_env sample_snapshot TEAM_CHANGED (team_ref_of sample_team) 0 sample_decided of
     Inl _ \<Rightarrow> False | Inr (d, _) \<Rightarrow> idempotency d = idempotency sample_db5"
  by code_simp

lemma sample_checkpoint_insert:
  "insert_checkpoint
     \<lparr>kp_object_id = object_id sample_checkpoint, kp_team_id = ''team'',
      kp_sequence = next_checkpoint_sequence sample_db1 ''team'',
      kp_team_version = tm_team_version (sn_team sample_snapshot), kp_record = sample_checkpoint\<rparr> sample_db1 =
   Inr (sample_db1\<lparr>checkpoints := checkpoints sample_db5\<rparr>)"
  "upsert_checkpoint_current \<lparr>kh_team_id = ''team'', kh_object_id = object_id sample_checkpoint\<rparr>
     (sample_db1\<lparr>checkpoints := checkpoints sample_db5\<rparr>) = Inr sample_checked"
  by (simp_all add: insert_checkpoint_def insert_row_def upsert_checkpoint_current_def foreign_key_def
      sample_db5_def sample_checked_def next_checkpoint_sequence_def team_checkpoints_def sample_snapshot_def sample_team_def)

lemma sample_create_checkpoint:
  "create_checkpoint sample_env (\<lambda>_. 0) ''team'' sample_audit (checkpoint_key ''key-5'') sample_db1 =
     Inr (sample_db5, sample_checkpoint)"
proof -
  have sc: "checkpoint_scope ''team'' \<noteq> ''create-team:team''" by (simp add: checkpoint_scope_def)
  obtain rec where o: "append_outbox sample_env sample_snapshot TEAM_CHECKPOINTED (checkpoint_ref_of sample_checkpoint) 0
      sample_checked = Inr (sample_checked\<lparr>outbox_rows := outbox_rows sample_db5\<rparr>, rec)"
    using sample_checkpoint_outbox by (auto split: sum.splits)
  have r: "remember (checkpoint_scope ''team'') (checkpoint_key ''key-5'')
      (request_sha256 sample_env (CheckpointRequest ''team'')) ''CHECKPOINT'' (object_id sample_checkpoint) 0
      (sample_checked\<lparr>outbox_rows := outbox_rows sample_db5\<rparr>) = Inr sample_db5"
    by (simp add: remember_def insert_idempotency_def insert_row_def sample_checked_def sample_db5_def sample_memo_def
        checkpoint_scope_def checkpoint_key_def sample_env_def sample_db1_def)
  show ?thesis
    by (simp add: create_checkpoint_def checkpoint_fresh_def Let_def sample_no_replay sc sample_checkpoint_parts
        sample_snapshot_db1 sample_checkpoint_insert o r)
qed

lemma sample_refs:
  "team_ref_of sample_team = dc_team_ref sample_decision"
  "graph_ref_of sample_team_graph = dc_graph_ref sample_decision"
  "authority_ref_of sample_authority = dc_authority_ref sample_decision"
  "checkpoint_ref_of sample_checkpoint = dc_checkpoint_ref sample_decision"
  "roster_ref_of sample_roster = ck_roster_ref sample_checkpoint"
  "ck_team_ref sample_checkpoint = dc_team_ref sample_decision"
  "ck_task_graph_ref sample_checkpoint = dc_graph_ref sample_decision"
  "ck_authority_ref sample_checkpoint = dc_authority_ref sample_decision"
  "ref_id (dc_checkpoint_ref sample_decision) = sample_id ''team-checkpoint'' ''team.checkpoint-1''"
  by code_simp+

lemma sample_work_status: "tw_status sample_work = READY"
  by (simp add: sample_work_def)

lemma sample_record_parts:
  "team_id_of sample_env sample_db5 (dc_team_ref sample_decision) = Inr ''team''"
  "replay sample_db5 (convergence_scope ''team'') (record_key ''key-5'')
     (request_sha256 sample_env (ConvergenceRequest (decision_ref_of sample_decision))) = Inr None"
  by code_simp+

lemma sample_record_convergence:
  "\<exists>d'. record_convergence sample_env (\<lambda>_. 0) sample_decision (record_key ''key-5'') sample_db5 =
     Inr (d', sample_decision)"
proof -
  have tables: "team_tables sample_db5 = team_tables sample_db1" by (simp add: team_tables_def sample_db5_def)
  obtain d rec where o: "append_outbox sample_env sample_snapshot TEAM_CHANGED (dc_team_ref sample_decision) 0
      sample_decided = Inr (d, rec)" and ik: "idempotency d = idempotency sample_db5"
    using sample_decision_outbox sample_refs(1) by (auto split: sum.splits)
  obtain d' where r: "remember (convergence_scope ''team'') (record_key ''key-5'')
      (request_sha256 sample_env (ConvergenceRequest (decision_ref_of sample_decision))) ''CONVERGENCE''
      (object_id sample_decision) 0 d = Inr d'"
    by (simp add: remember_def insert_idempotency_def insert_row_def ik sample_db5_def sample_memo_def
        convergence_scope_def record_key_def)
  have ins: "insert_convergence
      \<lparr>cv_object_id = object_id sample_decision, cv_team_id = ''team'',
       cv_sequence = coalesce_max (map cv_sequence (team_decisions sample_db5 ''team'')) + 1,
       cv_outcome = dc_outcome sample_decision, cv_record = sample_decision\<rparr> sample_db5 = Inr sample_decided"
    by (simp add: insert_convergence_def insert_row_def sample_decided_def team_decisions_def sample_db5_def
        sample_decision_def foreign_key_def)
  have head: "checkpoint_head sample_db5 ''team'' = Some \<lparr>kh_team_id = ''team'', kh_object_id = object_id sample_checkpoint\<rparr>"
    by (simp add: checkpoint_head_def sample_db5_def)
  have parts: "sn_team sample_snapshot = sample_team" "sn_graph sample_snapshot = sample_team_graph"
      "sn_roster sample_snapshot = sample_roster" "sn_authority sample_snapshot = sample_authority"
    "dc_successor_team_ref sample_decision = None" "dc_successor_graph_ref sample_decision = None"
    "dc_successor_authority_ref sample_decision = None"
    by (simp_all add: sample_snapshot_def sample_decision_def)
  show ?thesis
    by (simp add: record_convergence_def convergence_fresh_def Let_def or_else_def parts sample_refs sample_record_parts
        snapshot_same_tables(1) [OF tables] sample_snapshot_db1 sample_checkpoint_parts head check_rework_predecessor_def ins o r)
qed

theorem converge_complete_iff_witness:
  "\<exists>decision src. fst (converge sample_env (\<lambda>_ _. 0) ''team'' sample_audit ''key-5'' sample_db1) = Inr decision \<and>
     unused (record_key ''key-5'') sample_db1 \<and> convergence_source_of sample_env sample_db1 ''team'' = Inr src \<and>
     dc_outcome decision \<noteq> COMPLETE"
proof -
  obtain d' where d': "record_convergence sample_env (\<lambda>_. 0) sample_decision (record_key ''key-5'') sample_db5 =
      Inr (d', sample_decision)"
    using sample_record_convergence ..
  have "fst (converge sample_env (\<lambda>_ _. 0) ''team'' sample_audit ''key-5'' sample_db1) = Inr sample_decision"
    by (simp add: converge_def sample_source reading_def decide_def runnable_work_def record_decision_def
        transact_def sample_create_checkpoint sample_decision_of d' sample_work_status)
  moreover have "unused (record_key ''key-5'') sample_db1"
    by (simp add: unused_def sample_db1_def sample_memo_def record_key_def)
  ultimately show ?thesis
    using converge_complete_iff [of sample_env "\<lambda>_ _. 0" "''team''" sample_audit "''key-5''" sample_db1] sample_source
    by (fastforce simp: sample_work_status)
qed

end
