(* ===== verification/Pack_Composition.thy ===== *)
theory Pack_Composition
  imports Interaction
begin

text \<open>
  The static Pack composition (\<open>harness/composition.py\<close>, \<open>harness/projections.py\<close>): projection
  definitions, agent profiles, the Pack manifest, the Harness composition, the registration that ties
  them together with its validator, and the registry that resolves a Pack by version or by manifest.
  A registration passed as an instance is not validated again (pydantic's default), so its validator
  runs where it is built.
\<close>

section \<open>Projection definitions\<close>

datatype projection_visibility = INTERNAL | USER_SAFE | MEMBER_SCOPED

record projection_definition = harness_object +
  pj_projection_id :: string
  pj_projection_version :: string
  pj_reducer_id :: string
  pj_source_event_families :: "string list"
  pj_source_artifact_roles :: "string list"
  pj_output_schema_ref :: object_ref
  pj_visibility :: projection_visibility
  pj_content_safe :: bool

definition validate_projection_definition :: "projection_definition \<Rightarrow> bool" where
  "validate_projection_definition v \<longleftrightarrow>
     list_all is_identifier
       (pj_projection_id v # pj_reducer_id v # pj_source_event_families v @ pj_source_artifact_roles v) \<and>
     min_length 1 (pj_projection_version v) \<and> max_length 128 (pj_projection_version v) \<and>
     max_length 128 (pj_source_event_families v) \<and> max_length 256 (pj_source_artifact_roles v) \<and>
     \<not> (pj_source_event_families v = [] \<and> pj_source_artifact_roles v = []) \<and>
     require_sorted_unique (pj_source_event_families v) \<and>
     require_sorted_unique (pj_source_artifact_roles v) \<and>
     ref_type (pj_output_schema_ref v) = ''json-schema'' \<and>
     \<not> (pj_visibility v = USER_SAFE \<and> \<not> pj_content_safe v)"

definition projection_definition_class ::
  "(projection_definition \<Rightarrow> string) \<Rightarrow> projection_definition harness_class" where
  "projection_definition_class dg =
     \<lparr>object_type = ''harness-projection-definition'', digest = dg,
      direct_refs = (\<lambda>v. [pj_output_schema_ref v]), validates = validate_projection_definition\<rparr>"

text \<open>\<open>ProjectionDefinitionV1.create\<close> sorts both source inventories.\<close>

definition create_projection_definition ::
  "(projection_definition \<Rightarrow> string) \<Rightarrow> contract_audit \<Rightarrow> projection_definition \<Rightarrow>
   projection_definition result" where
  "create_projection_definition dg aud v =
     create (projection_definition_class dg) aud
       (v\<lparr>pj_source_event_families := sort (pj_source_event_families v),
          pj_source_artifact_roles := sort (pj_source_artifact_roles v)\<rparr>)"

section \<open>Agent profiles\<close>

record agent_profile = harness_object +
  ap_profile_id :: string
  ap_profile_version :: string
  ap_role :: string
  ap_capability_definition_refs :: "object_ref list"
  ap_context_projection_ref :: object_ref
  ap_model_policy_ref :: object_ref
  ap_coordinator :: bool

definition validate_profile :: "agent_profile \<Rightarrow> bool" where
  "validate_profile v \<longleftrightarrow>
     is_identifier (ap_profile_id v) \<and> is_identifier (ap_role v) \<and>
     min_length 1 (ap_profile_version v) \<and> max_length 128 (ap_profile_version v) \<and>
     min_length 1 (ap_capability_definition_refs v) \<and> max_length 256 (ap_capability_definition_refs v) \<and>
     require_sorted_unique_refs (ap_capability_definition_refs v) \<and>
     refs_of_type (ap_capability_definition_refs v) ''harness-capability-definition'' \<and>
     require_ref (ap_context_projection_ref v) ''harness-projection-definition'' \<and>
     ref_type (ap_model_policy_ref v) = ''model-routing-policy''"

definition profile_class :: "(agent_profile \<Rightarrow> string) \<Rightarrow> agent_profile harness_class" where
  "profile_class dg =
     \<lparr>object_type = ''pack-agent-profile'', digest = dg,
      direct_refs = (\<lambda>v. ap_capability_definition_refs v @
                         [ap_context_projection_ref v, ap_model_policy_ref v]),
      validates = validate_profile\<rparr>"

section \<open>The Pack manifest\<close>

record pack_manifest = harness_object +
  pm_pack_id :: string
  pm_pack_version :: string
  pm_artifact_schema_refs :: "object_ref list"
  pm_capability_definition_refs :: "object_ref list"
  pm_provider_binding_refs :: "object_ref list"
  pm_agent_profile_refs :: "object_ref list"
  pm_graph_template_ref :: object_ref
  pm_blueprint_template_ref :: object_ref
  pm_permission_policy_refs :: "object_ref list"
  pm_projection_refs :: "object_ref list"
  pm_delivery_adapter_refs :: "object_ref list"
  pm_certification_refs :: "object_ref list"

definition inventory_ok :: "int \<Rightarrow> object_ref list \<Rightarrow> string \<Rightarrow> bool" where
  "inventory_ok bound rs ty \<longleftrightarrow>
     min_length 1 rs \<and> max_length bound rs \<and> require_sorted_unique_refs rs \<and> refs_of_type rs ty"

definition validate_manifest :: "pack_manifest \<Rightarrow> bool" where
  "validate_manifest v \<longleftrightarrow>
     is_identifier (pm_pack_id v) \<and>
     min_length 1 (pm_pack_version v) \<and> max_length 128 (pm_pack_version v) \<and>
     inventory_ok 1000 (pm_artifact_schema_refs v) ''json-schema'' \<and>
     inventory_ok 1000 (pm_capability_definition_refs v) ''harness-capability-definition'' \<and>
     inventory_ok 1000 (pm_provider_binding_refs v) ''harness-capability-provider'' \<and>
     inventory_ok 1000 (pm_agent_profile_refs v) ''pack-agent-profile'' \<and>
     inventory_ok 64 (pm_permission_policy_refs v) ''balanced-autonomy-policy'' \<and>
     inventory_ok 256 (pm_projection_refs v) ''harness-projection-definition'' \<and>
     require_ref (pm_graph_template_ref v) ''graph-template'' \<and>
     require_ref (pm_blueprint_template_ref v) ''blueprint-template'' \<and>
     inventory_ok 64 (pm_delivery_adapter_refs v) ''delivery-adapter'' \<and>
     min_length 1 (pm_certification_refs v) \<and> max_length 256 (pm_certification_refs v) \<and>
     require_sorted_unique_refs (pm_certification_refs v)"

definition manifest_class :: "(pack_manifest \<Rightarrow> string) \<Rightarrow> pack_manifest harness_class" where
  "manifest_class dg =
     \<lparr>object_type = ''eval-pack-manifest'', digest = dg,
      direct_refs = (\<lambda>v. pm_artifact_schema_refs v @ pm_capability_definition_refs v @
                         pm_provider_binding_refs v @ pm_agent_profile_refs v @
                         [pm_graph_template_ref v, pm_blueprint_template_ref v] @
                         pm_permission_policy_refs v @ pm_projection_refs v @
                         pm_delivery_adapter_refs v @ pm_certification_refs v),
      validates = validate_manifest\<rparr>"

text \<open>\<open>EvalPackManifestV1.create\<close> sorts every inventory.\<close>

definition create_manifest ::
  "(pack_manifest \<Rightarrow> string) \<Rightarrow> contract_audit \<Rightarrow> pack_manifest \<Rightarrow> pack_manifest result" where
  "create_manifest dg aud v =
     create (manifest_class dg) aud
       (v\<lparr>pm_artifact_schema_refs := sorted_refs (pm_artifact_schema_refs v),
          pm_capability_definition_refs := sorted_refs (pm_capability_definition_refs v),
          pm_provider_binding_refs := sorted_refs (pm_provider_binding_refs v),
          pm_agent_profile_refs := sorted_refs (pm_agent_profile_refs v),
          pm_permission_policy_refs := sorted_refs (pm_permission_policy_refs v),
          pm_projection_refs := sorted_refs (pm_projection_refs v),
          pm_delivery_adapter_refs := sorted_refs (pm_delivery_adapter_refs v),
          pm_certification_refs := sorted_refs (pm_certification_refs v)\<rparr>)"

section \<open>The Harness composition\<close>

record harness_composition = harness_object +
  hc_profile_id :: string
  hc_profile_version :: string
  hc_pack_manifest_refs :: "object_ref list"
  hc_capability_definition_refs :: "object_ref list"
  hc_provider_binding_refs :: "object_ref list"
  hc_agent_profile_refs :: "object_ref list"
  hc_permission_policy_refs :: "object_ref list"
  hc_projection_refs :: "object_ref list"
  hc_blueprint_template_ref :: object_ref

definition sized_unique :: "int \<Rightarrow> object_ref list \<Rightarrow> bool" where
  "sized_unique bound rs \<longleftrightarrow> min_length 1 rs \<and> max_length bound rs \<and> require_sorted_unique_refs rs"

definition validate_composition :: "harness_composition \<Rightarrow> bool" where
  "validate_composition v \<longleftrightarrow>
     is_identifier (hc_profile_id v) \<and>
     min_length 1 (hc_profile_version v) \<and> max_length 128 (hc_profile_version v) \<and>
     sized_unique 64 (hc_pack_manifest_refs v) \<and> sized_unique 1000 (hc_capability_definition_refs v) \<and>
     sized_unique 1000 (hc_provider_binding_refs v) \<and> sized_unique 1000 (hc_agent_profile_refs v) \<and>
     sized_unique 64 (hc_permission_policy_refs v) \<and> sized_unique 256 (hc_projection_refs v) \<and>
     require_ref (hc_blueprint_template_ref v) ''blueprint-template''"

definition composition_class :: "(harness_composition \<Rightarrow> string) \<Rightarrow> harness_composition harness_class" where
  "composition_class dg =
     \<lparr>object_type = ''harness-composition'', digest = dg,
      direct_refs = (\<lambda>v. hc_pack_manifest_refs v @ hc_capability_definition_refs v @
                         hc_provider_binding_refs v @ hc_agent_profile_refs v @
                         hc_permission_policy_refs v @ hc_projection_refs v @
                         [hc_blueprint_template_ref v]),
      validates = validate_composition\<rparr>"

definition create_composition ::
  "(harness_composition \<Rightarrow> string) \<Rightarrow> contract_audit \<Rightarrow> harness_composition \<Rightarrow> harness_composition result" where
  "create_composition dg aud v =
     create (composition_class dg) aud
       (v\<lparr>hc_pack_manifest_refs := sorted_refs (hc_pack_manifest_refs v),
          hc_capability_definition_refs := sorted_refs (hc_capability_definition_refs v),
          hc_provider_binding_refs := sorted_refs (hc_provider_binding_refs v),
          hc_agent_profile_refs := sorted_refs (hc_agent_profile_refs v),
          hc_permission_policy_refs := sorted_refs (hc_permission_policy_refs v),
          hc_projection_refs := sorted_refs (hc_projection_refs v)\<rparr>)"

abbreviation definition_ref_of :: "capability_definition \<Rightarrow> object_ref" where
  "definition_ref_of \<equiv> to_ref ''harness-capability-definition''"

abbreviation provider_ref_of :: "provider_binding \<Rightarrow> object_ref" where
  "provider_ref_of \<equiv> to_ref ''harness-capability-provider''"

abbreviation profile_ref_of :: "agent_profile \<Rightarrow> object_ref" where
  "profile_ref_of \<equiv> to_ref ''pack-agent-profile''"

abbreviation projection_definition_ref_of :: "projection_definition \<Rightarrow> object_ref" where
  "projection_definition_ref_of \<equiv> to_ref ''harness-projection-definition''"

abbreviation manifest_ref_of :: "pack_manifest \<Rightarrow> object_ref" where
  "manifest_ref_of \<equiv> to_ref ''eval-pack-manifest''"

abbreviation composition_ref_of :: "harness_composition \<Rightarrow> object_ref" where
  "composition_ref_of \<equiv> to_ref ''harness-composition''"

section \<open>Registrations\<close>

record pack_registration =
  pk_manifest :: pack_manifest
  pk_capability_definitions :: "capability_definition list"
  pk_provider_bindings :: "provider_binding list"
  pk_agent_profiles :: "agent_profile list"
  pk_permission_policies :: "autonomy_policy list"
  pk_projections :: "projection_definition list"
  pk_composition :: harness_composition

definition manifest_differs :: "string \<Rightarrow> string" where
  "manifest_differs label = ''Pack manifest '' @ label @ '' differ from registration''"

definition composition_differs :: "string \<Rightarrow> string" where
  "composition_differs label = ''static composition '' @ label @ '' differ from Pack manifest''"

text \<open>The loops over labelled inventory pairs: the first pair that disagrees raises.\<close>

fun check_pairs :: "(string \<Rightarrow> string) \<Rightarrow> (object_ref list \<times> object_ref list \<times> string) list \<Rightarrow> unit result" where
  "check_pairs msg [] = Inr ()"
| "check_pairs msg ((expected, actual, label) # rest) =
     rbind (guard (expected = actual) (ValueError (msg label))) (\<lambda>_. check_pairs msg rest)"

definition manifest_pairs :: "pack_registration \<Rightarrow> (object_ref list \<times> object_ref list \<times> string) list" where
  "manifest_pairs r =
     (let m = pk_manifest r
      in [(pm_capability_definition_refs m,
           sorted_refs (map definition_ref_of (pk_capability_definitions r)), ''capability definitions''),
          (pm_provider_binding_refs m,
           sorted_refs (map provider_ref_of (pk_provider_bindings r)), ''provider bindings''),
          (pm_agent_profile_refs m,
           sorted_refs (map profile_ref_of (pk_agent_profiles r)), ''Agent profiles''),
          (pm_permission_policy_refs m,
           sorted_refs (map policy_ref_of (pk_permission_policies r)), ''permission policies''),
          (pm_projection_refs m,
           sorted_refs (map projection_definition_ref_of (pk_projections r)), ''projections'')])"

definition composition_pairs :: "pack_registration \<Rightarrow> (object_ref list \<times> object_ref list \<times> string) list" where
  "composition_pairs r =
     (let m = pk_manifest r; c = pk_composition r
      in [(hc_capability_definition_refs c, pm_capability_definition_refs m, ''capabilities''),
          (hc_provider_binding_refs c, pm_provider_binding_refs m, ''providers''),
          (hc_agent_profile_refs c, pm_agent_profile_refs m, ''Agent profiles''),
          (hc_permission_policy_refs c, pm_permission_policy_refs m, ''permission policies''),
          (hc_projection_refs c, pm_projection_refs m, ''projections'')])"

text \<open>A dictionary built from a list keeps the last value of a key.\<close>

definition last_with :: "('a \<Rightarrow> 'k) \<Rightarrow> 'k \<Rightarrow> 'a list \<Rightarrow> 'a option" where
  "last_with key k xs = find (\<lambda>x. key x = k) (rev xs)"

fun count_providers ::
  "capability_definition list \<Rightarrow> provider_binding list \<Rightarrow> (object_ref \<Rightarrow> nat) \<Rightarrow> (object_ref \<Rightarrow> nat) result" where
  "count_providers defs [] counts = Inr counts"
| "count_providers defs (p # ps) counts =
     (case last_with definition_ref_of (pb_capability_definition_ref p) defs of
        None \<Rightarrow> Inl (ValueError ''Pack provider references an unregistered capability'')
      | Some d \<Rightarrow>
          if \<not> set (pb_supported_consumers p) \<subseteq> set (cd_supported_consumers d)
          then Inl (ValueError ''Pack provider widens capability consumer support'')
          else count_providers defs ps
                 (counts(pb_capability_definition_ref p := Suc (counts (pb_capability_definition_ref p)))))"

definition required_schema_refs :: "capability_definition list \<Rightarrow> object_ref list" where
  "required_schema_refs defs = concat (map (\<lambda>d. [cd_request_schema_ref d, cd_result_schema_ref d]) defs)"

definition validate_registration :: "pack_registration \<Rightarrow> unit result" where
  "validate_registration r =
     (let m = pk_manifest r; defs = pk_capability_definitions r
      in rbind (check_pairs manifest_differs (manifest_pairs r)) (\<lambda>_.
         rbind (count_providers defs (pk_provider_bindings r) (\<lambda>_. 0)) (\<lambda>counts.
         rbind (guard (list_all (\<lambda>d. counts (definition_ref_of d) = 1) defs)
           (ValueError ''V1 static composition requires exactly one provider per capability'')) (\<lambda>_.
         rbind (guard (list_all (\<lambda>p. set (ap_capability_definition_refs p) \<subseteq>
                  set (map definition_ref_of defs)) (pk_agent_profiles r))
           (ValueError ''Agent profile references an unregistered capability'')) (\<lambda>_.
         rbind (guard (length (filter ap_coordinator (pk_agent_profiles r)) = 1)
           (ValueError ''static Pack requires exactly one coordinator profile'')) (\<lambda>_.
         rbind (guard (set (required_schema_refs defs) \<subseteq> set (pm_artifact_schema_refs m))
           (ValueError ''Pack manifest omits a capability request/result schema'')) (\<lambda>_.
         rbind (guard (hc_pack_manifest_refs (pk_composition r) = [manifest_ref_of m])
           (ValueError ''static composition must pin the registered Pack manifest'')) (\<lambda>_.
         rbind (check_pairs composition_differs (composition_pairs r)) (\<lambda>_.
         guard (hc_blueprint_template_ref (pk_composition r) = pm_blueprint_template_ref m)
           (ValueError ''static composition Blueprint template differs from Pack''))))))))))"

text \<open>Construction of a registration: the field bounds, then the validator.\<close>

definition sized :: "int \<Rightarrow> 'a list \<Rightarrow> bool" where
  "sized bound xs \<longleftrightarrow> min_length 1 xs \<and> max_length bound xs"

definition new_registration :: "pack_registration \<Rightarrow> pack_registration result" where
  "new_registration r =
     rbind (guard (sized 1000 (pk_capability_definitions r) \<and> sized 1000 (pk_provider_bindings r) \<and>
                   sized 1000 (pk_agent_profiles r) \<and> sized 64 (pk_permission_policies r) \<and>
                   sized 256 (pk_projections r))
       (ValueError ''StaticPackRegistrationV1'')) (\<lambda>_.
     rbind (validate_registration r) (\<lambda>_. Inr r))"

section \<open>The registry\<close>

record pack_registry =
  pg_by_version :: "((string \<times> string) \<times> pack_registration) list"
  pg_by_manifest :: "(object_ref \<times> pack_registration) list"

fun register_packs :: "pack_registration list \<Rightarrow> pack_registry \<Rightarrow> pack_registry result" where
  "register_packs [] g = Inr g"
| "register_packs (r # rs) g =
     (let key = (pm_pack_id (pk_manifest r), pm_pack_version (pk_manifest r));
          manifest_key = manifest_ref_of (pk_manifest r)
      in if key \<in> set (map fst (pg_by_version g)) \<or> manifest_key \<in> set (map fst (pg_by_manifest g))
         then Inl (PackRegistrationError ''duplicate static Pack authority'')
         else register_packs rs
                \<lparr>pg_by_version = pg_by_version g @ [(key, r)],
                 pg_by_manifest = pg_by_manifest g @ [(manifest_key, r)]\<rparr>)"

definition new_pack_registry :: "pack_registration list \<Rightarrow> pack_registry result" where
  "new_pack_registry rs = register_packs rs \<lparr>pg_by_version = [], pg_by_manifest = []\<rparr>"

definition registrations :: "pack_registry \<Rightarrow> pack_registration list" where
  "registrations g = map snd (sort_key fst (pg_by_version g))"

definition resolve_pack ::
  "pack_registry \<Rightarrow> string \<Rightarrow> string \<Rightarrow> object_ref option \<Rightarrow> pack_registration result" where
  "resolve_pack g pack_id pack_version expected =
     (case map_of (pg_by_version g) (pack_id, pack_version) of
        None \<Rightarrow> Inl (PackResolutionError ''static Pack version is not registered'')
      | Some r \<Rightarrow>
          if expected \<noteq> None \<and> Some (manifest_ref_of (pk_manifest r)) \<noteq> expected
          then Inl (PackResolutionError ''static Pack manifest authority drifted'')
          else Inr r)"

definition resolve_manifest :: "pack_registry \<Rightarrow> object_ref \<Rightarrow> pack_registration result" where
  "resolve_manifest g r =
     (case map_of (pg_by_manifest g) r of
        None \<Rightarrow> Inl (PackResolutionError ''static Pack manifest is not registered'')
      | Some reg \<Rightarrow> Inr reg)"

end
