(* ===== verification/Capability_Runtime.thy ===== *)
theory Capability_Runtime
  imports Pack_Composition Store_Blackboard
begin

text \<open>
  The capability runtime (\<open>harness/capability_runtime.py\<close>): the registry of installed provider
  implementations, the binding and resolution of a consumer, the validation of an invocation, and
  \<open>HarnessCapabilityRuntime.invoke\<close>. A provider is code outside the repository's control: it is a
  parameter, a function from the request, the call and the state of the world to an execution or an
  error and the next state. So are the class of a request, its reference, its revalidation and the
  digests.
\<close>

section \<open>Environment\<close>

text \<open>\<open>request_authority q\<close> is \<open>None\<close> when the request has no callable \<open>to_ref\<close>, and \<open>Some None\<close> when
  calling it yields no \<open>ObjectRef\<close>. \<open>revalidated m q\<close> is \<open>None\<close> when the round trip through JSON raises.\<close>

record 'q runtime_env =
  rx_env :: env
  dg_consumer :: "consumer_binding \<Rightarrow> string"
  dg_action :: "permission_action \<Rightarrow> string"
  dg_permission :: "permission_decision \<Rightarrow> string"
  schema_sha256 :: "string \<Rightarrow> string"
  request_model_of :: "'q \<Rightarrow> string"
  request_authority :: "'q \<Rightarrow> object_ref option option"
  revalidated :: "string \<Rightarrow> 'q \<Rightarrow> 'q option"
  operation_sha256 :: "string \<Rightarrow> string"

section \<open>Scope and execution\<close>

record permission_scope =
  sc_member_id :: string
  sc_task_id :: string
  sc_data_scope_refs :: "object_ref list"
  sc_graph_mutation :: graph_mutation_kind
  sc_local_execution :: bool
  sc_deterministic :: bool
  sc_source_admission :: bool
  sc_external_execution :: bool
  sc_destructive :: bool
  sc_release :: bool
  sc_model_requests_delta :: int
  sc_model_tokens_delta :: int
  sc_cost_micro_usd_delta :: int

definition validate_scope :: "permission_scope \<Rightarrow> bool" where
  "validate_scope v \<longleftrightarrow>
     is_identifier (sc_member_id v) \<and> is_identifier (sc_task_id v) \<and>
     max_length 10000 (sc_data_scope_refs v) \<and>
     in_range 0 10000000 (sc_model_requests_delta v) \<and>
     in_range 0 10000000000 (sc_model_tokens_delta v) \<and>
     in_range 0 10000000000000 (sc_cost_micro_usd_delta v) \<and>
     require_sorted_unique_refs (sc_data_scope_refs v) \<and>
     sc_local_execution v \<noteq> sc_external_execution v"

definition new_scope :: "permission_scope \<Rightarrow> permission_scope result" where
  "new_scope v =
     rbind (guard (validate_scope v) (ValueError ''CapabilityPermissionScopeV1'')) (\<lambda>_. Inr v)"

definition new_context :: "invocation_context \<Rightarrow> invocation_context result" where
  "new_context v =
     rbind (guard (validate_context v) (ValueError ''CapabilityInvocationContextV1'')) (\<lambda>_. Inr v)"

record provider_execution =
  px_outcome :: invocation_outcome
  px_canonical_result_ref :: "object_ref option"
  px_content_ref :: "object_ref option"
  px_validation_refs :: "object_ref list"
  px_failure_code :: "string option"
  px_media_type :: string
  px_modality :: artifact_modality
  px_domain_tags :: "string list"

text \<open>\<open>__post_init__\<close> of \<open>CapabilityProviderExecution\<close>: a provider can only return a value that passes it.\<close>

definition new_execution :: "provider_execution \<Rightarrow> provider_execution result" where
  "new_execution v =
     (if px_outcome v = SUCCEEDED \<and>
         (px_canonical_result_ref v = None \<or> px_content_ref v = None \<or> px_failure_code v \<noteq> None)
      then Inl (ValueError ''successful provider execution requires result and content authority'')
      else if px_outcome v \<noteq> SUCCEEDED \<and>
         (px_canonical_result_ref v \<noteq> None \<or> px_content_ref v \<noteq> None \<or> px_failure_code v = None)
      then Inl (ValueError ''non-success provider execution requires only a closed failure code'')
      else if px_validation_refs v \<noteq> sorted_refs (px_validation_refs v)
      then Inl (ValueError ''provider validation refs must be sorted'')
      else if sort (remdups (px_domain_tags v)) \<noteq> px_domain_tags v
      then Inl (ValueError ''provider domain tags must be sorted and unique'')
      else Inr v)"

text \<open>\<open>'q\<close> is the type of requests, \<open>'w\<close> the state a provider works on.\<close>

record ('q, 'w) provider =
  pv_binding_ref :: object_ref
  pv_implementation_id :: string
  pv_request_model :: string
  pv_request_schema_ref :: object_ref
  pv_result_model :: string
  pv_result_schema_ref :: object_ref
  pv_invoke :: "'q \<Rightarrow> capability_call \<Rightarrow> contract_audit \<Rightarrow> 'w \<Rightarrow> provider_execution result \<times> 'w"

definition run_provider ::
  "('q, 'w) provider \<Rightarrow> 'q \<Rightarrow> capability_call \<Rightarrow> contract_audit \<Rightarrow> 'w \<Rightarrow> provider_execution result \<times> 'w" where
  "run_provider p request call aud w =
     (case pv_invoke p request call aud w of (r, w') \<Rightarrow> (rbind r new_execution, w'))"

section \<open>The registry\<close>

record ('q, 'w) runtime_registry =
  rg_registration :: pack_registration
  rg_providers :: "(object_ref \<times> ('q, 'w) provider) list"

definition installed_definition :: "pack_registration \<Rightarrow> object_ref \<Rightarrow> capability_definition option" where
  "installed_definition reg r = last_with definition_ref_of r (pk_capability_definitions reg)"

definition installed_binding :: "pack_registration \<Rightarrow> object_ref \<Rightarrow> provider_binding option" where
  "installed_binding reg r = last_with provider_ref_of r (pk_provider_bindings reg)"

definition schema_ref_for_model :: "'q runtime_env \<Rightarrow> string \<Rightarrow> object_ref \<Rightarrow> object_ref result" where
  "schema_ref_for_model rx model claimed =
     rbind (guard (ref_type claimed = ''json-schema'')
       (CapabilityRuntimeRegistrationError ''capability implementation schema authority is invalid'')) (\<lambda>_.
     Inr (ObjectRef ''json-schema'' (ref_id claimed) (ref_version claimed) (schema_sha256 rx model)))"

text \<open>Python's \<open>or\<close> chain: a schema reference is only derived when the comparisons before it agree.\<close>

definition implementation_drifted ::
  "'q runtime_env \<Rightarrow> ('q, 'w) provider \<Rightarrow> provider_binding \<Rightarrow> capability_definition \<Rightarrow> bool result" where
  "implementation_drifted rx p b d =
     (if pv_implementation_id p \<noteq> pb_implementation_id b then Inr True
      else
        rbind (schema_ref_for_model rx (pv_request_model p) (pv_request_schema_ref p)) (\<lambda>request.
        if request \<noteq> cd_request_schema_ref d then Inr True
        else
          rbind (schema_ref_for_model rx (pv_result_model p) (pv_result_schema_ref p)) (\<lambda>outcome.
          Inr (outcome \<noteq> cd_result_schema_ref d))))"

fun install_providers ::
  "'q runtime_env \<Rightarrow> pack_registration \<Rightarrow> ('q, 'w) provider list \<Rightarrow> (object_ref \<times> ('q, 'w) provider) list \<Rightarrow>
   (object_ref \<times> ('q, 'w) provider) list result" where
  "install_providers rx reg [] acc = Inr acc"
| "install_providers rx reg (p # ps) acc =
     (let key = pv_binding_ref p
      in if key \<in> set (map fst acc)
         then Inl (CapabilityRuntimeRegistrationError ''duplicate capability provider implementation'')
         else case installed_binding reg key of
           None \<Rightarrow> Inl (CapabilityRuntimeRegistrationError
                      ''capability implementation is not pinned by the static Pack'')
         | Some b \<Rightarrow>
             (case installed_definition reg (pb_capability_definition_ref b) of
                None \<Rightarrow> Inl (CapabilityRuntimeRegistrationError
                           ''capability provider definition is not installed'')
              | Some d \<Rightarrow>
                  rbind (implementation_drifted rx p b d) (\<lambda>drifted.
                  if drifted
                  then Inl (CapabilityRuntimeRegistrationError ''capability implementation authority drifted'')
                  else install_providers rx reg ps (acc @ [(key, p)]))))"

definition new_runtime_registry ::
  "'q runtime_env \<Rightarrow> pack_registration \<Rightarrow> ('q, 'w) provider list \<Rightarrow> ('q, 'w) runtime_registry result" where
  "new_runtime_registry rx reg ps =
     rbind (install_providers rx reg ps []) (\<lambda>installed.
     rbind (guard (set (map fst installed) = set (map provider_ref_of (pk_provider_bindings reg)))
       (CapabilityRuntimeRegistrationError
          ''static Pack requires one installed implementation per provider'')) (\<lambda>_.
     Inr \<lparr>rg_registration = reg, rg_providers = installed\<rparr>))"

definition installed_providers :: "('q, 'w) runtime_registry \<Rightarrow> ('q, 'w) provider list" where
  "installed_providers rg = map snd (sort_key (ref_key \<circ> fst) (rg_providers rg))"

text \<open>The two lookups that must find exactly one value.\<close>

definition the_only :: "'a list \<Rightarrow> string \<Rightarrow> 'a result" where
  "the_only xs msg =
     (case xs of [x] \<Rightarrow> Inr x | _ \<Rightarrow> Inl (CapabilityRuntimeResolutionError msg))"

definition provider_binding_for :: "('q, 'w) runtime_registry \<Rightarrow> object_ref \<Rightarrow> provider_binding result" where
  "provider_binding_for rg r =
     the_only (filter (\<lambda>b. pb_capability_definition_ref b = r) (pk_provider_bindings (rg_registration rg)))
       ''capability provider is not uniquely installed''"

definition permission_policy :: "('q, 'w) runtime_registry \<Rightarrow> object_ref \<Rightarrow> autonomy_policy result" where
  "permission_policy rg r =
     the_only (filter (\<lambda>p. policy_ref_of p = r) (pk_permission_policies (rg_registration rg)))
       ''execution permission policy is not installed''"

definition bind_consumer ::
  "'q runtime_env \<Rightarrow> ('q, 'w) runtime_registry \<Rightarrow> string \<Rightarrow> string \<Rightarrow> string \<Rightarrow> consumer_kind \<Rightarrow>
   object_ref option \<Rightarrow> contract_audit \<Rightarrow> consumer_binding result" where
  "bind_consumer rx rg capability_id consumer_id consumer_version kind projection aud =
     rbind (the_only (filter (\<lambda>d. cd_capability_id d = capability_id)
              (pk_capability_definitions (rg_registration rg)))
       ''capability ID is not uniquely installed'') (\<lambda>d.
     rbind (provider_binding_for rg (definition_ref_of d)) (\<lambda>b.
     rbind (guard (kind \<in> set (cd_supported_consumers d) \<and> kind \<in> set (pb_supported_consumers b))
       (CapabilityRuntimeResolutionError ''capability consumer kind is not supported'')) (\<lambda>_.
     create (consumer_class (dg_consumer rx)) aud
       \<lparr>object_id = [], object_sha256 = [], audit = no_audit, cb_consumer_id = consumer_id,
        cb_consumer_version = consumer_version, cb_consumer_kind = kind,
        cb_capability_definition_ref = definition_ref_of d,
        cb_provider_binding_ref = provider_ref_of b, cb_projection_ref = projection\<rparr>)))"

record ('q, 'w) resolved_provider =
  rp_definition :: capability_definition
  rp_binding :: provider_binding
  rp_implementation :: "('q, 'w) provider"

definition resolve :: "('q, 'w) runtime_registry \<Rightarrow> consumer_binding \<Rightarrow> ('q, 'w) resolved_provider result" where
  "resolve rg consumer =
     (case (installed_definition (rg_registration rg) (cb_capability_definition_ref consumer),
            installed_binding (rg_registration rg) (cb_provider_binding_ref consumer),
            map_of (rg_providers rg) (cb_provider_binding_ref consumer)) of
        (Some d, Some b, Some p) \<Rightarrow>
          if pb_capability_definition_ref b \<noteq> definition_ref_of d
          then Inl (CapabilityRuntimeResolutionError
                 ''capability provider binding references another definition'')
          else if cb_consumer_kind consumer \<notin> set (cd_supported_consumers d) \<or>
                  cb_consumer_kind consumer \<notin> set (pb_supported_consumers b)
          then Inl (CapabilityRuntimeResolutionError ''capability consumer kind is not supported'')
          else Inr \<lparr>rp_definition = d, rp_binding = b, rp_implementation = p\<rparr>
      | _ \<Rightarrow> Inl (CapabilityRuntimeResolutionError ''capability consumer authority is not installed''))"

section \<open>Validation of an invocation\<close>

definition request_ref_of :: "'q runtime_env \<Rightarrow> 'q \<Rightarrow> object_ref result" where
  "request_ref_of rx q =
     (case request_authority rx q of
        None \<Rightarrow> Inl (CapabilityRuntimeInputError ''capability request lacks immutable reference authority'')
      | Some None \<Rightarrow> Inl (CapabilityRuntimeInputError ''capability request reference authority is invalid'')
      | Some (Some r) \<Rightarrow> Inr r)"

definition input_error :: "bool \<Rightarrow> string \<Rightarrow> unit result" where
  "input_error bad msg = guard (\<not> bad) (CapabilityRuntimeInputError msg)"

definition local_kinds :: "provider_kind set" where
  "local_kinds = {LOCAL_DETERMINISTIC, LOCAL_MODEL_ASSISTED}"

definition check_request :: "'q runtime_env \<Rightarrow> ('q, 'w) provider \<Rightarrow> 'q \<Rightarrow> unit result" where
  "check_request rx p request =
     rbind (input_error (request_model_of rx request \<noteq> pv_request_model p)
       ''capability request model differs from the provider schema'') (\<lambda>_.
     case revalidated rx (pv_request_model p) request of
       None \<Rightarrow> Inl (CapabilityRuntimeInputError ''capability request authority is invalid'')
     | Some canonical \<Rightarrow>
         if canonical \<noteq> request
         then Inl (CapabilityRuntimeInputError ''capability request authority drifted'')
         else
           rbind (request_ref_of rx canonical) (\<lambda>r.
           rbind (request_ref_of rx request) (\<lambda>r'.
           input_error (r \<noteq> r') ''capability request authority drifted'')))"

definition check_invocation ::
  "'q runtime_env \<Rightarrow> ('q, 'w) resolved_provider \<Rightarrow> invocation_context \<Rightarrow> permission_scope \<Rightarrow>
   execution_authority \<Rightarrow> 'q \<Rightarrow> artifact_envelope list \<Rightarrow> unit result" where
  "check_invocation rx resolved context scope authority request inputs =
     rbind (input_error (cx_authority_ref context \<noteq> authority_ref_of authority)
       ''capability context uses stale execution authority'') (\<lambda>_.
     rbind (input_error (au_permission_policy_ref authority \<notin> set (pb_policy_refs (rp_binding resolved)))
       ''capability provider is not governed by the execution policy'') (\<lambda>_.
     rbind (check_request rx (rp_implementation resolved) request) (\<lambda>_.
     rbind (input_error (cx_data_purpose context \<notin> set (cd_data_purposes (rp_definition resolved)))
       ''capability data purpose is unsupported'') (\<lambda>_.
     rbind (input_error (cx_data_classification context \<notin> set (cd_data_classifications (rp_definition resolved)))
       ''capability data classification is unsupported'') (\<lambda>_.
     rbind (input_error (set (map en_semantic_role inputs) \<noteq>
              set (cd_input_artifact_roles (rp_definition resolved)))
       ''capability input artifact roles differ from the definition'') (\<lambda>_.
     rbind (input_error (list_ex (\<lambda>v. en_purpose v \<noteq> cx_data_purpose context \<or>
              en_classification v \<noteq> cx_data_classification context) inputs)
       ''capability input artifact scope differs from invocation context'') (\<lambda>_.
     rbind (input_error (sc_data_scope_refs scope \<noteq> sorted_refs (map envelope_ref_of inputs))
       ''capability permission scope differs from input artifacts'') (\<lambda>_.
     input_error ((pb_provider_kind (rp_binding resolved) \<in> local_kinds) \<noteq> sc_local_execution scope)
       ''capability execution locality differs from provider binding''))))))))"

section \<open>Invocation\<close>

definition call_id_for :: "string \<Rightarrow> string" where
  "call_id_for key = ''capability-call.'' @ key"

definition action_id_for :: "capability_call \<Rightarrow> string" where
  "action_id_for call = ''capability-action.'' @ object_sha256 call"

definition result_id_for :: "capability_call \<Rightarrow> string" where
  "result_id_for call = ''capability-result.'' @ object_sha256 call"

definition artifact_id_for :: "capability_call \<Rightarrow> string \<Rightarrow> string" where
  "artifact_id_for call role = ''artifact.'' @ object_sha256 call @ ''.'' @ role"

definition make_call ::
  "'q runtime_env \<Rightarrow> ('q, 'w) resolved_provider \<Rightarrow> invocation_context \<Rightarrow> object_ref \<Rightarrow> object_ref list \<Rightarrow>
   contract_audit \<Rightarrow> capability_call result" where
  "make_call rx resolved context request_ref in_refs aud =
     create (call_cls (rx_env rx)) aud
       \<lparr>object_id = [], object_sha256 = [], audit = no_audit,
        cc_call_id = call_id_for (cx_idempotency_key context),
        cc_capability_definition_ref = definition_ref_of (rp_definition resolved),
        cc_provider_binding_ref = provider_ref_of (rp_binding resolved), cc_context = context,
        cc_request_ref = request_ref, cc_input_artifact_refs = in_refs\<rparr>"

definition make_action ::
  "'q runtime_env \<Rightarrow> ('q, 'w) resolved_provider \<Rightarrow> capability_call \<Rightarrow> autonomy_policy \<Rightarrow> invocation_context \<Rightarrow>
   permission_scope \<Rightarrow> execution_authority \<Rightarrow> contract_audit \<Rightarrow> permission_action result" where
  "make_action rx resolved call policy context scope authority aud =
     create_action (dg_action rx) aud
       \<lparr>object_id = [], object_sha256 = [], audit = no_audit, pa_action_id = action_id_for call,
        pa_authority_ref = authority_ref_of authority, pa_permission_policy_ref = policy_ref_of policy,
        pa_member_id = sc_member_id scope, pa_principal_ref = cx_principal_ref context,
        pa_capability_definition_ref = definition_ref_of (rp_definition resolved),
        pa_provider_binding_ref = provider_ref_of (rp_binding resolved), pa_task_id = sc_task_id scope,
        pa_data_scope_refs = sc_data_scope_refs scope, pa_data_purpose = cx_data_purpose context,
        pa_data_classification = cx_data_classification context,
        pa_side_effect = cd_side_effect (rp_definition resolved),
        pa_graph_mutation = sc_graph_mutation scope, pa_local_execution = sc_local_execution scope,
        pa_deterministic = sc_deterministic scope, pa_source_admission = sc_source_admission scope,
        pa_external_execution = sc_external_execution scope, pa_destructive = sc_destructive scope,
        pa_release = sc_release scope, pa_model_requests_delta = sc_model_requests_delta scope,
        pa_model_tokens_delta = sc_model_tokens_delta scope,
        pa_cost_micro_usd_delta = sc_cost_micro_usd_delta scope\<rparr>"

abbreviation permission_ref_of :: "permission_decision \<Rightarrow> object_ref" where
  "permission_ref_of \<equiv> to_ref ''permission-decision''"

definition blocked_result ::
  "'q runtime_env \<Rightarrow> capability_call \<Rightarrow> permission_decision \<Rightarrow> contract_audit \<Rightarrow> capability_result result" where
  "blocked_result rx call decision aud =
     create (result_cls (rx_env rx)) aud
       \<lparr>object_id = [], object_sha256 = [], audit = no_audit, cr_result_id = result_id_for call,
        cr_call_ref = call_ref_of call, cr_outcome = BLOCKED_POLICY, cr_canonical_result_ref = None,
        cr_output_artifact_refs = [], cr_validation_refs = [permission_ref_of decision],
        cr_failure_code = Some (if pd_outcome decision = REQUIRE_APPROVAL
          then ''CAPABILITY_APPROVAL_REQUIRED'' else ''CAPABILITY_PERMISSION_DENIED'')\<rparr>"

definition output_envelope ::
  "'q runtime_env \<Rightarrow> ('q, 'w) resolved_provider \<Rightarrow> invocation_context \<Rightarrow> object_ref \<Rightarrow> object_ref list \<Rightarrow>
   capability_call \<Rightarrow> object_ref list \<Rightarrow> provider_execution \<Rightarrow> contract_audit \<Rightarrow> artifact_envelope result" where
  "output_envelope rx resolved context request_ref in_refs call validations x aud =
     (case (px_canonical_result_ref x, px_content_ref x) of
        (Some subject, Some content) \<Rightarrow>
          (case cd_output_artifact_roles (rp_definition resolved) of
             [] \<Rightarrow> Inl IndexError
           | role # _ \<Rightarrow>
               create_envelope (dg_envelope (rx_env rx)) aud
                 \<lparr>object_id = [], object_sha256 = [], audit = no_audit,
                  en_artifact_id = artifact_id_for call role, en_subject_ref = subject,
                  en_schema_ref = cd_result_schema_ref (rp_definition resolved), en_content_ref = content,
                  en_media_type = px_media_type x, en_modality = px_modality x,
                  en_domain_tags = px_domain_tags x, en_semantic_role = role,
                  en_purpose = cx_data_purpose context, en_classification = cx_data_classification context,
                  en_lineage_refs = sorted_refs (request_ref # in_refs),
                  en_producer_capability_ref = definition_ref_of (rp_definition resolved),
                  en_producer_task_ref = cx_task_ref context, en_validation_refs = validations,
                  en_revision = 1, en_predecessor_envelope_ref = None\<rparr>)
      | _ \<Rightarrow> Inl (AssertionError ''execution.content_ref''))"

definition finish_invocation ::
  "'q runtime_env \<Rightarrow> ('q, 'w) resolved_provider \<Rightarrow> invocation_context \<Rightarrow> object_ref \<Rightarrow> object_ref list \<Rightarrow>
   capability_call \<Rightarrow> permission_action \<Rightarrow> permission_decision \<Rightarrow> provider_execution \<Rightarrow> contract_audit \<Rightarrow>
   runtime_invocation result" where
  "finish_invocation rx resolved context request_ref in_refs call action decision x aud =
     (let validations = sorted_refs (permission_ref_of decision # px_validation_refs x)
      in rbind (if px_outcome x = SUCCEEDED
                then rbind (output_envelope rx resolved context request_ref in_refs call validations x aud)
                       (\<lambda>v. Inr [v])
                else Inr []) (\<lambda>outputs.
         rbind (create (result_cls (rx_env rx)) aud
                  \<lparr>object_id = [], object_sha256 = [], audit = no_audit, cr_result_id = result_id_for call,
                   cr_call_ref = call_ref_of call, cr_outcome = px_outcome x,
                   cr_canonical_result_ref = px_canonical_result_ref x,
                   cr_output_artifact_refs = map envelope_ref_of outputs,
                   cr_validation_refs = validations, cr_failure_code = px_failure_code x\<rparr>) (\<lambda>result.
         Inr \<lparr>iv_call = call, iv_permission_action = action, iv_permission_decision = decision,
              iv_result = result, iv_output_artifacts = outputs\<rparr>)))"

text \<open>What an invocation has established before any provider runs.\<close>

record ('q, 'w) authorized =
  az_resolved :: "('q, 'w) resolved_provider"
  az_request_ref :: object_ref
  az_input_refs :: "object_ref list"
  az_call :: capability_call
  az_action :: permission_action
  az_decision :: permission_decision

definition authorize ::
  "'q runtime_env \<Rightarrow> ('q, 'w) runtime_registry \<Rightarrow> consumer_binding \<Rightarrow> invocation_context \<Rightarrow> permission_scope \<Rightarrow>
   execution_authority \<Rightarrow> 'q \<Rightarrow> artifact_envelope list \<Rightarrow> contract_audit \<Rightarrow> ('q, 'w) authorized result" where
  "authorize rx rg consumer context scope authority request inputs aud =
     rbind (resolve rg consumer) (\<lambda>resolved.
     rbind (check_invocation rx resolved context scope authority request inputs) (\<lambda>_.
     rbind (request_ref_of rx request) (\<lambda>request_ref.
     (let in_refs = sorted_refs (map envelope_ref_of inputs)
      in rbind (make_call rx resolved context request_ref in_refs aud) (\<lambda>call.
         rbind (permission_policy rg (au_permission_policy_ref authority)) (\<lambda>policy.
         rbind (make_action rx resolved call policy context scope authority aud) (\<lambda>action.
         rbind (evaluate (dg_permission rx) policy authority action aud) (\<lambda>decision.
         Inr \<lparr>az_resolved = resolved, az_request_ref = request_ref, az_input_refs = in_refs,
              az_call = call, az_action = action, az_decision = decision\<rparr>))))))))"

definition invoke ::
  "'q runtime_env \<Rightarrow> ('q, 'w) runtime_registry \<Rightarrow> consumer_binding \<Rightarrow> invocation_context \<Rightarrow> permission_scope \<Rightarrow>
   execution_authority \<Rightarrow> 'q \<Rightarrow> artifact_envelope list \<Rightarrow> contract_audit \<Rightarrow> 'w \<Rightarrow>
   runtime_invocation result \<times> 'w" where
  "invoke rx rg consumer context scope authority request inputs aud w =
     (case authorize rx rg consumer context scope authority request inputs aud of
        Inl err \<Rightarrow> (Inl err, w)
      | Inr a \<Rightarrow>
          if pd_outcome (az_decision a) \<noteq> ALLOW
          then (rbind (blocked_result rx (az_call a) (az_decision a) aud) (\<lambda>result.
                Inr \<lparr>iv_call = az_call a, iv_permission_action = az_action a,
                     iv_permission_decision = az_decision a, iv_result = result,
                     iv_output_artifacts = []\<rparr>), w)
          else (case run_provider (rp_implementation (az_resolved a)) request (az_call a) aud w of
                  (r, w') \<Rightarrow>
                    (rbind r (\<lambda>x. finish_invocation rx (az_resolved a) context (az_request_ref a)
                       (az_input_refs a) (az_call a) (az_action a) (az_decision a) x aud), w')))"

end
