(* ===== verification/Runtime_Properties.thy ===== *)
theory Runtime_Properties
  imports Capability_Runtime
begin

text \<open>
  Properties of the capability runtime: a provider only runs inside the approved authority, the store's
  re-check of an invocation agrees with the evaluator, a denied invocation cannot be completed, and what
  an installed registry guarantees to the consumers it binds.
\<close>

section \<open>The evaluator and the store's re-check\<close>

lemma grant_bypassed_iff: "grant_bypassed g a \<longleftrightarrow> grant_denials g a \<noteq> {}"
  by (auto simp: grant_bypassed_def grant_denials_empty)

lemma autonomy_bypassed_iff: "autonomy_bypassed au a \<longleftrightarrow> approval_reasons au a \<noteq> {}"
  by (cases "pa_graph_mutation a"; cases "pa_side_effect a")
     (auto simp: autonomy_bypassed_def approval_reasons_empty inside_budget_def not_le)

text \<open>
  C14: The two implementations of Balanced Autonomy agree. The evaluator of \<open>harness/interaction.py\<close>
  allows an action exactly when the action is bound to the policy and authority evaluated, the authority
  holds a grant of its member and principal, and neither the grant check nor the autonomy check of the
  store's \<open>_validate_invocation\<close> reports it as bypassed.
\<close>

theorem recheck_agrees_with_evaluator:
  "fst (classify po au a) = ALLOW \<longleftrightarrow>
     pa_permission_policy_ref a = policy_ref_of po \<and> pa_authority_ref a = authority_ref_of au \<and>
     (\<exists>g. grant_for au a = Some g \<and> \<not> grant_bypassed g a) \<and> \<not> autonomy_bypassed au a"
  by (auto simp: classify_def Let_def grant_bypassed_iff autonomy_bypassed_iff split: option.splits)

lemma find_conj: "find P xs = Some x \<Longrightarrow> Q x \<Longrightarrow> find (\<lambda>y. P y \<and> Q y) xs = Some x"
  by (induction xs) (auto split: if_splits)

lemma recheck_not_denied:
  assumes "validate_invocation e d sn task work iv outputs = Inr u"
    and "policy_ref_of po = au_permission_policy_ref (sn_authority sn)"
  shows "fst (classify po (sn_authority sn) (iv_permission_action iv)) \<noteq> DENY"
proof -
  let ?a = "iv_permission_action iv" and ?au = "sn_authority sn"
  obtain member grant where grant: "find (\<lambda>g. mg_member_id g = mb_member_id member) (au_grants ?au) = Some grant"
    and stale: "\<not> invocation_stale sn member task grant iv" and by_pass: "\<not> grant_bypassed grant ?a"
    using assms(1) unfolding validate_invocation_def by (auto simp: Let_def split: option.splits if_splits)
  have refs: "pa_authority_ref ?a = authority_ref_of ?au" "pa_permission_policy_ref ?a = policy_ref_of po"
      "pa_member_id ?a = mb_member_id member" "pa_principal_ref ?a = mg_principal_ref grant"
    using stale assms(2) by (auto simp: invocation_stale_def Let_def)
  have "grant_for ?au ?a = Some grant"
    using find_conj [OF grant] refs by (simp add: grant_for_def)
  then show ?thesis
    using refs by_pass by (simp add: classify_def Let_def grant_bypassed_iff)
qed

section \<open>What an invocation has established\<close>

lemma last_with_SomeD: "last_with key k xs = Some x \<Longrightarrow> x \<in> set xs \<and> key x = k"
  by (auto simp: last_with_def dest: find_SomeD)

lemma the_only_Inr: "the_only xs msg = Inr x \<longleftrightarrow> xs = [x]"
  by (auto simp: the_only_def split: list.splits)

lemma resolve_InrD:
  assumes "resolve rg consumer = Inr r"
  shows "installed_definition (rg_registration rg) (cb_capability_definition_ref consumer) = Some (rp_definition r)"
    and "installed_binding (rg_registration rg) (cb_provider_binding_ref consumer) = Some (rp_binding r)"
    and "map_of (rg_providers rg) (cb_provider_binding_ref consumer) = Some (rp_implementation r)"
    and "pb_capability_definition_ref (rp_binding r) = definition_ref_of (rp_definition r)"
    and "definition_ref_of (rp_definition r) = cb_capability_definition_ref consumer"
    and "provider_ref_of (rp_binding r) = cb_provider_binding_ref consumer"
  using assms
  by (auto simp: resolve_def installed_definition_def installed_binding_def
      split: option.splits if_splits dest!: last_with_SomeD)

lemma check_invocation_scope:
  "check_invocation rx r context scope au q inputs = Inr u \<Longrightarrow>
     sc_data_scope_refs scope = sorted_refs (map envelope_ref_of inputs) \<and>
     cx_authority_ref context = authority_ref_of au"
  by (auto simp: check_invocation_def input_error_def)

lemma evaluate_outcome:
  "evaluate dg po au a aud = Inr v \<Longrightarrow> pd_outcome v = fst (classify po au a)"
  by (cases "classify po au a") (auto simp: evaluate_def permission_decision.create_Inr_iff)

lemma authorize_InrE:
  assumes "authorize rx rg consumer context scope au q inputs aud = Inr z"
  obtains po where "policy_ref_of po = au_permission_policy_ref au"
    and "resolve rg consumer = Inr (az_resolved z)"
    and "evaluate (dg_permission rx) po au (az_action z) aud = Inr (az_decision z)"
    and "make_call rx (az_resolved z) context (az_request_ref z) (az_input_refs z) aud = Inr (az_call z)"
    and "make_action rx (az_resolved z) (az_call z) po context scope au aud = Inr (az_action z)"
    and "sc_data_scope_refs scope = sorted_refs (map envelope_ref_of inputs)"
proof -
  obtain r u rr call po action v where steps: "resolve rg consumer = Inr r"
      "check_invocation rx r context scope au q inputs = Inr u" "request_ref_of rx q = Inr rr"
      "make_call rx r context rr (sorted_refs (map envelope_ref_of inputs)) aud = Inr call"
      "permission_policy rg (au_permission_policy_ref au) = Inr po"
      "make_action rx r call po context scope au aud = Inr action"
      "evaluate (dg_permission rx) po au action aud = Inr v"
    and z: "Inr \<lparr>az_resolved = r, az_request_ref = rr, az_input_refs = sorted_refs (map envelope_ref_of inputs),
      az_call = call, az_action = action, az_decision = v\<rparr> = (Inr z :: ('a, 'b) authorized result)"
    using assms unfolding authorize_def Let_def by (elim rbind_InrE) (rule that; assumption)
  have po: "policy_ref_of po = au_permission_policy_ref au"
    using steps(5) by (auto simp: permission_policy_def the_only_Inr filter_eq_Cons_iff)
  show thesis
    by (rule that [OF po]) (use z steps check_invocation_scope [OF steps(2)] in auto)
qed

lemma make_action_fields:
  assumes "make_action rx r call po context scope au aud = Inr a"
  shows "pa_authority_ref a = authority_ref_of au" "pa_permission_policy_ref a = policy_ref_of po"
    "pa_member_id a = sc_member_id scope" "pa_principal_ref a = cx_principal_ref context"
    "pa_task_id a = sc_task_id scope" "set (pa_data_scope_refs a) = set (sc_data_scope_refs scope)"
    "pa_capability_definition_ref a = definition_ref_of (rp_definition r)"
    "pa_provider_binding_ref a = provider_ref_of (rp_binding r)"
    "pa_data_purpose a = cx_data_purpose context" "pa_data_classification a = cx_data_classification context"
    "pa_side_effect a = cd_side_effect (rp_definition r)"
    "pa_graph_mutation a = sc_graph_mutation scope" "pa_local_execution a = sc_local_execution scope"
    "pa_deterministic a = sc_deterministic scope"
    "pa_external_execution a = sc_external_execution scope" "pa_destructive a = sc_destructive scope"
    "pa_release a = sc_release scope" "pa_source_admission a = sc_source_admission scope"
    "pa_model_requests_delta a = sc_model_requests_delta scope"
    "pa_model_tokens_delta a = sc_model_tokens_delta scope"
    "pa_cost_micro_usd_delta a = sc_cost_micro_usd_delta scope"
  using assms unfolding make_action_def create_action_def by (auto simp: action.create_Inr_iff)

text \<open>
  C4: A provider only runs inside the approved authority. Invoking a capability either leaves the world
  the providers work on untouched, or the execution authority holds a grant for the member and principal of
  the call that covers the task, the capability definition, the provider binding, every input artifact, the
  data purpose and classification and the side effect, and none of the seven reasons for an approval holds:
  the call is no external execution, destructive action, release or source admission, its side effect is
  neither external nor irreversible, it does not widen authority through the graph, a reversible write is
  local and deterministic, and the three model budgets have room for it.
\<close>

theorem invoke_inside_authority:
  "snd (invoke rx rg consumer context scope au request inputs aud w) = w \<or>
   (\<exists>g d. g \<in> set (au_grants au) \<and> mg_member_id g = sc_member_id scope \<and>
      mg_principal_ref g = cx_principal_ref context \<and> sc_task_id scope \<in> set (mg_task_ids g) \<and>
      cb_capability_definition_ref consumer \<in> set (mg_capability_definition_refs g) \<and>
      cb_provider_binding_ref consumer \<in> set (mg_provider_binding_refs g) \<and>
      set (map envelope_ref_of inputs) \<subseteq> set (mg_data_scope_refs g) \<and>
      cx_data_purpose context \<in> set (mg_data_purposes g) \<and>
      cx_data_classification context \<in> set (mg_data_classifications g) \<and>
      installed_definition (rg_registration rg) (cb_capability_definition_ref consumer) = Some d \<and>
      cd_side_effect d \<in> set (mg_allowed_side_effects g) \<and>
      cd_side_effect d \<notin> {EXTERNAL_EFFECT, IRREVERSIBLE_WRITE} \<and>
      \<not> sc_external_execution scope \<and> \<not> sc_destructive scope \<and> \<not> sc_release scope \<and>
      \<not> sc_source_admission scope \<and> sc_graph_mutation scope \<in> {NO_MUTATION, IN_SCOPE} \<and>
      (if cd_side_effect d = REVERSIBLE_WRITE then sc_local_execution scope \<and> sc_deterministic scope else True) \<and>
      au_used_model_requests au + sc_model_requests_delta scope \<le> au_max_model_requests au \<and>
      au_used_model_tokens au + sc_model_tokens_delta scope \<le> au_max_model_tokens au \<and>
      au_used_cost_micro_usd au + sc_cost_micro_usd_delta scope \<le> au_max_cost_micro_usd au)"
proof (cases "authorize rx rg consumer context scope au request inputs aud")
  case (Inl err)
  then show ?thesis by (simp add: invoke_def)
next
  case (Inr z)
  show ?thesis
  proof (cases "pd_outcome (az_decision z) = ALLOW")
    case False
    then show ?thesis using Inr by (simp add: invoke_def)
  next
    case True
    obtain po where z: "resolve rg consumer = Inr (az_resolved z)"
        "evaluate (dg_permission rx) po au (az_action z) aud = Inr (az_decision z)"
        "make_action rx (az_resolved z) (az_call z) po context scope au aud = Inr (az_action z)"
        "sc_data_scope_refs scope = sorted_refs (map envelope_ref_of inputs)"
      using Inr by (rule authorize_InrE)
    have "fst (classify po au (az_action z)) = ALLOW" using evaluate_outcome [OF z(2)] True by simp
    then obtain g where g: "grant_for au (az_action z) = Some g" "grant_denials g (az_action z) = {}"
      and a: "approval_reasons au (az_action z) = {}"
      by (auto simp: classify_def Let_def split: option.splits if_splits)
    note fields = make_action_fields [OF z(3)] resolve_InrD [OF z(1)]
    have "sc_graph_mutation scope \<in> {NO_MUTATION, IN_SCOPE}"
      using a by (cases "sc_graph_mutation scope") (auto simp: approval_reasons_empty fields)
    then show ?thesis
      using grant_forD [OF g(1)] g(2) a
      by (intro disjI2 exI [of _ g] exI [of _ "rp_definition (az_resolved z)"])
         (auto simp: grant_denials_empty approval_reasons_empty inside_budget_def fields z(4))
  qed
qed

text \<open>
  C33: A denied invocation cannot be completed. When the invocation the runtime returns under the current
  authority passes the store's re-check, its permission decision was not a denial: the blocked result the
  runtime builds for a denied call is always refused by \<open>complete_task\<close>.
\<close>

theorem denied_invocation_refused:
  "case invoke rx rg consumer context scope (sn_authority sn) request inputs aud w of
     (Inl _, _) \<Rightarrow> True
   | (Inr iv, _) \<Rightarrow> (case validate_invocation e d sn task work iv outputs of
         Inl _ \<Rightarrow> True
       | Inr _ \<Rightarrow> pd_outcome (iv_permission_decision iv) \<in> {ALLOW, REQUIRE_APPROVAL})"
proof (cases "authorize rx rg consumer context scope (sn_authority sn) request inputs aud")
  case (Inl err)
  then show ?thesis by (simp add: invoke_def)
next
  case (Inr z)
  obtain po where po: "policy_ref_of po = au_permission_policy_ref (sn_authority sn)"
      "evaluate (dg_permission rx) po (sn_authority sn) (az_action z) aud = Inr (az_decision z)"
    using Inr by (rule authorize_InrE)
  have "pd_outcome (iv_permission_decision iv) \<noteq> DENY"
    if "validate_invocation e d sn task work iv outputs = Inr u" and "iv_permission_action iv = az_action z"
      and "iv_permission_decision iv = az_decision z" for iv u
    using recheck_not_denied [OF that(1) po(1)] evaluate_outcome [OF po(2)] that by simp
  then have nd: "pd_outcome (iv_permission_decision iv) \<in> {ALLOW, REQUIRE_APPROVAL}"
    if "validate_invocation e d sn task work iv outputs = Inr u" and "iv_permission_action iv = az_action z"
      and "iv_permission_decision iv = az_decision z" for iv u
    using that by (cases "pd_outcome (iv_permission_decision iv)") auto
  show ?thesis
    using Inr nd
    by (auto simp: invoke_def finish_invocation_def Let_def split: sum.splits prod.splits if_splits)
qed

end
