(* ===== verification/Team_Runner.thy ===== *)
theory Team_Runner
  imports Team_Coordinator Capability_Runtime
begin

text \<open>
  \<open>TeamCapabilityRunner\<close> of \<open>team/runtime.py\<close>: one task of a Team is claimed, leased, run through the
  capability runtime and completed. Each store call is a transaction of its own. The world a provider
  works on is the database together with its own state: while the runner awaits the provider the other
  clients of the store may commit, so the provider is allowed to change the database.
\<close>

section \<open>Operation keys\<close>

definition operation_payload :: "string \<Rightarrow> int \<Rightarrow> string \<Rightarrow> int \<Rightarrow> string" where
  "operation_payload incarnation revision task_id attempt =
     incarnation @ '':'' @ dec revision @ '':'' @ task_id @ '':'' @ dec attempt"

definition operation_key :: "'q runtime_env \<Rightarrow> string \<Rightarrow> int \<Rightarrow> string \<Rightarrow> int \<Rightarrow> string" where
  "operation_key rx incarnation revision task_id attempt =
     ''team-operation.'' @ take 32 (operation_sha256 rx (operation_payload incarnation revision task_id attempt))"

definition invocation_key_for :: "string \<Rightarrow> int \<Rightarrow> int \<Rightarrow> string" where
  "invocation_key_for operation attempt fence =
     operation @ ''.attempt-'' @ dec attempt @ ''.fence-'' @ dec fence"

definition claim_key :: "string \<Rightarrow> string" where
  "claim_key operation = operation @ ''.claim''"

definition lease_key :: "string \<Rightarrow> string" where
  "lease_key operation = operation @ ''.lease''"

definition commit_key :: "string \<Rightarrow> string" where
  "commit_key invocation_key = invocation_key @ ''.commit''"

definition consumer_id_for :: "string \<Rightarrow> string \<Rightarrow> string" where
  "consumer_id_for member_id task_id = ''team-agent-tool.'' @ member_id @ ''.'' @ task_id"

section \<open>Binding the outputs\<close>

text \<open>An output becomes the successor of the current envelope of its head, or the first revision.\<close>

definition rebind ::
  "env \<Rightarrow> (string \<times> artifact_envelope) list \<Rightarrow> contract_audit \<Rightarrow> string \<times> artifact_envelope \<Rightarrow>
   artifact_envelope result" where
  "rebind e current aud p =
     (let predecessor = dict_of current (fst p); output = snd p
      in create_envelope (dg_envelope e) aud
           \<lparr>object_id = [], object_sha256 = [], audit = no_audit,
            en_artifact_id = (case predecessor of None \<Rightarrow> en_artifact_id output | Some v \<Rightarrow> en_artifact_id v),
            en_subject_ref = en_subject_ref output, en_schema_ref = en_schema_ref output,
            en_content_ref = en_content_ref output, en_media_type = en_media_type output,
            en_modality = en_modality output, en_domain_tags = en_domain_tags output,
            en_semantic_role = en_semantic_role output, en_purpose = en_purpose output,
            en_classification = en_classification output, en_lineage_refs = en_lineage_refs output,
            en_producer_capability_ref = en_producer_capability_ref output,
            en_producer_task_ref = en_producer_task_ref output,
            en_validation_refs = en_validation_refs output,
            en_revision = (case predecessor of None \<Rightarrow> 1 | Some v \<Rightarrow> en_revision v + 1),
            en_predecessor_envelope_ref = map_option envelope_ref_of predecessor\<rparr>)"

definition sorted_outputs :: "artifact_envelope list \<Rightarrow> artifact_envelope list" where
  "sorted_outputs vs = sort_key (\<lambda>v. (en_semantic_role v, object_id v)) vs"

definition bind_outputs ::
  "env \<Rightarrow> db \<Rightarrow> string \<Rightarrow> string list \<Rightarrow> runtime_invocation \<Rightarrow> contract_audit \<Rightarrow>
   (runtime_invocation \<times> (string \<times> artifact_envelope) list) result" where
  "bind_outputs e d team_id output_head_ids iv aud =
     (if cr_outcome (iv_result iv) \<noteq> SUCCEEDED then Inr (iv, [])
      else (let outputs = sorted_outputs (iv_output_artifacts iv); head_ids = sort output_head_ids
        in if length outputs \<noteq> length head_ids
           then Inl (CapabilityRuntimeInputError ''Team task output heads differ from Runtime outputs'')
           else
             rbind (artifact_head_envelopes e d team_id) (\<lambda>pairs.
             rbind (rmap (rebind e (map (\<lambda>(h, v). (hd_head_id h, v)) pairs) aud) (zip head_ids outputs))
               (\<lambda>rebound.
             (let refs = sorted_refs (map envelope_ref_of rebound)
              in if refs = cr_output_artifact_refs (iv_result iv)
                 then Inr (iv, zip head_ids rebound)
                 else
                   rbind (create (result_cls e) aud
                            \<lparr>object_id = [], object_sha256 = [], audit = no_audit,
                             cr_result_id = cr_result_id (iv_result iv), cr_call_ref = call_ref_of (iv_call iv),
                             cr_outcome = cr_outcome (iv_result iv),
                             cr_canonical_result_ref = cr_canonical_result_ref (iv_result iv),
                             cr_output_artifact_refs = refs,
                             cr_validation_refs = cr_validation_refs (iv_result iv),
                             cr_failure_code = cr_failure_code (iv_result iv)\<rparr>) (\<lambda>result.
                   Inr (iv\<lparr>iv_result := result, iv_output_artifacts := rebound\<rparr>,
                        zip head_ids rebound)))))))"

section \<open>Choosing the work\<close>

record runner_call =
  rc_team_id :: string
  rc_task_id :: string
  rc_audit :: contract_audit
  rc_lease_duration :: int
  rc_deterministic :: bool
  rc_usage :: usage

text \<open>What the runner has read before it touches the task.\<close>

record run_target =
  rt_snapshot :: team_snapshot
  rt_work :: task_work
  rt_member :: team_member
  rt_grant :: member_grant
  rt_definition :: capability_definition
  rt_request_ref :: object_ref

definition or_raise :: "'a option \<Rightarrow> store_error \<Rightarrow> 'a result" where
  "or_raise x err = (case x of None \<Rightarrow> Inl err | Some v \<Rightarrow> Inr v)"

definition find_target ::
  "'q runtime_env \<Rightarrow> ('q, 'w) runtime_registry \<Rightarrow> runner_call \<Rightarrow> 'q \<Rightarrow> db \<Rightarrow> run_target result" where
  "find_target rx rg c request d =
     rbind (get_snapshot (rx_env rx) d (rc_team_id c)) (\<lambda>sn.
     rbind (input_error (tm_composition_ref (sn_team sn) \<noteq>
              composition_ref_of (pk_composition (rg_registration rg)))
       ''Team composition differs from the installed static Pack'') (\<lambda>_.
     rbind (get_task_work (rx_env rx) d (rc_team_id c) (rc_task_id c)) (\<lambda>work.
     (let task = tw_task work
      in rbind (or_raise (tk_assigned_member_id task) (TeamTaskStateError ''Team task has no assigned member'')) (\<lambda>owner.
         rbind (or_raise (find (\<lambda>m. mb_member_id m = owner) (ro_members (sn_roster sn)))
           (TeamConcurrencyError ''assigned Team member is stale'')) (\<lambda>member.
         rbind (or_raise (find (\<lambda>g. mg_member_id g = mb_member_id member) (au_grants (sn_authority sn)))
           (TeamConcurrencyError ''assigned Team member grant is stale'')) (\<lambda>grant.
         rbind (or_raise (find (\<lambda>v. definition_ref_of v = tk_capability_definition_ref task)
                  (pk_capability_definitions (rg_registration rg)))
           (CapabilityRuntimeInputError ''Team task Capability is not installed'')) (\<lambda>definition.
         rbind (request_ref_of rx request) (\<lambda>request_ref.
         Inr \<lparr>rt_snapshot = sn, rt_work = work, rt_member = member, rt_grant = grant,
              rt_definition = definition, rt_request_ref = request_ref\<rparr>)))))))))"

definition target_operation :: "'q runtime_env \<Rightarrow> run_target \<Rightarrow> int \<Rightarrow> string" where
  "target_operation rx t attempt =
     operation_key rx (tm_team_incarnation_id (sn_team (rt_snapshot t))) (gr_revision (sn_graph (rt_snapshot t)))
       (tk_task_id (tw_task (rt_work t))) attempt"

text \<open>A completed task is answered from its stored completion.\<close>

definition replay_target ::
  "'q runtime_env \<Rightarrow> runner_call \<Rightarrow> run_target \<Rightarrow> int \<Rightarrow> db \<Rightarrow> task_completion result" where
  "replay_target rx c t fence d =
     (let operation = target_operation rx t (tw_attempt (rt_work t))
      in rbind (replay_task_completion (rx_env rx) d (rc_team_id c) (rc_task_id c)
                  (invocation_key_for operation (tw_attempt (rt_work t)) fence) (rt_request_ref t)) (\<lambda>seen.
         or_raise seen (TeamTaskStateError ''completed Team task is missing replay authority'')))"

text \<open>The claim and lease the run works under: a fresh attempt, or the live one when it may be repeated.\<close>

record run_lease =
  rl_attempt :: int
  rl_operation :: string
  rl_lease :: task_lease

definition obtain_lease ::
  "'q runtime_env \<Rightarrow> (nat \<Rightarrow> nat \<Rightarrow> int) \<Rightarrow> runner_call \<Rightarrow> run_target \<Rightarrow> db \<Rightarrow> run_lease result \<times> db" where
  "obtain_lease rx clk c t d =
     (let sn = rt_snapshot t; work = rt_work t; task = tw_task work
      in if tw_status work = READY
         then (let attempt = tw_attempt work + 1; operation = target_operation rx t attempt
           in then_do (transact (claim_task (rx_env rx) (clk 0) (team_ref_of (sn_team sn))
                  (graph_ref_of (sn_graph sn)) (authority_ref_of (sn_authority sn)) (task_ref_of task)
                  (member_ref_of (rt_member t)) (rc_audit c) (claim_key operation)) d) (\<lambda>claim d1.
              then_do (transact (acquire_lease (rx_env rx) (clk 1) (claim_ref_of claim)
                  (rc_lease_duration c) (rc_audit c) (lease_key operation)) d1) (\<lambda>lease d2.
              (Inr \<lparr>rl_attempt = attempt, rl_operation = operation, rl_lease = lease\<rparr>, d2))))
         else (case (tw_status work, tw_claim work, tw_lease work) of
            (ACTIVE, Some _, Some lease) \<Rightarrow>
              if cd_idempotency (rt_definition t) = NON_IDEMPOTENT
              then (Inl (TeamTaskStateError ''non-idempotent active work requires outcome verification''), d)
              else (Inr \<lparr>rl_attempt = tw_attempt work,
                         rl_operation = target_operation rx t (tw_attempt work), rl_lease = lease\<rparr>, d)
          | _ \<Rightarrow> (Inl (TeamTaskStateError ''Team Capability runner requires ready or resumable active work''), d)))"

section \<open>Running it\<close>

text \<open>Everything the invocation needs, computed from the store after the lease is held.\<close>

record run_plan =
  rn_snapshot :: team_snapshot
  rn_inputs :: "artifact_envelope list"
  rn_consumer :: consumer_binding
  rn_context :: invocation_context
  rn_scope :: permission_scope
  rn_key :: string

definition run_context :: "run_target \<Rightarrow> team_snapshot \<Rightarrow> string \<Rightarrow> invocation_context result" where
  "run_context t leased key =
     (case (mg_data_purposes (rt_grant t), mg_data_classifications (rt_grant t)) of
        (purpose # _, classification # _) \<Rightarrow>
          new_context
            \<lparr>cx_session_ref = mb_independent_session_ref (rt_member t),
             cx_team_ref = Some (team_ref_of (sn_team leased)),
             cx_member_ref = Some (member_ref_of (rt_member t)),
             cx_task_ref = Some (task_ref_of (tw_task (rt_work t))),
             cx_authority_ref = authority_ref_of (sn_authority leased),
             cx_principal_ref = mg_principal_ref (rt_grant t), cx_data_purpose = purpose,
             cx_data_classification = classification, cx_idempotency_key = key\<rparr>
      | _ \<Rightarrow> Inl IndexError)"

definition run_scope ::
  "runner_call \<Rightarrow> run_target \<Rightarrow> artifact_envelope list \<Rightarrow> bool \<Rightarrow> permission_scope result" where
  "run_scope c t inputs local =
     (case rc_usage c of (requests, tokens, cost) \<Rightarrow>
        new_scope
          \<lparr>sc_member_id = mb_member_id (rt_member t), sc_task_id = tk_task_id (tw_task (rt_work t)),
           sc_data_scope_refs = sorted_refs (map envelope_ref_of inputs), sc_graph_mutation = NO_MUTATION,
           sc_local_execution = local, sc_deterministic = rc_deterministic c, sc_source_admission = False,
           sc_external_execution = (\<not> local), sc_destructive = False, sc_release = False,
           sc_model_requests_delta = requests, sc_model_tokens_delta = tokens,
           sc_cost_micro_usd_delta = cost\<rparr>)"

definition plan_run ::
  "'q runtime_env \<Rightarrow> ('q, 'w) runtime_registry \<Rightarrow> runner_call \<Rightarrow> run_target \<Rightarrow> run_lease \<Rightarrow> db \<Rightarrow> run_plan result" where
  "plan_run rx rg c t l d =
     rbind (get_snapshot (rx_env rx) d (rc_team_id c)) (\<lambda>leased.
     rbind (guard (team_ref_of (sn_team leased) = team_ref_of (sn_team (rt_snapshot t)))
       (TeamConcurrencyError ''Team authority changed after task claim'')) (\<lambda>_.
     rbind (task_input_envelopes (rx_env rx) d (rc_team_id c) (rc_task_id c)) (\<lambda>inputs.
     rbind (bind_consumer rx rg (cd_capability_id (rt_definition t))
              (consumer_id_for (mb_member_id (rt_member t)) (tk_task_id (tw_task (rt_work t)))) ''v1''
              AGENT_TOOL None (rc_audit c)) (\<lambda>consumer.
     rbind (resolve rg consumer) (\<lambda>resolved.
     (let key = invocation_key_for (rl_operation l) (rl_attempt l) (le_fencing_token (rl_lease l))
      in rbind (run_context t leased key) (\<lambda>context.
         rbind (run_scope c t inputs (pb_provider_kind (rp_binding resolved) \<in> local_kinds)) (\<lambda>scope.
         Inr \<lparr>rn_snapshot = leased, rn_inputs = inputs, rn_consumer = consumer, rn_context = context,
              rn_scope = scope, rn_key = key\<rparr>))))))))"

definition commit_run ::
  "'q runtime_env \<Rightarrow> (nat \<Rightarrow> nat \<Rightarrow> int) \<Rightarrow> runner_call \<Rightarrow> run_target \<Rightarrow> run_lease \<Rightarrow> run_plan \<Rightarrow>
   runtime_invocation \<Rightarrow> db \<Rightarrow> task_completion result \<times> db" where
  "commit_run rx clk c t l p iv d =
     then_do (reading (bind_outputs (rx_env rx) d (rc_team_id c)
                (tk_output_artifact_head_ids (tw_task (rt_work t))) iv (rc_audit c)) d) (\<lambda>(iv', bindings) d1.
     transact (complete_task (rx_env rx) (clk 2) (team_ref_of (sn_team (rn_snapshot p)))
       (graph_ref_of (sn_graph (rn_snapshot p))) (authority_ref_of (sn_authority (rn_snapshot p)))
       (lease_ref_of (rl_lease l)) (le_fencing_token (rl_lease l)) iv' bindings (rc_audit c)
       (commit_key (rn_key p))) d1)"

definition run_leased ::
  "'q runtime_env \<Rightarrow> ('q, db \<times> 's) runtime_registry \<Rightarrow> (nat \<Rightarrow> nat \<Rightarrow> int) \<Rightarrow> runner_call \<Rightarrow> 'q \<Rightarrow> run_target \<Rightarrow>
   run_lease \<Rightarrow> db \<times> 's \<Rightarrow> task_completion result \<times> (db \<times> 's)" where
  "run_leased rx rg clk c request t l w =
     then_do (reading (plan_run rx rg c t l (fst w)) w) (\<lambda>p w1.
     then_do (invoke rx rg (rn_consumer p) (rn_context p) (rn_scope p) (sn_authority (rn_snapshot p)) request
                (rn_inputs p) (rc_audit c) w1) (\<lambda>iv w2.
     (case commit_run rx clk c t l p iv (fst w2) of (r, d) \<Rightarrow> (r, (d, snd w2)))))"

definition execute ::
  "'q runtime_env \<Rightarrow> ('q, db \<times> 's) runtime_registry \<Rightarrow> (nat \<Rightarrow> nat \<Rightarrow> int) \<Rightarrow> runner_call \<Rightarrow> 'q \<Rightarrow>
   db \<times> 's \<Rightarrow> task_completion result \<times> (db \<times> 's)" where
  "execute rx rg clk c request w =
     then_do (reading (find_target rx rg c request (fst w)) w) (\<lambda>t w1.
     case (tw_status (rt_work t), tw_lease (rt_work t), tw_fencing_token (rt_work t)) of
       (COMPLETED, Some _, Some fence) \<Rightarrow> reading (replay_target rx c t fence (fst w1)) w1
     | _ \<Rightarrow>
         then_do (reading (task_usage (rx_env rx) (fst w1) (rc_team_id c) (rc_task_id c)) w1) (\<lambda>used w2.
         if over_task_budget (tw_task (rt_work t)) used (rc_usage c)
         then (Inl (CapabilityRuntimeInputError ''Team task Capability budget is exhausted''), w2)
         else
           then_do (case obtain_lease rx clk c t (fst w2) of (r, d) \<Rightarrow> (r, (d, snd w2))) (\<lambda>l w3.
           run_leased rx rg clk c request t l w3)))"

end
