(* ===== verification/Sample_Runtime.thy ===== *)
theory Sample_Runtime
  imports Sample_Steps Team_Runner
begin

text \<open>
  A capability registry for the sample Team: one capability with one local provider that succeeds with
  fixed content, installed from a registration whose manifest and composition are valid.
\<close>

definition sample_schema :: object_ref where
  "sample_schema = ObjectRef ''json-schema'' ''schema'' ''v1'' ''0''"

definition sample_definition :: capability_definition where
  "sample_definition =
     \<lparr>object_id = ''sample'', object_sha256 = ''0'', audit = sample_audit, cd_capability_id = ''capability'',
      cd_capability_version = ''1'', cd_request_schema_ref = sample_schema, cd_result_schema_ref = sample_schema,
      cd_input_artifact_roles = [], cd_output_artifact_roles = [''output''], cd_data_purposes = [''purpose''],
      cd_data_classifications = [''public''], cd_side_effect = READ_ONLY, cd_idempotency = PURE,
      cd_supported_consumers = [AGENT_TOOL], cd_legacy_agent_capability_ref = None\<rparr>"

definition sample_binding :: provider_binding where
  "sample_binding =
     \<lparr>object_id = ''sample'', object_sha256 = ''0'', audit = sample_audit, pb_provider_id = ''provider'',
      pb_provider_version = ''1'',
      pb_capability_definition_ref = sample_ref ''harness-capability-definition'',
      pb_implementation_id = ''implementation'', pb_provider_kind = LOCAL_DETERMINISTIC,
      pb_supported_consumers = [AGENT_TOOL], pb_policy_refs = [sample_ref ''balanced-autonomy-policy'']\<rparr>"

definition sample_profile :: agent_profile where
  "sample_profile =
     \<lparr>object_id = ''sample'', object_sha256 = ''0'', audit = sample_audit, ap_profile_id = ''profile'',
      ap_profile_version = ''1'', ap_role = ''role'',
      ap_capability_definition_refs = [sample_ref ''harness-capability-definition''],
      ap_context_projection_ref = sample_ref ''harness-projection-definition'',
      ap_model_policy_ref = sample_ref ''model-routing-policy'', ap_coordinator = True\<rparr>"

definition sample_policy :: autonomy_policy where
  "sample_policy = \<lparr>object_id = ''sample'', object_sha256 = ''0'', audit = sample_audit, po_policy_id = ''policy''\<rparr>"

definition sample_projection_definition :: projection_definition where
  "sample_projection_definition =
     \<lparr>object_id = ''sample'', object_sha256 = ''0'', audit = sample_audit, pj_projection_id = ''projection'',
      pj_projection_version = ''1'', pj_reducer_id = ''reducer'', pj_source_event_families = [''family''],
      pj_source_artifact_roles = [], pj_output_schema_ref = sample_schema, pj_visibility = MEMBER_SCOPED,
      pj_content_safe = True\<rparr>"

definition sample_manifest :: pack_manifest where
  "sample_manifest =
     \<lparr>object_id = ''sample'', object_sha256 = ''0'', audit = sample_audit, pm_pack_id = ''pack'',
      pm_pack_version = ''1'', pm_artifact_schema_refs = [sample_schema],
      pm_capability_definition_refs = [sample_ref ''harness-capability-definition''],
      pm_provider_binding_refs = [sample_ref ''harness-capability-provider''],
      pm_agent_profile_refs = [sample_ref ''pack-agent-profile''],
      pm_graph_template_ref = sample_ref ''graph-template'',
      pm_blueprint_template_ref = sample_ref ''blueprint-template'',
      pm_permission_policy_refs = [sample_ref ''balanced-autonomy-policy''],
      pm_projection_refs = [sample_ref ''harness-projection-definition''],
      pm_delivery_adapter_refs = [sample_ref ''delivery-adapter''],
      pm_certification_refs = [sample_ref ''certification'']\<rparr>"

definition sample_composition :: harness_composition where
  "sample_composition =
     \<lparr>object_id = ''sample'', object_sha256 = ''0'', audit = sample_audit, hc_profile_id = ''profile'',
      hc_profile_version = ''1'', hc_pack_manifest_refs = [sample_ref ''eval-pack-manifest''],
      hc_capability_definition_refs = [sample_ref ''harness-capability-definition''],
      hc_provider_binding_refs = [sample_ref ''harness-capability-provider''],
      hc_agent_profile_refs = [sample_ref ''pack-agent-profile''],
      hc_permission_policy_refs = [sample_ref ''balanced-autonomy-policy''],
      hc_projection_refs = [sample_ref ''harness-projection-definition''],
      hc_blueprint_template_ref = sample_ref ''blueprint-template''\<rparr>"

definition sample_registration :: pack_registration where
  "sample_registration =
     \<lparr>pk_manifest = sample_manifest, pk_capability_definitions = [sample_definition],
      pk_provider_bindings = [sample_binding], pk_agent_profiles = [sample_profile],
      pk_permission_policies = [sample_policy], pk_projections = [sample_projection_definition],
      pk_composition = sample_composition\<rparr>"

text \<open>A request is its own name.\<close>

definition sample_runtime :: "string runtime_env" where
  "sample_runtime =
     \<lparr>rx_env = sample_env, dg_consumer = cb_consumer_id, dg_action = pa_action_id,
      dg_permission = pd_decision_id, schema_sha256 = (\<lambda>_. ''0''), request_model_of = (\<lambda>_. ''request''),
      request_authority = (\<lambda>q. Some (Some (ObjectRef ''request'' q ''v1'' ''0''))),
      revalidated = (\<lambda>_ q. Some q), operation_sha256 = (\<lambda>_. ''0'')\<rparr>"

definition sample_execution :: provider_execution where
  "sample_execution =
     \<lparr>px_outcome = SUCCEEDED, px_canonical_result_ref = Some (sample_ref ''result''),
      px_content_ref = Some (sample_ref ''content''), px_validation_refs = [], px_failure_code = None,
      px_media_type = ''application/json'', px_modality = DOCUMENT, px_domain_tags = []\<rparr>"

definition sample_provider :: "(string, 'w) provider" where
  "sample_provider =
     \<lparr>pv_binding_ref = sample_ref ''harness-capability-provider'', pv_implementation_id = ''implementation'',
      pv_request_model = ''request'', pv_request_schema_ref = sample_schema, pv_result_model = ''outcome'',
      pv_result_schema_ref = sample_schema, pv_invoke = (\<lambda>_ _ _ w. (Inr sample_execution, w))\<rparr>"

definition sample_registry :: "(string, 'w) runtime_registry" where
  "sample_registry =
     \<lparr>rg_registration = sample_registration,
      rg_providers = [(sample_ref ''harness-capability-provider'', sample_provider)]\<rparr>"

lemma sample_registration_new: "new_registration sample_registration = Inr sample_registration"
  by code_simp

lemma sample_manifest_valid: "validate_manifest sample_manifest"
  by code_simp

lemma sample_registry_new:
  "new_runtime_registry sample_runtime sample_registration [sample_provider] = Inr sample_registry"
proof -
  have b: "installed_binding sample_registration (sample_ref ''harness-capability-provider'') = Some sample_binding"
    and d: "installed_definition sample_registration (pb_capability_definition_ref sample_binding) = Some sample_definition"
    and i: "implementation_drifted sample_runtime (sample_provider :: (string, 'w) provider) sample_binding
        sample_definition = Inr False"
    and k: "pv_binding_ref (sample_provider :: (string, 'w) provider) = sample_ref ''harness-capability-provider''"
    and s: "set (map provider_ref_of (pk_provider_bindings sample_registration)) =
        {sample_ref ''harness-capability-provider''}"
    by code_simp+
  show ?thesis unfolding new_runtime_registry_def Let_def s
    by (simp add: k b d i sample_registry_def)
qed

definition sample_run_call :: runner_call where
  "sample_run_call =
     \<lparr>rc_team_id = ''team'', rc_task_id = ''task-a'', rc_audit = sample_audit, rc_lease_duration = 60,
      rc_deterministic = True, rc_usage = (1, 1, 1)\<rparr>"

end
