(* ===== verification/Registry_Properties.thy ===== *)
theory Registry_Properties
  imports Runtime_Properties Sample_Runtime
begin

text \<open>
  Properties of the static Pack composition and of the capability registry: a registration that passes its
  validator names exactly one provider per capability and one coordinator, and every consumer the runtime
  binds resolves to the pinned implementation of its capability.
\<close>

section \<open>Registrations\<close>

lemma count_providers_counts:
  "count_providers defs ps counts = Inr final \<Longrightarrow>
     final k = counts k + length (filter (\<lambda>p. pb_capability_definition_ref p = k) ps)"
  by (induction ps arbitrary: counts) (auto split: option.splits if_splits)

lemma count_providers_narrow:
  "count_providers defs ps counts = Inr final \<Longrightarrow> p \<in> set ps \<Longrightarrow>
     \<exists>d. last_with definition_ref_of (pb_capability_definition_ref p) defs = Some d \<and>
         set (pb_supported_consumers p) \<subseteq> set (cd_supported_consumers d)"
  by (induction ps arbitrary: counts) (auto split: option.splits if_splits)

lemma check_pairs_Inr: "check_pairs msg pairs = Inr u \<Longrightarrow> (a, b, l) \<in> set pairs \<Longrightarrow> a = b"
  by (induction msg pairs rule: check_pairs.induct) auto

lemma new_registration_InrE:
  assumes "new_registration r = Inr g"
  obtains counts m c where "g = r" and "check_pairs manifest_differs (manifest_pairs r) = Inr m"
    and "count_providers (pk_capability_definitions r) (pk_provider_bindings r) (\<lambda>_. 0) = Inr counts"
    and "list_all (\<lambda>d. counts (definition_ref_of d) = 1) (pk_capability_definitions r)"
    and "length (filter ap_coordinator (pk_agent_profiles r)) = 1"
    and "set (required_schema_refs (pk_capability_definitions r)) \<subseteq> set (pm_artifact_schema_refs (pk_manifest r))"
    and "hc_pack_manifest_refs (pk_composition r) = [manifest_ref_of (pk_manifest r)]"
    and "check_pairs composition_differs (composition_pairs r) = Inr c"
proof -
  have v: "validate_registration r = Inr ()" and r: "g = r"
    using assms unfolding new_registration_def by (elim rbind_InrE, simp)+
  show thesis
    using v unfolding validate_registration_def Let_def
    by (elim rbind_InrE, unfold guard_Inr) (rule that [OF r]; assumption)
qed

lemma registered_refs:
  assumes "new_registration r = Inr g"
  shows "pm_capability_definition_refs (pk_manifest r) =
           sorted_refs (map definition_ref_of (pk_capability_definitions r))"
    and "pm_provider_binding_refs (pk_manifest r) =
           sorted_refs (map provider_ref_of (pk_provider_bindings r))"
    and "hc_capability_definition_refs (pk_composition r) = pm_capability_definition_refs (pk_manifest r)"
    and "hc_provider_binding_refs (pk_composition r) = pm_provider_binding_refs (pk_manifest r)"
proof -
  obtain counts m c where "check_pairs manifest_differs (manifest_pairs r) = Inr m"
      "check_pairs composition_differs (composition_pairs r) = Inr c"
    using assms by (elim new_registration_InrE)
  then show "pm_capability_definition_refs (pk_manifest r) =
           sorted_refs (map definition_ref_of (pk_capability_definitions r))"
    and "pm_provider_binding_refs (pk_manifest r) =
           sorted_refs (map provider_ref_of (pk_provider_bindings r))"
    and "hc_capability_definition_refs (pk_composition r) = pm_capability_definition_refs (pk_manifest r)"
    and "hc_provider_binding_refs (pk_composition r) = pm_provider_binding_refs (pk_manifest r)"
    by (auto simp: manifest_pairs_def composition_pairs_def Let_def dest: check_pairs_Inr)
qed

text \<open>
  C36: A static Pack registration that passes its validator pins one authority per capability. Every
  registered capability definition is the definition of exactly one registered provider binding, every
  binding belongs to a registered capability and supports no consumer that capability does not, there is
  exactly one coordinator profile, and the composition pins the manifest and exactly its capabilities and
  providers.
\<close>

theorem registered_capability_has_one_provider:
  "case new_registration r of
     Inl _ \<Rightarrow> True
   | Inr g \<Rightarrow>
       list_all (\<lambda>d. \<exists>b. filter (\<lambda>b. pb_capability_definition_ref b = definition_ref_of d)
           (pk_provider_bindings g) = [b]) (pk_capability_definitions g) \<and>
       list_all (\<lambda>b. \<exists>d. d \<in> set (pk_capability_definitions g) \<and>
           definition_ref_of d = pb_capability_definition_ref b \<and>
           set (pb_supported_consumers b) \<subseteq> set (cd_supported_consumers d)) (pk_provider_bindings g) \<and>
       length (filter ap_coordinator (pk_agent_profiles g)) = 1 \<and>
       hc_pack_manifest_refs (pk_composition g) = [manifest_ref_of (pk_manifest g)] \<and>
       set (hc_capability_definition_refs (pk_composition g)) =
         definition_ref_of ` set (pk_capability_definitions g) \<and>
       set (hc_provider_binding_refs (pk_composition g)) = provider_ref_of ` set (pk_provider_bindings g)"
proof (cases "new_registration r")
  case (Inr g)
  then obtain counts where r: "g = r" and
      c: "count_providers (pk_capability_definitions r) (pk_provider_bindings r) (\<lambda>_. 0) = Inr counts"
      "list_all (\<lambda>d. counts (definition_ref_of d) = 1) (pk_capability_definitions r)"
      and k: "length (filter ap_coordinator (pk_agent_profiles r)) = 1"
      "hc_pack_manifest_refs (pk_composition r) = [manifest_ref_of (pk_manifest r)]"
    by (elim new_registration_InrE)
  have "list_all (\<lambda>d. \<exists>b. filter (\<lambda>b. pb_capability_definition_ref b = definition_ref_of d)
           (pk_provider_bindings r) = [b]) (pk_capability_definitions r)"
    using c(2) count_providers_counts [OF c(1)] by (auto simp: list_all_iff length_Suc_conv)
  moreover have "list_all (\<lambda>b. \<exists>d. d \<in> set (pk_capability_definitions r) \<and>
           definition_ref_of d = pb_capability_definition_ref b \<and>
           set (pb_supported_consumers b) \<subseteq> set (cd_supported_consumers d)) (pk_provider_bindings r)"
    using count_providers_narrow [OF c(1)] by (fastforce simp: list_all_iff dest!: last_with_SomeD)
  ultimately show ?thesis using Inr r k registered_refs [OF Inr] by simp
qed simp

section \<open>Binding and resolution\<close>

definition installed_ok ::
  "'q runtime_env \<Rightarrow> pack_registration \<Rightarrow> (object_ref \<times> ('q, 'w) provider) list \<Rightarrow> bool" where
  "installed_ok rx reg = list_all (\<lambda>(k, p). pv_binding_ref p = k \<and>
     (\<exists>b d. installed_binding reg k = Some b \<and>
        installed_definition reg (pb_capability_definition_ref b) = Some d \<and>
        implementation_drifted rx p b d = Inr False))"

lemma install_providers_Cons:
  assumes "install_providers rx reg (p # ps) acc = Inr installed"
  obtains b d where "installed_binding reg (pv_binding_ref p) = Some b"
    and "installed_definition reg (pb_capability_definition_ref b) = Some d"
    and "implementation_drifted rx p b d = Inr False"
    and "install_providers rx reg ps (acc @ [(pv_binding_ref p, p)]) = Inr installed"
  using assms unfolding install_providers.simps Let_def
  by (auto split: option.splits if_splits elim!: rbind_InrE)

lemma install_providers_ok:
  "install_providers rx reg ps acc = Inr installed \<Longrightarrow> installed_ok rx reg acc \<Longrightarrow> installed_ok rx reg installed"
proof (induction ps arbitrary: acc)
  case (Cons p ps)
  obtain b d where steps: "installed_binding reg (pv_binding_ref p) = Some b"
      "installed_definition reg (pb_capability_definition_ref b) = Some d"
      "implementation_drifted rx p b d = Inr False"
      and rest: "install_providers rx reg ps (acc @ [(pv_binding_ref p, p)]) = Inr installed"
    using Cons.prems(1) by (rule install_providers_Cons)
  have "installed_ok rx reg (acc @ [(pv_binding_ref p, p)])"
    using Cons.prems(2) steps by (simp add: installed_ok_def)
  then show ?case by (rule Cons.IH [OF rest])
qed simp

lemma last_with_unique:
  "distinct (map key xs) \<Longrightarrow> x \<in> set xs \<Longrightarrow> last_with key (key x) xs = Some x"
  unfolding last_with_def
  by (cases "find (\<lambda>y. key y = key x) (rev xs)")
     (auto simp: distinct_map inj_on_def find_None_iff dest!: find_SomeD)

lemma new_runtime_registryD:
  assumes "new_runtime_registry rx reg ps = Inr rg"
  shows "rg_registration rg = reg" and "installed_ok rx reg (rg_providers rg)"
    and "fst ` set (rg_providers rg) = provider_ref_of ` set (pk_provider_bindings reg)"
proof -
  obtain installed where i: "install_providers rx reg ps [] = Inr installed"
      and s: "set (map fst installed) = set (map provider_ref_of (pk_provider_bindings reg))"
      and rg: "rg = \<lparr>rg_registration = reg, rg_providers = installed\<rparr>"
    using assms unfolding new_runtime_registry_def by (elim rbind_InrE) simp
  show "rg_registration rg = reg" and "installed_ok rx reg (rg_providers rg)"
    and "fst ` set (rg_providers rg) = provider_ref_of ` set (pk_provider_bindings reg)"
    using rg s install_providers_ok [OF i] by (simp_all add: installed_ok_def)
qed

lemma bind_consumer_InrE:
  assumes "bind_consumer rx rg capability_id consumer_id version kind projection aud = Inr c"
  obtains d b where "d \<in> set (pk_capability_definitions (rg_registration rg))" and "cd_capability_id d = capability_id"
    and "b \<in> set (pk_provider_bindings (rg_registration rg))" and "pb_capability_definition_ref b = definition_ref_of d"
    and "kind \<in> set (cd_supported_consumers d)" and "kind \<in> set (pb_supported_consumers b)"
    and "cb_capability_definition_ref c = definition_ref_of d" and "cb_provider_binding_ref c = provider_ref_of b"
    and "cb_consumer_kind c = kind"
proof -
  obtain d b where d: "filter (\<lambda>d. cd_capability_id d = capability_id)
        (pk_capability_definitions (rg_registration rg)) = [d]"
      and b: "filter (\<lambda>b. pb_capability_definition_ref b = definition_ref_of d)
        (pk_provider_bindings (rg_registration rg)) = [b]"
      and k: "kind \<in> set (cd_supported_consumers d) \<and> kind \<in> set (pb_supported_consumers b)"
      and c: "create (consumer_class (dg_consumer rx)) aud
       \<lparr>object_id = [], object_sha256 = [], audit = no_audit, cb_consumer_id = consumer_id,
        cb_consumer_version = version, cb_consumer_kind = kind,
        cb_capability_definition_ref = definition_ref_of d,
        cb_provider_binding_ref = provider_ref_of b, cb_projection_ref = projection\<rparr> = Inr c"
    using assms unfolding bind_consumer_def provider_binding_for_def
    by (elim rbind_InrE, unfold the_only_Inr guard_Inr) (rule that; assumption)
  show thesis
    by (rule that [of d b]) (use d b k c in \<open>auto simp: filter_eq_Cons_iff consumer.create_Inr_iff\<close>)
qed

lemma distinct_registered:
  assumes "new_registration r = Inr g" and "validate_manifest (pk_manifest r)"
  shows "distinct (map definition_ref_of (pk_capability_definitions r))"
    and "distinct (map provider_ref_of (pk_provider_bindings r))"
  using assms(2) registered_refs [OF assms(1)]
  by (auto simp: validate_manifest_def inventory_ok_def require_sorted_unique_refs_iff sorted_refs_eq_sort)

text \<open>
  C35: Every consumer the runtime binds resolves. With a registration and a manifest that pass their
  validators and a registry whose implementations were all checked against the pinned authority, a consumer
  bound by capability id resolves to the capability of that id, to the implementation installed under the
  provider binding it names, and that implementation has not drifted from the pinned request and result
  schemas.
\<close>

theorem bound_consumer_resolves:
  assumes "new_registration reg = Inr reg" and "validate_manifest (pk_manifest reg)"
    and "new_runtime_registry rx reg ps = Inr rg"
    and "bind_consumer rx rg capability_id consumer_id version kind projection aud = Inr c"
  shows "\<exists>p. resolve rg c = Inr p \<and> cd_capability_id (rp_definition p) = capability_id \<and>
    pv_binding_ref (rp_implementation p) = cb_provider_binding_ref c \<and>
    implementation_drifted rx (rp_implementation p) (rp_binding p) (rp_definition p) = Inr False"
proof -
  note rg = new_runtime_registryD [OF assms(3)] and dist = distinct_registered [OF assms(1,2)]
  obtain d b where d: "d \<in> set (pk_capability_definitions reg)" "cd_capability_id d = capability_id"
      and b: "b \<in> set (pk_provider_bindings reg)" "pb_capability_definition_ref b = definition_ref_of d"
      and kind: "kind \<in> set (cd_supported_consumers d)" "kind \<in> set (pb_supported_consumers b)"
      and c: "cb_capability_definition_ref c = definition_ref_of d" "cb_provider_binding_ref c = provider_ref_of b"
        "cb_consumer_kind c = kind"
    using bind_consumer_InrE [OF assms(4)] rg(1) by metis
  have id: "installed_definition reg (definition_ref_of d) = Some d"
    and ib: "installed_binding reg (provider_ref_of b) = Some b"
    unfolding installed_definition_def installed_binding_def
    by (rule last_with_unique; use dist d b in simp)+
  have "provider_ref_of b \<in> fst ` set (rg_providers rg)" using rg(3) b(1) by simp
  then obtain p where p: "map_of (rg_providers rg) (provider_ref_of b) = Some p"
    by (metis map_of_eq_None_iff not_Some_eq)
  then have "implementation_drifted rx p b d = Inr False" and "pv_binding_ref p = provider_ref_of b"
    using rg(2) ib id b(2) by (auto simp: installed_ok_def list_all_iff dest!: map_of_SomeD)
  then show ?thesis
    using c kind id ib p b(2) d(2) rg(1) by (simp add: resolve_def)
qed

definition sample_consumer :: consumer_binding where
  "sample_consumer =
     \<lparr>object_id = sample_id ''harness-capability-consumer'' ''consumer'', object_sha256 = ''consumer'',
      audit = audit_with_refs sample_audit
        [sample_ref ''harness-capability-definition'', sample_ref ''harness-capability-provider''],
      cb_consumer_id = ''consumer'',
      cb_consumer_version = ''1'', cb_consumer_kind = AGENT_TOOL,
      cb_capability_definition_ref = sample_ref ''harness-capability-definition'',
      cb_provider_binding_ref = sample_ref ''harness-capability-provider'', cb_projection_ref = None\<rparr>"

lemma sample_consumer_bound:
  "bind_consumer sample_runtime sample_registry ''capability'' ''consumer'' ''1'' AGENT_TOOL None sample_audit =
     Inr sample_consumer"
  by code_simp

theorem bound_consumer_resolves_witness:
  "\<exists>p. resolve (sample_registry :: (string, unit) runtime_registry) sample_consumer = Inr p \<and>
     cd_capability_id (rp_definition p) = ''capability'' \<and>
     pv_binding_ref (rp_implementation p) = cb_provider_binding_ref sample_consumer \<and>
     implementation_drifted sample_runtime (rp_implementation p) (rp_binding p) (rp_definition p) = Inr False"
  by (rule bound_consumer_resolves [OF sample_registration_new _ sample_registry_new sample_consumer_bound])
     (use sample_manifest_valid in \<open>simp add: sample_registration_def\<close>)

end
