(* ===== verification/Runner_Properties.thy ===== *)
theory Runner_Properties
  imports Team_Runner Runtime_Properties Sample_Runtime Store_Runs
begin

text \<open>
  What the clients of the store leave behind: the coordinator, the session reconciler and the capability
  runner only append to the store's records whatever fails on the way, a run of a task stays within the
  reachable stores, and a provider is only reached for a task with work to do, budget to do it and a lease.
\<close>

section \<open>Sequences of transactions\<close>

lemma then_do_step:
  assumes "\<And>a b c. R a b \<Longrightarrow> R b c \<Longrightarrow> R a c" and "R (view w) (view (snd m))"
    and "\<And>x w1. m = (Inr x, w1) \<Longrightarrow> R (view w1) (view (snd (f x w1)))"
  shows "R (view w) (view (snd (then_do m f)))"
  using assms by (cases m; cases "fst m") (auto simp: then_do_def)

lemma reading_simps [simp]: "snd (reading r d) = d" "reading r d = (Inr x, d') \<longleftrightarrow> r = Inr x \<and> d' = d"
  by (auto simp: reading_def)

lemma transact_step: "R d d \<Longrightarrow> (\<And>d' x. op d = Inr (d', x) \<Longrightarrow> R d d') \<Longrightarrow> R d (snd (transact op d))"
  by (auto simp: transact_def split: sum.splits)

section \<open>The coordinator and the reconciler\<close>

context growth_relation
begin

lemma step_then:
  assumes "R d (snd m)" and "\<And>x d1. m = (Inr x, d1) \<Longrightarrow> R d1 (snd (f x d1))"
  shows "R d (snd (then_do m f))"
  using then_do_step [of R "\<lambda>d. d" d m f] trans assms by blast

lemma step_record_decision:
  "R d (snd (record_decision e clk T before after outcome blockers codes aud key d))"
  unfolding record_decision_def
proof (rule step_then)
  show "R d (snd (transact (create_checkpoint e (clk 1) T aud (checkpoint_key key)) d))"
    by (rule transact_step [of R, OF refl]) (rule step_create_checkpoint)
next
  fix checkpoint d1
  show "R d1 (snd (then_do (reading (decision_of e before after checkpoint outcome blockers codes aud key) d1)
      (\<lambda>decision. transact (record_convergence e (clk 2) decision (record_key key)))))"
    by (rule step_then) (auto intro: transact_step [of R, OF refl] step_record_convergence)
qed

lemma step_recover:
  assumes "R d (snd m)" and "\<And>d'. R d' (snd (f d'))" and "\<And>x d'. R d' (snd (g x d'))"
  shows "R d (snd (case m of (Inl (TeamTaskStateError msg), d2) \<Rightarrow> f d2 | (Inl err, d2) \<Rightarrow> (Inl err, d2)
    | (Inr after, d2) \<Rightarrow> g after d2))"
proof -
  obtain r d2 where m: "m = (r, d2)" by (cases m)
  then have "R d d2" using assms(1) by simp
  note steps = trans [OF this assms(2)] trans [OF this assms(3)] this
  show ?thesis
  proof (cases r)
    case (Inl err)
    then show ?thesis using steps m by (cases err) simp_all
  next
    case (Inr x)
    then show ?thesis using steps m by simp
  qed
qed

lemma step_rework_or_block: "R d (snd (rework_or_block e clk T before challenges aud key d))"
  unfolding rework_or_block_def
  by (rule step_then, simp,
      rule step_recover [OF transact_step [of R, OF refl]], rule step_revise, assumption,
      rule step_record_decision, rule step_record_decision)

lemma step_decide: "R d (snd (decide e clk T src aud key d))"
  unfolding decide_def Let_def by (auto simp: step_record_decision step_rework_or_block)

lemma step_converge: "R d (snd (converge e clk T aud key d))"
  unfolding converge_def by (rule step_then) (auto simp: step_decide)

end

text \<open>
  Convergence only adds to the record. Whatever the coordinator decides for a Team, and wherever one of
  its transactions fails, no row of any record table is changed or removed: each table afterwards extends
  the table before.
\<close>

theorem converge_append_only: "history_le d (snd (converge e clk team_id aud decision_key d))"
  using growing.step_converge by (simp add: growing_def)

section \<open>The runner\<close>

text \<open>
  A relation kept by the three store calls of a run and by every installed provider holds across the run.
\<close>

definition provider_within :: "(db \<Rightarrow> db \<Rightarrow> bool) \<Rightarrow> ('q, db \<times> 's) provider \<Rightarrow> bool" where
  "provider_within R p \<longleftrightarrow> (\<forall>q call aud w. R (fst w) (fst (snd (pv_invoke p q call aud w))))"

locale runner_relation =
  fixes e :: env and R :: "db \<Rightarrow> db \<Rightarrow> bool"
  assumes same: "R d d"
    and chain: "R a b \<Longrightarrow> R b c \<Longrightarrow> R a c"
    and claims: "claim_task e clk tr gr ar kr mr aud key d = Inr (d', claim) \<Longrightarrow> R d d'"
    and leases: "acquire_lease e clk cr dur aud key d = Inr (d', lease) \<Longrightarrow> R d d'"
    and completes: "complete_task e clk tr gr ar lr f iv outs aud key d = Inr (d', tc) \<Longrightarrow> R d d'"
begin

lemma then_fst:
  fixes w :: "db \<times> 's" and m :: "'x result \<times> (db \<times> 's)"
  assumes "R (fst w) (fst (snd m))" and "\<And>x w1. m = (Inr x, w1) \<Longrightarrow> R (fst w1) (fst (snd (f x w1)))"
  shows "R (fst w) (fst (snd (then_do m f)))"
  using then_do_step [of R fst w m f] chain assms by blast

lemma then_db:
  assumes "R d (snd m)" and "\<And>x d1. m = (Inr x, d1) \<Longrightarrow> R d1 (snd (f x d1))"
  shows "R d (snd (then_do m f))"
  using then_do_step [of R "\<lambda>d. d" d m f] chain assms by blast

lemma calls:
  "R d (snd (transact (claim_task e clk tr gr ar kr mr aud key) d))"
  "R d (snd (transact (acquire_lease e clk cr dur aud key) d))"
  "R d (snd (transact (complete_task e clk tr gr ar lr f iv outs aud key) d))"
  by (auto intro: transact_step [of R, OF same] claims leases completes)

lemma obtain_lease:
  assumes "rx_env rx = e"
  shows "R d (snd (obtain_lease rx clk c t d))"
  unfolding obtain_lease_def Let_def assms
  by (auto intro!: then_db simp: calls same split: task_status.splits option.splits)

lemma commit_run:
  assumes "rx_env rx = e"
  shows "R d (snd (commit_run rx clk c t l p iv d))"
  unfolding commit_run_def assms by (rule then_db) (auto simp: calls same)

lemma invoke_step:
  assumes "list_all (\<lambda>(k, p). provider_within R p) (rg_providers rg)"
  shows "R (fst w) (fst (snd (invoke rx rg consumer context scope au request inputs aud w)))"
proof (cases "authorize rx rg consumer context scope au request inputs aud")
  case (Inl err)
  then show ?thesis by (simp add: invoke_def same)
next
  case (Inr z)
  have "map_of (rg_providers rg) (cb_provider_binding_ref consumer) = Some (rp_implementation (az_resolved z))"
    using Inr by (elim authorize_InrE) (rule resolve_InrD(3))
  then have "provider_within R (rp_implementation (az_resolved z))"
    using assms by (auto simp: list_all_iff dest!: map_of_SomeD)
  moreover obtain x d s where run: "pv_invoke (rp_implementation (az_resolved z)) request (az_call z) aud w = (x, d, s)"
    by (metis prod_cases3)
  ultimately have "R (fst w) d" unfolding provider_within_def by (metis fst_conv snd_conv)
  then show ?thesis using Inr run by (simp add: invoke_def run_provider_def same)
qed

lemma run_leased_step:
  assumes "rx_env rx = e"
    and "list_all (\<lambda>(k, p). provider_within R p) (rg_providers rg)"
  shows "R (fst w) (fst (snd (run_leased rx rg clk c request t l w)))"
  unfolding run_leased_def
proof (rule then_fst; (rule then_fst)?)
  fix p w1 iv w2
  show "R (fst w2) (fst (snd (case commit_run rx clk c t l p iv (fst w2) of (r, d) \<Rightarrow> (r, (d, snd w2)))))"
    using commit_run [OF assms(1), of "fst w2" clk c t l p iv]
    by (cases "commit_run rx clk c t l p iv (fst w2)") simp
qed (simp_all add: same invoke_step [OF assms(2)])

lemma execute_step:
  fixes rg :: "('q, db \<times> 's) runtime_registry"
  assumes "rx_env rx = e" and "list_all (\<lambda>(k, p). provider_within R p) (rg_providers rg)"
  shows "R (fst w) (fst (snd (execute rx rg clk c request w)))"
  unfolding execute_def
proof (rule then_fst)
  fix t w1
  let ?run = "then_do (reading (task_usage (rx_env rx) (fst w1) (rc_team_id c) (rc_task_id c)) w1) (\<lambda>used w2.
         if over_task_budget (tw_task (rt_work t)) used (rc_usage c)
         then (Inl (CapabilityRuntimeInputError ''Team task Capability budget is exhausted''), w2)
         else
           then_do (case obtain_lease rx clk c t (fst w2) of (r, d) \<Rightarrow> (r, (d, snd w2))) (\<lambda>l w3.
           run_leased rx rg clk c request t l w3))"
  have lease: "R d (fst (snd (case obtain_lease rx clk c t d of (r, d) \<Rightarrow> (r, (d, s)))))" for d and s :: 's
    using obtain_lease [OF assms(1), of d clk c t] by (cases "obtain_lease rx clk c t d") simp
  have "R (fst w1) (fst (snd ?run))"
    by (rule then_fst) (auto simp: same lease intro!: then_fst run_leased_step assms)
  then show "R (fst w1) (fst (snd (case (tw_status (rt_work t), tw_lease (rt_work t), tw_fencing_token (rt_work t)) of
       (COMPLETED, Some _, Some fence) \<Rightarrow> reading (replay_target rx c t fence (fst w1)) w1 | _ \<Rightarrow> ?run)))"
    by (simp add: same split: task_status.split option.split)
qed (simp add: same)

end

text \<open>From a store a run produced, a client leads to another one that extends it.\<close>

definition honest :: "env \<Rightarrow> db \<Rightarrow> db \<Rightarrow> bool" where
  "honest e d d' \<longleftrightarrow> (reachable e d \<longrightarrow> reachable e d' \<and> history_le d d')"

lemma reachable_complete_task:
  assumes "reachable e d" and "complete_task e clk tr gr ar lr f iv outs aud key d = Inr (d', x)"
  shows "reachable e d'"
  using reachable.call [OF assms(1), of "CompleteTask tr gr ar lr f iv outs aud key" clk d'] assms(2)
  by (simp add: committed_def)

interpretation honest_runs: runner_relation e "honest e" for e
  by unfold_locales
     (use growing.step_claim_task growing.step_acquire_lease growing.step_complete_task in
       \<open>auto simp: honest_def growing_def intro: history_le_trans
         reachable_claim_task reachable_acquire_lease reachable_complete_task\<close>)

text \<open>
  C20: Running a task keeps the store sound. From a store that store calls produced, and with providers that
  only ever use the store through its calls, whatever the runner does for a task, and wherever it fails, it
  leaves a store that store calls produce, in which every row written before is still there. So every
  invariant of reachable stores holds after each run.
\<close>

theorem execute_stays_reachable:
  fixes rg :: "('q, db \<times> 's) runtime_registry"
  assumes "reachable (rx_env rx) (fst w)"
    and "list_all (\<lambda>(k, p). provider_within (honest (rx_env rx)) p) (rg_providers rg)"
  shows "reachable (rx_env rx) (fst (snd (execute rx rg clk c request w))) \<and>
         history_le (fst w) (fst (snd (execute rx rg clk c request w)))"
  using honest_runs.execute_step [OF refl assms(2)] assms(1) by (simp add: honest_def)

lemma sample_provider_within: "provider_within (honest sample_env) sample_provider"
  by (simp add: provider_within_def sample_provider_def honest_runs.same)

theorem execute_stays_reachable_witness:
  "reachable sample_env (fst (snd (execute sample_runtime sample_registry (\<lambda>_. sample_clock) sample_run_call
       ''request'' (sample_db1, ())))) \<and>
   history_le sample_db1 (fst (snd (execute sample_runtime sample_registry (\<lambda>_. sample_clock) sample_run_call
       ''request'' (sample_db1, ()))))"
  using execute_stays_reachable [of sample_runtime "(sample_db1, ())" sample_registry]
    sample_reachable1 sample_provider_within
  by (simp add: sample_runtime_def sample_registry_def)

section \<open>When a provider runs\<close>

lemma then_do_other:
  assumes "snd (snd m) = s" and "snd (snd (then_do m f)) \<noteq> s"
  obtains x w where "m = (Inr x, w)" and "snd w = s" and "snd (snd (f x w)) \<noteq> s"
  using assms by (cases m; cases "fst m") (auto simp: then_do_def)

lemma obtain_lease_InrD:
  assumes "obtain_lease rx clk c t d = (Inr l, d')"
  shows "tw_status (rt_work t) = READY \<or>
    tw_status (rt_work t) = ACTIVE \<and> tw_lease (rt_work t) = Some (rl_lease l) \<and>
    cd_idempotency (rt_definition t) \<noteq> NON_IDEMPOTENT \<and> d' = d"
  using assms by (auto simp: obtain_lease_def Let_def split: if_splits task_status.splits option.splits)

text \<open>
  C17: Which tasks run. When running a task changes the state its provider works on, the task was assigned
  to a current member with a grant, its budget covered the usage charged, and the runner held its lease: a
  fresh one for a READY task, or the live one of an ACTIVE task whose capability may be repeated. So an
  interrupted run of a capability that is not idempotent never reaches a provider again, and neither does a
  completed, blocked, failed or cancelled task.
\<close>

theorem execute_provider_guarded:
  fixes rg :: "('q, db \<times> 's) runtime_registry"
  shows "snd (snd (execute rx rg clk c request w)) = snd w \<or>
    (\<exists>t l used d. find_target rx rg c request (fst w) = Inr t \<and>
       task_usage (rx_env rx) (fst w) (rc_team_id c) (rc_task_id c) = Inr used \<and>
       \<not> over_task_budget (tw_task (rt_work t)) used (rc_usage c) \<and>
       obtain_lease rx clk c t (fst w) = (Inr l, d) \<and>
       (tw_status (rt_work t) = READY \<or>
        tw_status (rt_work t) = ACTIVE \<and> tw_lease (rt_work t) = Some (rl_lease l) \<and>
        cd_idempotency (rt_definition t) \<noteq> NON_IDEMPOTENT \<and> d = fst w))"
proof (rule disj_imp [THEN iffD2], rule impI)
  assume "snd (snd (execute rx rg clk c request w)) \<noteq> snd w"
  then obtain t where t: "find_target rx rg c request (fst w) = Inr t"
    and run: "snd (snd (then_do (reading (task_usage (rx_env rx) (fst w) (rc_team_id c) (rc_task_id c)) w) (\<lambda>used w2.
         if over_task_budget (tw_task (rt_work t)) used (rc_usage c)
         then (Inl (CapabilityRuntimeInputError ''Team task Capability budget is exhausted''), w2)
         else
           then_do (case obtain_lease rx clk c t (fst w2) of (r, d) \<Rightarrow> (r, (d, snd w2))) (\<lambda>l w3.
           run_leased rx rg clk c request t l w3)))) \<noteq> snd w"
    unfolding execute_def
    by (elim then_do_other [rotated]) (simp_all split: task_status.splits option.splits)
  then obtain used where used: "task_usage (rx_env rx) (fst w) (rc_team_id c) (rc_task_id c) = Inr used"
      "\<not> over_task_budget (tw_task (rt_work t)) used (rc_usage c)"
    and rest: "snd (snd (then_do (case obtain_lease rx clk c t (fst w) of (r, d) \<Rightarrow> (r, (d, snd w)))
        (\<lambda>l w3. run_leased rx rg clk c request t l w3))) \<noteq> snd w"
    by (elim then_do_other [rotated]) (auto split: if_splits)
  obtain l d where "obtain_lease rx clk c t (fst w) = (Inr l, d)"
    using rest by (cases "obtain_lease rx clk c t (fst w)"; cases "fst (obtain_lease rx clk c t (fst w))")
      (auto simp: then_do_def)
  then show "\<exists>t l used d. find_target rx rg c request (fst w) = Inr t \<and>
       task_usage (rx_env rx) (fst w) (rc_team_id c) (rc_task_id c) = Inr used \<and>
       \<not> over_task_budget (tw_task (rt_work t)) used (rc_usage c) \<and>
       obtain_lease rx clk c t (fst w) = (Inr l, d) \<and>
       (tw_status (rt_work t) = READY \<or>
        tw_status (rt_work t) = ACTIVE \<and> tw_lease (rt_work t) = Some (rl_lease l) \<and>
        cd_idempotency (rt_definition t) \<noteq> NON_IDEMPOTENT \<and> d = fst w)"
    using t used obtain_lease_InrD by blast
qed

text \<open>
  C40: A claim without a lease is never resumed. When the task to run is CLAIMED, which a run leaves behind
  that stops between claiming and leasing, running it fails and changes nothing, however often it is tried.
\<close>

theorem claimed_task_not_resumed:
  "case find_target rx rg c request (fst w) of
     Inl _ \<Rightarrow> True
   | Inr t \<Rightarrow> if tw_status (rt_work t) = CLAIMED then \<exists>err. execute rx rg clk c request w = (Inl err, w) else True"
proof (cases "find_target rx rg c request (fst w)")
  case (Inr t)
  have "obtain_lease rx clk c t (fst w) =
      (Inl (TeamTaskStateError ''Team Capability runner requires ready or resumable active work''), fst w)"
    if "tw_status (rt_work t) = CLAIMED"
    using that by (simp add: obtain_lease_def Let_def)
  then have "\<exists>err. execute rx rg clk c request w = (Inl err, w)" if "tw_status (rt_work t) = CLAIMED"
    using that Inr
    by (cases "task_usage (rx_env rx) (fst w) (rc_team_id c) (rc_task_id c)")
       (simp_all add: execute_def reading_def)
  then show ?thesis using Inr by simp
qed simp

end
