(* ===== verification/Rework_Properties.thy ===== *)
theory Rework_Properties
  imports Store_Runs Team_Coordinator
begin

text \<open>
  The two operations that replace the task graph. What a rework writes: one event per task it sends back,
  nothing else in any task's history, and a graph one revision on; also what it does to a task that was never
  attempted. And that narrowing a graph only ever shrinks what its members may do.
\<close>

section \<open>The events of a rework\<close>

text \<open>The event that sends a task back.\<close>

definition sent_back :: "team_snapshot \<Rightarrow> task_work list \<Rightarrow> string list \<Rightarrow> string \<Rightarrow> task_event \<Rightarrow> bool" where
  "sent_back succ works task_ids i ev \<longleftrightarrow>
     (\<exists>w. find_work works i = Some w \<and> reworkable works i \<and> ev_event_kind ev = RETRY_SCHEDULED \<and>
        ev_task_ref ev = task_ref_of (tw_task w) \<and>
        ev_task_event_version ev = tw_event_version w + 1 \<and> ev_attempt ev = max 1 (tw_attempt w) \<and>
        ev_graph_revision ev = gr_revision (sn_graph succ) \<and>
        ev_status_after ev = rework_status works task_ids (tw_task w))"

lemma append_task_event_history:
  assumes "append_task_event T task ev d = Inr d'"
  shows "task_history d' T' i =
           task_history d T' i @ (if T' = T \<and> i = tk_task_id task then [ev] else [])"
  using append_task_event_effect [OF assms]
  by (auto simp: task_history_def task_log_def event_row_of_def)

lemma rework_events_history:
  assumes "rework_events e clk n succ T works task_ids aud xs d = Inr d'" and "distinct xs"
    and "\<forall>i\<in>set xs. reworkable works i"
  shows "(\<forall>T' i. T' \<noteq> T \<or> i \<notin> set xs \<longrightarrow> task_history d' T' i = task_history d T' i) \<and>
         (\<forall>i\<in>set xs. \<exists>ev. task_history d' T i = task_history d T i @ [ev] \<and> sent_back succ works task_ids i ev)"
  using assms
proof (induction xs arbitrary: n d)
  case (Cons i xs)
  then obtain w ev d1 where w: "find_work works i = Some w"
    and mk: "make_event e succ (tw_task w) (tw_event_version w + 1) (tw_attempt w) RETRY_SCHEDULED
        (rework_status works task_ids (tw_task w)) aud None None None None None (clk n) = Inr ev"
    and ap: "append_task_event T (tw_task w) ev d = Inr d1"
    and rest: "rework_events e clk (Suc n) succ T works task_ids aud xs d1 = Inr d'"
    by (auto split: option.splits)
  have id: "tk_task_id (tw_task w) = i" using w by (auto simp: find_work_def dest: find_SomeD)
  have "sent_back succ works task_ids i ev"
    using w make_event_Inr [OF mk] Cons.prems(3) by (simp add: sent_back_def)
  moreover note h = append_task_event_history [OF ap, unfolded id]
  ultimately show ?case
    using Cons.IH [OF rest] Cons.prems(2,3) by (auto simp: h)
qed simp

lemma rework_fresh_effect:
  assumes "rework_fresh e clk T tr gr ar ids aud key hash d = Inr (d', succ)" and "distinct ids"
  obtains cur works where "snapshot e d T = Inr cur" and "work_items e d cur = Inr works"
    and "team_ref_of (sn_team cur) = tr" and "gr_revision (sn_graph succ) = gr_revision (sn_graph cur) + 1"
    and "\<forall>T' i. T' \<noteq> T \<or> i \<notin> set ids \<longrightarrow> task_history d' T' i = task_history d T' i"
    and "\<forall>i\<in>set ids. \<exists>ev. task_history d' T i = task_history d T i @ [ev] \<and> sent_back succ works ids i ev"
  using assms(1)
proof (rule rework_fresh_InrE)
  fix cur works d1 d3
  let ?d2 = "move_team_graph T (object_id (sn_team succ)) (object_id (sn_graph succ)) (object_id (sn_authority succ)) d1"
  assume s: "snapshot e d T = Inr cur" "work_items e d cur = Inr works" "team_ref_of (sn_team cur) = tr"
    and rev: "gr_revision (sn_graph succ) = gr_revision (sn_graph cur) + 1"
    and ids: "\<forall>i\<in>set ids. reworkable works i"
    and ins: "insert_successor T (object_id (sn_roster cur)) succ d = Inr d1"
    and evs: "rework_events e clk 2 succ T works ids aud ids ?d2 = Inr d3"
    and fin: "finish_successor e ''revise_for_rework'' succ (rework_scope T) key hash (clk 0) (clk 1) d3 = Inr d'"
  have "task_frame d ?d2" "task_frame d3 d'"
    using quiet_install [OF s(1) ins] rev quiet.step_finish_successor [OF fin] by (simp_all add: quiet_def)
  then have "task_history ?d2 = task_history d" "task_history d' = task_history d3"
    by (simp_all add: task_frame_def task_history_def task_log_def fun_eq_iff)
  then show thesis
    using rework_events_history [OF evs assms(2) ids] s rev by (intro that [of cur works]) simp_all
qed


section \<open>A task that was never attempted\<close>

lemma unattempted_log_refused:
  assumes "ev_event_kind ev = RETRY_SCHEDULED" and "0 < ev_graph_revision ev"
  shows "validate_team_task_event_log [ev] \<noteq> Inr ()"
  using assms by (simp add: validate_team_task_event_log_def)

text \<open>
  C34: Sending back a task that has no events corrupts its history. When a rework changes the store, the
  event log of every task it sent back that had no event before is one the replay validator refuses.
\<close>

theorem unattempted_rework_corrupts:
  "case revise_for_rework e clk T tr gr ar ids aud key d of
     Inl _ \<Rightarrow> True
   | Inr (d', succ) \<Rightarrow>
       d' = d \<or>
       list_all (\<lambda>i. if task_history d T i = []
           then \<exists>err. validate_team_task_event_log (task_history d' T i) = Inl err
           else True) ids"
proof (cases "revise_for_rework e clk T tr gr ar ids aud key d")
  case (Inr p)
  obtain d' succ where p: "p = (d', succ)" by (cases p)
  consider "d' = d" | hash where "rework_fresh e clk T tr gr ar (sort (remdups ids)) aud key hash d = Inr (d', succ)"
    using revise_for_rework_cases Inr p by blast
  then show ?thesis
  proof cases
    case 2
    then obtain cur works where sn: "snapshot e d T = Inr cur"
        and rev: "gr_revision (sn_graph succ) = gr_revision (sn_graph cur) + 1"
        and evs: "\<forall>i\<in>set (sort (remdups ids)). \<exists>ev. task_history d' T i = task_history d T i @ [ev] \<and>
           sent_back succ works (sort (remdups ids)) i ev"
      by (rule rework_fresh_effect) simp
    have "1 \<le> gr_revision (sn_graph cur)"
      using snapshot_graph(1) [OF sn] by (simp add: validate_graph_def in_range_def)
    then have "\<exists>err. validate_team_task_event_log (task_history d' T i) = Inl err"
      if "i \<in> set ids" "task_history d T i = []" for i
      using evs that rev unattempted_log_refused
      by (cases "validate_team_task_event_log (task_history d' T i)") (fastforce simp: sent_back_def)+
    then show ?thesis using Inr p by (auto simp: list_all_iff)
  qed (simp add: Inr p)
qed simp

section \<open>Narrowing\<close>

text \<open>The actions the evaluator allows under an authority, whichever authority they were drawn up for.\<close>

definition allowed_actions :: "autonomy_policy \<Rightarrow> execution_authority \<Rightarrow> permission_action set" where
  "allowed_actions po au = {a. fst (classify po au (a\<lparr>pa_authority_ref := authority_ref_of au\<rparr>)) = ALLOW}"

lemma allowed_actions_iff:
  "a \<in> allowed_actions po au \<longleftrightarrow>
     pa_permission_policy_ref a = policy_ref_of po \<and>
     (\<exists>g. grant_for au a = Some g \<and> grant_denials g a = {}) \<and> approval_reasons au a = {}"
  by (auto simp: allowed_actions_def classify_def Let_def grant_for_def grant_denials_empty
      approval_reasons_empty inside_budget_def split: option.splits if_splits)

lemma find_by_key: "distinct (map f xs) \<Longrightarrow> x \<in> set xs \<Longrightarrow> P x \<Longrightarrow> find (\<lambda>y. f y = f x \<and> P y) xs = Some x"
  by (induction xs) (auto simp: rev_image_eqI)

lemma grant_narrowed_denials: "grant_narrowed graph g g' \<Longrightarrow> grant_denials g' a = {} \<Longrightarrow> grant_denials g a = {}"
  by (auto simp: grant_narrowed_def grant_denials_empty)

lemma narrowing_grant:
  assumes "validate_graph_narrowing d cur succ = Inr u" and "g \<in> set (au_grants (sn_authority cur))"
  obtains g' where "find_grant (sn_authority succ) (mg_member_id g) = Some g'" and "grant_narrowed (sn_graph succ) g g'"
  using assms by (fastforce simp: validate_graph_narrowing_def Let_def list_ex_iff split: if_splits option.splits)

lemma narrowing_shape:
  assumes "validate_graph_narrowing d cur succ = Inr u"
  shows "narrowing_fixed cur succ"
    and "set (map mg_member_id (au_grants (sn_authority succ))) = set (map mg_member_id (au_grants (sn_authority cur)))"
  using assms by (auto simp: validate_graph_narrowing_def Let_def split: if_splits)

lemma narrowing_allows_less:
  assumes v: "validate_graph_narrowing d cur succ = Inr u"
    and dist: "distinct (map mg_member_id (au_grants (sn_authority cur)))"
      "distinct (map mg_member_id (au_grants (sn_authority succ)))"
  shows "allowed_actions po (sn_authority succ) \<subseteq> allowed_actions po (sn_authority cur)"
proof
  fix a
  assume "a \<in> allowed_actions po (sn_authority succ)"
  then obtain g' where pol: "pa_permission_policy_ref a = policy_ref_of po"
      and g': "grant_for (sn_authority succ) a = Some g'" "grant_denials g' a = {}"
      and ap: "approval_reasons (sn_authority succ) a = {}"
    by (auto simp: allowed_actions_iff)
  note gd = grant_forD [OF g'(1)]
  have "mg_member_id g' \<in> set (map mg_member_id (au_grants (sn_authority cur)))"
    using narrowing_shape(2) [OF v] gd by (metis imageI list.set_map)
  then obtain g where g: "g \<in> set (au_grants (sn_authority cur))" "mg_member_id g = mg_member_id g'" by auto
  obtain t where t: "find_grant (sn_authority succ) (mg_member_id g) = Some t" "grant_narrowed (sn_graph succ) g t"
    using v g(1) by (rule narrowing_grant)
  have "t = g'"
    using find_SomeD [OF t(1) [unfolded find_grant_def]] distinct_key_eq [OF dist(2)] gd g(2) by auto
  then have nar: "grant_narrowed (sn_graph succ) g g'" using t(2) by simp
  then have "grant_for (sn_authority cur) a = Some g"
    using find_by_key [OF dist(1) g(1), of "\<lambda>y. mg_principal_ref y = pa_principal_ref a"] gd g(2)
    by (simp add: grant_for_def grant_narrowed_def)
  moreover have "approval_reasons (sn_authority cur) a = {}"
    using ap narrowing_shape(1) [OF v]
    by (auto simp: approval_reasons_empty inside_budget_def narrowing_fixed_def Let_def)
  ultimately show "a \<in> allowed_actions po (sn_authority cur)"
    using pol grant_narrowed_denials [OF nar g'(2)] by (auto simp: allowed_actions_iff)
qed

lemma promote_fresh_InrE:
  assumes "promote_fresh e clk T tr gr ar succ key hash d = Inr (d', x)"
  obtains cur u where "snapshot e d T = Inr cur" and "validate_graph_narrowing d cur succ = Inr u" and "x = succ"
    and "authority_ref_of (sn_authority cur) = ar"
  using assms unfolding promote_fresh_def Let_def by (auto split: if_splits)

lemma snapshot_grants:
  "snapshot e d T = Inr sn \<Longrightarrow> distinct (map mg_member_id (au_grants (sn_authority sn)))"
  by (elim snapshot_InrE) (auto dest!: parse_bundle_InrD simp: authority_class_def validate_authority_def require_sorted_unique_iff)

text \<open>
  C19: Narrowing the task graph never widens authority. When \<open>promote_narrowed_graph\<close> changes the store and the
  successor authority is well-formed, every action the permission evaluator allows under the successor
  authority it would have allowed under the authority it replaced, under any policy.
\<close>

theorem narrowing_never_widens:
  "case promote_narrowed_graph e clk T tr gr ar succ key d of
     Inl _ \<Rightarrow> True
   | Inr (d', sn) \<Rightarrow>
       d' = d \<or>
       (\<exists>cur. snapshot e d T = Inr cur \<and> authority_ref_of (sn_authority cur) = ar \<and> sn = succ \<and>
          (if validate_authority (sn_authority succ)
           then allowed_actions po (sn_authority succ) \<subseteq> allowed_actions po (sn_authority cur) else True))"
proof (cases "promote_narrowed_graph e clk T tr gr ar succ key d")
  case (Inr p)
  obtain d' sn where p: "p = (d', sn)" by (cases p)
  consider "d' = d" | hash where "promote_fresh e clk T tr gr ar succ key hash d = Inr (d', sn)"
    using Inr p by (auto simp: promote_narrowed_graph_def Let_def split: option.splits)
  then show ?thesis
  proof cases
    case 2
    then obtain cur u where cur: "snapshot e d T = Inr cur" "validate_graph_narrowing d cur succ = Inr u"
        "sn = succ" "authority_ref_of (sn_authority cur) = ar"
      by (rule promote_fresh_InrE)
    have "allowed_actions po (sn_authority succ) \<subseteq> allowed_actions po (sn_authority cur)"
      if "validate_authority (sn_authority succ)"
      using that narrowing_allows_less [OF cur(2) snapshot_grants [OF cur(1)]]
      by (simp add: validate_authority_def require_sorted_unique_iff)
    then show ?thesis using Inr p cur by simp
  qed (simp add: Inr p)
qed simp

end
