(* ===== verification/Completion_Properties.thy ===== *)
theory Completion_Properties
  imports Rework_Properties
begin

text \<open>
  What completing a task does: the events it writes, on success and on failure with and without attempts
  left, and what it charges to the execution authority. The last part reads the Team back: the store then
  yields the successor that carries the charge.
\<close>

lemma insert_event_history:
  "insert_event T k ev d = Inr d' \<Longrightarrow>
     task_history d' T' i = task_history d T' i @ (if T' = T \<and> i = k then [ev] else [])"
  by (auto simp: insert_event_effect task_history_def task_log_def event_row_of_def)

text \<open>The event after a failed completion: another attempt, or the end of the budget.\<close>

definition after_failure :: "team_task \<Rightarrow> task_work \<Rightarrow> task_event \<Rightarrow> bool" where
  "after_failure task work ev \<longleftrightarrow>
     (if tw_attempt work < tk_max_attempts task
      then ev_event_kind ev = RETRY_SCHEDULED \<and> ev_status_after ev = READY
      else ev_event_kind ev = EXHAUSTED \<and> ev_status_after ev = FAILED \<and>
           ev_reason_code ev = Some ''ATTEMPT_EXHAUSTED'')"

definition completion_written ::
  "db \<Rightarrow> db \<Rightarrow> string \<Rightarrow> team_task \<Rightarrow> task_work \<Rightarrow> runtime_invocation \<Rightarrow> task_event \<Rightarrow> bool" where
  "completion_written d d' T task work iv completed \<longleftrightarrow>
     ev_event_kind completed = EK_COMPLETED \<and>
     ev_capability_result_ref completed = Some (result_ref_of (iv_result iv)) \<and>
     ev_attempt completed = max 1 (tw_attempt work) \<and>
     (if cr_outcome (iv_result iv) = SUCCEEDED
      then ev_status_after completed = COMPLETED \<and>
        task_history d' T (tk_task_id task) = task_history d T (tk_task_id task) @ [completed]
      else ev_status_after completed = FAILED \<and>
        (\<exists>final. after_failure task work final \<and>
           task_history d' T (tk_task_id task) = task_history d T (tk_task_id task) @ [completed, final])) \<and>
     (\<forall>T' i. if T' = T \<and> i = tk_task_id task then True else task_history d' T' i = task_history d T' i)"

lemma retry_or_exhaust_after:
  "retry_or_exhaust e sn task v (tw_attempt work) aud claim lease ex rs now = Inr ev \<Longrightarrow> after_failure task work ev"
  by (auto simp: retry_or_exhaust_def after_failure_def dest: make_event_Inr split: if_splits)

lemma complete_events_written:
  assumes "complete_events e clk sn T task work claim lease iv aud d = Inr (d', completed)"
  shows "completion_written d d' T task work iv completed"
proof -
  let ?ok = "cr_outcome (iv_result iv) = SUCCEEDED"
  obtain mk where mk: "make_event e sn task (tw_event_version work + 1) (tw_attempt work) EK_COMPLETED
        (if ?ok then COMPLETED else FAILED) aud (Some claim) (Some lease) (tw_effective_expires_at work)
        (Some (call_ref_of (iv_call iv), result_ref_of (iv_result iv)))
        (if ?ok then None else cr_failure_code (iv_result iv)) (clk 1) = Inr completed"
    using assms by (auto simp: complete_events_def Let_def split: if_splits)
  note m = make_event_Inr [OF mk]
  show ?thesis
  proof (cases ?ok)
    case True
    then have ap: "append_task_event T task completed d = Inr d'"
      using assms by (auto simp: complete_events_def Let_def)
    show ?thesis
      using m True append_task_event_history [OF ap] by (simp add: completion_written_def)
  next
    case False
    then obtain dm final where ins: "insert_event T (tk_task_id task) completed d = Inr dm"
      and re: "retry_or_exhaust e sn task (ev_task_event_version completed + 1) (tw_attempt work) aud
                    claim lease (tw_effective_expires_at work) (ev_reason_code completed) (clk 2) = Inr final"
      and ap: "append_task_event T task final dm = Inr d'"
      using assms by (auto simp: complete_events_def Let_def)
    show ?thesis
      using m False append_task_event_history [OF ap] insert_event_history [OF ins] retry_or_exhaust_after [OF re]
      by (auto simp: completion_written_def)
  qed
qed

section \<open>What is charged\<close>

definition charged :: "execution_authority \<Rightarrow> usage \<Rightarrow> execution_authority \<Rightarrow> bool" where
  "charged a u a' \<longleftrightarrow>
     au_used_model_requests a' = au_used_model_requests a + fst u \<and>
     au_used_model_tokens a' = au_used_model_tokens a + fst (snd u) \<and>
     au_used_cost_micro_usd a' = au_used_cost_micro_usd a + snd (snd u) \<and>
     au_max_model_requests a' = au_max_model_requests a \<and> au_max_model_tokens a' = au_max_model_tokens a \<and>
     au_max_cost_micro_usd a' = au_max_cost_micro_usd a \<and>
     au_used_model_requests a' \<le> au_max_model_requests a' \<and> au_used_model_tokens a' \<le> au_max_model_tokens a' \<and>
     au_used_cost_micro_usd a' \<le> au_max_cost_micro_usd a'"

lemma snapshot_authority: "snapshot e d T = Inr sn \<Longrightarrow> validate_authority (sn_authority sn)"
  by (elim snapshot_InrE) (auto dest!: parse_bundle_InrD simp: authority_class_def)

lemma advance_charges:
  assumes "advance_data_scope e sn aud u d = Inr (d', sn')" and "validate_authority (sn_authority sn)"
  shows "charged (sn_authority sn) u (sn_authority sn')"
proof -
  consider "sn' = sn" "u = (0, 0, 0)"
    | grants where "successor_authority e sn aud grants u = Inr (sn_authority sn')"
    using assms(1) unfolding advance_data_scope_def Let_def by (auto split: if_splits)
  then show ?thesis
  proof cases
    case 1
    then show ?thesis using assms(2) by (simp add: charged_def validate_authority_def)
  next
    case 2
    then show ?thesis
      by (auto simp: successor_authority_def Let_def create_authority_def authority.create_Inr_iff charged_def
          validate_authority_def)
  qed
qed

section \<open>The Team read back\<close>

definition same_team :: "db \<Rightarrow> db \<Rightarrow> bool" where
  "same_team d d' \<longleftrightarrow> team_tables d' = team_tables d"

lemma same_team_refl [simp]: "same_team d d"
  by (simp add: same_team_def)

lemma same_team_trans: "same_team a b \<Longrightarrow> same_team b c \<Longrightarrow> same_team a c"
  by (simp add: same_team_def)

lemma same_team_insert:
  "insert_task_event r8 d = Inr d' \<Longrightarrow> same_team d d'"
  "upsert_task_head r9 d = Inr d' \<Longrightarrow> same_team d d'"
  "insert_call r10 d = Inr d' \<Longrightarrow> same_team d d'"
  "insert_result r11 d = Inr d' \<Longrightarrow> same_team d d'"
  "insert_completion r12 d = Inr d' \<Longrightarrow> same_team d d'"
  "insert_usage r13 d = Inr d' \<Longrightarrow> same_team d d'"
  "insert_envelope r14 d = Inr d' \<Longrightarrow> same_team d d'"
  "insert_head r15 d = Inr d' \<Longrightarrow> same_team d d'"
  "upsert_artifact_current r16 d = Inr d' \<Longrightarrow> same_team d d'"
  "insert_outbox r20 d = Inr d' \<Longrightarrow> same_team d d'"
  "insert_idempotency r21 d = Inr d' \<Longrightarrow> same_team d d'"
  by (drule insert_shape, simp add: same_team_def team_tables_def)+

lemma same_team_operations:
  "append_outbox e sn kind ref now d = Inr (d', rec) \<Longrightarrow> same_team d d'"
  "remember scope key hash ty i now d = Inr d' \<Longrightarrow> same_team d d'"
  "append_task_event T task ev d = Inr d' \<Longrightarrow> same_team d d'"
  "insert_event T i ev d = Inr d' \<Longrightarrow> same_team d d'"
  "publish_head e sn task aud b d = Inr (d', h) \<Longrightarrow> same_team d d'"
  unfolding append_outbox_def remember_def append_task_event_def insert_event_def publish_head_def
  by (auto simp: Let_def split: prod.splits if_splits option.splits dest!: same_team_insert
      intro: same_team_trans) (meson same_team_trans)+

lemma same_team_publish_heads: "publish_heads e sn task aud bs d = Inr (d', hs) \<Longrightarrow> same_team d d'"
  by (induction bs arbitrary: d hs) (auto dest!: same_team_operations intro: same_team_trans)

lemma same_team_head_outboxes: "head_outboxes e clk n sn hs d = Inr d' \<Longrightarrow> same_team d d'"
  by (induction hs arbitrary: n d) (auto dest!: same_team_operations intro: same_team_trans)

lemma same_team_record_invocation: "record_invocation e sn T task iv outs aud d = Inr (d', hs) \<Longrightarrow> same_team d d'"
  unfolding record_invocation_def
  by (auto split: prod.splits if_splits dest!: same_team_insert same_team_publish_heads)
     (meson same_team_trans)+

lemma same_team_complete_events: "complete_events e clk sn T task work claim lease iv aud d = Inr (d', ev) \<Longrightarrow> same_team d d'"
  unfolding complete_events_def Let_def
  by (auto split: if_splits dest!: same_team_operations intro: same_team_trans)

text \<open>The rows of one authority and one Team appended at the end, and the head moved to them.\<close>

lemma find_snoc_new: "find P (xs @ [x]) = Some x" if "\<forall>y\<in>set xs. \<not> P y" "P x"
  using that by (induction xs) auto

lemma find_move: "find (\<lambda>h. th_team_id h = T) (map (\<lambda>h. if th_team_id h = T then g h else h) hs) =
    map_option g (find (\<lambda>h. th_team_id h = T) hs)" if "\<And>h. th_team_id (g h) = th_team_id h"
  using that by (induction hs) auto

lemma normalize_grant_ids [simp]:
  "mg_member_id (normalize_grant graph current g) = mg_member_id g"
  "mg_task_ids (normalize_grant graph current g) = mg_task_ids g"
  by (simp_all add: normalize_grant_def Let_def)

lemma snapshot_all_InrE:
  assumes "snapshot e d T = Inr sn"
  obtains h t r g a l where "join_head d T = Some (h, t, r, g, a)" "parse_bundle e t r g a = Inr sn"
    "validate_bundle sn = Inr ()" "latest_team d T = Some l" "tr_object_id l = th_team_id_ref h"
    "object_id (sn_team sn) = th_team_id_ref h" "tm_team_version (sn_team sn) = tr_version t"
    "object_id (sn_roster sn) = th_roster_id h" "ro_team_id (sn_roster sn) = rv_team_id r"
    "ro_revision (sn_roster sn) = rv_revision r" "object_id (sn_graph sn) = th_graph_id h"
    "gr_team_id (sn_graph sn) = rv_team_id g" "gr_revision (sn_graph sn) = rv_revision g"
  using assms unfolding snapshot_def by (auto split: option.splits prod.splits if_splits)

definition authority_row :: "execution_authority \<Rightarrow> execution_authority rev_row" where
  "authority_row authority =
     \<lparr>rv_object_id = object_id authority, rv_team_id = au_team_id authority,
      rv_revision = au_authority_version authority, rv_record = authority\<rparr>"

definition successor_row :: "team_snapshot \<Rightarrow> team \<Rightarrow> execution_authority \<Rightarrow> team_row" where
  "successor_row sn team authority =
     \<lparr>tr_object_id = object_id team, tr_team_id = tm_team_id team, tr_version = tm_team_version team,
      tr_roster_id = object_id (sn_roster sn), tr_graph_id = object_id (sn_graph sn),
      tr_authority_id = object_id authority, tr_record = team\<rparr>"

lemma row_sel [simp]:
  "rv_object_id (authority_row authority) = object_id authority" "rv_team_id (authority_row authority) = au_team_id authority"
  "rv_revision (authority_row authority) = au_authority_version authority" "rv_record (authority_row authority) = authority"
  "tr_object_id (successor_row sn team authority) = object_id team" "tr_team_id (successor_row sn team authority) = tm_team_id team"
  "tr_version (successor_row sn team authority) = tm_team_version team" "tr_record (successor_row sn team authority) = team"
  by (simp_all add: authority_row_def successor_row_def)

lemma advance_data_scope_InrE:
  assumes "advance_data_scope e sn aud u d = Inr (d', sn')"
  obtains "d' = d" "sn' = sn"
  | current authority team d1 d2 where
      "successor_authority e sn aud (map (normalize_grant (sn_graph sn) current) (au_grants (sn_authority sn))) u = Inr authority"
      "successor_team e sn aud authority = Inr team" "insert_authority (authority_row authority) d = Inr d1"
      "insert_team (successor_row sn team authority) d1 = Inr d2"
      "d' = move_team_head (tm_team_id team) (object_id team) (object_id authority) d2"
      "sn' = sn\<lparr>sn_team := team, sn_authority := authority\<rparr>"
proof -
  obtain current where c: "(let grants = map (normalize_grant (sn_graph sn) current) (au_grants (sn_authority sn))
      in if grants = au_grants (sn_authority sn) \<and> u = (0, 0, 0) then Inr (d, sn)
         else
           rbind (successor_authority e sn aud grants u) (\<lambda>authority.
           rbind (successor_team e sn aud authority) (\<lambda>team.
           rbind (insert_authority (authority_row authority) d) (\<lambda>d1.
           rbind (insert_team (successor_row sn team authority) d1) (\<lambda>d2.
           Inr (move_team_head (tm_team_id team) (object_id team) (object_id authority) d2,
                sn\<lparr>sn_team := team, sn_authority := authority\<rparr>)))))) = Inr (d', sn')"
    using assms unfolding advance_data_scope_def authority_row_def [symmetric] successor_row_def [symmetric]
    by (rule rbind_InrE)
  show thesis
  proof (cases "map (normalize_grant (sn_graph sn) current) (au_grants (sn_authority sn)) = au_grants (sn_authority sn) \<and> u = (0, 0, 0)")
    case True
    then show thesis using c that(1) by (simp add: Let_def)
  next
    case False
    then show thesis using c that(2) [of current] by (auto simp: Let_def elim!: rbind_InrE)
  qed
qed

lemma successor_team_InrD:
  assumes "successor_team e sn aud authority = Inr team"
  shows "tm_team_id team = tm_team_id (sn_team sn)" "tm_team_version team = tm_team_version (sn_team sn) + 1"
    "tm_roster_ref team = roster_ref_of (sn_roster sn)" "tm_task_graph_ref team = graph_ref_of (sn_graph sn)"
    "tm_authority_ref team = authority_ref_of authority" "tm_team_incarnation_id team = tm_team_incarnation_id (sn_team sn)"
    "tm_coordinator_member_id team = tm_coordinator_member_id (sn_team sn)" "parse_record (team_cls e) lb team = Inr team"
  using assms create_parse [OF assms [unfolded successor_team_def Let_def]]
  by (simp_all add: successor_team_def Let_def team.create_Inr_iff)

lemma successor_authority_InrD:
  assumes "successor_authority e sn aud grants u = Inr authority" and "sort_key mg_member_id grants = grants"
  shows "au_team_id authority = tm_team_id (sn_team sn)" "au_roster_ref authority = roster_ref_of (sn_roster sn)"
    "au_task_graph_ref authority = graph_ref_of (sn_graph sn)"
    "au_team_incarnation_id authority = tm_team_incarnation_id (sn_team sn)" "au_grants authority = grants"
    "parse_record (authority_cls e) lb authority = Inr authority"
  using assms create_parse [OF assms(1) [unfolded successor_authority_def create_authority_def Let_def]]
  by (simp_all add: successor_authority_def Let_def create_authority_def authority.create_Inr_iff)

lemma advance_installs:
  assumes ad: "advance_data_scope e sn aud u d = Inr (d', sn')" and sn: "snapshot e d T = Inr sn"
    and keys: "team_keys_inv d"
  shows "snapshot e d' T = Inr sn'"
  using ad
proof (cases rule: advance_data_scope_InrE)
  case 1
  then show ?thesis using sn by simp
next
  case (2 current authority team d1 d2)
  let ?grants = "map (normalize_grant (sn_graph sn) current) (au_grants (sn_authority sn))"
  have "map mg_member_id (au_grants (sn_authority sn)) = sort (map mg_member_id (au_grants (sn_authority sn)))"
    using snapshot_authority [OF sn] by (simp add: validate_authority_def require_sorted_unique_def)
  then have "sorted (map mg_member_id (au_grants (sn_authority sn)))" by (metis sorted_sort)
  then have "sorted (map mg_member_id ?grants)" by (simp add: comp_def)
  then have grants: "sort_key mg_member_id ?grants = ?grants" by (rule sort_key_id_if_sorted)
  let ?a = "authority_row authority"
  let ?t = "successor_row sn team authority"
  from sn obtain h t r g a l where j: "join_head d T = Some (h, t, r, g, a)" and pb: "parse_bundle e t r g a = Inr sn"
    and valid: "validate_bundle sn = Inr ()" and l: "latest_team d T = Some l" "tr_object_id l = th_team_id_ref h"
    and ids: "object_id (sn_team sn) = th_team_id_ref h" "tm_team_version (sn_team sn) = tr_version t"
      "object_id (sn_roster sn) = th_roster_id h" "ro_team_id (sn_roster sn) = rv_team_id r"
      "ro_revision (sn_roster sn) = rv_revision r" "object_id (sn_graph sn) = th_graph_id h"
      "gr_team_id (sn_graph sn) = rv_team_id g" "gr_revision (sn_graph sn) = rv_revision g"
    by (rule snapshot_all_InrE)
  have T: "tm_team_id (sn_team sn) = T" using sn keys by (rule snapshot_team_id)
  note join = join_head_SomeD [OF j]
  note team = successor_team_InrD [OF 2(2), unfolded T] and authority = successor_authority_InrD [OF 2(1) grants, unfolded T]
  have d1: "d1 = d\<lparr>authorities := authorities d @ [?a]\<rparr>" "\<forall>x\<in>set (authorities d). rv_object_id x \<noteq> object_id authority"
    using 2(3) by (auto simp: insert_authority_def insert_row_Inr_iff rev_clash_def)
  have d2: "d2 = d1\<lparr>teams := teams d @ [?t]\<rparr>" "\<forall>x\<in>set (teams d). tr_object_id x \<noteq> object_id team"
    using 2(4) by (auto simp: insert_team_def insert_row_Inr_iff d1(1))
  have jn: "join_head d' T = Some (h\<lparr>th_team_id_ref := object_id team, th_authority_id := object_id authority\<rparr>, ?t, r, g, ?a)"
    using join d1(2) d2(2)
    by (simp add: join_head_def 2(5) d2(1) d1(1) move_team_head_def find_move find_snoc_new find_rev_def team(1))
  have "t = l"
    using distinct_key_eq [of tr_object_id "teams d" t l] keys join l latest_by_SomeD [OF l(1) [unfolded latest_team_def]]
    by (auto simp: team_keys_inv_def dest: find_SomeD)
  then have "\<forall>x\<in>set (teams d). tr_team_id x = T \<longrightarrow> tr_version x < tr_version ?t"
    using latest_by_SomeD [OF l(1) [unfolded latest_team_def]] ids(2) team(2) by fastforce
  then have latest: "latest_team d' T = Some ?t"
    using latest_by_snoc [of "filter (\<lambda>t. tr_team_id t = T) (teams d)" tr_version ?t]
    by (simp add: latest_team_def 2(5) d2(1) d1(1) move_team_head_def team(1))
  have parsed: "parse_bundle e ?t r g ?a = Inr sn'"
    using pb by (auto simp: parse_bundle_def team(8) authority(6) 2(6))
  have "validate_bundle sn' = Inr ()"
    using valid T
    by (auto simp: validate_bundle_def Let_def 2(6) team authority comp_def list_ex_iff split: if_splits)
  then show ?thesis
    using ids by (simp add: snapshot_def jn parsed latest 2(6) team(1))
qed

section \<open>Team rows keep one identity each\<close>

definition team_keys_frame :: "db \<Rightarrow> db \<Rightarrow> bool" where
  "team_keys_frame d d' \<longleftrightarrow> (team_keys_inv d \<longrightarrow> team_keys_inv d')"

lemma team_keys_same: "teams d' = teams d \<Longrightarrow> team_keys_frame d d'"
  by (simp add: team_keys_frame_def team_keys_inv_def)

lemma team_keys_insert: "insert_team r d = Inr d' \<Longrightarrow> team_keys_frame d d'"
  by (auto simp: insert_team_def insert_row_Inr_iff team_keys_frame_def team_keys_inv_def) blast

lemma team_keys_sessions: "outbox_for_sessions e sn kind ref ss now d = Inr d' \<Longrightarrow> team_keys_frame d d'"
  by (intro team_keys_same)
     (auto simp: outbox_for_sessions_def replace_outbox_def elim!: append_outbox_effect split: if_splits)

lemma team_keys_install: "insert_successor T ro succ d = Inr d1 \<Longrightarrow> team_keys_frame d (move_team_graph T i g j d1)"
  unfolding insert_successor_def
  by (auto simp: insert_team_def insert_graph_def insert_authority_def insert_row_Inr_iff move_team_graph_def
      team_keys_frame_def team_keys_inv_def) blast

interpretation team_keys: growth_relation e team_keys_frame for e
  by unfold_locales
     ((simp add: team_keys_frame_def; fail)
      | (rule team_keys_insert team_keys_sessions team_keys_install, assumption)
      | (drule insert_shape, rule team_keys_same, simp; fail)
      | (drule insert_delivery_shape, auto intro: team_keys_same; fail)
      | (rule team_keys_same, simp add: move_team_head_def move_subscription_current_def)
      | (erule append_outbox_effect, rule team_keys_same, simp))+

lemma run_team_keys: "team_keys_inv (run_calls e cs empty_db)"
  using team_keys.step_run [of empty_db e cs] by (simp add: team_keys_frame_def team_keys_inv_def empty_db_def)

section \<open>Completing a task\<close>

lemma complete_task_InrE:
  assumes "complete_task e clk tr gr ar lr f iv outs aud key d = Inr (d', tc)"
  obtains T k hash seen where "d' = d" "replay d (complete_scope T k) key hash = Inr (Some seen)"
  | T k l hash where "complete_fresh e clk T k tr gr ar l f iv outs aud key hash d = Inr (d', tc)"
  using assms by (auto simp: complete_task_def Let_def split: option.splits if_splits)

lemma complete_fresh_snapshot:
  assumes "complete_fresh e clk T k tr gr ar lease f iv outs aud key hash d = Inr (d', tc)" and "team_keys_inv d"
  shows "snapshot e d' T = Inr (tc_snapshot tc)"
proof -
  from assms(1) obtain sn task work claim held d1 heads d2 completed d3 next_sn d4 d5 d6 rec where
    1: "require_refs e d T tr gr ar = Inr sn"
    and 2: "record_invocation e sn T task iv outs aud d = Inr (d1, heads)"
      "complete_events e clk sn T task work claim held iv aud d1 = Inr (d2, completed)"
    and ad: "advance_data_scope e sn aud (usage_deltas iv) d2 = Inr (d3, next_sn)"
    and 3: "insert_completion
              \<lparr>co_result_id = object_id (iv_result iv), co_team_id = T,
               co_event_id = object_id completed, co_team_object_id = object_id (sn_team next_sn),
               co_artifact_head_ids = map object_id heads\<rparr> d3 = Inr d4"
      "head_outboxes e clk 5 next_sn heads d4 = Inr d5"
      "append_outbox e next_sn TEAM_CHANGED (team_ref_of (sn_team next_sn)) (clk 3) d5 = Inr (d6, rec)"
      "remember (complete_scope T k) key hash ''RESULT'' (object_id (iv_result iv)) (clk 4) d6 = Inr d'"
    and tc: "tc_snapshot tc = next_sn"
    unfolding complete_fresh_def by (auto split: option.splits)
  have same: "same_team d d2" "same_team d3 d'"
    using same_team_record_invocation [OF 2(1)] same_team_complete_events [OF 2(2)] same_team_insert(5) [OF 3(1)]
      same_team_head_outboxes [OF 3(2)] same_team_operations(1) [OF 3(3)] same_team_operations(2) [OF 3(4)]
    by (meson same_team_trans)+
  have "snapshot e d T = Inr sn" using 1 by (auto simp: require_refs_def split: if_splits)
  then have "snapshot e d2 T = Inr sn"
    using snapshot_same_tables(1) [OF same(1) [unfolded same_team_def], of e T] by simp
  moreover have "team_keys_inv d2"
    using same(1) assms(2) by (simp add: same_team_def team_tables_def team_keys_inv_def)
  ultimately have "snapshot e d3 T = Inr next_sn" by (rule advance_installs [OF ad])
  then show ?thesis
    using snapshot_same_tables(1) [OF same(2) [unfolded same_team_def], of e T] tc by simp
qed

text \<open>
  C3: What completing a task does, in every store a run of calls produces. A completion under a key that was
  answered before commits nothing. Any other that succeeds was called for the current Team, in which the task
  was ACTIVE under the given fence. Exactly one task's history grows, by the completion event naming the
  capability result: on success the task is COMPLETED; on failure a second event follows, which makes the
  task READY again while attempts are left and leaves it FAILED as exhausted when none is. The Team then read
  from the store is the returned one, and its authority has been charged exactly the usage of the invocation,
  with its budgets unchanged and not exceeded.
\<close>

theorem complete_task_effect:
  "case complete_task e clk tr gr ar lr f iv outs aud key (run_calls e cs empty_db) of
     Inl _ \<Rightarrow> True
   | Inr (d', tc) \<Rightarrow>
       (d' = run_calls e cs empty_db \<and>
          (\<exists>T i hash seen. replay d' (complete_scope T i) key hash = Inr (Some seen))) \<or>
       (\<exists>T sn task work. snapshot e (run_calls e cs empty_db) T = Inr sn \<and> team_ref_of (sn_team sn) = tr \<and>
          task \<in> set (gr_tasks (sn_graph sn)) \<and> work_one e (run_calls e cs empty_db) sn (tk_task_id task) = Inr work \<and>
          tw_status work = ACTIVE \<and> tw_fencing_token work = Some f \<and>
          completion_written (run_calls e cs empty_db) d' T task work iv (tc_event tc) \<and>
          snapshot e d' T = Inr (tc_snapshot tc) \<and>
          charged (sn_authority sn) (usage_deltas iv) (sn_authority (tc_snapshot tc)))"
proof (cases "complete_task e clk tr gr ar lr f iv outs aud key (run_calls e cs empty_db)")
  case (Inr p)
  obtain d' tc where p: "p = (d', tc)" by (cases p)
  define d where "d = run_calls e cs empty_db"
  note call = Inr [unfolded p, folded d_def]
  have keys: "team_keys_inv d" unfolding d_def by (rule run_team_keys)
  show ?thesis
    using call
  proof (cases rule: complete_task_InrE)
    case (1 T k hash seen)
    then have "\<exists>T i hash seen. replay d' (complete_scope T i) key hash = Inr (Some seen)" by blast
    then show ?thesis using call 1(1) by (simp add: d_def)
  next
    case (2 T k l hash)
    then obtain sn task work claim d1 heads d2 completed d3 next_sn where
      sn: "snapshot e d T = Inr sn" "team_ref_of (sn_team sn) = tr" and
      al: "active_lease e d T k l f False False False (clk 0) = Inr (sn, task, work)" and
      ri: "record_invocation e sn T task iv outs aud d = Inr (d1, heads)" and
      ce: "complete_events e clk sn T task work claim l iv aud d1 = Inr (d2, completed)" and
      ad: "advance_data_scope e sn aud (usage_deltas iv) d2 = Inr (d3, next_sn)" and q: "quiet d3 d'" and
      tc: "tc = \<lparr>tc_result = iv_result iv, tc_event = completed, tc_artifact_heads = heads, tc_snapshot = next_sn\<rparr>"
      by (rule complete_fresh_InrE)
    note a = active_lease_InrE(1-6) [OF al]
    have "task_frame d d1" "task_frame d2 d'"
      using quiet.step_record_invocation [OF ri] quiet_trans [OF quiet.step_advance_data_scope [OF ad] q]
      by (simp_all add: quiet_def)
    then have h: "task_history d1 = task_history d" "task_history d' = task_history d2"
      by (simp_all add: task_frame_def task_history_def task_log_def fun_eq_iff)
    have "completion_written d d' T task work iv completed"
      using complete_events_written [OF ce] unfolding completion_written_def h .
    moreover have "charged (sn_authority sn) (usage_deltas iv) (sn_authority next_sn)"
      using ad snapshot_authority [OF sn(1)] by (rule advance_charges)
    moreover have "snapshot e d' T = Inr next_sn" using complete_fresh_snapshot [OF 2 keys] tc by simp
    ultimately show ?thesis
      using call sn a task_by_idD [OF a(2)] tc by (auto simp: d_def)
  qed
qed simp

end
