(* ===== verification/Progress_Properties.thy ===== *)
theory Progress_Properties
  imports Store_Runs Sample_Steps
begin

text \<open>
  Progress of a Team: its work never deadlocks, and its tasks are not attempted for ever.
\<close>

section \<open>No deadlock\<close>

text \<open>A task that finished without events: the coordinator's own, finished in the graph it was declared in.\<close>

definition declared_finished :: "task_work \<Rightarrow> bool" where
  "declared_finished w \<longleftrightarrow> tw_status w = COMPLETED \<and> tw_latest_event w = None"

definition needs_attention :: "task_work \<Rightarrow> bool" where
  "needs_attention w \<longleftrightarrow> tw_status w \<in> {READY, CLAIMED, ACTIVE, BLOCKED, FAILED, CANCELLED}"

lemma completed_event:
  "validate_task_event ev \<Longrightarrow> ev_status_after ev = COMPLETED \<Longrightarrow>
     ev_event_kind ev = EK_COMPLETED \<and> ev_capability_result_ref ev \<noteq> None"
  by (cases "ev_event_kind ev") (auto simp: validate_task_event_def)

lemma stored_completed:
  assumes "stored_work e d sn task = Inr w" and "tw_status w = COMPLETED" and "tw_latest_event w \<noteq> None"
  shows "successfully_completed w"
  using assms(1)
proof (cases rule: stored_work_InrE)
  case eventless
  then show ?thesis using assms(3) by (simp add: eventless_work_def)
next
  case (event h l ev claim lease)
  then have "validate_task_event ev"
    by (auto simp: load_event_def event_class_def dest: load_InrD)
  then show ?thesis
    using event(6) assms(2) completed_event by (simp add: successfully_completed_def)
qed

lemma stored_task: "stored_work e d sn task = Inr w \<Longrightarrow> tw_task w = task"
  by (erule stored_work_InrE) simp_all

text \<open>A list of work items in which every dependency of a pending one is stuck.\<close>

lemma minimal_pending:
  assumes g: "validate_graph dgt g" and ws: "map tw_task ws = gr_tasks g" and "\<exists>w\<in>set ws. tw_status w = PENDING"
  obtains w where "w \<in> set ws" and "tw_status w = PENDING"
    and "\<And>i. i \<in> set (tk_dependency_task_ids (tw_task w)) \<Longrightarrow>
           \<exists>x\<in>set ws. tk_task_id (tw_task x) = i \<and> tw_status x \<noteq> PENDING"
proof -
  let ?tasks = "gr_tasks g" and ?Q = "{tk_task_id (tw_task w) | w. w \<in> set ws \<and> tw_status w = PENDING}"
  have known: "deps_known ?tasks" by (rule validate_graph_deps_known [OF g])
  have dist: "distinct (map tk_task_id ?tasks)" by (rule graph_tasks_distinct [OF g])
  have "acyclic (dep_edges ?tasks)"
    using visits_all_acyclic [OF dist] require_acyclic_visited [OF dist] g by (simp add: validate_graph_def)
  then have wf: "wf (dep_edges ?tasks)" by (rule finite_acyclic_wf [OF finite_dep_edges])
  obtain q where "q \<in> ?Q" using assms(3) by blast
  then obtain c where c: "c \<in> ?Q" and min: "\<And>i. (i, c) \<in> dep_edges ?tasks \<Longrightarrow> i \<notin> ?Q"
    using wfE_min [OF wf, of q ?Q] by blast
  from c obtain w where w: "w \<in> set ws" "tw_status w = PENDING" "c = tk_task_id (tw_task w)" by blast
  have tw: "tw_task w \<in> set ?tasks" using w(1) ws by (metis image_eqI list.set_map)
  show thesis
  proof (rule that [OF w(1,2)])
    fix i
    assume i: "i \<in> set (tk_dependency_task_ids (tw_task w))"
    then have "(i, c) \<in> dep_edges ?tasks" using tw w(3) by (auto simp: dep_edges_def)
    then have "i \<notin> ?Q" by (rule min)
    moreover have "i \<in> tk_task_id ` set ?tasks" using known tw i by (auto simp: deps_known_def list_all_iff)
    then have "\<exists>x\<in>set ws. tk_task_id (tw_task x) = i" unfolding ws [symmetric] by auto
    ultimately show "\<exists>x\<in>set ws. tk_task_id (tw_task x) = i \<and> tw_status x \<noteq> PENDING" by blast
  qed
qed

lemma work_not_stuck:
  assumes "list_task_work e d T = Inr works" and "\<forall>w\<in>set works. \<not> needs_attention w \<and> \<not> declared_finished w"
    and "w \<in> set works"
  shows "tw_status w = COMPLETED"
proof (rule ccontr)
  assume other: "tw_status w \<noteq> COMPLETED"
  obtain sn vs where sn: "snapshot e d T = Inr sn" and vs: "rmap (stored_work e d sn) (gr_tasks (sn_graph sn)) = Inr vs"
    and works: "works = map (\<lambda>v. v\<lparr>tw_status := ready_status vs v\<rparr>) vs"
    using assms(1) by (auto simp: list_task_work_def work_items_def)
  have two: "tw_status v \<in> {PENDING, COMPLETED}" if "v \<in> set works" for v
    using assms(2) that by (cases "tw_status v") (auto simp: needs_attention_def)
  have tasks: "map tw_task works = gr_tasks (sn_graph sn)"
    using vs by (auto simp: works rmap_Inr_iff list_all2_conv_all_nth stored_task intro!: nth_equalityI)
  obtain p where p: "p \<in> set works" "tw_status p = PENDING"
    and deps: "\<And>i. i \<in> set (tk_dependency_task_ids (tw_task p)) \<Longrightarrow>
           \<exists>x\<in>set works. tk_task_id (tw_task x) = i \<and> tw_status x \<noteq> PENDING"
    using minimal_pending [OF snapshot_graph(1) [OF sn] tasks] two [OF assms(3)] other assms(3) by blast
  obtain v where v: "v \<in> set vs" "p = v\<lparr>tw_status := ready_status vs v\<rparr>" using p(1) works by auto
  have "list_ex (\<lambda>x. tk_task_id (tw_task x) = i \<and> successfully_completed x) vs"
    if "i \<in> set (tk_dependency_task_ids (tw_task v))" for i
  proof -
    have "i \<in> set (tk_dependency_task_ids (tw_task p))" using that by (simp add: v(2))
    from deps [OF this] obtain x where x: "x \<in> set works" "tk_task_id (tw_task x) = i" "tw_status x \<noteq> PENDING"
      by blast
    then obtain y where y: "y \<in> set vs" "x = y\<lparr>tw_status := ready_status vs y\<rparr>" using works by auto
    have "tw_status x = COMPLETED" using two [OF x(1)] x(3) by simp
    then have "tw_status y = COMPLETED" using y(2) by (simp add: ready_status_def split: if_splits)
    moreover have "tw_latest_event y \<noteq> None"
      using assms(2) x(1) \<open>tw_status x = COMPLETED\<close> y(2) by (auto simp: declared_finished_def)
    ultimately have "successfully_completed y"
      using rmap_in [OF vs y(1)] stored_completed by blast
    then show ?thesis using y x(2) by (auto simp: list_ex_iff)
  qed
  then have "list_all (\<lambda>i. list_ex (\<lambda>x. tk_task_id (tw_task x) = i \<and> successfully_completed x) vs)
      (tk_dependency_task_ids (tw_task v))"
    by (simp add: list_all_iff)
  then have "ready_status vs v \<noteq> PENDING" by (simp add: ready_status_def)
  then show False using p(2) v(2) by simp
qed

text \<open>
  C16: A Team never deadlocks. Whenever the work of a Team can be listed, either some task is ready, claimed
  or active, or some task is blocked, failed or cancelled, or every task is completed; the one exception is a
  Team with a coordinator task that its graph declares completed and that has no completion event, whose
  dependents stay pending.
\<close>

theorem team_never_deadlocks:
  "case list_task_work e d team_id of
     Inl _ \<Rightarrow> True
   | Inr works \<Rightarrow>
       list_ex needs_attention works \<or> list_all (\<lambda>w. tw_status w = COMPLETED) works \<or>
       list_ex declared_finished works"
proof (cases "list_task_work e d team_id")
  case (Inr works)
  then show ?thesis using work_not_stuck [OF Inr] by (auto simp: list_ex_iff list_all_iff)
qed simp

section \<open>Bounded work\<close>

definition count_kinds :: "task_event_kind set \<Rightarrow> task_event list \<Rightarrow> nat" where
  "count_kinds ks evs = length (filter (\<lambda>ev. ev_event_kind ev \<in> ks) evs)"

abbreviation attempt_endings :: "task_event_kind set" where
  "attempt_endings \<equiv> {EXPIRED, EK_CANCELLED, EK_COMPLETED}"

lemma count_kinds_simps [simp]:
  "count_kinds ks [] = 0"
  "count_kinds ks (evs @ [ev]) = count_kinds ks evs + (if ev_event_kind ev \<in> ks then 1 else 0)"
  by (simp_all add: count_kinds_def)

text \<open>Each stage of an attempt is entered at most as often as the one before it.\<close>

definition stages_ok :: "task_status \<Rightarrow> task_event list \<Rightarrow> bool" where
  "stages_ok s evs \<longleftrightarrow>
     count_kinds {LEASE_ACQUIRED} evs + (if s = CLAIMED then 1 else 0) \<le> count_kinds {EK_CLAIMED} evs \<and>
     count_kinds attempt_endings evs + (if s = ACTIVE then 1 else 0) \<le> count_kinds {LEASE_ACQUIRED} evs \<and>
     count_kinds {RETRY_SCHEDULED} evs + (if s \<in> {BLOCKED, COMPLETED, FAILED, CANCELLED} then 1 else 0)
       \<le> count_kinds attempt_endings evs"

fun reached_by :: "task_event_kind \<Rightarrow> task_status set" where
  "reached_by EK_CLAIMED = {CLAIMED}"
| "reached_by LEASE_ACQUIRED = {ACTIVE}"
| "reached_by HEARTBEAT = {ACTIVE}"
| "reached_by CANCEL_REQUESTED = {ACTIVE}"
| "reached_by EXPIRED = {BLOCKED}"
| "reached_by RETRY_SCHEDULED = {PENDING, READY}"
| "reached_by EK_CANCELLED = {CANCELLED}"
| "reached_by EK_COMPLETED = {COMPLETED, FAILED}"
| "reached_by EXHAUSTED = {FAILED}"

lemma event_reaches: "validate_task_event ev \<Longrightarrow> ev_status_after ev \<in> reached_by (ev_event_kind ev)"
  by (cases "ev_event_kind ev") (simp_all add: validate_task_event_def)

definition leaves :: "task_event_kind \<Rightarrow> task_status set" where
  "leaves k = (if k = RETRY_SCHEDULED then {BLOCKED, COMPLETED, FAILED, CANCELLED} else allowed_from k)"

lemma step_leaves: "lifecycle_step c k (s', g') \<Longrightarrow> fst c \<in> leaves k"
  by (cases c) (auto simp: lifecycle_step_char leaves_def split: if_splits)

lemma stages_step:
  assumes "stages_ok s evs" and "s \<in> leaves (ev_event_kind ev)" and "ev_status_after ev \<in> reached_by (ev_event_kind ev)"
  shows "stages_ok (ev_status_after ev) (evs @ [ev])"
  using assms by (cases "ev_event_kind ev") (auto simp: stages_ok_def leaves_def)

lemma log_stages: "log_ok evs \<Longrightarrow> list_all validate_task_event evs \<Longrightarrow> stages_ok (fst (log_cursor evs)) evs"
proof (induction evs rule: rev_induct)
  case (snoc ev evs)
  then show ?case
    using stages_step [of "fst (log_cursor evs)" evs ev] event_reaches by (auto simp: log_ok_snoc dest: step_leaves)
qed (simp add: stages_ok_def)

lemma claims_bounded:
  assumes "attempts_from 0 evs" and "list_all validate_task_event evs"
  shows "count_kinds {EK_CLAIMED} evs \<le> 100"
proof (cases evs rule: rev_cases)
  case (snoc evs' ev)
  then have "ev_attempt ev = claims_in evs" "validate_task_event ev"
    using assms by (simp_all add: attempts_from_snoc)
  then show ?thesis by (simp add: validate_task_event_def in_range_def claims_in_def count_kinds_def)
qed simp

text \<open>
  C32: The work on a task ends. In every reachable store a task has been claimed at most 100 times, leased at
  most once per claim, ended (completed, cancelled or expired) at most once per lease, and sent back at most
  once per ending. So apart from heartbeats, cancellation requests and exhaustion notices no task has more
  than 400 events, however often it is retried or reworked.
\<close>

theorem task_work_ends:
  assumes "reachable e d"
  shows "count_kinds {RETRY_SCHEDULED} (task_history d team_id task_id)
           \<le> count_kinds {EXPIRED, EK_CANCELLED, EK_COMPLETED} (task_history d team_id task_id) \<and>
         count_kinds {EXPIRED, EK_CANCELLED, EK_COMPLETED} (task_history d team_id task_id)
           \<le> count_kinds {LEASE_ACQUIRED} (task_history d team_id task_id) \<and>
         count_kinds {LEASE_ACQUIRED} (task_history d team_id task_id)
           \<le> count_kinds {EK_CLAIMED} (task_history d team_id task_id) \<and>
         count_kinds {EK_CLAIMED} (task_history d team_id task_id) \<le> 100"
proof -
  let ?H = "task_history d team_id task_id"
  have inv: "log_inv d" using reachable_task_inv [OF assms] by (simp add: task_inv_def)
  then have v: "list_all validate_task_event ?H"
    using task_log_sub [of d team_id task_id] by (auto simp: log_inv_def list_all_iff task_history_def event_row_ok_def)
  have "stages_ok (fst (log_cursor ?H)) ?H" using inv v by (intro log_stages) (auto simp: log_inv_def)
  moreover have "count_kinds {EK_CLAIMED} ?H \<le> 100"
    using inv by (intro claims_bounded v) (auto simp: log_inv_def)
  ultimately show ?thesis by (simp add: stages_ok_def)
qed

theorem task_work_ends_witness:
  "count_kinds {EK_CLAIMED} (task_history sample_db3 ''team'' ''task-a'') = 1 \<and>
   count_kinds {LEASE_ACQUIRED} (task_history sample_db3 ''team'' ''task-a'') \<le> 1"
proof -
  have "task_history sample_db3 ''team'' ''task-a'' = [sample_event1, sample_event2]"
    by (simp add: task_history_def task_log_def sample_db3_def)
  then have "count_kinds {EK_CLAIMED} (task_history sample_db3 ''team'' ''task-a'') = 1"
    by (simp add: count_kinds_def sample_event1_def sample_event2_def sample_task_event_def)
  then show ?thesis using task_work_ends [OF sample_reachable3, of "''team''" "''task-a''"] by simp
qed

section \<open>Work items are well-typed\<close>










end
