(* ===== verification/Store_Rebuild.thy ===== *)
theory Store_Rebuild
  imports Store_Rework
begin

text \<open>
  Auditing and repairing the store, from \<open>team/_store_projection.py\<close>: the audit replays every
  immutable table and checks its lineage, the seven current-head caches are recomputed from the
  histories and either compared with what is stored or written again, and leases that ran out are
  expired after a successful audit. A Python dictionary filled while scanning is a map that is
  passed along.
\<close>

section \<open>Auditing the immutable tables\<close>

fun note_ids ::
  "string \<Rightarrow> (object_ref \<times> string) list \<Rightarrow> (object_ref \<rightharpoonup> string) \<Rightarrow> (object_ref \<rightharpoonup> string) result" where
  "note_ids message [] ids = Inr ids"
| "note_ids message ((r, i) # rest) ids =
     (if ids r \<noteq> None \<and> ids r \<noteq> Some i then Inl (TeamIntegrityError message)
      else note_ids message rest (ids(r \<mapsto> i)))"

definition rev_ordered :: "'r rev_row list \<Rightarrow> 'r rev_row list" where
  "rev_ordered rows = sort_key (\<lambda>r. (rv_team_id r, rv_revision r)) rows"

fun check_graphs ::
  "env \<Rightarrow> (string \<rightharpoonup> team_task_graph) \<Rightarrow> team_task_graph rev_row list \<Rightarrow> (object_ref \<rightharpoonup> string) \<Rightarrow>
   (object_ref \<rightharpoonup> string) result" where
  "check_graphs e prior [] ids = Inr ids"
| "check_graphs e prior (row # rows) ids =
     rbind (parse_record (graph_cls e) ''Team graph'' (rv_record row)) (\<lambda>graph.
     if object_id graph \<noteq> rv_object_id row \<or> gr_team_id graph \<noteq> rv_team_id row \<or>
        gr_revision graph \<noteq> rv_revision row \<or>
        gr_revision graph \<noteq> (case prior (gr_team_id graph) of None \<Rightarrow> 1 | Some p \<Rightarrow> gr_revision p + 1) \<or>
        gr_predecessor_graph_ref graph \<noteq> map_option graph_ref_of (prior (gr_team_id graph))
     then Inl (TeamIntegrityError ''Team graph history drifted'')
     else
       rbind (note_ids ''Team task identity drifted'' (map (\<lambda>t. (task_ref_of t, tk_task_id t)) (gr_tasks graph))
                ids) (\<lambda>ids'.
       check_graphs e (prior(gr_team_id graph \<mapsto> graph)) rows ids'))"

fun check_rosters ::
  "env \<Rightarrow> (string \<rightharpoonup> team_roster) \<Rightarrow> team_roster rev_row list \<Rightarrow> (object_ref \<rightharpoonup> string) \<Rightarrow>
   (object_ref \<rightharpoonup> string) result" where
  "check_rosters e prior [] ids = Inr ids"
| "check_rosters e prior (row # rows) ids =
     rbind (parse_record (roster_cls e) ''Team roster'' (rv_record row)) (\<lambda>roster.
     if object_id roster \<noteq> rv_object_id row \<or> ro_team_id roster \<noteq> rv_team_id row \<or>
        ro_revision roster \<noteq> rv_revision row \<or>
        ro_revision roster \<noteq> (case prior (ro_team_id roster) of None \<Rightarrow> 1 | Some p \<Rightarrow> ro_revision p + 1) \<or>
        ro_predecessor_roster_ref roster \<noteq> map_option roster_ref_of (prior (ro_team_id roster))
     then Inl (TeamIntegrityError ''Team roster history drifted'')
     else
       rbind (note_ids ''Team member identity drifted''
                (map (\<lambda>m. (member_ref_of m, mb_member_id m)) (ro_members roster)) ids) (\<lambda>ids'.
       check_rosters e (prior(ro_team_id roster \<mapsto> roster)) rows ids'))"

fun check_authorities ::
  "env \<Rightarrow> (string \<rightharpoonup> execution_authority) \<Rightarrow> execution_authority rev_row list \<Rightarrow> unit result" where
  "check_authorities e prior [] = Inr ()"
| "check_authorities e prior (row # rows) =
     rbind (parse_record (authority_cls e) ''execution authority'' (rv_record row)) (\<lambda>authority.
     if object_id authority \<noteq> rv_object_id row \<or> au_team_id authority \<noteq> rv_team_id row \<or>
        au_authority_version authority \<noteq> rv_revision row \<or>
        au_authority_version authority \<noteq>
          (case prior (au_team_id authority) of None \<Rightarrow> 1 | Some p \<Rightarrow> au_authority_version p + 1) \<or>
        au_predecessor_authority_ref authority \<noteq> map_option authority_ref_of (prior (au_team_id authority))
     then Inl (TeamIntegrityError ''execution authority history drifted'')
     else check_authorities e (prior(au_team_id authority \<mapsto> authority)) rows)"

definition expected_count :: "('k \<rightharpoonup> int) \<Rightarrow> 'k \<Rightarrow> int" where
  "expected_count m k = (case m k of None \<Rightarrow> 1 | Some n \<Rightarrow> n)"

fun check_teams :: "env \<Rightarrow> db \<Rightarrow> (string \<rightharpoonup> int) \<Rightarrow> team_row list \<Rightarrow> unit result" where
  "check_teams e d versions [] = Inr ()"
| "check_teams e d versions (row # rows) =
     rbind (parse_record (team_cls e) ''Team'' (tr_record row)) (\<lambda>team.
     if object_id team \<noteq> tr_object_id row \<or> tm_team_id team \<noteq> tr_team_id row \<or>
        tm_team_version team \<noteq> tr_version row \<or>
        tm_team_version team \<noteq> expected_count versions (tm_team_id team)
     then Inl (TeamIntegrityError ''Team history drifted'')
     else
       rbind (snapshot_at e d (team_ref_of team)) (\<lambda>_.
       check_teams e d (versions(tm_team_id team \<mapsto> expected_count versions (tm_team_id team) + 1)) rows))"

definition team_id_for_ref :: "env \<Rightarrow> db \<Rightarrow> object_ref \<Rightarrow> string result" where
  "team_id_for_ref e d reference = rbind (snapshot_at e d reference) (\<lambda>sn. Inr (tm_team_id (sn_team sn)))"

type_synonym attempt_scope = "string \<times> string \<times> int"

fun check_claims ::
  "env \<Rightarrow> db \<Rightarrow> (object_ref \<rightharpoonup> string) \<Rightarrow> (object_ref \<rightharpoonup> string) \<Rightarrow> claim_row list \<Rightarrow> (object_ref \<rightharpoonup> attempt_scope) \<Rightarrow>
   (object_ref \<rightharpoonup> attempt_scope) result" where
  "check_claims e d tasks members [] claims = Inr claims"
| "check_claims e d tasks members (row # rows) claims =
     rbind (parse_record (claim_cls e) ''task claim'' (kr_record row)) (\<lambda>claim.
     if object_id claim \<noteq> kr_object_id row then Inl (TeamIntegrityError ''task claim history drifted'')
     else
       rbind (team_id_for_ref e d (cl_team_ref claim)) (\<lambda>team_id.
       if team_id \<noteq> kr_team_id row \<or> tasks (cl_task_ref claim) \<noteq> Some (kr_task_id row) \<or>
          members (cl_member_ref claim) = None
       then Inl (TeamIntegrityError ''task claim history drifted'')
       else check_claims e d tasks members rows
              (claims(claim_ref_of claim \<mapsto> (kr_team_id row, kr_task_id row, kr_attempt row)))))"

fun check_leases ::
  "env \<Rightarrow> (object_ref \<rightharpoonup> attempt_scope) \<Rightarrow> lease_row list \<Rightarrow> (object_ref \<rightharpoonup> int) \<Rightarrow> (object_ref \<rightharpoonup> int) result" where
  "check_leases e claims [] leases = Inr leases"
| "check_leases e claims (row # rows) leases =
     rbind (parse_record (lease_cls e) ''task lease'' (lr_record row)) (\<lambda>lease.
     if object_id lease \<noteq> lr_object_id row \<or> le_fencing_token lease \<noteq> lr_fence row \<or>
        claims (le_claim_ref lease) \<noteq> Some (lr_team_id row, lr_task_id row, lr_attempt row)
     then Inl (TeamIntegrityError ''task lease history drifted'')
     else check_leases e claims rows (leases(lease_ref_of lease \<mapsto> lr_attempt row)))"

definition attempt_agrees :: "(object_ref \<rightharpoonup> int) \<Rightarrow> object_ref option \<Rightarrow> int \<Rightarrow> bool" where
  "attempt_agrees attempts reference attempt \<longleftrightarrow>
     (case reference of None \<Rightarrow> True | Some r \<Rightarrow> attempts r = Some attempt)"

fun check_events ::
  "env \<Rightarrow> db \<Rightarrow> (object_ref \<rightharpoonup> string) \<Rightarrow> (object_ref \<rightharpoonup> int) \<Rightarrow> (object_ref \<rightharpoonup> int) \<Rightarrow> event_row list \<Rightarrow>
   unit result" where
  "check_events e d tasks claims leases [] = Inr ()"
| "check_events e d tasks claims leases (row # rows) =
     rbind (parse_record (event_cls e) ''task event'' (er_record row)) (\<lambda>event.
     if object_id event \<noteq> er_object_id row \<or> ev_task_event_version event \<noteq> er_version row \<or>
        ev_graph_revision event \<noteq> er_graph_revision row \<or> ev_event_kind event \<noteq> er_kind row \<or>
        tasks (ev_task_ref event) \<noteq> Some (er_task_id row)
     then Inl (TeamIntegrityError ''task event history drifted'')
     else
       rbind (team_id_for_ref e d (ev_team_ref event)) (\<lambda>team_id.
       if team_id \<noteq> er_team_id row \<or> \<not> attempt_agrees claims (ev_claim_ref event) (ev_attempt event) \<or>
          \<not> attempt_agrees leases (ev_lease_ref event) (ev_attempt event)
       then Inl (TeamIntegrityError ''task event history drifted'')
       else check_events e d tasks claims leases rows))"

definition ordered_events :: "db \<Rightarrow> event_row list" where
  "ordered_events d = sort_key (\<lambda>r. (er_team_id r, er_task_id r, er_version r)) (task_events d)"

definition event_keys :: "db \<Rightarrow> (string \<times> string) list" where
  "event_keys d = remdups (map (\<lambda>r. (er_team_id r, er_task_id r)) (ordered_events d))"

definition event_log_of :: "db \<Rightarrow> string \<times> string \<Rightarrow> task_event list" where
  "event_log_of d key = map er_record (filter (\<lambda>r. (er_team_id r, er_task_id r) = key) (ordered_events d))"

definition check_event_logs :: "db \<Rightarrow> unit result" where
  "check_event_logs d =
     guard (list_all (\<lambda>key. validate_team_task_event_log (event_log_of d key) = Inr ()) (event_keys d))
       (TeamIntegrityError ''task event history is invalid'')"

definition joined_heads :: "db \<Rightarrow> (head_row \<times> envelope_row) list" where
  "joined_heads d =
     List.map_filter (\<lambda>h. map_option (Pair h) (find (\<lambda>x. nr_object_id x = hr_envelope_id h) (envelopes d)))
       (sort_key (\<lambda>h. (hr_team_id h, hr_sequence h)) (artifact_heads d))"

text \<open>Each head extends the head and the envelope published before it under the same identity.\<close>

definition head_lineage_ok ::
  "head_row \<Rightarrow> artifact_head \<Rightarrow> artifact_envelope \<Rightarrow> (artifact_head \<times> artifact_envelope) option \<Rightarrow> bool" where
  "head_lineage_ok row head envelope prior \<longleftrightarrow>
     hd_revision head = (case prior of None \<Rightarrow> 1 | Some (h, _) \<Rightarrow> hd_revision h + 1) \<and>
     hd_predecessor_head_ref head = map_option (head_ref_of \<circ> fst) prior \<and>
     en_revision envelope = hd_revision head \<and>
     en_predecessor_envelope_ref envelope = map_option (envelope_ref_of \<circ> snd) prior \<and>
     (case prior of None \<Rightarrow> True
      | Some (_, v) \<Rightarrow> en_artifact_id envelope = en_artifact_id v \<and>
                       en_semantic_role envelope = en_semantic_role v)"

fun check_heads ::
  "env \<Rightarrow> db \<Rightarrow> (string \<times> string \<rightharpoonup> artifact_head \<times> artifact_envelope) \<Rightarrow> (string \<rightharpoonup> int) \<Rightarrow>
   (head_row \<times> envelope_row) list \<Rightarrow> unit result" where
  "check_heads e d prior sequences [] = Inr ()"
| "check_heads e d prior sequences ((row, nrow) # rows) =
     rbind (parse_record (head_cls e) ''Artifact Head'' (hr_record row)) (\<lambda>head.
     rbind (parse_record (envelope_cls e) ''Artifact Envelope'' (nr_record nrow)) (\<lambda>envelope.
     if object_id head \<noteq> hr_object_id row \<or> hd_head_id head \<noteq> hr_head_id row \<or>
        hd_revision head \<noteq> hr_revision row \<or>
        hr_sequence row \<noteq> expected_count sequences (hr_team_id row) \<or>
        hd_envelope_ref head \<noteq> envelope_ref_of envelope \<or> object_id envelope \<noteq> hr_envelope_id row
     then Inl (TeamIntegrityError ''Artifact Head history drifted'')
     else
       rbind (team_id_for_ref e d (hd_team_ref head)) (\<lambda>team_id.
       if team_id \<noteq> hr_team_id row \<or>
          \<not> head_lineage_ok row head envelope (prior (hr_team_id row, hr_head_id row))
       then Inl (TeamIntegrityError ''Artifact Head history drifted'')
       else check_heads e d (prior((hr_team_id row, hr_head_id row) \<mapsto> (head, envelope)))
              (sequences(hr_team_id row \<mapsto> expected_count sequences (hr_team_id row) + 1)) rows)))"

definition history_drifted :: "string \<Rightarrow> string" where
  "history_drifted table = table @ '' history drifted''"

fun revision_rows_ok ::
  "'a harness_object_scheme harness_class \<Rightarrow> string \<Rightarrow> (string \<times> string \<rightharpoonup> int) \<Rightarrow>
   ('x, 'a harness_object_scheme) history_row list \<Rightarrow> unit result" where
  "revision_rows_ok cls table expected [] = Inr ()"
| "revision_rows_ok cls table expected (row # rows) =
     rbind (parse_record cls table (hi_record row)) (\<lambda>v.
     if object_id v \<noteq> hi_object_id row \<or>
        hi_revision row \<noteq> expected_count expected (hi_team_id row, hi_key row)
     then Inl (TeamIntegrityError (history_drifted table))
     else revision_rows_ok cls table
            (expected((hi_team_id row, hi_key row) \<mapsto>
               expected_count expected (hi_team_id row, hi_key row) + 1)) rows)"

definition validate_revision_rows ::
  "'a harness_object_scheme harness_class \<Rightarrow> string \<Rightarrow> ('x, 'a harness_object_scheme) history_row list \<Rightarrow>
   unit result" where
  "validate_revision_rows cls table rows =
     revision_rows_ok cls table Map.empty (sort_key (\<lambda>r. (hi_team_id r, hi_key r, hi_revision r)) rows)"

definition check_usage :: "db \<Rightarrow> unit result" where
  "check_usage d =
     guard (list_all (\<lambda>u. case find (\<lambda>r. rr_object_id r = us_result_id u) (capability_results d) of
                            None \<Rightarrow> True
                          | Some r \<Rightarrow> us_team_id u = rr_team_id r \<and> us_task_id u = rr_task_id r \<and>
                                      0 \<le> us_model_requests u \<and> 0 \<le> us_model_tokens u \<and>
                                      0 \<le> us_cost_micro_usd u) (task_usage_events d))
       (TeamIntegrityError ''task usage history drifted'')"

definition sequence_drifted :: "string \<Rightarrow> string" where
  "sequence_drifted table = table @ '' sequence drifted''"

fun sequence_rows_ok :: "(string \<rightharpoonup> int) \<Rightarrow> (string \<times> int) list \<Rightarrow> bool" where
  "sequence_rows_ok expected [] = True"
| "sequence_rows_ok expected ((team_id, n) # rows) =
     (n = expected_count expected team_id \<and>
      sequence_rows_ok (expected(team_id \<mapsto> expected_count expected team_id + 1)) rows)"

definition validate_sequence_rows :: "string \<Rightarrow> (string \<times> int) list \<Rightarrow> unit result" where
  "validate_sequence_rows table rows =
     guard (sequence_rows_ok Map.empty (sort rows)) (TeamIntegrityError (sequence_drifted table))"

definition validate_rebuild_sources :: "env \<Rightarrow> db \<Rightarrow> unit result" where
  "validate_rebuild_sources e d =
     rbind (check_graphs e Map.empty (rev_ordered (graphs d)) Map.empty) (\<lambda>tasks.
     rbind (check_rosters e Map.empty (rev_ordered (rosters d)) Map.empty) (\<lambda>members.
     rbind (check_authorities e Map.empty (rev_ordered (authorities d))) (\<lambda>_.
     rbind (check_teams e d Map.empty (sort_key (\<lambda>t. (tr_team_id t, tr_version t)) (teams d))) (\<lambda>_.
     rbind (check_claims e d tasks members
              (sort_key (\<lambda>r. (kr_team_id r, kr_task_id r, kr_attempt r)) (task_claims d)) Map.empty) (\<lambda>claims.
     rbind (check_leases e claims
              (sort_key (\<lambda>r. (lr_team_id r, lr_task_id r, lr_attempt r)) (task_leases d)) Map.empty) (\<lambda>leases.
     rbind (check_events e d tasks (\<lambda>r. map_option (snd \<circ> snd) (claims r)) leases (ordered_events d)) (\<lambda>_.
     rbind (check_event_logs d) (\<lambda>_.
     rbind (check_heads e d Map.empty Map.empty (joined_heads d)) (\<lambda>_.
     rbind (validate_revision_rows (subscription_cls e) ''subscriptions'' (subscriptions d)) (\<lambda>_.
     rbind (validate_revision_rows (conflict_cls e) ''conflicts'' (conflicts d)) (\<lambda>_.
     rbind (validate_revision_rows (projection_cls e) ''projections'' (projections d)) (\<lambda>_.
     rbind (check_usage d) (\<lambda>_.
     rbind (rmap (\<lambda>r. completion e d (co_team_id r) (co_result_id r)) (completion_responses d)) (\<lambda>_.
     rbind (validate_sequence_rows ''messages'' (map (\<lambda>r. (mr_team_id r, mr_sequence r)) (messages d))) (\<lambda>_.
     rbind (validate_sequence_rows ''checkpoints'' (map (\<lambda>r. (kp_team_id r, kp_sequence r)) (checkpoints d))) (\<lambda>_.
     rbind (validate_sequence_rows ''convergence'' (map (\<lambda>r. (cv_team_id r, cv_sequence r)) (convergence d))) (\<lambda>_.
     validate_sequence_rows ''outbox'' (map (\<lambda>r. (ox_team_id r, ox_sequence r)) (outbox_rows d))
     )))))))))))))))))"

section \<open>Recomputing the current heads\<close>

text \<open>The rows that carry the greatest version under their key, as dictionary entries.\<close>

definition latest_entries :: "('r \<Rightarrow> 'k) \<Rightarrow> ('r \<Rightarrow> int) \<Rightarrow> ('r \<Rightarrow> string) \<Rightarrow> 'r list \<Rightarrow> ('k \<times> string) list" where
  "latest_entries key version oid rows =
     map (\<lambda>r. (key r, oid r))
       (filter (\<lambda>r. list_all (\<lambda>x. key x = key r \<longrightarrow> version x \<le> version r) rows) rows)"

definition dict_items :: "('k \<times> 'v) list \<Rightarrow> ('k \<times> 'v) list" where
  "dict_items ps = map (\<lambda>k. (k, the (dict_of ps k))) (remdups (map fst ps))"

record current_heads =
  hx_team_heads :: "(string \<times> string) list"
  hx_task_heads :: "((string \<times> string) \<times> string) list"
  hx_artifact_current :: "((string \<times> string) \<times> string) list"
  hx_subscription_current :: "((string \<times> string) \<times> string) list"
  hx_conflict_current :: "((string \<times> string) \<times> string) list"
  hx_projection_current :: "((string \<times> string) \<times> string) list"
  hx_checkpoint_current :: "(string \<times> string) list"

definition history_key :: "('x, 'r) history_row \<Rightarrow> string \<times> string" where
  "history_key r = (hi_team_id r, hi_key r)"

definition expected_current :: "db \<Rightarrow> current_heads" where
  "expected_current d =
     \<lparr>hx_team_heads = latest_entries tr_team_id tr_version tr_object_id (teams d),
      hx_task_heads = latest_entries (\<lambda>r. (er_team_id r, er_task_id r)) er_version er_object_id (task_events d),
      hx_artifact_current = latest_entries (\<lambda>r. (hr_team_id r, hr_head_id r)) hr_revision hr_object_id
        (artifact_heads d),
      hx_subscription_current = latest_entries history_key hi_revision hi_object_id (subscriptions d),
      hx_conflict_current = latest_entries history_key hi_revision hi_object_id (conflicts d),
      hx_projection_current = latest_entries history_key hi_revision hi_object_id (projections d),
      hx_checkpoint_current = latest_entries kp_team_id kp_sequence kp_object_id (checkpoints d)\<rparr>"

definition current_entry :: "current_row \<Rightarrow> (string \<times> string) \<times> string" where
  "current_entry c = (current_key c, cu_object_id c)"

definition observed_current :: "db \<Rightarrow> current_heads" where
  "observed_current d =
     \<lparr>hx_team_heads = map (\<lambda>h. (th_team_id h, th_team_id_ref h)) (team_heads d),
      hx_task_heads = map (\<lambda>h. ((xh_team_id h, xh_task_id h), xh_event_id h)) (task_heads d),
      hx_artifact_current = map current_entry (artifact_current d),
      hx_subscription_current = map current_entry (subscription_current d),
      hx_conflict_current = map current_entry (conflict_current d),
      hx_projection_current = map current_entry (projection_current d),
      hx_checkpoint_current = map (\<lambda>h. (kh_team_id h, kh_object_id h)) (checkpoint_current d)\<rparr>"

definition same_current :: "current_heads \<Rightarrow> current_heads \<Rightarrow> bool" where
  "same_current x y \<longleftrightarrow>
     same_dict (hx_team_heads x) (hx_team_heads y) \<and> same_dict (hx_task_heads x) (hx_task_heads y) \<and>
     same_dict (hx_artifact_current x) (hx_artifact_current y) \<and>
     same_dict (hx_subscription_current x) (hx_subscription_current y) \<and>
     same_dict (hx_conflict_current x) (hx_conflict_current y) \<and>
     same_dict (hx_projection_current x) (hx_projection_current y) \<and>
     same_dict (hx_checkpoint_current x) (hx_checkpoint_current y)"

definition compare_heads :: "db \<Rightarrow> current_heads \<Rightarrow> unit result" where
  "compare_heads d expected =
     guard (same_current (observed_current d) expected)
       (TeamIntegrityError ''Team current heads differ from history'')"

section \<open>Repair\<close>

definition clear_heads :: "db \<Rightarrow> db" where
  "clear_heads d =
     d\<lparr>team_heads := [], task_heads := [], artifact_current := [], subscription_current := [],
       conflict_current := [], projection_current := [], checkpoint_current := []\<rparr>"

fun repair_team_heads :: "env \<Rightarrow> (string \<times> string) list \<Rightarrow> db \<Rightarrow> db result" where
  "repair_team_heads e [] d = Inr d"
| "repair_team_heads e ((team_id, i) # rest) d =
     (case find (\<lambda>t. tr_object_id t = i) (teams d) of
        None \<Rightarrow> Inl StopIteration
      | Some row \<Rightarrow>
          rbind (parse_record (team_cls e) ''Team'' (tr_record row)) (\<lambda>team.
          rbind (insert_team_head
                   \<lparr>th_team_id = team_id, th_team_id_ref = object_id team,
                    th_roster_id = ref_id (tm_roster_ref team), th_graph_id = ref_id (tm_task_graph_ref team),
                    th_authority_id = ref_id (tm_authority_ref team)\<rparr> d) (\<lambda>d1.
          repair_team_heads e rest d1)))"

definition insert_task_head :: "task_head_row \<Rightarrow> db \<Rightarrow> db result" where
  "insert_task_head r d =
     rbind (foreign_key ''task_heads'' er_object_id (task_events d) (xh_event_id r)) (\<lambda>_.
     rbind (insert_row ''task_heads''
              (\<lambda>r x. xh_team_id x = xh_team_id r \<and> xh_task_id x = xh_task_id r) r (task_heads d))
       (\<lambda>rows. Inr (d\<lparr>task_heads := rows\<rparr>)))"

fun repair_task_heads :: "env \<Rightarrow> ((string \<times> string) \<times> string) list \<Rightarrow> db \<Rightarrow> db result" where
  "repair_task_heads e [] d = Inr d"
| "repair_task_heads e (((team_id, task_id), i) # rest) d =
     rbind (load_event e d i) (\<lambda>event.
     rbind (insert_task_head
              \<lparr>xh_team_id = team_id, xh_task_id = task_id, xh_task_ref = ref_id (ev_task_ref event),
               xh_event_id = i\<rparr> d) (\<lambda>d1.
     repair_task_heads e rest d1))"

definition insert_conflict_current :: "current_row \<Rightarrow> db \<Rightarrow> db result" where
  "insert_conflict_current r d =
     rbind (foreign_key ''conflict_current'' hi_object_id (conflicts d) (cu_object_id r)) (\<lambda>_.
     rbind (insert_row ''conflict_current'' current_clash r (conflict_current d))
       (\<lambda>rows. Inr (d\<lparr>conflict_current := rows\<rparr>)))"

definition insert_projection_current :: "current_row \<Rightarrow> db \<Rightarrow> db result" where
  "insert_projection_current r d =
     rbind (foreign_key ''projection_current'' hi_object_id (projections d) (cu_object_id r)) (\<lambda>_.
     rbind (insert_row ''projection_current'' current_clash r (projection_current d))
       (\<lambda>rows. Inr (d\<lparr>projection_current := rows\<rparr>)))"

definition insert_checkpoint_current :: "checkpoint_head_row \<Rightarrow> db \<Rightarrow> db result" where
  "insert_checkpoint_current r d =
     rbind (foreign_key ''checkpoint_current'' kp_object_id (checkpoints d) (kh_object_id r)) (\<lambda>_.
     rbind (insert_row ''checkpoint_current'' (\<lambda>r x. kh_team_id x = kh_team_id r) r (checkpoint_current d))
       (\<lambda>rows. Inr (d\<lparr>checkpoint_current := rows\<rparr>)))"

text \<open>\<open>executemany\<close>: one insert per entry.\<close>

fun insert_many :: "('r \<Rightarrow> db \<Rightarrow> db result) \<Rightarrow> 'r list \<Rightarrow> db \<Rightarrow> db result" where
  "insert_many ins [] d = Inr d"
| "insert_many ins (r # rs) d = rbind (ins r d) (\<lambda>d1. insert_many ins rs d1)"

definition current_row_of :: "(string \<times> string) \<times> string \<Rightarrow> current_row" where
  "current_row_of p = \<lparr>cu_team_id = fst (fst p), cu_key = snd (fst p), cu_object_id = snd p\<rparr>"

definition repair_heads :: "env \<Rightarrow> current_heads \<Rightarrow> db \<Rightarrow> db result" where
  "repair_heads e expected d =
     rbind (repair_team_heads e (dict_items (hx_team_heads expected)) (clear_heads d)) (\<lambda>d1.
     rbind (repair_task_heads e (dict_items (hx_task_heads expected)) d1) (\<lambda>d2.
     rbind (insert_many insert_artifact_current
              (map current_row_of (dict_items (hx_artifact_current expected))) d2) (\<lambda>d3.
     rbind (insert_many insert_subscription_current
              (map current_row_of (dict_items (hx_subscription_current expected))) d3) (\<lambda>d4.
     rbind (insert_many insert_conflict_current
              (map current_row_of (dict_items (hx_conflict_current expected))) d4) (\<lambda>d5.
     rbind (insert_many insert_projection_current
              (map current_row_of (dict_items (hx_projection_current expected))) d5) (\<lambda>d6.
     insert_many insert_checkpoint_current
       (map (\<lambda>(team_id, i). \<lparr>kh_team_id = team_id, kh_object_id = i\<rparr>)
          (dict_items (hx_checkpoint_current expected))) d6))))))"

record head_rebuild =
  hb_team_count :: nat
  hb_task_count :: nat
  hb_artifact_count :: nat
  hb_subscription_count :: nat
  hb_conflict_count :: nat
  hb_projection_count :: nat
  hb_checkpoint_count :: nat

definition rebuild_counts :: "current_heads \<Rightarrow> head_rebuild" where
  "rebuild_counts x =
     \<lparr>hb_team_count = length (dict_items (hx_team_heads x)),
      hb_task_count = length (dict_items (hx_task_heads x)),
      hb_artifact_count = length (dict_items (hx_artifact_current x)),
      hb_subscription_count = length (dict_items (hx_subscription_current x)),
      hb_conflict_count = length (dict_items (hx_conflict_current x)),
      hb_projection_count = length (dict_items (hx_projection_current x)),
      hb_checkpoint_count = length (dict_items (hx_checkpoint_current x))\<rparr>"

definition rebuild_current_heads :: "env \<Rightarrow> bool \<Rightarrow> db \<Rightarrow> (db \<times> head_rebuild) result" where
  "rebuild_current_heads e repair d =
     rbind (validate_rebuild_sources e d) (\<lambda>_.
     (let expected = expected_current d
      in rbind (if repair then repair_heads e expected d
                else rbind (compare_heads d expected) (\<lambda>_. Inr d)) (\<lambda>d1.
         rbind (rmap (\<lambda>p. snapshot e d1 (fst p)) (dict_items (hx_team_heads expected))) (\<lambda>_.
         Inr (d1, rebuild_counts expected)))))"

section \<open>Recovering expired leases\<close>

definition recovery_key :: "task_lease \<Rightarrow> int \<Rightarrow> string" where
  "recovery_key lease fence = ''recover.'' @ object_sha256 lease @ ''.'' @ dec fence"

definition recoverable :: "int \<Rightarrow> task_work \<Rightarrow> bool" where
  "recoverable now w \<longleftrightarrow>
     tw_status w = ACTIVE \<and> tw_lease w \<noteq> None \<and> tw_fencing_token w \<noteq> None \<and>
     (case tw_effective_expires_at w of None \<Rightarrow> False | Some x \<Rightarrow> x \<le> now) \<and>
     latest_kind w \<noteq> Some CANCEL_REQUESTED"

text \<open>Each expiry is a transaction of its own; the first failure ends the loop and keeps what was committed.\<close>

fun recover_loop ::
  "env \<Rightarrow> (nat \<Rightarrow> int) \<Rightarrow> (nat \<Rightarrow> nat \<Rightarrow> int) \<Rightarrow> nat \<Rightarrow> contract_audit \<Rightarrow> task_work list \<Rightarrow> task_event list \<Rightarrow> db \<Rightarrow>
   task_event list result \<times> db" where
  "recover_loop e now clks n aud [] evs d = (Inr evs, d)"
| "recover_loop e now clks n aud (w # ws) evs d =
     (if recoverable (now n) w
      then case transact (expire_lease e (clks n) (lease_ref_of (the (tw_lease w)))
                  (the (tw_fencing_token w)) aud
                  (recovery_key (the (tw_lease w)) (the (tw_fencing_token w)))) d of
             (Inl err, d1) \<Rightarrow> (Inl err, d1)
           | (Inr ev, d1) \<Rightarrow> recover_loop e now clks (Suc n) aud ws (evs @ [ev]) d1
      else recover_loop e now clks (Suc n) aud ws evs d)"

definition recover_expired_leases ::
  "env \<Rightarrow> (nat \<Rightarrow> int) \<Rightarrow> (nat \<Rightarrow> nat \<Rightarrow> int) \<Rightarrow> string \<Rightarrow> contract_audit \<Rightarrow> db \<Rightarrow> task_event list result \<times> db" where
  "recover_expired_leases e now clks team_id aud d =
     (case rbind (rebuild_current_heads e False d) (\<lambda>_. list_task_work e d team_id) of
        Inl err \<Rightarrow> (Inl err, d)
      | Inr works \<Rightarrow> recover_loop e now clks 0 aud works [] d)"

end
