(* ===== verification/Rebuild_Properties.thy ===== *)
theory Rebuild_Properties
  imports Store_Rebuild
begin

text \<open>
  Repairing the current heads: the audit reads the immutable tables only, so it comes out the same whatever
  the heads hold; what a repair writes is what the histories call for, and auditing the repaired store
  finds nothing to repair.
\<close>

section \<open>The audit does not read the heads\<close>

text \<open>A store with the current-head tables of another.\<close>

definition with_heads :: "db \<Rightarrow> db \<Rightarrow> db" where
  "with_heads h d =
     d\<lparr>team_heads := team_heads h, task_heads := task_heads h, artifact_current := artifact_current h,
       subscription_current := subscription_current h, conflict_current := conflict_current h,
       projection_current := projection_current h, checkpoint_current := checkpoint_current h\<rparr>"

lemma with_heads_sel [simp]:
  "rosters (with_heads h d) = rosters d" "graphs (with_heads h d) = graphs d"
  "authorities (with_heads h d) = authorities d" "teams (with_heads h d) = teams d"
  "task_claims (with_heads h d) = task_claims d" "task_leases (with_heads h d) = task_leases d"
  "task_events (with_heads h d) = task_events d" "capability_results (with_heads h d) = capability_results d"
  "completion_responses (with_heads h d) = completion_responses d"
  "task_usage_events (with_heads h d) = task_usage_events d" "envelopes (with_heads h d) = envelopes d"
  "artifact_heads (with_heads h d) = artifact_heads d" "messages (with_heads h d) = messages d"
  "subscriptions (with_heads h d) = subscriptions d" "conflicts (with_heads h d) = conflicts d"
  "projections (with_heads h d) = projections d" "checkpoints (with_heads h d) = checkpoints d"
  "convergence (with_heads h d) = convergence d" "outbox_rows (with_heads h d) = outbox_rows d"
  by (simp_all add: with_heads_def)

lemma snapshot_at_with_heads [simp]: "snapshot_at e (with_heads h d) r = snapshot_at e d r"
  by (simp add: snapshot_at_def join_team_def)

lemma team_id_for_ref_with_heads [simp]: "team_id_for_ref e (with_heads h d) r = team_id_for_ref e d r"
  by (simp add: team_id_for_ref_def)

lemma check_teams_with_heads [simp]: "check_teams e (with_heads h d) versions rows = check_teams e d versions rows"
  by (induction rows arbitrary: versions) (simp_all cong: if_cong)

lemma check_claims_with_heads [simp]:
  "check_claims e (with_heads h d) tasks members rows claims = check_claims e d tasks members rows claims"
  by (induction rows arbitrary: claims) (simp_all cong: if_cong)

lemma check_events_with_heads [simp]:
  "check_events e (with_heads h d) tasks claims leases rows = check_events e d tasks claims leases rows"
  by (induction rows) (simp_all cong: if_cong)

lemma check_heads_with_heads [simp]:
  "check_heads e (with_heads h d) prior sequences rows = check_heads e d prior sequences rows"
  by (induction rows arbitrary: prior sequences) (simp_all add: split_paired_all cong: if_cong)

lemma load_with_heads [simp]:
  "load_result e (with_heads h d) = load_result e d" "load_event e (with_heads h d) = load_event e d"
  "load_head e (with_heads h d) = load_head e d" "head_envelope e (with_heads h d) = head_envelope e d"
  by (simp_all add: fun_eq_iff load_result_def load_event_def load_head_def head_envelope_def envelope_of_def
      load_envelope_def)

lemma completion_with_heads [simp]: "completion e (with_heads h d) T i = completion e d T i"
  by (simp add: completion_def cong: option.case_cong if_cong)

lemma audit_with_heads: "validate_rebuild_sources e (with_heads h d) = validate_rebuild_sources e d"
  by (simp add: validate_rebuild_sources_def check_event_logs_def event_keys_def event_log_of_def ordered_events_def
      joined_heads_def check_usage_def)

lemma expected_with_heads: "expected_current (with_heads h d) = expected_current d"
  by (simp add: expected_current_def)

section \<open>What a repair writes\<close>

lemma insert_many_current:
  "insert_many insert_artifact_current rs d = Inr d' \<Longrightarrow> d' = d\<lparr>artifact_current := artifact_current d @ rs\<rparr>"
  "insert_many insert_subscription_current rs d = Inr d' \<Longrightarrow> d' = d\<lparr>subscription_current := subscription_current d @ rs\<rparr>"
  "insert_many insert_conflict_current rs d = Inr d' \<Longrightarrow> d' = d\<lparr>conflict_current := conflict_current d @ rs\<rparr>"
  "insert_many insert_projection_current rs d = Inr d' \<Longrightarrow> d' = d\<lparr>projection_current := projection_current d @ rs\<rparr>"
  "insert_many insert_checkpoint_current ks d = Inr d' \<Longrightarrow> d' = d\<lparr>checkpoint_current := checkpoint_current d @ ks\<rparr>"
  by (induction rs arbitrary: d; fastforce simp: insert_artifact_current_def insert_subscription_current_def
        insert_conflict_current_def insert_projection_current_def insert_row_Inr_iff)+
     (induction ks arbitrary: d; fastforce simp: insert_checkpoint_current_def insert_row_Inr_iff)

definition team_entry :: "team_head_row \<Rightarrow> string \<times> string" where
  "team_entry h = (th_team_id h, th_team_id_ref h)"

definition task_entry :: "task_head_row \<Rightarrow> (string \<times> string) \<times> string" where
  "task_entry h = ((xh_team_id h, xh_task_id h), xh_event_id h)"

lemma insert_team_head_eq:
  "insert_team_head r d = Inr d' \<Longrightarrow> d' = d\<lparr>team_heads := team_heads d @ [r]\<rparr>"
  by (auto simp: insert_team_head_def insert_row_Inr_iff)

lemma insert_task_head_eq:
  "insert_task_head r d = Inr d' \<Longrightarrow> d' = d\<lparr>task_heads := task_heads d @ [r]\<rparr>"
  by (auto simp: insert_task_head_def insert_row_Inr_iff)

lemma repair_team_heads_effect:
  "repair_team_heads e ps d = Inr d' \<Longrightarrow> \<forall>t\<in>set (teams d). object_id (tr_record t) = tr_object_id t \<Longrightarrow>
     \<exists>rows. d' = d\<lparr>team_heads := team_heads d @ rows\<rparr> \<and> map team_entry rows = ps"
proof (induction ps arbitrary: d)
  case Nil
  then show ?case by (intro exI [of _ "[]"]) simp
next
  case (Cons p ps)
  obtain T i where p: "p = (T, i)" by (cases p)
  obtain row where row: "find (\<lambda>t. tr_object_id t = i) (teams d) = Some row"
    using Cons.prems(1) p by (auto split: option.splits)
  obtain r d1 where r: "insert_team_head r d = Inr d1" "th_team_id r = T" "th_team_id_ref r = object_id (tr_record row)"
    and rest: "repair_team_heads e ps d1 = Inr d'"
    using Cons.prems(1) p row by (auto simp: parse_record_Inr_iff)
  have d1: "d1 = d\<lparr>team_heads := team_heads d @ [r]\<rparr>" by (rule insert_team_head_eq [OF r(1)])
  obtain rows where rows: "d' = d1\<lparr>team_heads := team_heads d1 @ rows\<rparr>" "map team_entry rows = ps"
    using Cons.IH [OF rest] Cons.prems(2) d1 by auto
  have "team_entry r = p" using r find_SomeD [OF row] Cons.prems(2) p by (auto simp: team_entry_def)
  then show ?case using rows d1 by (intro exI [of _ "r # rows"]) simp
qed

lemma repair_task_heads_effect:
  "repair_task_heads e ps d = Inr d' \<Longrightarrow>
     \<exists>rows. d' = d\<lparr>task_heads := task_heads d @ rows\<rparr> \<and> map task_entry rows = ps"
proof (induction ps arbitrary: d)
  case Nil
  then show ?case by (intro exI [of _ "[]"]) simp
next
  case (Cons p ps)
  obtain T K i where p: "p = ((T, K), i)" by (metis prod.exhaust)
  obtain r d1 where r: "insert_task_head r d = Inr d1" "task_entry r = p"
    and rest: "repair_task_heads e ps d1 = Inr d'"
    using Cons.prems p by (auto simp: task_entry_def)
  have d1: "d1 = d\<lparr>task_heads := task_heads d @ [r]\<rparr>" by (rule insert_task_head_eq [OF r(1)])
  obtain rows where rows: "d' = d1\<lparr>task_heads := task_heads d1 @ rows\<rparr>" "map task_entry rows = ps"
    using Cons.IH [OF rest] by auto
  then show ?case using d1 r(2) by (intro exI [of _ "r # rows"]) simp
qed

lemma dict_of_items: "dict_of (dict_items ps) = dict_of ps"
proof
  fix k
  have "dict_of (dict_items ps) k = ((Some \<circ> (\<lambda>k. the (dict_of ps k))) |` set (map fst ps)) k"
    by (simp add: dict_of_def dict_items_def rev_map map_of_map_restrict)
  also have "\<dots> = dict_of ps k"
  proof (cases "k \<in> fst ` set ps")
    case True
    then have "dict_of ps k \<noteq> None" by (simp add: dict_of_def map_of_eq_None_iff)
    then show ?thesis using True by (auto simp: restrict_map_def)
  next
    case False
    then have "dict_of ps k = None" by (simp add: dict_of_def map_of_eq_None_iff)
    then show ?thesis using False by (simp add: restrict_map_def)
  qed
  finally show "dict_of (dict_items ps) k = dict_of ps k" .
qed

lemma same_dict_items [simp]: "same_dict (dict_items ps) ps"
  by (simp add: same_dict_def dict_of_items list_all_iff)

definition items_of :: "current_heads \<Rightarrow> current_heads" where
  "items_of x =
     \<lparr>hx_team_heads = dict_items (hx_team_heads x), hx_task_heads = dict_items (hx_task_heads x),
      hx_artifact_current = dict_items (hx_artifact_current x),
      hx_subscription_current = dict_items (hx_subscription_current x),
      hx_conflict_current = dict_items (hx_conflict_current x),
      hx_projection_current = dict_items (hx_projection_current x),
      hx_checkpoint_current = dict_items (hx_checkpoint_current x)\<rparr>"

lemma same_current_items [simp]: "same_current (items_of x) x"
  by (simp add: same_current_def items_of_def)

lemma current_entry_row [simp]: "current_entry (current_row_of p) = p"
  by (simp add: current_entry_def current_row_of_def current_key_def)

lemma repair_heads_effect:
  assumes "repair_heads e x d = Inr d'" and ids: "\<forall>t\<in>set (teams d). object_id (tr_record t) = tr_object_id t"
  shows "d' = with_heads d' d \<and> observed_current d' = items_of x"
proof -
  obtain d1 d2 d3 d4 d5 d6 where
    r1: "repair_team_heads e (dict_items (hx_team_heads x)) (clear_heads d) = Inr d1" and
    r2: "repair_task_heads e (dict_items (hx_task_heads x)) d1 = Inr d2" and
    r3: "insert_many insert_artifact_current (map current_row_of (dict_items (hx_artifact_current x))) d2 = Inr d3" and
    r4: "insert_many insert_subscription_current (map current_row_of (dict_items (hx_subscription_current x))) d3 = Inr d4" and
    r5: "insert_many insert_conflict_current (map current_row_of (dict_items (hx_conflict_current x))) d4 = Inr d5" and
    r6: "insert_many insert_projection_current (map current_row_of (dict_items (hx_projection_current x))) d5 = Inr d6" and
    r7: "insert_many insert_checkpoint_current
       (map (\<lambda>(team_id, i). \<lparr>kh_team_id = team_id, kh_object_id = i\<rparr>) (dict_items (hx_checkpoint_current x))) d6 = Inr d'"
    using assms(1) unfolding repair_heads_def by (elim rbind_InrE) (rule that; assumption)
  have "\<forall>t\<in>set (teams (clear_heads d)). object_id (tr_record t) = tr_object_id t"
    using ids by (simp add: clear_heads_def)
  from repair_team_heads_effect [OF r1 this] repair_task_heads_effect [OF r2] obtain ts ks where
    "d1 = (clear_heads d)\<lparr>team_heads := ts\<rparr>" "map team_entry ts = dict_items (hx_team_heads x)"
    "d2 = d1\<lparr>task_heads := ks\<rparr>" "map task_entry ks = dict_items (hx_task_heads x)"
    by (auto simp: clear_heads_def)
  note shape = this insert_many_current(1) [OF r3] insert_many_current(2) [OF r4] insert_many_current(3) [OF r5]
    insert_many_current(4) [OF r6] insert_many_current(5) [OF r7]
  have "d' = with_heads d' d"
    by (simp add: shape(1,3,5-) clear_heads_def with_heads_def)
  moreover have "map (\<lambda>h. (th_team_id h, th_team_id_ref h)) ts = dict_items (hx_team_heads x)"
      "map (\<lambda>h. ((xh_team_id h, xh_task_id h), xh_event_id h)) ks = dict_items (hx_task_heads x)"
    using shape(2,4) by (simp_all add: team_entry_def [abs_def] task_entry_def [abs_def])
  then have "observed_current d' = items_of x"
    by (simp add: shape(1,3,5-) clear_heads_def observed_current_def items_of_def comp_def case_prod_unfold)
  ultimately show ?thesis by blast
qed

lemma check_teams_ids: "check_teams e d versions rows = Inr u \<Longrightarrow> r \<in> set rows \<Longrightarrow> object_id (tr_record r) = tr_object_id r"
  by (induction rows arbitrary: versions) (auto simp: parse_record_Inr_iff split: if_splits)

lemma audit_team_ids:
  assumes "validate_rebuild_sources e d = Inr u"
  shows "\<forall>t\<in>set (teams d). object_id (tr_record t) = tr_object_id t"
proof -
  obtain v where "check_teams e d Map.empty (sort_key (\<lambda>t. (tr_team_id t, tr_version t)) (teams d)) = Inr v"
    using assms unfolding validate_rebuild_sources_def by (elim rbind_InrE) (rule that; assumption)
  then show ?thesis by (auto dest: check_teams_ids)
qed

text \<open>
  C27: Repair converges in one step. When \<open>rebuild_current_heads\<close> repairs a store, only the seven head
  tables differ afterwards, the heads observed are those the histories call for, and auditing the repaired
  store succeeds, changes nothing and reports the same counts.
\<close>

theorem repair_then_audit:
  "case rebuild_current_heads e True d of
     Inl _ \<Rightarrow> True
   | Inr (d', counts) \<Rightarrow>
       d' = with_heads d' d \<and> same_current (observed_current d') (expected_current d) \<and>
       rebuild_current_heads e False d' = Inr (d', counts)"
proof (cases "rebuild_current_heads e True d")
  case (Inr p)
  obtain d' counts where p: "p = (d', counts)" by (cases p)
  obtain u sns where audit: "validate_rebuild_sources e d = Inr u"
      and rep: "repair_heads e (expected_current d) d = Inr d'"
      and sn: "rmap (\<lambda>p. snapshot e d' (fst p)) (dict_items (hx_team_heads (expected_current d))) = Inr sns"
      and counts: "counts = rebuild_counts (expected_current d)"
    using Inr p unfolding rebuild_current_heads_def Let_def by auto
  have eff: "d' = with_heads d' d" "observed_current d' = items_of (expected_current d)"
    using repair_heads_effect [OF rep audit_team_ids [OF audit]] by blast+
  have same: "validate_rebuild_sources e d' = Inr u" "expected_current d' = expected_current d"
    using audit audit_with_heads [of e d' d] expected_with_heads [of d' d] eff(1) by simp_all
  have "rebuild_current_heads e False d' = Inr (d', counts)"
    unfolding rebuild_current_heads_def Let_def same by (simp add: compare_heads_def eff(2) sn counts)
  then show ?thesis using Inr p eff by simp
qed simp

end
