(* ===== verification/Session_Records.thy ===== *)
theory Session_Records
  imports Session_Models
begin

text \<open>
  The records of the Harness session runtime, \<open>harness/runtime_models.py\<close>: the identity and the versioned
  state of a session, messages and message commands, requirement proposals, interpretations and policies,
  Gateway journals with their state rules, turn results, and the read models (projection, event page,
  session page). The usage record and status of a Gateway call are those of \<open>contracts/ai_gateway_v2.py\<close>.
\<close>

section \<open>Kinds\<close>

datatype session_status = SESSION_ACTIVE | SESSION_BLOCKED | SESSION_STATUS_CLOSED

datatype message_role = USER_ROLE | ASSISTANT_ROLE

datatype interpretation_outcome =
    RI_CLARIFICATION_REQUIRED | RI_READY | RI_ABSTAINED | RI_BLOCKED_CAPABILITY | RI_BLOCKED_POLICY

datatype journal_state = JOURNAL_PREPARED | JOURNAL_COMMITTED | UNKNOWN_OUTCOME

datatype evidence_class = REAL_SEMANTIC | MECHANISM_FIXTURE

datatype turn_outcome =
    TT_CLARIFICATION_REQUIRED | TT_READY | TT_BLOCKED_CAPABILITY | TT_BLOCKED_POLICY | TT_UNKNOWN_OUTCOME

datatype proposal_outcome = PP_CLARIFICATION_REQUIRED | PP_READY | PP_ABSTAINED

datatype gateway_status =
    GW_SUCCEEDED | GW_BLOCKED_POLICY | GW_BLOCKED_CAPABILITY | GW_BACKPRESSURED | GW_FAILED

section \<open>Sessions\<close>

record session_identity = harness_object +
  si_session_id :: string
  si_incarnation_id :: string
  si_composition_ref :: object_ref
  si_created_by :: string
  si_created_at :: int

definition validate_session_identity :: "session_identity \<Rightarrow> bool" where
  "validate_session_identity v \<longleftrightarrow>
     list_all is_identifier [si_session_id v, si_incarnation_id v, si_created_by v] \<and>
     require_ref (si_composition_ref v) ''harness-composition''"

definition session_identity_class :: "(session_identity \<Rightarrow> string) \<Rightarrow> session_identity harness_class" where
  "session_identity_class dg =
     \<lparr>object_type = ''harness-session'', digest = dg,
      direct_refs = (\<lambda>v. [si_composition_ref v]), validates = validate_session_identity\<rparr>"

abbreviation session_ref_of :: "session_identity \<Rightarrow> object_ref" where
  "session_ref_of \<equiv> to_ref ''harness-session''"

record session_state =
  ss_session_ref :: object_ref
  ss_session_id :: string
  ss_incarnation_id :: string
  ss_composition_ref :: object_ref
  ss_session_version :: int
  ss_status :: session_status
  ss_last_event_sequence :: int
  ss_current_interpretation_ref :: "object_ref option"
  ss_current_requirement_policy_ref :: "object_ref option"
  ss_created_at :: int
  ss_updated_at :: int
  ss_state_sha256 :: string

text \<open>\<open>_payload_sha256\<close> over every field but the hash itself.\<close>

definition state_digest :: "(session_state \<Rightarrow> string) \<Rightarrow> session_state \<Rightarrow> string" where
  "state_digest dg v = dg (v\<lparr>ss_state_sha256 := []\<rparr>)"

definition validate_state :: "(session_state \<Rightarrow> string) \<Rightarrow> session_state \<Rightarrow> bool" where
  "validate_state dg v \<longleftrightarrow>
     is_identifier (ss_session_id v) \<and> is_identifier (ss_incarnation_id v) \<and>
     in_range 1 1000000000 (ss_session_version v) \<and> in_range 1 1000000000 (ss_last_event_sequence v) \<and>
     require_ref (ss_session_ref v) ''harness-session'' \<and>
     require_ref (ss_composition_ref v) ''harness-composition'' \<and>
     require_opt_ref (ss_current_interpretation_ref v) ''requirement-interpretation'' \<and>
     require_opt_ref (ss_current_requirement_policy_ref v) ''harness-requirement-policy'' \<and>
     ss_created_at v \<le> ss_updated_at v \<and>
     ss_state_sha256 v = state_digest dg v"

definition create_state ::
  "(session_state \<Rightarrow> string) \<Rightarrow> session_identity \<Rightarrow> int \<Rightarrow> session_status \<Rightarrow> int \<Rightarrow> object_ref option \<Rightarrow>
   object_ref option \<Rightarrow> int \<Rightarrow> session_state result" where
  "create_state dg ident version status last_sequence interpretation_ref policy_ref updated_at =
     (let v = \<lparr>ss_session_ref = session_ref_of ident, ss_session_id = si_session_id ident,
               ss_incarnation_id = si_incarnation_id ident, ss_composition_ref = si_composition_ref ident,
               ss_session_version = version, ss_status = status, ss_last_event_sequence = last_sequence,
               ss_current_interpretation_ref = interpretation_ref,
               ss_current_requirement_policy_ref = policy_ref,
               ss_created_at = si_created_at ident, ss_updated_at = updated_at, ss_state_sha256 = []\<rparr>;
          w = v\<lparr>ss_state_sha256 := state_digest dg v\<rparr>
      in if validate_state dg w then Inr w else Inl (ValueError ''session state''))"

definition to_session_ref :: "session_state \<Rightarrow> harness_session_ref result" where
  "to_session_ref v =
     (let r = \<lparr>sr_session_ref = ss_session_ref v, sr_incarnation_id = ss_incarnation_id v,
               sr_session_version = ss_session_version v, sr_composition_ref = ss_composition_ref v\<rparr>
      in if validate_session_ref r then Inr r else Inl (ValueError ''session ref''))"

section \<open>Messages and commands\<close>

text \<open>
  Python's \<open>str.strip\<close> on the code points below 256, the characters of a HOL string: ASCII white space, the
  four separators, NEL and the no-break space.
\<close>

definition is_space :: "char \<Rightarrow> bool" where
  "is_space c \<longleftrightarrow> (of_char c :: nat) \<in> {9, 10, 11, 12, 13, 28, 29, 30, 31, 32, 133, 160}"

definition strip :: "string \<Rightarrow> string" where
  "strip s = rev (dropWhile is_space (rev (dropWhile is_space s)))"

record harness_message = harness_object +
  hm_message_id :: string
  hm_session_ref :: object_ref
  hm_role :: message_role
  hm_content :: string
  hm_content_sha256 :: string
  hm_artifact_envelope_refs :: "object_ref list"
  hm_chunk_index :: "int option"
  hm_final :: bool
  hm_created_at :: int

definition validate_harness_message :: "(string \<Rightarrow> string) \<Rightarrow> harness_message \<Rightarrow> bool" where
  "validate_harness_message sha v \<longleftrightarrow>
     is_identifier (hm_message_id v) \<and> min_length 1 (hm_content v) \<and> max_length 1000000 (hm_content v) \<and>
     max_length 10000 (hm_artifact_envelope_refs v) \<and>
     list_all (in_range 0 1000000) (opt_list (hm_chunk_index v)) \<and>
     require_ref (hm_session_ref v) ''harness-session'' \<and>
     require_sorted_unique_refs (hm_artifact_envelope_refs v) \<and>
     refs_of_type (hm_artifact_envelope_refs v) ''artifact-envelope'' \<and>
     sha (hm_content v) = hm_content_sha256 v \<and>
     (if hm_role v = USER_ROLE then hm_chunk_index v = None \<and> hm_final v else True) \<and>
     hm_final v = (hm_chunk_index v = None)"

definition harness_message_class ::
  "(string \<Rightarrow> string) \<Rightarrow> (harness_message \<Rightarrow> string) \<Rightarrow> harness_message harness_class" where
  "harness_message_class sha dg =
     \<lparr>object_type = ''harness-message'', digest = dg,
      direct_refs = (\<lambda>v. hm_session_ref v # hm_artifact_envelope_refs v),
      validates = validate_harness_message sha\<rparr>"

definition create_harness_message ::
  "(string \<Rightarrow> string) \<Rightarrow> (harness_message \<Rightarrow> string) \<Rightarrow> contract_audit \<Rightarrow> harness_message \<Rightarrow>
   harness_message result" where
  "create_harness_message sha dg aud v =
     create (harness_message_class sha dg) aud
       (v\<lparr>hm_content := strip (hm_content v), hm_content_sha256 := sha (strip (hm_content v)),
          hm_artifact_envelope_refs := sorted_refs (hm_artifact_envelope_refs v)\<rparr>)"

abbreviation harness_message_ref_of :: "harness_message \<Rightarrow> object_ref" where
  "harness_message_ref_of \<equiv> to_ref ''harness-message''"

record message_command = harness_object +
  mc_command_id :: string
  mc_session_ref :: object_ref
  mc_expected_session_version :: int
  mc_principal_ref :: object_ref
  mc_content_sha256 :: string
  mc_artifact_envelope_refs :: "object_ref list"
  mc_idempotency_key :: string

definition validate_message_command :: "message_command \<Rightarrow> bool" where
  "validate_message_command v \<longleftrightarrow>
     is_identifier (mc_command_id v) \<and> is_identifier (mc_idempotency_key v) \<and>
     in_range 1 1000000000 (mc_expected_session_version v) \<and>
     max_length 10000 (mc_artifact_envelope_refs v) \<and>
     require_ref (mc_session_ref v) ''harness-session'' \<and>
     require_sorted_unique_refs (mc_artifact_envelope_refs v)"

definition message_command_class :: "(message_command \<Rightarrow> string) \<Rightarrow> message_command harness_class" where
  "message_command_class dg =
     \<lparr>object_type = ''session-command'', digest = dg,
      direct_refs = (\<lambda>v. mc_session_ref v # mc_principal_ref v # mc_artifact_envelope_refs v),
      validates = validate_message_command\<rparr>"

abbreviation message_command_ref_of :: "message_command \<Rightarrow> object_ref" where
  "message_command_ref_of \<equiv> to_ref ''session-command''"

section \<open>Requirements\<close>

record requirement_intake =
  ra_session_ref :: object_ref
  ra_command_ref :: object_ref
  ra_user_message_ref :: object_ref
  ra_user_text :: string
  ra_artifact_envelope_refs :: "object_ref list"

definition validate_intake :: "requirement_intake \<Rightarrow> bool" where
  "validate_intake v \<longleftrightarrow>
     min_length 1 (ra_user_text v) \<and> max_length 1000000 (ra_user_text v) \<and>
     max_length 10000 (ra_artifact_envelope_refs v)"

record requirement_proposal =
  pq_outcome :: proposal_outcome
  pq_assistant_message :: string
  pq_goals :: "string list"
  pq_constraints :: "string list"
  pq_assumptions :: "string list"
  pq_source_expectations :: "string list"
  pq_target_capabilities :: "string list"
  pq_quality_intent :: "string option"
  pq_delivery_intent :: "string option"
  pq_max_model_requests :: "int option"
  pq_max_model_tokens :: "int option"
  pq_max_cost_micro_usd :: "int option"
  pq_missing_field_codes :: "string list"
  pq_clarification_questions :: "string list"

definition ready_proposal_complete :: "requirement_proposal \<Rightarrow> bool" where
  "ready_proposal_complete v \<longleftrightarrow>
     pq_goals v \<noteq> [] \<and> pq_source_expectations v \<noteq> [] \<and> pq_target_capabilities v \<noteq> [] \<and>
     pq_quality_intent v \<noteq> None \<and> pq_delivery_intent v \<noteq> None \<and> pq_max_model_requests v \<noteq> None \<and>
     pq_max_model_tokens v \<noteq> None \<and> pq_max_cost_micro_usd v \<noteq> None"

definition validate_proposal :: "requirement_proposal \<Rightarrow> bool" where
  "validate_proposal v \<longleftrightarrow>
     min_length 1 (pq_assistant_message v) \<and> max_length 32768 (pq_assistant_message v) \<and>
     max_length 128 (pq_goals v) \<and> max_length 256 (pq_constraints v) \<and> max_length 256 (pq_assumptions v) \<and>
     max_length 256 (pq_source_expectations v) \<and> max_length 256 (pq_target_capabilities v) \<and>
     list_all is_identifier (pq_target_capabilities v) \<and>
     list_all (max_length 4000) (opt_list (pq_quality_intent v)) \<and>
     list_all (max_length 4000) (opt_list (pq_delivery_intent v)) \<and>
     list_all (in_range 0 10000000) (opt_list (pq_max_model_requests v)) \<and>
     list_all (in_range 0 10000000000) (opt_list (pq_max_model_tokens v)) \<and>
     list_all (in_range 0 10000000000000) (opt_list (pq_max_cost_micro_usd v)) \<and>
     max_length 64 (pq_missing_field_codes v) \<and> list_all is_identifier (pq_missing_field_codes v) \<and>
     max_length 32 (pq_clarification_questions v) \<and>
     list_all require_sorted_unique
       [pq_goals v, pq_constraints v, pq_assumptions v, pq_source_expectations v, pq_target_capabilities v,
        pq_missing_field_codes v, pq_clarification_questions v] \<and>
     (case pq_outcome v of
        PP_READY \<Rightarrow> ready_proposal_complete v \<and> pq_missing_field_codes v = [] \<and>
                    pq_clarification_questions v = []
      | PP_CLARIFICATION_REQUIRED \<Rightarrow> pq_missing_field_codes v \<noteq> [] \<and> pq_clarification_questions v \<noteq> []
      | PP_ABSTAINED \<Rightarrow> pq_missing_field_codes v = [] \<and> pq_clarification_questions v = [])"

record requirement_interpretation = harness_object +
  ri_interpretation_id :: string
  ri_session_ref :: object_ref
  ri_command_ref :: object_ref
  ri_user_message_ref :: object_ref
  ri_assistant_message_ref :: object_ref
  ri_proposal_ref :: "object_ref option"
  ri_gateway_result_ref :: "object_ref option"
  ri_outcome :: interpretation_outcome
  ri_evidence_class :: evidence_class
  ri_goals :: "string list"
  ri_constraints :: "string list"
  ri_assumptions :: "string list"
  ri_source_expectations :: "string list"
  ri_target_capabilities :: "string list"
  ri_quality_intent :: "string option"
  ri_delivery_intent :: "string option"
  ri_missing_field_codes :: "string list"
  ri_clarification_questions :: "string list"
  ri_reason_codes :: "string list"

definition validate_interpretation :: "requirement_interpretation \<Rightarrow> bool" where
  "validate_interpretation v \<longleftrightarrow>
     is_identifier (ri_interpretation_id v) \<and> list_all is_identifier (ri_target_capabilities v) \<and>
     list_all is_identifier (ri_missing_field_codes v) \<and> list_all is_identifier (ri_reason_codes v) \<and>
     require_ref (ri_session_ref v) ''harness-session'' \<and>
     require_ref (ri_command_ref v) ''session-command'' \<and>
     require_ref (ri_user_message_ref v) ''harness-message'' \<and>
     require_ref (ri_assistant_message_ref v) ''harness-message'' \<and>
     list_all require_sorted_unique
       [ri_goals v, ri_constraints v, ri_assumptions v, ri_source_expectations v, ri_target_capabilities v,
        ri_missing_field_codes v, ri_clarification_questions v, ri_reason_codes v] \<and>
     (ri_outcome v \<in> {RI_READY, RI_CLARIFICATION_REQUIRED, RI_ABSTAINED}) =
       (ri_proposal_ref v \<noteq> None \<and> ri_gateway_result_ref v \<noteq> None) \<and>
     (case ri_outcome v of
        RI_READY \<Rightarrow>
          ri_goals v \<noteq> [] \<and> ri_source_expectations v \<noteq> [] \<and> ri_target_capabilities v \<noteq> [] \<and>
          ri_quality_intent v \<noteq> None \<and> ri_delivery_intent v \<noteq> None \<and> ri_missing_field_codes v = [] \<and>
          ri_clarification_questions v = [] \<and> ri_reason_codes v = []
      | RI_CLARIFICATION_REQUIRED \<Rightarrow>
          ri_missing_field_codes v \<noteq> [] \<and> ri_clarification_questions v \<noteq> [] \<and> ri_reason_codes v = []
      | _ \<Rightarrow> ri_reason_codes v \<noteq> [])"

definition interpretation_refs :: "requirement_interpretation \<Rightarrow> object_ref list" where
  "interpretation_refs v =
     [ri_session_ref v, ri_command_ref v, ri_user_message_ref v, ri_assistant_message_ref v] @
     opt_list (ri_proposal_ref v) @ opt_list (ri_gateway_result_ref v)"

definition interpretation_class ::
  "(requirement_interpretation \<Rightarrow> string) \<Rightarrow> requirement_interpretation harness_class" where
  "interpretation_class dg =
     \<lparr>object_type = ''requirement-interpretation'', digest = dg, direct_refs = interpretation_refs,
      validates = validate_interpretation\<rparr>"

abbreviation interpretation_ref_of :: "requirement_interpretation \<Rightarrow> object_ref" where
  "interpretation_ref_of \<equiv> to_ref ''requirement-interpretation''"

text \<open>The four approval flags of a policy are literals of the class and carry no information.\<close>

record requirement_policy = harness_object +
  rq_policy_id :: string
  rq_interpretation_ref :: object_ref
  rq_data_classification :: string
  rq_residency :: string
  rq_max_model_requests :: int
  rq_max_model_tokens :: int
  rq_max_cost_micro_usd :: int

definition validate_requirement_policy :: "requirement_policy \<Rightarrow> bool" where
  "validate_requirement_policy v \<longleftrightarrow>
     list_all is_identifier [rq_policy_id v, rq_data_classification v, rq_residency v] \<and>
     in_range 0 10000000 (rq_max_model_requests v) \<and> in_range 0 10000000000 (rq_max_model_tokens v) \<and>
     in_range 0 10000000000000 (rq_max_cost_micro_usd v) \<and>
     require_ref (rq_interpretation_ref v) ''requirement-interpretation''"

definition requirement_policy_class ::
  "(requirement_policy \<Rightarrow> string) \<Rightarrow> requirement_policy harness_class" where
  "requirement_policy_class dg =
     \<lparr>object_type = ''harness-requirement-policy'', digest = dg,
      direct_refs = (\<lambda>v. [rq_interpretation_ref v]), validates = validate_requirement_policy\<rparr>"

abbreviation requirement_policy_ref_of :: "requirement_policy \<Rightarrow> object_ref" where
  "requirement_policy_ref_of \<equiv> to_ref ''harness-requirement-policy''"

section \<open>Gateway journals\<close>

record gateway_usage =
  gu_input_tokens :: int
  gu_output_tokens :: int
  gu_cache_creation_input_tokens :: int
  gu_cache_read_input_tokens :: int
  gu_charged_tokens :: int
  gu_reported_cost_micro_usd :: "int option"

definition validate_gateway_usage :: "gateway_usage \<Rightarrow> bool" where
  "validate_gateway_usage v \<longleftrightarrow>
     list_all (\<lambda>n. 0 \<le> n)
       ([gu_input_tokens v, gu_output_tokens v, gu_cache_creation_input_tokens v,
         gu_cache_read_input_tokens v, gu_charged_tokens v] @ opt_list (gu_reported_cost_micro_usd v)) \<and>
     gu_charged_tokens v = gu_input_tokens v + gu_output_tokens v + gu_cache_creation_input_tokens v +
       gu_cache_read_input_tokens v"

record gateway_journal = harness_object +
  gj_journal_id :: string
  gj_session_ref :: object_ref
  gj_command_ref :: object_ref
  gj_state :: journal_state
  gj_evidence_class :: evidence_class
  gj_route_ref :: object_ref
  gj_invocation_request_ref :: object_ref
  gj_prompt_template_ref :: object_ref
  gj_model_profile_ref :: object_ref
  gj_predecessor_journal_ref :: "object_ref option"
  gj_receipt_ref :: "object_ref option"
  gj_invocation_result_ref :: "object_ref option"
  gj_output_ref :: "object_ref option"
  gj_gateway_status :: "gateway_status option"
  gj_usage :: "gateway_usage option"
  gj_failure_code :: "string option"

definition require_ref_v2 :: "object_ref \<Rightarrow> string \<Rightarrow> bool" where
  "require_ref_v2 r ty \<longleftrightarrow> ref_type r = ty \<and> ref_version r = ''v2''"

definition journal_closure_empty :: "gateway_journal \<Rightarrow> bool" where
  "journal_closure_empty v \<longleftrightarrow>
     gj_receipt_ref v = None \<and> gj_invocation_result_ref v = None \<and> gj_gateway_status v = None \<and>
     gj_usage v = None"

definition journal_closure_full :: "gateway_journal \<Rightarrow> bool" where
  "journal_closure_full v \<longleftrightarrow>
     gj_receipt_ref v \<noteq> None \<and> gj_invocation_result_ref v \<noteq> None \<and> gj_gateway_status v \<noteq> None \<and>
     gj_usage v \<noteq> None"

definition validate_journal :: "gateway_journal \<Rightarrow> bool" where
  "validate_journal v \<longleftrightarrow>
     is_identifier (gj_journal_id v) \<and> list_all is_identifier (opt_list (gj_failure_code v)) \<and>
     list_all validate_gateway_usage (opt_list (gj_usage v)) \<and>
     require_ref (gj_session_ref v) ''harness-session'' \<and>
     require_ref (gj_command_ref v) ''session-command'' \<and>
     require_ref_v2 (gj_route_ref v) ''model-route-decision'' \<and>
     require_ref_v2 (gj_invocation_request_ref v) ''gateway-invocation-request'' \<and>
     require_ref_v2 (gj_prompt_template_ref v) ''prompt-template'' \<and>
     require_ref_v2 (gj_model_profile_ref v) ''model-capability-profile'' \<and>
     require_opt_ref (gj_predecessor_journal_ref v) ''harness-gateway-journal'' \<and>
     (case gj_state v of
        JOURNAL_PREPARED \<Rightarrow> journal_closure_empty v \<and> gj_output_ref v = None \<and> gj_failure_code v = None
      | JOURNAL_COMMITTED \<Rightarrow>
          journal_closure_full v \<and> gj_predecessor_journal_ref v \<noteq> None \<and>
          (if gj_gateway_status v = Some GW_SUCCEEDED
           then gj_output_ref v \<noteq> None \<and> gj_failure_code v = None
           else gj_output_ref v = None \<and> gj_failure_code v \<noteq> None)
      | UNKNOWN_OUTCOME \<Rightarrow>
          gj_predecessor_journal_ref v \<noteq> None \<and> gj_failure_code v \<noteq> None \<and> journal_closure_empty v)"

definition journal_refs :: "gateway_journal \<Rightarrow> object_ref list" where
  "journal_refs v =
     [gj_session_ref v, gj_command_ref v, gj_route_ref v, gj_invocation_request_ref v,
      gj_prompt_template_ref v, gj_model_profile_ref v] @ opt_list (gj_predecessor_journal_ref v) @
     opt_list (gj_receipt_ref v) @ opt_list (gj_invocation_result_ref v) @ opt_list (gj_output_ref v)"

definition journal_class :: "(gateway_journal \<Rightarrow> string) \<Rightarrow> gateway_journal harness_class" where
  "journal_class dg =
     \<lparr>object_type = ''harness-gateway-journal'', digest = dg, direct_refs = journal_refs,
      validates = validate_journal\<rparr>"

abbreviation journal_ref_of :: "gateway_journal \<Rightarrow> object_ref" where
  "journal_ref_of \<equiv> to_ref ''harness-gateway-journal''"

section \<open>Turn results\<close>

record turn_result = harness_object +
  tt_turn_id :: string
  tt_session_ref :: object_ref
  tt_command_ref :: object_ref
  tt_user_message_ref :: object_ref
  tt_assistant_message_ref :: "object_ref option"
  tt_interpretation_ref :: "object_ref option"
  tt_requirement_policy_ref :: "object_ref option"
  tt_gateway_journal_ref :: "object_ref option"
  tt_event_refs :: "object_ref list"
  tt_outcome :: turn_outcome
  tt_reason_codes :: "string list"

definition semantic_turn :: "turn_outcome \<Rightarrow> bool" where
  "semantic_turn outcome \<longleftrightarrow> outcome \<in> {TT_READY, TT_CLARIFICATION_REQUIRED}"

definition validate_turn :: "turn_result \<Rightarrow> bool" where
  "validate_turn v \<longleftrightarrow>
     is_identifier (tt_turn_id v) \<and> list_all is_identifier (tt_reason_codes v) \<and>
     min_length 1 (tt_event_refs v) \<and> max_length 10000 (tt_event_refs v) \<and>
     require_ref (tt_session_ref v) ''harness-session'' \<and>
     require_ref (tt_command_ref v) ''session-command'' \<and>
     require_ref (tt_user_message_ref v) ''harness-message'' \<and>
     require_sorted_unique_refs (tt_event_refs v) \<and> refs_of_type (tt_event_refs v) ''session-event'' \<and>
     (if semantic_turn (tt_outcome v)
      then tt_assistant_message_ref v \<noteq> None \<and> tt_interpretation_ref v \<noteq> None \<and>
           tt_gateway_journal_ref v \<noteq> None \<and> tt_reason_codes v = [] \<and>
           (if tt_outcome v = TT_READY then tt_requirement_policy_ref v \<noteq> None else True)
      else tt_reason_codes v \<noteq> [])"

definition turn_refs :: "turn_result \<Rightarrow> object_ref list" where
  "turn_refs v =
     [tt_session_ref v, tt_command_ref v, tt_user_message_ref v] @ opt_list (tt_assistant_message_ref v) @
     opt_list (tt_interpretation_ref v) @ opt_list (tt_requirement_policy_ref v) @
     opt_list (tt_gateway_journal_ref v) @ tt_event_refs v"

definition turn_class :: "(turn_result \<Rightarrow> string) \<Rightarrow> turn_result harness_class" where
  "turn_class dg =
     \<lparr>object_type = ''harness-turn-result'', digest = dg, direct_refs = turn_refs,
      validates = validate_turn\<rparr>"

abbreviation turn_ref_of :: "turn_result \<Rightarrow> object_ref" where
  "turn_ref_of \<equiv> to_ref ''harness-turn-result''"

section \<open>Read models\<close>

record transcript_message =
  tx_message_ref :: object_ref
  tx_role :: message_role
  tx_content :: string
  tx_artifact_envelope_refs :: "object_ref list"
  tx_created_at :: int

record gateway_summary =
  gs_journal_ref :: object_ref
  gs_state :: journal_state
  gs_evidence_class :: evidence_class
  gs_route_ref :: object_ref
  gs_invocation_result_ref :: "object_ref option"
  gs_gateway_status :: "gateway_status option"
  gs_model_profile_ref :: object_ref
  gs_prompt_template_ref :: object_ref
  gs_usage :: "gateway_usage option"
  gs_failure_code :: "string option"

record session_projection =
  sp_session :: session_state
  sp_transcript :: "transcript_message list"
  sp_event_refs :: "object_ref list"
  sp_current_interpretation_ref :: "object_ref option"
  sp_current_requirement_policy_ref :: "object_ref option"
  sp_latest_gateway :: "gateway_summary option"
  sp_pending_clarification_questions :: "string list"
  sp_source_fingerprint :: string

record event_page =
  ep_session_ref :: object_ref
  ep_after_sequence :: int
  ep_limit :: int
  ep_events :: "session_event list"
  ep_next_sequence :: "int option"

record session_page =
  pp_offset :: int
  pp_limit :: int
  pp_total :: int
  pp_sessions :: "session_state list"

section \<open>The classes keep the identity laws\<close>

lemma session_record_classes [simp]:
  "object_type (session_identity_class dg1) = ''harness-session''"
  "validates (session_identity_class dg1) = validate_session_identity"
  "object_type (harness_message_class sha dg2) = ''harness-message''"
  "validates (harness_message_class sha dg2) = validate_harness_message sha"
  "object_type (message_command_class dg3) = ''session-command''"
  "validates (message_command_class dg3) = validate_message_command"
  "object_type (interpretation_class dg4) = ''requirement-interpretation''"
  "validates (interpretation_class dg4) = validate_interpretation"
  "object_type (requirement_policy_class dg5) = ''harness-requirement-policy''"
  "validates (requirement_policy_class dg5) = validate_requirement_policy"
  "object_type (journal_class dg6) = ''harness-gateway-journal''"
  "validates (journal_class dg6) = validate_journal"
  "object_type (turn_class dg7) = ''harness-turn-result''"
  "validates (turn_class dg7) = validate_turn"
  by (simp_all add: session_identity_class_def harness_message_class_def message_command_class_def
      interpretation_class_def requirement_policy_class_def journal_class_def turn_class_def)

interpretation session_identity: harness_laws "session_identity_class dg" for dg
  by unfold_locales (simp_all add: session_identity_class_def)

interpretation harness_message: harness_laws "harness_message_class sha dg" for sha dg
  by unfold_locales (simp_all add: harness_message_class_def)

interpretation message_command: harness_laws "message_command_class dg" for dg
  by unfold_locales (simp_all add: message_command_class_def)

interpretation requirement_interpretation: harness_laws "interpretation_class dg" for dg
  by unfold_locales (simp_all add: interpretation_class_def interpretation_refs_def)

interpretation requirement_policy: harness_laws "requirement_policy_class dg" for dg
  by unfold_locales (simp_all add: requirement_policy_class_def)

interpretation gateway_journal: harness_laws "journal_class dg" for dg
  by unfold_locales (simp_all add: journal_class_def journal_refs_def)

interpretation turn_result: harness_laws "turn_class dg" for dg
  by unfold_locales (simp_all add: turn_class_def turn_refs_def)

lemma create_state_valid: "create_state dg ident n st l i p u = Inr v \<Longrightarrow> validate_state dg v"
  by (auto simp: create_state_def Let_def split: if_splits)

lemma create_state_Inr_iff:
  "create_state dg ident n st l i p u = Inr v \<longleftrightarrow>
     (let w = \<lparr>ss_session_ref = session_ref_of ident, ss_session_id = si_session_id ident,
               ss_incarnation_id = si_incarnation_id ident, ss_composition_ref = si_composition_ref ident,
               ss_session_version = n, ss_status = st, ss_last_event_sequence = l,
               ss_current_interpretation_ref = i, ss_current_requirement_policy_ref = p,
               ss_created_at = si_created_at ident, ss_updated_at = u, ss_state_sha256 = []\<rparr>
      in v = w\<lparr>ss_state_sha256 := state_digest dg w\<rparr> \<and> validate_state dg v)"
  by (auto simp: create_state_def Let_def)

end
