(* ===== verification/Session_Schema.thy ===== *)
theory Session_Schema
  imports Session_Records Store_Db
begin

text \<open>
  The SQLite schema of \<open>harness/session_store.py\<close>, modelled like the Team store: one record type per table
  row, the database as the record of its tables in insertion order, and one constrained \<open>INSERT\<close> per table.
  A \<open>*_json\<close> column holds the structured value. \<open>session_env\<close> collects what the code takes from outside:
  the digests of the record classes, SHA-256 of a text, of a request and of a projection source, and the
  fault hook.
\<close>

section \<open>Environment\<close>

text \<open>The dictionaries hashed by \<open>_hash_payload\<close>, and the dictionary of the projection fingerprint.\<close>

datatype session_request =
    CreateSessionRequest string string object_ref string
  | SessionVersionRequest string int object_ref
  | RuntimeEventRequest object_ref runtime_event "string option" "string option" "object_ref option"
  | TeamEventRequest object_ref object_ref int session_payload

record projection_content =
  pu_state :: session_state
  pu_messages :: "object_ref list"
  pu_events :: "object_ref list"
  pu_interpretation_ref :: "object_ref option"
  pu_policy_ref :: "object_ref option"
  pu_journal_ref :: "object_ref option"

record session_env =
  dg_session_identity :: "session_identity \<Rightarrow> string"
  dg_session_state :: "session_state \<Rightarrow> string"
  dg_session_event :: "session_event \<Rightarrow> string"
  dg_harness_message :: "harness_message \<Rightarrow> string"
  dg_message_command :: "message_command \<Rightarrow> string"
  dg_interpretation :: "requirement_interpretation \<Rightarrow> string"
  dg_requirement_policy :: "requirement_policy \<Rightarrow> string"
  dg_journal :: "gateway_journal \<Rightarrow> string"
  dg_turn :: "turn_result \<Rightarrow> string"
  dg_runtime_event :: "runtime_event \<Rightarrow> string"
  text_sha256 :: "string \<Rightarrow> string"
  session_request_sha256 :: "session_request \<Rightarrow> string"
  projection_sha256 :: "projection_content \<Rightarrow> string"
  session_fault :: "string \<Rightarrow> bool"

abbreviation identity_cls :: "session_env \<Rightarrow> session_identity harness_class" where
  "identity_cls e \<equiv> session_identity_class (dg_session_identity e)"

abbreviation sevent_cls :: "session_env \<Rightarrow> session_event harness_class" where
  "sevent_cls e \<equiv> session_event_class (dg_session_event e)"

abbreviation hmessage_cls :: "session_env \<Rightarrow> harness_message harness_class" where
  "hmessage_cls e \<equiv> harness_message_class (text_sha256 e) (dg_harness_message e)"

abbreviation mcommand_cls :: "session_env \<Rightarrow> message_command harness_class" where
  "mcommand_cls e \<equiv> message_command_class (dg_message_command e)"

abbreviation interpretation_cls :: "session_env \<Rightarrow> requirement_interpretation harness_class" where
  "interpretation_cls e \<equiv> interpretation_class (dg_interpretation e)"

abbreviation policy_cls :: "session_env \<Rightarrow> requirement_policy harness_class" where
  "policy_cls e \<equiv> requirement_policy_class (dg_requirement_policy e)"

abbreviation journal_cls :: "session_env \<Rightarrow> gateway_journal harness_class" where
  "journal_cls e \<equiv> journal_class (dg_journal e)"

abbreviation turn_cls :: "session_env \<Rightarrow> turn_result harness_class" where
  "turn_cls e \<equiv> turn_class (dg_turn e)"

definition session_fault_point :: "session_env \<Rightarrow> string \<Rightarrow> unit result" where
  "session_fault_point e point = guard (\<not> session_fault e point) (FaultInjected point)"

definition suffix_of :: "session_env \<Rightarrow> string \<Rightarrow> string" where
  "suffix_of e v = take 32 (text_sha256 e v)"

section \<open>Rows\<close>

record session_row =
  xs_session_id :: string
  xs_identity_id :: string
  xs_incarnation_id :: string
  xs_composition_id :: string
  xs_version :: int
  xs_status :: session_status
  xs_last_sequence :: int
  xs_state_sha256 :: string
  xs_identity :: session_identity
  xs_state :: session_state

record command_row =
  xc_object_id :: string
  xc_sha256 :: string
  xc_session_id :: string
  xc_idempotency_key :: string
  xc_user_message_id :: string
  xc_user_event_id :: string
  xc_record :: message_command

record smessage_row =
  xm_object_id :: string
  xm_sha256 :: string
  xm_session_id :: string
  xm_event_sequence :: int
  xm_final :: bool
  xm_record :: harness_message

record sevent_row =
  xe_session_id :: string
  xe_sequence :: int
  xe_object_id :: string
  xe_sha256 :: string
  xe_command_id :: "string option"
  xe_record :: session_event

record runtime_row =
  xr_object_id :: string
  xr_sha256 :: string
  xr_session_id :: string
  xr_runtime_id :: string
  xr_run_id :: string
  xr_work_id :: string
  xr_source_sequence :: int
  xr_kind :: runtime_event_kind
  xr_session_event_id :: string
  xr_record :: runtime_event

record journal_row =
  xj_object_id :: string
  xj_sha256 :: string
  xj_session_id :: string
  xj_command_id :: string
  xj_state :: journal_state
  xj_record :: gateway_journal

record journal_head_row =
  xk_command_id :: string
  xk_journal_id :: string

record interpretation_row =
  xi_object_id :: string
  xi_sha256 :: string
  xi_session_id :: string
  xi_command_id :: string
  xi_record :: requirement_interpretation

record policy_row =
  xp_object_id :: string
  xp_sha256 :: string
  xp_session_id :: string
  xp_interpretation_id :: string
  xp_record :: requirement_policy

record turn_row =
  xt_object_id :: string
  xt_sha256 :: string
  xt_session_id :: string
  xt_command_id :: string
  xt_record :: turn_result

record session_idempotency_row =
  xq_scope :: string
  xq_key :: string
  xq_request_sha256 :: string
  xq_response_type :: string
  xq_response_id :: string

record projection_row =
  xo_session_id :: string
  xo_fingerprint :: string
  xo_projection :: session_projection

record session_db =
  harness_sessions :: "session_row list"
  harness_commands :: "command_row list"
  harness_messages :: "smessage_row list"
  harness_events :: "sevent_row list"
  harness_runtime_events :: "runtime_row list"
  gateway_journals :: "journal_row list"
  journal_heads :: "journal_head_row list"
  harness_interpretations :: "interpretation_row list"
  requirement_policies :: "policy_row list"
  harness_turns :: "turn_row list"
  harness_idempotency :: "session_idempotency_row list"
  session_projections :: "projection_row list"

definition empty_session_db :: session_db where
  "empty_session_db =
     \<lparr>harness_sessions = [], harness_commands = [], harness_messages = [], harness_events = [],
      harness_runtime_events = [], gateway_journals = [], journal_heads = [], harness_interpretations = [],
      requirement_policies = [], harness_turns = [], harness_idempotency = [], session_projections = []\<rparr>"

section \<open>Constrained inserts\<close>

definition session_key :: "string \<Rightarrow> string \<Rightarrow> session_db \<Rightarrow> unit result" where
  "session_key table i d = foreign_key table xs_session_id (harness_sessions d) i"

definition command_key :: "string \<Rightarrow> string \<Rightarrow> session_db \<Rightarrow> unit result" where
  "command_key table i d = foreign_key table xc_object_id (harness_commands d) i"

definition insert_session :: "session_row \<Rightarrow> session_db \<Rightarrow> session_db result" where
  "insert_session r d =
     rbind (insert_row ''harness_sessions''
              (\<lambda>r x. xs_session_id x = xs_session_id r \<or> xs_identity_id x = xs_identity_id r \<or>
                     xs_incarnation_id x = xs_incarnation_id r) r (harness_sessions d))
       (\<lambda>rows. Inr (d\<lparr>harness_sessions := rows\<rparr>))"

definition insert_command :: "command_row \<Rightarrow> session_db \<Rightarrow> session_db result" where
  "insert_command r d =
     rbind (session_key ''harness_commands'' (xc_session_id r) d) (\<lambda>_.
     rbind (insert_row ''harness_commands''
              (\<lambda>r x. xc_object_id x = xc_object_id r \<or> xc_user_message_id x = xc_user_message_id r \<or>
                     xc_user_event_id x = xc_user_event_id r \<or>
                     (xc_session_id x = xc_session_id r \<and> xc_idempotency_key x = xc_idempotency_key r))
              r (harness_commands d))
       (\<lambda>rows. Inr (d\<lparr>harness_commands := rows\<rparr>)))"

definition insert_smessage_row :: "smessage_row \<Rightarrow> session_db \<Rightarrow> session_db result" where
  "insert_smessage_row r d =
     rbind (session_key ''harness_messages'' (xm_session_id r) d) (\<lambda>_.
     rbind (insert_row ''harness_messages''
              (\<lambda>r x. xm_object_id x = xm_object_id r \<or>
                     (xm_session_id x = xm_session_id r \<and> xm_event_sequence x = xm_event_sequence r))
              r (harness_messages d))
       (\<lambda>rows. Inr (d\<lparr>harness_messages := rows\<rparr>)))"

definition insert_sevent_row :: "sevent_row \<Rightarrow> session_db \<Rightarrow> session_db result" where
  "insert_sevent_row r d =
     rbind (session_key ''harness_events'' (xe_session_id r) d) (\<lambda>_.
     rbind (insert_row ''harness_events''
              (\<lambda>r x. xe_object_id x = xe_object_id r \<or>
                     (xe_session_id x = xe_session_id r \<and> xe_sequence x = xe_sequence r))
              r (harness_events d))
       (\<lambda>rows. Inr (d\<lparr>harness_events := rows\<rparr>)))"

definition insert_runtime_row :: "runtime_row \<Rightarrow> session_db \<Rightarrow> session_db result" where
  "insert_runtime_row r d =
     rbind (session_key ''harness_runtime_events'' (xr_session_id r) d) (\<lambda>_.
     rbind (foreign_key ''harness_runtime_events'' xe_object_id (harness_events d) (xr_session_event_id r)) (\<lambda>_.
     rbind (insert_row ''harness_runtime_events''
              (\<lambda>r x. xr_object_id x = xr_object_id r \<or> xr_session_event_id x = xr_session_event_id r \<or>
                     (xr_session_id x = xr_session_id r \<and> xr_runtime_id x = xr_runtime_id r \<and>
                      xr_run_id x = xr_run_id r \<and> xr_work_id x = xr_work_id r \<and>
                      xr_source_sequence x = xr_source_sequence r))
              r (harness_runtime_events d))
       (\<lambda>rows. Inr (d\<lparr>harness_runtime_events := rows\<rparr>))))"

definition insert_journal_row :: "journal_row \<Rightarrow> session_db \<Rightarrow> session_db result" where
  "insert_journal_row r d =
     rbind (session_key ''harness_gateway_journals'' (xj_session_id r) d) (\<lambda>_.
     rbind (command_key ''harness_gateway_journals'' (xj_command_id r) d) (\<lambda>_.
     rbind (insert_row ''harness_gateway_journals''
              (\<lambda>r x. xj_object_id x = xj_object_id r \<or>
                     (xj_command_id x = xj_command_id r \<and> xj_state x = xj_state r))
              r (gateway_journals d))
       (\<lambda>rows. Inr (d\<lparr>gateway_journals := rows\<rparr>))))"

definition insert_journal_head :: "journal_head_row \<Rightarrow> session_db \<Rightarrow> session_db result" where
  "insert_journal_head r d =
     rbind (command_key ''harness_gateway_journal_heads'' (xk_command_id r) d) (\<lambda>_.
     rbind (foreign_key ''harness_gateway_journal_heads'' xj_object_id (gateway_journals d) (xk_journal_id r)) (\<lambda>_.
     rbind (insert_row ''harness_gateway_journal_heads''
              (\<lambda>r x. xk_command_id x = xk_command_id r \<or> xk_journal_id x = xk_journal_id r)
              r (journal_heads d))
       (\<lambda>rows. Inr (d\<lparr>journal_heads := rows\<rparr>))))"

text \<open>\<open>UPDATE\<close> of the head of one command, under the same constraints.\<close>

definition move_journal_head :: "string \<Rightarrow> string \<Rightarrow> session_db \<Rightarrow> session_db result" where
  "move_journal_head command_id journal_id d =
     rbind (foreign_key ''harness_gateway_journal_heads'' xj_object_id (gateway_journals d) journal_id) (\<lambda>_.
     rbind (guard (\<not> list_ex (\<lambda>x. xk_command_id x \<noteq> command_id \<and> xk_journal_id x = journal_id) (journal_heads d))
              (SqlIntegrityError ''harness_gateway_journal_heads'')) (\<lambda>_.
     Inr (d\<lparr>journal_heads :=
            map (\<lambda>x. if xk_command_id x = command_id then x\<lparr>xk_journal_id := journal_id\<rparr> else x)
              (journal_heads d)\<rparr>)))"

definition insert_interpretation :: "interpretation_row \<Rightarrow> session_db \<Rightarrow> session_db result" where
  "insert_interpretation r d =
     rbind (session_key ''harness_interpretations'' (xi_session_id r) d) (\<lambda>_.
     rbind (command_key ''harness_interpretations'' (xi_command_id r) d) (\<lambda>_.
     rbind (insert_row ''harness_interpretations''
              (\<lambda>r x. xi_object_id x = xi_object_id r \<or> xi_command_id x = xi_command_id r)
              r (harness_interpretations d))
       (\<lambda>rows. Inr (d\<lparr>harness_interpretations := rows\<rparr>))))"

definition insert_policy :: "policy_row \<Rightarrow> session_db \<Rightarrow> session_db result" where
  "insert_policy r d =
     rbind (session_key ''harness_requirement_policies'' (xp_session_id r) d) (\<lambda>_.
     rbind (foreign_key ''harness_requirement_policies'' xi_object_id (harness_interpretations d)
              (xp_interpretation_id r)) (\<lambda>_.
     rbind (insert_row ''harness_requirement_policies''
              (\<lambda>r x. xp_object_id x = xp_object_id r \<or> xp_interpretation_id x = xp_interpretation_id r)
              r (requirement_policies d))
       (\<lambda>rows. Inr (d\<lparr>requirement_policies := rows\<rparr>))))"

definition insert_turn :: "turn_row \<Rightarrow> session_db \<Rightarrow> session_db result" where
  "insert_turn r d =
     rbind (session_key ''harness_turns'' (xt_session_id r) d) (\<lambda>_.
     rbind (command_key ''harness_turns'' (xt_command_id r) d) (\<lambda>_.
     rbind (insert_row ''harness_turns''
              (\<lambda>r x. xt_object_id x = xt_object_id r \<or> xt_command_id x = xt_command_id r)
              r (harness_turns d))
       (\<lambda>rows. Inr (d\<lparr>harness_turns := rows\<rparr>))))"

definition insert_session_idempotency :: "session_idempotency_row \<Rightarrow> session_db \<Rightarrow> session_db result" where
  "insert_session_idempotency r d =
     rbind (insert_row ''harness_idempotency''
              (\<lambda>r x. xq_scope x = xq_scope r \<and> xq_key x = xq_key r) r (harness_idempotency d))
       (\<lambda>rows. Inr (d\<lparr>harness_idempotency := rows\<rparr>))"

definition upsert_session_projection :: "projection_row \<Rightarrow> session_db \<Rightarrow> session_db result" where
  "upsert_session_projection r d =
     rbind (session_key ''harness_session_projections'' (xo_session_id r) d) (\<lambda>_.
     Inr (d\<lparr>session_projections := upsert xo_session_id r (session_projections d)\<rparr>))"

end
