(* ===== verification/Effect_Text.thy ===== *)
theory Effect_Text
  imports Contracts
begin

text \<open>
  The canonical JSON text of an object reference, and its parser. The Agent Shell stores the reference its
  reconcile intent binds as text in a response column (\<open>_shell_reconcile_effect_id\<close> and
  \<open>_shell_reconcile_effect_ref\<close> of \<open>harness/session_store.py\<close>). \<open>_parse\<close> refuses a text that is not the
  canonical rendering of a valid reference, so the parser only has to read the canonical layout; that the
  text is canonical is compared at the end, as the code does. The two refusals share one message here.
\<close>

section \<open>Rendering\<close>

definition hex_digit :: "nat \<Rightarrow> char" where
  "hex_digit n = char_of (if n < 10 then 48 + n else 87 + n)"

text \<open>\<open>json.dumps\<close> with \<open>ensure_ascii=False\<close> escapes the quote, the backslash and the control characters.\<close>

definition json_char :: "char \<Rightarrow> string" where
  "json_char c =
     (if c = CHR 0x22 then [CHR 0x5C, CHR 0x22]
      else if c = CHR 0x5C then [CHR 0x5C, CHR 0x5C]
      else if c = CHR 0x08 then [CHR 0x5C, CHR ''b'']
      else if c = CHR 0x09 then [CHR 0x5C, CHR ''t'']
      else if c = CHR 0x0A then [CHR 0x5C, CHR ''n'']
      else if c = CHR 0x0C then [CHR 0x5C, CHR ''f'']
      else if c = CHR 0x0D then [CHR 0x5C, CHR ''r'']
      else if (of_char c :: nat) < 32
      then [CHR 0x5C, CHR ''u'', CHR ''0'', CHR ''0'', hex_digit (of_char c div 16), hex_digit (of_char c mod 16)]
      else [c])"

definition json_body :: "string \<Rightarrow> string" where
  "json_body s = concat (map json_char s) @ [CHR 0x22]"

definition key_object_id :: string where "key_object_id = ''{\"object_id\":\"''"
definition key_object_sha256 :: string where "key_object_sha256 = '',\"object_sha256\":\"''"
definition key_object_type :: string where "key_object_type = '',\"object_type\":\"''"
definition key_object_version :: string where "key_object_version = '',\"object_version\":\"''"
definition ref_text_end :: string where
  "ref_text_end = '',\"schema_version\":\"eval-factory/object-ref/v1\"}''"

definition ref_text :: "object_ref \<Rightarrow> string" where
  "ref_text r =
     key_object_id @ json_body (ref_id r) @ key_object_sha256 @ json_body (ref_sha r) @
     key_object_type @ json_body (ref_type r) @ key_object_version @ json_body (ref_version r) @ ref_text_end"

section \<open>Reading\<close>

definition hex_value :: "char \<Rightarrow> nat option" where
  "hex_value c =
     (let n = of_char c
      in if 48 \<le> n \<and> n \<le> 57 then Some (n - 48)
         else if 97 \<le> n \<and> n \<le> 102 then Some (n - 87) else None)"

definition escaped_char :: "char \<Rightarrow> char option" where
  "escaped_char k =
     (if k = CHR 0x22 \<or> k = CHR 0x5C then Some k
      else if k = CHR ''b'' then Some (CHR 0x08) else if k = CHR ''t'' then Some (CHR 0x09)
      else if k = CHR ''n'' then Some (CHR 0x0A) else if k = CHR ''f'' then Some (CHR 0x0C)
      else if k = CHR ''r'' then Some (CHR 0x0D) else None)"

fun unicode_char :: "string \<Rightarrow> (char \<times> string) option" where
  "unicode_char (a # b # h # l # rest) =
     (case (hex_value h, hex_value l) of
        (Some x, Some y) \<Rightarrow> if a = CHR ''0'' \<and> b = CHR ''0'' then Some (char_of (16 * x + y), rest) else None
      | _ \<Rightarrow> None)"
| "unicode_char _ = None"

fun read_char :: "string \<Rightarrow> (char \<times> string) option" where
  "read_char (c # cs) =
     (if c \<noteq> CHR 0x5C then Some (c, cs)
      else (case cs of [] \<Rightarrow> None
            | k # rest \<Rightarrow>
                if k = CHR ''u'' then unicode_char rest
                else map_option (\<lambda>x. (x, rest)) (escaped_char k)))"
| "read_char [] = None"

lemma unicode_char_shorter: "unicode_char s = Some p \<Longrightarrow> length (snd p) < length s"
  by (induction s rule: unicode_char.induct) (auto split: option.splits if_splits)

lemma read_char_shorter: "read_char s = Some p \<Longrightarrow> length (snd p) < length s"
  by (induction s rule: read_char.induct)
     (auto split: list.splits if_splits dest!: unicode_char_shorter)

function read_body :: "string \<Rightarrow> (string \<times> string) option" where
  "read_body s =
     (case s of [] \<Rightarrow> None
      | c # cs \<Rightarrow>
          if c = CHR 0x22 then Some ([], cs)
          else (case read_char s of None \<Rightarrow> None
                | Some p \<Rightarrow> map_option (\<lambda>(xs, tail). (fst p # xs, tail)) (read_body (snd p))))"
  by pat_completeness auto
termination
  by (relation "measure length") (auto simp del: read_char.simps dest: read_char_shorter)

declare read_char.simps [simp del]
declare read_body.simps [simp del]

definition expect :: "string \<Rightarrow> string \<Rightarrow> string option" where
  "expect key s = (if take (length key) s = key then Some (drop (length key) s) else None)"

definition read_field :: "string \<Rightarrow> string \<Rightarrow> (string \<times> string) option" where
  "read_field key s = Option.bind (expect key s) read_body"

definition read_ref :: "string \<Rightarrow> object_ref option" where
  "read_ref s =
     Option.bind (read_field key_object_id s) (\<lambda>(i, s1).
     Option.bind (read_field key_object_sha256 s1) (\<lambda>(sha, s2).
     Option.bind (read_field key_object_type s2) (\<lambda>(ty, s3).
     Option.bind (read_field key_object_version s3) (\<lambda>(ver, s4).
     if s4 = ref_text_end then Some (ObjectRef ty i ver sha) else None))))"

text \<open>The field constraints of \<open>ObjectRef\<close>.\<close>

definition is_sha256 :: "string \<Rightarrow> bool" where
  "is_sha256 s \<longleftrightarrow> length s = 64 \<and>
     list_all (\<lambda>c. (CHR ''a'' \<le> c \<and> c \<le> CHR ''f'') \<or> (CHR ''0'' \<le> c \<and> c \<le> CHR ''9'')) s"

definition validate_object_ref :: "object_ref \<Rightarrow> bool" where
  "validate_object_ref r \<longleftrightarrow>
     is_identifier (ref_type r) \<and> is_identifier (ref_id r) \<and>
     min_length 1 (ref_version r) \<and> max_length 64 (ref_version r) \<and> is_sha256 (ref_sha r)"

definition parse_ref :: "string \<Rightarrow> object_ref result" where
  "parse_ref s =
     (case read_ref s of
        Some r \<Rightarrow>
          if validate_object_ref r \<and> ref_text r = s then Inr r
          else Inl (HarnessSessionIntegrityError ''Agent Shell reconcile effect ref is invalid'')
      | None \<Rightarrow> Inl (HarnessSessionIntegrityError ''Agent Shell reconcile effect ref is invalid''))"

section \<open>The optional reference of a reconcile intent\<close>

definition no_graph_binding :: string where
  "no_graph_binding = ''NO_GRAPH_BINDING''"

definition effect_id :: "object_ref option \<Rightarrow> string" where
  "effect_id r = (case r of None \<Rightarrow> no_graph_binding | Some x \<Rightarrow> ref_text x)"

definition effect_ref :: "string \<Rightarrow> object_ref option result" where
  "effect_ref s =
     (if s = no_graph_binding then Inr None else rbind (parse_ref s) (\<lambda>r. Inr (Some r)))"

section \<open>Round trip\<close>

lemma hex_value_digit: "n < 16 \<Longrightarrow> hex_value (hex_digit n) = Some n"
  by (auto simp: hex_value_def hex_digit_def Let_def of_char_of)

lemma read_char_json: "read_char (json_char c @ rest) = Some (c, rest)"
proof (cases "(of_char c :: nat) < 32")
  case True
  have "16 * (of_char c div 16) + of_char c mod 16 = (of_char c :: nat)" by simp
  then have "char_of (16 * (of_char c div 16) + of_char c mod 16 :: nat) = c" by (simp only: char_of_char)
  then show ?thesis
    using True by (simp add: json_char_def read_char.simps escaped_char_def hex_value_digit)
next
  case False
  then show ?thesis by (simp add: json_char_def read_char.simps escaped_char_def)
qed

lemma json_char_no_quote: "\<exists>a as. json_char c = a # as \<and> a \<noteq> CHR 0x22"
  by (simp add: json_char_def)

lemma read_body_json: "read_body (json_body s @ rest) = Some (s, rest)"
proof (induction s)
  case Nil
  then show ?case by (simp add: json_body_def read_body.simps)
next
  case (Cons c s)
  obtain a as where a: "json_char c = a # as" "a \<noteq> CHR 0x22" using json_char_no_quote by blast
  have split: "json_body (c # s) @ rest = json_char c @ (json_body s @ rest)" by (simp add: json_body_def)
  have "read_char (json_body (c # s) @ rest) = Some (c, json_body s @ rest)"
    unfolding split by (rule read_char_json)
  then show ?case
    using Cons.IH a split by (subst read_body.simps) simp
qed

lemma read_field_text: "read_field key (key @ json_body s @ rest) = Some (s, rest)"
  by (simp add: read_field_def expect_def read_body_json)

lemma read_ref_text: "read_ref (ref_text r) = Some r"
  by (cases r) (simp add: read_ref_def ref_text_def read_field_text)

lemma parse_ref_text: "validate_object_ref r \<Longrightarrow> parse_ref (ref_text r) = Inr r"
  by (simp add: parse_ref_def read_ref_text)

lemma ref_text_not_marker: "ref_text r \<noteq> no_graph_binding"
  by (simp add: ref_text_def no_graph_binding_def key_object_id_def)

text \<open>A reconcile intent is read back as it was written.\<close>

lemma effect_roundtrip:
  "(case r of None \<Rightarrow> True | Some x \<Rightarrow> validate_object_ref x) \<Longrightarrow> effect_ref (effect_id r) = Inr r"
  by (cases r) (simp_all add: effect_ref_def effect_id_def parse_ref_text ref_text_not_marker)

text \<open>Only a canonical text is read.\<close>

lemma parse_ref_canonical: "parse_ref s = Inr r \<Longrightarrow> ref_text r = s \<and> validate_object_ref r"
  by (auto simp: parse_ref_def split: option.splits if_splits)

end
