(* ===== verification/Session_Loads.thy ===== *)
theory Session_Loads
  imports Session_Schema Effect_Text
begin

text \<open>
  The private helpers of \<open>HarnessSessionStore\<close>: parsing stored records, loading and writing the session row,
  inserting messages, events and journals, loading by identity, building, writing and loading the projection,
  and the idempotency table.
\<close>

section \<open>Parsing\<close>

definition parse_session ::
  "'a harness_object_scheme harness_class \<Rightarrow> string \<Rightarrow> 'a harness_object_scheme
     \<Rightarrow> 'a harness_object_scheme result" where
  "parse_session cls label v =
     (if validate_derived_identity cls v \<and> validates cls v then Inr v
      else Inl (HarnessSessionIntegrityError (invalid_message label)))"

definition parse_state :: "session_env \<Rightarrow> session_state \<Rightarrow> session_state result" where
  "parse_state e v =
     (if validate_state (dg_session_state e) v then Inr v
      else Inl (HarnessSessionIntegrityError ''session state is invalid''))"

definition parse_projection :: "session_env \<Rightarrow> session_projection \<Rightarrow> session_projection result" where
  "parse_projection e v =
     (if validate_state (dg_session_state e) (sp_session v) then Inr v
      else Inl (HarnessSessionIntegrityError ''session projection is invalid''))"

definition parse_runtime_event :: "session_env \<Rightarrow> runtime_event \<Rightarrow> runtime_event result" where
  "parse_runtime_event e v =
     (if validate_runtime_event (dg_runtime_event e) v then Inr v
      else Inl (HarnessSessionIntegrityError ''runtime event is invalid''))"

section \<open>Sessions\<close>

definition find_session :: "session_db \<Rightarrow> string \<Rightarrow> session_row option" where
  "find_session d sid = find (\<lambda>r. xs_session_id r = sid) (harness_sessions d)"

definition parse_state_row :: "session_env \<Rightarrow> session_row \<Rightarrow> session_state result" where
  "parse_state_row e r =
     rbind (parse_state e (xs_state r)) (\<lambda>st.
     rbind (guard (ss_session_id st = xs_session_id r \<and> ss_incarnation_id st = xs_incarnation_id r \<and>
                   ref_id (ss_composition_ref st) = xs_composition_id r \<and>
                   ss_session_version st = xs_version r \<and> ss_status st = xs_status r \<and>
                   ss_last_event_sequence st = xs_last_sequence r \<and> ss_state_sha256 st = xs_state_sha256 r)
              (HarnessSessionIntegrityError ''session state columns drifted'')) (\<lambda>_.
     Inr st))"

definition load_session :: "session_env \<Rightarrow> session_db \<Rightarrow> string \<Rightarrow> (session_state \<times> session_identity) result" where
  "load_session e d sid =
     (case find_session d sid of
        None \<Rightarrow> Inl (HarnessSessionNotFoundError ''Harness session was not found'')
      | Some r \<Rightarrow>
          rbind (parse_state_row e r) (\<lambda>st.
          rbind (parse_session (identity_cls e) ''session identity'' (xs_identity r)) (\<lambda>ident.
          rbind (guard (object_id ident = xs_identity_id r \<and> si_session_id ident = sid \<and>
                        si_incarnation_id ident = xs_incarnation_id r \<and>
                        ref_id (si_composition_ref ident) = xs_composition_id r)
                   (HarnessSessionIntegrityError ''session identity columns drifted'')) (\<lambda>_.
          Inr (st, ident)))))"

definition set_state :: "session_state \<Rightarrow> session_row \<Rightarrow> session_row" where
  "set_state st r =
     r\<lparr>xs_version := ss_session_version st, xs_status := ss_status st,
       xs_last_sequence := ss_last_event_sequence st, xs_state_sha256 := ss_state_sha256 st, xs_state := st\<rparr>"

definition update_state :: "session_state \<Rightarrow> session_db \<Rightarrow> session_db result" where
  "update_state st d =
     (if find_session d (ss_session_id st) = None
      then Inl (HarnessSessionNotFoundError ''Harness session was not found'')
      else Inr (d\<lparr>harness_sessions :=
                    map (\<lambda>r. if xs_session_id r = ss_session_id st then set_state st r else r)
                      (harness_sessions d)\<rparr>))"

section \<open>Inserts\<close>

definition add_message :: "string \<Rightarrow> harness_message \<Rightarrow> int \<Rightarrow> session_db \<Rightarrow> session_db result" where
  "add_message sid m n d =
     insert_smessage_row
       \<lparr>xm_object_id = object_id m, xm_sha256 = object_sha256 m, xm_session_id = sid,
        xm_event_sequence = n, xm_final = hm_final m, xm_record = m\<rparr> d"

definition add_event :: "string \<Rightarrow> session_event \<Rightarrow> string option \<Rightarrow> session_db \<Rightarrow> session_db result" where
  "add_event sid ev command_id d =
     insert_sevent_row
       \<lparr>xe_session_id = sid, xe_sequence = se_sequence ev, xe_object_id = object_id ev,
        xe_sha256 = object_sha256 ev, xe_command_id = command_id, xe_record = ev\<rparr> d"

definition add_journal :: "string \<Rightarrow> string \<Rightarrow> gateway_journal \<Rightarrow> session_db \<Rightarrow> session_db result" where
  "add_journal sid command_id j d =
     insert_journal_row
       \<lparr>xj_object_id = object_id j, xj_sha256 = object_sha256 j, xj_session_id = sid,
        xj_command_id = command_id, xj_state = gj_state j, xj_record = j\<rparr> d"

section \<open>Loading by identity\<close>

definition head_journal_row :: "session_db \<Rightarrow> string \<Rightarrow> journal_row option" where
  "head_journal_row d command_id =
     Option.bind (find (\<lambda>h. xk_command_id h = command_id) (journal_heads d)) (\<lambda>h.
     find (\<lambda>j. xj_object_id j = xk_journal_id h) (gateway_journals d))"

definition load_journal_head :: "session_env \<Rightarrow> session_db \<Rightarrow> string \<Rightarrow> gateway_journal option result" where
  "load_journal_head e d command_id =
     (case head_journal_row d command_id of
        None \<Rightarrow> Inr None
      | Some r \<Rightarrow>
          rbind (parse_session (journal_cls e) ''Gateway journal'' (xj_record r)) (\<lambda>j.
          rbind (guard (object_id j = xj_object_id r \<and> object_sha256 j = xj_sha256 r \<and> gj_state j = xj_state r)
                   (HarnessSessionIntegrityError ''Gateway journal columns drifted'')) (\<lambda>_.
          Inr (Some j))))"

definition load_message_by_id :: "session_env \<Rightarrow> session_db \<Rightarrow> string \<Rightarrow> harness_message result" where
  "load_message_by_id e d i =
     (case find (\<lambda>r. xm_object_id r = i) (harness_messages d) of
        None \<Rightarrow> Inl (HarnessSessionIntegrityError ''session message is missing'')
      | Some r \<Rightarrow>
          rbind (parse_session (hmessage_cls e) ''session message'' (xm_record r)) (\<lambda>m.
          rbind (guard (object_id m = xm_object_id r \<and> object_sha256 m = xm_sha256 r \<and> hm_final m = xm_final r)
                   (HarnessSessionIntegrityError ''session message columns drifted'')) (\<lambda>_.
          Inr m)))"

definition find_event :: "session_db \<Rightarrow> string \<Rightarrow> sevent_row option" where
  "find_event d i = find (\<lambda>r. xe_object_id r = i) (harness_events d)"

definition load_event_by_id :: "session_env \<Rightarrow> session_db \<Rightarrow> string \<Rightarrow> session_event result" where
  "load_event_by_id e d i =
     (case find_event d i of
        None \<Rightarrow> Inl (HarnessSessionIntegrityError ''session event is missing'')
      | Some r \<Rightarrow> parse_session (sevent_cls e) ''session event'' (xe_record r))"

definition load_user_event_ref :: "session_env \<Rightarrow> session_db \<Rightarrow> message_command \<Rightarrow> object_ref result" where
  "load_user_event_ref e d command =
     (case find (\<lambda>r. xc_object_id r = object_id command) (harness_commands d) of
        None \<Rightarrow> Inl (HarnessSessionIntegrityError ''session command is missing'')
      | Some r \<Rightarrow> rbind (load_event_by_id e d (xc_user_event_id r)) (\<lambda>ev. Inr (session_event_ref_of ev)))"

definition load_turn_by_command :: "session_env \<Rightarrow> session_db \<Rightarrow> string \<Rightarrow> turn_result option result" where
  "load_turn_by_command e d command_id =
     (case find (\<lambda>r. xt_command_id r = command_id) (harness_turns d) of
        None \<Rightarrow> Inr None
      | Some r \<Rightarrow>
          rbind (parse_session (turn_cls e) ''session turn'' (xt_record r)) (\<lambda>t.
          rbind (guard (object_id t = xt_object_id r \<and> object_sha256 t = xt_sha256 r)
                   (HarnessSessionIntegrityError ''session turn columns drifted'')) (\<lambda>_.
          Inr (Some t))))"

section \<open>The projection\<close>

definition session_event_rows :: "session_db \<Rightarrow> string \<Rightarrow> sevent_row list" where
  "session_event_rows d sid = sort_key xe_sequence (filter (\<lambda>r. xe_session_id r = sid) (harness_events d))"

definition final_message_rows :: "session_db \<Rightarrow> string \<Rightarrow> smessage_row list" where
  "final_message_rows d sid =
     sort_key xm_event_sequence (filter (\<lambda>r. xm_session_id r = sid \<and> xm_final r) (harness_messages d))"

definition current_questions ::
  "session_env \<Rightarrow> session_db \<Rightarrow> object_ref option \<Rightarrow> string list result" where
  "current_questions e d r =
     (case r of
        None \<Rightarrow> Inr []
      | Some ref \<Rightarrow>
          (case find (\<lambda>x. xi_object_id x = ref_id ref) (harness_interpretations d) of
             None \<Rightarrow> Inl (HarnessSessionIntegrityError ''current interpretation is missing'')
           | Some row \<Rightarrow>
               rbind (parse_session (interpretation_cls e) ''requirement interpretation'' (xi_record row)) (\<lambda>i.
               rbind (guard (interpretation_ref_of i = ref)
                        (HarnessSessionIntegrityError ''current interpretation ref drifted'')) (\<lambda>_.
               Inr (if ri_outcome i = RI_CLARIFICATION_REQUIRED then ri_clarification_questions i else [])))))"

text \<open>Rows of \<open>harness_commands\<close> are never deleted, so their order of insertion is that of their row ids.\<close>

definition latest_journal_row :: "session_db \<Rightarrow> string \<Rightarrow> journal_row option" where
  "latest_journal_row d sid =
     (let joined = concat (map (\<lambda>c. opt_list (head_journal_row d (xc_object_id c)))
                            (filter (\<lambda>c. xc_session_id c = sid) (harness_commands d)))
      in if joined = [] then None else Some (last joined))"

definition summary_of :: "gateway_journal \<Rightarrow> gateway_summary" where
  "summary_of j =
     \<lparr>gs_journal_ref = journal_ref_of j, gs_state = gj_state j, gs_evidence_class = gj_evidence_class j,
      gs_route_ref = gj_route_ref j, gs_invocation_result_ref = gj_invocation_result_ref j,
      gs_gateway_status = gj_gateway_status j, gs_model_profile_ref = gj_model_profile_ref j,
      gs_prompt_template_ref = gj_prompt_template_ref j, gs_usage = gj_usage j,
      gs_failure_code = gj_failure_code j\<rparr>"

definition latest_summary :: "session_env \<Rightarrow> session_db \<Rightarrow> string \<Rightarrow> gateway_summary option result" where
  "latest_summary e d sid =
     (case latest_journal_row d sid of
        None \<Rightarrow> Inr None
      | Some r \<Rightarrow>
          rbind (parse_session (journal_cls e) ''Gateway journal'' (xj_record r)) (\<lambda>j. Inr (Some (summary_of j))))"

definition transcript_of :: "harness_message \<Rightarrow> transcript_message" where
  "transcript_of m =
     \<lparr>tx_message_ref = harness_message_ref_of m, tx_role = hm_role m, tx_content = hm_content m,
      tx_artifact_envelope_refs = hm_artifact_envelope_refs m, tx_created_at = hm_created_at m\<rparr>"

definition projection_of ::
  "session_env \<Rightarrow> session_state \<Rightarrow> harness_message list \<Rightarrow> session_event list \<Rightarrow> string list \<Rightarrow>
   gateway_summary option \<Rightarrow> session_projection" where
  "projection_of e st msgs events questions summary =
     \<lparr>sp_session = st, sp_transcript = map transcript_of msgs,
      sp_event_refs = map session_event_ref_of events,
      sp_current_interpretation_ref = ss_current_interpretation_ref st,
      sp_current_requirement_policy_ref = ss_current_requirement_policy_ref st,
      sp_latest_gateway = summary, sp_pending_clarification_questions = questions,
      sp_source_fingerprint =
        projection_sha256 e
          \<lparr>pu_state = st, pu_messages = map harness_message_ref_of msgs,
           pu_events = map session_event_ref_of events,
           pu_interpretation_ref = ss_current_interpretation_ref st,
           pu_policy_ref = ss_current_requirement_policy_ref st,
           pu_journal_ref = map_option gs_journal_ref summary\<rparr>\<rparr>"

definition build_session_projection :: "session_env \<Rightarrow> session_db \<Rightarrow> string \<Rightarrow> session_projection result" where
  "build_session_projection e d sid =
     rbind (load_session e d sid) (\<lambda>(st, _).
     rbind (rmap (\<lambda>r. load_message_by_id e d (xm_object_id r)) (final_message_rows d sid)) (\<lambda>msgs.
     rbind (rmap (\<lambda>r. parse_session (sevent_cls e) ''session event'' (xe_record r)) (session_event_rows d sid)) (\<lambda>events.
     rbind (current_questions e d (ss_current_interpretation_ref st)) (\<lambda>questions.
     rbind (latest_summary e d sid) (\<lambda>summary.
     Inr (projection_of e st msgs events questions summary))))))"

definition write_session_projection :: "session_projection \<Rightarrow> session_db \<Rightarrow> session_db result" where
  "write_session_projection p d =
     upsert_session_projection
       \<lparr>xo_session_id = ss_session_id (sp_session p), xo_fingerprint = sp_source_fingerprint p, xo_projection = p\<rparr> d"

definition refresh_projection :: "session_env \<Rightarrow> string \<Rightarrow> session_db \<Rightarrow> (session_db \<times> session_projection) result" where
  "refresh_projection e sid d =
     rbind (build_session_projection e d sid) (\<lambda>p. rbind (write_session_projection p d) (\<lambda>d'. Inr (d', p)))"

definition load_session_projection :: "session_env \<Rightarrow> session_db \<Rightarrow> string \<Rightarrow> session_projection result" where
  "load_session_projection e d sid =
     (case find (\<lambda>r. xo_session_id r = sid) (session_projections d) of
        None \<Rightarrow>
          if find_session d sid = None
          then Inl (HarnessSessionNotFoundError ''Harness session was not found'')
          else Inl (HarnessSessionIntegrityError ''session projection is missing'')
      | Some r \<Rightarrow>
          rbind (parse_projection e (xo_projection r)) (\<lambda>p.
          rbind (guard (sp_source_fingerprint p = xo_fingerprint r)
                   (HarnessSessionIntegrityError ''session projection fingerprint drifted'')) (\<lambda>_.
          Inr p)))"

section \<open>Idempotency\<close>

definition idempotency_row_of :: "session_db \<Rightarrow> string \<Rightarrow> string \<Rightarrow> session_idempotency_row option" where
  "idempotency_row_of d scope key =
     find (\<lambda>r. xq_scope r = scope \<and> xq_key r = key) (harness_idempotency d)"

definition check_idempotency ::
  "session_db \<Rightarrow> string \<Rightarrow> string \<Rightarrow> string \<Rightarrow> string \<Rightarrow> string option result" where
  "check_idempotency d scope key request response_type =
     (case idempotency_row_of d scope key of
        None \<Rightarrow> Inr None
      | Some r \<Rightarrow>
          if xq_request_sha256 r \<noteq> request \<or> xq_response_type r \<noteq> response_type
          then Inl (HarnessSessionConflictError ''idempotency key already binds another request'')
          else Inr (Some (xq_response_id r)))"

definition add_idempotency ::
  "string \<Rightarrow> string \<Rightarrow> string \<Rightarrow> string \<Rightarrow> string \<Rightarrow> session_db \<Rightarrow> session_db result" where
  "add_idempotency scope key request response_type response_id d =
     insert_session_idempotency
       \<lparr>xq_scope = scope, xq_key = key, xq_request_sha256 = request, xq_response_type = response_type,
        xq_response_id = response_id\<rparr> d"

end
