(* ===== verification/Session_Store.thy ===== *)
theory Session_Store
  imports Session_Loads
begin

text \<open>
  The operations of \<open>HarnessSessionStore\<close> (\<open>harness/session_store.py\<close>). A writing operation is a function from
  the database it sees to an error or the database it commits with its answer, run by \<open>transact\<close>; a replay
  returns the database unchanged. Reads are functions of the database. \<open>clk i\<close> is the i-th reading of the
  clock inside the operation.
\<close>

section \<open>Identifiers and scopes\<close>

definition event_id_for :: "string \<Rightarrow> int \<Rightarrow> string" where
  "event_id_for sid n = ''session-event://'' @ sid @ ''/'' @ dec n"

definition team_event_id_for :: "session_env \<Rightarrow> string \<Rightarrow> object_ref \<Rightarrow> string" where
  "team_event_id_for e sid source = ''session-event://'' @ sid @ ''/team/'' @ suffix_of e (ref_id source)"

definition runtime_event_id_for :: "session_env \<Rightarrow> string \<Rightarrow> runtime_event \<Rightarrow> string" where
  "runtime_event_id_for e sid ev =
     ''session-event://'' @ sid @ ''/runtime/'' @ suffix_of e (re_runtime_event_id ev)"

definition command_id_for :: "session_env \<Rightarrow> string \<Rightarrow> string \<Rightarrow> string" where
  "command_id_for e sid key = ''session-command://'' @ sid @ ''/'' @ suffix_of e key"

definition user_message_id_for :: "string \<Rightarrow> int \<Rightarrow> string" where
  "user_message_id_for sid n = ''harness-message://'' @ sid @ ''/'' @ dec n @ ''/user''"

definition turn_id_of :: "session_env \<Rightarrow> message_command \<Rightarrow> string" where
  "turn_id_of e command = ''harness-turn://'' @ suffix_of e (object_id command)"

definition create_scope :: string where "create_scope = ''create-harness-session''"

definition close_scope :: "string \<Rightarrow> string" where
  "close_scope sid = ''close-harness-session:'' @ sid"

definition reconcile_scope :: "string \<Rightarrow> string" where
  "reconcile_scope sid = ''agent-shell-reconcile:'' @ sid"

definition turn_scope :: "string \<Rightarrow> string" where
  "turn_scope sid = ''session-turn:'' @ sid"

definition runtime_scope :: "string \<Rightarrow> string" where
  "runtime_scope sid = ''append-runtime-event:'' @ sid"

definition team_scope :: "string \<Rightarrow> string" where
  "team_scope sid = ''append-team-event:'' @ sid"

section \<open>Events and successor states\<close>

text \<open>
  Every operation builds the reference of the session at the version it moves to, the event, and the next
  state. \<open>at_version\<close> is the reference \<open>HarnessSessionRefV1\<close> of the session with that version.
\<close>

definition at_version :: "session_state \<Rightarrow> int \<Rightarrow> harness_session_ref result" where
  "at_version st version = to_session_ref (st\<lparr>ss_session_version := version\<rparr>)"

definition make_session_event ::
  "session_env \<Rightarrow> contract_audit \<Rightarrow> string \<Rightarrow> harness_session_ref \<Rightarrow> int \<Rightarrow> int \<Rightarrow> string option \<Rightarrow> string option \<Rightarrow>
   object_ref option \<Rightarrow> session_payload \<Rightarrow> int \<Rightarrow> session_event result" where
  "make_session_event e aud event_id session sequence authority turn_id step_id command_ref payload occurred =
     create (sevent_cls e) aud
       \<lparr>object_id = [], object_sha256 = [], audit = no_audit, se_event_id = event_id, se_session = session,
        se_sequence = sequence, se_authority_version = authority, se_turn_id = turn_id, se_step_id = step_id,
        se_command_ref = command_ref, se_payload = payload, se_occurred_at = occurred\<rparr>"

definition next_state ::
  "session_env \<Rightarrow> session_identity \<Rightarrow> session_state \<Rightarrow> session_status \<Rightarrow> int \<Rightarrow> int \<Rightarrow> session_state result" where
  "next_state e ident st status last_sequence now =
     create_state (dg_session_state e) ident (ss_session_version st + 1) status last_sequence
       (ss_current_interpretation_ref st) (ss_current_requirement_policy_ref st) now"

section \<open>Opening and closing a session\<close>

definition create_session_fresh ::
  "session_env \<Rightarrow> (nat \<Rightarrow> int) \<Rightarrow> string \<Rightarrow> string \<Rightarrow> object_ref \<Rightarrow> string \<Rightarrow> string \<Rightarrow> string \<Rightarrow> contract_audit \<Rightarrow>
   session_db \<Rightarrow> (session_db \<times> session_projection) result" where
  "create_session_fresh e clk sid incarnation composition creator key request aud d =
     rbind (create (identity_cls e) aud
              \<lparr>object_id = [], object_sha256 = [], audit = no_audit, si_session_id = sid,
               si_incarnation_id = incarnation, si_composition_ref = composition, si_created_by = creator,
               si_created_at = clk 0\<rparr>) (\<lambda>ident.
     rbind (create_state (dg_session_state e) ident 1 SESSION_ACTIVE 1 None None (clk 0)) (\<lambda>st.
     rbind (to_session_ref st) (\<lambda>session.
     rbind (make_session_event e aud (event_id_for sid 1) session 1 1 None None None
              (SessionLifecyclePayload SESSION_OPENED) (clk 0)) (\<lambda>ev.
     rbind (insert_session
              \<lparr>xs_session_id = sid, xs_identity_id = object_id ident, xs_incarnation_id = incarnation,
               xs_composition_id = ref_id composition, xs_version = ss_session_version st,
               xs_status = ss_status st, xs_last_sequence = ss_last_event_sequence st,
               xs_state_sha256 = ss_state_sha256 st, xs_identity = ident, xs_state = st\<rparr> d) (\<lambda>d1.
     rbind (add_event sid ev None d1) (\<lambda>d2.
     rbind (refresh_projection e sid d2) (\<lambda>(d3, p).
     rbind (add_idempotency create_scope key request ''harness-session'' sid d3) (\<lambda>d4.
     rbind (session_fault_point e ''before_create_session_commit'') (\<lambda>_.
     Inr (d4, p))))))))))"

text \<open>Any \<open>sqlite3.IntegrityError\<close> of the creation becomes a conflict.\<close>

fun as_conflict :: "'a result \<Rightarrow> 'a result" where
  "as_conflict (Inl (SqlIntegrityError t)) =
     Inl (HarnessSessionConflictError ''session authority already exists'')"
| "as_conflict r = r"

definition create_session ::
  "session_env \<Rightarrow> (nat \<Rightarrow> int) \<Rightarrow> string \<Rightarrow> string \<Rightarrow> object_ref \<Rightarrow> string \<Rightarrow> string \<Rightarrow> contract_audit \<Rightarrow>
   session_db \<Rightarrow> (session_db \<times> session_projection) result" where
  "create_session e clk sid incarnation composition creator key aud d =
     (let request = session_request_sha256 e (CreateSessionRequest sid incarnation composition creator)
      in as_conflict (rbind (check_idempotency d create_scope key request ''harness-session'') (\<lambda>replayed.
         case replayed of
           Some i \<Rightarrow> rbind (load_session_projection e d i) (\<lambda>p. Inr (d, p))
         | None \<Rightarrow> create_session_fresh e clk sid incarnation composition creator key request aud d)))"

definition close_session_fresh ::
  "session_env \<Rightarrow> (nat \<Rightarrow> int) \<Rightarrow> string \<Rightarrow> int \<Rightarrow> string \<Rightarrow> string \<Rightarrow> contract_audit \<Rightarrow>
   session_db \<Rightarrow> (session_db \<times> session_projection) result" where
  "close_session_fresh e clk sid expected key request aud d =
     rbind (load_session e d sid) (\<lambda>(st, ident).
     rbind (guard (ss_status st \<noteq> SESSION_STATUS_CLOSED)
              (HarnessSessionConflictError ''session is already closed'')) (\<lambda>_.
     rbind (guard (ss_session_version st = expected)
              (HarnessSessionConcurrencyError ''session version is stale'')) (\<lambda>_.
     rbind (next_state e ident st SESSION_STATUS_CLOSED (ss_last_event_sequence st + 1) (clk 0)) (\<lambda>st'.
     rbind (to_session_ref st') (\<lambda>session.
     rbind (make_session_event e aud (event_id_for sid (ss_last_event_sequence st')) session (ss_last_event_sequence st')
              (ss_session_version st') None None None (SessionLifecyclePayload SESSION_CLOSED) (clk 0)) (\<lambda>ev.
     rbind (update_state st' d) (\<lambda>d1.
     rbind (add_event sid ev None d1) (\<lambda>d2.
     rbind (refresh_projection e sid d2) (\<lambda>(d3, p).
     rbind (add_idempotency (close_scope sid) key request ''harness-session'' sid d3) (\<lambda>d4.
     rbind (session_fault_point e ''before_close_session_commit'') (\<lambda>_.
     Inr (d4, p))))))))))))"

definition close_session ::
  "session_env \<Rightarrow> (nat \<Rightarrow> int) \<Rightarrow> string \<Rightarrow> int \<Rightarrow> object_ref \<Rightarrow> string \<Rightarrow> contract_audit \<Rightarrow>
   session_db \<Rightarrow> (session_db \<times> session_projection) result" where
  "close_session e clk sid expected principal_ref key aud d =
     (let request = session_request_sha256 e (SessionVersionRequest sid expected principal_ref)
      in rbind (check_idempotency d (close_scope sid) key request ''harness-session'') (\<lambda>replayed.
         case replayed of
           Some i \<Rightarrow>
             rbind (load_session_projection e d i) (\<lambda>p.
             rbind (guard (ss_status (sp_session p) = SESSION_STATUS_CLOSED)
                      (HarnessSessionIntegrityError ''closed session replay is not closed'')) (\<lambda>_.
             Inr (d, p)))
         | None \<Rightarrow> close_session_fresh e clk sid expected key request aud d))"

section \<open>Reconcile intents of the Agent Shell\<close>

record shell_reconcile_claim =
  rl_replay :: bool
  rl_effect_ref :: "object_ref option"

definition reconcile_intent :: string where
  "reconcile_intent = ''agent-shell-reconcile-intent''"

definition claim_shell_reconcile ::
  "session_env \<Rightarrow> string \<Rightarrow> int \<Rightarrow> object_ref \<Rightarrow> string \<Rightarrow> object_ref option \<Rightarrow>
   session_db \<Rightarrow> (session_db \<times> shell_reconcile_claim) result" where
  "claim_shell_reconcile e sid expected principal_ref key effect d =
     (let request = session_request_sha256 e (SessionVersionRequest sid expected principal_ref)
      in rbind (check_idempotency d (reconcile_scope sid) key request reconcile_intent) (\<lambda>replayed.
         case replayed of
           Some i \<Rightarrow> rbind (effect_ref i) (\<lambda>r. Inr (d, \<lparr>rl_replay = True, rl_effect_ref = r\<rparr>))
         | None \<Rightarrow>
             rbind (load_session e d sid) (\<lambda>(st, _).
             rbind (guard (ss_session_version st = expected)
                      (HarnessSessionConcurrencyError ''Agent Shell reconcile uses stale session authority'')) (\<lambda>_.
             rbind (add_idempotency (reconcile_scope sid) key request reconcile_intent (effect_id effect) d) (\<lambda>d1.
             rbind (session_fault_point e ''before_shell_reconcile_claim_commit'') (\<lambda>_.
             Inr (d1, \<lparr>rl_replay = False, rl_effect_ref = effect\<rparr>)))))))"

definition has_message_command :: "session_env \<Rightarrow> session_db \<Rightarrow> string \<Rightarrow> string \<Rightarrow> bool result" where
  "has_message_command e d sid key =
     rbind (load_session e d sid) (\<lambda>_.
     Inr (list_ex (\<lambda>r. xc_session_id r = sid \<and> xc_idempotency_key r = key) (harness_commands d)))"

section \<open>Turns\<close>

record turn_start =
  ts_state :: session_state
  ts_command :: message_command
  ts_user_message :: harness_message
  ts_user_event :: session_event
  ts_replay :: "turn_result option"

definition make_command ::
  "session_env \<Rightarrow> string \<Rightarrow> session_state \<Rightarrow> int \<Rightarrow> object_ref \<Rightarrow> string \<Rightarrow> object_ref list \<Rightarrow> string \<Rightarrow> contract_audit \<Rightarrow>
   message_command result" where
  "make_command e sid st expected principal_ref content artifacts key aud =
     create (mcommand_cls e) aud
       \<lparr>object_id = [], object_sha256 = [], audit = no_audit, mc_command_id = command_id_for e sid key,
        mc_session_ref = ss_session_ref st, mc_expected_session_version = expected,
        mc_principal_ref = principal_ref, mc_content_sha256 = text_sha256 e content,
        mc_artifact_envelope_refs = sorted_refs artifacts, mc_idempotency_key = key\<rparr>"

definition replay_turn ::
  "session_env \<Rightarrow> session_state \<Rightarrow> message_command \<Rightarrow> command_row \<Rightarrow> session_db \<Rightarrow>
   (session_db \<times> turn_start) result" where
  "replay_turn e st command row d =
     rbind (parse_session (mcommand_cls e) ''session command'' (xc_record row)) (\<lambda>stored.
     rbind (guard (message_command_ref_of stored = message_command_ref_of command)
              (HarnessSessionConflictError ''session idempotency key already binds another command'')) (\<lambda>_.
     rbind (load_message_by_id e d (xc_user_message_id row)) (\<lambda>m.
     rbind (load_event_by_id e d (xc_user_event_id row)) (\<lambda>ev.
     rbind (load_turn_by_command e d (object_id command)) (\<lambda>t.
     Inr (d, \<lparr>ts_state = st, ts_command = command, ts_user_message = m, ts_user_event = ev,
              ts_replay = t\<rparr>))))))"

definition start_turn_fresh ::
  "session_env \<Rightarrow> (nat \<Rightarrow> int) \<Rightarrow> string \<Rightarrow> session_state \<Rightarrow> session_identity \<Rightarrow> message_command \<Rightarrow> int \<Rightarrow> string \<Rightarrow>
   object_ref list \<Rightarrow> contract_audit \<Rightarrow> session_db \<Rightarrow> (session_db \<times> turn_start) result" where
  "start_turn_fresh e clk sid st ident command expected content artifacts aud d =
     rbind (guard (ss_status st = SESSION_ACTIVE) (HarnessSessionConflictError ''session is not active'')) (\<lambda>_.
     rbind (guard (ss_session_version st = expected)
              (HarnessSessionConcurrencyError ''session version is stale'')) (\<lambda>_.
     rbind (create_harness_message (text_sha256 e) (dg_harness_message e) aud
              \<lparr>object_id = [], object_sha256 = [], audit = no_audit,
               hm_message_id = user_message_id_for sid (ss_last_event_sequence st + 1),
               hm_session_ref = ss_session_ref st, hm_role = USER_ROLE, hm_content = content,
               hm_content_sha256 = [], hm_artifact_envelope_refs = artifacts, hm_chunk_index = None,
               hm_final = True, hm_created_at = clk 0\<rparr>) (\<lambda>m.
     rbind (next_state e ident st SESSION_ACTIVE (ss_last_event_sequence st + 1) (clk 0)) (\<lambda>st'.
     rbind (to_session_ref st') (\<lambda>session.
     rbind (make_session_event e aud (event_id_for sid (ss_last_event_sequence st')) session (ss_last_event_sequence st')
              (ss_session_version st') (Some (turn_id_of e command)) None (Some (message_command_ref_of command))
              (SessionMessagePayload SE_USER_MESSAGE (harness_message_ref_of m) (hm_artifact_envelope_refs m))
              (clk 0)) (\<lambda>ev.
     rbind (insert_command
              \<lparr>xc_object_id = object_id command, xc_sha256 = object_sha256 command, xc_session_id = sid,
               xc_idempotency_key = mc_idempotency_key command, xc_user_message_id = object_id m,
               xc_user_event_id = object_id ev, xc_record = command\<rparr> d) (\<lambda>d1.
     rbind (add_message sid m (ss_last_event_sequence st') d1) (\<lambda>d2.
     rbind (add_event sid ev (Some (object_id command)) d2) (\<lambda>d3.
     rbind (update_state st' d3) (\<lambda>d4.
     rbind (refresh_projection e sid d4) (\<lambda>(d5, _).
     rbind (session_fault_point e ''before_turn_prefix_commit'') (\<lambda>_.
     Inr (d5, \<lparr>ts_state = st', ts_command = command, ts_user_message = m, ts_user_event = ev,
               ts_replay = None\<rparr>)))))))))))))"

definition start_turn ::
  "session_env \<Rightarrow> (nat \<Rightarrow> int) \<Rightarrow> string \<Rightarrow> int \<Rightarrow> object_ref \<Rightarrow> string \<Rightarrow> object_ref list \<Rightarrow> string \<Rightarrow> contract_audit \<Rightarrow>
   session_db \<Rightarrow> (session_db \<times> turn_start) result" where
  "start_turn e clk sid expected principal_ref content artifacts key aud d =
     rbind (load_session e d sid) (\<lambda>(st, ident).
     rbind (make_command e sid st expected principal_ref (strip content) artifacts key aud) (\<lambda>command.
     case find (\<lambda>r. xc_session_id r = sid \<and> xc_idempotency_key r = key) (harness_commands d) of
       Some row \<Rightarrow> replay_turn e st command row d
     | None \<Rightarrow> start_turn_fresh e clk sid st ident command expected (strip content) artifacts aud d))"

definition record_prepared_journal ::
  "session_env \<Rightarrow> (nat \<Rightarrow> int) \<Rightarrow> string \<Rightarrow> message_command \<Rightarrow> gateway_journal \<Rightarrow> session_db \<Rightarrow>
   (session_db \<times> gateway_journal) result" where
  "record_prepared_journal e clk sid command j d =
     rbind (guard (gj_state j = JOURNAL_PREPARED)
              (HarnessSessionConflictError ''initial Gateway journal must be PREPARED'')) (\<lambda>_.
     rbind (load_session e d sid) (\<lambda>(st, ident).
     rbind (load_journal_head e d (object_id command)) (\<lambda>existing.
     case existing of
       Some old \<Rightarrow>
         rbind (guard (old = j)
                  (HarnessSessionConflictError ''Gateway journal already has different authority'')) (\<lambda>_.
         Inr (d, old))
     | None \<Rightarrow>
         rbind (add_journal sid (object_id command) j d) (\<lambda>d1.
         rbind (insert_journal_head \<lparr>xk_command_id = object_id command, xk_journal_id = object_id j\<rparr> d1) (\<lambda>d2.
         rbind (next_state e ident st (ss_status st) (ss_last_event_sequence st) (clk 0)) (\<lambda>st'.
         rbind (update_state st' d2) (\<lambda>d3.
         rbind (refresh_projection e sid d3) (\<lambda>(d4, _).
         rbind (session_fault_point e ''before_prepared_journal_commit'') (\<lambda>_.
         Inr (d4, j)))))))))) "

section \<open>Completing a turn\<close>

definition turn_event ::
  "session_env \<Rightarrow> contract_audit \<Rightarrow> string \<Rightarrow> session_state \<Rightarrow> int \<Rightarrow> int \<Rightarrow> message_command \<Rightarrow> session_payload \<Rightarrow>
   int \<Rightarrow> session_event result" where
  "turn_event e aud sid st version sequence command payload occurred =
     rbind (at_version st version) (\<lambda>session.
     make_session_event e aud (event_id_for sid sequence) session sequence version (Some (turn_id_of e command)) None
       (Some (message_command_ref_of command)) payload occurred)"

definition assistant_kind :: "harness_message \<Rightarrow> session_message_event_kind" where
  "assistant_kind m = (if hm_final m then ASSISTANT_MESSAGE else ASSISTANT_CHUNK)"

text \<open>The loop over the assistant messages; \<open>n\<close> is the sequence of the last event so far.\<close>

fun append_messages ::
  "session_env \<Rightarrow> contract_audit \<Rightarrow> string \<Rightarrow> session_state \<Rightarrow> int \<Rightarrow> message_command \<Rightarrow> int \<Rightarrow>
   harness_message list \<Rightarrow> session_db \<Rightarrow> (session_db \<times> session_event list) result" where
  "append_messages e aud sid st version command n [] d = Inr (d, [])"
| "append_messages e aud sid st version command n (m # ms) d =
     rbind (turn_event e aud sid st version (n + 1) command
              (SessionMessagePayload (assistant_kind m) (harness_message_ref_of m) (hm_artifact_envelope_refs m))
              (hm_created_at m)) (\<lambda>ev.
     rbind (add_message sid m (n + 1) d) (\<lambda>d1.
     rbind (add_event sid ev (Some (object_id command)) d1) (\<lambda>d2.
     rbind (append_messages e aud sid st version command (n + 1) ms d2) (\<lambda>(d3, evs).
     Inr (d3, ev # evs)))))"

definition gateway_kind :: "gateway_journal \<Rightarrow> session_gateway_event_kind" where
  "gateway_kind j =
     (if gj_state j = UNKNOWN_OUTCOME then GATEWAY_UNKNOWN
      else if gj_failure_code j = None then GATEWAY_COMPLETED else GATEWAY_FAILED)"

fun requirement_kind :: "turn_outcome \<Rightarrow> session_requirement_event_kind" where
  "requirement_kind TT_READY = REQUIREMENT_READY"
| "requirement_kind TT_CLARIFICATION_REQUIRED = SE_CLARIFICATION_REQUIRED"
| "requirement_kind _ = REQUIREMENT_BLOCKED"

definition append_turn_events ::
  "session_env \<Rightarrow> (nat \<Rightarrow> int) \<Rightarrow> contract_audit \<Rightarrow> string \<Rightarrow> session_state \<Rightarrow> message_command \<Rightarrow>
   gateway_journal \<Rightarrow> harness_message list \<Rightarrow> requirement_interpretation \<Rightarrow> turn_outcome \<Rightarrow> session_db \<Rightarrow>
   (session_db \<times> session_event list) result" where
  "append_turn_events e clk aud sid st command committed msgs interpretation outcome d =
     (let version = ss_session_version st + 1; n = ss_last_event_sequence st + int (length msgs)
      in rbind (append_messages e aud sid st version command (ss_last_event_sequence st) msgs d) (\<lambda>(d1, evs).
         rbind (turn_event e aud sid st version (n + 1) command
                  (SessionGatewayPayload (gateway_kind committed) (journal_ref_of committed)) (clk 0)) (\<lambda>gev.
         rbind (add_event sid gev (Some (object_id command)) d1) (\<lambda>d2.
         rbind (turn_event e aud sid st version (n + 2) command
                  (SessionRequirementPayload (requirement_kind outcome) (interpretation_ref_of interpretation))
                  (clk 1)) (\<lambda>rev.
         rbind (add_event sid rev (Some (object_id command)) d2) (\<lambda>d3.
         Inr (d3, evs @ [gev, rev])))))))"

definition make_turn ::
  "session_env \<Rightarrow> contract_audit \<Rightarrow> session_state \<Rightarrow> message_command \<Rightarrow> gateway_journal \<Rightarrow> harness_message \<Rightarrow>
   requirement_interpretation \<Rightarrow> requirement_policy option \<Rightarrow> object_ref list \<Rightarrow> turn_outcome \<Rightarrow>
   turn_result result" where
  "make_turn e aud st command committed final interpretation policy events outcome =
     create (turn_cls e) aud
       \<lparr>object_id = [], object_sha256 = [], audit = no_audit, tt_turn_id = turn_id_of e command,
        tt_session_ref = ss_session_ref st, tt_command_ref = message_command_ref_of command,
        tt_user_message_ref = ri_user_message_ref interpretation,
        tt_assistant_message_ref = Some (harness_message_ref_of final),
        tt_interpretation_ref = Some (interpretation_ref_of interpretation),
        tt_requirement_policy_ref = map_option requirement_policy_ref_of policy,
        tt_gateway_journal_ref = Some (journal_ref_of committed),
        tt_event_refs = sorted_refs events, tt_outcome = outcome,
        tt_reason_codes = ri_reason_codes interpretation\<rparr>"

definition store_policy :: "string \<Rightarrow> string \<Rightarrow> requirement_policy option \<Rightarrow> session_db \<Rightarrow> session_db result" where
  "store_policy sid interpretation_id policy d =
     (case policy of
        None \<Rightarrow> Inr d
      | Some p \<Rightarrow>
          insert_policy
            \<lparr>xp_object_id = object_id p, xp_sha256 = object_sha256 p, xp_session_id = sid,
             xp_interpretation_id = interpretation_id, xp_record = p\<rparr> d)"

definition store_turn_records ::
  "string \<Rightarrow> message_command \<Rightarrow> gateway_journal \<Rightarrow> requirement_interpretation \<Rightarrow> requirement_policy option \<Rightarrow>
   turn_result \<Rightarrow> session_db \<Rightarrow> session_db result" where
  "store_turn_records sid command committed interpretation policy turn d =
     rbind (add_journal sid (object_id command) committed d) (\<lambda>d1.
     rbind (move_journal_head (object_id command) (object_id committed) d1) (\<lambda>d2.
     rbind (insert_interpretation
              \<lparr>xi_object_id = object_id interpretation, xi_sha256 = object_sha256 interpretation,
               xi_session_id = sid, xi_command_id = object_id command, xi_record = interpretation\<rparr> d2) (\<lambda>d3.
     rbind (store_policy sid (object_id interpretation) policy d3) (\<lambda>d4.
     insert_turn
       \<lparr>xt_object_id = object_id turn, xt_sha256 = object_sha256 turn, xt_session_id = sid,
        xt_command_id = object_id command, xt_record = turn\<rparr> d4))))"

definition completed_state ::
  "session_env \<Rightarrow> session_identity \<Rightarrow> session_state \<Rightarrow> int \<Rightarrow> requirement_interpretation \<Rightarrow>
   requirement_policy option \<Rightarrow> turn_outcome \<Rightarrow> int \<Rightarrow> session_state result" where
  "completed_state e ident st last_sequence interpretation policy outcome now =
     create_state (dg_session_state e) ident (ss_session_version st + 1)
       (if semantic_turn outcome then SESSION_ACTIVE else SESSION_BLOCKED) last_sequence
       (Some (interpretation_ref_of interpretation))
       (case policy of Some p \<Rightarrow> Some (requirement_policy_ref_of p) | None \<Rightarrow> ss_current_requirement_policy_ref st) now"

definition complete_turn_fresh ::
  "session_env \<Rightarrow> (nat \<Rightarrow> int) \<Rightarrow> string \<Rightarrow> message_command \<Rightarrow> gateway_journal \<Rightarrow> gateway_journal \<Rightarrow>
   harness_message list \<Rightarrow> requirement_interpretation \<Rightarrow> requirement_policy option \<Rightarrow> turn_outcome \<Rightarrow>
   contract_audit \<Rightarrow> session_db \<Rightarrow> (session_db \<times> turn_result) result" where
  "complete_turn_fresh e clk sid command prepared committed msgs interpretation policy outcome aud d =
     rbind (load_session e d sid) (\<lambda>(st, ident).
     rbind (load_journal_head e d (object_id command)) (\<lambda>head.
     rbind (guard (head = Some prepared)
              (HarnessSessionIntegrityError ''turn completion does not bind current prepared journal'')) (\<lambda>_.
     rbind (guard (gj_predecessor_journal_ref committed = Some (journal_ref_of prepared))
              (HarnessSessionConflictError ''Gateway journal successor does not bind prepared authority'')) (\<lambda>_.
     rbind (only (HarnessSessionConflictError ''turn completion requires one final assistant message'')
              (filter hm_final msgs)) (\<lambda>final.
     rbind (append_turn_events e clk aud sid st command committed msgs interpretation outcome d) (\<lambda>(d1, evs).
     rbind (load_user_event_ref e d1 command) (\<lambda>user_ref.
     rbind (make_turn e aud st command committed final interpretation policy
              (user_ref # map session_event_ref_of evs) outcome) (\<lambda>turn.
     rbind (store_turn_records sid command committed interpretation policy turn d1) (\<lambda>d2.
     rbind (completed_state e ident st (ss_last_event_sequence st + int (length msgs) + 2) interpretation
              policy outcome (clk 2)) (\<lambda>st'.
     rbind (update_state st' d2) (\<lambda>d3.
     rbind (refresh_projection e sid d3) (\<lambda>(d4, _).
     rbind (add_idempotency (turn_scope sid) (mc_idempotency_key command) (object_sha256 command)
              ''harness-turn-result'' (object_id turn) d4) (\<lambda>d5.
     rbind (session_fault_point e ''before_turn_completion_commit'') (\<lambda>_.
     Inr (d5, turn)))))))))))))))"

definition complete_turn ::
  "session_env \<Rightarrow> (nat \<Rightarrow> int) \<Rightarrow> string \<Rightarrow> message_command \<Rightarrow> gateway_journal \<Rightarrow> gateway_journal \<Rightarrow>
   harness_message list \<Rightarrow> requirement_interpretation \<Rightarrow> requirement_policy option \<Rightarrow> turn_outcome \<Rightarrow>
   contract_audit \<Rightarrow> session_db \<Rightarrow> (session_db \<times> turn_result) result" where
  "complete_turn e clk sid command prepared committed msgs interpretation policy outcome aud d =
     rbind (load_turn_by_command e d (object_id command)) (\<lambda>replayed.
     case replayed of
       Some t \<Rightarrow> Inr (d, t)
     | None \<Rightarrow>
         complete_turn_fresh e clk sid command prepared committed msgs interpretation policy outcome aud d)"

end
