(* ===== verification/Session_Streams.thy ===== *)
theory Session_Streams
  imports Session_Store
begin

text \<open>
  The two operations by which other stores append to a session (\<open>append_runtime_event\<close>, \<open>append_team_event\<close>),
  the projection rebuild, and the reads of \<open>HarnessSessionStore\<close>, with the thin client of
  \<open>harness/session_service.py\<close>.
\<close>

section \<open>Runtime events\<close>

definition session_id_of :: "session_db \<Rightarrow> object_ref \<Rightarrow> string result" where
  "session_id_of d session_ref =
     (case find (\<lambda>r. xs_identity_id r = ref_id session_ref) (harness_sessions d) of
        None \<Rightarrow> Inl (HarnessSessionNotFoundError ''Harness session was not found'')
      | Some r \<Rightarrow> Inr (xs_session_id r))"

definition runtime_columns_match :: "runtime_event \<Rightarrow> runtime_row \<Rightarrow> bool" where
  "runtime_columns_match v r \<longleftrightarrow>
     re_runtime_event_sha256 v = xr_sha256 r \<and> re_runtime_id v = xr_runtime_id r \<and> re_run_id v = xr_run_id r \<and>
     re_work_id v = xr_work_id r \<and> re_sequence v = xr_source_sequence r \<and> re_kind v = xr_kind r"

definition projects_runtime_event :: "runtime_event \<Rightarrow> session_event \<Rightarrow> bool" where
  "projects_runtime_event v ev \<longleftrightarrow>
     se_payload ev = SessionRuntimePayload (re_kind v) (re_runtime_id v) (runtime_event_ref v)"

text \<open>The event is already projected: check the binding and answer with the stored session event.\<close>

definition rebind_runtime_event ::
  "session_env \<Rightarrow> string \<Rightarrow> runtime_event \<Rightarrow> runtime_row \<Rightarrow> string \<Rightarrow> string \<Rightarrow> session_db \<Rightarrow>
   (session_db \<times> session_event) result" where
  "rebind_runtime_event e sid v row key request d =
     rbind (parse_runtime_event e (xr_record row)) (\<lambda>stored.
     rbind (guard (stored = v)
              (HarnessSessionConflictError ''runtime event identity already binds another value'')) (\<lambda>_.
     rbind (guard (xr_session_id row = sid)
              (HarnessSessionConflictError ''runtime event is already projected by another session'')) (\<lambda>_.
     rbind (guard (runtime_columns_match stored row)
              (HarnessSessionIntegrityError ''runtime event columns drifted'')) (\<lambda>_.
     rbind (load_event_by_id e d (xr_session_event_id row)) (\<lambda>ev.
     rbind (guard (projects_runtime_event v ev)
              (HarnessSessionIntegrityError ''runtime event projection drifted'')) (\<lambda>_.
     rbind (add_idempotency (runtime_scope sid) key request ''session-event'' (object_id ev) d) (\<lambda>d1.
     Inr (d1, ev))))))))"

text \<open>The rows of one source stream, and the ordering rules of a new event.\<close>

definition stream_rows :: "session_db \<Rightarrow> string \<Rightarrow> string \<times> string \<times> string \<Rightarrow> runtime_row list" where
  "stream_rows d sid stream =
     filter (\<lambda>r. xr_session_id r = sid \<and> (xr_runtime_id r, xr_run_id r, xr_work_id r) = stream)
       (harness_runtime_events d)"

definition stream_of :: "runtime_event \<Rightarrow> string \<times> string \<times> string" where
  "stream_of v = (re_runtime_id v, re_run_id v, re_work_id v)"

definition admit_runtime_event :: "runtime_row list \<Rightarrow> runtime_event \<Rightarrow> unit result" where
  "admit_runtime_event rows v =
     (let prior = latest_by xr_source_sequence rows
      in rbind (guard (re_sequence v = (case prior of None \<Rightarrow> 1 | Some r \<Rightarrow> xr_source_sequence r + 1))
                  (HarnessSessionConflictError ''runtime event source sequence is not contiguous'')) (\<lambda>_.
         rbind (guard (case prior of None \<Rightarrow> re_kind v = RUN_STARTED | Some _ \<Rightarrow> True)
                  (HarnessSessionConflictError ''runtime event stream must start with RUN_STARTED'')) (\<lambda>_.
         rbind (guard (case prior of None \<Rightarrow> True | Some _ \<Rightarrow> re_kind v \<noteq> RUN_STARTED)
                  (HarnessSessionConflictError ''runtime event stream cannot restart'')) (\<lambda>_.
         rbind (guard (case prior of None \<Rightarrow> True | Some r \<Rightarrow> xr_kind r \<notin> {RUN_COMPLETED, RUN_FAILED})
                  (HarnessSessionConflictError ''runtime event cannot follow a terminal event'')) (\<lambda>_.
         guard (if re_kind v \<in> {RUN_COMPLETED, RUN_FAILED} then list_ex (\<lambda>r. xr_kind r = USAGE_REPORTED) rows
                else True)
           (HarnessSessionConflictError ''runtime terminal event requires prior usage''))))))"

definition append_runtime_fresh ::
  "session_env \<Rightarrow> (nat \<Rightarrow> int) \<Rightarrow> string \<Rightarrow> object_ref \<Rightarrow> runtime_event \<Rightarrow> contract_audit \<Rightarrow> string \<Rightarrow>
   string option \<Rightarrow> string option \<Rightarrow> object_ref option \<Rightarrow> string \<Rightarrow> session_db \<Rightarrow>
   (session_db \<times> session_event) result" where
  "append_runtime_fresh e clk sid session_ref v aud key turn_id step_id command_ref request d =
     rbind (load_session e d sid) (\<lambda>(st, ident).
     rbind (guard (ss_session_ref st = session_ref)
              (HarnessSessionConcurrencyError ''runtime event uses stale Harness session authority'')) (\<lambda>_.
     rbind (admit_runtime_event (stream_rows d sid (stream_of v)) v) (\<lambda>_.
     rbind (next_state e ident st (ss_status st) (ss_last_event_sequence st + 1) (clk 0)) (\<lambda>st'.
     rbind (to_session_ref st') (\<lambda>session.
     rbind (make_session_event e aud (runtime_event_id_for e sid v) session (ss_last_event_sequence st')
              (ss_session_version st') turn_id step_id command_ref
              (SessionRuntimePayload (re_kind v) (re_runtime_id v) (runtime_event_ref v)) (re_occurred_at v)) (\<lambda>ev.
     rbind (add_event sid ev (map_option ref_id command_ref) d) (\<lambda>d1.
     rbind (insert_runtime_row
              \<lparr>xr_object_id = re_runtime_event_id v, xr_sha256 = re_runtime_event_sha256 v, xr_session_id = sid,
               xr_runtime_id = re_runtime_id v, xr_run_id = re_run_id v, xr_work_id = re_work_id v,
               xr_source_sequence = re_sequence v, xr_kind = re_kind v, xr_session_event_id = object_id ev,
               xr_record = v\<rparr> d1) (\<lambda>d2.
     rbind (update_state st' d2) (\<lambda>d3.
     rbind (refresh_projection e sid d3) (\<lambda>(d4, _).
     rbind (add_idempotency (runtime_scope sid) key request ''session-event'' (object_id ev) d4) (\<lambda>d5.
     rbind (session_fault_point e ''before_runtime_event_commit'') (\<lambda>_.
     Inr (d5, ev)))))))))))))"

definition append_runtime_event ::
  "session_env \<Rightarrow> (nat \<Rightarrow> int) \<Rightarrow> object_ref \<Rightarrow> runtime_event \<Rightarrow> contract_audit \<Rightarrow> string \<Rightarrow> string option \<Rightarrow>
   string option \<Rightarrow> object_ref option \<Rightarrow> session_db \<Rightarrow> (session_db \<times> session_event) result" where
  "append_runtime_event e clk session_ref v aud key turn_id step_id command_ref d =
     (let request = session_request_sha256 e (RuntimeEventRequest session_ref v turn_id step_id command_ref)
      in rbind (session_id_of d session_ref) (\<lambda>sid.
         rbind (check_idempotency d (runtime_scope sid) key request ''session-event'') (\<lambda>replayed.
         case replayed of
           Some i \<Rightarrow> rbind (load_event_by_id e d i) (\<lambda>ev. Inr (d, ev))
         | None \<Rightarrow>
             (case find (\<lambda>r. xr_object_id r = re_runtime_event_id v) (harness_runtime_events d) of
                Some row \<Rightarrow> rebind_runtime_event e sid v row key request d
              | None \<Rightarrow>
                  append_runtime_fresh e clk sid session_ref v aud key turn_id step_id command_ref request d))))"

section \<open>Team events\<close>

definition last_session_event :: "session_env \<Rightarrow> session_db \<Rightarrow> string \<Rightarrow> int \<Rightarrow> session_event result" where
  "last_session_event e d sid n =
     (case find (\<lambda>r. xe_session_id r = sid \<and> xe_sequence r = n) (harness_events d) of
        None \<Rightarrow> Inl (HarnessSessionIntegrityError ''session event head is missing'')
      | Some r \<Rightarrow> parse_session (sevent_cls e) ''session event'' (xe_record r))"

definition append_team_fresh ::
  "session_env \<Rightarrow> (nat \<Rightarrow> int) \<Rightarrow> string \<Rightarrow> object_ref \<Rightarrow> object_ref \<Rightarrow> int \<Rightarrow> session_payload \<Rightarrow> contract_audit \<Rightarrow>
   string \<Rightarrow> string \<Rightarrow> session_db \<Rightarrow> (session_db \<times> session_event) result" where
  "append_team_fresh e clk sid session_ref source team_version payload aud key request d =
     rbind (load_session e d sid) (\<lambda>(st, ident).
     rbind (guard (ss_session_ref st = session_ref)
              (HarnessSessionConcurrencyError ''Team event uses stale Harness session authority'')) (\<lambda>_.
     rbind (last_session_event e d sid (ss_last_event_sequence st)) (\<lambda>prior.
     rbind (next_state e ident st (ss_status st) (ss_last_event_sequence st + 1) (clk 0)) (\<lambda>st'.
     rbind (to_session_ref st') (\<lambda>session.
     rbind (make_session_event e aud (team_event_id_for e sid source) session (ss_last_event_sequence st')
              (max (ss_session_version st') (max team_version (se_authority_version prior)))
              None None None payload (clk 0)) (\<lambda>ev.
     rbind (add_event sid ev None d) (\<lambda>d1.
     rbind (update_state st' d1) (\<lambda>d2.
     rbind (refresh_projection e sid d2) (\<lambda>(d3, _).
     rbind (add_idempotency (team_scope sid) key request ''session-event'' (object_id ev) d3) (\<lambda>d4.
     rbind (session_fault_point e ''before_team_event_commit'') (\<lambda>_.
     Inr (d4, ev))))))))))))"

definition replay_team_event :: "session_env \<Rightarrow> session_db \<Rightarrow> string \<Rightarrow> session_event result" where
  "replay_team_event e d i =
     (case find_event d i of
        None \<Rightarrow> Inl (HarnessSessionIntegrityError ''idempotent Team event is missing'')
      | Some r \<Rightarrow> parse_session (sevent_cls e) ''session Team event'' (xe_record r))"

definition append_team_event ::
  "session_env \<Rightarrow> (nat \<Rightarrow> int) \<Rightarrow> object_ref \<Rightarrow> object_ref \<Rightarrow> int \<Rightarrow> session_payload \<Rightarrow> contract_audit \<Rightarrow> string \<Rightarrow>
   session_db \<Rightarrow> (session_db \<times> session_event) result" where
  "append_team_event e clk session_ref source team_version payload aud key d =
     (let request = session_request_sha256 e (TeamEventRequest session_ref source team_version payload)
      in rbind (session_id_of d session_ref) (\<lambda>sid.
         rbind (check_idempotency d (team_scope sid) key request ''session-event'') (\<lambda>replayed.
         case replayed of
           Some i \<Rightarrow> rbind (replay_team_event e d i) (\<lambda>ev. Inr (d, ev))
         | None \<Rightarrow> append_team_fresh e clk sid session_ref source team_version payload aud key request d)))"

definition rebuild_projection ::
  "session_env \<Rightarrow> string \<Rightarrow> session_db \<Rightarrow> (session_db \<times> session_projection) result" where
  "rebuild_projection e sid d = refresh_projection e sid d"

section \<open>Reads\<close>

definition checked_projection :: "session_env \<Rightarrow> session_db \<Rightarrow> string \<Rightarrow> session_projection result" where
  "checked_projection e d sid =
     rbind (load_session_projection e d sid) (\<lambda>stored.
     rbind (build_session_projection e d sid) (\<lambda>rebuilt.
     rbind (guard (stored = rebuilt)
              (HarnessSessionIntegrityError ''session projection differs from immutable authority'')) (\<lambda>_.
     Inr stored)))"

definition get_projection :: "session_env \<Rightarrow> session_db \<Rightarrow> string \<Rightarrow> session_projection result" where
  "get_projection e d sid = checked_projection e d sid"

definition get_projection_by_ref :: "session_env \<Rightarrow> session_db \<Rightarrow> object_ref \<Rightarrow> session_projection result" where
  "get_projection_by_ref e d r =
     rbind (guard (ref_type r = ''harness-session'')
              (HarnessSessionIntegrityError ''session ref has the wrong object type'')) (\<lambda>_.
     case find (\<lambda>x. xs_identity_id x = ref_id r) (harness_sessions d) of
       None \<Rightarrow> Inl (HarnessSessionNotFoundError ''session authority was not found'')
     | Some row \<Rightarrow>
         rbind (checked_projection e d (xs_session_id row)) (\<lambda>stored.
         rbind (guard (ss_session_ref (sp_session stored) = r)
                  (HarnessSessionIntegrityError ''session authority differs from its reference'')) (\<lambda>_.
         Inr stored)))"

definition get_current_requirement ::
  "session_env \<Rightarrow> session_db \<Rightarrow> string \<Rightarrow> (requirement_interpretation \<times> requirement_policy) result" where
  "get_current_requirement e d sid =
     rbind (load_session e d sid) (\<lambda>(st, _).
     case (ss_current_interpretation_ref st, ss_current_requirement_policy_ref st) of
       (Some iref, Some pref) \<Rightarrow>
         (case (find (\<lambda>x. xi_object_id x = ref_id iref) (harness_interpretations d),
                find (\<lambda>x. xp_object_id x = ref_id pref) (requirement_policies d)) of
            (Some irow, Some prow) \<Rightarrow>
              rbind (parse_session (interpretation_cls e) ''requirement interpretation'' (xi_record irow)) (\<lambda>i.
              rbind (parse_session (policy_cls e) ''requirement policy'' (xp_record prow)) (\<lambda>p.
              rbind (guard (interpretation_ref_of i = iref \<and> requirement_policy_ref_of p = pref \<and>
                            rq_interpretation_ref p = interpretation_ref_of i \<and>
                            xi_sha256 irow = object_sha256 i \<and> xi_session_id irow = sid \<and>
                            xp_sha256 prow = object_sha256 p \<and> xp_session_id prow = sid)
                       (HarnessSessionIntegrityError ''current READY requirement authority drifted'')) (\<lambda>_.
              Inr (i, p))))
          | _ \<Rightarrow> Inl (HarnessSessionIntegrityError ''current READY requirement authority is incomplete''))
     | _ \<Rightarrow> Inl (HarnessSessionNotFoundError ''session has no current READY requirement authority''))"

definition get_interpretation :: "session_env \<Rightarrow> session_db \<Rightarrow> object_ref \<Rightarrow> requirement_interpretation result" where
  "get_interpretation e d r =
     rbind (guard (ref_type r = ''requirement-interpretation'')
              (HarnessSessionIntegrityError ''requirement interpretation ref has the wrong type'')) (\<lambda>_.
     case find (\<lambda>x. xi_object_id x = ref_id r) (harness_interpretations d) of
       None \<Rightarrow> Inl (HarnessSessionNotFoundError ''requirement interpretation was not found'')
     | Some row \<Rightarrow>
         rbind (parse_session (interpretation_cls e) ''requirement interpretation'' (xi_record row)) (\<lambda>i.
         rbind (guard (interpretation_ref_of i = r \<and> xi_sha256 row = object_sha256 i)
                  (HarnessSessionIntegrityError ''requirement interpretation authority drifted'')) (\<lambda>_.
         Inr i)))"

definition get_runtime_event :: "session_env \<Rightarrow> session_db \<Rightarrow> object_ref \<Rightarrow> runtime_event result" where
  "get_runtime_event e d r =
     rbind (guard (ref_type r = ''runtime-event'' \<and> ref_version r = ''v2'')
              (HarnessSessionIntegrityError ''runtime event ref has the wrong type or version'')) (\<lambda>_.
     case find (\<lambda>x. xr_object_id x = ref_id r) (harness_runtime_events d) of
       None \<Rightarrow> Inl (HarnessSessionNotFoundError ''runtime event was not found'')
     | Some row \<Rightarrow>
         rbind (parse_runtime_event e (xr_record row)) (\<lambda>v.
         rbind (guard (runtime_event_ref v = r \<and> runtime_columns_match v row)
                  (HarnessSessionIntegrityError ''runtime event columns drifted'')) (\<lambda>_.
         Inr v)))"

definition list_sessions :: "session_env \<Rightarrow> session_db \<Rightarrow> int \<Rightarrow> int \<Rightarrow> bool \<Rightarrow> session_page result" where
  "list_sessions e d offset limit include_closed =
     rbind (guard (0 \<le> offset \<and> in_range 1 500 limit) (ValueError ''session page is outside bounds'')) (\<lambda>_.
     let rows = filter (\<lambda>r. include_closed \<or> xs_status r \<noteq> SESSION_STATUS_CLOSED) (harness_sessions d)
     in rbind (rmap (parse_state_row e)
                 (take (nat limit) (drop (nat offset) (sort_key xs_session_id rows)))) (\<lambda>states.
        Inr \<lparr>pp_offset = offset, pp_limit = limit, pp_total = int (length rows), pp_sessions = states\<rparr>))"

definition list_events :: "session_env \<Rightarrow> session_db \<Rightarrow> string \<Rightarrow> int \<Rightarrow> int \<Rightarrow> event_page result" where
  "list_events e d sid after limit =
     rbind (guard (0 \<le> after \<and> in_range 1 500 limit) (ValueError ''event page is outside bounds'')) (\<lambda>_.
     rbind (load_session e d sid) (\<lambda>(st, _).
     rbind (rmap (\<lambda>r. parse_session (sevent_cls e) ''session event'' (xe_record r))
              (take (nat limit)
                 (sort_key xe_sequence
                    (filter (\<lambda>r. xe_session_id r = sid \<and> after < xe_sequence r) (harness_events d))))) (\<lambda>events.
     Inr \<lparr>ep_session_ref = ss_session_ref st, ep_after_sequence = after, ep_limit = limit, ep_events = events,
          ep_next_sequence =
            (if events \<noteq> [] \<and> se_sequence (last events) < ss_last_event_sequence st
             then Some (se_sequence (last events) + 1) else None)\<rparr>)))"

definition get_message :: "session_env \<Rightarrow> session_db \<Rightarrow> object_ref \<Rightarrow> harness_message result" where
  "get_message e d r =
     rbind (load_message_by_id e d (ref_id r)) (\<lambda>m.
     rbind (guard (harness_message_ref_of m = r) (HarnessSessionIntegrityError ''message ref drifted'')) (\<lambda>_.
     Inr m))"

definition get_turn_for_command :: "session_env \<Rightarrow> session_db \<Rightarrow> object_ref \<Rightarrow> turn_result option result" where
  "get_turn_for_command e d r = load_turn_by_command e d (ref_id r)"

definition get_turn_start :: "session_env \<Rightarrow> session_db \<Rightarrow> object_ref \<Rightarrow> turn_start result" where
  "get_turn_start e d r =
     (case find (\<lambda>x. xc_object_id x = ref_id r) (harness_commands d) of
        None \<Rightarrow> Inl (HarnessSessionNotFoundError ''session command was not found'')
      | Some row \<Rightarrow>
          rbind (parse_session (mcommand_cls e) ''session command'' (xc_record row)) (\<lambda>command.
          rbind (guard (message_command_ref_of command = r)
                   (HarnessSessionIntegrityError ''session command ref drifted'')) (\<lambda>_.
          rbind (load_session e d (xc_session_id row)) (\<lambda>(st, _).
          rbind (load_message_by_id e d (xc_user_message_id row)) (\<lambda>m.
          rbind (load_event_by_id e d (xc_user_event_id row)) (\<lambda>ev.
          rbind (load_turn_by_command e d (object_id command)) (\<lambda>t.
          Inr \<lparr>ts_state = st, ts_command = command, ts_user_message = m, ts_user_event = ev,
               ts_replay = t\<rparr>)))))))"

definition get_journal_for_command :: "session_env \<Rightarrow> session_db \<Rightarrow> object_ref \<Rightarrow> gateway_journal option result" where
  "get_journal_for_command e d r = load_journal_head e d (ref_id r)"

definition get_journal :: "session_env \<Rightarrow> session_db \<Rightarrow> object_ref \<Rightarrow> gateway_journal result" where
  "get_journal e d r =
     (case find (\<lambda>x. xj_object_id x = ref_id r) (gateway_journals d) of
        None \<Rightarrow> Inl (HarnessSessionIntegrityError ''Gateway journal is missing'')
      | Some row \<Rightarrow>
          rbind (parse_session (journal_cls e) ''Gateway journal'' (xj_record row)) (\<lambda>j.
          rbind (guard (journal_ref_of j = r) (HarnessSessionIntegrityError ''Gateway journal ref drifted'')) (\<lambda>_.
          Inr j)))"

end
