(* ===== verification/Session_Effects.thy ===== *)
theory Session_Effects
  imports Session_Streams
begin

text \<open>
  What each session operation does to the tables: the constrained inserts as record updates, then one effect
  lemma per operation. The later theories reason about these effects only.
\<close>

named_theorems effects \<open>a successful write as a record update\<close>

section \<open>Primitive writes\<close>

lemma insert_row_InrD: "insert_row table clash r rows = Inr rows' \<Longrightarrow> rows' = rows @ [r] \<and> \<not> list_ex (clash r) rows"
  by (auto simp: insert_row_def split: if_splits)

lemma session_key_Inr [simp]:
  "session_key table i d = Inr u \<longleftrightarrow> (\<exists>r\<in>set (harness_sessions d). xs_session_id r = i)"
  by (auto simp: session_key_def foreign_key_def list_ex_iff)

lemma find_session_Some: "find_session d i = Some r \<Longrightarrow> r \<in> set (harness_sessions d) \<and> xs_session_id r = i"
  by (auto simp: find_session_def dest: find_SomeD)

definition sevent_row_of :: "string \<Rightarrow> session_event \<Rightarrow> string option \<Rightarrow> sevent_row" where
  "sevent_row_of sid ev c =
     \<lparr>xe_session_id = sid, xe_sequence = se_sequence ev, xe_object_id = object_id ev,
      xe_sha256 = object_sha256 ev, xe_command_id = c, xe_record = ev\<rparr>"

lemma sevent_row_of_sel [simp]:
  "xe_session_id (sevent_row_of sid ev c) = sid" "xe_sequence (sevent_row_of sid ev c) = se_sequence ev"
  "xe_object_id (sevent_row_of sid ev c) = object_id ev" "xe_sha256 (sevent_row_of sid ev c) = object_sha256 ev"
  "xe_record (sevent_row_of sid ev c) = ev"
  by (simp_all add: sevent_row_of_def)

definition message_row_of :: "string \<Rightarrow> harness_message \<Rightarrow> int \<Rightarrow> smessage_row" where
  "message_row_of sid m n =
     \<lparr>xm_object_id = object_id m, xm_sha256 = object_sha256 m, xm_session_id = sid,
      xm_event_sequence = n, xm_final = hm_final m, xm_record = m\<rparr>"

lemma message_row_of_sel [simp]:
  "xm_object_id (message_row_of sid m n) = object_id m" "xm_sha256 (message_row_of sid m n) = object_sha256 m"
  "xm_session_id (message_row_of sid m n) = sid" "xm_event_sequence (message_row_of sid m n) = n"
  "xm_final (message_row_of sid m n) = hm_final m" "xm_record (message_row_of sid m n) = m"
  by (simp_all add: message_row_of_def)

lemma insert_session_InrD [effects]:
  "insert_session r d = Inr d' \<Longrightarrow>
     d' = d\<lparr>harness_sessions := harness_sessions d @ [r]\<rparr> \<and>
     (\<forall>x\<in>set (harness_sessions d). xs_session_id x \<noteq> xs_session_id r \<and> xs_identity_id x \<noteq> xs_identity_id r)"
  by (auto simp: insert_session_def list_ex_iff dest!: insert_row_InrD)

lemma insert_command_InrD [effects]:
  "insert_command r d = Inr d' \<Longrightarrow> d' = d\<lparr>harness_commands := harness_commands d @ [r]\<rparr> \<and>
     (\<forall>x\<in>set (harness_commands d). xc_object_id x \<noteq> xc_object_id r)"
  by (auto simp: insert_command_def list_ex_iff dest!: insert_row_InrD)

lemma add_message_InrD [effects]:
  "add_message sid m n d = Inr d' \<Longrightarrow>
     d' = d\<lparr>harness_messages := harness_messages d @ [message_row_of sid m n]\<rparr>"
  by (auto simp: add_message_def insert_smessage_row_def message_row_of_def dest!: insert_row_InrD)

lemma add_event_InrD [effects]:
  "add_event sid ev c d = Inr d' \<Longrightarrow>
     d' = d\<lparr>harness_events := harness_events d @ [sevent_row_of sid ev c]\<rparr> \<and>
     (\<forall>x\<in>set (harness_events d). xe_object_id x \<noteq> object_id ev)"
  by (auto simp: add_event_def insert_sevent_row_def sevent_row_of_def list_ex_iff dest!: insert_row_InrD)

lemma insert_runtime_row_InrD [effects]:
  "insert_runtime_row r d = Inr d' \<Longrightarrow>
     d' = d\<lparr>harness_runtime_events := harness_runtime_events d @ [r]\<rparr> \<and>
     (\<forall>x\<in>set (harness_runtime_events d). xr_object_id x \<noteq> xr_object_id r)"
  by (auto simp: insert_runtime_row_def list_ex_iff dest!: insert_row_InrD)

lemma add_journal_InrD [effects]:
  "add_journal sid c j d = Inr d' \<Longrightarrow>
     (\<exists>r. d' = d\<lparr>gateway_journals := gateway_journals d @ [r]\<rparr> \<and> xj_object_id r = object_id j)"
  by (auto simp: add_journal_def insert_journal_row_def dest!: insert_row_InrD)

lemma insert_journal_head_InrD [effects]:
  "insert_journal_head r d = Inr d' \<Longrightarrow> d' = d\<lparr>journal_heads := journal_heads d @ [r]\<rparr>"
  by (auto simp: insert_journal_head_def dest!: insert_row_InrD)

lemma move_journal_head_InrD [effects]:
  "move_journal_head c j d = Inr d' \<Longrightarrow>
     d' = d\<lparr>journal_heads := map (\<lambda>x. if xk_command_id x = c then x\<lparr>xk_journal_id := j\<rparr> else x) (journal_heads d)\<rparr>"
  by (auto simp: move_journal_head_def)

lemma insert_interpretation_InrD [effects]:
  "insert_interpretation r d = Inr d' \<Longrightarrow>
     d' = d\<lparr>harness_interpretations := harness_interpretations d @ [r]\<rparr>"
  by (auto simp: insert_interpretation_def dest!: insert_row_InrD)

lemma store_policy_InrD [effects]:
  "store_policy sid i p d = Inr d' \<Longrightarrow> \<exists>rows. d' = d\<lparr>requirement_policies := rows\<rparr>"
  by (cases p) (auto simp: store_policy_def insert_policy_def intro: exI [of _ "requirement_policies d"])

lemma insert_turn_InrD [effects]:
  "insert_turn r d = Inr d' \<Longrightarrow> d' = d\<lparr>harness_turns := harness_turns d @ [r]\<rparr>"
  by (auto simp: insert_turn_def dest!: insert_row_InrD)

lemma add_idempotency_InrD [effects]:
  "add_idempotency scope key h ty i d = Inr d' \<Longrightarrow>
     d' = d\<lparr>harness_idempotency := harness_idempotency d @
              [\<lparr>xq_scope = scope, xq_key = key, xq_request_sha256 = h, xq_response_type = ty,
                xq_response_id = i\<rparr>]\<rparr> \<and>
     (\<forall>x\<in>set (harness_idempotency d). \<not> (xq_scope x = scope \<and> xq_key x = key))"
  by (auto simp: add_idempotency_def insert_session_idempotency_def list_ex_iff dest!: insert_row_InrD)

definition put_state :: "session_state \<Rightarrow> session_row list \<Rightarrow> session_row list" where
  "put_state st rows = map (\<lambda>r. if xs_session_id r = ss_session_id st then set_state st r else r) rows"

lemma update_state_InrD [effects]:
  "update_state st d = Inr d' \<Longrightarrow> d' = d\<lparr>harness_sessions := put_state st (harness_sessions d)\<rparr>"
  by (auto simp: update_state_def put_state_def split: if_splits)

lemma refresh_projection_InrD [effects]:
  "refresh_projection e sid d = Inr (d', p) \<Longrightarrow>
     build_session_projection e d sid = Inr p \<and>
     d' = d\<lparr>session_projections :=
              upsert xo_session_id
                \<lparr>xo_session_id = ss_session_id (sp_session p), xo_fingerprint = sp_source_fingerprint p,
                 xo_projection = p\<rparr> (session_projections d)\<rparr>"
  by (auto simp: refresh_projection_def write_session_projection_def upsert_session_projection_def)

lemma set_state_sel [simp]:
  "xs_session_id (set_state st r) = xs_session_id r" "xs_identity_id (set_state st r) = xs_identity_id r"
  "xs_identity (set_state st r) = xs_identity r" "xs_incarnation_id (set_state st r) = xs_incarnation_id r"
  "xs_composition_id (set_state st r) = xs_composition_id r" "xs_state (set_state st r) = st"
  "xs_version (set_state st r) = ss_session_version st" "xs_status (set_state st r) = ss_status st"
  "xs_last_sequence (set_state st r) = ss_last_event_sequence st"
  "xs_state_sha256 (set_state st r) = ss_state_sha256 st"
  by (simp_all add: set_state_def)

section \<open>Loads\<close>

lemma parse_session_Inr: "parse_session cls label v = Inr w \<longleftrightarrow> w = v \<and> validate_derived_identity cls v \<and> validates cls v"
  by (auto simp: parse_session_def)

lemma create_parse_session: "create cls aud v = Inr w \<Longrightarrow> parse_session cls label w = Inr w"
  by (auto dest: create_valid simp: parse_session_def)

text \<open>A session row that loads: both records valid and the columns those of the records.\<close>

definition row_ok :: "session_env \<Rightarrow> session_row \<Rightarrow> bool" where
  "row_ok e r \<longleftrightarrow>
     parse_state_row e r = Inr (xs_state r) \<and>
     parse_session (identity_cls e) ''session identity'' (xs_identity r) = Inr (xs_identity r) \<and>
     object_id (xs_identity r) = xs_identity_id r \<and> si_session_id (xs_identity r) = xs_session_id r \<and>
     si_incarnation_id (xs_identity r) = xs_incarnation_id r \<and>
     ref_id (si_composition_ref (xs_identity r)) = xs_composition_id r"

lemma parse_state_row_InrD: "parse_state_row e r = Inr st \<Longrightarrow> st = xs_state r"
  by (auto simp: parse_state_row_def parse_state_def split: if_splits)

lemma load_session_Inr_iff:
  "load_session e d sid = Inr (st, ident) \<longleftrightarrow>
     (\<exists>r. find_session d sid = Some r \<and> row_ok e r \<and> st = xs_state r \<and> ident = xs_identity r)"
proof
  assume "load_session e d sid = Inr (st, ident)"
  then obtain r where "find_session d sid = Some r" "parse_state_row e r = Inr st"
    "parse_session (identity_cls e) ''session identity'' (xs_identity r) = Inr ident"
    "object_id ident = xs_identity_id r" "si_session_id ident = sid"
    "si_incarnation_id ident = xs_incarnation_id r" "ref_id (si_composition_ref ident) = xs_composition_id r"
    by (auto simp: load_session_def split: option.splits)
  then show "\<exists>r. find_session d sid = Some r \<and> row_ok e r \<and> st = xs_state r \<and> ident = xs_identity r"
    by (intro exI [of _ r]) (auto simp: row_ok_def parse_session_Inr dest: parse_state_row_InrD find_session_Some)
next
  assume "\<exists>r. find_session d sid = Some r \<and> row_ok e r \<and> st = xs_state r \<and> ident = xs_identity r"
  then obtain r where r: "find_session d sid = Some r" "row_ok e r" "st = xs_state r" "ident = xs_identity r" by blast
  then have "xs_session_id r = sid" by (simp add: find_session_Some)
  with r show "load_session e d sid = Inr (st, ident)" by (simp add: load_session_def row_ok_def)
qed

section \<open>Events\<close>

definition session_of :: "session_identity \<Rightarrow> int \<Rightarrow> harness_session_ref" where
  "session_of ident v =
     \<lparr>sr_session_ref = session_ref_of ident, sr_incarnation_id = si_incarnation_id ident,
      sr_session_version = v, sr_composition_ref = si_composition_ref ident\<rparr>"

lemma make_session_event_InrD:
  assumes "make_session_event e aud i session n a t s c p occ = Inr ev"
  shows "parse_session (sevent_cls e) l ev = Inr ev" "se_event_id ev = i" "se_session ev = session"
    "se_sequence ev = n" "se_authority_version ev = a" "se_payload ev = p" "se_command_ref ev = c"
    "se_turn_id ev = t" "se_occurred_at ev = occ"
  using assms create_parse_session [OF assms [unfolded make_session_event_def]]
  by (auto simp: make_session_event_def session_event.create_Inr_iff)

lemma to_session_ref_InrD:
  "to_session_ref st = Inr r \<Longrightarrow>
     r = \<lparr>sr_session_ref = ss_session_ref st, sr_incarnation_id = ss_incarnation_id st,
          sr_session_version = ss_session_version st, sr_composition_ref = ss_composition_ref st\<rparr>"
  by (auto simp: to_session_ref_def Let_def split: if_splits)

text \<open>The state belongs to the identity, as every state \<open>create_state\<close> makes does.\<close>

definition state_of :: "session_identity \<Rightarrow> session_state \<Rightarrow> bool" where
  "state_of ident st \<longleftrightarrow>
     ss_session_ref st = session_ref_of ident \<and> ss_session_id st = si_session_id ident \<and>
     ss_incarnation_id st = si_incarnation_id ident \<and> ss_composition_ref st = si_composition_ref ident"

lemma create_state_InrD:
  assumes "create_state dg ident n st l i p u = Inr v"
  shows "state_of ident v" "ss_session_version v = n" "ss_status v = st" "ss_last_event_sequence v = l"
    "ss_current_interpretation_ref v = i" "ss_current_requirement_policy_ref v = p" "validate_state dg v"
  using assms by (auto simp: create_state_Inr_iff state_of_def Let_def)

lemma next_state_InrD:
  assumes "next_state e ident st status l now = Inr v"
  shows "state_of ident v" "ss_session_version v = ss_session_version st + 1" "ss_status v = status"
    "ss_last_event_sequence v = l" "ss_current_interpretation_ref v = ss_current_interpretation_ref st"
    "ss_current_requirement_policy_ref v = ss_current_requirement_policy_ref st"
    "validate_state (dg_session_state e) v"
  using create_state_InrD [OF assms [unfolded next_state_def]] by simp_all

lemma to_session_ref_state: "state_of ident st \<Longrightarrow> to_session_ref st = Inr r \<Longrightarrow> r = session_of ident (ss_session_version st)"
  by (auto dest!: to_session_ref_InrD simp: state_of_def session_of_def)

lemma at_version_state: "state_of ident st \<Longrightarrow> at_version st v = Inr r \<Longrightarrow> r = session_of ident v"
  by (auto simp: at_version_def state_of_def session_of_def dest!: to_session_ref_InrD)

definition session_row_inv :: "session_env \<Rightarrow> session_row \<Rightarrow> bool" where
  "session_row_inv e r \<longleftrightarrow> row_ok e r \<and> state_of (xs_identity r) (xs_state r)"

lemma set_state_inv:
  assumes "session_row_inv e r" and "state_of (xs_identity r) st" and "validate_state (dg_session_state e) st"
  shows "session_row_inv e (set_state st r)"
  using assms by (auto simp: session_row_inv_def row_ok_def parse_state_row_def parse_state_def state_of_def rbind_Inr_iff)

section \<open>Effects of the operations\<close>

abbreviation projected :: "session_projection \<Rightarrow> session_db \<Rightarrow> projection_row list" where
  "projected p d \<equiv>
     upsert xo_session_id
       \<lparr>xo_session_id = ss_session_id (sp_session p), xo_fingerprint = sp_source_fingerprint p,
        xo_projection = p\<rparr> (session_projections d)"

abbreviation remembered :: "string \<Rightarrow> string \<Rightarrow> string \<Rightarrow> string \<Rightarrow> string \<Rightarrow> session_db \<Rightarrow> session_idempotency_row list" where
  "remembered scope key h ty i d \<equiv>
     harness_idempotency d @
       [\<lparr>xq_scope = scope, xq_key = key, xq_request_sha256 = h, xq_response_type = ty, xq_response_id = i\<rparr>]"

lemma create_session_effect:
  assumes "create_session_fresh e clk sid inca cmp who key request aud d = Inr (d', p)"
  obtains ident st session ev row d2 where
    "si_session_id ident = sid"
    "create_state (dg_session_state e) ident 1 SESSION_ACTIVE 1 None None (clk 0) = Inr st"
    "to_session_ref st = Inr session"
    "make_session_event e aud (event_id_for sid 1) session 1 1 None None None
       (SessionLifecyclePayload SESSION_OPENED) (clk 0) = Inr ev"
    "session_row_inv e row" "xs_session_id row = sid" "xs_state row = st" "xs_identity row = ident"
    "\<forall>x\<in>set (harness_sessions d). xs_session_id x \<noteq> sid \<and> xs_identity_id x \<noteq> xs_identity_id row"
    "\<forall>x\<in>set (harness_events d). xe_object_id x \<noteq> object_id ev"
    "d2 = d\<lparr>harness_sessions := harness_sessions d @ [row], harness_events := harness_events d @ [sevent_row_of sid ev None]\<rparr>"
    "build_session_projection e d2 sid = Inr p"
    "d' = d2\<lparr>session_projections := projected p d2, harness_idempotency := remembered create_scope key request ''harness-session'' sid d2\<rparr>"
proof -
  from assms obtain ident st session ev d1 d2 d3 where
    1: "create (identity_cls e) aud
          \<lparr>object_id = [], object_sha256 = [], audit = no_audit, si_session_id = sid,
           si_incarnation_id = inca, si_composition_ref = cmp, si_created_by = who, si_created_at = clk 0\<rparr> = Inr ident"
    and 2: "create_state (dg_session_state e) ident 1 SESSION_ACTIVE 1 None None (clk 0) = Inr st"
    and 3: "to_session_ref st = Inr session"
    and 4: "make_session_event e aud (event_id_for sid 1) session 1 1 None None None
              (SessionLifecyclePayload SESSION_OPENED) (clk 0) = Inr ev"
    and 5: "insert_session
              \<lparr>xs_session_id = sid, xs_identity_id = object_id ident, xs_incarnation_id = inca,
               xs_composition_id = ref_id cmp, xs_version = ss_session_version st,
               xs_status = ss_status st, xs_last_sequence = ss_last_event_sequence st,
               xs_state_sha256 = ss_state_sha256 st, xs_identity = ident, xs_state = st\<rparr> d = Inr d1"
    and 6: "add_event sid ev None d1 = Inr d2" and 7: "refresh_projection e sid d2 = Inr (d3, p)"
    and 8: "add_idempotency create_scope key request ''harness-session'' sid d3 = Inr d'"
    unfolding create_session_fresh_def by (auto elim!: rbind_InrE)
  note st = create_state_InrD [OF 2]
  have ident: "si_session_id ident = sid" "si_incarnation_id ident = inca" "si_composition_ref ident = cmp"
    "parse_session (identity_cls e) ''session identity'' ident = Inr ident"
    using 1 create_parse_session [OF 1] by (auto simp: session_identity.create_Inr_iff)
  define row where "row = \<lparr>xs_session_id = sid, xs_identity_id = object_id ident, xs_incarnation_id = inca,
               xs_composition_id = ref_id cmp, xs_version = ss_session_version st,
               xs_status = ss_status st, xs_last_sequence = ss_last_event_sequence st,
               xs_state_sha256 = ss_state_sha256 st, xs_identity = ident, xs_state = st\<rparr>"
  have inv: "session_row_inv e row"
    using st(1,7) ident by (auto simp: session_row_inv_def row_ok_def row_def parse_state_row_def parse_state_def state_of_def)
  show thesis
    by (rule that [of ident st session ev row d2])
       (use 2 3 4 ident inv insert_session_InrD [OF 5] add_event_InrD [OF 6] refresh_projection_InrD [OF 7]
          add_idempotency_InrD [OF 8] in \<open>auto simp: row_def\<close>)
qed

lemma close_session_effect:
  assumes "close_session_fresh e clk sid expected key request aud d = Inr (d', p)"
  obtains r st' session ev d2 where
    "find_session d sid = Some r" "row_ok e r" "ss_status (xs_state r) \<noteq> SESSION_STATUS_CLOSED"
    "ss_session_version (xs_state r) = expected"
    "next_state e (xs_identity r) (xs_state r) SESSION_STATUS_CLOSED (ss_last_event_sequence (xs_state r) + 1) (clk 0) = Inr st'"
    "to_session_ref st' = Inr session"
    "make_session_event e aud (event_id_for sid (ss_last_event_sequence st')) session (ss_last_event_sequence st')
       (ss_session_version st') None None None (SessionLifecyclePayload SESSION_CLOSED) (clk 0) = Inr ev"
    "\<forall>x\<in>set (harness_events d). xe_object_id x \<noteq> object_id ev"
    "d2 = d\<lparr>harness_sessions := put_state st' (harness_sessions d), harness_events := harness_events d @ [sevent_row_of sid ev None]\<rparr>"
    "build_session_projection e d2 sid = Inr p"
    "d' = d2\<lparr>session_projections := projected p d2, harness_idempotency := remembered (close_scope sid) key request ''harness-session'' sid d2\<rparr>"
proof -
  from assms obtain st ident st' session ev d1 d2 d3 where
    1: "load_session e d sid = Inr (st, ident)" "ss_status st \<noteq> SESSION_STATUS_CLOSED" "ss_session_version st = expected"
      "next_state e ident st SESSION_STATUS_CLOSED (ss_last_event_sequence st + 1) (clk 0) = Inr st'"
      "to_session_ref st' = Inr session"
      "make_session_event e aud (event_id_for sid (ss_last_event_sequence st')) session (ss_last_event_sequence st')
              (ss_session_version st') None None None (SessionLifecyclePayload SESSION_CLOSED) (clk 0) = Inr ev"
    and 5: "update_state st' d = Inr d1"
    and 6: "add_event sid ev None d1 = Inr d2" and 7: "refresh_projection e sid d2 = Inr (d3, p)"
    and 8: "add_idempotency (close_scope sid) key request ''harness-session'' sid d3 = Inr d'"
    unfolding close_session_fresh_def by (auto elim!: rbind_InrE)
  from 1(1) obtain r where r: "find_session d sid = Some r" "row_ok e r" "st = xs_state r" "ident = xs_identity r"
    by (auto simp: load_session_Inr_iff)
  show thesis
    by (rule that [of r st' session ev d2])
       (use 1 r update_state_InrD [OF 5] add_event_InrD [OF 6] refresh_projection_InrD [OF 7]
          add_idempotency_InrD [OF 8] in auto)
qed

lemma start_turn_effect:
  assumes "start_turn_fresh e clk sid st ident command expected content artifacts aud d = Inr (d', ts)"
  obtains m st' session ev row d2 p where
    "ss_status st = SESSION_ACTIVE" "ss_session_version st = expected"
    "next_state e ident st SESSION_ACTIVE (ss_last_event_sequence st + 1) (clk 0) = Inr st'"
    "to_session_ref st' = Inr session"
    "make_session_event e aud (event_id_for sid (ss_last_event_sequence st')) session (ss_last_event_sequence st')
       (ss_session_version st') (Some (turn_id_of e command)) None (Some (message_command_ref_of command))
       (SessionMessagePayload SE_USER_MESSAGE (harness_message_ref_of m) (hm_artifact_envelope_refs m)) (clk 0) = Inr ev"
    "parse_session (hmessage_cls e) ''session message'' m = Inr m"
    "xc_object_id row = object_id command" "xc_session_id row = sid" "xc_idempotency_key row = mc_idempotency_key command"
    "xc_user_message_id row = object_id m" "xc_user_event_id row = object_id ev" "xc_record row = command"
    "\<forall>x\<in>set (harness_commands d). xc_object_id x \<noteq> object_id command"
    "\<forall>x\<in>set (harness_events d). xe_object_id x \<noteq> object_id ev"
    "d2 = d\<lparr>harness_commands := harness_commands d @ [row],
            harness_messages := harness_messages d @ [message_row_of sid m (ss_last_event_sequence st')],
            harness_events := harness_events d @ [sevent_row_of sid ev (Some (object_id command))],
            harness_sessions := put_state st' (harness_sessions d)\<rparr>"
    "build_session_projection e d2 sid = Inr p"
    "d' = d2\<lparr>session_projections := projected p d2\<rparr>"
    "ts = \<lparr>ts_state = st', ts_command = command, ts_user_message = m, ts_user_event = ev, ts_replay = None\<rparr>"
proof -
  from assms obtain m st' session ev d1 d2 d3 d4 p where
    1: "ss_status st = SESSION_ACTIVE" "ss_session_version st = expected"
      "next_state e ident st SESSION_ACTIVE (ss_last_event_sequence st + 1) (clk 0) = Inr st'"
      "to_session_ref st' = Inr session"
      "make_session_event e aud (event_id_for sid (ss_last_event_sequence st')) session (ss_last_event_sequence st')
         (ss_session_version st') (Some (turn_id_of e command)) None (Some (message_command_ref_of command))
         (SessionMessagePayload SE_USER_MESSAGE (harness_message_ref_of m) (hm_artifact_envelope_refs m)) (clk 0) = Inr ev"
      "ts = \<lparr>ts_state = st', ts_command = command, ts_user_message = m, ts_user_event = ev, ts_replay = None\<rparr>"
    and m: "create_harness_message (text_sha256 e) (dg_harness_message e) aud
              \<lparr>object_id = [], object_sha256 = [], audit = no_audit,
               hm_message_id = user_message_id_for sid (ss_last_event_sequence st + 1),
               hm_session_ref = ss_session_ref st, hm_role = USER_ROLE, hm_content = content,
               hm_content_sha256 = [], hm_artifact_envelope_refs = artifacts, hm_chunk_index = None,
               hm_final = True, hm_created_at = clk 0\<rparr> = Inr m"
    and 2: "insert_command
              \<lparr>xc_object_id = object_id command, xc_sha256 = object_sha256 command, xc_session_id = sid,
               xc_idempotency_key = mc_idempotency_key command, xc_user_message_id = object_id m,
               xc_user_event_id = object_id ev, xc_record = command\<rparr> d = Inr d1"
    and 3: "add_message sid m (ss_last_event_sequence st') d1 = Inr d2"
    and 4: "add_event sid ev (Some (object_id command)) d2 = Inr d3"
    and 5: "update_state st' d3 = Inr d4" and 6: "refresh_projection e sid d4 = Inr (d', p)"
    unfolding start_turn_fresh_def by (auto elim!: rbind_InrE)
  have pm: "parse_session (hmessage_cls e) ''session message'' m = Inr m"
    using create_parse_session [OF m [unfolded create_harness_message_def]] .
  show thesis
    by (rule that [of st' session m ev _ d4 p])
       (use 1 pm insert_command_InrD [OF 2] add_message_InrD [OF 3] add_event_InrD [OF 4] update_state_InrD [OF 5]
          refresh_projection_InrD [OF 6] in auto)
qed

lemma prepared_journal_effect:
  assumes "record_prepared_journal e clk sid command j d = Inr (d', x)" and "d' \<noteq> d"
  obtains r st' jr d2 p where
    "find_session d sid = Some r" "row_ok e r"
    "next_state e (xs_identity r) (xs_state r) (ss_status (xs_state r)) (ss_last_event_sequence (xs_state r)) (clk 0) = Inr st'"
    "d2 = d\<lparr>gateway_journals := gateway_journals d @ [jr],
            journal_heads := journal_heads d @ [\<lparr>xk_command_id = object_id command, xk_journal_id = object_id j\<rparr>],
            harness_sessions := put_state st' (harness_sessions d)\<rparr>"
    "xj_object_id jr = object_id j"
    "build_session_projection e d2 sid = Inr p"
    "d' = d2\<lparr>session_projections := projected p d2\<rparr>"
proof -
  from assms obtain st ident st' d1 d2 d3 p where
    1: "load_session e d sid = Inr (st, ident)"
      "next_state e ident st (ss_status st) (ss_last_event_sequence st) (clk 0) = Inr st'"
    and 2: "add_journal sid (object_id command) j d = Inr d1"
    and 3: "insert_journal_head \<lparr>xk_command_id = object_id command, xk_journal_id = object_id j\<rparr> d1 = Inr d2"
    and 4: "update_state st' d2 = Inr d3" and 5: "refresh_projection e sid d3 = Inr (d', p)"
    unfolding record_prepared_journal_def by (auto elim!: rbind_InrE split: option.splits)
  from 1(1) obtain r where r: "find_session d sid = Some r" "row_ok e r" "st = xs_state r" "ident = xs_identity r"
    by (auto simp: load_session_Inr_iff)
  obtain jr where "d1 = d\<lparr>gateway_journals := gateway_journals d @ [jr]\<rparr>" "xj_object_id jr = object_id j" using add_journal_InrD [OF 2] by blast
  then show thesis
    by (intro that [of r st' d3 jr p])
       (use 1 r insert_journal_head_InrD [OF 3] update_state_InrD [OF 4] refresh_projection_InrD [OF 5] in auto)
qed

section \<open>Event rows an operation appends\<close>

definition sevent_row_ok :: "session_env \<Rightarrow> sevent_row \<Rightarrow> bool" where
  "sevent_row_ok e x \<longleftrightarrow>
     xe_object_id x = object_id (xe_record x) \<and> xe_sequence x = se_sequence (xe_record x) \<and>
     validate_derived_identity (sevent_cls e) (xe_record x) \<and> validate_session_event (xe_record x)"

lemma event_row_ok_parse: "sevent_row_ok e x \<Longrightarrow> parse_session (sevent_cls e) l (xe_record x) = Inr (xe_record x)"
  by (simp add: sevent_row_ok_def parse_session_Inr)

text \<open>Rows numbered after \<open>n\<close>, valid, of one version of the session, and with identities new to the table.\<close>

definition appended ::
  "session_env \<Rightarrow> string \<Rightarrow> session_identity \<Rightarrow> int \<Rightarrow> int \<Rightarrow> sevent_row list \<Rightarrow> sevent_row list \<Rightarrow> bool" where
  "appended e sid ident v n old rows \<longleftrightarrow>
     map xe_sequence rows = [n + 1..n + int (length rows)] \<and>
     (\<forall>x\<in>set rows. xe_session_id x = sid \<and> sevent_row_ok e x \<and> se_session (xe_record x) = session_of ident v) \<and>
     distinct (map xe_object_id rows) \<and> xe_object_id ` set old \<inter> xe_object_id ` set rows = {}"

lemma appended_Nil [simp]: "appended e sid ident v n old []"
  by (simp add: appended_def)

lemma appended_Cons:
  assumes "xe_session_id x = sid" "sevent_row_ok e x" "se_session (xe_record x) = session_of ident v"
    and "xe_sequence x = n + 1" "\<forall>y\<in>set old. xe_object_id y \<noteq> xe_object_id x"
    and "appended e sid ident v (n + 1) (old @ [x]) rows"
  shows "appended e sid ident v n old (x # rows)"
proof -
  have up: "[n + 1..n + int (length (x # rows))] = (n + 1) # [n + 1 + 1..n + 1 + int (length rows)]"
    by (subst upto_rec1) (simp_all add: algebra_simps)
  have rows: "map xe_sequence rows = [n + 1 + 1..n + 1 + int (length rows)]"
    "\<forall>y\<in>set rows. xe_session_id y = sid \<and> sevent_row_ok e y \<and> se_session (xe_record y) = session_of ident v"
    "distinct (map xe_object_id rows)" "xe_object_id x \<notin> xe_object_id ` set rows"
    "xe_object_id ` set old \<inter> xe_object_id ` set rows = {}"
    using assms(6) by (simp_all add: appended_def)
  have fresh: "xe_object_id x \<notin> xe_object_id ` set old" using assms(5) by (metis imageE)
  show ?thesis
    unfolding appended_def up by (simp add: rows(1) assms(1-4) rows(2,3) fresh) (use rows(4,5) in simp)
qed

lemma appended_one:
  assumes "make_session_event e aud i (session_of ident v) (n + 1) a t s c p occ = Inr ev"
    and "\<forall>y\<in>set old. xe_object_id y \<noteq> object_id ev"
  shows "appended e sid ident v n old [sevent_row_of sid ev cid]"
  using make_session_event_InrD [OF assms(1)] assms(2)
  by (intro appended_Cons) (auto simp: sevent_row_ok_def parse_session_Inr)

lemma appended_append:
  assumes "appended e sid ident v n old rows" "appended e sid ident v (n + int (length rows)) (old @ rows) rows'"
  shows "appended e sid ident v n old (rows @ rows')"
proof -
  have "[n + 1..n + int (length (rows @ rows'))] =
      [n + 1..n + int (length rows)] @ [n + int (length rows) + 1..n + int (length rows) + int (length rows')]"
    using upto_split2 [of "n + 1" "n + int (length rows)" "n + int (length (rows @ rows'))"]
    by (cases rows) (simp_all add: add.assoc)
  then show ?thesis using assms by (auto simp: appended_def)
qed

lemma turn_event_InrD:
  assumes "turn_event e aud sid st v n command p occ = Inr ev" and "state_of ident st"
  shows "make_session_event e aud (event_id_for sid n) (session_of ident v) n v (Some (turn_id_of e command)) None
           (Some (message_command_ref_of command)) p occ = Inr ev"
  using assms by (auto simp: turn_event_def dest: at_version_state)

lemma append_messages_effect:
  assumes "append_messages e aud sid st v command n ms d = Inr (d', evs)" and "state_of ident st"
  shows "\<exists>mrows erows. length erows = length ms \<and> map xe_record erows = evs \<and>
    d' = d\<lparr>harness_messages := harness_messages d @ mrows, harness_events := harness_events d @ erows\<rparr> \<and>
    (\<forall>x\<in>set mrows. xm_session_id x = sid) \<and>
    appended e sid ident v n (harness_events d) erows"
  using assms
proof (induction ms arbitrary: n d evs)
  case Nil
  then show ?case by (intro exI [of _ "[]"]) simp
next
  case (Cons m ms)
  from Cons.prems(1) obtain ev d1 d2 evs' where
    1: "turn_event e aud sid st v (n + 1) command
          (SessionMessagePayload (assistant_kind m) (harness_message_ref_of m) (hm_artifact_envelope_refs m))
          (hm_created_at m) = Inr ev"
    and 2: "add_message sid m (n + 1) d = Inr d1" and 3: "add_event sid ev (Some (object_id command)) d1 = Inr d2"
    and 4: "append_messages e aud sid st v command (n + 1) ms d2 = Inr (d', evs')" and evs: "evs = ev # evs'"
    by (auto elim!: rbind_InrE)
  note ev = make_session_event_InrD [OF turn_event_InrD [OF 1 Cons.prems(2)]]
  have d2: "d2 = d\<lparr>harness_messages := harness_messages d @ [message_row_of sid m (n + 1)],
      harness_events := harness_events d @ [sevent_row_of sid ev (Some (object_id command))]\<rparr>"
    "\<forall>x\<in>set (harness_events d). xe_object_id x \<noteq> object_id ev"
    using add_message_InrD [OF 2] add_event_InrD [OF 3] by simp_all
  from Cons.IH [OF 4 Cons.prems(2)] obtain mrows erows where
    ih: "length erows = length ms" "map xe_record erows = evs'" "\<forall>x\<in>set mrows. xm_session_id x = sid"
      "d' = d2\<lparr>harness_messages := harness_messages d2 @ mrows, harness_events := harness_events d2 @ erows\<rparr>"
      "appended e sid ident v (n + 1) (harness_events d2) erows" by blast
  have app: "appended e sid ident v n (harness_events d) (sevent_row_of sid ev (Some (object_id command)) # erows)"
    by (intro appended_Cons) (use ev d2 ih(5) in \<open>auto simp: sevent_row_ok_def parse_session_Inr\<close>)
  show ?case
    by (rule exI [of _ "message_row_of sid m (n + 1) # mrows"],
        rule exI [of _ "sevent_row_of sid ev (Some (object_id command)) # erows"])
       (use app ih d2 evs in simp)
qed

lemma append_turn_events_effect:
  assumes "append_turn_events e clk aud sid st command cj ms i outcome d = Inr (d', evs)" and "state_of ident st"
  shows "\<exists>mrows erows. length erows = length ms + 2 \<and> map xe_record erows = evs \<and>
    d' = d\<lparr>harness_messages := harness_messages d @ mrows, harness_events := harness_events d @ erows\<rparr> \<and>
    (\<forall>x\<in>set mrows. xm_session_id x = sid) \<and>
    appended e sid ident (ss_session_version st + 1) (ss_last_event_sequence st) (harness_events d) erows"
proof -
  let ?v = "ss_session_version st + 1" and ?n = "ss_last_event_sequence st + int (length ms)"
  from assms(1) obtain d1 evs1 gev d2 rev where
    1: "append_messages e aud sid st ?v command (ss_last_event_sequence st) ms d = Inr (d1, evs1)"
    and 2: "turn_event e aud sid st ?v (?n + 1) command
              (SessionGatewayPayload (gateway_kind cj) (journal_ref_of cj)) (clk 0) = Inr gev"
    and 3: "add_event sid gev (Some (object_id command)) d1 = Inr d2"
    and 4: "turn_event e aud sid st ?v (?n + 2) command
              (SessionRequirementPayload (requirement_kind outcome) (interpretation_ref_of i)) (clk 1) = Inr rev"
    and 5: "add_event sid rev (Some (object_id command)) d2 = Inr d'" and evs: "evs = evs1 @ [gev, rev]"
    by (auto simp: append_turn_events_def Let_def elim!: rbind_InrE)
  from append_messages_effect [OF 1 assms(2)] obtain mrows erows where
    m: "length erows = length ms" "map xe_record erows = evs1" "\<forall>x\<in>set mrows. xm_session_id x = sid"
      "d1 = d\<lparr>harness_messages := harness_messages d @ mrows, harness_events := harness_events d @ erows\<rparr>"
      "appended e sid ident ?v (ss_last_event_sequence st) (harness_events d) erows" by blast
  let ?g = "sevent_row_of sid gev (Some (object_id command))" and ?r = "sevent_row_of sid rev (Some (object_id command))"
  have g: "appended e sid ident ?v ?n (harness_events d1) [?g]"
    using turn_event_InrD [OF 2 assms(2)] add_event_InrD [OF 3] by (intro appended_one) auto
  have r: "appended e sid ident ?v (?n + 1) (harness_events d1 @ [?g]) [?r]"
    using turn_event_InrD [OF 4 assms(2)] add_event_InrD [OF 3] add_event_InrD [OF 5]
    by (intro appended_one) (auto simp: add.assoc)
  have "appended e sid ident ?v ?n (harness_events d1) ([?g] @ [?r])"
    by (rule appended_append [OF g]) (use r in simp)
  then have all: "appended e sid ident ?v (ss_last_event_sequence st) (harness_events d) (erows @ [?g, ?r])"
    by (intro appended_append [OF m(5)]) (use m(1,4) in simp)
  show ?thesis
    by (rule exI [of _ mrows], rule exI [of _ "erows @ [?g, ?r]"])
       (use all m evs add_event_InrD [OF 3] add_event_InrD [OF 5] in simp)
qed

section \<open>Effects of the remaining operations\<close>

lemma complete_turn_effect:
  assumes "complete_turn_fresh e clk sid command prep cj ms i pol outcome aud d = Inr (d', t)"
    and "\<And>r. find_session d sid = Some r \<Longrightarrow> session_row_inv e r"
  obtains r mrows erows jr irow prows trow st' d2 p where
    "find_session d sid = Some r" "load_journal_head e d (object_id command) = Inr (Some prep)"
    "length erows = length ms + 2" "\<forall>x\<in>set mrows. xm_session_id x = sid"
    "appended e sid (xs_identity r) (ss_session_version (xs_state r) + 1) (ss_last_event_sequence (xs_state r))
       (harness_events d) erows"
    "completed_state e (xs_identity r) (xs_state r)
       (ss_last_event_sequence (xs_state r) + int (length erows)) i pol outcome (clk 2) = Inr st'"
    "d2 = d\<lparr>harness_messages := harness_messages d @ mrows, harness_events := harness_events d @ erows,
            gateway_journals := gateway_journals d @ [jr],
            journal_heads := map (\<lambda>x. if xk_command_id x = object_id command then x\<lparr>xk_journal_id := object_id cj\<rparr> else x)
              (journal_heads d),
            harness_interpretations := harness_interpretations d @ [irow], requirement_policies := prows,
            harness_turns := harness_turns d @ [trow], harness_sessions := put_state st' (harness_sessions d)\<rparr>"
    "xj_object_id jr = object_id cj" "xt_command_id trow = object_id command" "xt_record trow = t"
    "parse_session (turn_cls e) ''session turn'' t = Inr t" "xt_object_id trow = object_id t" "xt_sha256 trow = object_sha256 t"
    "build_session_projection e d2 sid = Inr p"
    "d' = d2\<lparr>session_projections := projected p d2,
             harness_idempotency := remembered (turn_scope sid) (mc_idempotency_key command) (object_sha256 command)
               ''harness-turn-result'' (object_id t) d2\<rparr>"
proof -
  from assms(1) obtain st ident head final d1 evs user_ref turn d2 st' d3 d4 p where
    1: "load_session e d sid = Inr (st, ident)" "load_journal_head e d (object_id command) = Inr head" "head = Some prep"
      "append_turn_events e clk aud sid st command cj ms i outcome d = Inr (d1, evs)"
      "store_turn_records sid command cj i pol turn d1 = Inr d2"
      "completed_state e ident st (ss_last_event_sequence st + int (length ms) + 2) i pol outcome (clk 2) = Inr st'"
      "t = turn"
    and mk: "make_turn e aud st command cj final i pol (user_ref # map session_event_ref_of evs) outcome = Inr turn"
    and 2: "update_state st' d2 = Inr d3" and 3: "refresh_projection e sid d3 = Inr (d4, p)"
    and 4: "add_idempotency (turn_scope sid) (mc_idempotency_key command) (object_sha256 command)
              ''harness-turn-result'' (object_id turn) d4 = Inr d'"
    unfolding complete_turn_fresh_def by (auto elim!: rbind_InrE)
  from 1(1) obtain r where r: "find_session d sid = Some r" "st = xs_state r" "ident = xs_identity r"
    by (auto simp: load_session_Inr_iff)
  have "state_of ident st" using assms(2) [OF r(1)] r by (simp add: session_row_inv_def)
  from append_turn_events_effect [OF 1(4) this] obtain mrows erows where
    m: "length erows = length ms + 2" "\<forall>x\<in>set mrows. xm_session_id x = sid"
      "d1 = d\<lparr>harness_messages := harness_messages d @ mrows, harness_events := harness_events d @ erows\<rparr>"
      "appended e sid ident (ss_session_version st + 1) (ss_last_event_sequence st) (harness_events d) erows" by blast
  from 1(5) obtain a1 a2 a3 a4 where
    a: "add_journal sid (object_id command) cj d1 = Inr a1" "move_journal_head (object_id command) (object_id cj) a1 = Inr a2"
      "insert_interpretation
         \<lparr>xi_object_id = object_id i, xi_sha256 = object_sha256 i, xi_session_id = sid,
          xi_command_id = object_id command, xi_record = i\<rparr> a2 = Inr a3"
      "store_policy sid (object_id i) pol a3 = Inr a4"
      "insert_turn
         \<lparr>xt_object_id = object_id turn, xt_sha256 = object_sha256 turn, xt_session_id = sid,
          xt_command_id = object_id command, xt_record = turn\<rparr> a4 = Inr d2"
    by (auto simp: store_turn_records_def elim!: rbind_InrE)
  obtain jr where jr: "a1 = d1\<lparr>gateway_journals := gateway_journals d1 @ [jr]\<rparr>" "xj_object_id jr = object_id cj" using add_journal_InrD [OF a(1)] by blast
  obtain prows where prows: "a4 = a3\<lparr>requirement_policies := prows\<rparr>" using store_policy_InrD [OF a(4)] by blast
  have pt: "parse_session (turn_cls e) ''session turn'' t = Inr t"
    using create_parse_session [OF mk [unfolded make_turn_def]] 1(7) by simp
  let ?irow = "\<lparr>xi_object_id = object_id i, xi_sha256 = object_sha256 i, xi_session_id = sid,
      xi_command_id = object_id command, xi_record = i\<rparr>"
  let ?trow = "\<lparr>xt_object_id = object_id turn, xt_sha256 = object_sha256 turn, xt_session_id = sid,
      xt_command_id = object_id command, xt_record = turn\<rparr>"
  have len: "ss_last_event_sequence st + int (length ms) + 2 = ss_last_event_sequence st + int (length erows)"
    by (simp add: m(1))
  show thesis
    by (rule that [of r erows mrows st' d3 ?trow prows ?irow jr p])
       (use 1(1-5,7) 1(6) [unfolded len] r m jr prows pt move_journal_head_InrD [OF a(2)] insert_interpretation_InrD [OF a(3)] insert_turn_InrD [OF a(5)]
          update_state_InrD [OF 2] refresh_projection_InrD [OF 3] add_idempotency_InrD [OF 4]
          in simp_all)
qed

lemma runtime_event_effect:
  assumes "append_runtime_fresh e clk sid sref v aud key turn_id step_id cref request d = Inr (d', ev)"
  obtains r st' session row d2 p where
    "find_session d sid = Some r" "row_ok e r" "ss_session_ref (xs_state r) = sref"
    "admit_runtime_event (stream_rows d sid (stream_of v)) v = Inr ()"
    "next_state e (xs_identity r) (xs_state r) (ss_status (xs_state r)) (ss_last_event_sequence (xs_state r) + 1) (clk 0) = Inr st'"
    "to_session_ref st' = Inr session"
    "make_session_event e aud (runtime_event_id_for e sid v) session (ss_last_event_sequence st')
       (ss_session_version st') turn_id step_id cref
       (SessionRuntimePayload (re_kind v) (re_runtime_id v) (runtime_event_ref v)) (re_occurred_at v) = Inr ev"
    "\<forall>x\<in>set (harness_events d). xe_object_id x \<noteq> object_id ev"
    "xr_session_id row = sid" "(xr_runtime_id row, xr_run_id row, xr_work_id row) = stream_of v"
    "xr_source_sequence row = re_sequence v" "xr_kind row = re_kind v"
    "d2 = d\<lparr>harness_events := harness_events d @ [sevent_row_of sid ev (map_option ref_id cref)],
            harness_runtime_events := harness_runtime_events d @ [row],
            harness_sessions := put_state st' (harness_sessions d)\<rparr>"
    "build_session_projection e d2 sid = Inr p"
    "d' = d2\<lparr>session_projections := projected p d2,
             harness_idempotency := remembered (runtime_scope sid) key request ''session-event'' (object_id ev) d2\<rparr>"
proof -
  from assms obtain st ident st' session d1 d2 d3 d4 p where
    1: "load_session e d sid = Inr (st, ident)" "ss_session_ref st = sref"
      "admit_runtime_event (stream_rows d sid (stream_of v)) v = Inr ()"
      "next_state e ident st (ss_status st) (ss_last_event_sequence st + 1) (clk 0) = Inr st'"
      "to_session_ref st' = Inr session"
      "make_session_event e aud (runtime_event_id_for e sid v) session (ss_last_event_sequence st')
         (ss_session_version st') turn_id step_id cref
         (SessionRuntimePayload (re_kind v) (re_runtime_id v) (runtime_event_ref v)) (re_occurred_at v) = Inr ev"
    and 2: "add_event sid ev (map_option ref_id cref) d = Inr d1"
    and 3: "insert_runtime_row
              \<lparr>xr_object_id = re_runtime_event_id v, xr_sha256 = re_runtime_event_sha256 v, xr_session_id = sid,
               xr_runtime_id = re_runtime_id v, xr_run_id = re_run_id v, xr_work_id = re_work_id v,
               xr_source_sequence = re_sequence v, xr_kind = re_kind v, xr_session_event_id = object_id ev,
               xr_record = v\<rparr> d1 = Inr d2"
    and 4: "update_state st' d2 = Inr d3" and 5: "refresh_projection e sid d3 = Inr (d4, p)"
    and 6: "add_idempotency (runtime_scope sid) key request ''session-event'' (object_id ev) d4 = Inr d'"
    unfolding append_runtime_fresh_def by (auto elim!: rbind_InrE)
  from 1(1) obtain r where r: "find_session d sid = Some r" "row_ok e r" "st = xs_state r" "ident = xs_identity r"
    by (auto simp: load_session_Inr_iff)
  show thesis
    by (rule that [of r st' session _ d3 p])
       (use 1 r add_event_InrD [OF 2] insert_runtime_row_InrD [OF 3] update_state_InrD [OF 4]
          refresh_projection_InrD [OF 5] add_idempotency_InrD [OF 6] in \<open>simp_all add: stream_of_def\<close>)
qed

lemma team_event_effect:
  assumes "append_team_fresh e clk sid sref source tv payload aud key request d = Inr (d', ev)"
  obtains r prior st' session d2 p where
    "find_session d sid = Some r" "row_ok e r" "ss_session_ref (xs_state r) = sref"
    "last_session_event e d sid (ss_last_event_sequence (xs_state r)) = Inr prior"
    "next_state e (xs_identity r) (xs_state r) (ss_status (xs_state r)) (ss_last_event_sequence (xs_state r) + 1) (clk 0) = Inr st'"
    "to_session_ref st' = Inr session"
    "make_session_event e aud (team_event_id_for e sid source) session (ss_last_event_sequence st')
       (max (ss_session_version st') (max tv (se_authority_version prior))) None None None payload (clk 0) = Inr ev"
    "\<forall>x\<in>set (harness_events d). xe_object_id x \<noteq> object_id ev"
    "d2 = d\<lparr>harness_events := harness_events d @ [sevent_row_of sid ev None],
            harness_sessions := put_state st' (harness_sessions d)\<rparr>"
    "build_session_projection e d2 sid = Inr p"
    "d' = d2\<lparr>session_projections := projected p d2,
             harness_idempotency := remembered (team_scope sid) key request ''session-event'' (object_id ev) d2\<rparr>"
proof -
  from assms obtain st ident prior st' session d1 d2 d3 p where
    1: "load_session e d sid = Inr (st, ident)" "ss_session_ref st = sref"
      "last_session_event e d sid (ss_last_event_sequence st) = Inr prior"
      "next_state e ident st (ss_status st) (ss_last_event_sequence st + 1) (clk 0) = Inr st'"
      "to_session_ref st' = Inr session"
      "make_session_event e aud (team_event_id_for e sid source) session (ss_last_event_sequence st')
         (max (ss_session_version st') (max tv (se_authority_version prior))) None None None payload (clk 0) = Inr ev"
    and 2: "add_event sid ev None d = Inr d1" and 3: "update_state st' d1 = Inr d2"
    and 4: "refresh_projection e sid d2 = Inr (d3, p)"
    and 5: "add_idempotency (team_scope sid) key request ''session-event'' (object_id ev) d3 = Inr d'"
    unfolding append_team_fresh_def by (auto elim!: rbind_InrE)
  from 1(1) obtain r where r: "find_session d sid = Some r" "row_ok e r" "st = xs_state r" "ident = xs_identity r"
    by (auto simp: load_session_Inr_iff)
  show thesis
    by (rule that [of r prior st' session d2 p])
       (use 1 r add_event_InrD [OF 2] update_state_InrD [OF 3] refresh_projection_InrD [OF 4]
          add_idempotency_InrD [OF 5] in simp_all)
qed

lemma rebind_runtime_effect:
  assumes "rebind_runtime_event e sid v row key request d = Inr (d', ev)"
  shows "d' = d\<lparr>harness_idempotency := remembered (runtime_scope sid) key request ''session-event'' (object_id ev) d\<rparr>"
  using assms by (auto simp: rebind_runtime_event_def dest!: add_idempotency_InrD elim!: rbind_InrE)

lemma claim_effect:
  assumes "claim_shell_reconcile e sid expected pr key effect d = Inr (d', x)" and "d' \<noteq> d"
  shows "\<exists>request. d' = d\<lparr>harness_idempotency := remembered (reconcile_scope sid) key request reconcile_intent (effect_id effect) d\<rparr>"
  using assms by (auto simp: claim_shell_reconcile_def Let_def dest!: add_idempotency_InrD elim!: rbind_InrE split: option.splits)

lemma rebuild_effect:
  assumes "rebuild_projection e sid d = Inr (d', p)"
  shows "build_session_projection e d sid = Inr p \<and> d' = d\<lparr>session_projections := projected p d\<rparr>"
  using refresh_projection_InrD assms by (simp add: rebuild_projection_def)

end
