(* ===== verification/Session_Steps.thy ===== *)
theory Session_Steps
  imports Session_Effects
begin

text \<open>
  The session store as a transition system: \<open>session_step\<close> has one rule per operation that commits, and the
  reachable stores are those its steps lead to from the empty database. A step changes the session, event,
  command and runtime tables in one of three ways (\<open>session_change\<close>), and the invariant of the event logs is
  shown once for the three.
\<close>

section \<open>Steps\<close>

text \<open>
  The journal and turn operations are called with a command of the session they name, as
  \<open>requirement_agent.py\<close> does with the command and the state of one turn start.
\<close>

definition command_of_session :: "session_db \<Rightarrow> string \<Rightarrow> message_command \<Rightarrow> bool" where
  "command_of_session d sid command \<longleftrightarrow>
     list_ex (\<lambda>c. xc_object_id c = object_id command \<and> xc_session_id c = sid) (harness_commands d)"

inductive session_step :: "session_env \<Rightarrow> session_db \<Rightarrow> session_db \<Rightarrow> bool" for e :: session_env where
  step_create: "create_session e clk sid inca cmp who key aud d = Inr (d', p) \<Longrightarrow> session_step e d d'"
| step_close: "close_session e clk sid expected pr key aud d = Inr (d', p) \<Longrightarrow> session_step e d d'"
| step_claim: "claim_shell_reconcile e sid expected pr key effect d = Inr (d', c) \<Longrightarrow> session_step e d d'"
| step_start: "start_turn e clk sid expected pr content artifacts key aud d = Inr (d', ts) \<Longrightarrow> session_step e d d'"
| step_prepare: "record_prepared_journal e clk sid command j d = Inr (d', x) \<Longrightarrow>
    command_of_session d sid command \<Longrightarrow> session_step e d d'"
| step_complete: "complete_turn e clk sid command prep cj ms i pol outcome aud d = Inr (d', t) \<Longrightarrow>
    command_of_session d sid command \<Longrightarrow> session_step e d d'"
| step_runtime: "append_runtime_event e clk sref v aud key turn_id step_id cref d = Inr (d', ev) \<Longrightarrow> session_step e d d'"
| step_team: "append_team_event e clk sref source tv payload aud key d = Inr (d', ev) \<Longrightarrow> session_step e d d'"
| step_rebuild: "rebuild_projection e sid d = Inr (d', p) \<Longrightarrow> session_step e d d'"

definition session_reachable :: "session_env \<Rightarrow> session_db \<Rightarrow> bool" where
  "session_reachable e d \<longleftrightarrow> (session_step e)\<^sup>*\<^sup>* empty_session_db d"

section \<open>Three kinds of change\<close>

definition new_command :: "string \<Rightarrow> int \<Rightarrow> command_row list \<Rightarrow> bool" where
  "new_command sid version cs \<longleftrightarrow>
     cs = [] \<or> (\<exists>c. cs = [c] \<and> xc_session_id c = sid \<and> mc_expected_session_version (xc_record c) = version \<and>
                   xc_object_id c = object_id (xc_record c))"

definition new_runtime :: "session_db \<Rightarrow> string \<Rightarrow> runtime_row list \<Rightarrow> bool" where
  "new_runtime d sid rs \<longleftrightarrow>
     rs = [] \<or> (\<exists>row v. rs = [row] \<and> xr_session_id row = sid \<and>
                  (xr_runtime_id row, xr_run_id row, xr_work_id row) = stream_of v \<and>
                  xr_source_sequence row = re_sequence v \<and> xr_kind row = re_kind v \<and>
                  admit_runtime_event (stream_rows d sid (stream_of v)) v = Inr ())"

inductive session_change :: "session_env \<Rightarrow> session_db \<Rightarrow> session_db \<Rightarrow> bool" for e d d' where
  still: "harness_sessions d' = harness_sessions d \<Longrightarrow> harness_events d' = harness_events d \<Longrightarrow>
    harness_commands d' = harness_commands d \<Longrightarrow> harness_runtime_events d' = harness_runtime_events d \<Longrightarrow>
    session_change e d d'"
| opened: "session_row_inv e row \<Longrightarrow> ss_session_version (xs_state row) = 1 \<Longrightarrow>
    ss_last_event_sequence (xs_state row) = 1 \<Longrightarrow>
    \<forall>x\<in>set (harness_sessions d). xs_session_id x \<noteq> xs_session_id row \<and> xs_identity_id x \<noteq> xs_identity_id row \<Longrightarrow>
    appended e (xs_session_id row) (xs_identity row) 1 0 (harness_events d) rows \<Longrightarrow> length rows = 1 \<Longrightarrow>
    harness_sessions d' = harness_sessions d @ [row] \<Longrightarrow> harness_events d' = harness_events d @ rows \<Longrightarrow>
    harness_commands d' = harness_commands d \<Longrightarrow> harness_runtime_events d' = harness_runtime_events d \<Longrightarrow>
    session_change e d d'"
| advanced: "find_session d sid = Some r \<Longrightarrow> state_of (xs_identity r) st' \<Longrightarrow>
    validate_state (dg_session_state e) st' \<Longrightarrow>
    ss_session_version st' = ss_session_version (xs_state r) + 1 \<Longrightarrow>
    ss_last_event_sequence st' = ss_last_event_sequence (xs_state r) + int (length rows) \<Longrightarrow>
    appended e sid (xs_identity r) (ss_session_version st') (ss_last_event_sequence (xs_state r)) (harness_events d) rows \<Longrightarrow>
    harness_sessions d' = put_state st' (harness_sessions d) \<Longrightarrow> harness_events d' = harness_events d @ rows \<Longrightarrow>
    new_command sid (ss_session_version (xs_state r)) cs \<Longrightarrow> harness_commands d' = harness_commands d @ cs \<Longrightarrow>
    new_runtime d sid rs \<Longrightarrow> harness_runtime_events d' = harness_runtime_events d @ rs \<Longrightarrow>
    session_change e d d'"

definition rows_inv :: "session_env \<Rightarrow> session_db \<Rightarrow> bool" where
  "rows_inv e d \<longleftrightarrow> (\<forall>r\<in>set (harness_sessions d). session_row_inv e r)"

lemma rows_inv_find: "rows_inv e d \<Longrightarrow> find_session d sid = Some r \<Longrightarrow> session_row_inv e r"
  by (auto simp: rows_inv_def dest: find_session_Some)

lemma session_change_refl [simp]: "session_change e d d"
  by (rule still) simp_all

lemma change_create:
  assumes "create_session_fresh e clk sid inca cmp who key request aud d = Inr (d', p)"
  shows "session_change e d d'"
proof (rule create_session_effect [OF assms])
  fix ident st session ev row d2
  assume a: "si_session_id ident = sid"
    "create_state (dg_session_state e) ident 1 SESSION_ACTIVE 1 None None (clk 0) = Inr st"
    "to_session_ref st = Inr session"
    "make_session_event e aud (event_id_for sid 1) session 1 1 None None None
       (SessionLifecyclePayload SESSION_OPENED) (clk 0) = Inr ev"
    "session_row_inv e row" "xs_session_id row = sid" "xs_state row = st" "xs_identity row = ident"
    "\<forall>x\<in>set (harness_sessions d). xs_session_id x \<noteq> sid \<and> xs_identity_id x \<noteq> xs_identity_id row"
    "\<forall>x\<in>set (harness_events d). xe_object_id x \<noteq> object_id ev"
    "d2 = d\<lparr>harness_sessions := harness_sessions d @ [row], harness_events := harness_events d @ [sevent_row_of sid ev None]\<rparr>"
    "d' = d2\<lparr>session_projections := projected p d2, harness_idempotency := remembered create_scope key request ''harness-session'' sid d2\<rparr>"
  note st = create_state_InrD [OF a(2)]
  have session: "session = session_of ident 1" using to_session_ref_state [OF st(1) a(3)] st(2) by simp
  have "appended e sid ident 1 0 (harness_events d) [sevent_row_of sid ev None]"
    by (rule appended_one) (use a(4,10) session in simp_all)
  then show ?thesis
    by (intro opened [of e row d "[sevent_row_of sid ev None]"]) (use a st in simp_all)
qed

lemma change_close:
  assumes "close_session_fresh e clk sid expected key request aud d = Inr (d', p)"
  shows "session_change e d d'"
proof (rule close_session_effect [OF assms])
  fix r st' session ev d2
  assume a: "find_session d sid = Some r"
    "next_state e (xs_identity r) (xs_state r) SESSION_STATUS_CLOSED (ss_last_event_sequence (xs_state r) + 1) (clk 0) = Inr st'"
    "to_session_ref st' = Inr session"
    "make_session_event e aud (event_id_for sid (ss_last_event_sequence st')) session (ss_last_event_sequence st')
       (ss_session_version st') None None None (SessionLifecyclePayload SESSION_CLOSED) (clk 0) = Inr ev"
    "\<forall>x\<in>set (harness_events d). xe_object_id x \<noteq> object_id ev"
    "d2 = d\<lparr>harness_sessions := put_state st' (harness_sessions d), harness_events := harness_events d @ [sevent_row_of sid ev None]\<rparr>"
    "d' = d2\<lparr>session_projections := projected p d2, harness_idempotency := remembered (close_scope sid) key request ''harness-session'' sid d2\<rparr>"
  note st = next_state_InrD [OF a(2)]
  have "appended e sid (xs_identity r) (ss_session_version st') (ss_last_event_sequence (xs_state r)) (harness_events d)
      [sevent_row_of sid ev None]"
    by (rule appended_one) (use a(4,5) st to_session_ref_state [OF st(1) a(3)] in simp_all)
  then show ?thesis
    by (intro advanced [OF a(1), of st' e "[sevent_row_of sid ev None]" d' "[]" "[]"])
       (use a st in \<open>simp_all add: new_command_def new_runtime_def\<close>)
qed

lemma change_start:
  assumes "start_turn_fresh e clk sid (xs_state r) (xs_identity r) command expected content artifacts aud d = Inr (d', ts)"
    and "find_session d sid = Some r" and "mc_expected_session_version command = expected"
  shows "session_change e d d'"
proof (rule start_turn_effect [OF assms(1)])
  fix m st' session ev row d2 p
  assume a: "ss_session_version (xs_state r) = expected"
    "next_state e (xs_identity r) (xs_state r) SESSION_ACTIVE (ss_last_event_sequence (xs_state r) + 1) (clk 0) = Inr st'"
    "to_session_ref st' = Inr session"
    "make_session_event e aud (event_id_for sid (ss_last_event_sequence st')) session (ss_last_event_sequence st')
       (ss_session_version st') (Some (turn_id_of e command)) None (Some (message_command_ref_of command))
       (SessionMessagePayload SE_USER_MESSAGE (harness_message_ref_of m) (hm_artifact_envelope_refs m)) (clk 0) = Inr ev"
    "xc_object_id row = object_id command" "xc_session_id row = sid" "xc_record row = command"
    "\<forall>x\<in>set (harness_events d). xe_object_id x \<noteq> object_id ev"
    "d2 = d\<lparr>harness_commands := harness_commands d @ [row],
            harness_messages := harness_messages d @ [message_row_of sid m (ss_last_event_sequence st')],
            harness_events := harness_events d @ [sevent_row_of sid ev (Some (object_id command))],
            harness_sessions := put_state st' (harness_sessions d)\<rparr>"
    "d' = d2\<lparr>session_projections := projected p d2\<rparr>"
  note st = next_state_InrD [OF a(2)]
  have "appended e sid (xs_identity r) (ss_session_version st') (ss_last_event_sequence (xs_state r)) (harness_events d)
      [sevent_row_of sid ev (Some (object_id command))]"
    by (rule appended_one) (use a(4,8) st to_session_ref_state [OF st(1) a(3)] in simp_all)
  then show ?thesis
    by (intro advanced [OF assms(2), of st' e "[sevent_row_of sid ev (Some (object_id command))]" d' "[row]" "[]"])
       (use a st assms(3) in \<open>simp_all add: new_command_def new_runtime_def\<close>)
qed

lemma change_prepare:
  assumes "record_prepared_journal e clk sid command j d = Inr (d', x)"
  shows "session_change e d d'"
proof (cases "d' = d")
  case False
  show ?thesis
  proof (rule prepared_journal_effect [OF assms False])
    fix r st' jr d2 p
    assume a: "find_session d sid = Some r"
      "next_state e (xs_identity r) (xs_state r) (ss_status (xs_state r)) (ss_last_event_sequence (xs_state r)) (clk 0) = Inr st'"
      "d2 = d\<lparr>gateway_journals := gateway_journals d @ [jr],
              journal_heads := journal_heads d @ [\<lparr>xk_command_id = object_id command, xk_journal_id = object_id j\<rparr>],
              harness_sessions := put_state st' (harness_sessions d)\<rparr>"
      "d' = d2\<lparr>session_projections := projected p d2\<rparr>"
    note st = next_state_InrD [OF a(2)]
    show ?thesis
      by (intro advanced [OF a(1), of st' e "[]" d' "[]" "[]"])
         (use a st in \<open>simp_all add: new_command_def new_runtime_def\<close>)
  qed
qed simp

lemma change_complete:
  assumes "complete_turn_fresh e clk sid command prep cj ms i pol outcome aud d = Inr (d', t)" and "rows_inv e d"
  shows "session_change e d d'"
proof (rule complete_turn_effect [OF assms(1) rows_inv_find [OF assms(2)]])
  fix r mrows erows jr irow prows trow st' d2 p
  assume a: "find_session d sid = Some r"
    "appended e sid (xs_identity r) (ss_session_version (xs_state r) + 1) (ss_last_event_sequence (xs_state r))
       (harness_events d) erows"
    "completed_state e (xs_identity r) (xs_state r)
       (ss_last_event_sequence (xs_state r) + int (length erows)) i pol outcome (clk 2) = Inr st'"
    "d2 = d\<lparr>harness_messages := harness_messages d @ mrows, harness_events := harness_events d @ erows,
            gateway_journals := gateway_journals d @ [jr],
            journal_heads := map (\<lambda>x. if xk_command_id x = object_id command then x\<lparr>xk_journal_id := object_id cj\<rparr> else x)
              (journal_heads d),
            harness_interpretations := harness_interpretations d @ [irow], requirement_policies := prows,
            harness_turns := harness_turns d @ [trow], harness_sessions := put_state st' (harness_sessions d)\<rparr>"
    "d' = d2\<lparr>session_projections := projected p d2,
             harness_idempotency := remembered (turn_scope sid) (mc_idempotency_key command) (object_sha256 command)
               ''harness-turn-result'' (object_id t) d2\<rparr>"
  note st = create_state_InrD [OF a(3) [unfolded completed_state_def]]
  show ?thesis
    by (intro advanced [OF a(1), of st' e erows d' "[]" "[]"])
       (use a st in \<open>simp_all add: new_command_def new_runtime_def\<close>)
qed

lemma change_runtime:
  assumes "append_runtime_fresh e clk sid sref v aud key turn_id step_id cref request d = Inr (d', ev)"
  shows "session_change e d d'"
proof (rule runtime_event_effect [OF assms])
  fix r st' session row d2 p
  assume a: "find_session d sid = Some r"
    "admit_runtime_event (stream_rows d sid (stream_of v)) v = Inr ()"
    "next_state e (xs_identity r) (xs_state r) (ss_status (xs_state r)) (ss_last_event_sequence (xs_state r) + 1) (clk 0) = Inr st'"
    "to_session_ref st' = Inr session"
    "make_session_event e aud (runtime_event_id_for e sid v) session (ss_last_event_sequence st')
       (ss_session_version st') turn_id step_id cref
       (SessionRuntimePayload (re_kind v) (re_runtime_id v) (runtime_event_ref v)) (re_occurred_at v) = Inr ev"
    "\<forall>x\<in>set (harness_events d). xe_object_id x \<noteq> object_id ev"
    "xr_session_id row = sid" "(xr_runtime_id row, xr_run_id row, xr_work_id row) = stream_of v"
    "xr_source_sequence row = re_sequence v" "xr_kind row = re_kind v"
    "d2 = d\<lparr>harness_events := harness_events d @ [sevent_row_of sid ev (map_option ref_id cref)],
            harness_runtime_events := harness_runtime_events d @ [row],
            harness_sessions := put_state st' (harness_sessions d)\<rparr>"
    "d' = d2\<lparr>session_projections := projected p d2,
             harness_idempotency := remembered (runtime_scope sid) key request ''session-event'' (object_id ev) d2\<rparr>"
  note st = next_state_InrD [OF a(3)]
  let ?x = "sevent_row_of sid ev (map_option ref_id cref)"
  have "appended e sid (xs_identity r) (ss_session_version st') (ss_last_event_sequence (xs_state r)) (harness_events d) [?x]"
    by (rule appended_one) (use a(5,6) st to_session_ref_state [OF st(1) a(4)] in simp_all)
  moreover have "new_runtime d sid [row]" unfolding new_runtime_def using a(2,7-10) by blast
  ultimately show ?thesis
    by (intro advanced [OF a(1), of st' e "[?x]" d' "[]" "[row]"])
       (use a(11,12) st in \<open>simp_all add: new_command_def\<close>)
qed

lemma change_team:
  assumes "append_team_fresh e clk sid sref source tv payload aud key request d = Inr (d', ev)"
  shows "session_change e d d'"
proof (rule team_event_effect [OF assms])
  fix r prior st' session d2 p
  assume a: "find_session d sid = Some r"
    "next_state e (xs_identity r) (xs_state r) (ss_status (xs_state r)) (ss_last_event_sequence (xs_state r) + 1) (clk 0) = Inr st'"
    "to_session_ref st' = Inr session"
    "make_session_event e aud (team_event_id_for e sid source) session (ss_last_event_sequence st')
       (max (ss_session_version st') (max tv (se_authority_version prior))) None None None payload (clk 0) = Inr ev"
    "\<forall>x\<in>set (harness_events d). xe_object_id x \<noteq> object_id ev"
    "d2 = d\<lparr>harness_events := harness_events d @ [sevent_row_of sid ev None],
            harness_sessions := put_state st' (harness_sessions d)\<rparr>"
    "d' = d2\<lparr>session_projections := projected p d2,
             harness_idempotency := remembered (team_scope sid) key request ''session-event'' (object_id ev) d2\<rparr>"
  note st = next_state_InrD [OF a(2)]
  have "appended e sid (xs_identity r) (ss_session_version st') (ss_last_event_sequence (xs_state r)) (harness_events d)
      [sevent_row_of sid ev None]"
    by (rule appended_one) (use a(4,5) st to_session_ref_state [OF st(1) a(3)] in simp_all)
  then show ?thesis
    by (intro advanced [OF a(1), of st' e "[sevent_row_of sid ev None]" d' "[]" "[]"])
       (use a(6,7) st in \<open>simp_all add: new_command_def new_runtime_def\<close>)
qed

lemma as_conflict_Inr [simp]: "as_conflict r = Inr x \<longleftrightarrow> r = Inr x"
  by (cases r rule: as_conflict.cases) auto

lemma change_create_session:
  assumes "create_session e clk sid inca cmp who key aud d = Inr (d', p)" shows "session_change e d d'"
  using assms by (auto simp: create_session_def Let_def elim!: rbind_InrE split: option.splits intro: change_create)

lemma change_close_session:
  assumes "close_session e clk sid expected pr key aud d = Inr (d', p)" shows "session_change e d d'"
  using assms by (auto simp: close_session_def Let_def elim!: rbind_InrE split: option.splits intro: change_close)

lemma make_command_InrD:
  assumes "make_command e sid st expected pr content artifacts key aud = Inr c"
  shows "parse_session (mcommand_cls e) l c = Inr c" "mc_expected_session_version c = expected"
    "mc_idempotency_key c = key" "mc_session_ref c = ss_session_ref st"
  using assms create_parse_session [OF assms [unfolded make_command_def]]
  by (auto simp: make_command_def message_command.create_Inr_iff)

lemma start_turn_cases:
  assumes "start_turn e clk sid expected pr content artifacts key aud d = Inr (d', ts)"
  obtains (replayed) "d' = d"
  | (fresh) r command where "find_session d sid = Some r" "row_ok e r"
      "make_command e sid (xs_state r) expected pr (strip content) artifacts key aud = Inr command"
      "find (\<lambda>c. xc_session_id c = sid \<and> xc_idempotency_key c = key) (harness_commands d) = None"
      "start_turn_fresh e clk sid (xs_state r) (xs_identity r) command expected (strip content) artifacts aud d = Inr (d', ts)"
  using assms
  by (auto simp: start_turn_def replay_turn_def load_session_Inr_iff elim!: rbind_InrE split: option.splits)

lemma change_start_turn:
  assumes "start_turn e clk sid expected pr content artifacts key aud d = Inr (d', ts)" shows "session_change e d d'"
  using assms
proof (cases rule: start_turn_cases)
  case (fresh r command)
  then show ?thesis by (intro change_start [OF fresh(5,1)]) (simp add: make_command_InrD)
qed simp

lemma change_complete_turn:
  assumes "complete_turn e clk sid command prep cj ms i pol outcome aud d = Inr (d', t)" and "rows_inv e d"
  shows "session_change e d d'"
  using assms by (auto simp: complete_turn_def elim!: rbind_InrE split: option.splits intro: change_complete)

lemma change_claim:
  assumes "claim_shell_reconcile e sid expected pr key effect d = Inr (d', x)" shows "session_change e d d'"
proof (cases "d' = d")
  case False
  from claim_effect [OF assms False] show ?thesis by (auto intro: still)
qed simp

lemma change_rebind:
  assumes "rebind_runtime_event e sid v row key request d = Inr (d', ev)" shows "session_change e d d'"
  using rebind_runtime_effect [OF assms] by (auto intro: still)

lemma change_append_runtime:
  assumes "append_runtime_event e clk sref v aud key turn_id step_id cref d = Inr (d', ev)" shows "session_change e d d'"
  using assms
  by (auto simp: append_runtime_event_def Let_def elim!: rbind_InrE split: option.splits
      intro: change_runtime change_rebind)

lemma change_append_team:
  assumes "append_team_event e clk sref source tv payload aud key d = Inr (d', ev)" shows "session_change e d d'"
  using assms by (auto simp: append_team_event_def Let_def elim!: rbind_InrE split: option.splits intro: change_team)

lemma change_rebuild:
  assumes "rebuild_projection e sid d = Inr (d', p)" shows "session_change e d d'"
  using rebuild_effect [OF assms] by (auto intro: still)

lemma step_change: "session_step e d d' \<Longrightarrow> rows_inv e d \<Longrightarrow> session_change e d d'"
  by (cases rule: session_step.cases)
     (auto intro: change_create_session change_close_session change_claim change_start_turn change_prepare
        change_complete_turn change_append_runtime change_append_team change_rebuild)

end
