(* ===== verification/Session_Invariant.thy ===== *)
theory Session_Invariant
  imports Session_Steps
begin

text \<open>
  The invariant of the session store: rows that load, event logs numbered from one with versions that never
  decrease, commands accepted at distinct increasing versions, and runtime streams that are runs of an
  abstract grammar. It is shown once for the three kinds of change and lifted to the reachable stores.
\<close>

section \<open>The invariant\<close>

definition session_rows :: "session_db \<Rightarrow> string \<Rightarrow> sevent_row list" where
  "session_rows d sid = filter (\<lambda>x. xe_session_id x = sid) (harness_events d)"

definition versions_of :: "sevent_row list \<Rightarrow> int list" where
  "versions_of rows = map (\<lambda>x. sr_session_version (se_session (xe_record x))) rows"

definition session_log_inv :: "session_env \<Rightarrow> session_row \<Rightarrow> sevent_row list \<Rightarrow> bool" where
  "session_log_inv e r rows \<longleftrightarrow>
     map xe_sequence rows = [1..ss_last_event_sequence (xs_state r)] \<and>
     (\<forall>x\<in>set rows. sevent_row_ok e x \<and>
        se_session (xe_record x) = session_of (xs_identity r) (sr_session_version (se_session (xe_record x)))) \<and>
     sorted (1 # versions_of rows @ [ss_session_version (xs_state r)]) \<and> rows \<noteq> []"

definition session_inv :: "session_env \<Rightarrow> session_db \<Rightarrow> bool" where
  "session_inv e d \<longleftrightarrow>
     rows_inv e d \<and> distinct (map xs_session_id (harness_sessions d)) \<and>
     distinct (map xs_identity_id (harness_sessions d)) \<and>
     distinct (map xe_object_id (harness_events d)) \<and>
     xe_session_id ` set (harness_events d) \<subseteq> xs_session_id ` set (harness_sessions d) \<and>
     (\<forall>r\<in>set (harness_sessions d). session_log_inv e r (session_rows d (xs_session_id r)))"

definition accepted_versions :: "session_db \<Rightarrow> string \<Rightarrow> int list" where
  "accepted_versions d sid =
     map (\<lambda>c. mc_expected_session_version (xc_record c)) (filter (\<lambda>c. xc_session_id c = sid) (harness_commands d))"

definition command_inv :: "session_db \<Rightarrow> bool" where
  "command_inv d \<longleftrightarrow>
     xc_session_id ` set (harness_commands d) \<subseteq> xs_session_id ` set (harness_sessions d) \<and>
     (\<forall>r\<in>set (harness_sessions d).
        sorted_wrt (<) (accepted_versions d (xs_session_id r) @ [ss_session_version (xs_state r)]))"

text \<open>The grammar of a runtime stream: one start, no event after a terminal one, usage before it.\<close>

inductive runtime_run :: "runtime_event_kind list \<Rightarrow> bool" where
  run_start: "runtime_run [RUN_STARTED]"
| run_more: "runtime_run ks \<Longrightarrow> k \<noteq> RUN_STARTED \<Longrightarrow> last ks \<notin> {RUN_COMPLETED, RUN_FAILED} \<Longrightarrow>
    k \<in> {RUN_COMPLETED, RUN_FAILED} \<longrightarrow> USAGE_REPORTED \<in> set ks \<Longrightarrow> runtime_run (ks @ [k])"

definition stream_ok :: "runtime_row list \<Rightarrow> bool" where
  "stream_ok rows \<longleftrightarrow>
     map xr_source_sequence rows = [1..int (length rows)] \<and> (rows = [] \<or> runtime_run (map xr_kind rows))"

definition stream_inv :: "session_db \<Rightarrow> bool" where
  "stream_inv d \<longleftrightarrow> (\<forall>sid s. stream_ok (stream_rows d sid s))"

section \<open>Preservation\<close>

lemma put_state_ids [simp]:
  "map xs_session_id (put_state st rows) = map xs_session_id rows"
  "map xs_identity_id (put_state st rows) = map xs_identity_id rows"
  "xs_session_id ` set (put_state st rows) = xs_session_id ` set rows"
  by (induction rows) (auto simp: put_state_def)

lemma find_put_state:
  "find (\<lambda>r. xs_session_id r = sid) (put_state st rows) =
     map_option (\<lambda>r. if xs_session_id r = ss_session_id st then set_state st r else r)
       (find (\<lambda>r. xs_session_id r = sid) rows)"
  by (induction rows) (auto simp: put_state_def)

lemma in_put_state:
  assumes "x \<in> set (put_state st rows)"
  obtains y where "y \<in> set rows" "x = (if xs_session_id y = ss_session_id st then set_state st y else y)"
  using assms by (auto simp: put_state_def)

lemma session_rows_append: "harness_events d' = harness_events d @ rows \<Longrightarrow>
    session_rows d' sid = session_rows d sid @ filter (\<lambda>x. xe_session_id x = sid) rows"
  by (simp add: session_rows_def)

lemma appended_filter:
  assumes "appended e sid ident v n old rows"
  shows "filter (\<lambda>x. xe_session_id x = i) rows = (if i = sid then rows else [])"
  using assms by (auto simp: appended_def filter_id_conv filter_empty_conv)

lemma sorted_snoc_versions:
  assumes "sorted (1 # vs @ [v])" and "v \<le> w" and "set ws \<subseteq> {w}"
  shows "sorted (1 # (vs @ ws) @ [w :: int])"
proof -
  have ws: "ws = replicate (length ws) w" using assms(3) by (auto intro: replicate_eqI)
  have "sorted ws" by (subst ws) simp
  moreover have "x = w" if "x \<in> set ws" for x using assms(3) that by auto
  ultimately show ?thesis using assms(1,2) by (fastforce simp: sorted_append)
qed

lemma log_inv_advance:
  assumes "session_log_inv e r old" and "state_of (xs_identity r) st'"
    and "ss_session_version st' = ss_session_version (xs_state r) + 1"
    and "ss_last_event_sequence st' = ss_last_event_sequence (xs_state r) + int (length rows)"
    and "appended e sid (xs_identity r) (ss_session_version st') (ss_last_event_sequence (xs_state r)) evs rows"
  shows "session_log_inv e (set_state st' r) (old @ rows)"
proof -
  let ?n = "ss_last_event_sequence (xs_state r)"
  have n: "1 \<le> ?n" using assms(1) by (auto simp: session_log_inv_def intro: ccontr)
  have up: "[1..?n + int (length rows)] = [1..?n] @ [?n + 1..?n + int (length rows)]"
    using n by (intro upto_split2) auto
  have "sorted (1 # (versions_of old @ versions_of rows) @ [ss_session_version st'])"
    using assms(1,3,5)
    by (intro sorted_snoc_versions [of _ "ss_session_version (xs_state r)"])
       (auto simp: session_log_inv_def appended_def versions_of_def session_of_def)
  then show ?thesis
    using assms up by (auto simp: session_log_inv_def appended_def versions_of_def session_of_def)
qed

lemma session_inv_change:
  assumes "session_change e d d'" and "session_inv e d"
  shows "session_inv e d'"
  using assms(1)
proof cases
  case still
  then show ?thesis using assms(2) by (simp add: session_inv_def rows_inv_def session_rows_def)
next
  case (opened row rows)
  have old: "session_rows d (xs_session_id row) = []"
    using assms(2) opened(4) by (auto simp: session_rows_def session_inv_def filter_empty_conv)
  have rows: "map xe_sequence rows = [1]"
    using opened(5,6) by (simp add: appended_def)
  have new: "session_log_inv e row rows"
    using opened(2,3,5,6) rows
    by (auto simp: session_log_inv_def appended_def versions_of_def session_of_def)
  have logs: "session_rows d' i = session_rows d i @ (if i = xs_session_id row then rows else [])" for i
    using session_rows_append [OF opened(8)] appended_filter [OF opened(5)] by simp
  show ?thesis
    using assms(2) opened(1,4,5,7,8) new old
    by (auto simp: session_inv_def rows_inv_def logs appended_def)
next
  case (advanced sid r st' rows cs rs)
  have r: "r \<in> set (harness_sessions d)" "xs_session_id r = sid" using find_session_Some [OF advanced(1)] by auto
  have inv: "session_row_inv e r" "session_log_inv e r (session_rows d sid)"
    using assms(2) r by (auto simp: session_inv_def rows_inv_def)
  have sid: "ss_session_id st' = sid"
    using advanced(2) inv(1) r(2) by (auto simp: session_row_inv_def row_ok_def state_of_def)
  have uniq: "y = r" if "y \<in> set (harness_sessions d)" "xs_session_id y = sid" for y
    using assms(2) that r by (auto simp: session_inv_def distinct_map inj_on_def)
  have logs: "session_rows d' i = session_rows d i @ (if i = sid then rows else [])" for i
    using session_rows_append [OF advanced(8)] appended_filter [OF advanced(6)] by simp
  have moved: "session_row_inv e (set_state st' r)" "session_log_inv e (set_state st' r) (session_rows d sid @ rows)"
    using set_state_inv [OF inv(1) advanced(2,3)] log_inv_advance [OF inv(2) advanced(2,4,5,6)] by simp_all
  have each: "session_row_inv e x \<and> session_log_inv e x (session_rows d' (xs_session_id x))"
    if "x \<in> set (harness_sessions d')" for x
  proof -
    have "x \<in> set (put_state st' (harness_sessions d))" using that unfolding advanced(7) .
    then obtain y where y: "y \<in> set (harness_sessions d)" "x = (if xs_session_id y = sid then set_state st' y else y)"
      unfolding sid [symmetric] by (rule in_put_state)
    show ?thesis
    proof (cases "xs_session_id y = sid")
      case True
      then show ?thesis using uniq [OF y(1) True] y(2) moved r(2) by (simp add: logs)
    next
      case False
      then show ?thesis using y assms(2) by (simp add: logs session_inv_def rows_inv_def)
    qed
  qed
  have "xe_session_id ` set rows \<subseteq> {sid}" using advanced(6) by (auto simp: appended_def)
  then show ?thesis
    using assms(2) advanced(6-8) each r
    by (auto simp: session_inv_def rows_inv_def appended_def)
qed

section \<open>Commands\<close>

lemma command_inv_change:
  assumes "session_change e d d'" and "session_inv e d" and "command_inv d"
  shows "command_inv d'"
  using assms(1)
proof cases
  case still
  then show ?thesis using assms(3) by (simp add: command_inv_def accepted_versions_def)
next
  case (opened row rows)
  have "accepted_versions d' (xs_session_id row) = []"
    using opened(4,9) assms(3) by (auto simp: command_inv_def accepted_versions_def filter_empty_conv)
  then show ?thesis
    using assms(3) opened(7,9) by (auto simp: command_inv_def accepted_versions_def)
next
  case (advanced sid r st' rows cs rs)
  have r: "r \<in> set (harness_sessions d)" "xs_session_id r = sid" using find_session_Some [OF advanced(1)] by auto
  have sid: "ss_session_id st' = sid"
    using advanced(2) assms(2) r
    by (auto simp: session_inv_def rows_inv_def session_row_inv_def row_ok_def state_of_def)
  have uniq: "y = r" if "y \<in> set (harness_sessions d)" "xs_session_id y = sid" for y
    using assms(2) that r by (auto simp: session_inv_def distinct_map inj_on_def)
  have more: "accepted_versions d' i = accepted_versions d i @
      (if i = sid then map (\<lambda>c. mc_expected_session_version (xc_record c)) cs else [])" for i
    using advanced(9,10) by (auto simp: accepted_versions_def new_command_def)
  have cs: "set (map (\<lambda>c. mc_expected_session_version (xc_record c)) cs) \<subseteq> {ss_session_version (xs_state r)}"
    "length cs \<le> 1" "xc_session_id ` set cs \<subseteq> {sid}"
    using advanced(9) by (auto simp: new_command_def)
  have old: "sorted_wrt (<) (accepted_versions d sid @ [ss_session_version (xs_state r)])"
    using assms(3) r by (auto simp: command_inv_def)
  have now: "sorted_wrt (<) (accepted_versions d' sid @ [ss_session_version st'])"
    using old advanced(4) cs(1,2) by (cases cs) (fastforce simp: more sorted_wrt_append)+
  have each: "sorted_wrt (<) (accepted_versions d' (xs_session_id x) @ [ss_session_version (xs_state x)])"
    if "x \<in> set (harness_sessions d')" for x
  proof -
    have "x \<in> set (put_state st' (harness_sessions d))" using that unfolding advanced(7) .
    then obtain y where y: "y \<in> set (harness_sessions d)" "x = (if xs_session_id y = sid then set_state st' y else y)"
      unfolding sid [symmetric] by (rule in_put_state)
    show ?thesis
      using y now assms(3) by (cases "xs_session_id y = sid") (auto simp: more command_inv_def)
  qed
  show ?thesis
    using assms(3) advanced(7,10) cs(3) r each by (auto simp: command_inv_def)
qed

section \<open>Runtime streams\<close>

lemma stream_rows_change:
  assumes "harness_runtime_events d' = harness_runtime_events d @ rs"
  shows "stream_rows d' sid s = stream_rows d sid s @
    filter (\<lambda>r. xr_session_id r = sid \<and> (xr_runtime_id r, xr_run_id r, xr_work_id r) = s) rs"
  using assms by (simp add: stream_rows_def)

lemma latest_numbered:
  assumes "map key rows = [1..int (length rows)]"
  shows "latest_by key rows = (if rows = [] then None else Some (last rows))"
proof (cases rows rule: rev_cases)
  case (snoc rs r)
  have up: "[1..int (length rows)] = [1..int (length rs)] @ [int (length rs) + 1]"
    using upto_snoc [of "length rs"] by (simp add: snoc)
  have "map key rs = [1..int (length rs)]" "key r = int (length rs) + 1"
    using assms unfolding up by (simp_all add: snoc)
  moreover from this have "key x < key r" if "x \<in> set rs" for x
    using that by (metis atLeastAtMost_iff image_eqI list.set_map set_upto zle_add1_eq_le add.commute)
  ultimately have "latest_by key (rs @ [r]) = Some r" by (intro latest_by_snoc)
  then show ?thesis by (simp add: snoc)
qed simp

lemma stream_ok_admit:
  assumes ok: "stream_ok rows" and adm: "admit_runtime_event rows v = Inr ()"
    and "xr_source_sequence row = re_sequence v" and "xr_kind row = re_kind v"
  shows "stream_ok (rows @ [row])"
proof -
  have latest: "latest_by xr_source_sequence rows = (if rows = [] then None else Some (last rows))"
    using ok by (intro latest_numbered) (simp add: stream_ok_def)
  show ?thesis
  proof (cases "rows = []")
    case True
    then show ?thesis
      using adm assms(3,4) latest by (auto simp: admit_runtime_event_def stream_ok_def intro: run_start)
  next
    case False
    have seq: "map xr_source_sequence rows = [1..int (length rows)]" using ok by (simp add: stream_ok_def)
    have up: "[1..int (length rows) + 1] = [1..int (length rows)] @ [int (length rows) + 1]"
      using upto_snoc [of "length rows"] by (simp add: add.commute)
    have "xr_source_sequence (last rows) = last (map xr_source_sequence rows)" using False by (simp add: last_map)
    then have n: "xr_source_sequence (last rows) = int (length rows)"
      using False unfolding seq by (cases rows rule: rev_cases) (simp_all add: upto_rec2)
    have run: "runtime_run (map xr_kind rows)" using ok False by (simp add: stream_ok_def)
    have g: "re_sequence v = int (length rows) + 1" "re_kind v \<noteq> RUN_STARTED"
      "xr_kind (last rows) \<notin> {RUN_COMPLETED, RUN_FAILED}"
      "re_kind v \<in> {RUN_COMPLETED, RUN_FAILED} \<longrightarrow> USAGE_REPORTED \<in> set (map xr_kind rows)"
      using adm False latest n by (auto simp: admit_runtime_event_def list_ex_iff image_iff) metis+
    have "runtime_run (map xr_kind rows @ [re_kind v])"
      by (rule run_more [OF run]) (use g False in \<open>simp_all add: last_map\<close>)
    then show ?thesis using seq g(1) assms(3,4) up by (simp add: stream_ok_def add.commute)
  qed
qed

lemma stream_inv_change:
  assumes "session_change e d d'" and "stream_inv d"
  shows "stream_inv d'"
  using assms(1)
proof cases
  case (advanced sid r st' rows cs rs)
  show ?thesis
    unfolding stream_inv_def
  proof (intro allI)
    fix i s
    have ok: "stream_ok (stream_rows d i s)" using assms(2) unfolding stream_inv_def by blast
    from advanced(11) show "stream_ok (stream_rows d' i s)"
      unfolding new_runtime_def stream_rows_change [OF advanced(12)]
    proof
      assume "rs = []"
      then show "stream_ok (stream_rows d i s @
          filter (\<lambda>r. xr_session_id r = i \<and> (xr_runtime_id r, xr_run_id r, xr_work_id r) = s) rs)"
        using ok by simp
    next
      assume "\<exists>row v. rs = [row] \<and> xr_session_id row = sid \<and>
          (xr_runtime_id row, xr_run_id row, xr_work_id row) = stream_of v \<and>
          xr_source_sequence row = re_sequence v \<and> xr_kind row = re_kind v \<and>
          admit_runtime_event (stream_rows d sid (stream_of v)) v = Inr ()"
      then obtain row v where "rs = [row]" "xr_session_id row = sid"
        "(xr_runtime_id row, xr_run_id row, xr_work_id row) = stream_of v"
        "xr_source_sequence row = re_sequence v" "xr_kind row = re_kind v"
        "admit_runtime_event (stream_rows d sid (stream_of v)) v = Inr ()" by blast
      then show "stream_ok (stream_rows d i s @
          filter (\<lambda>r. xr_session_id r = i \<and> (xr_runtime_id r, xr_run_id r, xr_work_id r) = s) rs)"
        using ok stream_ok_admit [of "stream_rows d sid (stream_of v)" v row] by auto
    qed
  qed
qed (use assms(2) in \<open>simp_all add: stream_inv_def stream_rows_def\<close>)

section \<open>Reachable stores\<close>

lemma session_reachable_inv:
  assumes "session_reachable e d"
  shows "session_inv e d \<and> command_inv d \<and> stream_inv d"
  using assms unfolding session_reachable_def
proof (induction rule: rtranclp_induct)
  case base
  show ?case
    by (simp add: session_inv_def command_inv_def stream_inv_def rows_inv_def empty_session_db_def
        stream_rows_def stream_ok_def)
next
  case (step d1 d2)
  from step(2,3) have "session_change e d1 d2" by (auto intro!: step_change simp: session_inv_def)
  with step(3) show ?case
    using session_inv_change command_inv_change stream_inv_change by blast
qed

lemma session_reachable_step: "session_reachable e d \<Longrightarrow> session_step e d d' \<Longrightarrow> session_reachable e d'"
  by (simp add: session_reachable_def rtranclp.rtrancl_into_rtrancl)

lemma session_reachable_steps: "session_reachable e d \<Longrightarrow> (session_step e)\<^sup>*\<^sup>* d d' \<Longrightarrow> session_reachable e d'"
  by (simp add: session_reachable_def)

end
