(* ===== verification/Session_Projections.thy ===== *)
theory Session_Projections
  imports Session_Invariant
begin

text \<open>
  The stored projection of a session is the one that would be rebuilt from its tables, in every reachable
  store: an operation on one session refreshes its projection last, and changes nothing the projection of
  another session is built from.
\<close>

section \<open>What a projection is built from\<close>

definition base_tables :: "session_db \<Rightarrow> session_row list \<times> smessage_row list \<times> sevent_row list \<times>
    interpretation_row list \<times> command_row list \<times> journal_head_row list \<times> journal_row list" where
  "base_tables d =
     (harness_sessions d, harness_messages d, harness_events d, harness_interpretations d, harness_commands d,
      journal_heads d, gateway_journals d)"

lemma head_journal_row_cong:
  "journal_heads d' = journal_heads d \<Longrightarrow> gateway_journals d' = gateway_journals d \<Longrightarrow>
   head_journal_row d' = head_journal_row d"
  by (rule ext) (simp add: head_journal_row_def)

lemma build_cong:
  assumes "base_tables d' = base_tables d"
  shows "build_session_projection e d' sid = build_session_projection e d sid"
proof -
  have eq: "harness_sessions d' = harness_sessions d" "harness_messages d' = harness_messages d"
    "harness_events d' = harness_events d" "harness_interpretations d' = harness_interpretations d"
    "harness_commands d' = harness_commands d" "journal_heads d' = journal_heads d"
    "gateway_journals d' = gateway_journals d"
    using assms by (simp_all add: base_tables_def)
  note head = head_journal_row_cong [OF eq(6,7)]
  have "find_session d' = find_session d" by (rule ext) (simp add: find_session_def eq(1))
  then have "load_session e d' sid = load_session e d sid" by (simp add: load_session_def)
  moreover have "load_message_by_id e d' = load_message_by_id e d" by (rule ext) (simp only: load_message_by_id_def eq(2))
  moreover have "current_questions e d' = current_questions e d" by (rule ext) (simp only: current_questions_def eq(4))
  moreover have "latest_summary e d' sid = latest_summary e d sid"
    by (simp add: latest_summary_def latest_journal_row_def eq(5) head)
  ultimately show ?thesis
    by (simp add: build_session_projection_def final_message_rows_def session_event_rows_def eq(2,3))
qed

text \<open>A change made for session \<open>sid\<close>, as the other sessions see it.\<close>

definition foreign_change :: "string \<Rightarrow> session_db \<Rightarrow> session_db \<Rightarrow> bool" where
  "foreign_change sid d d' \<longleftrightarrow>
     (\<forall>i. i \<noteq> sid \<longrightarrow> find_session d' i = find_session d i) \<and>
     (\<exists>ms. harness_messages d' = harness_messages d @ ms \<and> (\<forall>x\<in>set ms. xm_session_id x = sid)) \<and>
     (\<exists>es. harness_events d' = harness_events d @ es \<and> (\<forall>x\<in>set es. xe_session_id x = sid)) \<and>
     (\<exists>irs. harness_interpretations d' = harness_interpretations d @ irs) \<and>
     (\<exists>cs. harness_commands d' = harness_commands d @ cs \<and> (\<forall>x\<in>set cs. xc_session_id x = sid)) \<and>
     (\<forall>c\<in>set (harness_commands d). xc_session_id c \<noteq> sid \<longrightarrow>
        head_journal_row d' (xc_object_id c) = head_journal_row d (xc_object_id c))"

lemma load_message_append:
  assumes "harness_messages d' = harness_messages d @ ms" and "load_message_by_id e d i = Inr m"
  shows "load_message_by_id e d' i = Inr m"
  using assms by (auto simp: load_message_by_id_def find_append split: option.splits)

lemma current_questions_append:
  assumes "harness_interpretations d' = harness_interpretations d @ irs" and "current_questions e d r = Inr q"
  shows "current_questions e d' r = Inr q"
  using assms by (auto simp: current_questions_def find_append split: option.splits)

lemma build_foreign:
  assumes ch: "foreign_change sid d d'" and ne: "i \<noteq> sid" and b: "build_session_projection e d i = Inr p"
  shows "build_session_projection e d' i = Inr p"
proof -
  from ch obtain ms es irs cs where
    t: "harness_messages d' = harness_messages d @ ms" "\<forall>x\<in>set ms. xm_session_id x = sid"
      "harness_events d' = harness_events d @ es" "\<forall>x\<in>set es. xe_session_id x = sid"
      "harness_interpretations d' = harness_interpretations d @ irs"
      "harness_commands d' = harness_commands d @ cs" "\<forall>x\<in>set cs. xc_session_id x = sid"
    and heads: "\<forall>c\<in>set (harness_commands d). xc_session_id c \<noteq> sid \<longrightarrow>
        head_journal_row d' (xc_object_id c) = head_journal_row d (xc_object_id c)"
    unfolding foreign_change_def by blast
  have s: "load_session e d' i = load_session e d i"
    using ch ne by (simp add: load_session_def foreign_change_def)
  have m: "final_message_rows d' i = final_message_rows d i"
    using t(1,2) ne by (simp add: final_message_rows_def filter_empty_conv cong: filter_cong)
  have ev: "session_event_rows d' i = session_event_rows d i"
    using t(3,4) ne by (simp add: session_event_rows_def filter_empty_conv cong: filter_cong)
  have "filter (\<lambda>c. xc_session_id c = i) cs = []" using t(7) ne by (auto simp: filter_empty_conv)
  then have "map (\<lambda>c. opt_list (head_journal_row d' (xc_object_id c))) (filter (\<lambda>c. xc_session_id c = i) (harness_commands d')) =
      map (\<lambda>c. opt_list (head_journal_row d (xc_object_id c))) (filter (\<lambda>c. xc_session_id c = i) (harness_commands d))"
    using heads ne t(6) by (auto intro!: map_cong)
  then have l: "latest_summary e d' i = latest_summary e d i"
    by (simp add: latest_summary_def latest_journal_row_def)
  from b obtain st ident msgs evs q su where
    1: "load_session e d i = Inr (st, ident)" and
    2: "rmap (\<lambda>r. load_message_by_id e d (xm_object_id r)) (final_message_rows d i) = Inr msgs" and
    3: "rmap (\<lambda>r. parse_session (sevent_cls e) ''session event'' (xe_record r)) (session_event_rows d i) = Inr evs" and
    4: "current_questions e d (ss_current_interpretation_ref st) = Inr q" and
    5: "latest_summary e d i = Inr su" and 6: "p = projection_of e st msgs evs q su"
    by (auto simp: build_session_projection_def elim!: rbind_InrE)
  have "rmap (\<lambda>r. load_message_by_id e d' (xm_object_id r)) (final_message_rows d' i) = Inr msgs"
    using 2 load_message_append [OF t(1)] unfolding m rmap_Inr_iff by (auto elim!: list_all2_mono)
  moreover have "current_questions e d' (ss_current_interpretation_ref st) = Inr q"
    by (rule current_questions_append [OF t(5) 4])
  ultimately show ?thesis
    using 1 3 5 6 by (simp add: build_session_projection_def s ev l)
qed

section \<open>Operations that refresh a projection\<close>

definition projecting :: "session_env \<Rightarrow> string \<Rightarrow> session_db \<Rightarrow> session_db \<Rightarrow> bool" where
  "projecting e sid d d' \<longleftrightarrow>
     (\<exists>d2 p. foreign_change sid d d2 \<and> build_session_projection e d2 sid = Inr p \<and>
        session_projections d2 = session_projections d \<and> base_tables d' = base_tables d2 \<and>
        session_projections d' = projected p d2 \<and>
        xs_session_id ` set (harness_sessions d2) = insert sid (xs_session_id ` set (harness_sessions d)))"

text \<open>Journal heads point to stored journals, and a command identity names one row.\<close>

definition ref_inv :: "session_db \<Rightarrow> bool" where
  "ref_inv d \<longleftrightarrow>
     distinct (map xc_object_id (harness_commands d)) \<and>
     (\<forall>h\<in>set (journal_heads d). \<exists>j\<in>set (gateway_journals d). xj_object_id j = xk_journal_id h)"

lemma foreign_simple:
  assumes "\<And>i. i \<noteq> sid \<Longrightarrow> find_session d2 i = find_session d i"
    and "harness_messages d2 = harness_messages d @ ms" "\<forall>x\<in>set ms. xm_session_id x = sid"
    and "harness_events d2 = harness_events d @ es" "\<forall>x\<in>set es. xe_session_id x = sid"
    and "harness_interpretations d2 = harness_interpretations d @ irs"
    and "harness_commands d2 = harness_commands d @ cs" "\<forall>x\<in>set cs. xc_session_id x = sid"
    and "\<And>c. c \<in> set (harness_commands d) \<Longrightarrow> xc_session_id c \<noteq> sid \<Longrightarrow>
        head_journal_row d2 (xc_object_id c) = head_journal_row d (xc_object_id c)"
  shows "foreign_change sid d d2"
  unfolding foreign_change_def using assms by blast

lemma find_put_other: "i \<noteq> ss_session_id st \<Longrightarrow> find_session (d\<lparr>harness_sessions := put_state st rows\<rparr>) i = find (\<lambda>r. xs_session_id r = i) rows"
  by (auto simp: find_session_def find_put_state map_option_case dest: find_SomeD split: option.splits)

lemma put_find:
  assumes "find_session d sid = Some r" and "i \<noteq> sid" and "ss_session_id st' = sid"
    and "harness_sessions d2 = put_state st' (harness_sessions d)"
  shows "find_session d2 i = find_session d i"
  using assms by (auto simp: find_session_def find_put_state map_option_case dest: find_SomeD split: option.splits)

lemma row_ok_session_id: "find_session d sid = Some r \<Longrightarrow> row_ok e r \<Longrightarrow> state_of (xs_identity r) st \<Longrightarrow> ss_session_id st = sid"
  by (auto simp: row_ok_def state_of_def dest: find_session_Some)

lemma find_session_id: "find_session d sid = Some r \<Longrightarrow> sid \<in> xs_session_id ` set (harness_sessions d)"
  using find_session_Some by fastforce

text \<open>The common shape: the row of \<open>sid\<close> is moved on, rows of \<open>sid\<close> are appended, and no journal head of
  another session's command moves.\<close>

lemma projecting_advance:
  assumes r: "find_session d sid = Some r" and "ss_session_id st' = sid"
    and "harness_sessions d2 = put_state st' (harness_sessions d)"
    and "harness_messages d2 = harness_messages d @ ms" "\<forall>x\<in>set ms. xm_session_id x = sid"
    and "harness_events d2 = harness_events d @ es" "\<forall>x\<in>set es. xe_session_id x = sid"
    and "harness_interpretations d2 = harness_interpretations d @ irs"
    and "harness_commands d2 = harness_commands d @ cs" "\<forall>x\<in>set cs. xc_session_id x = sid"
    and "\<And>c. c \<in> set (harness_commands d) \<Longrightarrow> xc_session_id c \<noteq> sid \<Longrightarrow>
        head_journal_row d2 (xc_object_id c) = head_journal_row d (xc_object_id c)"
    and "build_session_projection e d2 sid = Inr p" "session_projections d2 = session_projections d"
    and "base_tables d' = base_tables d2" "session_projections d' = projected p d2"
  shows "projecting e sid d d'"
proof -
  have "foreign_change sid d d2"
    by (rule foreign_simple [OF put_find [OF r _ assms(2,3)] assms(4-11)])
  then show ?thesis
    unfolding projecting_def using find_session_id [OF r] assms(3,12-15)
    by (intro exI [of _ d2] exI [of _ p]) (simp add: insert_absorb)
qed

lemma projecting_create:
  assumes "create_session_fresh e clk sid inca cmp who key request aud d = Inr (d', p)"
  shows "projecting e sid d d'"
proof (rule create_session_effect [OF assms])
  fix ident st session ev row d2
  assume a: "xs_session_id row = sid"
    "d2 = d\<lparr>harness_sessions := harness_sessions d @ [row], harness_events := harness_events d @ [sevent_row_of sid ev None]\<rparr>"
    "build_session_projection e d2 sid = Inr p"
    "d' = d2\<lparr>session_projections := projected p d2, harness_idempotency := remembered create_scope key request ''harness-session'' sid d2\<rparr>"
  have "foreign_change sid d d2"
    by (rule foreign_simple [where ms = "[]" and cs = "[]" and irs = "[]" and es = "[sevent_row_of sid ev None]"])
       (use a in \<open>auto simp: find_session_def find_append head_journal_row_def split: option.splits\<close>)
  then show ?thesis
    unfolding projecting_def by (intro exI [of _ d2] exI [of _ p]) (use a in \<open>auto simp: base_tables_def\<close>)
qed

lemma projecting_close:
  assumes "close_session_fresh e clk sid expected key request aud d = Inr (d', p)"
  shows "projecting e sid d d'"
proof (rule close_session_effect [OF assms])
  fix r st' session ev d2
  assume a: "find_session d sid = Some r" "row_ok e r"
    "next_state e (xs_identity r) (xs_state r) SESSION_STATUS_CLOSED (ss_last_event_sequence (xs_state r) + 1) (clk 0) = Inr st'"
    "d2 = d\<lparr>harness_sessions := put_state st' (harness_sessions d), harness_events := harness_events d @ [sevent_row_of sid ev None]\<rparr>"
    "build_session_projection e d2 sid = Inr p"
    "d' = d2\<lparr>session_projections := projected p d2, harness_idempotency := remembered (close_scope sid) key request ''harness-session'' sid d2\<rparr>"
  note id = row_ok_session_id [OF a(1,2) next_state_InrD(1) [OF a(3)]]
  show ?thesis
    by (rule projecting_advance [OF a(1) id, of d2 "[]" "[sevent_row_of sid ev None]" "[]" "[]" e p])
       (use a in \<open>simp_all add: base_tables_def head_journal_row_def\<close>)
qed

lemma projecting_start:
  assumes "start_turn_fresh e clk sid (xs_state r) (xs_identity r) command expected content artifacts aud d = Inr (d', ts)"
    and r: "find_session d sid = Some r" "row_ok e r"
  shows "projecting e sid d d'"
proof (rule start_turn_effect [OF assms(1)])
  fix m st' session ev row d2 p
  assume a: "next_state e (xs_identity r) (xs_state r) SESSION_ACTIVE (ss_last_event_sequence (xs_state r) + 1) (clk 0) = Inr st'"
    "xc_session_id row = sid"
    "d2 = d\<lparr>harness_commands := harness_commands d @ [row],
            harness_messages := harness_messages d @ [message_row_of sid m (ss_last_event_sequence st')],
            harness_events := harness_events d @ [sevent_row_of sid ev (Some (object_id command))],
            harness_sessions := put_state st' (harness_sessions d)\<rparr>"
    "build_session_projection e d2 sid = Inr p"
    "d' = d2\<lparr>session_projections := projected p d2\<rparr>"
  note id = row_ok_session_id [OF r next_state_InrD(1) [OF a(1)]]
  show ?thesis
    by (rule projecting_advance [OF r(1) id, of d2 "[message_row_of sid m (ss_last_event_sequence st')]"
          "[sevent_row_of sid ev (Some (object_id command))]" "[]" "[row]" e p])
       (use a in \<open>simp_all add: base_tables_def head_journal_row_def\<close>)
qed

lemma other_command:
  assumes "command_of_session d sid command" and "ref_inv d"
    and "c \<in> set (harness_commands d)" and "xc_session_id c \<noteq> sid"
  shows "xc_object_id c \<noteq> object_id command"
  using assms by (auto simp: command_of_session_def ref_inv_def list_ex_iff distinct_map inj_on_def)

lemma head_journal_other:
  assumes "ref_inv d" and "gateway_journals d2 = gateway_journals d @ js"
    and "find (\<lambda>h. xk_command_id h = i) (journal_heads d2) = find (\<lambda>h. xk_command_id h = i) (journal_heads d)"
  shows "head_journal_row d2 i = head_journal_row d i"
proof (cases "find (\<lambda>h. xk_command_id h = i) (journal_heads d)")
  case (Some h)
  then obtain j where "j \<in> set (gateway_journals d)" "xj_object_id j = xk_journal_id h"
    using assms(1) by (auto simp: ref_inv_def dest: find_SomeD)
  then have "find (\<lambda>j. xj_object_id j = xk_journal_id h) (gateway_journals d) \<noteq> None"
    by (auto simp: find_None_iff)
  then show ?thesis using Some assms(2,3) by (auto simp: head_journal_row_def find_append)
qed (use assms(3) in \<open>simp add: head_journal_row_def\<close>)

lemma projecting_prepare:
  assumes "record_prepared_journal e clk sid command j d = Inr (d', x)" and "d' \<noteq> d"
    and "command_of_session d sid command" and "ref_inv d"
  shows "projecting e sid d d'"
proof (rule prepared_journal_effect [OF assms(1,2)])
  fix r st' jr d2 p
  assume a: "find_session d sid = Some r" "row_ok e r"
    "next_state e (xs_identity r) (xs_state r) (ss_status (xs_state r)) (ss_last_event_sequence (xs_state r)) (clk 0) = Inr st'"
    "d2 = d\<lparr>gateway_journals := gateway_journals d @ [jr],
            journal_heads := journal_heads d @ [\<lparr>xk_command_id = object_id command, xk_journal_id = object_id j\<rparr>],
            harness_sessions := put_state st' (harness_sessions d)\<rparr>"
    "build_session_projection e d2 sid = Inr p" "d' = d2\<lparr>session_projections := projected p d2\<rparr>"
  note id = row_ok_session_id [OF a(1,2) next_state_InrD(1) [OF a(3)]]
  have heads: "head_journal_row d2 (xc_object_id c) = head_journal_row d (xc_object_id c)"
    if "c \<in> set (harness_commands d)" "xc_session_id c \<noteq> sid" for c
    using other_command [OF assms(3,4) that] a(4)
    by (intro head_journal_other [OF assms(4), where js = "[jr]"]) (auto simp: find_append split: option.splits)
  show ?thesis
    by (rule projecting_advance [OF a(1) id, of d2 "[]" "[]" "[]" "[]" e p])
       (use a heads in \<open>simp_all add: base_tables_def\<close>)
qed

lemma find_head_map:
  "i \<noteq> k \<Longrightarrow> find (\<lambda>h. xk_command_id h = i) (map (\<lambda>x. if xk_command_id x = k then x\<lparr>xk_journal_id := j\<rparr> else x) hs) =
     find (\<lambda>h. xk_command_id h = i) hs"
  by (induction hs) auto

lemma projecting_complete:
  assumes "complete_turn_fresh e clk sid command prep cj ms i pol outcome aud d = Inr (d', t)" and "rows_inv e d"
    and "command_of_session d sid command" and "ref_inv d"
  shows "projecting e sid d d'"
proof (rule complete_turn_effect [OF assms(1) rows_inv_find [OF assms(2)]])
  fix r mrows erows jr irow prows trow st' d2 p
  assume a: "find_session d sid = Some r" "\<forall>x\<in>set mrows. xm_session_id x = sid"
    "appended e sid (xs_identity r) (ss_session_version (xs_state r) + 1) (ss_last_event_sequence (xs_state r))
       (harness_events d) erows"
    "completed_state e (xs_identity r) (xs_state r)
       (ss_last_event_sequence (xs_state r) + int (length erows)) i pol outcome (clk 2) = Inr st'"
    "d2 = d\<lparr>harness_messages := harness_messages d @ mrows, harness_events := harness_events d @ erows,
            gateway_journals := gateway_journals d @ [jr],
            journal_heads := map (\<lambda>x. if xk_command_id x = object_id command then x\<lparr>xk_journal_id := object_id cj\<rparr> else x)
              (journal_heads d),
            harness_interpretations := harness_interpretations d @ [irow], requirement_policies := prows,
            harness_turns := harness_turns d @ [trow], harness_sessions := put_state st' (harness_sessions d)\<rparr>"
    "build_session_projection e d2 sid = Inr p"
    "d' = d2\<lparr>session_projections := projected p d2,
             harness_idempotency := remembered (turn_scope sid) (mc_idempotency_key command) (object_sha256 command)
               ''harness-turn-result'' (object_id t) d2\<rparr>"
  have "row_ok e r" using rows_inv_find [OF assms(2) a(1)] by (simp add: session_row_inv_def)
  note id = row_ok_session_id [OF a(1) this create_state_InrD(1) [OF a(4) [unfolded completed_state_def]]]
  have heads: "head_journal_row d2 (xc_object_id c) = head_journal_row d (xc_object_id c)"
    if "c \<in> set (harness_commands d)" "xc_session_id c \<noteq> sid" for c
    using find_head_map [OF other_command [OF assms(3,4) that]] a(5)
    by (intro head_journal_other [OF assms(4), where js = "[jr]"]) simp_all
  show ?thesis
    by (rule projecting_advance [OF a(1) id, of d2 mrows erows "[irow]" "[]" e p])
       (use a heads in \<open>simp_all add: base_tables_def appended_def\<close>)
qed

lemma projecting_runtime:
  assumes "append_runtime_fresh e clk sid sref v aud key turn_id step_id cref request d = Inr (d', ev)"
  shows "projecting e sid d d'"
proof (rule runtime_event_effect [OF assms])
  fix r st' session row d2 p
  assume a: "find_session d sid = Some r" "row_ok e r"
    "next_state e (xs_identity r) (xs_state r) (ss_status (xs_state r)) (ss_last_event_sequence (xs_state r) + 1) (clk 0) = Inr st'"
    "d2 = d\<lparr>harness_events := harness_events d @ [sevent_row_of sid ev (map_option ref_id cref)],
            harness_runtime_events := harness_runtime_events d @ [row],
            harness_sessions := put_state st' (harness_sessions d)\<rparr>"
    "build_session_projection e d2 sid = Inr p"
    "d' = d2\<lparr>session_projections := projected p d2,
             harness_idempotency := remembered (runtime_scope sid) key request ''session-event'' (object_id ev) d2\<rparr>"
  note id = row_ok_session_id [OF a(1,2) next_state_InrD(1) [OF a(3)]]
  show ?thesis
    by (rule projecting_advance [OF a(1) id, of d2 "[]" "[sevent_row_of sid ev (map_option ref_id cref)]" "[]" "[]" e p])
       (use a in \<open>simp_all add: base_tables_def head_journal_row_def\<close>)
qed

lemma projecting_team:
  assumes "append_team_fresh e clk sid sref source tv payload aud key request d = Inr (d', ev)"
  shows "projecting e sid d d'"
proof (rule team_event_effect [OF assms])
  fix r prior st' session d2 p
  assume a: "find_session d sid = Some r" "row_ok e r"
    "next_state e (xs_identity r) (xs_state r) (ss_status (xs_state r)) (ss_last_event_sequence (xs_state r) + 1) (clk 0) = Inr st'"
    "d2 = d\<lparr>harness_events := harness_events d @ [sevent_row_of sid ev None],
            harness_sessions := put_state st' (harness_sessions d)\<rparr>"
    "build_session_projection e d2 sid = Inr p"
    "d' = d2\<lparr>session_projections := projected p d2,
             harness_idempotency := remembered (team_scope sid) key request ''session-event'' (object_id ev) d2\<rparr>"
  note id = row_ok_session_id [OF a(1,2) next_state_InrD(1) [OF a(3)]]
  show ?thesis
    by (rule projecting_advance [OF a(1) id, of d2 "[]" "[sevent_row_of sid ev None]" "[]" "[]" e p])
       (use a in \<open>simp_all add: base_tables_def head_journal_row_def\<close>)
qed

lemma projecting_rebuild:
  assumes "rebuild_projection e sid d = Inr (d', p)"
  shows "projecting e sid d d'"
proof -
  have b: "build_session_projection e d sid = Inr p" "d' = d\<lparr>session_projections := projected p d\<rparr>"
    using rebuild_effect [OF assms] by simp_all
  then obtain r where "find_session d sid = Some r"
    by (auto simp: build_session_projection_def load_session_Inr_iff elim!: rbind_InrE)
  then have "insert sid (xs_session_id ` set (harness_sessions d)) = xs_session_id ` set (harness_sessions d)"
    by (intro insert_absorb find_session_id)
  then show ?thesis
    unfolding projecting_def
    by (intro exI [of _ d] exI [of _ p]) (use b in \<open>simp add: foreign_change_def base_tables_def\<close>)
qed

section \<open>Every step refreshes or leaves the projections alone\<close>

definition unprojected :: "session_db \<Rightarrow> session_db \<Rightarrow> bool" where
  "unprojected d d' \<longleftrightarrow> base_tables d' = base_tables d \<and> session_projections d' = session_projections d"

lemma unprojected_refl [simp]: "unprojected d d"
  by (simp add: unprojected_def)

lemma step_projecting:
  assumes "session_step e d d'" and "rows_inv e d" and "ref_inv d"
  shows "unprojected d d' \<or> (\<exists>sid. projecting e sid d d')"
  using assms(1)
proof cases
  case (step_create clk sid inca cmp who key aud p)
  then show ?thesis
    by (auto simp: create_session_def Let_def elim!: rbind_InrE split: option.splits dest!: projecting_create)
next
  case (step_close clk sid expected pr key aud p)
  then show ?thesis
    by (auto simp: close_session_def Let_def elim!: rbind_InrE split: option.splits dest!: projecting_close)
next
  case (step_claim sid expected pr key effect c)
  show ?thesis
    using claim_effect [OF step_claim] by (cases "d' = d") (auto simp: unprojected_def base_tables_def)
next
  case (step_start clk sid expected pr content artifacts key aud ts)
  then show ?thesis
    by (cases rule: start_turn_cases) (auto dest!: projecting_start)
next
  case (step_prepare clk sid command j x)
  then show ?thesis
    using projecting_prepare [OF step_prepare(1) _ step_prepare(2) assms(3)] by (cases "d' = d") auto
next
  case (step_complete clk sid command prep cj ms i pol outcome aud t)
  have "projecting e sid d d'" if "complete_turn_fresh e clk sid command prep cj ms i pol outcome aud d = Inr (d', t)"
    by (rule projecting_complete [OF that assms(2) step_complete(2) assms(3)])
  then show ?thesis
    using step_complete(1) by (auto simp: complete_turn_def elim!: rbind_InrE split: option.splits)
next
  case (step_runtime clk sref v aud key turn_id step_id cref ev)
  then show ?thesis
    by (auto simp: append_runtime_event_def Let_def unprojected_def base_tables_def
        elim!: rbind_InrE split: option.splits dest!: projecting_runtime rebind_runtime_effect)
next
  case (step_team clk sref source tv payload aud key ev)
  then show ?thesis
    by (auto simp: append_team_event_def Let_def elim!: rbind_InrE split: option.splits dest!: projecting_team)
next
  case (step_rebuild sid p)
  then show ?thesis using projecting_rebuild by blast
qed

section \<open>References of the journal tables\<close>

lemma ref_inv_step:
  assumes "session_step e d d'" and "rows_inv e d" and "ref_inv d"
  shows "ref_inv d'"
  using assms(1)
proof cases
  case (step_create clk sid inca cmp who key aud p)
  then show ?thesis
    using assms(3)
    by (auto simp: create_session_def Let_def ref_inv_def elim!: rbind_InrE create_session_effect split: option.splits)
next
  case (step_close clk sid expected pr key aud p)
  then show ?thesis
    using assms(3)
    by (auto simp: close_session_def Let_def ref_inv_def elim!: rbind_InrE close_session_effect split: option.splits)
next
  case (step_claim sid expected pr key effect c)
  show ?thesis
    using claim_effect [OF step_claim] assms(3) by (cases "d' = d") (auto simp: ref_inv_def)
next
  case (step_start clk sid expected pr content artifacts key aud ts)
  then show ?thesis
  proof (cases rule: start_turn_cases)
    case (fresh r command)
    show ?thesis
      by (rule start_turn_effect [OF fresh(5)]) (use assms(3) in \<open>auto simp: ref_inv_def\<close>)
  qed (use assms(3) in simp)
next
  case (step_prepare clk sid command j x)
  show ?thesis
  proof (cases "d' = d")
    case False
    show ?thesis
      by (rule prepared_journal_effect [OF step_prepare(1) False]) (use assms(3) in \<open>auto simp: ref_inv_def\<close>)
  qed (use assms(3) in simp)
next
  case (step_complete clk sid command prep cj ms i pol outcome aud t)
  have "ref_inv d'" if "complete_turn_fresh e clk sid command prep cj ms i pol outcome aud d = Inr (d', t)"
    by (rule complete_turn_effect [OF that rows_inv_find [OF assms(2)]])
       (use assms(3) in \<open>auto simp: ref_inv_def\<close>)
  then show ?thesis
    using step_complete(1) assms(3) by (auto simp: complete_turn_def elim!: rbind_InrE split: option.splits)
next
  case (step_runtime clk sref v aud key turn_id step_id cref ev)
  then show ?thesis
    using assms(3)
    by (auto simp: append_runtime_event_def Let_def ref_inv_def elim!: rbind_InrE runtime_event_effect split: option.splits
        dest!: rebind_runtime_effect)
next
  case (step_team clk sref source tv payload aud key ev)
  then show ?thesis
    using assms(3)
    by (auto simp: append_team_event_def Let_def ref_inv_def elim!: rbind_InrE team_event_effect split: option.splits)
next
  case (step_rebuild sid p)
  show ?thesis using rebuild_effect [OF step_rebuild] assms(3) by (auto simp: ref_inv_def)
qed

section \<open>The projections of a reachable store\<close>

definition projection_row_of :: "string \<Rightarrow> session_projection \<Rightarrow> projection_row" where
  "projection_row_of sid p = \<lparr>xo_session_id = sid, xo_fingerprint = sp_source_fingerprint p, xo_projection = p\<rparr>"

definition projection_inv :: "session_env \<Rightarrow> session_db \<Rightarrow> bool" where
  "projection_inv e d \<longleftrightarrow>
     (\<forall>sid. if sid \<in> xs_session_id ` set (harness_sessions d)
            then \<exists>p. build_session_projection e d sid = Inr p \<and>
                     find (\<lambda>r. xo_session_id r = sid) (session_projections d) = Some (projection_row_of sid p)
            else find (\<lambda>r. xo_session_id r = sid) (session_projections d) = None)"

lemma build_InrD:
  assumes "build_session_projection e d sid = Inr p"
  shows "ss_session_id (sp_session p) = sid" "validate_state (dg_session_state e) (sp_session p)"
proof -
  from assms obtain st ident r where "load_session e d sid = Inr (st, ident)" "sp_session p = st"
    "find_session d sid = Some r" "row_ok e r" "st = xs_state r"
    by (auto simp: build_session_projection_def projection_of_def load_session_Inr_iff elim!: rbind_InrE)
  then show "ss_session_id (sp_session p) = sid" "validate_state (dg_session_state e) (sp_session p)"
    by (auto simp: row_ok_def parse_state_row_def parse_state_def rbind_Inr_iff dest: find_session_Some split: if_splits)
qed

lemma projection_inv_projecting:
  assumes "projecting e sid d d'" and "projection_inv e d"
  shows "projection_inv e d'"
proof -
  from assms(1) obtain d2 p where d2: "foreign_change sid d d2" "build_session_projection e d2 sid = Inr p"
    "session_projections d2 = session_projections d" "base_tables d' = base_tables d2"
    "session_projections d' = projected p d2"
    "xs_session_id ` set (harness_sessions d2) = insert sid (xs_session_id ` set (harness_sessions d))"
    unfolding projecting_def by blast
  have ids: "xs_session_id ` set (harness_sessions d') = insert sid (xs_session_id ` set (harness_sessions d))"
    using d2(4,6) by (simp add: base_tables_def)
  have stored: "find (\<lambda>r. xo_session_id r = i) (session_projections d') =
      (if i = sid then Some (projection_row_of sid p) else find (\<lambda>r. xo_session_id r = i) (session_projections d))" for i
    using build_InrD(1) [OF d2(2)] d2(3,5) by (simp add: upsert_find projection_row_of_def)
  have built: "build_session_projection e d' i = Inr q"
    if "i \<noteq> sid" "build_session_projection e d i = Inr q" for i q
    using build_foreign [OF d2(1) that] build_cong [OF d2(4)] by simp
  have own: "build_session_projection e d' sid = Inr p" using d2(2) build_cong [OF d2(4)] by simp
  show ?thesis
    unfolding projection_inv_def ids stored
  proof (rule allI)
    fix i
    show "if i \<in> insert sid (xs_session_id ` set (harness_sessions d))
      then \<exists>q. build_session_projection e d' i = Inr q \<and>
             (if i = sid then Some (projection_row_of sid p)
              else find (\<lambda>r. xo_session_id r = i) (session_projections d)) = Some (projection_row_of i q)
      else (if i = sid then Some (projection_row_of sid p)
            else find (\<lambda>r. xo_session_id r = i) (session_projections d)) = None"
    proof (cases "i = sid")
      case True
      then show ?thesis using own by simp
    next
      case False
      then show ?thesis
        using assms(2) [unfolded projection_inv_def, rule_format, of i] built [OF False]
        by (cases "i \<in> xs_session_id ` set (harness_sessions d)") auto
    qed
  qed
qed

lemma projection_inv_step:
  assumes "session_step e d d'" and "rows_inv e d" and "ref_inv d" and "projection_inv e d"
  shows "projection_inv e d'"
  using step_projecting [OF assms(1-3)]
proof
  assume "unprojected d d'"
  then have u: "base_tables d' = base_tables d" "session_projections d' = session_projections d"
    by (simp_all add: unprojected_def)
  then have "harness_sessions d' = harness_sessions d" by (simp add: base_tables_def)
  then show ?thesis using assms(4) u(2) build_cong [OF u(1)] by (simp add: projection_inv_def)
next
  assume "\<exists>sid. projecting e sid d d'"
  then show ?thesis using projection_inv_projecting assms(4) by blast
qed

lemma session_reachable_projections:
  assumes "session_reachable e d"
  shows "ref_inv d \<and> projection_inv e d"
  using assms unfolding session_reachable_def
proof (induction rule: rtranclp_induct)
  case base
  show ?case by (simp add: ref_inv_def projection_inv_def empty_session_db_def)
next
  case (step d1 d2)
  have "rows_inv e d1"
    using session_reachable_inv [of e d1] step(1) by (simp add: session_reachable_def session_inv_def)
  then show ?case using step(2,3) ref_inv_step projection_inv_step by blast
qed

end
