(* ===== verification/Session_Growth.thy ===== *)
theory Session_Growth
  imports Session_Projections
begin

text \<open>
  The session store only grows: events, messages, commands, turns and idempotency rows are appended and never
  changed, and a session keeps its identity. What an operation stored is therefore found again by every later
  store, which is what the replays of the operations rest on.
\<close>

definition session_key_of :: "session_row \<Rightarrow> string \<times> string \<times> session_identity" where
  "session_key_of r = (xs_session_id r, xs_identity_id r, xs_identity r)"

definition grows :: "session_db \<Rightarrow> session_db \<Rightarrow> bool" where
  "grows d d' \<longleftrightarrow>
     prefix (map session_key_of (harness_sessions d)) (map session_key_of (harness_sessions d')) \<and>
     prefix (harness_events d) (harness_events d') \<and> prefix (harness_messages d) (harness_messages d') \<and>
     prefix (harness_commands d) (harness_commands d') \<and> prefix (harness_turns d) (harness_turns d') \<and>
     prefix (harness_idempotency d) (harness_idempotency d')"

lemma grows_refl [simp]: "grows d d"
  by (simp add: grows_def)

lemma grows_trans: "grows a b \<Longrightarrow> grows b c \<Longrightarrow> grows a c"
  unfolding grows_def by (meson prefix_order.trans)

lemma session_key_put_state [simp]: "map session_key_of (put_state st rows) = map session_key_of rows"
  by (induction rows) (auto simp: put_state_def session_key_of_def)

section \<open>Every operation grows the store\<close>

lemma grows_step:
  assumes "session_step e d d'" and "rows_inv e d"
  shows "grows d d'"
  using assms(1)
proof cases
  case (step_create clk sid inca cmp who key aud p)
  then show ?thesis
    by (auto simp: create_session_def Let_def grows_def elim!: rbind_InrE create_session_effect split: option.splits)
next
  case (step_close clk sid expected pr key aud p)
  then show ?thesis
    by (auto simp: close_session_def Let_def grows_def elim!: rbind_InrE close_session_effect split: option.splits)
next
  case (step_claim sid expected pr key effect c)
  show ?thesis using claim_effect [OF step_claim] by (cases "d' = d") (auto simp: grows_def)
next
  case (step_start clk sid expected pr content artifacts key aud ts)
  then show ?thesis
  proof (cases rule: start_turn_cases)
    case (fresh r command)
    show ?thesis by (rule start_turn_effect [OF fresh(5)]) (simp add: grows_def)
  qed simp
next
  case (step_prepare clk sid command j x)
  show ?thesis
  proof (cases "d' = d")
    case False
    show ?thesis by (rule prepared_journal_effect [OF step_prepare(1) False]) (simp add: grows_def)
  qed simp
next
  case (step_complete clk sid command prep cj ms i pol outcome aud t)
  have "grows d d'" if "complete_turn_fresh e clk sid command prep cj ms i pol outcome aud d = Inr (d', t)"
    by (rule complete_turn_effect [OF that rows_inv_find [OF assms(2)]]) (assumption, auto simp: grows_def)
  then show ?thesis
    using step_complete(1) by (auto simp: complete_turn_def elim!: rbind_InrE split: option.splits)
next
  case (step_runtime clk sref v aud key turn_id step_id cref ev)
  then show ?thesis
    by (auto simp: append_runtime_event_def Let_def grows_def elim!: rbind_InrE runtime_event_effect
        split: option.splits dest!: rebind_runtime_effect)
next
  case (step_team clk sref source tv payload aud key ev)
  then show ?thesis
    by (auto simp: append_team_event_def Let_def grows_def elim!: rbind_InrE team_event_effect split: option.splits)
next
  case (step_rebuild sid p)
  show ?thesis using rebuild_effect [OF step_rebuild] by (auto simp: grows_def)
qed

lemma reachable_rows_inv: "session_reachable e d \<Longrightarrow> rows_inv e d"
  using session_reachable_inv by (simp add: session_inv_def)

lemma grows_steps:
  assumes "(session_step e)\<^sup>*\<^sup>* d d'" and "session_reachable e d"
  shows "grows d d'"
  using assms
proof (induction rule: rtranclp_induct)
  case (step d1 d2)
  have "rows_inv e d1" by (rule reachable_rows_inv [OF session_reachable_steps [OF step(4,1)]])
  then show ?case using step grows_step grows_trans by blast
qed simp

section \<open>What is found stays found\<close>

lemma find_key_prefix:
  assumes "prefix (map f xs) (map f ys)" and "\<And>x y. f x = f y \<Longrightarrow> P x = P y" and "find P xs = Some x"
  shows "\<exists>y. find P ys = Some y \<and> f y = f x"
  using assms(1,3)
proof (induction xs arbitrary: ys)
  case (Cons a xs)
  then obtain b zs where ys: "ys = b # zs" "f b = f a" "prefix (map f xs) (map f zs)" by (cases ys) auto
  then show ?case using Cons assms(2) [of b a] by (auto split: if_splits)
qed simp

lemma grows_session_id:
  assumes "grows d d'" and "session_id_of d sref = Inr sid"
  shows "session_id_of d' sref = Inr sid"
proof -
  obtain r where r: "find (\<lambda>r. xs_identity_id r = ref_id sref) (harness_sessions d) = Some r" "xs_session_id r = sid"
    using assms(2) by (auto simp: session_id_of_def split: option.splits)
  obtain y where "find (\<lambda>r. xs_identity_id r = ref_id sref) (harness_sessions d') = Some y"
    "session_key_of y = session_key_of r"
    using find_key_prefix [of session_key_of _ _ "\<lambda>r. xs_identity_id r = ref_id sref", OF _ _ r(1)] assms(1)
    by (force simp: grows_def session_key_of_def)
  then show ?thesis using r(2) by (simp add: session_id_of_def session_key_of_def)
qed

lemma grows_find_session:
  assumes "grows d d'" and "find_session d sid = Some r"
  shows "\<exists>r'. find_session d' sid = Some r' \<and> xs_identity r' = xs_identity r"
  using find_key_prefix [of session_key_of "harness_sessions d" "harness_sessions d'" "\<lambda>r. xs_session_id r = sid" r] assms
  by (force simp: grows_def session_key_of_def find_session_def)

lemma grows_check_idempotency:
  "grows d d' \<Longrightarrow> check_idempotency d scope key h ty = Inr (Some i) \<Longrightarrow> check_idempotency d' scope key h ty = Inr (Some i)"
  by (auto simp: check_idempotency_def idempotency_row_of_def grows_def split: option.splits dest: find_prefix)

lemma grows_find_event: "grows d d' \<Longrightarrow> find_event d i = Some x \<Longrightarrow> find_event d' i = Some x"
  by (auto simp: find_event_def grows_def dest: find_prefix)

lemma grows_load_event: "grows d d' \<Longrightarrow> load_event_by_id e d i = Inr ev \<Longrightarrow> load_event_by_id e d' i = Inr ev"
  by (auto simp: load_event_by_id_def dest: grows_find_event split: option.splits)

lemma grows_load_message: "grows d d' \<Longrightarrow> load_message_by_id e d i = Inr m \<Longrightarrow> load_message_by_id e d' i = Inr m"
  by (auto simp: load_message_by_id_def grows_def split: option.splits dest: find_prefix)

end
