(* ===== verification/Sample_Session.thy ===== *)
theory Sample_Session
  imports Session_Growth Sample_Store
begin

text \<open>
  Concrete sessions for the later theories. Every record is given in closed form and shown to be what the
  operations create, so each operation is evaluated on the store the one before committed.
\<close>

section \<open>Records\<close>

definition sample_session_env :: session_env where
  "sample_session_env =
     \<lparr>dg_session_identity = si_session_id, dg_session_state = (\<lambda>v. dec (ss_session_version v)),
      dg_session_event = (\<lambda>v. dec (se_sequence v)), dg_harness_message = hm_message_id,
      dg_message_command = mc_idempotency_key, dg_interpretation = ri_interpretation_id,
      dg_requirement_policy = (\<lambda>v. ''policy''), dg_journal = gj_journal_id, dg_turn = tt_turn_id,
      dg_runtime_event = (\<lambda>v. dec (re_sequence v)), text_sha256 = (\<lambda>s. s),
      session_request_sha256 = (\<lambda>r. ''h''), projection_sha256 = (\<lambda>c. ''p''), session_fault = (\<lambda>_. False)\<rparr>"

abbreviation sample_se :: session_env where
  "sample_se \<equiv> sample_session_env"

definition made :: "'a harness_object_scheme harness_class \<Rightarrow> 'a harness_object_scheme \<Rightarrow> 'a harness_object_scheme" where
  "made cls v =
     v\<lparr>object_id := derived_id cls (carried_sha256 cls v), object_sha256 := carried_sha256 cls v,
       audit := audit_with_refs sample_audit (collect_object_refs cls v)\<rparr>"

lemmas made_simps = made_def to_ref_def derived_id_def carried_sha256_def carried_def

lemma sample_digests:
  "dg_session_identity sample_se = si_session_id" "dg_session_event sample_se = (\<lambda>v. dec (se_sequence v))"
  "dg_session_state sample_se = (\<lambda>v. dec (ss_session_version v))" "dg_harness_message sample_se = hm_message_id"
  "dg_message_command sample_se = mc_idempotency_key" "dg_interpretation sample_se = ri_interpretation_id"
  "dg_journal sample_se = gj_journal_id" "dg_turn sample_se = tt_turn_id"
  by (simp_all add: sample_session_env_def)

lemma sample_env_fields [simp]:
  "text_sha256 sample_se = (\<lambda>s. s)" "session_request_sha256 sample_se = (\<lambda>r. ''h'')"
  "session_fault sample_se = (\<lambda>_. False)"
  by (simp_all add: sample_session_env_def)

definition anna_ident :: session_identity where
  "anna_ident = made (session_identity_class si_session_id)
     \<lparr>object_id = [], object_sha256 = [], audit = no_audit, si_session_id = ''anna'',
      si_incarnation_id = ''first'', si_composition_ref = sample_ref ''harness-composition'',
      si_created_by = ''user'', si_created_at = 0\<rparr>"

definition anna_state :: "int \<Rightarrow> session_status \<Rightarrow> int \<Rightarrow> object_ref option \<Rightarrow> session_state" where
  "anna_state v status n i =
     \<lparr>ss_session_ref = sample_session ''anna'', ss_session_id = ''anna'', ss_incarnation_id = ''first'',
      ss_composition_ref = sample_ref ''harness-composition'', ss_session_version = v, ss_status = status,
      ss_last_event_sequence = n, ss_current_interpretation_ref = i, ss_current_requirement_policy_ref = None,
      ss_created_at = 0, ss_updated_at = 0, ss_state_sha256 = dec v\<rparr>"

definition anna_at :: "int \<Rightarrow> harness_session_ref" where
  "anna_at v =
     \<lparr>sr_session_ref = sample_session ''anna'', sr_incarnation_id = ''first'', sr_session_version = v,
      sr_composition_ref = sample_ref ''harness-composition''\<rparr>"

definition anna_event ::
  "string \<Rightarrow> int \<Rightarrow> int \<Rightarrow> int \<Rightarrow> string option \<Rightarrow> object_ref option \<Rightarrow> session_payload \<Rightarrow> session_event" where
  "anna_event i v n a turn c p = made (session_event_class (\<lambda>v. dec (se_sequence v)))
     \<lparr>object_id = [], object_sha256 = [], audit = no_audit, se_event_id = i, se_session = anna_at v,
      se_sequence = n, se_authority_version = a, se_turn_id = turn, se_step_id = None, se_command_ref = c,
      se_payload = p, se_occurred_at = 0\<rparr>"

lemma sample_refs_known [simp]:
  "sample_ref ty = ObjectRef ty ''sample'' ''v1'' ''0''"
  "sample_session i = ObjectRef ''harness-session'' (''harness-session://sha256/'' @ i) ''v1'' i"
  by (simp_all add: sample_ref_def sample_session_def sample_object_ref_def sample_id_def)

lemma sample_object_ref_known [simp]: "sample_object_ref ty i = ObjectRef ty (ty @ ''://sha256/'' @ i) ''v1'' i"
  by (simp add: sample_object_ref_def sample_id_def)

lemma sample_clock_0 [simp]: "sample_clock i = 0"
  by (simp add: sample_clock_def)

lemma sample_fault [simp]: "session_fault_point sample_se p = Inr ()"
  by (simp add: session_fault_point_def guard_def)

lemma sample_identifiers [simp]:
  "is_identifier ''anna''" "is_identifier ''first''" "is_identifier ''user''" "is_identifier ''turn''"
  by code_simp+

lemma anna_ref [simp]: "session_ref_of anna_ident = sample_session ''anna''"
  by (simp add: anna_ident_def made_simps session_identity_class_def)

lemma anna_fields [simp]:
  "si_session_id anna_ident = ''anna''" "si_incarnation_id anna_ident = ''first''" "si_created_at anna_ident = 0"
  "si_composition_ref anna_ident = sample_ref ''harness-composition''"
  by (simp_all add: anna_ident_def made_def)

lemma anna_object_id [simp]: "object_id anna_ident = ''harness-session://sha256/anna''"
  using anna_ref by (simp add: to_ref_def)

lemma anna_created:
  "create (identity_cls sample_se) sample_audit
     \<lparr>object_id = [], object_sha256 = [], audit = no_audit, si_session_id = ''anna'',
      si_incarnation_id = ''first'', si_composition_ref = sample_ref ''harness-composition'',
      si_created_by = ''user'', si_created_at = 0\<rparr> = Inr anna_ident"
  by (simp add: sample_digests session_identity.create_Inr_iff anna_ident_def made_def validate_session_identity_def require_ref_def)

definition small :: "int \<Rightarrow> bool" where
  "small n \<longleftrightarrow> 1 \<le> n \<and> n \<le> 100"

lemma anna_state_created:
  assumes "small v" "small n" "require_opt_ref i ''requirement-interpretation''"
  shows "create_state (dg_session_state sample_se) anna_ident v s n i None 0 = Inr (anna_state v s n i)"
  using assms
  by (simp add: sample_digests create_state_Inr_iff anna_state_def Let_def state_digest_def validate_state_def in_range_def
      small_def require_ref_def require_opt_ref_def)

lemma anna_session [simp]: "session_of anna_ident v = anna_at v"
  by (simp add: session_of_def anna_at_def)

lemma anna_at_valid: "small v \<Longrightarrow> validate_session_ref (anna_at v)"
  by (simp add: anna_at_def validate_session_ref_def small_def in_range_def require_ref_def)

lemma anna_state_ref: "small v \<Longrightarrow> to_session_ref (anna_state v s n i) = Inr (anna_at v)"
  using anna_at_valid [of v] by (simp add: to_session_ref_def anna_state_def Let_def anna_at_def)

lemma anna_event_created:
  assumes "is_identifier i" "small v" "small n" "small a" "list_all is_identifier (opt_list turn)"
    and "require_opt_ref c ''session-command''" "validate_payload p"
  shows "make_session_event sample_se sample_audit i (anna_at v) n a turn None c p 0 = Inr (anna_event i v n a turn c p)"
  using assms anna_at_valid [OF assms(2)]
  by (simp add: sample_digests make_session_event_def session_event.create_Inr_iff anna_event_def made_def validate_session_event_def
      small_def in_range_def opt_list_def)

lemma anna_event_fields [simp]:
  "object_id (anna_event i v n a turn c p) = ''session-event://sha256/'' @ dec n"
  "se_event_id (anna_event i v n a turn c p) = i" "se_sequence (anna_event i v n a turn c p) = n"
  "se_authority_version (anna_event i v n a turn c p) = a" "se_payload (anna_event i v n a turn c p) = p"
  "se_session (anna_event i v n a turn c p) = anna_at v"
  by (simp_all add: anna_event_def made_simps session_event_class_def)

lemma anna_state_fields [simp]:
  "ss_session_ref (anna_state v s n i) = sample_session ''anna''" "ss_session_id (anna_state v s n i) = ''anna''"
  "ss_incarnation_id (anna_state v s n i) = ''first''" "ss_session_version (anna_state v s n i) = v"
  "ss_composition_ref (anna_state v s n i) = sample_ref ''harness-composition''"
  "ss_status (anna_state v s n i) = s" "ss_last_event_sequence (anna_state v s n i) = n"
  "ss_current_interpretation_ref (anna_state v s n i) = i"
  "ss_current_requirement_policy_ref (anna_state v s n i) = None" "ss_state_sha256 (anna_state v s n i) = dec v"
  by (simp_all add: anna_state_def)

lemma anna_parse [simp]:
  "parse_session (identity_cls sample_se) l anna_ident = Inr anna_ident"
  "is_identifier i \<Longrightarrow> small v \<Longrightarrow> small n \<Longrightarrow> small a \<Longrightarrow> list_all is_identifier (opt_list turn) \<Longrightarrow>
     require_opt_ref c ''session-command'' \<Longrightarrow> validate_payload p \<Longrightarrow>
     parse_session (sevent_cls sample_se) l (anna_event i v n a turn c p) = Inr (anna_event i v n a turn c p)"
  "small v \<Longrightarrow> small n \<Longrightarrow> require_opt_ref i' ''requirement-interpretation'' \<Longrightarrow>
     parse_state sample_se (anna_state v s n i') = Inr (anna_state v s n i')"
  using create_parse_session [OF anna_created] make_session_event_InrD(1) [OF anna_event_created]
    create_state_InrD(7) [OF anna_state_created]
  by (simp_all add: parse_state_def)

definition anna_command :: "int \<Rightarrow> message_command" where
  "anna_command v = made (message_command_class mc_idempotency_key)
     \<lparr>object_id = [], object_sha256 = [], audit = no_audit, mc_command_id = ''session-command://anna/turn'',
      mc_session_ref = sample_session ''anna'', mc_expected_session_version = v, mc_principal_ref = sample_ref ''principal'',
      mc_content_sha256 = ''hello'', mc_artifact_envelope_refs = [], mc_idempotency_key = ''turn''\<rparr>"

definition anna_message :: "string \<Rightarrow> message_role \<Rightarrow> string \<Rightarrow> harness_message" where
  "anna_message i role content = made (harness_message_class (\<lambda>s. s) hm_message_id)
     \<lparr>object_id = [], object_sha256 = [], audit = no_audit, hm_message_id = i,
      hm_session_ref = sample_session ''anna'', hm_role = role, hm_content = content, hm_content_sha256 = content,
      hm_artifact_envelope_refs = [], hm_chunk_index = None, hm_final = True, hm_created_at = 0\<rparr>"

lemma empty_refs [simp]: "max_length 10000 ([] :: object_ref list)" "sorted_refs [] = []" "require_sorted_unique_refs []" "refs_of_type [] ty"
  by (simp_all add: max_length_def sorted_refs_def require_sorted_unique_refs_def refs_of_type_def)

lemma sample_words [simp]: "strip ''hello'' = ''hello''" "strip ''which'' = ''which''"
  by code_simp+

lemma anna_command_created:
  assumes "ss_session_ref st = sample_session ''anna''" "small v" "is_identifier ''session-command://anna/turn''"
  shows "make_command sample_se ''anna'' st v (ObjectRef ''principal'' ''sample'' ''v1'' ''0'') ''hello'' [] ''turn'' sample_audit =
     Inr (anna_command v)"
  using assms
  by (simp add: sample_digests make_command_def message_command.create_Inr_iff anna_command_def made_def
      validate_message_command_def small_def in_range_def require_ref_def command_id_for_def suffix_of_def max_length_def)

lemma anna_message_created:
  assumes "is_identifier i" "strip content = content" "min_length 1 content" "max_length 1000000 content"
  shows "create_harness_message (\<lambda>s. s) (dg_harness_message sample_se) sample_audit
     \<lparr>object_id = [], object_sha256 = [], audit = no_audit, hm_message_id = i,
      hm_session_ref = ObjectRef ''harness-session'' ''harness-session://sha256/anna'' ''v1'' ''anna'', hm_role = role,
      hm_content = content, hm_content_sha256 = [],
      hm_artifact_envelope_refs = [], hm_chunk_index = None, hm_final = True, hm_created_at = 0\<rparr> =
      Inr (anna_message i role content)"
  using assms
  by (simp add: sample_digests create_harness_message_def harness_message.create_Inr_iff anna_message_def made_def
      validate_harness_message_def opt_list_def require_ref_def max_length_def)

section \<open>Opening\<close>

definition anna_row :: "int \<Rightarrow> session_status \<Rightarrow> int \<Rightarrow> object_ref option \<Rightarrow> session_row" where
  "anna_row v s n i =
     \<lparr>xs_session_id = ''anna'', xs_identity_id = ''harness-session://sha256/anna'', xs_incarnation_id = ''first'',
      xs_composition_id = ''sample'', xs_version = v, xs_status = s, xs_last_sequence = n, xs_state_sha256 = dec v,
      xs_identity = anna_ident, xs_state = anna_state v s n i\<rparr>"

definition opened_event :: session_event where
  "opened_event = anna_event ''session-event://anna/1'' 1 1 1 None None (SessionLifecyclePayload SESSION_OPENED)"

definition opened_projection :: session_projection where
  "opened_projection = projection_of sample_se (anna_state 1 SESSION_ACTIVE 1 None) [] [opened_event] [] None"

definition opened_session :: session_db where
  "opened_session =
     \<lparr>harness_sessions = [anna_row 1 SESSION_ACTIVE 1 None], harness_commands = [], harness_messages = [],
      harness_events = [sevent_row_of ''anna'' opened_event None], harness_runtime_events = [], gateway_journals = [],
      journal_heads = [], harness_interpretations = [], requirement_policies = [], harness_turns = [],
      harness_idempotency =
        [\<lparr>xq_scope = create_scope, xq_key = ''open'', xq_request_sha256 = ''h'', xq_response_type = ''harness-session'',
          xq_response_id = ''anna''\<rparr>],
      session_projections = [projection_row_of ''anna'' opened_projection]\<rparr>"

lemma event_ids [simp]:
  "event_id_for ''anna'' 1 = ''session-event://anna/1''" "event_id_for ''anna'' 2 = ''session-event://anna/2''"
  "event_id_for ''anna'' 3 = ''session-event://anna/3''" "event_id_for ''anna'' 4 = ''session-event://anna/4''"
  "event_id_for ''anna'' 5 = ''session-event://anna/5''" "event_id_for ''anna'' 6 = ''session-event://anna/6''"
  by code_simp+

lemma anna_row_fields [simp]:
  "xs_session_id (anna_row v s n i) = ''anna''" "xs_identity (anna_row v s n i) = anna_ident"
  "xs_state (anna_row v s n i) = anna_state v s n i" "xs_status (anna_row v s n i) = s" "xs_version (anna_row v s n i) = v"
  "xs_identity_id (anna_row v s n i) = ''harness-session://sha256/anna''"
  by (simp_all add: anna_row_def)

lemma anna_row_loads:
  assumes "harness_sessions d = [anna_row v s n i]" "small v" "small n" "require_opt_ref i ''requirement-interpretation''"
  shows "load_session sample_se d ''anna'' = Inr (anna_state v s n i, anna_ident)"
  using assms anna_ref
  by (simp add: load_session_def find_session_def parse_state_row_def anna_row_def to_ref_def guard_def)

lemma set_state_anna [simp]: "set_state (anna_state v s n i) (anna_row v' s' n' i') = anna_row v s n i"
  by (simp add: set_state_def anna_row_def)

lemma session_reachable_empty: "session_reachable e empty_session_db"
  by (simp add: session_reachable_def)

lemma sample_event_ids [simp]:
  "is_identifier ''session-event://anna/1''" "is_identifier ''session-event://anna/3''"
  "is_identifier ''session-command://anna/turn''" "is_identifier ''harness-message://anna/3/user''"
  "is_identifier ''harness-turn://session-command://sha256/turn''"
  "is_identifier ''session-event://anna/team/team-outbox-record://sha256/1''"
  by code_simp+

declare small_def [simp]

lemma opened_event_parse [simp]: "parse_session (sevent_cls sample_se) l opened_event = Inr opened_event"
  by (simp add: opened_event_def opt_list_def require_opt_ref_def)

lemma opened_event_fields [simp]:
  "object_id opened_event = ''session-event://sha256/'' @ dec 1" "se_sequence opened_event = 1"
  "se_authority_version opened_event = 1"
  by (simp_all add: opened_event_def)

lemma dec_numerals [simp]:
  "dec 2 \<noteq> dec 1" "dec 3 \<noteq> dec 1" "dec 3 \<noteq> dec 2" "dec 1 \<noteq> dec 2" "dec 1 \<noteq> dec 3" "dec 2 \<noteq> dec 3"
  "dec 1 \<noteq> dec 4" "dec 2 \<noteq> dec 4" "dec 3 \<noteq> dec 4"
  by code_simp+

lemma projection_of_session [simp]: "sp_session (projection_of e st msgs events qs summary) = st"
  by (simp add: projection_of_def)

lemmas operation_simps =
  check_idempotency_def idempotency_row_of_def add_idempotency_def insert_session_idempotency_def insert_row_def
  guard_def session_key_def command_key_def foreign_key_def add_event_def insert_sevent_row_def insert_session_def
  refresh_projection_def build_session_projection_def final_message_rows_def session_event_rows_def
  current_questions_def latest_summary_def latest_journal_row_def head_journal_row_def write_session_projection_def
  upsert_session_projection_def find_session_def Let_def opt_list_def max_length_def
  projection_row_of_def

lemma sample_open:
  "create_session sample_se sample_clock ''anna'' ''first'' (sample_ref ''harness-composition'') ''user'' ''open''
     sample_audit empty_session_db = Inr (opened_session, opened_projection)"
  using anna_created
  by (simp add: create_session_def create_session_fresh_def empty_session_db_def operation_simps anna_state_created
      anna_state_ref anna_event_created require_opt_ref_def anna_row_loads opened_session_def opened_projection_def
      anna_row_def [symmetric] opened_event_def [symmetric] sevent_row_of_def [symmetric])


section \<open>An event of a Team that is ahead\<close>

definition team_event_call :: "session_db \<Rightarrow> (session_db \<times> session_event) result" where
  "team_event_call = append_team_event sample_session_env sample_clock (sample_session ''anna'')
     (sample_object_ref ''team-outbox-record'' ''1'') 7
     (SessionTeamPayload SE_TEAM_CHANGED (sample_object_ref ''agent-team'' ''1'')) sample_audit ''deliver''"

definition informed_event :: session_event where
  "informed_event = anna_event ''session-event://anna/team/team-outbox-record://sha256/1'' 2 2 7 None None
     (SessionTeamPayload SE_TEAM_CHANGED (sample_object_ref ''agent-team'' ''1''))"

definition informed_projection :: session_projection where
  "informed_projection = projection_of sample_se (anna_state 2 SESSION_ACTIVE 2 None) [] [opened_event, informed_event] [] None"

definition informed_session :: session_db where
  "informed_session =
     \<lparr>harness_sessions = [anna_row 2 SESSION_ACTIVE 2 None], harness_commands = [], harness_messages = [],
      harness_events = [sevent_row_of ''anna'' opened_event None, sevent_row_of ''anna'' informed_event None],
      harness_runtime_events = [], gateway_journals = [],
      journal_heads = [], harness_interpretations = [], requirement_policies = [], harness_turns = [],
      harness_idempotency = harness_idempotency opened_session @
        [\<lparr>xq_scope = team_scope ''anna'', xq_key = ''deliver'', xq_request_sha256 = ''h'', xq_response_type = ''session-event'',
          xq_response_id = object_id informed_event\<rparr>],
      session_projections = [projection_row_of ''anna'' informed_projection]\<rparr>"

lemma team_ids [simp]:
  "team_event_id_for sample_se ''anna'' (ObjectRef ''team-outbox-record'' ''team-outbox-record://sha256/1'' ''v1'' ''1'') =
     ''session-event://anna/team/team-outbox-record://sha256/1''"
  by (simp add: team_event_id_for_def suffix_of_def)

lemma informed_event_fields [simp]:
  "object_id informed_event = ''session-event://sha256/'' @ dec 2" "se_sequence informed_event = 2"
  "se_authority_version informed_event = 7"
  "parse_session (sevent_cls sample_se) l informed_event = Inr informed_event"
  by (simp_all add: informed_event_def opt_list_def require_opt_ref_def sample_object_ref_def sample_id_def)

lemma informed_event_known [simp]:
  "anna_event ''session-event://anna/team/team-outbox-record://sha256/1'' 2 2 7 None None
     (SessionTeamPayload SE_TEAM_CHANGED (ObjectRef ''agent-team'' ''agent-team://sha256/1'' ''v1'' ''1'')) = informed_event"
  by (simp add: informed_event_def)

lemmas team_event_simps =
  operation_simps opened_session_def session_id_of_def anna_row_loads last_session_event_def next_state_def
  anna_state_created anna_state_ref anna_event_created require_opt_ref_def update_state_def sevent_row_of_def

lemma sample_informed: "team_event_call opened_session = Inr (informed_session, informed_event)"
  by (simp add: team_event_call_def append_team_event_def append_team_fresh_def informed_session_def
      informed_projection_def team_event_simps)

section \<open>A turn of the user\<close>

definition turn_call :: "session_db \<Rightarrow> (session_db \<times> turn_start) result" where
  "turn_call = start_turn sample_session_env sample_clock ''anna'' 2 (sample_ref ''principal'') ''hello'' []
     ''turn'' sample_audit"

definition asked_message :: harness_message where
  "asked_message = anna_message ''harness-message://anna/3/user'' USER_ROLE ''hello''"

definition asked_event :: session_event where
  "asked_event = anna_event ''session-event://anna/3'' 3 3 3 (Some ''harness-turn://session-command://sha256/turn'')
     (Some (message_command_ref_of (anna_command 2)))
     (SessionMessagePayload SE_USER_MESSAGE (harness_message_ref_of asked_message) [])"

definition asked_projection :: session_projection where
  "asked_projection = projection_of sample_se (anna_state 3 SESSION_ACTIVE 3 None) [asked_message]
     [opened_event, informed_event, asked_event] [] None"

definition asked_start :: turn_start where
  "asked_start =
     \<lparr>ts_state = anna_state 3 SESSION_ACTIVE 3 None, ts_command = anna_command 2, ts_user_message = asked_message,
      ts_user_event = asked_event, ts_replay = None\<rparr>"

definition asked_command_row :: command_row where
  "asked_command_row =
     \<lparr>xc_object_id = object_id (anna_command 2), xc_sha256 = object_sha256 (anna_command 2), xc_session_id = ''anna'',
      xc_idempotency_key = ''turn'', xc_user_message_id = object_id asked_message,
      xc_user_event_id = object_id asked_event, xc_record = anna_command 2\<rparr>"

definition asked_session :: session_db where
  "asked_session =
     \<lparr>harness_sessions = [anna_row 3 SESSION_ACTIVE 3 None], harness_commands = [asked_command_row],
      harness_messages = [message_row_of ''anna'' asked_message 3],
      harness_events = [sevent_row_of ''anna'' opened_event None, sevent_row_of ''anna'' informed_event None,
                        sevent_row_of ''anna'' asked_event (Some (object_id (anna_command 2)))],
      harness_runtime_events = [], gateway_journals = [],
      journal_heads = [], harness_interpretations = [], requirement_policies = [], harness_turns = [],
      harness_idempotency = harness_idempotency informed_session,
      session_projections = [projection_row_of ''anna'' asked_projection]\<rparr>"

lemma anna_command_fields [simp]:
  "object_id (anna_command v) = ''session-command://sha256/turn''" "mc_idempotency_key (anna_command v) = ''turn''"
  by (simp_all add: anna_command_def made_simps message_command_class_def)

lemma anna_message_fields [simp]:
  "object_id (anna_message i role c) = ''harness-message://sha256/'' @ i" "hm_final (anna_message i role c)"
  "hm_artifact_envelope_refs (anna_message i role c) = []" "hm_role (anna_message i role c) = role"
  by (simp_all add: anna_message_def made_simps harness_message_class_def)

lemma asked_message_created [simp]:
  "create_harness_message (\<lambda>s. s) (dg_harness_message sample_se) sample_audit
     \<lparr>object_id = [], object_sha256 = [], audit = no_audit, hm_message_id = ''harness-message://anna/3/user'',
      hm_session_ref = ObjectRef ''harness-session'' ''harness-session://sha256/anna'' ''v1'' ''anna'', hm_role = USER_ROLE,
      hm_content = ''hello'', hm_content_sha256 = [],
      hm_artifact_envelope_refs = [], hm_chunk_index = None, hm_final = True, hm_created_at = 0\<rparr> =
      Inr asked_message"
  by (simp add: anna_message_created asked_message_def min_length_def max_length_def)

lemma asked_message_fields [simp]:
  "object_id asked_message = ''harness-message://sha256/harness-message://anna/3/user''" "hm_final asked_message" "hm_artifact_envelope_refs asked_message = []"
  "parse_session (harness_message_class (\<lambda>s. s) (dg_harness_message sample_se)) l asked_message = Inr asked_message"
  using create_parse_session [OF asked_message_created [unfolded create_harness_message_def]]
  by (simp_all add: asked_message_def)

lemma asked_event_known [simp]:
  "anna_event ''session-event://anna/3'' 3 3 3 (Some ''harness-turn://session-command://sha256/turn'')
     (Some (message_command_ref_of (anna_command 2)))
     (SessionMessagePayload SE_USER_MESSAGE (harness_message_ref_of asked_message) []) = asked_event"
  by (simp add: asked_event_def)

lemma asked_event_fields [simp]:
  "object_id asked_event = ''session-event://sha256/'' @ dec 3" "se_sequence asked_event = 3"
  "se_authority_version asked_event = 3"
  "parse_session (sevent_cls sample_se) l asked_event = Inr asked_event"
  by (simp_all add: asked_event_def opt_list_def require_opt_ref_def del: asked_event_known)

lemma asked_turn_id [simp]: "turn_id_of sample_se (anna_command v) = ''harness-turn://session-command://sha256/turn''"
  by (simp add: turn_id_of_def suffix_of_def)

lemma user_message_ids [simp]: "user_message_id_for ''anna'' 3 = ''harness-message://anna/3/user''"
  by code_simp

lemma sample_asked: "turn_call informed_session = Inr (asked_session, asked_start)"
  by (simp add: turn_call_def start_turn_def start_turn_fresh_def team_event_simps anna_command_created informed_session_def
      insert_command_def add_message_def insert_smessage_row_def load_message_by_id_def asked_session_def asked_start_def
      asked_command_row_def message_row_of_def asked_projection_def)

section \<open>A run of a runtime\<close>

text \<open>Three events of one source stream, each appended to the store the one before committed.\<close>

definition run_usage :: runtime_usage where
  "run_usage =
     \<lparr>ru_model_requests = 1, ru_input_tokens = 5, ru_output_tokens = 5, ru_cache_creation_input_tokens = 0,
      ru_cache_read_input_tokens = 0, ru_tool_calls = 0, ru_turns = 1, ru_duration_ms = None,
      ru_reported_cost = \<lparr>rk_availability = UNAVAILABLE, rk_amount_microusd = None, rk_rounding = None\<rparr>\<rparr>"

definition run_event :: "string \<Rightarrow> int \<Rightarrow> runtime_event_kind \<Rightarrow> runtime_usage option \<Rightarrow> runtime_event" where
  "run_event i n k u =
     \<lparr>re_runtime_event_id = ''runtime-event://sha256/'' @ i, re_runtime_event_sha256 = i, re_run_id = ''run'',
      re_work_id = ''work'', re_runtime_id = ''runtime'', re_runtime_version = None, re_sequence = n, re_kind = k,
      re_occurred_at = 0, re_source_refs = [sample_ref ''source''], re_tool_call_sha256 = None, re_tool_family = None,
      re_usage = u, re_failure_code = None\<rparr>"

definition started_event :: runtime_event where "started_event = run_event ''1'' 1 RUN_STARTED None"
definition used_event :: runtime_event where "used_event = run_event ''2'' 2 USAGE_REPORTED (Some run_usage)"
definition ended_event :: runtime_event where "ended_event = run_event ''3'' 3 RUN_COMPLETED None"

lemma run_events_created:
  "create_runtime_event (dg_runtime_event sample_session_env) started_event = Inr started_event \<and>
   create_runtime_event (dg_runtime_event sample_session_env) used_event = Inr used_event \<and>
   create_runtime_event (dg_runtime_event sample_session_env) ended_event = Inr ended_event"
  by code_simp

definition run_call :: "string \<Rightarrow> runtime_event \<Rightarrow> session_db \<Rightarrow> (session_db \<times> session_event) result" where
  "run_call key v = append_runtime_event sample_session_env sample_clock (sample_session ''anna'') v sample_audit key None None None"

definition run_session_event :: "string \<Rightarrow> int \<Rightarrow> runtime_event_kind \<Rightarrow> session_event" where
  "run_session_event i n k = anna_event (''session-event://anna/runtime/runtime-event://sha256/'' @ i) n n n None None
     (SessionRuntimePayload k ''runtime'' (ObjectRef ''runtime-event'' (''runtime-event://sha256/'' @ i) ''v2'' i))"

definition run_row :: "runtime_event \<Rightarrow> session_event \<Rightarrow> runtime_row" where
  "run_row v ev =
     \<lparr>xr_object_id = re_runtime_event_id v, xr_sha256 = re_runtime_event_sha256 v, xr_session_id = ''anna'',
      xr_runtime_id = re_runtime_id v, xr_run_id = re_run_id v, xr_work_id = re_work_id v,
      xr_source_sequence = re_sequence v, xr_kind = re_kind v, xr_session_event_id = object_id ev, xr_record = v\<rparr>"

definition run_store :: "int \<Rightarrow> session_event list \<Rightarrow> runtime_row list \<Rightarrow> session_idempotency_row list \<Rightarrow> session_db" where
  "run_store n events rows memos =
     \<lparr>harness_sessions = [anna_row n SESSION_ACTIVE n None], harness_commands = [], harness_messages = [],
      harness_events = map (\<lambda>ev. sevent_row_of ''anna'' ev None) events, harness_runtime_events = rows,
      gateway_journals = [], journal_heads = [], harness_interpretations = [], requirement_policies = [],
      harness_turns = [], harness_idempotency = harness_idempotency opened_session @ memos,
      session_projections =
        [projection_row_of ''anna'' (projection_of sample_se (anna_state n SESSION_ACTIVE n None) [] events [] None)]\<rparr>"

definition run_memo :: "string \<Rightarrow> session_event \<Rightarrow> session_idempotency_row" where
  "run_memo key ev =
     \<lparr>xq_scope = runtime_scope ''anna'', xq_key = key, xq_request_sha256 = ''h'', xq_response_type = ''session-event'',
      xq_response_id = object_id ev\<rparr>"

lemma run_event_fields [simp]:
  "re_runtime_event_id (run_event i n k u) = ''runtime-event://sha256/'' @ i"
  "re_runtime_event_sha256 (run_event i n k u) = i" "re_run_id (run_event i n k u) = ''run''"
  "re_work_id (run_event i n k u) = ''work''" "re_runtime_id (run_event i n k u) = ''runtime''"
  "re_sequence (run_event i n k u) = n" "re_kind (run_event i n k u) = k" "re_occurred_at (run_event i n k u) = 0"
  by (simp_all add: run_event_def)

lemma run_identifiers [simp]:
  "is_identifier ''runtime''"
  "is_identifier ''session-event://anna/runtime/runtime-event://sha256/1''"
  "is_identifier ''session-event://anna/runtime/runtime-event://sha256/2''"
  "is_identifier ''session-event://anna/runtime/runtime-event://sha256/3''"
  by code_simp+

lemma run_session_event_fields [simp]:
  "object_id (run_session_event i n k) = ''session-event://sha256/'' @ dec n" "se_sequence (run_session_event i n k) = n"
  "se_authority_version (run_session_event i n k) = n"
  by (simp_all add: run_session_event_def)

lemma run_session_event_made:
  assumes "is_identifier (''session-event://anna/runtime/runtime-event://sha256/'' @ i)" "small n"
  shows "make_session_event sample_se sample_audit (''session-event://anna/runtime/runtime-event://sha256/'' @ i) (anna_at n) n n
      None None None (SessionRuntimePayload k ''runtime'' (ObjectRef ''runtime-event'' (''runtime-event://sha256/'' @ i) ''v2'' i)) 0 =
      Inr (run_session_event i n k)"
    and "parse_session (sevent_cls sample_se) l (run_session_event i n k) = Inr (run_session_event i n k)"
  using assms
  by (simp_all add: run_session_event_def anna_event_created opt_list_def require_opt_ref_def del: append_Cons)

lemma run_session_event_known [simp]:
  "anna_event ''session-event://anna/runtime/runtime-event://sha256/1'' 2 2 2 None None
     (SessionRuntimePayload k ''runtime'' (ObjectRef ''runtime-event'' ''runtime-event://sha256/1'' ''v2'' ''1'')) =
     run_session_event ''1'' 2 k"
  "anna_event ''session-event://anna/runtime/runtime-event://sha256/2'' 3 3 3 None None
     (SessionRuntimePayload k ''runtime'' (ObjectRef ''runtime-event'' ''runtime-event://sha256/2'' ''v2'' ''2'')) =
     run_session_event ''2'' 3 k"
  "anna_event ''session-event://anna/runtime/runtime-event://sha256/3'' 4 4 4 None None
     (SessionRuntimePayload k ''runtime'' (ObjectRef ''runtime-event'' ''runtime-event://sha256/3'' ''v2'' ''3'')) =
     run_session_event ''3'' 4 k"
  by (simp_all add: run_session_event_def)

lemmas run_simps =
  run_call_def append_runtime_event_def append_runtime_fresh_def admit_runtime_event_def stream_rows_def stream_of_def
  insert_runtime_row_def runtime_event_ref_def runtime_event_id_for_def suffix_of_def run_store_def run_row_def run_memo_def
  team_event_simps run_session_event_made [simplified] create_scope_def runtime_scope_def

definition started_row :: runtime_row where "started_row = run_row started_event (run_session_event ''1'' 2 RUN_STARTED)"
definition used_row :: runtime_row where "used_row = run_row used_event (run_session_event ''2'' 3 USAGE_REPORTED)"
definition ended_row :: runtime_row where "ended_row = run_row ended_event (run_session_event ''3'' 4 RUN_COMPLETED)"

definition run_session1 :: session_db where
  "run_session1 = run_store 2 [opened_event, run_session_event ''1'' 2 RUN_STARTED] [started_row]
     [run_memo ''r1'' (run_session_event ''1'' 2 RUN_STARTED)]"

definition run_session2 :: session_db where
  "run_session2 = run_store 3
     [opened_event, run_session_event ''1'' 2 RUN_STARTED, run_session_event ''2'' 3 USAGE_REPORTED]
     [started_row, used_row]
     [run_memo ''r1'' (run_session_event ''1'' 2 RUN_STARTED), run_memo ''r2'' (run_session_event ''2'' 3 USAGE_REPORTED)]"

definition ran_session :: session_db where
  "ran_session = run_store 4
     [opened_event, run_session_event ''1'' 2 RUN_STARTED, run_session_event ''2'' 3 USAGE_REPORTED,
      run_session_event ''3'' 4 RUN_COMPLETED]
     [started_row, used_row, ended_row]
     [run_memo ''r1'' (run_session_event ''1'' 2 RUN_STARTED), run_memo ''r2'' (run_session_event ''2'' 3 USAGE_REPORTED),
      run_memo ''r3'' (run_session_event ''3'' 4 RUN_COMPLETED)]"

lemma sample_started: "run_call ''r1'' started_event opened_session = Inr (run_session1, run_session_event ''1'' 2 RUN_STARTED)"
  by (simp add: started_event_def started_row_def run_session1_def run_simps)

lemma sample_used: "run_call ''r2'' used_event run_session1 = Inr (run_session2, run_session_event ''2'' 3 USAGE_REPORTED)"
  by (simp add: started_event_def started_row_def used_event_def used_row_def run_session1_def run_session2_def run_simps)

lemma sample_ended: "run_call ''r3'' ended_event run_session2 = Inr (ran_session, run_session_event ''3'' 4 RUN_COMPLETED)"
  by (simp add: started_event_def started_row_def used_event_def used_row_def ended_event_def ended_row_def
      run_session2_def ran_session_def run_simps)

section \<open>What the later theories use\<close>

lemma opened_reachable: "session_reachable sample_session_env opened_session"
  by (rule session_reachable_step [OF session_reachable_empty step_create [OF sample_open]])

lemma informed_reachable: "session_reachable sample_session_env informed_session"
  by (rule session_reachable_step [OF opened_reachable step_team [OF sample_informed [unfolded team_event_call_def]]])

lemma asked_reachable: "session_reachable sample_session_env asked_session"
  by (rule session_reachable_step [OF informed_reachable step_start [OF sample_asked [unfolded turn_call_def]]])

lemma run_call_reachable:
  "run_call key v d = Inr (d', ev) \<Longrightarrow> session_reachable sample_session_env d \<Longrightarrow> session_reachable sample_session_env d'"
  by (auto simp: run_call_def intro: session_reachable_step step_runtime)

lemma ran_reachable: "session_reachable sample_session_env ran_session"
  by (rule run_call_reachable [OF sample_ended run_call_reachable [OF sample_used
        run_call_reachable [OF sample_started opened_reachable]]])

lemma run_rows [simp]:
  "xr_session_id (run_row v ev) = ''anna''" "xr_runtime_id (run_row v ev) = re_runtime_id v"
  "xr_run_id (run_row v ev) = re_run_id v" "xr_work_id (run_row v ev) = re_work_id v" "xr_kind (run_row v ev) = re_kind v"
  "xr_source_sequence (run_row v ev) = re_sequence v"
  by (simp_all add: run_row_def)

lemma ran_stream:
  "stream_rows ran_session ''anna'' (''runtime'', ''run'', ''work'') = [started_row, used_row, ended_row]"
  "map xr_kind [started_row, used_row, ended_row] = [RUN_STARTED, USAGE_REPORTED, RUN_COMPLETED]"
  "map xr_source_sequence [started_row, used_row, ended_row] = [1, 2, 3]"
  by (simp_all add: stream_rows_def ran_session_def run_store_def started_row_def used_row_def ended_row_def
      started_event_def used_event_def ended_event_def)

lemma opened_has_anna: "find_session opened_session ''anna'' \<noteq> None"
  by (simp add: opened_session_def find_session_def)

lemma team_event_returns: "\<not> isl (team_event_call opened_session)"
  by (simp add: sample_informed)

lemma turn_returns: "\<not> isl (turn_call informed_session)"
  by (simp add: sample_asked)

lemma asked_versions: "map (\<lambda>x. se_authority_version (xe_record x)) (harness_events asked_session) = [1, 7, 3]"
  by (simp add: asked_session_def)

end
