(* ===== verification/Session_Properties.thy ===== *)
theory Session_Properties
  imports Sample_Session
begin

text \<open>
  What the session store guarantees about the logs, projections and streams of every store its operations
  can lead to, and about repeated calls.
\<close>

section \<open>Event logs\<close>

definition session_log :: "session_db \<Rightarrow> string \<Rightarrow> session_event list" where
  "session_log d sid = map xe_record (session_rows d sid)"

lemma reachable_session_row:
  assumes "session_reachable e d" and "find_session d sid = Some r"
  shows "session_row_inv e r" "xs_session_id r = sid" "session_log_inv e r (session_rows d sid)"
    "xs_last_sequence r = ss_last_event_sequence (xs_state r)"
proof -
  note inv = session_reachable_inv [OF assms(1)]
  have r: "r \<in> set (harness_sessions d)" "xs_session_id r = sid" using find_session_Some [OF assms(2)] by auto
  then show "session_row_inv e r" "xs_session_id r = sid" "session_log_inv e r (session_rows d sid)"
    using inv by (auto simp: session_inv_def rows_inv_def)
  then show "xs_last_sequence r = ss_last_event_sequence (xs_state r)"
    by (simp add: session_row_inv_def row_ok_def parse_state_row_def parse_state_def rbind_Inr_iff split: if_splits)
qed

lemma session_log_sequences:
  assumes "session_reachable e d" and "find_session d sid = Some r"
  shows "map se_sequence (session_log d sid) = [1..xs_last_sequence r]"
    "map xe_sequence (session_rows d sid) = [1..xs_last_sequence r]"
    "int (length (session_log d sid)) = xs_last_sequence r"
proof -
  note inv = reachable_session_row [OF assms]
  show seq: "map xe_sequence (session_rows d sid) = [1..xs_last_sequence r]"
    using inv(3,4) by (simp add: session_log_inv_def)
  have "\<forall>x\<in>set (session_rows d sid). xe_sequence x = se_sequence (xe_record x)"
    using inv(3) unfolding session_log_inv_def sevent_row_ok_def by blast
  then have "map se_sequence (session_log d sid) = map xe_sequence (session_rows d sid)"
    unfolding session_log_def by simp
  then show "map se_sequence (session_log d sid) = [1..xs_last_sequence r]" using seq by simp
  have "session_rows d sid \<noteq> []" using inv(3) by (simp add: session_log_inv_def)
  then have "1 \<le> xs_last_sequence r" using seq by (cases "1 \<le> xs_last_sequence r") auto
  then show "int (length (session_log d sid)) = xs_last_sequence r"
    using arg_cong [OF seq, of length] by (simp add: session_log_def)
qed

lemma session_log_incarnation:
  assumes "session_reachable e d" and "find_session d sid = Some r" and "ev \<in> set (session_log d sid)"
  shows "se_session ev = session_of (xs_identity r) (sr_session_version (se_session ev))" "0 \<le> se_authority_version ev"
    "1 \<le> sr_session_version (se_session ev)"
proof -
  note inv = reachable_session_row [OF assms(1,2)]
  obtain x where x: "x \<in> set (session_rows d sid)" "ev = xe_record x" using assms(3) by (auto simp: session_log_def)
  then show "se_session ev = session_of (xs_identity r) (sr_session_version (se_session ev))" "0 \<le> se_authority_version ev"
    using inv(3) by (auto simp: session_log_inv_def sevent_row_ok_def validate_session_event_def in_range_def)
  show "1 \<le> sr_session_version (se_session ev)"
    using inv(3) x by (auto simp: session_log_inv_def versions_of_def)
qed

lemma log_accepted_iff:
  assumes "session_reachable e d" and "find_session d sid = Some r"
  shows "validate_session_event_log (session_log d sid) = Inr () \<longleftrightarrow>
    distinct (map se_event_id (session_log d sid)) \<and> sorted (map se_authority_version (session_log d sid))"
proof -
  note log = session_log_incarnation [OF assms]
  have ident: "session_identity_of v = (session_ref_of (xs_identity r), si_incarnation_id (xs_identity r),
      si_composition_ref (xs_identity r))" if "v \<in> set (session_log d sid)" for v
    using log(1) [OF that] unfolding session_identity_of_def session_of_def by (metis (no_types, lifting) harness_session_ref.select_convs(1,2,4))
  have "map (\<lambda>v. sr_session_version (se_session v)) (session_log d sid) = versions_of (session_rows d sid)"
    by (simp add: session_log_def versions_of_def)
  then have "sorted (map (\<lambda>v. sr_session_version (se_session v)) (session_log d sid))"
    using reachable_session_row(3) [OF assms] by (simp add: session_log_inv_def sorted_append)
  moreover have "\<forall>v\<in>set (session_log d sid). 0 \<le> se_authority_version v \<and> 0 \<le> sr_session_version (se_session v)"
    using log(2,3) by force
  ultimately show ?thesis
    using session_log_sequences [OF assms] ident
    by (simp add: validate_session_event_log_ok session_log_ok_def conj_ac)
qed

text \<open>
  C6: In every store the operations of the session store can lead to, the event log of a session is numbered
  from one to the last sequence its state names, and \<open>validate_session_event_log\<close> accepts it exactly when no
  event identifier occurs twice and the authority versions never decrease: the incarnation, the numbering and
  the session versions never are the reason of a refusal.
\<close>

theorem session_log_verdict:
  assumes "session_reachable e d" and "find_session d sid = Some r"
  shows "map se_sequence (session_log d sid) = [1..xs_last_sequence r] \<and>
    (validate_session_event_log (session_log d sid) = Inr () \<longleftrightarrow>
       distinct (map se_event_id (session_log d sid)) \<and> sorted (map se_authority_version (session_log d sid)))"
  using session_log_sequences(1) [OF assms] log_accepted_iff [OF assms] by simp

theorem session_log_verdict_witness:
  "map se_sequence (session_log opened_session ''anna'') = [1] \<and>
   validate_session_event_log (session_log opened_session ''anna'') = Inr ()"
proof -
  obtain r where r: "find_session opened_session ''anna'' = Some r" using opened_has_anna by blast
  have "map (\<lambda>x. xe_session_id x) (harness_events opened_session) = [''anna'']"
    by (simp add: opened_session_def)
  then have "length (session_log opened_session ''anna'') = 1"
    by (auto simp: session_log_def session_rows_def Cons_eq_map_conv map_eq_Cons_conv)
  then obtain v where v: "session_log opened_session ''anna'' = [v]" by (auto simp: length_Suc_conv)
  show ?thesis
    using session_log_verdict [OF opened_reachable r] session_log_sequences(3) [OF opened_reachable r] v by simp
qed

section \<open>Pages of events\<close>

lemma session_rows_sorted:
  assumes "session_reachable e d" and "find_session d sid = Some r"
  shows "sort_key xe_sequence (session_rows d sid) = session_rows d sid"
  using session_log_sequences(2) [OF assms] by (intro sort_key_id_if_sorted) simp

lemma rows_after:
  assumes "map f rows = [1..int (length rows)]"
  shows "filter (\<lambda>x. int k < f x) rows = drop k rows"
  using assms
proof (induction rows rule: rev_induct)
  case (snoc x rows)
  have up: "[1..int (length (rows @ [x]))] = [1..int (length rows)] @ [int (length rows) + 1]"
    using upto_snoc [of "length rows"] by (simp add: add.commute)
  have "map f rows = [1..int (length rows)]" "f x = int (length rows) + 1"
    using snoc.prems unfolding up by simp_all
  then show ?case using snoc.IH by (auto simp: drop_Cons')
qed simp

lemma parse_session_log:
  assumes "session_reachable e d" and "find_session d sid = Some r" and "set rows \<subseteq> set (session_rows d sid)"
  shows "rmap (\<lambda>x. parse_session (sevent_cls e) l (xe_record x)) rows = Inr (map xe_record rows)"
  using assms(3)
proof (induction rows)
  case (Cons x rows)
  have "sevent_row_ok e x"
    using reachable_session_row(3) [OF assms(1,2)] Cons.prems unfolding session_log_inv_def by auto
  then show ?case using Cons event_row_ok_parse [of e x l] by simp
qed simp

text \<open>
  C12: A page of session events is a slice of the log: in every reachable store a legal request for the events
  after a sequence returns the next \<open>limit\<close> events of the log, and a cursor exactly when events are left; the
  cursor is the first sequence not returned.
\<close>

theorem list_events_slice:
  assumes "session_reachable e d" and "find_session d sid = Some r" and "in_range 1 500 limit"
  shows "list_events e d sid (int k) limit =
    Inr \<lparr>ep_session_ref = session_ref_of (xs_identity r), ep_after_sequence = int k, ep_limit = limit,
         ep_events = take (nat limit) (drop k (session_log d sid)),
         ep_next_sequence =
           (if k + nat limit < length (session_log d sid) then Some (int k + limit + 1) else None)\<rparr>"
proof -
  note inv = reachable_session_row [OF assms(1,2)]
  note log = session_log_sequences [OF assms(1,2)]
  have load: "load_session e d sid = Inr (xs_state r, xs_identity r)"
    using assms(2) inv(1) by (auto simp: load_session_Inr_iff session_row_inv_def)
  have len: "length (session_log d sid) = length (session_rows d sid)" by (simp add: session_log_def)
  have seq: "map xe_sequence (session_rows d sid) = [1..int (length (session_rows d sid))]"
    using log(2,3) len by simp
  have rows: "filter (\<lambda>x. xe_session_id x = sid \<and> int k < xe_sequence x) (harness_events d) = drop k (session_rows d sid)"
    unfolding rows_after [OF seq, symmetric] by (simp add: session_rows_def conj_commute)
  have "sorted (map xe_sequence (drop k (session_rows d sid)))"
    unfolding drop_map [symmetric] seq by (intro sorted_wrt_drop) simp
  then have sorted: "sort_key xe_sequence (drop k (session_rows d sid)) = drop k (session_rows d sid)"
    by (rule sort_key_id_if_sorted)
  have parsed: "rmap (\<lambda>x. parse_session (sevent_cls e) ''session event'' (xe_record x))
      (take (nat limit) (drop k (session_rows d sid))) = Inr (take (nat limit) (drop k (session_log d sid)))"
    using set_take_subset [of "nat limit" "drop k (session_rows d sid)"] set_drop_subset [of k "session_rows d sid"]
    by (subst parse_session_log [OF assms(1,2)]) (auto simp: session_log_def take_map drop_map)
  define n where "n = length (session_log d sid)"
  define page where "page = take (nat limit) (drop k (session_log d sid))"
  have lim: "1 \<le> limit" "limit \<le> 500" using assms(3) by (simp_all add: in_range_def)
  have last: "se_sequence (last page) = int (min n (k + nat limit))" if "page \<noteq> []"
  proof -
    have "map se_sequence page = take (nat limit) (drop k [1..int n])"
      unfolding page_def n_def using log(1,3) by (simp add: take_map [symmetric] drop_map [symmetric])
    then have "se_sequence (last page) = last (take (nat limit) (drop k [1..int n]))"
      using that by (metis last_map)
    also have "\<dots> = int (min n (k + nat limit))"
      using that lim by (subst last_conv_nth) (auto simp: page_def n_def min_def)
    finally show ?thesis .
  qed
  have ne: "page \<noteq> [] \<longleftrightarrow> k < n" using lim by (auto simp: page_def n_def)
  have st: "ss_session_ref (xs_state r) = session_ref_of (xs_identity r)" "ss_last_event_sequence (xs_state r) = int n"
    using inv(1,4) log(3) by (simp_all add: session_row_inv_def state_of_def n_def)
  have next': "(if page \<noteq> [] \<and> se_sequence (last page) < int n then Some (se_sequence (last page) + 1) else None) =
      (if k + nat limit < n then Some (int k + limit + 1) else None)"
    using last ne lim by (auto simp: min_def)
  show ?thesis
    unfolding list_events_def rows sorted load
    using assms(3) parsed next' by (simp add: st page_def [symmetric] n_def [symmetric])
qed

theorem list_events_slice_witness:
  "\<exists>page. list_events sample_session_env opened_session ''anna'' (int 0) 10 = Inr page \<and> ep_next_sequence page = None"
proof -
  obtain r where r: "find_session opened_session ''anna'' = Some r" using opened_has_anna by blast
  have "length (session_log opened_session ''anna'') \<le> length (harness_events opened_session)"
    by (simp add: session_log_def session_rows_def)
  moreover have "length (harness_events opened_session) = 1" by (simp add: opened_session_def)
  ultimately show ?thesis
    using list_events_slice [OF opened_reachable r, of 10 0] by (simp add: in_range_def)
qed

section \<open>Projections\<close>

lemma load_projection_current:
  assumes "session_reachable e d" and "find_session d sid = Some r"
  shows "\<exists>p. load_session_projection e d sid = Inr p \<and> build_session_projection e d sid = Inr p \<and>
    sp_session p = xs_state r"
proof -
  have "sid \<in> xs_session_id ` set (harness_sessions d)" using find_session_Some [OF assms(2)] by blast
  then obtain p where p: "build_session_projection e d sid = Inr p"
    "find (\<lambda>r. xo_session_id r = sid) (session_projections d) = Some (projection_row_of sid p)"
    using session_reachable_projections [OF assms(1)] unfolding projection_inv_def by meson
  moreover have "sp_session p = xs_state r"
    using p(1) assms(2) by (auto simp: build_session_projection_def load_session_Inr_iff projection_of_def elim!: rbind_InrE)
  ultimately show ?thesis
    using build_InrD(2) [OF p(1)] by (simp add: load_session_projection_def projection_row_of_def parse_projection_def)
qed

text \<open>
  C7: The stored projection of a session never drifts from what it projects: in every reachable store reading
  it succeeds for every session, agrees with a rebuild from the tables, shows the current state of the session
  and refers to its whole event log in order; a session that does not exist is reported as not found.
\<close>

theorem get_projection_current:
  assumes "session_reachable e d"
  shows "case find_session d sid of
      None \<Rightarrow> get_projection e d sid = Inl (HarnessSessionNotFoundError ''Harness session was not found'')
    | Some r \<Rightarrow> \<exists>p. get_projection e d sid = Inr p \<and> build_session_projection e d sid = Inr p \<and>
        sp_session p = xs_state r \<and> sp_event_refs p = map session_event_ref_of (session_log d sid)"
proof (cases "find_session d sid")
  case None
  then have "sid \<notin> xs_session_id ` set (harness_sessions d)" by (auto simp: find_session_def find_None_iff)
  then show ?thesis
    using session_reachable_projections [OF assms] None
    by (simp add: get_projection_def checked_projection_def load_session_projection_def projection_inv_def)
next
  case (Some r)
  then obtain p where l: "load_session_projection e d sid = Inr p" and p: "build_session_projection e d sid = Inr p"
    using load_projection_current [OF assms] by blast
  have get: "get_projection e d sid = Inr p" using l p by (simp add: get_projection_def checked_projection_def)
  have rows: "session_event_rows d sid = session_rows d sid"
    using session_rows_sorted [OF assms Some] by (simp add: session_event_rows_def session_rows_def)
  have load: "load_session e d sid = Inr (xs_state r, xs_identity r)"
    using Some reachable_session_row(1) [OF assms Some] by (auto simp: load_session_Inr_iff session_row_inv_def)
  obtain st msgs events questions summary where b: "st = xs_state r"
    "rmap (\<lambda>x. parse_session (sevent_cls e) ''session event'' (xe_record x)) (session_event_rows d sid) = Inr events"
    "p = projection_of e st msgs events questions summary"
    using p unfolding build_session_projection_def load by (auto elim!: rbind_InrE)
  have "events = session_log d sid"
    using b(2) parse_session_log [OF assms Some subset_refl] unfolding rows session_log_def by simp
  then show ?thesis using Some get p b(1,3) by (simp add: projection_of_def)
qed

theorem get_projection_current_witness:
  "get_projection sample_session_env empty_session_db ''anna'' =
     Inl (HarnessSessionNotFoundError ''Harness session was not found'') \<and>
   (\<exists>p. get_projection sample_session_env opened_session ''anna'' = Inr p)"
  using get_projection_current [OF session_reachable_empty [of sample_session_env], of "''anna''"]
    get_projection_current [OF opened_reachable, of "''anna''"] opened_has_anna
  by (auto simp: find_session_def empty_session_db_def)

section \<open>Runtime streams\<close>

lemma runtime_run_iff:
  "runtime_run ks \<longleftrightarrow>
     ks \<noteq> [] \<and> hd ks = RUN_STARTED \<and> RUN_STARTED \<notin> set (tl ks) \<and>
     set (butlast ks) \<inter> {RUN_COMPLETED, RUN_FAILED} = {} \<and>
     (last ks \<in> {RUN_COMPLETED, RUN_FAILED} \<longrightarrow> USAGE_REPORTED \<in> set ks)"
proof
  show "runtime_run ks \<Longrightarrow> ks \<noteq> [] \<and> hd ks = RUN_STARTED \<and> RUN_STARTED \<notin> set (tl ks) \<and>
     set (butlast ks) \<inter> {RUN_COMPLETED, RUN_FAILED} = {} \<and>
     (last ks \<in> {RUN_COMPLETED, RUN_FAILED} \<longrightarrow> USAGE_REPORTED \<in> set ks)"
  proof (induction rule: runtime_run.induct)
    case (run_more ks k)
    then have "ks = butlast ks @ [last ks]" by simp
    then have "set ks = insert (last ks) (set (butlast ks))" by (metis list.simps(15) rotate1.simps(2) set_rotate1)
    then show ?case using run_more by auto
  qed simp
next
  show "ks \<noteq> [] \<and> hd ks = RUN_STARTED \<and> RUN_STARTED \<notin> set (tl ks) \<and>
     set (butlast ks) \<inter> {RUN_COMPLETED, RUN_FAILED} = {} \<and>
     (last ks \<in> {RUN_COMPLETED, RUN_FAILED} \<longrightarrow> USAGE_REPORTED \<in> set ks) \<Longrightarrow> runtime_run ks"
  proof (induction ks rule: rev_induct)
    case (snoc k ks)
    show ?case
    proof (cases "ks = []")
      case True
      then show ?thesis using snoc.prems by (auto intro: run_start)
    next
      case False
      then have ks: "ks = butlast ks @ [last ks]" by simp
      have ends: "set (butlast ks) \<inter> {RUN_COMPLETED, RUN_FAILED} = {}" "last ks \<notin> {RUN_COMPLETED, RUN_FAILED}"
        using snoc.prems last_in_set [OF False] by (auto dest: in_set_butlastD)
      have "runtime_run ks" using snoc False ends by auto
      then show ?thesis using snoc.prems False ends(2) by (intro run_more) auto
    qed
  qed simp
qed

text \<open>
  C8: The runtime events a session has accepted form, for every runtime, run and unit of work, a run of the
  stream grammar: numbered from one without gaps, opened by the only \<open>RUN_STARTED\<close>, and with nothing after a
  terminal event, which comes only after usage was reported.
\<close>

theorem runtime_streams_run:
  assumes "session_reachable e d"
  shows "map xr_source_sequence (stream_rows d sid s) = [1..int (length (stream_rows d sid s))] \<and>
    (stream_rows d sid s = [] \<or> runtime_run (map xr_kind (stream_rows d sid s)))"
  using session_reachable_inv [OF assms] unfolding stream_inv_def stream_ok_def by blast

section \<open>Turns\<close>

text \<open>
  C9: At most one user turn is accepted per version of a session: the versions at which commands were accepted
  are strictly increasing and below the current version, so no two commands were started against one state.
\<close>

theorem one_turn_per_version:
  assumes "session_reachable e d" and "find_session d sid = Some r"
  shows "sorted_wrt (<) (accepted_versions d sid @ [xs_version r])"
proof -
  have "session_row_inv e r" "r \<in> set (harness_sessions d)" "xs_session_id r = sid"
    using reachable_session_row [OF assms] find_session_Some [OF assms(2)] by auto
  moreover from this have "ss_session_version (xs_state r) = xs_version r"
    by (simp add: session_row_inv_def row_ok_def parse_state_row_def parse_state_def rbind_Inr_iff split: if_splits)
  ultimately show ?thesis using session_reachable_inv [OF assms(1)] by (auto simp: command_inv_def)
qed

lemma opened_asked: "(session_step sample_session_env)\<^sup>*\<^sup>* opened_session asked_session"
proof -
  have "session_step sample_session_env opened_session informed_session"
    by (rule step_team [OF sample_informed [unfolded team_event_call_def]])
  moreover have "session_step sample_session_env informed_session asked_session"
    by (rule step_start [OF sample_asked [unfolded turn_call_def]])
  ultimately show ?thesis by simp
qed

lemma asked_has_anna: "\<exists>r. find_session asked_session ''anna'' = Some r"
  using grows_find_session [OF grows_steps [OF opened_asked opened_reachable]] opened_has_anna by blast

theorem one_turn_per_version_witness:
  "\<exists>r. find_session asked_session ''anna'' = Some r \<and> sorted_wrt (<) (accepted_versions asked_session ''anna'' @ [xs_version r])"
  using asked_has_anna one_turn_per_version [OF asked_reachable] by blast

theorem runtime_streams_run_witness:
  "map xr_source_sequence (stream_rows ran_session ''anna'' (''runtime'', ''run'', ''work'')) = [1, 2, 3] \<and>
   runtime_run (map xr_kind (stream_rows ran_session ''anna'' (''runtime'', ''run'', ''work''))) \<and>
   map xr_kind (stream_rows ran_session ''anna'' (''runtime'', ''run'', ''work'')) = [RUN_STARTED, USAGE_REPORTED, RUN_COMPLETED]"
  using runtime_streams_run [OF ran_reachable, of "''anna''" "(''runtime'', ''run'', ''work'')"] ran_stream by simp

section \<open>Repeated calls\<close>

lemma idempotency_added:
  assumes "check_idempotency d scope key h ty = Inr None"
    and "harness_idempotency d' = remembered scope key h ty i d"
  shows "check_idempotency d' scope key h ty = Inr (Some i)"
proof -
  have "idempotency_row_of d scope key = None"
    using assms(1) by (auto simp: check_idempotency_def split: option.splits if_splits)
  then show ?thesis using assms(2) by (simp add: check_idempotency_def idempotency_row_of_def find_append)
qed

lemma found_appended_event:
  assumes "\<forall>x\<in>set (harness_events d). xe_object_id x \<noteq> object_id ev"
    and "harness_events d' = harness_events d @ [sevent_row_of sid ev c]"
  shows "find_event d' (object_id ev) = Some (sevent_row_of sid ev c)"
proof -
  have "find (\<lambda>r. xe_object_id r = object_id ev) (harness_events d) = None" using assms(1) by (auto simp: find_None_iff)
  then show ?thesis using assms(2) by (simp add: find_event_def find_append)
qed

lemma append_team_committed:
  assumes "append_team_event e clk sref source tv payload aud key d = Inr (d', ev)" and "session_reachable e d"
  obtains sid i where "session_id_of d' sref = Inr sid"
    "check_idempotency d' (team_scope sid) key (session_request_sha256 e (TeamEventRequest sref source tv payload))
       ''session-event'' = Inr (Some i)"
    "replay_team_event e d' i = Inr ev"
proof -
  let ?h = "session_request_sha256 e (TeamEventRequest sref source tv payload)"
  have step: "session_step e d d'" by (rule step_team [OF assms(1)])
  have grow: "grows d d'" by (rule grows_step [OF step reachable_rows_inv [OF assms(2)]])
  from assms(1) obtain sid replayed where sid: "session_id_of d sref = Inr sid"
    and chk: "check_idempotency d (team_scope sid) key ?h ''session-event'' = Inr replayed"
    and rest: "(case replayed of Some i \<Rightarrow> rbind (replay_team_event e d i) (\<lambda>ev. Inr (d, ev))
         | None \<Rightarrow> append_team_fresh e clk sid sref source tv payload aud key ?h d) = Inr (d', ev)"
    by (auto simp: append_team_event_def Let_def elim!: rbind_InrE)
  show thesis
  proof (cases replayed)
    case None
    then have "append_team_fresh e clk sid sref source tv payload aud key ?h d = Inr (d', ev)" using rest by simp
    then show ?thesis
    proof (rule team_event_effect)
      fix r prior st' session d2 p
      assume a: "make_session_event e aud (team_event_id_for e sid source) session (ss_last_event_sequence st')
           (max (ss_session_version st') (max tv (se_authority_version prior))) None None None payload (clk 0) = Inr ev"
        "\<forall>x\<in>set (harness_events d). xe_object_id x \<noteq> object_id ev"
        "d2 = d\<lparr>harness_events := harness_events d @ [sevent_row_of sid ev None],
                harness_sessions := put_state st' (harness_sessions d)\<rparr>"
        "d' = d2\<lparr>session_projections := projected p d2,
                 harness_idempotency := remembered (team_scope sid) key ?h ''session-event'' (object_id ev) d2\<rparr>"
      have "find_event d' (object_id ev) = Some (sevent_row_of sid ev None)"
        by (rule found_appended_event [OF a(2)]) (simp add: a(3,4))
      then have "replay_team_event e d' (object_id ev) = Inr ev"
        using make_session_event_InrD(1) [OF a(1)] by (simp add: replay_team_event_def)
      moreover have "check_idempotency d' (team_scope sid) key ?h ''session-event'' = Inr (Some (object_id ev))"
        using chk None by (intro idempotency_added) (simp_all add: a(3,4))
      ultimately show ?thesis using that grows_session_id [OF grow sid] by blast
    qed
  next
    case (Some i)
    then show ?thesis using rest sid chk by (auto intro!: that elim!: rbind_InrE)
  qed
qed

lemma append_team_again:
  assumes "append_team_event e clk sref source tv payload aud key d = Inr (d1, ev)" and "session_reachable e d"
    and "(session_step e)\<^sup>*\<^sup>* d1 d2"
  shows "append_team_event e clk' sref source tv payload aud' key d2 = Inr (d2, ev)"
proof -
  have "session_reachable e d1" by (rule session_reachable_step [OF assms(2) step_team [OF assms(1)]])
  then have grow: "grows d1 d2" by (rule grows_steps [OF assms(3)])
  from append_team_committed [OF assms(1,2)] obtain sid i where i: "session_id_of d1 sref = Inr sid"
    "check_idempotency d1 (team_scope sid) key (session_request_sha256 e (TeamEventRequest sref source tv payload))
       ''session-event'' = Inr (Some i)"
    "replay_team_event e d1 i = Inr ev" by blast
  have "replay_team_event e d2 i = Inr ev"
    using i(3) grows_find_event [OF grow] by (auto simp: replay_team_event_def split: option.splits)
  then show ?thesis
    using grows_session_id [OF grow i(1)] grows_check_idempotency [OF grow i(2)]
    by (simp add: append_team_event_def Let_def)
qed

end
