(* ===== verification/Session_Delivery.thy ===== *)
theory Session_Delivery
  imports Delivery_Properties Session_Properties
begin

text \<open>
  The Team store and the session store together: the Agent Shell gives the reconciler of \<open>team/service.py\<close>
  the session store as its sink (\<open>console_api/composition_service.py\<close>). A reconciliation that stops between
  the sink and the delivery mark delivers the pair again; the session store then answers with the event it
  already holds.
\<close>

section \<open>The session store as the sink\<close>

definition session_sink ::
  "session_env \<Rightarrow> (nat \<Rightarrow> int) \<Rightarrow> session_delivery \<Rightarrow> session_db \<Rightarrow> session_event result \<times> session_db" where
  "session_sink se clk req s =
     transact (append_team_event se clk (sd_session_ref req) (sd_source_outbox_ref req)
       (sd_team_authority_version req) (sd_payload req) (sd_audit req) (sd_idempotency_key req)) s"

lemma session_sink_accepts:
  "session_sink se clk req s = (Inr ev, s') \<longleftrightarrow>
     append_team_event se clk (sd_session_ref req) (sd_source_outbox_ref req) (sd_team_authority_version req)
       (sd_payload req) (sd_audit req) (sd_idempotency_key req) s = Inr (s', ev)"
  by (auto simp: session_sink_def transact_def split: sum.splits)

lemma session_sink_again:
  assumes "session_sink se clk req s = (Inr ev, s1)" and "session_reachable se s" and "(session_step se)\<^sup>*\<^sup>* s1 s2"
  shows "session_sink se clk' (req\<lparr>sd_audit := aud\<rparr>) s2 = (Inr ev, s2)"
  using append_team_again [OF assms(1) [unfolded session_sink_accepts] assms(2,3)]
  by (simp add: session_sink_accepts)

section \<open>A delivery is the same request later\<close>

lemma join_team_prefix:
  assumes "history_le d d'" and "join_team d i = Some x"
  shows "join_team d' i = Some x"
proof -
  have "prefix (teams d) (teams d')" "prefix (rosters d) (rosters d')" "prefix (graphs d) (graphs d')"
    "prefix (authorities d) (authorities d')"
    using assms(1) by (simp_all add: history_le_def)
  then show ?thesis
    using assms(2) by (auto simp: join_team_def find_rev_def bind_eq_Some_conv find_prefix)
qed

lemma get_snapshot_at_prefix:
  assumes "history_le d d'" and "get_snapshot_at e d r = Inr sn"
  shows "get_snapshot_at e d' r = Inr sn"
proof -
  obtain x where x: "join_team d (ref_id r) = Some x"
    using assms(2) by (auto simp: get_snapshot_at_def snapshot_at_def split: option.splits)
  show ?thesis
    using assms(2) by (simp only: get_snapshot_at_def snapshot_at_def x join_team_prefix [OF assms(1) x])
qed

lemma delivery_for_prefix:
  assumes "history_le d d'" and "delivery_for e d aud p = Inr req"
  shows "delivery_for e d' aud' p = Inr (req\<lparr>sd_audit := aud'\<rparr>)"
  using assms(2) get_snapshot_at_prefix [OF assms(1)] by (auto simp: delivery_for_def elim!: rbind_InrE)

text \<open>
  C5: A Team event reaches a session exactly once. When the session store has accepted the delivery of an outbox
  pair and the reconciler stopped before marking it, then delivering the pair again, from any later Team store
  and any later session store and with any audit, leaves the session store as it is and answers with the event
  of the first delivery; only the delivery mark is added.
\<close>

theorem redelivery_exactly_once:
  assumes "session_reachable se s" and "delivery_for e d aud p = Inr req"
    and "session_sink se sclk req s = (Inr event, s1)"
    and "history_le d d2" and "(session_step se)\<^sup>*\<^sup>* s1 s2"
  shows "deliver_one e clk (session_sink se sclk') aud' p (d2, s2) =
    (case mark_outbox_delivered e clk (outbox_ref_of (fst p)) (snd p) d2 of
       Inl err \<Rightarrow> (Inl err, d2, s2) | Inr (d3, _) \<Rightarrow> (Inr event, d3, s2))"
  using delivery_for_prefix [OF assms(4,2)] session_sink_again [OF assms(3,1,5)]
  by (simp add: deliver_one_def reading_def transact_def split: sum.splits prod.splits)

definition sample_pair :: "outbox_record \<times> object_ref" where
  "sample_pair = (ox_record (sample_outbox ''team.outbox-1'' ''1'' 1), sample_session ''anna'')"

definition sample_delivery :: session_delivery where
  "sample_delivery =
     \<lparr>sd_session_ref = sample_session ''anna'', sd_source_outbox_ref = outbox_ref_of (fst sample_pair),
      sd_team_authority_version = 1,
      sd_payload = SessionTeamPayload SE_TEAM_CHANGED (sample_object_ref ''agent-team'' ''1''),
      sd_audit = sample_audit, sd_idempotency_key = delivery_key (fst sample_pair) (sample_session ''anna'')\<rparr>"

lemma sample_delivery_for: "delivery_for sample_env sample_db1 sample_audit sample_pair = Inr sample_delivery"
  by (simp add: delivery_for_def get_snapshot_at_def sample_snapshot_at_db1 [simplified] sample_pair_def sample_delivery_def
      sample_outbox_def sample_snapshot_def sample_authority_def session_payload_of_def team_payload_def)

lemma sample_pair_ref [simp]: "outbox_ref_of (fst sample_pair) = sample_object_ref ''team-outbox-record'' ''1''"
  by (simp add: sample_pair_def sample_outbox_def sample_id_def to_ref_def)

lemma sample_delivered: "\<not> isl (fst (session_sink sample_session_env sample_clock sample_delivery opened_session))"
  by (simp add: session_sink_def sample_delivery_def transact_def append_team_event_def append_team_fresh_def
      team_event_simps create_scope_def team_scope_def)

lemma sample_pair_marked:
  "\<exists>d3. mark_outbox_delivered sample_env sample_clock (outbox_ref_of (fst sample_pair)) (snd sample_pair) sample_db1 = Inr (d3, ())"
proof -
  have "deliverable sample_env sample_db1 sample_audit sample_pair"
    by (rule pending_deliverable [where T = "''team''", OF run_outbox_inv [of sample_env sample_calls, unfolded sample_run]])
       (simp_all add: undelivered_pairs_def undelivered_def team_outbox_def sample_db1_def [THEN arg_cong [of _ _ outbox_rows]]
          sample_db1_def [THEN arg_cong [of _ _ outbox_delivery]] empty_db_def sample_outbox_def sample_pair_def
          get_snapshot_at_def sample_snapshot_at_db1 [simplified])
  then show ?thesis using mark_succeeds by (auto simp: deliverable_def simp del: sample_pair_ref)
qed

theorem redelivery_exactly_once_witness:
  "\<exists>event s1 d3. session_sink sample_session_env sample_clock sample_delivery opened_session = (Inr event, s1) \<and>
     deliver_one sample_env sample_clock (session_sink sample_session_env sample_clock) sample_audit sample_pair
       (sample_db1, s1) = (Inr event, d3, s1)"
proof -
  obtain r s1 where r: "session_sink sample_session_env sample_clock sample_delivery opened_session = (r, s1)"
    by (metis surj_pair)
  moreover from this obtain event where "r = Inr event" using sample_delivered by (cases r) auto
  ultimately have s1: "session_sink sample_session_env sample_clock sample_delivery opened_session = (Inr event, s1)" by simp
  obtain d3 where "mark_outbox_delivered sample_env sample_clock (outbox_ref_of (fst sample_pair)) (snd sample_pair)
      sample_db1 = Inr (d3, ())"
    using sample_pair_marked by blast
  then show ?thesis
    using s1 redelivery_exactly_once [OF opened_reachable sample_delivery_for s1 history_le_refl rtranclp.rtrancl_refl,
        of sample_clock sample_clock sample_audit] by simp
qed

end
