(* ===== verification/Session_Replays.thy ===== *)
theory Session_Replays
  imports Session_Properties
begin

text \<open>
  Repeated calls of the session store: a user turn that was accepted is answered again with the same command,
  message and event, and a reconcile intent with the effect it was bound to first.
\<close>

section \<open>Turns stay readable\<close>

definition turn_row_ok :: "session_env \<Rightarrow> turn_row \<Rightarrow> bool" where
  "turn_row_ok e x \<longleftrightarrow>
     parse_session (turn_cls e) ''session turn'' (xt_record x) = Inr (xt_record x) \<and>
     object_id (xt_record x) = xt_object_id x \<and> object_sha256 (xt_record x) = xt_sha256 x"

lemma turns_ok_step:
  assumes "session_step e d d'" and "rows_inv e d" and "\<forall>x\<in>set (harness_turns d). turn_row_ok e x"
  shows "\<forall>x\<in>set (harness_turns d'). turn_row_ok e x"
  using assms(1)
proof cases
  case (step_create clk sid inca cmp who key aud p)
  then show ?thesis
    using assms(3) by (auto simp: create_session_def Let_def elim!: rbind_InrE create_session_effect split: option.splits)
next
  case (step_close clk sid expected pr key aud p)
  then show ?thesis
    using assms(3) by (auto simp: close_session_def Let_def elim!: rbind_InrE close_session_effect split: option.splits)
next
  case (step_claim sid expected pr key effect c)
  show ?thesis using claim_effect [OF step_claim] assms(3) by (cases "d' = d") auto
next
  case (step_start clk sid expected pr content artifacts key aud ts)
  then show ?thesis
  proof (cases rule: start_turn_cases)
    case (fresh r command)
    show ?thesis by (rule start_turn_effect [OF fresh(5)]) (use assms(3) in simp)
  qed (use assms(3) in simp)
next
  case (step_prepare clk sid command j x)
  show ?thesis
  proof (cases "d' = d")
    case False
    show ?thesis by (rule prepared_journal_effect [OF step_prepare(1) False]) (use assms(3) in simp)
  qed (use assms(3) in simp)
next
  case (step_complete clk sid command prep cj ms i pol outcome aud t)
  have "\<forall>x\<in>set (harness_turns d'). turn_row_ok e x"
    if "complete_turn_fresh e clk sid command prep cj ms i pol outcome aud d = Inr (d', t)"
    by (rule complete_turn_effect [OF that rows_inv_find [OF assms(2)]])
       (assumption, use assms(3) in \<open>auto simp: turn_row_ok_def\<close>)
  then show ?thesis
    using step_complete(1) assms(3) by (auto simp: complete_turn_def elim!: rbind_InrE split: option.splits)
next
  case (step_runtime clk sref v aud key turn_id step_id cref ev)
  then show ?thesis
    using assms(3)
    by (auto simp: append_runtime_event_def Let_def elim!: rbind_InrE runtime_event_effect
        split: option.splits dest!: rebind_runtime_effect)
next
  case (step_team clk sref source tv payload aud key ev)
  then show ?thesis
    using assms(3) by (auto simp: append_team_event_def Let_def elim!: rbind_InrE team_event_effect split: option.splits)
next
  case (step_rebuild sid p)
  show ?thesis using rebuild_effect [OF step_rebuild] assms(3) by simp
qed

lemma reachable_turns_ok:
  assumes "session_reachable e d"
  shows "\<forall>x\<in>set (harness_turns d). turn_row_ok e x"
  using assms unfolding session_reachable_def
proof (induction rule: rtranclp_induct)
  case base
  show ?case by (simp add: empty_session_db_def)
next
  case (step d1 d2)
  have "rows_inv e d1" using step(1) by (intro reachable_rows_inv) (simp add: session_reachable_def)
  then show ?case using turns_ok_step step(2,3) by blast
qed

lemma reachable_turn_loads:
  assumes "session_reachable e d"
  shows "\<exists>t. load_turn_by_command e d i = Inr t"
proof (cases "find (\<lambda>r. xt_command_id r = i) (harness_turns d)")
  case (Some x)
  then have "turn_row_ok e x" using reachable_turns_ok [OF assms] find_SomeD by fastforce
  then show ?thesis using Some by (simp add: load_turn_by_command_def turn_row_ok_def)
qed (simp add: load_turn_by_command_def)

section \<open>A turn started again\<close>

lemma load_session_later:
  assumes "session_reachable e d" and "find_session d sid = Some r" and "session_reachable e d2" and "grows d d2"
  shows "\<exists>r2 :: session_row. load_session e d2 sid = Inr (xs_state r2, xs_identity r2) \<and>
    ss_session_ref (xs_state r2) = ss_session_ref (xs_state r)"
proof -
  obtain r2 where r2: "find_session d2 sid = Some r2" "xs_identity r2 = xs_identity r"
    using grows_find_session [OF assms(4,2)] by blast
  have "session_row_inv e r" "session_row_inv e r2"
    using reachable_session_row(1) [OF assms(1,2)] reachable_session_row(1) [OF assms(3) r2(1)] by simp_all
  then have "load_session e d2 sid = Inr (xs_state r2, xs_identity r2)"
    "ss_session_ref (xs_state r2) = ss_session_ref (xs_state r)"
    using r2 by (auto simp: load_session_Inr_iff session_row_inv_def state_of_def)
  then show ?thesis by blast
qed

lemma make_command_cong:
  "ss_session_ref st = ss_session_ref st' \<Longrightarrow> make_command e sid st v pr c as k aud = make_command e sid st' v pr c as k aud"
  by (simp add: make_command_def)

lemma start_turn_message:
  assumes "start_turn_fresh e clk sid st ident command expected content artifacts aud d = Inr (d', ts)"
  shows "load_message_by_id e d' (object_id (ts_user_message ts)) = Inr (ts_user_message ts)"
proof -
  from assms obtain m st' d1 d2 d3 d4 ev p where
    m: "create_harness_message (text_sha256 e) (dg_harness_message e) aud
              \<lparr>object_id = [], object_sha256 = [], audit = no_audit,
               hm_message_id = user_message_id_for sid (ss_last_event_sequence st + 1),
               hm_session_ref = ss_session_ref st, hm_role = USER_ROLE, hm_content = content,
               hm_content_sha256 = [], hm_artifact_envelope_refs = artifacts, hm_chunk_index = None,
               hm_final = True, hm_created_at = clk 0\<rparr> = Inr m"
    and 3: "add_message sid m (ss_last_event_sequence st') d1 = Inr d2"
    and 4: "add_event sid ev (Some (object_id command)) d2 = Inr d3"
    and 5: "update_state st' d3 = Inr d4" and 6: "refresh_projection e sid d4 = Inr (d', p)"
    and ts: "ts_user_message ts = m"
    unfolding start_turn_fresh_def by (auto elim!: rbind_InrE)
  have pm: "parse_session (hmessage_cls e) ''session message'' m = Inr m"
    using create_parse_session [OF m [unfolded create_harness_message_def]] .
  have none: "find (\<lambda>r. xm_object_id r = object_id m) (harness_messages d1) = None"
    using 3 by (auto simp: add_message_def insert_smessage_row_def find_None_iff list_ex_iff
        elim!: rbind_InrE dest!: insert_row_InrD)
  have "harness_messages d' = harness_messages d1 @ [message_row_of sid m (ss_last_event_sequence st')]"
    using add_message_InrD [OF 3] add_event_InrD [OF 4] update_state_InrD [OF 5] refresh_projection_InrD [OF 6] by simp
  then show ?thesis using none pm by (simp add: load_message_by_id_def find_append ts message_row_of_def)
qed

lemma start_turn_committed:
  assumes "start_turn e clk sid expected pr content artifacts key aud d = Inr (d', ts)" and "session_reachable e d"
  obtains r row where "find_session d sid = Some r"
    "make_command e sid (xs_state r) expected pr (strip content) artifacts key aud = Inr (ts_command ts)"
    "find (\<lambda>c. xc_session_id c = sid \<and> xc_idempotency_key c = key) (harness_commands d') = Some row"
    "parse_session (mcommand_cls e) ''session command'' (xc_record row) = Inr (xc_record row)"
    "message_command_ref_of (xc_record row) = message_command_ref_of (ts_command ts)"
    "load_message_by_id e d' (xc_user_message_id row) = Inr (ts_user_message ts)"
    "load_event_by_id e d' (xc_user_event_id row) = Inr (ts_user_event ts)"
proof -
  from assms(1) obtain r command where r: "find_session d sid = Some r"
    and mk: "make_command e sid (xs_state r) expected pr (strip content) artifacts key aud = Inr command"
    and rest: "(case find (\<lambda>r. xc_session_id r = sid \<and> xc_idempotency_key r = key) (harness_commands d) of
       Some row \<Rightarrow> replay_turn e (xs_state r) command row d
     | None \<Rightarrow> start_turn_fresh e clk sid (xs_state r) (xs_identity r) command expected (strip content) artifacts aud d)
       = Inr (d', ts)"
    by (auto simp: start_turn_def load_session_Inr_iff elim!: rbind_InrE)
  show thesis
  proof (cases "find (\<lambda>r. xc_session_id r = sid \<and> xc_idempotency_key r = key) (harness_commands d)")
    case (Some row)
    then have "replay_turn e (xs_state r) command row d = Inr (d', ts)" using rest by simp
    then show ?thesis
      using Some r mk by (auto simp: replay_turn_def parse_session_Inr intro!: that elim!: rbind_InrE)
  next
    case None
    then have fresh: "start_turn_fresh e clk sid (xs_state r) (xs_identity r) command expected (strip content) artifacts aud d
        = Inr (d', ts)" using rest by simp
    note command = make_command_InrD [OF mk]
    show ?thesis
    proof (rule start_turn_effect [OF fresh])
      fix m st' session ev row d2 p
      assume a: "make_session_event e aud (event_id_for sid (ss_last_event_sequence st')) session (ss_last_event_sequence st')
           (ss_session_version st') (Some (turn_id_of e command)) None (Some (message_command_ref_of command))
           (SessionMessagePayload SE_USER_MESSAGE (harness_message_ref_of m) (hm_artifact_envelope_refs m)) (clk 0) = Inr ev"
        "xc_session_id row = sid" "xc_idempotency_key row = mc_idempotency_key command"
        "xc_user_message_id row = object_id m" "xc_user_event_id row = object_id ev" "xc_record row = command"
        "\<forall>x\<in>set (harness_events d). xe_object_id x \<noteq> object_id ev"
        "d2 = d\<lparr>harness_commands := harness_commands d @ [row],
            harness_messages := harness_messages d @ [message_row_of sid m (ss_last_event_sequence st')],
            harness_events := harness_events d @ [sevent_row_of sid ev (Some (object_id command))],
            harness_sessions := put_state st' (harness_sessions d)\<rparr>"
        "d' = d2\<lparr>session_projections := projected p d2\<rparr>"
        "ts = \<lparr>ts_state = st', ts_command = command, ts_user_message = m, ts_user_event = ev, ts_replay = None\<rparr>"
      have event: "load_event_by_id e d' (object_id ev) = Inr ev"
        using found_appended_event [OF a(7), of d'] make_session_event_InrD(1) [OF a(1)]
        by (simp add: a(8,9) load_event_by_id_def)
      have found: "find (\<lambda>c. xc_session_id c = sid \<and> xc_idempotency_key c = key) (harness_commands d') = Some row"
        using None a(2,3) command(3) by (simp add: a(8,9) find_append)
      show ?thesis
        by (rule that [OF r _ found])
           (use mk command(1) a(4-6) event start_turn_message [OF fresh] in \<open>simp_all add: a(10)\<close>)
    qed
  qed
qed

text \<open>
  C10: Starting a user turn is idempotent. Once a turn is accepted, the same call on the store at any later time
  returns the same command, user message and user event, whatever the session went through since, including its
  completion or closing; it commits nothing.
\<close>

theorem start_turn_idempotent:
  assumes "session_reachable e d" and "start_turn e clk sid expected pr content artifacts key aud d = Inr (d1, ts)"
    and "(session_step e)\<^sup>*\<^sup>* d1 d2"
  shows "\<exists>ts'. start_turn e clk' sid expected pr content artifacts key aud d2 = Inr (d2, ts') \<and>
    ts_command ts' = ts_command ts \<and> ts_user_message ts' = ts_user_message ts \<and> ts_user_event ts' = ts_user_event ts"
proof -
  have r1: "session_reachable e d1" by (rule session_reachable_step [OF assms(1) step_start [OF assms(2)]])
  have r2: "session_reachable e d2" by (rule session_reachable_steps [OF r1 assms(3)])
  have g: "grows d1 d2" by (rule grows_steps [OF assms(3) r1])
  have g0: "grows d d2"
    by (rule grows_trans [OF grows_step [OF step_start [OF assms(2)] reachable_rows_inv [OF assms(1)]] g])
  from start_turn_committed [OF assms(2,1)] obtain r row where
    c: "find_session d sid = Some r"
      "make_command e sid (xs_state r) expected pr (strip content) artifacts key aud = Inr (ts_command ts)"
      "find (\<lambda>c. xc_session_id c = sid \<and> xc_idempotency_key c = key) (harness_commands d1) = Some row"
      "parse_session (mcommand_cls e) ''session command'' (xc_record row) = Inr (xc_record row)"
      "message_command_ref_of (xc_record row) = message_command_ref_of (ts_command ts)"
      "load_message_by_id e d1 (xc_user_message_id row) = Inr (ts_user_message ts)"
      "load_event_by_id e d1 (xc_user_event_id row) = Inr (ts_user_event ts)" by blast
  obtain q :: session_row where q: "load_session e d2 sid = Inr (xs_state q, xs_identity q)"
    "ss_session_ref (xs_state q) = ss_session_ref (xs_state r)"
    using load_session_later [OF assms(1) c(1) r2 g0] by blast
  have row: "find (\<lambda>c. xc_session_id c = sid \<and> xc_idempotency_key c = key) (harness_commands d2) = Some row"
    using find_prefix [OF _ c(3)] g by (simp add: grows_def)
  obtain t where "load_turn_by_command e d2 (object_id (ts_command ts)) = Inr t" using reachable_turn_loads [OF r2] by blast
  then show ?thesis
    using q row c(2) [folded make_command_cong [OF q(2)]] c(4,5) grows_load_message [OF g c(6)] grows_load_event [OF g c(7)]
    by (simp add: start_turn_def replay_turn_def)
qed

theorem start_turn_idempotent_witness:
  "\<exists>d1 ts ts'. turn_call informed_session = Inr (d1, ts) \<and> turn_call d1 = Inr (d1, ts') \<and> ts_command ts' = ts_command ts"
  using start_turn_idempotent [OF informed_reachable sample_asked [unfolded turn_call_def] rtranclp.rtrancl_refl, of sample_clock]
    sample_asked by (auto simp: turn_call_def)

section \<open>A reconcile intent claimed again\<close>

text \<open>
  C13: A reconcile intent keeps the effect it was claimed with. When a claim was answered, claiming again under
  the same key, at any later time and whatever effect the caller now names, returns the first effect, read back
  from its stored text, and commits nothing.
\<close>

theorem claim_shell_reconcile_sticks:
  assumes "session_reachable e d" and "claim_shell_reconcile e sid expected pr key effect d = Inr (d1, c)"
    and "(session_step e)\<^sup>*\<^sup>* d1 d2" and "case effect of None \<Rightarrow> True | Some r \<Rightarrow> validate_object_ref r"
  shows "claim_shell_reconcile e sid expected pr key effect' d2 = Inr (d2, \<lparr>rl_replay = True, rl_effect_ref = rl_effect_ref c\<rparr>)"
proof -
  let ?h = "session_request_sha256 e (SessionVersionRequest sid expected pr)"
  have r1: "session_reachable e d1" by (rule session_reachable_step [OF assms(1) step_claim [OF assms(2)]])
  have g: "grows d1 d2" by (rule grows_steps [OF assms(3) r1])
  have "\<exists>i. check_idempotency d1 (reconcile_scope sid) key ?h reconcile_intent = Inr (Some i) \<and> effect_ref i = Inr (rl_effect_ref c)"
  proof (cases "check_idempotency d (reconcile_scope sid) key ?h reconcile_intent")
    case (Inr replayed)
    show ?thesis
    proof (cases replayed)
      case None
      then have "add_idempotency (reconcile_scope sid) key ?h reconcile_intent (effect_id effect) d = Inr d1" "rl_effect_ref c = effect"
        using assms(2) Inr by (auto simp: claim_shell_reconcile_def Let_def elim!: rbind_InrE)
      then show ?thesis
        using idempotency_added [OF Inr [unfolded None], of d1] effect_roundtrip [OF assms(4)]
        by (auto dest!: add_idempotency_InrD)
    next
      case (Some i)
      then show ?thesis using assms(2) Inr by (auto simp: claim_shell_reconcile_def Let_def elim!: rbind_InrE)
    qed
  qed (use assms(2) in \<open>simp add: claim_shell_reconcile_def Let_def\<close>)
  then show ?thesis using grows_check_idempotency [OF g] by (auto simp: claim_shell_reconcile_def Let_def)
qed

definition sample_effect :: object_ref where
  "sample_effect = ObjectRef ''factory-run-graph'' ''factory-run-graph://first'' ''v1'' (replicate 64 CHR ''a'')"

lemma sample_effect_valid: "validate_object_ref sample_effect"
  by code_simp

theorem claim_shell_reconcile_sticks_witness:
  "\<exists>d1 c. claim_shell_reconcile sample_session_env ''anna'' 1 (sample_ref ''principal'') ''claim'' (Some sample_effect) opened_session = Inr (d1, c) \<and>
     claim_shell_reconcile sample_session_env ''anna'' 1 (sample_ref ''principal'') ''claim'' (Some (sample_session ''bob'')) d1 =
       Inr (d1, \<lparr>rl_replay = True, rl_effect_ref = rl_effect_ref c\<rparr>)"
proof -
  have "\<not> isl (claim_shell_reconcile sample_session_env ''anna'' 1 (sample_ref ''principal'') ''claim'' (Some sample_effect) opened_session)"
    by (simp add: claim_shell_reconcile_def operation_simps opened_session_def anna_row_loads require_opt_ref_def
        create_scope_def reconcile_scope_def)
  then obtain d1 c where c: "claim_shell_reconcile sample_session_env ''anna'' 1 (sample_ref ''principal'') ''claim'' (Some sample_effect) opened_session = Inr (d1, c)"
    by (metis prod.exhaust sum.disc(1) sum.exhaust)
  show ?thesis
    using claim_shell_reconcile_sticks [OF opened_reachable c rtranclp.rtrancl_refl] c sample_effect_valid by simp
qed

end
