(* ===== verification/Session_Faults.thy ===== *)
theory Session_Faults
  imports Session_Properties
begin

text \<open>
  Where the session store does not keep what its contracts promise: a Team that is ahead of its session breaks
  the order of authority versions of the log, and completing a turn opens a closed session again.
\<close>

section \<open>Authority versions move backward\<close>

text \<open>
  C11: An event of a Team whose authority is ahead of the session leaves the log in a state from which it goes
  wrong: the next user turn that is accepted, numbered by the version of the session, makes the log one that
  \<open>validate_session_event_log\<close> refuses.
\<close>

theorem team_ahead_breaks_log:
  assumes "session_reachable e d" and "find_session d sid = Some r" and "event \<in> set (session_log d sid)"
    and "xs_version r + 1 < se_authority_version event"
    and "start_turn e clk sid expected pr content artifacts key aud d = Inr (d', ts)" and "d' \<noteq> d"
  shows "validate_session_event_log (session_log d' sid) \<noteq> Inr ()"
proof -
  have d': "session_reachable e d'" by (rule session_reachable_step [OF assms(1) step_start [OF assms(5)]])
  have "grows d d'" by (rule grows_step [OF step_start [OF assms(5)] reachable_rows_inv [OF assms(1)]])
  then obtain r' where r': "find_session d' sid = Some r'" using grows_find_session [OF _ assms(2)] by blast
  obtain q command where q: "find_session d sid = Some q"
    "start_turn_fresh e clk sid (xs_state q) (xs_identity q) command expected (strip content) artifacts aud d = Inr (d', ts)"
    using start_turn_cases [OF assms(5)] assms(6) by metis
  have version: "ss_session_version (xs_state r) = xs_version r"
    using reachable_session_row(1) [OF assms(1,2)]
    by (simp add: session_row_inv_def row_ok_def parse_state_row_def parse_state_def rbind_Inr_iff split: if_splits)
  show ?thesis
  proof (rule start_turn_effect [OF q(2)])
    fix m st' session ev row d2 p
    assume a: "next_state e (xs_identity q) (xs_state q) SESSION_ACTIVE (ss_last_event_sequence (xs_state q) + 1) (clk 0) = Inr st'"
      "make_session_event e aud (event_id_for sid (ss_last_event_sequence st')) session (ss_last_event_sequence st')
         (ss_session_version st') (Some (turn_id_of e command)) None (Some (message_command_ref_of command))
         (SessionMessagePayload SE_USER_MESSAGE (harness_message_ref_of m) (hm_artifact_envelope_refs m)) (clk 0) = Inr ev"
      "d2 = d\<lparr>harness_commands := harness_commands d @ [row],
            harness_messages := harness_messages d @ [message_row_of sid m (ss_last_event_sequence st')],
            harness_events := harness_events d @ [sevent_row_of sid ev (Some (object_id command))],
            harness_sessions := put_state st' (harness_sessions d)\<rparr>"
      "d' = d2\<lparr>session_projections := projected p d2\<rparr>"
    have "session_log d' sid = session_log d sid @ [ev]"
      by (simp add: session_log_def session_rows_def a(3,4))
    moreover have "se_authority_version ev = xs_version r + 1"
      using make_session_event_InrD(5) [OF a(2)] next_state_InrD(2) [OF a(1)] q(1) assms(2) version by simp
    ultimately have "\<not> sorted (map se_authority_version (session_log d' sid))"
      using assms(3,4) by (auto simp: sorted_append not_le intro!: bexI [of _ event])
    then show ?thesis using log_accepted_iff [OF d' r'] by simp
  qed
qed

theorem team_ahead_breaks_log_witness:
  "\<exists>d' ts. turn_call informed_session = Inr (d', ts) \<and> validate_session_event_log (session_log d' ''anna'') \<noteq> Inr ()"
proof -
  have facts: "map (\<lambda>x. (xe_session_id x, se_authority_version (xe_record x))) (harness_events informed_session) =
      [(''anna'', 1), (''anna'', 7)]" "map (\<lambda>x. (xs_session_id x, xs_version x)) (harness_sessions informed_session) = [(''anna'', 2)]"
    by (simp_all add: informed_session_def)
  then obtain a b r where ab: "harness_events informed_session = [a, b]" "xe_session_id b = ''anna''"
      "se_authority_version (xe_record b) = 7"
    and r: "find_session informed_session ''anna'' = Some r" "xs_version r = 2"
    by (auto simp: map_eq_Cons_conv find_session_def)
  have "xe_record b \<in> set (session_log informed_session ''anna'')"
    using ab by (auto simp: session_log_def session_rows_def)
  moreover have "asked_session \<noteq> informed_session"
    by (simp add: asked_session_def informed_session_def)
  ultimately show ?thesis
    using team_ahead_breaks_log [OF informed_reachable r(1) _ _ sample_asked [unfolded turn_call_def]] ab(3) r(2) sample_asked
    by fastforce
qed

section \<open>A closed session is opened again\<close>

lemma complete_turn_status:
  assumes "complete_turn e clk sid command prep cj ms i pol outcome aud d = Inr (d', t)"
    and "load_turn_by_command e d (object_id command) = Inr None" and "session_reachable e d" and "semantic_turn outcome"
  shows "\<exists>r. find_session d' sid = Some r \<and> ss_status (xs_state r) = SESSION_ACTIVE \<and> xs_status r = SESSION_ACTIVE"
proof -
  have fresh: "complete_turn_fresh e clk sid command prep cj ms i pol outcome aud d = Inr (d', t)"
    using assms(1,2) by (simp add: complete_turn_def)
  show ?thesis
  proof (rule complete_turn_effect [OF fresh rows_inv_find [OF reachable_rows_inv [OF assms(3)]]])
    fix r mrows erows jr irow prows trow st' d2 p
    assume a: "find_session d sid = Some r"
      "completed_state e (xs_identity r) (xs_state r)
         (ss_last_event_sequence (xs_state r) + int (length erows)) i pol outcome (clk 2) = Inr st'"
      "d2 = d\<lparr>harness_messages := harness_messages d @ mrows, harness_events := harness_events d @ erows,
            gateway_journals := gateway_journals d @ [jr],
            journal_heads := map (\<lambda>x. if xk_command_id x = object_id command then x\<lparr>xk_journal_id := object_id cj\<rparr> else x)
              (journal_heads d),
            harness_interpretations := harness_interpretations d @ [irow], requirement_policies := prows,
            harness_turns := harness_turns d @ [trow], harness_sessions := put_state st' (harness_sessions d)\<rparr>"
      "d' = d2\<lparr>session_projections := projected p d2,
             harness_idempotency := remembered (turn_scope sid) (mc_idempotency_key command) (object_sha256 command)
               ''harness-turn-result'' (object_id t) d2\<rparr>"
    note st = create_state_InrD [OF a(2) [unfolded completed_state_def]]
    have "session_row_inv e r" "xs_session_id r = sid" using reachable_session_row [OF assms(3) a(1)] by auto
    then have "ss_session_id st' = sid"
      using st(1) by (simp add: state_of_def session_row_inv_def row_ok_def)
    then have "find_session d' sid = Some (set_state st' r)"
      using a(1) find_session_Some [OF a(1)] by (simp add: find_session_def a(3,4) find_put_state)
    then show ?thesis using st(3) assms(4) by simp
  qed (assumption)
qed

text \<open>
  Completing a turn ignores that its session was closed meanwhile. After a committed close, a turn of the
  session that was started before can still be completed with a semantic outcome; the session is then active
  again, and repeating the call that closed it fails as an integrity error.
\<close>

lemma closed_session_reopened:
  assumes "session_reachable e d0" and "close_session e clk sid expected pr key aud d0 = Inr (d, p)" and "d \<noteq> d0"
    and "command_of_session d sid command" and "load_turn_by_command e d (object_id command) = Inr None"
    and "complete_turn e clk1 sid command prep cj ms i pol outcome aud1 d = Inr (d', t)" and "semantic_turn outcome"
  shows "(\<exists>r. find_session d sid = Some r \<and> xs_status r = SESSION_STATUS_CLOSED) \<and>
    (\<exists>r. find_session d' sid = Some r \<and> xs_status r = SESSION_ACTIVE) \<and>
    close_session e clk2 sid expected pr key aud2 d' =
      Inl (HarnessSessionIntegrityError ''closed session replay is not closed'')"
proof -
  let ?h = "session_request_sha256 e (SessionVersionRequest sid expected pr)"
  have d: "session_reachable e d" by (rule session_reachable_step [OF assms(1) step_close [OF assms(2)]])
  have step: "session_step e d d'" by (rule step_complete [OF assms(6,4)])
  have d': "session_reachable e d'" by (rule session_reachable_step [OF d step])
  have g: "grows d d'" by (rule grows_step [OF step reachable_rows_inv [OF d]])
  have chk: "check_idempotency d0 (close_scope sid) key ?h ''harness-session'' = Inr None"
    and fresh: "close_session_fresh e clk sid expected key ?h aud d0 = Inr (d, p)"
    using assms(2,3) by (auto simp: close_session_def Let_def elim!: rbind_InrE split: option.splits)
  have closed: "check_idempotency d (close_scope sid) key ?h ''harness-session'' = Inr (Some sid) \<and>
      (\<exists>r. find_session d sid = Some r \<and> xs_status r = SESSION_STATUS_CLOSED)"
  proof (rule close_session_effect [OF fresh])
    fix r st' session ev d2
    assume a: "find_session d0 sid = Some r"
      "next_state e (xs_identity r) (xs_state r) SESSION_STATUS_CLOSED (ss_last_event_sequence (xs_state r) + 1) (clk 0) = Inr st'"
      "d2 = d0\<lparr>harness_sessions := put_state st' (harness_sessions d0), harness_events := harness_events d0 @ [sevent_row_of sid ev None]\<rparr>"
      "d = d2\<lparr>session_projections := projected p d2, harness_idempotency := remembered (close_scope sid) key ?h ''harness-session'' sid d2\<rparr>"
    have "session_row_inv e r" "xs_session_id r = sid" using reachable_session_row [OF assms(1) a(1)] by auto
    then have "ss_session_id st' = sid"
      using next_state_InrD(1) [OF a(2)] by (simp add: state_of_def session_row_inv_def row_ok_def)
    then have "find_session d sid = Some (set_state st' r)"
      using a(1) find_session_Some [OF a(1)] by (simp add: find_session_def a(3,4) find_put_state)
    moreover have "check_idempotency d (close_scope sid) key ?h ''harness-session'' = Inr (Some sid)"
      using chk by (intro idempotency_added) (simp_all add: a(3,4))
    ultimately show ?thesis using next_state_InrD(3) [OF a(2)] by simp
  qed
  obtain r where r: "find_session d' sid = Some r" "ss_status (xs_state r) = SESSION_ACTIVE" "xs_status r = SESSION_ACTIVE"
    using complete_turn_status [OF assms(6,5) d assms(7)] by blast
  obtain q where q: "load_session_projection e d' sid = Inr q" "sp_session q = xs_state r"
    using load_projection_current [OF d' r(1)] by blast
  have "close_session e clk2 sid expected pr key aud2 d' =
      Inl (HarnessSessionIntegrityError ''closed session replay is not closed'')"
    using grows_check_idempotency [OF g conjunct1 [OF closed]] q r(2) by (simp add: close_session_def Let_def)
  then show ?thesis using closed r by blast
qed

end
