(* ===== verification/Spec2Isabelle.thy ===== *)
theory Spec2Isabelle
  imports Replay_Properties Delivery_Properties Projection_Properties Coordinator_Properties
    Registry_Properties Runner_Properties Completion_Properties Progress_Properties Rebuild_Properties
    Session_Delivery Session_Replays Session_Faults
begin

text \<open>
  Verification of the Team runtime and the session store of Eval Builder.

  \<^bold>\<open>The program.\<close> Eval Builder builds evaluation datasets with teams of agents. Its core, and the subject of
  this development, is the Team runtime: \<open>src/src/eval_factory/team/\<close> and the Harness contracts it rests on in
  \<open>src/src/eval_factory/harness/\<close>, and the store of the Harness sessions its members and its user work in. A Team is a roster of members, a graph of tasks and an execution
  authority; a SQLite store holds the Team, the event log of every task, the artifacts on the Blackboard,
  the mailbox, and an outbox of what happened. Members claim tasks, lease them, run a capability through the
  capability runtime and complete them; a coordinator decides when the Team is done or which tasks go back;
  a reconciler delivers the outbox to the members' sessions. A session is an append-only log of events in a second
  SQLite store: user turns, the journal of the model call behind a turn, its interpretation, runtime events and
  the events of Teams, with a state of versions and a projection for readers. Every record is content-addressed: it carries
  the digest of its own content and refers to others by object reference.

  \<^bold>\<open>The theories\<close>, in the order the code builds on itself.

  \<^item> \<open>Prelude\<close>: errors as one datatype, results as a sum type with \<open>rbind\<close> and \<open>guard\<close> for the early returns
    and raises of Python, list primitives for the SQL the store issues, decimal rendering.
  \<^item> \<open>Contracts\<close> (\<open>contracts/core.py\<close>, \<open>harness/contracts.py\<close>): object references and their order, audits,
    identifiers, the record \<open>harness_object\<close> every contract extends, \<open>create\<close>, \<open>to_ref\<close>, \<open>parse_record\<close>. The
    locale \<open>harness_laws\<close> states what creation promises (a created object passes its validator and its
    identity check and parses back); every record class is an interpretation of it.
  \<^item> \<open>Harness_Objects\<close> (\<open>harness/artifacts.py\<close>, \<open>harness/capability.py\<close>), \<open>Interaction\<close>
    (\<open>harness/interaction.py\<close>: authority, grants, the Balanced Autonomy evaluator), \<open>Pack_Composition\<close>
    (\<open>harness/composition.py\<close>, \<open>harness/projections.py\<close>), \<open>Capability_Runtime\<close>
    (\<open>harness/capability_runtime.py\<close>: registry, resolution, authorisation and execution of an invocation).
  \<^item> \<open>Team_Models\<close>, \<open>Team_Records\<close> (\<open>team/models.py\<close>): every record of the Team with its validator, the
    acyclicity loop; \<open>Task_Graph\<close> and \<open>Task_Events\<close>: the theory of the graph validator and of the replay
    validator with its abstract specification, the step relation \<open>lifecycle_step\<close>.
  \<^item> \<open>Store_Schema\<close>, \<open>Store_Db\<close> (\<open>team/_store_db.py\<close>, \<open>team/_store_types.py\<close>): the record \<open>db\<close> with one list of rows per
    table, primary keys, unique and foreign keys, transactions, snapshots, the memory of idempotent replies.
  \<^item> \<open>Store_Teams\<close>, \<open>Store_Tasks\<close> (\<open>team/_store_authority.py\<close>): creating a Team; claim, lease, heartbeat,
    expiry, cancellation. \<open>Store_Blackboard\<close>, \<open>Store_Collaboration\<close> (\<open>team/_store_collaboration.py\<close>):
    completion, artifact heads, the re-check of an invocation, mailbox, subscriptions, conflicts.
    \<open>Store_Projection\<close>, \<open>Store_Checkpoints\<close>, \<open>Store_Rework\<close>, \<open>Store_Rebuild\<close> (\<open>team/_store_projection.py\<close>,
    \<open>team/context.py\<close>): member projections, checkpoints, decisions, the outbox, narrowing and rework of the
    graph, the audit and repair of current heads, recovery of expired leases.
  \<^item> \<open>Team_Coordinator\<close> (\<open>team/convergence.py\<close>, \<open>team/service.py\<close>), \<open>Team_Runner\<close> (\<open>team/runtime.py\<close>): the
    clients, each a sequence of transactions that keeps what the earlier ones committed.

  \<^item> \<open>Runtime_Event\<close> (\<open>env_mock_agent/facade/runtime_v2.py\<close>), \<open>Session_Models\<close> (\<open>harness/session_models.py\<close>),
    \<open>Session_Records\<close> (\<open>harness/runtime_models.py\<close>): the records of a session with their validators, the
    validators of event logs and command lists; \<open>Effect_Text\<close>: the canonical JSON text of an object reference
    and its reader.
  \<^item> \<open>Session_Schema\<close>, \<open>Session_Loads\<close>, \<open>Session_Store\<close>, \<open>Session_Streams\<close> (\<open>harness/session_store.py\<close>): the
    record \<open>session_db\<close>, the private loaders and writers, the projection, then every operation and read of
    \<open>HarnessSessionStore\<close>.

  An operation of a store is a function from the database to an error or a new database and a reply; an
  error leaves the database as it was, as the rollback does (\<open>transact\<close>). Every raise is an \<open>Inl\<close>.

  \<^bold>\<open>How the proofs are built.\<close> \<open>Store_Frame\<close> proves, table by table, what a single insert keeps. \<open>Store_Steps\<close>
  lifts a relation that holds across each insert to every operation, in the locales \<open>frame_relation\<close> and
  \<open>growth_relation\<close>; they are interpreted for the quiet steps, the growing steps, the typing of the outbox, and the keys of the
  current-head and Team tables.
  \<open>Task_Invariant\<close> states the invariant of the task tables and the task step that keeps it; \<open>Task_Operations\<close>,
  \<open>Store_Invariant\<close> and \<open>Projection_Frame\<close> show that each operation is a task step or quiet, through the
  locales \<open>store_operation\<close> and \<open>quiet_operation\<close>, one interpretation per operation. \<open>Store_Runs\<close> turns the
  operations into data, \<open>perform\<close> and \<open>run_calls\<close>, and defines the stores \<open>reachable\<close> from the empty database.
  \<open>Runner_Properties\<close> does the same for the clients with the locale \<open>runner_relation\<close>. \<open>Outbox_Properties\<close> has
  the locale \<open>numbered_table\<close> for the tables read by page. For the session store, \<open>Session_Effects\<close> states what
  each operation that commits does to the tables; \<open>Session_Steps\<close> makes the operations one inductive relation
  \<open>session_step\<close> and sorts its steps into three kinds of change; \<open>Session_Invariant\<close> shows the invariants of logs,
  commands and streams for the three and lifts them to the reachable stores; \<open>Session_Projections\<close> does so for
  the stored projections and \<open>Session_Growth\<close> for what is never removed.

  \<^bold>\<open>What is shown.\<close>

  \<^item> The task lifecycle: \<open>Task_Properties\<close> (replayable logs, current heads, fencing, attempt bounds,
    append-only tables, contiguous numbering), \<open>Replay_Properties\<close> (a repeated call returns the committed
    record and changes nothing), \<open>Completion_Properties\<close> (events of a completion, its charge on the stored authority),
    \<open>Rework_Properties\<close> (rework and narrowing), \<open>Progress_Properties\<close> (no deadlock, bounded work, well-typed
    work items).
  \<^item> Permission: \<open>Interaction\<close> (what the evaluator allows), \<open>Runtime_Properties\<close> (a provider only runs inside
    the authority; evaluator and store agree), \<open>Registry_Properties\<close> (one provider per capability; bound
    consumers resolve).
  \<^item> Reading and delivering: \<open>Outbox_Properties\<close>, \<open>Delivery_Properties\<close>, \<open>Projection_Properties\<close>,
    \<open>Rebuild_Properties\<close>.
  \<^item> The clients: \<open>Coordinator_Properties\<close> (when a Team is complete), \<open>Runner_Properties\<close> (what a run leaves
    behind and when a provider is reached).
  \<^item> Sessions: \<open>Session_Properties\<close> (verdict of the log validator, projections that never drift, pages, runtime
    streams, one turn per version), \<open>Session_Replays\<close> (repeated turns and reconcile intents), \<open>Session_Delivery\<close>
    (a Team event reaches a session once, across a crash between the two stores), \<open>Session_Faults\<close> (where the
    store breaks its contracts: a Team ahead of its session, a turn completed after the close).
  \<^item> \<open>Sample_Store\<close>, \<open>Sample_Steps\<close>, \<open>Sample_Runtime\<close>, \<open>Sample_Session\<close>: a concrete Team, its stores after a few
    operations, a registry with one provider and a session, evaluated through the model; the theorems with hypotheses are applied there.

  \<^bold>\<open>Parameters.\<close> The record \<open>env\<close> holds what the code takes from outside: one digest function per record class
  (canonical JSON and SHA-256), the digest of a request, and the fault hook of the store, which may raise at any
  named point. The theorems make no assumption on digests beyond what an operation itself checks. Clocks are
  functions from the position of the reading inside an operation to microseconds. The session sink of the
  reconciler (the session store itself in \<open>Session_Delivery\<close>), the providers and the request classes (\<open>runtime_env\<close>) are functions;
  a provider works on a world that includes the database, since other clients may commit while it is awaited.

  \<^bold>\<open>Numbers, loops and bounds.\<close> Python integers are \<open>int\<close>; pydantic's field bounds are \<open>in_range\<close>, \<open>min_length\<close>
  and \<open>max_length\<close>. Strings are lists of characters. No definition uses fuel: the loops over lists are structural,
  and the three others, the ready-list loop of \<open>_require_acyclic\<close> (\<open>kahn_loop\<close>), the paging loop of
  \<open>pending_outbox\<close> (\<open>pending_loop\<close>) and the reader of escaped text (\<open>read_body\<close>), are total by the measures
  proved beside them. A dictionary is an
  association list where Python's insertion order or overwriting matters and a map otherwise.

  \<^bold>\<open>Reachable stores.\<close> \<open>reachable\<close> closes the empty store under every operation of \<open>store_call\<close> with any arguments (all
  write operations but the repair of the current heads, which only rewrites the current-head tables, see
  \<open>Rebuild_Properties\<close>), with one restriction, \<open>admissible\<close>: a rework sends back only tasks that have been attempted. The restriction is
  necessary: \<open>unattempted_rework_corrupts\<close> shows what the code does to a task without events. \<open>session_reachable\<close>
  closes the empty session store under every write operation; a Gateway journal is recorded, and a turn
  completed, with a command of the session named, as the requirement agent does.

  \<^bold>\<open>Not modelled.\<close> Opening the SQLite connection and the JSON text of a record (rows hold the records);
  \<open>static_object_ref\<close> and \<open>schema_ref_for\<close>, which build constants; \<open>CapabilityConsumerFacade\<close>, which forwards
  its arguments; threads and processes (a transaction is atomic, as \<open>BEGIN IMMEDIATE\<close> makes it). Of the Harness,
  the session service only forwards to the session store and the requirement agent; source admission, the records
  of the Factory Graph, the requirement agent and the structured providers are separate components that the two
  stores reach only through the parameters above. The other packages of
  \<open>eval_factory\<close> (dataset factory stages, model gateway, console API, storage, statistics) do not take part in
  the Team runtime or the sessions.
\<close>

end
